(* ===== verification/Prelude.thy ===== *)
theory Prelude
  imports Main "HOL-Library.Word"
begin

section \<open>Prelude: machine words, aborts and byte sequences\<close>

text \<open>
  What every component of the development shares: the names of the machine-integer types of the
  C sources, the result type of a handler that may abort the emulator, little-endian byte
  sequences, and the collections of simplification rules that the component theories extend.
\<close>

unbundle bit_operations_syntax

named_theorems field_consts \<open>definitions of register-field constants\<close>
named_theorems word_bits \<open>bit-level characterisations of the register operations\<close>
named_theorems res_simps \<open>rewrite rules of the abort monad\<close>
named_theorems dev_defs \<open>definitions of device handlers that unfold to register updates\<close>

text \<open>Index ranges such as \<open>[0..<32]\<close> stay folded; a proof by evaluation adds the rule again.\<close>

declare upt_rec_numeral [simp del]

type_synonym u8 = "8 word"
type_synonym u16 = "16 word"
type_synonym u32 = "32 word"
type_synonym u64 = "64 word"

subsection \<open>Handlers that may abort\<close>

text \<open>
  The device models run inside the emulator process. A failed \<open>assert\<close>, an integer division by
  zero and a read through a guest address taken for a host pointer all end (or may end) that
  process, so a handler returns either the reason of the abort or its result. A routine of the
  firmware that follows a null pointer is undefined, and its model returns the same way; so does
  the model of a loop that never ends.
\<close>

datatype abort = AssertionFailed | DivisionByZero | WildHostPointer | NullPointer | Diverges

type_synonym 'a res = "abort + 'a"

definition res_bind :: "'a res \<Rightarrow> ('a \<Rightarrow> 'b res) \<Rightarrow> 'b res" where
  "res_bind r f = (case r of Inl e \<Rightarrow> Inl e | Inr x \<Rightarrow> f x)"

definition assert_that :: "bool \<Rightarrow> 'a res \<Rightarrow> 'a res" where
  "assert_that P r = (if P then r else Inl AssertionFailed)"

definition deref :: "'a option \<Rightarrow> 'a res" where
  "deref p = (case p of None \<Rightarrow> Inl NullPointer | Some v \<Rightarrow> Inr v)"

lemma deref_simps [simp, res_simps]: "deref None = Inl NullPointer" "deref (Some v) = Inr v"
  by (simp_all add: deref_def)

lemma res_bind_Inl [simp, res_simps]: "res_bind (Inl e) f = Inl e"
  by (simp add: res_bind_def)

lemma res_bind_Inr [simp, res_simps]: "res_bind (Inr x) f = f x"
  by (simp add: res_bind_def)

lemma res_bind_eq_Inr_iff:
  "res_bind r f = Inr y \<longleftrightarrow> (\<exists>x. r = Inr x \<and> f x = Inr y)"
  by (cases r) simp_all

lemma res_bind_eq_InrE:
  assumes "res_bind r f = Inr y"
  obtains x where "r = Inr x" and "f x = Inr y"
  using assms by (auto simp: res_bind_eq_Inr_iff)

lemma res_bind_cong [fundef_cong]:
  assumes "r = r'" and "\<And>x. r' = Inr x \<Longrightarrow> f x = f' x"
  shows "res_bind r f = res_bind r' f'"
  unfolding assms(1) using assms(2) by (cases r') simp_all

lemma assert_that_True [simp, res_simps]: "assert_that True r = r"
  by (simp add: assert_that_def)

lemma assert_that_False [simp, res_simps]: "assert_that False r = Inl AssertionFailed"
  by (simp add: assert_that_def)

lemma assert_that_eq_Inr_iff [res_simps]:
  "assert_that P r = Inr y \<longleftrightarrow> P \<and> r = Inr y"
  by (simp add: assert_that_def)

lemma assert_that_is_Inl:
  "assert_that P (Inr x) = Inl e \<longleftrightarrow> \<not> P \<and> e = AssertionFailed"
  by (auto simp: assert_that_def)

subsection \<open>Little-endian byte sequences\<close>

definition le16 :: "u8 \<Rightarrow> u8 \<Rightarrow> u16" where
  "le16 b0 b1 = ucast b0 OR push_bit 8 (ucast b1)"

definition le32 :: "u8 \<Rightarrow> u8 \<Rightarrow> u8 \<Rightarrow> u8 \<Rightarrow> u32" where
  "le32 b0 b1 b2 b3 =
     ucast b0 OR push_bit 8 (ucast b1) OR push_bit 16 (ucast b2) OR push_bit 24 (ucast b3)"

definition bytes16 :: "u16 \<Rightarrow> u8 list" where
  "bytes16 w = [ucast w, ucast (drop_bit 8 w)]"

definition bytes32 :: "u32 \<Rightarrow> u8 list" where
  "bytes32 w = [ucast w, ucast (drop_bit 8 w), ucast (drop_bit 16 w), ucast (drop_bit 24 w)]"

lemma length_bytes16 [simp]: "length (bytes16 w) = 2"
  by (simp add: bytes16_def)

lemma length_bytes32 [simp]: "length (bytes32 w) = 4"
  by (simp add: bytes32_def)

lemma le16_bytes [simp]: "le16 (ucast w) (ucast (drop_bit 8 w)) = w"
  by (rule bit_word_eqI) (auto simp: le16_def bit_simps)

lemma le32_bytes [simp]:
  "le32 (ucast w) (ucast (drop_bit 8 w)) (ucast (drop_bit 16 w)) (ucast (drop_bit 24 w)) = w"
proof (rule bit_word_eqI)
  fix n assume "n < LENGTH(32)"
  then consider "n < 8" | "8 \<le> n" "n < 16" | "16 \<le> n" "n < 24" | "24 \<le> n" "n < 32"
    by force
  then show "bit (le32 (ucast w) (ucast (drop_bit 8 w)) (ucast (drop_bit 16 w))
      (ucast (drop_bit 24 w))) n = bit w n"
    by cases (auto simp: le32_def bit_simps)
qed

subsection \<open>Words as numbers and as sets of bits\<close>

lemma word_eq_0_iff_no_bit: "w = 0 \<longleftrightarrow> (\<forall>n. \<not> bit w n)" for w :: "'a :: len word"
  by (auto intro!: bit_word_eqI)

lemma word_neq_0_iff_bit: "w \<noteq> 0 \<longleftrightarrow> (\<exists>n. bit w n)" for w :: "'a :: len word"
  by (simp add: word_eq_0_iff_no_bit)

lemma unat_add_no_wrap:
  fixes a :: "'a :: len word"
  assumes "unat a + n < 2 ^ LENGTH('a)"
  shows "unat (a + of_nat n) = unat a + n"
  using assms by (simp add: unat_word_ariths unat_of_nat mod_simps)

lemma unat_2_power:
  assumes "z < LENGTH('a)"
  shows "unat (2 ^ z :: 'a :: len word) = 2 ^ z"
proof -
  have "unat (of_nat (2 ^ z) :: 'a word) = 2 ^ z"
    using assms unfolding unat_of_nat by (simp add: take_bit_nat_eq_self del: of_nat_power)
  then show ?thesis by simp
qed

lemma ucast_u8_u32_u64 [simp]: "(ucast (ucast b :: u32) :: u64) = ucast b" for b :: u8
  by (rule bit_word_eqI) (auto simp: bit_simps dest: bit_imp_le_length)

end
