(* ===== verification/Register_Fields.thy ===== *)
theory Register_Fields
  imports Prelude
begin

section \<open>Register fields\<close>

text \<open>
  The bit-field helpers of \<^verbatim>\<open>qemu/include/qemu/bitops.h\<close> and the \<open>FIELD\<close> macros of
  \<^verbatim>\<open>qemu/include/hw/registerfields.h\<close> that both device models are written with. A field is
  the pair of its shift and its length, as the macro \<open>FIELD (reg, field, shift, length)\<close>
  declares it. The helpers assert that the field lies within the word; \<open>field_in\<close> is that
  assertion, and each device theory shows it of every field it declares.
\<close>

type_synonym field = "nat \<times> nat"

definition MAKE_64BIT_MASK :: "nat \<Rightarrow> nat \<Rightarrow> u64" where
  "MAKE_64BIT_MASK shift len = push_bit shift (drop_bit (64 - len) (NOT 0))"

definition field_in :: "nat \<Rightarrow> field \<Rightarrow> bool" where
  "field_in w f \<longleftrightarrow> 0 < snd f \<and> snd f \<le> w - fst f"

text \<open>
  Each helper is its assertion followed by its value; the value alone (\<open>extract32_val\<close>,
  \<open>deposit32_val\<close>) is what the macros below use, because their field is a constant of the source.
\<close>

definition extract32_val :: "u32 \<Rightarrow> nat \<Rightarrow> nat \<Rightarrow> u32" where
  "extract32_val v start len = drop_bit start v AND drop_bit (32 - len) (NOT 0)"

definition extract32 :: "u32 \<Rightarrow> nat \<Rightarrow> nat \<Rightarrow> u32 res" where
  "extract32 v start len = assert_that (field_in 32 (start, len)) (Inr (extract32_val v start len))"

definition extract16_val :: "u16 \<Rightarrow> nat \<Rightarrow> nat \<Rightarrow> u16" where
  "extract16_val v start len = ucast (extract32_val (ucast v) start len)"

definition extract16 :: "u16 \<Rightarrow> nat \<Rightarrow> nat \<Rightarrow> u16 res" where
  "extract16 v start len =
     assert_that (field_in 16 (start, len))
       (res_bind (extract32 (ucast v) start len) (\<lambda>w. Inr (ucast w)))"

definition deposit32_val :: "u32 \<Rightarrow> nat \<Rightarrow> nat \<Rightarrow> u32 \<Rightarrow> u32" where
  "deposit32_val v start len fieldval =
     (let mask = push_bit start (drop_bit (32 - len) (NOT 0))
      in (v AND NOT mask) OR (push_bit start fieldval AND mask))"

definition deposit32 :: "u32 \<Rightarrow> nat \<Rightarrow> nat \<Rightarrow> u32 \<Rightarrow> u32 res" where
  "deposit32 v start len fieldval =
     assert_that (field_in 32 (start, len)) (Inr (deposit32_val v start len fieldval))"

definition R_MASK :: "field \<Rightarrow> 'a :: len word" where
  "R_MASK f = ucast (MAKE_64BIT_MASK (fst f) (snd f))"

definition FIELD_EX32 :: "u32 \<Rightarrow> field \<Rightarrow> u32" where
  "FIELD_EX32 storage f = extract32_val storage (fst f) (snd f)"

definition FIELD_EX16 :: "u16 \<Rightarrow> field \<Rightarrow> u16" where
  "FIELD_EX16 storage f = extract16_val storage (fst f) (snd f)"

text \<open>The C macro first stores the value in a bit-field of the field's length, which truncates it.\<close>

definition FIELD_DP16 :: "u16 \<Rightarrow> field \<Rightarrow> u32 \<Rightarrow> u16" where
  "FIELD_DP16 storage f val =
     ucast (deposit32_val (ucast storage) (fst f) (snd f) (take_bit (snd f) val))"

subsection \<open>Bit-level characterisations\<close>

lemma bit_MAKE_64BIT_MASK [word_bits]:
  assumes "0 < l" and "s + l \<le> 64"
  shows "bit (MAKE_64BIT_MASK s l) n \<longleftrightarrow> s \<le> n \<and> n < s + l"
  using assms by (auto simp: MAKE_64BIT_MASK_def bit_simps)

lemma bit_R_MASK [word_bits]:
  fixes f :: field
  assumes "field_in 64 f"
  shows "bit (R_MASK f :: 'a :: len word) n \<longleftrightarrow> n < LENGTH('a) \<and> fst f \<le> n \<and> n < fst f + snd f"
  using assms by (cases f) (auto simp: R_MASK_def field_in_def bit_simps bit_MAKE_64BIT_MASK)

lemma extract32_eq:
  assumes "0 < l" and "s + l \<le> 32"
  shows "extract32_val v s l = take_bit l (drop_bit s v)"
  using assms by (auto intro!: bit_word_eqI simp: extract32_val_def bit_simps)

lemma bit_extract32 [word_bits]:
  assumes "0 < l" and "s + l \<le> 32"
  shows "bit (extract32_val v s l) n \<longleftrightarrow> n < l \<and> bit v (s + n)"
  using assms by (simp add: extract32_eq bit_simps)

lemma bit_deposit32 [word_bits]:
  assumes "0 < l" and "s + l \<le> 32"
  shows "bit (deposit32_val v s l x) n \<longleftrightarrow> (if s \<le> n \<and> n < s + l then bit x (n - s) else bit v n)"
  using assms by (auto simp: deposit32_val_def Let_def bit_simps dest: bit_imp_le_length)

lemma bit_FIELD_EX32 [word_bits]:
  "field_in 32 f \<Longrightarrow> bit (FIELD_EX32 v f) n \<longleftrightarrow> n < snd f \<and> bit v (fst f + n)"
  by (auto simp: FIELD_EX32_def field_in_def bit_extract32)

lemma bit_FIELD_EX16 [word_bits]:
  "field_in 16 f \<Longrightarrow> bit (FIELD_EX16 v f) n \<longleftrightarrow> n < snd f \<and> bit v (fst f + n)"
  by (auto simp: FIELD_EX16_def extract16_val_def field_in_def bit_simps bit_extract32
      dest: bit_imp_le_length)

lemma bit_FIELD_DP16 [word_bits]:
  "field_in 16 f \<Longrightarrow> bit (FIELD_DP16 v f x) n \<longleftrightarrow>
     n < 16 \<and> (if fst f \<le> n \<and> n < fst f + snd f then bit x (n - fst f) else bit v n)"
  by (auto simp: FIELD_DP16_def field_in_def bit_simps bit_deposit32)

text \<open>On a field within the word the asserting helpers return these values.\<close>

lemma extract32_field: "field_in 32 f \<Longrightarrow> extract32 v (fst f) (snd f) = Inr (FIELD_EX32 v f)"
  by (simp add: extract32_def FIELD_EX32_def)

lemma extract16_field: "field_in 16 f \<Longrightarrow> extract16 v (fst f) (snd f) = Inr (FIELD_EX16 v f)"
proof -
  assume f: "field_in 16 f"
  then have "field_in 32 f" by (auto simp: field_in_def)
  with f show ?thesis by (simp add: extract16_def extract32_def FIELD_EX16_def extract16_val_def)
qed

text \<open>Depositing a field and extracting it again gives the value cut to the field's length.\<close>

lemma FIELD_EX16_DP16:
  "field_in 16 f \<Longrightarrow> FIELD_EX16 (FIELD_DP16 v f x) f = ucast (take_bit (snd f) x)"
  by (rule bit_word_eqI) (auto simp: bit_FIELD_EX16 bit_FIELD_DP16 field_in_def bit_simps)

lemma FIELD_EX16_DP16_other:
  assumes "field_in 16 f" and "field_in 16 g"
    and "fst f + snd f \<le> fst g \<or> fst g + snd g \<le> fst f"
  shows "FIELD_EX16 (FIELD_DP16 v f x) g = FIELD_EX16 v g"
  using assms
  by (auto intro!: bit_word_eqI simp: bit_FIELD_EX16 bit_FIELD_DP16 field_in_def)

text \<open>A one-bit field is set exactly when the mask of the field meets the word.\<close>

lemma FIELD_EX32_one_bit:
  assumes "field_in 32 (s, 1)"
  shows "FIELD_EX32 v (s, 1) \<noteq> 0 \<longleftrightarrow> bit v s"
  using assms by (auto simp: word_neq_0_iff_bit bit_FIELD_EX32)

lemma FIELD_EX16_one_bit:
  assumes "field_in 16 (s, 1)"
  shows "FIELD_EX16 v (s, 1) \<noteq> 0 \<longleftrightarrow> bit v s"
  using assms by (auto simp: word_neq_0_iff_bit bit_FIELD_EX16)

lemma and_R_MASK_one_bit:
  fixes v :: "'a :: len word"
  assumes "field_in 64 (s, 1)"
  shows "v AND R_MASK (s, 1) \<noteq> 0 \<longleftrightarrow> bit v s"
  using assms
  by (auto simp: word_neq_0_iff_bit bit_and_iff bit_R_MASK le_less_Suc_eq dest: bit_imp_le_length)

end
