(* ===== verification/Phys_Mem.thy ===== *)
theory Phys_Mem
  imports Prelude
begin

section \<open>Physical memory accesses of a bus master\<close>

text \<open>
  The path of \<open>cpu_physical_memory_read\<close> and \<open>cpu_physical_memory_write\<close>, through which the
  eDMA model moves its data: \<^verbatim>\<open>qemu/system/physmem.c\<close> (\<open>flatview_read\<close>, \<open>flatview_write\<close>,
  their loops and steps, \<open>memory_access_size\<close>, \<open>address_space_translate_internal\<close>) and the
  dispatch to a region of \<^verbatim>\<open>qemu/system/memory.c\<close>. A flat view is the list of the regions
  rendered in it, highest priority first, so that the first region that covers an address is the
  one visible there; no region of higher priority cuts into a RAM or ROM region of the board, so
  the range of the flat view that holds a RAM address is the whole rest of its region. The machine
  is the contents of RAM and ROM by physical address and the state \<open>'d\<close> of the devices behind the
  I/O regions.

  The interface a bus master sees is the record \<open>bus\<close>; the locale \<open>ram_bus\<close> states what a
  bus promises on ordinary memory, and \<open>phys_bus_ram_bus\<close> at the end of the theory shows that the
  loops above keep that promise on every flat view.
\<close>

subsection \<open>The bus interface\<close>

record 'm bus =
  bus_read :: "nat \<Rightarrow> nat \<Rightarrow> 'm \<Rightarrow> (u8 list \<times> 'm) res"
  bus_write :: "nat \<Rightarrow> u8 list \<Rightarrow> 'm \<Rightarrow> 'm res"

locale ram_bus =
  fixes B :: "'m bus"
    and peek :: "'m \<Rightarrow> nat \<Rightarrow> u8"
    and rest :: "'m \<Rightarrow> 'r"
    and readable :: "nat \<Rightarrow> bool"
    and writable :: "nat \<Rightarrow> bool"
  assumes read_ram:
      "(\<And>x. a \<le> x \<Longrightarrow> x < a + n \<Longrightarrow> readable x) \<Longrightarrow>
       bus_read B a n m = Inr (map (peek m) [a..<a + n], m)"
    and write_ram:
      "(\<And>x. a \<le> x \<Longrightarrow> x < a + length bs \<Longrightarrow> writable x) \<Longrightarrow>
       \<exists>m'. bus_write B a bs m = Inr m' \<and> rest m' = rest m \<and>
         (\<forall>x. peek m' x = (if a \<le> x \<and> x < a + length bs then bs ! (x - a) else peek m x))"
begin

text \<open>One word moved: the source bytes land at the destination and nothing else changes.\<close>

lemma read_write_word:
  assumes "\<And>x. s \<le> x \<Longrightarrow> x < s + n \<Longrightarrow> readable x"
    and "\<And>x. d \<le> x \<Longrightarrow> x < d + n \<Longrightarrow> writable x"
  shows "\<exists>bs m'. bus_read B s n m = Inr (bs, m) \<and> length bs = n \<and>
     bus_write B d bs m = Inr m' \<and> rest m' = rest m \<and>
     (\<forall>x. peek m' x = (if d \<le> x \<and> x < d + n then peek m (s + (x - d)) else peek m x))"
proof -
  have r: "bus_read B s n m = Inr (map (peek m) [s..<s + n], m)"
    using assms(1) by (rule read_ram)
  have "\<exists>m'. bus_write B d (map (peek m) [s..<s + n]) m = Inr m' \<and> rest m' = rest m \<and>
     (\<forall>x. peek m' x = (if d \<le> x \<and> x < d + length (map (peek m) [s..<s + n])
        then map (peek m) [s..<s + n] ! (x - d) else peek m x))"
    using assms(2) by (intro write_ram) simp
  then obtain m' where m': "bus_write B d (map (peek m) [s..<s + n]) m = Inr m'" "rest m' = rest m"
    and p: "\<And>x. peek m' x = (if d \<le> x \<and> x < d + length (map (peek m) [s..<s + n])
        then map (peek m) [s..<s + n] ! (x - d) else peek m x)"
    by blast
  have "peek m' x = (if d \<le> x \<and> x < d + n then peek m (s + (x - d)) else peek m x)" for x
  proof (cases "d \<le> x \<and> x < d + n")
    case True
    then have "x - d < n" by linarith
    with True show ?thesis by (simp add: p)
  next
    case False
    then show ?thesis by (auto simp: p)
  qed
  with r m' show ?thesis by (intro exI[of _ "map (peek m) [s..<s + n]"] exI[of _ m']) simp
qed

end

subsection \<open>Regions and flat views\<close>

text \<open>
  The I/O handlers take the offset in the region and the access size. \<open>Unassigned\<close> is the
  region QEMU resolves every other address to: it accepts no access, reads as 0 and ignores writes.
\<close>

datatype 'd mr_kind =
    Ram
  | Rom
  | Io (io_read: "nat \<Rightarrow> nat \<Rightarrow> 'd \<Rightarrow> (u64 \<times> 'd) res")
       (io_write: "nat \<Rightarrow> u64 \<Rightarrow> nat \<Rightarrow> 'd \<Rightarrow> 'd res")
  | Unassigned

record 'd mem_region =
  mr_base :: nat
  mr_size :: nat
  mr_valid_max :: nat
  mr_kind :: "'d mr_kind"

type_synonym 'd flatview = "'d mem_region list"

record 'd machine =
  mem :: "nat \<Rightarrow> u8"
  dev :: 'd

definition region_covers :: "nat \<Rightarrow> 'd mem_region \<Rightarrow> bool" where
  "region_covers a r \<longleftrightarrow> mr_base r \<le> a \<and> a < mr_base r + mr_size r"

definition unassigned_region :: "'d mem_region" where
  "unassigned_region = \<lparr>mr_base = 0, mr_size = 2 ^ 64, mr_valid_max = 0, mr_kind = Unassigned\<rparr>"

definition lookup_region :: "'d flatview \<Rightarrow> nat \<Rightarrow> 'd mem_region" where
  "lookup_region fv a = (case find (region_covers a) fv of None \<Rightarrow> unassigned_region | Some r \<Rightarrow> r)"

definition is_ram :: "'d mem_region \<Rightarrow> bool" where
  "is_ram r = (case mr_kind r of Ram \<Rightarrow> True | Rom \<Rightarrow> True | Io _ _ \<Rightarrow> False | Unassigned \<Rightarrow> False)"

definition memory_access_is_direct :: "'d mem_region \<Rightarrow> bool \<Rightarrow> bool" where
  "memory_access_is_direct r is_write =
     (if is_write then is_ram r \<and> mr_kind r \<noteq> Rom else is_ram r)"

text \<open>Only a RAM-backed region clips the length of the access to its end.\<close>

definition translate :: "'d flatview \<Rightarrow> nat \<Rightarrow> nat \<Rightarrow> 'd mem_region \<times> nat \<times> nat" where
  "translate fv addr plen =
     (let r = lookup_region fv addr; off = addr - mr_base r
      in (r, off, if is_ram r then min (mr_size r - off) plen else plen))"

fun pow2floor :: "nat \<Rightarrow> nat" where
  "pow2floor n = (if n = 0 then 0 else if n = 1 then 1 else 2 * pow2floor (n div 2))"

declare pow2floor.simps [simp del]

definition memory_access_size :: "'d mem_region \<Rightarrow> nat \<Rightarrow> nat \<Rightarrow> nat" where
  "memory_access_size r l addr =
     (let access_size_max = (if mr_valid_max r = 0 then 4 else mr_valid_max r);
          align_size_max = unat ((of_nat addr :: u32) AND - of_nat addr);
          access_size_max = (if align_size_max \<noteq> 0 \<and> align_size_max < access_size_max
                             then align_size_max else access_size_max)
      in pow2floor (min l access_size_max))"

subsection \<open>Dispatch to a region\<close>

definition le_bytes :: "nat \<Rightarrow> u64 \<Rightarrow> u8 list" where
  "le_bytes n v = map (\<lambda>i. ucast (drop_bit (8 * i) v)) [0..<n]"

fun le_val :: "u8 list \<Rightarrow> u64" where
  "le_val [] = 0"
| "le_val (b # bs) = ucast b OR push_bit 8 (le_val bs)"

definition memory_region_dispatch_read ::
    "'d mem_region \<Rightarrow> nat \<Rightarrow> nat \<Rightarrow> 'd \<Rightarrow> (u64 \<times> 'd) res" where
  "memory_region_dispatch_read r addr sz d =
     (case mr_kind r of
        Io rd wr \<Rightarrow> res_bind (rd addr sz d) (\<lambda>(v, d'). Inr (take_bit (8 * sz) v, d'))
      | _ \<Rightarrow> Inr (0, d))"

definition memory_region_dispatch_write ::
    "'d mem_region \<Rightarrow> nat \<Rightarrow> u64 \<Rightarrow> nat \<Rightarrow> 'd \<Rightarrow> 'd res" where
  "memory_region_dispatch_write r addr val sz d =
     (case mr_kind r of
        Io rd wr \<Rightarrow> wr addr (take_bit (8 * sz) val) sz d
      | _ \<Rightarrow> Inr d)"

subsection \<open>The access loops\<close>

lemma pow2floor_pos: "0 < n \<Longrightarrow> 0 < pow2floor n"
proof (induction n rule: pow2floor.induct)
  case (1 n)
  then show ?case by (subst pow2floor.simps) auto
qed

lemma pow2floor_le: "pow2floor n \<le> n"
proof (induction n rule: pow2floor.induct)
  case (1 n)
  show ?case
  proof (cases "n \<le> 1")
    case True
    then show ?thesis by (subst pow2floor.simps) auto
  next
    case False
    with 1 have "pow2floor (n div 2) \<le> n div 2" by simp
    then have "2 * pow2floor (n div 2) \<le> n" by linarith
    with False show ?thesis by (subst pow2floor.simps) simp
  qed
qed

lemma memory_access_size_bounds:
  assumes "0 < l"
  shows "0 < memory_access_size r l a" and "memory_access_size r l a \<le> l"
proof -
  have "pow2floor (min l k) \<le> l" for k
    using pow2floor_le[of "min l k"] by simp
  then show "memory_access_size r l a \<le> l"
    by (simp add: memory_access_size_def Let_def)
  show "0 < memory_access_size r l a"
    using assms by (auto simp: memory_access_size_def Let_def intro!: pow2floor_pos)
qed

definition flatview_read_continue_step ::
    "'d mem_region \<Rightarrow> nat \<Rightarrow> nat \<Rightarrow> nat \<Rightarrow> 'd machine \<Rightarrow> (u8 list \<times> nat \<times> 'd machine) res" where
  "flatview_read_continue_step r addr mr_addr l m =
     (if memory_access_is_direct r False then Inr (map (mem m) [addr..<addr + l], l, m)
      else let l' = memory_access_size r l mr_addr in
        res_bind (memory_region_dispatch_read r mr_addr l' (dev m))
          (\<lambda>(v, d'). Inr (le_bytes l' v, l', m\<lparr>dev := d'\<rparr>)))"

definition flatview_write_continue_step ::
    "'d mem_region \<Rightarrow> nat \<Rightarrow> nat \<Rightarrow> nat \<Rightarrow> u8 list \<Rightarrow> 'd machine \<Rightarrow> (nat \<times> 'd machine) res" where
  "flatview_write_continue_step r addr mr_addr l buf m =
     (if memory_access_is_direct r True
      then Inr (l, m\<lparr>mem := (\<lambda>x. if addr \<le> x \<and> x < addr + l then buf ! (x - addr) else mem m x)\<rparr>)
      else let l' = memory_access_size r l mr_addr in
        res_bind (memory_region_dispatch_write r mr_addr (le_val (take l' buf)) l' (dev m))
          (\<lambda>d'. Inr (l', m\<lparr>dev := d'\<rparr>)))"

lemma lookup_region_covers: "is_ram (lookup_region fv a) \<Longrightarrow> region_covers a (lookup_region fv a)"
proof (cases "find (region_covers a) fv")
  case None
  then show "is_ram (lookup_region fv a) \<Longrightarrow> ?thesis"
    by (simp add: lookup_region_def unassigned_region_def is_ram_def)
next
  case (Some r)
  then have "region_covers a r" by (auto simp: find_Some_iff)
  with Some show ?thesis by (simp add: lookup_region_def)
qed

lemma translate_len:
  assumes "translate fv a n = (r, off, l)" and "0 < n"
  shows "0 < l" and "l \<le> n" and "r = lookup_region fv a" and "off = a - mr_base r"
    and "is_ram r \<Longrightarrow> a + l \<le> mr_base r + mr_size r"
  using assms lookup_region_covers[of fv a]
  by (auto simp: translate_def Let_def region_covers_def split: if_splits)

lemma read_step_len:
  assumes "flatview_read_continue_step r a off l m = Inr (bs, l', m')" and "0 < l"
  shows "0 < l'" and "l' \<le> l"
  using assms memory_access_size_bounds[of l r off]
  by (auto simp: flatview_read_continue_step_def Let_def res_bind_eq_Inr_iff split: if_splits)

lemma write_step_len:
  assumes "flatview_write_continue_step r a off l buf m = Inr (l', m')" and "0 < l"
  shows "0 < l'" and "l' \<le> l"
  using assms memory_access_size_bounds[of l r off]
  by (auto simp: flatview_write_continue_step_def Let_def res_bind_eq_Inr_iff split: if_splits)

function phys_read :: "'d flatview \<Rightarrow> nat \<Rightarrow> nat \<Rightarrow> 'd machine \<Rightarrow> (u8 list \<times> 'd machine) res" where
  "phys_read fv addr n m =
     (if n = 0 then Inr ([], m)
      else case translate fv addr n of (r, mr_addr, l) \<Rightarrow>
        res_bind (flatview_read_continue_step r addr mr_addr l m) (\<lambda>(bs, l', m').
          res_bind (phys_read fv (addr + l') (n - l') m') (\<lambda>(bs', m''). Inr (bs @ bs', m''))))"
  by pat_completeness auto
termination
  by (relation "measure (\<lambda>(fv, addr, n, m). n)") (auto dest!: sym[of _ "translate _ _ _"] dest: translate_len(1) read_step_len(1))

function phys_write :: "'d flatview \<Rightarrow> nat \<Rightarrow> u8 list \<Rightarrow> 'd machine \<Rightarrow> 'd machine res" where
  "phys_write fv addr buf m =
     (if buf = [] then Inr m
      else case translate fv addr (length buf) of (r, mr_addr, l) \<Rightarrow>
        res_bind (flatview_write_continue_step r addr mr_addr l buf m) (\<lambda>(l', m').
          phys_write fv (addr + l') (drop l' buf) m'))"
  by pat_completeness auto
termination
  by (relation "measure (\<lambda>(fv, addr, buf, m). length buf)")
    (auto dest!: sym[of _ "translate _ _ _"] dest: translate_len(1) write_step_len(1))

declare phys_read.simps [simp del] phys_write.simps [simp del]

definition phys_bus :: "'d flatview \<Rightarrow> 'd machine bus" where
  "phys_bus fv = \<lparr>bus_read = phys_read fv, bus_write = phys_write fv\<rparr>"

subsection \<open>Ordinary memory\<close>

text \<open>
  On RAM (and, for reads, ROM) the loops reduce to one block copy, however many regions the block
  spans, and no device sees the access.
\<close>

definition readable_at :: "'d flatview \<Rightarrow> nat \<Rightarrow> bool" where
  "readable_at fv a \<longleftrightarrow> is_ram (lookup_region fv a)"

definition writable_at :: "'d flatview \<Rightarrow> nat \<Rightarrow> bool" where
  "writable_at fv a \<longleftrightarrow> mr_kind (lookup_region fv a) = Ram"

lemma writable_imp_readable: "writable_at fv a \<Longrightarrow> readable_at fv a"
  by (simp add: writable_at_def readable_at_def is_ram_def)

lemma phys_read_ram:
  "(\<And>x. a \<le> x \<Longrightarrow> x < a + n \<Longrightarrow> readable_at fv x) \<Longrightarrow>
   phys_read fv a n m = Inr (map (mem m) [a..<a + n], m)"
proof (induction n arbitrary: a rule: less_induct)
  case (less n)
  show ?case
  proof (cases "n = 0")
    case True
    then show ?thesis by (simp add: phys_read.simps)
  next
    case False
    obtain r off l where t: "translate fv a n = (r, off, l)" by (metis prod_cases3)
    have l: "0 < l" "l \<le> n" and r: "r = lookup_region fv a"
      using translate_len[OF t] False by auto
    have "is_ram r" using less.prems[of a] False by (simp add: r readable_at_def)
    then have s: "flatview_read_continue_step r a off l m = Inr (map (mem m) [a..<a + l], l, m)"
      by (simp add: flatview_read_continue_step_def memory_access_is_direct_def)
    have "phys_read fv (a + l) (n - l) m = Inr (map (mem m) [a + l..<a + l + (n - l)], m)"
      using l less.prems by (intro less.IH) auto
    moreover have "[a..<a + n] = [a..<a + l] @ [a + l..<a + n]"
      using upt_add_eq_append[of a "a + l" "n - l"] l by simp
    ultimately show ?thesis
      using False l by (simp add: phys_read.simps[of fv a n m] t s)
  qed
qed

lemma phys_write_ram:
  "(\<And>x. a \<le> x \<Longrightarrow> x < a + length bs \<Longrightarrow> writable_at fv x) \<Longrightarrow>
   phys_write fv a bs m =
     Inr (m\<lparr>mem := \<lambda>x. if a \<le> x \<and> x < a + length bs then bs ! (x - a) else mem m x\<rparr>)"
proof (induction "length bs" arbitrary: a bs m rule: less_induct)
  case less
  show ?case
  proof (cases "bs = []")
    case True
    have "(\<lambda>x. if a \<le> x \<and> x < a then bs ! (x - a) else mem m x) = mem m"
      by (auto intro!: ext)
    with True show ?thesis by (simp add: phys_write.simps)
  next
    case False
    obtain r off l where t: "translate fv a (length bs) = (r, off, l)" by (metis prod_cases3)
    have l: "0 < l" "l \<le> length bs" and r: "r = lookup_region fv a"
      using translate_len[OF t] False by auto
    have "mr_kind r = Ram" using less.prems[of a] False by (simp add: r writable_at_def)
    then have s: "flatview_write_continue_step r a off l bs m =
        Inr (l, m\<lparr>mem := \<lambda>x. if a \<le> x \<and> x < a + l then bs ! (x - a) else mem m x\<rparr>)"
      by (simp add: flatview_write_continue_step_def memory_access_is_direct_def is_ram_def)
    let ?m = "m\<lparr>mem := \<lambda>x. if a \<le> x \<and> x < a + l then bs ! (x - a) else mem m x\<rparr>"
    have "phys_write fv (a + l) (drop l bs) ?m =
        Inr (?m\<lparr>mem := \<lambda>x. if a + l \<le> x \<and> x < a + l + length (drop l bs)
          then drop l bs ! (x - (a + l)) else mem ?m x\<rparr>)"
      using l less.prems by (intro less.hyps) auto
    moreover have "?m\<lparr>mem := \<lambda>x. if a + l \<le> x \<and> x < a + l + length (drop l bs)
          then drop l bs ! (x - (a + l)) else mem ?m x\<rparr> =
        m\<lparr>mem := \<lambda>x. if a \<le> x \<and> x < a + length bs then bs ! (x - a) else mem m x\<rparr>"
      using l by (intro machine.equality) (auto intro!: ext)
    ultimately show ?thesis
      using False by (simp add: phys_write.simps[of fv a bs m] t s del: length_drop)
  qed
qed

text \<open>So every flat view is a memory bus on its RAM and ROM.\<close>

interpretation pm: ram_bus "phys_bus fv" mem dev "readable_at fv" "writable_at fv" for fv
  by unfold_locales (simp_all add: phys_bus_def phys_read_ram phys_write_ram)

end
