(* ===== verification/Edma.thy ===== *)
theory Edma
  imports Register_Fields Phys_Mem
begin

section \<open>The eDMA controller\<close>

text \<open>
  The device model \<^verbatim>\<open>qemu/hw/dma/nxps32k358_edma.c\<close> with its headers
  \<^verbatim>\<open>nxps32k358_edma.h\<close> and \<^verbatim>\<open>nxps32k358_tcd.h\<close>: the state of the 32 transfer control
  descriptors and of the global registers, the register read and write handlers, the interrupt
  update, round-robin arbitration and the transfer itself. The data moves over a \<open>bus\<close> of
  theory \<open>Phys_Mem\<close>; the interrupt line of a channel is the field \<open>irq\<close>; the local array
  \<open>buf\<close> of the transfer, which the C code does not initialise, is the argument \<open>buf\<close>. The
  function-static variable \<open>offset\<close> of the arbiter is the field \<open>arb_offset\<close>.
\<close>

subsection \<open>Registers and fields\<close>

datatype tcd_reg =
    CH_CSR | CH_ES | CH_INT | CH_SBR | CH_PRI
  | TCD_SADDR | TCD_SOFF | TCD_ATTR | TCD_NBYTES_MLOFF | TCD_SLAST_SDA
  | TCD_DADDR | TCD_DOFF | TCD_CITER | TCD_DLAST_SGA | TCD_CSR | TCD_BITER

fun A_TCD :: "tcd_reg \<Rightarrow> nat" where
  "A_TCD CH_CSR = 0x0"
| "A_TCD CH_ES = 0x4"
| "A_TCD CH_INT = 0x8"
| "A_TCD CH_SBR = 0xC"
| "A_TCD CH_PRI = 0x10"
| "A_TCD TCD_SADDR = 0x20"
| "A_TCD TCD_SOFF = 0x24"
| "A_TCD TCD_ATTR = 0x26"
| "A_TCD TCD_NBYTES_MLOFF = 0x28"
| "A_TCD TCD_SLAST_SDA = 0x2C"
| "A_TCD TCD_DADDR = 0x30"
| "A_TCD TCD_DOFF = 0x34"
| "A_TCD TCD_CITER = 0x36"
| "A_TCD TCD_DLAST_SGA = 0x38"
| "A_TCD TCD_CSR = 0x3C"
| "A_TCD TCD_BITER = 0x3E"

declare A_TCD.simps [simp del, field_consts]

definition tcd_regs :: "tcd_reg list" where
  "tcd_regs = [CH_CSR, CH_ES, CH_INT, CH_SBR, CH_PRI, TCD_SADDR, TCD_SOFF, TCD_ATTR,
     TCD_NBYTES_MLOFF, TCD_SLAST_SDA, TCD_DADDR, TCD_DOFF, TCD_CITER, TCD_DLAST_SGA, TCD_CSR,
     TCD_BITER]"

text \<open>The register a \<open>switch (offset)\<close> selects; \<open>None\<close> is its default branch.\<close>

definition tcd_reg_at :: "nat \<Rightarrow> tcd_reg option" where
  "tcd_reg_at offset = find (\<lambda>r. A_TCD r = offset) tcd_regs"

datatype tcd_field =
    CH_CSR_EEI | CH_CSR_DONE | CH_CSR_ACTIVE | CH_ES_ERR | CH_INT_INT
  | TCD_ATTR_SSIZE | TCD_ATTR_DSIZE
  | TCD_NBYTES_MLOFF_NBYTES | TCD_NBYTES_MLOFF_DMLOE | TCD_NBYTES_MLOFF_SMLOE
  | TCD_SLAST_SDA_SLAST_SDA | TCD_CITER_ELINK | TCD_CITER_CITER | TCD_DLAST_SGA_DLAST_SGA
  | TCD_CSR_START | TCD_CSR_INTMAJOR | TCD_CSR_INTHALF | TCD_CSR_ESG | TCD_CSR_ESDA
  | TCD_CSR_MAJORELINK | TCD_BITER_ELINK | TCD_BITER_BITER

fun fld :: "tcd_field \<Rightarrow> field" where
  "fld CH_CSR_EEI = (2, 1)"
| "fld CH_CSR_DONE = (30, 1)"
| "fld CH_CSR_ACTIVE = (31, 1)"
| "fld CH_ES_ERR = (31, 1)"
| "fld CH_INT_INT = (0, 1)"
| "fld TCD_ATTR_SSIZE = (8, 3)"
| "fld TCD_ATTR_DSIZE = (0, 3)"
| "fld TCD_NBYTES_MLOFF_NBYTES = (0, 30)"
| "fld TCD_NBYTES_MLOFF_DMLOE = (30, 1)"
| "fld TCD_NBYTES_MLOFF_SMLOE = (31, 1)"
| "fld TCD_SLAST_SDA_SLAST_SDA = (0, 32)"
| "fld TCD_CITER_ELINK = (15, 1)"
| "fld TCD_CITER_CITER = (0, 15)"
| "fld TCD_DLAST_SGA_DLAST_SGA = (0, 32)"
| "fld TCD_CSR_START = (0, 1)"
| "fld TCD_CSR_INTMAJOR = (1, 1)"
| "fld TCD_CSR_INTHALF = (2, 1)"
| "fld TCD_CSR_ESG = (4, 1)"
| "fld TCD_CSR_ESDA = (7, 1)"
| "fld TCD_CSR_MAJORELINK = (5, 1)"
| "fld TCD_BITER_ELINK = (15, 1)"
| "fld TCD_BITER_BITER = (0, 15)"

declare fld.simps [simp del, field_consts]

datatype edma_reg = EDMA_CSR | EDMA_ES | EDMA_INT | EDMA_HRS

fun A_EDMA :: "edma_reg \<Rightarrow> nat" where
  "A_EDMA EDMA_CSR = 0x00"
| "A_EDMA EDMA_ES = 0x04"
| "A_EDMA EDMA_INT = 0x08"
| "A_EDMA EDMA_HRS = 0x0C"

definition edma_reg_at :: "nat \<Rightarrow> edma_reg option" where
  "edma_reg_at offset = find (\<lambda>r. A_EDMA r = offset) [EDMA_CSR, EDMA_ES, EDMA_INT, EDMA_HRS]"

definition A_EDMA_CHN_GRPRI :: "nat \<Rightarrow> nat" where
  "A_EDMA_CHN_GRPRI n = 0x100 + 4 * n"

abbreviation (input) EDMA_CHANNELS :: nat where
  "EDMA_CHANNELS \<equiv> 32"

subsection \<open>State\<close>

record tcd_state =
  ch_csr :: u32
  ch_es :: u32
  ch_int :: u32
  ch_sbr :: u32
  ch_pri :: u32
  tcd_saddr :: u32
  tcd_soff :: u16
  tcd_attr :: u16
  tcd_nbytes_mloff :: u32
  tcd_slast_sda :: u32
  tcd_daddr :: u32
  tcd_doff :: u16
  tcd_citer :: u16
  tcd_dlast_sga :: u32
  tcd_csr :: u16
  tcd_biter :: u16
  irq :: bool

record edma_state =
  edma_csr :: u32
  edma_es :: u32
  edma_int :: u32
  edma_hrs :: u32
  edma_chn_grpri :: "u32 list"
  tcd :: "tcd_state list"
  arb_offset :: nat

definition set_tcd :: "edma_state \<Rightarrow> nat \<Rightarrow> tcd_state \<Rightarrow> edma_state" where
  "set_tcd s n ch = s\<lparr>tcd := (tcd s)[n := ch]\<rparr>"

definition citer_of :: "tcd_state \<Rightarrow> u16" where
  "citer_of ch = FIELD_EX16 (tcd_citer ch) (fld TCD_CITER_CITER)"

definition biter_of :: "tcd_state \<Rightarrow> u16" where
  "biter_of ch = FIELD_EX16 (tcd_biter ch) (fld TCD_BITER_BITER)"

definition csr_flag :: "tcd_state \<Rightarrow> tcd_field \<Rightarrow> bool" where
  "csr_flag ch f \<longleftrightarrow> FIELD_EX32 (ucast (tcd_csr ch)) (fld f) \<noteq> 0"

subsection \<open>Interrupt update\<close>

definition edma_tcd_update_irq :: "edma_state \<Rightarrow> nat \<Rightarrow> edma_state" where
  "edma_tcd_update_irq s tcd_no =
     (let ch = tcd s ! tcd_no;
          ch = (if csr_flag ch TCD_CSR_INTHALF \<and> citer_of ch \<ge> biter_of ch div 2
                then ch\<lparr>ch_int := ch_int ch OR R_MASK (fld CH_INT_INT)\<rparr> else ch);
          ch = (if csr_flag ch TCD_CSR_INTMAJOR \<and> citer_of ch = 0
                then ch\<lparr>ch_int := ch_int ch OR R_MASK (fld CH_INT_INT)\<rparr> else ch)
      in if ch_int ch AND R_MASK (fld CH_INT_INT) \<noteq> 0
         then (set_tcd s tcd_no (ch\<lparr>irq := True\<rparr>))\<lparr>edma_int := edma_int s OR push_bit tcd_no 1\<rparr>
         else (set_tcd s tcd_no (ch\<lparr>irq := False\<rparr>))
                \<lparr>edma_int := edma_int s AND NOT (push_bit tcd_no 1)\<rparr>)"

subsection \<open>Transfer\<close>

text \<open>
  One read (write) phase of the minor loop: \<open>k\<close> accesses of \<open>n\<close> bytes. Every read fills the
  buffer from its start, and every write takes its bytes from the start of the buffer. The source
  offset is an \<open>int16_t\<close> and is sign-extended; the destination offset is a \<open>uint16_t\<close>.
\<close>

fun edma_read_phase :: "'m bus \<Rightarrow> nat \<Rightarrow> u16 \<Rightarrow> nat \<Rightarrow> u32 \<times> u8 list \<times> 'm
    \<Rightarrow> (u32 \<times> u8 list \<times> 'm) res" where
  "edma_read_phase B n soff 0 (saddr, buf, m) = Inr (saddr, buf, m)"
| "edma_read_phase B n soff (Suc k) (saddr, buf, m) =
     res_bind (bus_read B (unat saddr) n m)
       (\<lambda>(bs, m'). edma_read_phase B n soff k (saddr + scast soff, bs @ drop n buf, m'))"

fun edma_write_phase :: "'m bus \<Rightarrow> nat \<Rightarrow> u16 \<Rightarrow> nat \<Rightarrow> u8 list \<Rightarrow> u32 \<times> 'm
    \<Rightarrow> (u32 \<times> 'm) res" where
  "edma_write_phase B n doff 0 buf (daddr, m) = Inr (daddr, m)"
| "edma_write_phase B n doff (Suc k) buf (daddr, m) =
     res_bind (bus_write B (unat daddr) (take n buf) m)
       (\<lambda>m'. edma_write_phase B n doff k buf (daddr + ucast doff, m'))"

fun edma_minor_loop :: "'m bus \<Rightarrow> nat \<Rightarrow> nat \<Rightarrow> nat \<Rightarrow> u16 \<Rightarrow> u16 \<Rightarrow> nat
    \<Rightarrow> u32 \<times> u32 \<times> u8 list \<times> 'm \<Rightarrow> (u32 \<times> u32 \<times> u8 list \<times> 'm) res" where
  "edma_minor_loop B max_size ssize dsize soff doff 0 (saddr, daddr, buf, m) =
     Inr (saddr, daddr, buf, m)"
| "edma_minor_loop B max_size ssize dsize soff doff (Suc i) (saddr, daddr, buf, m) =
     res_bind (edma_read_phase B ssize soff (max_size div ssize) (saddr, buf, m))
       (\<lambda>(saddr', buf', m'). res_bind
          (edma_write_phase B dsize doff (max_size div dsize) buf' (daddr, m'))
          (\<lambda>(daddr', m''). edma_minor_loop B max_size ssize dsize soff doff i
             (saddr', daddr', buf', m'')))"

text \<open>
  \<open>memcpy (&ch->tcd_saddr, next_tcd_data, 32)\<close>: the 32 bytes overwrite the fields from
  \<open>tcd_saddr\<close> to \<open>tcd_biter\<close>, which the C struct lays out without padding in this order, on
  a little-endian host.
\<close>

definition tcd_memcpy :: "u8 list \<Rightarrow> tcd_state \<Rightarrow> tcd_state" where
  "tcd_memcpy bs ch = ch\<lparr>
     tcd_saddr := le32 (bs ! 0) (bs ! 1) (bs ! 2) (bs ! 3),
     tcd_soff := le16 (bs ! 4) (bs ! 5),
     tcd_attr := le16 (bs ! 6) (bs ! 7),
     tcd_nbytes_mloff := le32 (bs ! 8) (bs ! 9) (bs ! 10) (bs ! 11),
     tcd_slast_sda := le32 (bs ! 12) (bs ! 13) (bs ! 14) (bs ! 15),
     tcd_daddr := le32 (bs ! 16) (bs ! 17) (bs ! 18) (bs ! 19),
     tcd_doff := le16 (bs ! 20) (bs ! 21),
     tcd_citer := le16 (bs ! 22) (bs ! 23),
     tcd_dlast_sga := le32 (bs ! 24) (bs ! 25) (bs ! 26) (bs ! 27),
     tcd_csr := le16 (bs ! 28) (bs ! 29),
     tcd_biter := le16 (bs ! 30) (bs ! 31)\<rparr>"

text \<open>
  The end of the major loop. With ESDA set the C code passes the guest address \<open>tcd_daddr\<close> as
  the host pointer of the data to write, so what it does is not determined by the machine state.
\<close>

definition edma_major_complete ::
    "'m bus \<Rightarrow> edma_state \<Rightarrow> nat \<Rightarrow> 'm \<Rightarrow> (edma_state \<times> 'm) res" where
  "edma_major_complete B s tcd_no m =
     (let ch = tcd s ! tcd_no in
      if citer_of ch = 0 then
        if csr_flag ch TCD_CSR_ESDA then Inl WildHostPointer
        else let ch = ch\<lparr>tcd_saddr := tcd_saddr ch +
                 FIELD_EX32 (tcd_slast_sda ch) (fld TCD_SLAST_SDA_SLAST_SDA)\<rparr> in
          res_bind
            (if csr_flag ch TCD_CSR_ESG
             then res_bind
               (bus_read B (unat (FIELD_EX32 (tcd_dlast_sga ch) (fld TCD_DLAST_SGA_DLAST_SGA))) 32 m)
               (\<lambda>(bs, m'). Inr (tcd_memcpy bs ch, m'))
             else Inr (ch\<lparr>tcd_daddr := tcd_daddr ch +
                 FIELD_EX32 (tcd_dlast_sga ch) (fld TCD_DLAST_SGA_DLAST_SGA)\<rparr>, m))
            (\<lambda>(ch, m'). Inr (set_tcd s tcd_no (ch\<lparr>
               tcd_citer := FIELD_DP16 (tcd_citer ch) (fld TCD_CITER_CITER) (ucast (biter_of ch)),
               ch_csr := ch_csr ch OR R_MASK (fld CH_CSR_DONE),
               ch_int := ch_int ch OR R_MASK (fld CH_INT_INT)\<rparr>), m'))
      else Inr (s, m))"

definition edma_transmit ::
    "'m bus \<Rightarrow> u8 list \<Rightarrow> edma_state \<Rightarrow> nat \<Rightarrow> 'm \<Rightarrow> (edma_state \<times> 'm) res" where
  "edma_transmit B buf s tcd_no m =
     (let ch = tcd s ! tcd_no;
          ssz = FIELD_EX16 (tcd_attr ch) (fld TCD_ATTR_SSIZE);
          dsz = FIELD_EX16 (tcd_attr ch) (fld TCD_ATTR_DSIZE)
      in assert_that (ssz \<noteq> 7) (assert_that (dsz \<noteq> 7)
        (let ssize = (push_bit (unat ssz) 1 :: u32);
             dsize = (push_bit (unat dsz) 1 :: u32);
             nbytes = FIELD_EX32 (tcd_nbytes_mloff ch) (fld TCD_NBYTES_MLOFF_NBYTES);
             max_size = (if ssize > dsize then ssize else dsize)
         in res_bind
           (if citer_of ch > 0 then
              res_bind
                (edma_minor_loop B (unat max_size) (unat ssize) (unat dsize) (tcd_soff ch)
                   (tcd_doff ch) (unat (nbytes div max_size)) (tcd_saddr ch, tcd_daddr ch, buf, m))
                (\<lambda>(saddr, daddr, _, m').
                   let next_citer = (ucast (citer_of ch) :: u32) - 1 in
                   Inr (edma_tcd_update_irq (set_tcd s tcd_no (ch\<lparr>
                     tcd_saddr := saddr,
                     tcd_daddr := daddr,
                     tcd_citer := FIELD_DP16 (tcd_citer ch) (fld TCD_CITER_CITER) next_citer,
                     ch_csr := ch_csr ch AND NOT (R_MASK (fld CH_CSR_ACTIVE))\<rparr>)) tcd_no, m'))
            else Inr (s, m))
           (\<lambda>(s', m'). edma_major_complete B s' tcd_no m'))))"

subsection \<open>Arbitration\<close>

definition arb_order :: "nat \<Rightarrow> nat list" where
  "arb_order offset = map (\<lambda>i. (i + offset) mod EDMA_CHANNELS) [0..<EDMA_CHANNELS]"

definition start_pending :: "edma_state \<Rightarrow> nat \<Rightarrow> bool" where
  "start_pending s j \<longleftrightarrow> tcd_csr (tcd s ! j) AND R_MASK (fld TCD_CSR_START) \<noteq> 0"

text \<open>The flags of the chosen channel at the start of its service.\<close>

definition edma_start_channel :: "tcd_state \<Rightarrow> tcd_state" where
  "edma_start_channel ch =
     (let ch = ch\<lparr>ch_csr := ch_csr ch AND NOT (R_MASK (fld CH_CSR_DONE))\<rparr>;
          ch = ch\<lparr>tcd_csr := tcd_csr ch AND NOT (R_MASK (fld TCD_CSR_START))\<rparr>
      in ch\<lparr>ch_csr := ch_csr ch OR R_MASK (fld CH_CSR_ACTIVE)\<rparr>)"

definition edma_arbitrate ::
    "'m bus \<Rightarrow> u8 list \<Rightarrow> edma_state \<Rightarrow> 'm \<Rightarrow> (edma_state \<times> 'm) res" where
  "edma_arbitrate B buf s m =
     (case find (start_pending s) (arb_order (arb_offset s)) of
        None \<Rightarrow> Inr (s, m)
      | Some j \<Rightarrow>
          res_bind (edma_transmit B buf (set_tcd s j (edma_start_channel (tcd s ! j))) j m)
               (\<lambda>(s', m'). Inr (s'\<lparr>arb_offset := (j + 1) mod EDMA_CHANNELS\<rparr>, m')))"

subsection \<open>Register access\<close>

definition edma_tcd_read :: "edma_state \<Rightarrow> nat \<Rightarrow> nat \<Rightarrow> u64" where
  "edma_tcd_read s offset c =
     (let ch = tcd s ! c in
      ucast (case tcd_reg_at offset of
        Some CH_CSR \<Rightarrow> ch_csr ch
      | Some CH_ES \<Rightarrow> ch_es ch
      | Some CH_INT \<Rightarrow> ch_int ch
      | Some CH_SBR \<Rightarrow> ch_sbr ch
      | Some CH_PRI \<Rightarrow> ch_pri ch
      | Some TCD_SADDR \<Rightarrow> tcd_saddr ch
      | Some TCD_SOFF \<Rightarrow> scast (tcd_soff ch)
      | Some TCD_ATTR \<Rightarrow> ucast (tcd_attr ch)
      | Some TCD_NBYTES_MLOFF \<Rightarrow> tcd_nbytes_mloff ch
      | Some TCD_SLAST_SDA \<Rightarrow> tcd_slast_sda ch
      | Some TCD_DADDR \<Rightarrow> tcd_daddr ch
      | Some TCD_DOFF \<Rightarrow> ucast (tcd_doff ch)
      | Some TCD_CITER \<Rightarrow> ucast (tcd_citer ch)
      | Some TCD_DLAST_SGA \<Rightarrow> tcd_dlast_sga ch
      | Some TCD_CSR \<Rightarrow> ucast (tcd_csr ch)
      | Some TCD_BITER \<Rightarrow> ucast (tcd_biter ch)
      | None \<Rightarrow> (0 :: u32)))"

definition edma_tcd_write :: "'m bus \<Rightarrow> u8 list \<Rightarrow> edma_state \<Rightarrow> nat \<Rightarrow> u64 \<Rightarrow> nat \<Rightarrow> 'm
    \<Rightarrow> (edma_state \<times> 'm) res" where
  "edma_tcd_write B buf s offset v c m =
     (let ch = tcd s ! c in
      case tcd_reg_at offset of
        Some CH_CSR \<Rightarrow> Inr (set_tcd s c (ch\<lparr>ch_csr :=
          (ch_csr ch AND NOT (R_MASK (fld CH_CSR_DONE))) OR ucast (v AND R_MASK (fld CH_CSR_DONE))\<rparr>), m)
      | Some CH_ES \<Rightarrow> Inr (set_tcd s c (ch\<lparr>ch_es :=
          (ch_es ch AND NOT (R_MASK (fld CH_ES_ERR))) OR ucast (v AND R_MASK (fld CH_ES_ERR))\<rparr>), m)
      | Some CH_INT \<Rightarrow> Inr (edma_tcd_update_irq (set_tcd s c
          (if v AND R_MASK (fld CH_INT_INT) \<noteq> 0
           then ch\<lparr>ch_int := ch_int ch AND NOT (R_MASK (fld CH_INT_INT))\<rparr> else ch)) c, m)
      | Some CH_SBR \<Rightarrow> Inr (s, m)
      | Some CH_PRI \<Rightarrow> Inr (s, m)
      | Some TCD_SADDR \<Rightarrow> Inr (set_tcd s c (ch\<lparr>tcd_saddr := ucast v\<rparr>), m)
      | Some TCD_SOFF \<Rightarrow> Inr (set_tcd s c (ch\<lparr>tcd_soff := ucast v\<rparr>), m)
      | Some TCD_ATTR \<Rightarrow> Inr (set_tcd s c (ch\<lparr>tcd_attr := ucast v\<rparr>), m)
      | Some TCD_NBYTES_MLOFF \<Rightarrow>
          assert_that (v AND R_MASK (fld TCD_NBYTES_MLOFF_SMLOE) = 0)
            (assert_that (v AND R_MASK (fld TCD_NBYTES_MLOFF_DMLOE) = 0)
              (Inr (set_tcd s c (ch\<lparr>tcd_nbytes_mloff := ucast v\<rparr>), m)))
      | Some TCD_SLAST_SDA \<Rightarrow> Inr (set_tcd s c (ch\<lparr>tcd_slast_sda := ucast v\<rparr>), m)
      | Some TCD_DADDR \<Rightarrow> Inr (set_tcd s c (ch\<lparr>tcd_daddr := ucast v\<rparr>), m)
      | Some TCD_DOFF \<Rightarrow> Inr (set_tcd s c (ch\<lparr>tcd_doff := ucast v\<rparr>), m)
      | Some TCD_CITER \<Rightarrow>
          assert_that (v AND R_MASK (fld TCD_CITER_ELINK) = 0)
            (assert_that (v = ucast (FIELD_EX32 (ucast (tcd_biter ch)) (fld TCD_BITER_BITER)))
              (Inr (set_tcd s c (ch\<lparr>tcd_citer := ucast v\<rparr>), m)))
      | Some TCD_DLAST_SGA \<Rightarrow> Inr (set_tcd s c (ch\<lparr>tcd_dlast_sga := ucast v\<rparr>), m)
      | Some TCD_CSR \<Rightarrow>
          assert_that (v AND R_MASK (fld TCD_CSR_MAJORELINK) = 0)
            (let s' = set_tcd s c (ch\<lparr>tcd_csr := ucast v\<rparr>)
             in if v AND R_MASK (fld TCD_CSR_START) \<noteq> 0 then edma_arbitrate B buf s' m
                else Inr (s', m))
      | Some TCD_BITER \<Rightarrow>
          assert_that (v AND R_MASK (fld TCD_BITER_ELINK) = 0)
            (Inr (set_tcd s c (ch\<lparr>tcd_biter := ucast v\<rparr>), m))
      | None \<Rightarrow> Inr (s, m))"

text \<open>The reset of one descriptor leaves its interrupt line alone; \<open>edma_reset\<close> updates it after.\<close>

definition edma_tcd_reset :: "tcd_state \<Rightarrow> tcd_state" where
  "edma_tcd_reset ch = ch\<lparr>ch_csr := 0, ch_es := 0, ch_int := 0, ch_sbr := 0x00008002, ch_pri := 0,
     tcd_saddr := 0, tcd_soff := 0, tcd_attr := 0, tcd_nbytes_mloff := 0, tcd_slast_sda := 0,
     tcd_daddr := 0, tcd_doff := 0, tcd_citer := 0, tcd_dlast_sga := 0, tcd_csr := 0,
     tcd_biter := 0\<rparr>"

definition edma_global_read :: "edma_state \<Rightarrow> nat \<Rightarrow> u64" where
  "edma_global_read s offset =
     ucast (case edma_reg_at offset of
        Some EDMA_CSR \<Rightarrow> edma_csr s
      | Some EDMA_ES \<Rightarrow> edma_es s
      | Some EDMA_INT \<Rightarrow> edma_int s
      | Some EDMA_HRS \<Rightarrow> edma_hrs s
      | None \<Rightarrow>
          if A_EDMA_CHN_GRPRI 0 \<le> offset \<and> offset < A_EDMA_CHN_GRPRI EDMA_CHANNELS
          then edma_chn_grpri s ! ((offset - A_EDMA_CHN_GRPRI 0) div 4) else 0)"

definition CSR_WR_MASK :: u32 where
  "CSR_WR_MASK = 0x000003f6"

definition GRPRI_WR_MASK :: u32 where
  "GRPRI_WR_MASK = 0x0000001f"

definition edma_global_write :: "edma_state \<Rightarrow> nat \<Rightarrow> u64 \<Rightarrow> edma_state" where
  "edma_global_write s offset v =
     (case edma_reg_at offset of
        Some EDMA_CSR \<Rightarrow> s\<lparr>edma_csr :=
          (edma_csr s AND NOT CSR_WR_MASK) OR ucast (v AND ucast CSR_WR_MASK)\<rparr>
      | Some EDMA_ES \<Rightarrow> s
      | Some EDMA_INT \<Rightarrow> s
      | Some EDMA_HRS \<Rightarrow> s
      | None \<Rightarrow>
          if A_EDMA_CHN_GRPRI 0 \<le> offset \<and> offset < A_EDMA_CHN_GRPRI EDMA_CHANNELS
          then let n = (offset - A_EDMA_CHN_GRPRI 0) div 4 in
            s\<lparr>edma_chn_grpri := (edma_chn_grpri s)[n :=
              (edma_chn_grpri s ! n AND NOT GRPRI_WR_MASK) OR ucast (v AND ucast GRPRI_WR_MASK)]\<rparr>
          else s)"

definition edma0_read :: "edma_state \<Rightarrow> nat \<Rightarrow> u64" where
  "edma0_read s offset =
     (if offset \<ge> 0x4000 then
        let tcd_offset = offset mod 0x4000; tcd_num = (offset - 0x4000) div 0x4000
        in edma_tcd_read s tcd_offset tcd_num
      else edma_global_read s offset)"

definition edma0_write :: "'m bus \<Rightarrow> u8 list \<Rightarrow> edma_state \<Rightarrow> nat \<Rightarrow> u64 \<Rightarrow> 'm
    \<Rightarrow> (edma_state \<times> 'm) res" where
  "edma0_write B buf s offset v m =
     (if offset \<ge> 0x4000 then
        let tcd_offset = offset mod 0x4000; tcd_num = (offset - 0x4000) div 0x4000
        in edma_tcd_write B buf s tcd_offset v tcd_num m
      else Inr (edma_global_write s offset v, m))"

definition edma12_read :: "edma_state \<Rightarrow> nat \<Rightarrow> u64" where
  "edma12_read s offset =
     (let tcd_offset = offset mod 0x4000; tcd_num = offset div 0x4000 + 12
      in edma_tcd_read s tcd_offset tcd_num)"

definition edma12_write :: "'m bus \<Rightarrow> u8 list \<Rightarrow> edma_state \<Rightarrow> nat \<Rightarrow> u64 \<Rightarrow> 'm
    \<Rightarrow> (edma_state \<times> 'm) res" where
  "edma12_write B buf s offset v m =
     (let tcd_offset = offset mod 0x4000; tcd_num = offset div 0x4000 + 12
      in edma_tcd_write B buf s tcd_offset v tcd_num m)"

text \<open>The sizes of the two register windows, as \<open>nxps32k358_edma_init\<close> creates them.\<close>

definition edma_mmio0_size :: nat where
  "edma_mmio0_size = 0x4000 * 13"

definition edma_mmio12_size :: nat where
  "edma_mmio12_size = 0x4000 * 20"

subsection \<open>Reset\<close>

definition edma_reset_channel :: "nat \<Rightarrow> edma_state \<Rightarrow> edma_state" where
  "edma_reset_channel i s =
     (let s = s\<lparr>edma_chn_grpri := (edma_chn_grpri s)[i := 0]\<rparr>
      in edma_tcd_update_irq (set_tcd s i (edma_tcd_reset (tcd s ! i))) i)"

definition edma_reset :: "edma_state \<Rightarrow> edma_state" where
  "edma_reset s =
     fold edma_reset_channel [0..<EDMA_CHANNELS]
       (s\<lparr>edma_csr := 0x00300000, edma_es := 0, edma_int := 0, edma_hrs := 0\<rparr>)"

end
