(* ===== verification/Char_Mux.thy ===== *)
theory Char_Mux
  imports Prelude
begin

section \<open>The character multiplexer between the terminal and the UART\<close>

text \<open>
  The input path of \<^verbatim>\<open>qemu/chardev/char-mux.c\<close>: with \<^verbatim>\<open>-serial mon:stdio\<close> the terminal feeds a
  multiplexer, which filters its escape sequences, keeps up to 32 bytes per front end in a ring
  buffer and hands them to the front end in focus. The front ends are an argument: \<open>F m\<close> is the
  one attached to slot \<open>m\<close>, over a state \<open>'f\<close> that all front ends share. What the commands of an
  escape sequence do outside the multiplexer is recorded in \<open>mux_trace\<close>.
\<close>

subsection \<open>State\<close>

record 'f frontend =
  fe_can_read :: "('f \<Rightarrow> bool) option"
  fe_read :: "u8 \<Rightarrow> 'f \<Rightarrow> 'f"

datatype mux_event = PrintHelp | Quit | CommitAll | SendBreak | MuxOut nat | MuxIn nat

datatype mux_output = OutByte u8 | OutTimestamp

record mux_chardev =
  mux_bitset :: u64
  focus :: nat
  term_got_escape :: bool
  mux_buffer :: "u8 list list"
  prod :: "u32 list"
  cons :: "u32 list"
  timestamps :: bool
  linestart :: bool
  mux_trace :: "mux_event list"
  mux_out :: "mux_output list"

abbreviation (input) MAX_MUX :: nat where
  "MAX_MUX \<equiv> 4"

abbreviation (input) MUX_BUFFER_SIZE :: nat where
  "MUX_BUFFER_SIZE \<equiv> 32"

definition MUX_BUFFER_MASK :: u32 where
  "MUX_BUFFER_MASK = 31"

definition term_escape_char :: u8 where
  "term_escape_char = 1"

subsection \<open>Output\<close>

definition mux_chr_write :: "u8 list \<Rightarrow> mux_chardev \<Rightarrow> mux_chardev" where
  "mux_chr_write bs d =
     (if \<not> timestamps d then d\<lparr>mux_out := mux_out d @ map OutByte bs\<rparr>
      else fold (\<lambda>b d.
        let d = (if linestart d then d\<lparr>mux_out := mux_out d @ [OutTimestamp], linestart := False\<rparr> else d);
            d = d\<lparr>mux_out := mux_out d @ [OutByte b]\<rparr>
        in if b = 10 then d\<lparr>linestart := True\<rparr> else d) bs d)"

subsection \<open>Escape sequences\<close>

text \<open>The single-word case of \<open>find_next_bit\<close>: the bitmap has \<open>MAX_MUX\<close> bits.\<close>

definition find_next_bit :: "u64 \<Rightarrow> nat \<Rightarrow> nat \<Rightarrow> nat" where
  "find_next_bit w sz off =
     (if off \<ge> sz then sz
      else let tmp = w AND push_bit off (NOT 0) AND drop_bit (64 - sz) (NOT 0)
        in case find (bit tmp) [0..<64] of None \<Rightarrow> sz | Some i \<Rightarrow> i)"

definition mux_set_focus :: "nat \<Rightarrow> mux_chardev \<Rightarrow> mux_chardev res" where
  "mux_set_focus f d =
     assert_that (find_next_bit (mux_bitset d) MAX_MUX f = f)
       (Inr (d\<lparr>focus := f, mux_trace := mux_trace d @ [MuxOut (focus d), MuxIn f]\<rparr>))"

definition mux_command :: "u8 \<Rightarrow> mux_chardev \<Rightarrow> mux_chardev res" where
  "mux_command ch d =
     (if ch = 63 \<or> ch = 104 then Inr (d\<lparr>mux_trace := mux_trace d @ [PrintHelp]\<rparr>)
      else if ch = 120 then Inr (d\<lparr>mux_trace := mux_trace d @ [Quit]\<rparr>)
      else if ch = 115 then Inr (d\<lparr>mux_trace := mux_trace d @ [CommitAll]\<rparr>)
      else if ch = 98 then Inr (d\<lparr>mux_trace := mux_trace d @ [SendBreak]\<rparr>)
      else if ch = 99 then
        assert_that (mux_bitset d \<noteq> 0)
          (let bit' = find_next_bit (mux_bitset d) MAX_MUX (focus d + 1);
               bit' = (if bit' \<ge> MAX_MUX then find_next_bit (mux_bitset d) MAX_MUX 0 else bit')
           in mux_set_focus bit' d)
      else if ch = 116 then Inr (d\<lparr>timestamps := \<not> timestamps d, linestart := False\<rparr>)
      else Inr d)"

text \<open>The result says whether the byte is to be passed on.\<close>

definition mux_proc_byte :: "u8 \<Rightarrow> mux_chardev \<Rightarrow> (bool \<times> mux_chardev) res" where
  "mux_proc_byte ch d =
     (if term_got_escape d then
        let d = d\<lparr>term_got_escape := False\<rparr> in
        if ch = term_escape_char then Inr (True, d)
        else res_bind (mux_command ch d) (\<lambda>d. Inr (False, d))
      else if ch = term_escape_char then Inr (False, d\<lparr>term_got_escape := True\<rparr>)
      else Inr (True, d))"

subsection \<open>Input\<close>

definition mux_index :: "u32 \<Rightarrow> nat" where
  "mux_index w = unat (w AND MUX_BUFFER_MASK)"

definition mux_pop :: "nat \<Rightarrow> mux_chardev \<Rightarrow> u8 \<times> mux_chardev" where
  "mux_pop m d = (mux_buffer d ! m ! mux_index (cons d ! m),
     d\<lparr>cons := (cons d)[m := cons d ! m + 1]\<rparr>)"

definition mux_push :: "nat \<Rightarrow> u8 \<Rightarrow> mux_chardev \<Rightarrow> mux_chardev" where
  "mux_push m b d =
     d\<lparr>mux_buffer := (mux_buffer d)[m := (mux_buffer d ! m)[mux_index (prod d ! m) := b]],
       prod := (prod d)[m := prod d ! m + 1]\<rparr>"

definition fe_ready :: "'f frontend option \<Rightarrow> 'f \<Rightarrow> bool" where
  "fe_ready be f = (case be of None \<Rightarrow> False | Some fe \<Rightarrow>
     (case fe_can_read fe of None \<Rightarrow> False | Some can_read \<Rightarrow> can_read f))"

definition fe_deliver :: "'f frontend option \<Rightarrow> u8 \<Rightarrow> 'f \<Rightarrow> 'f" where
  "fe_deliver be b f = (case be of None \<Rightarrow> f | Some fe \<Rightarrow> fe_read fe b f)"

lemma unat_diff_Suc:
  fixes p c :: u32
  assumes "p \<noteq> c"
  shows "unat (p - c) = Suc (unat (p - (c + 1)))"
proof -
  have "unat (p - c - 1) = unat (p - c) - 1" and "0 < unat (p - c)"
    using assms by (simp_all add: unat_sub word_le_nat_alt unat_gt_0 Suc_le_eq)
  then show ?thesis by (simp add: diff_diff_eq)
qed

text \<open>The loop of \<open>mux_chr_accept_input\<close> ends because every round consumes a byte.\<close>

function mux_accept_loop :: "'f frontend option \<Rightarrow> nat \<Rightarrow> mux_chardev \<Rightarrow> 'f \<Rightarrow> mux_chardev \<times> 'f" where
  "mux_accept_loop be m d f =
     (if m < length (cons d) \<and> prod d ! m \<noteq> cons d ! m \<and> fe_ready be f
      then let (b, d') = mux_pop m d in mux_accept_loop be m d' (fe_deliver be b f)
      else (d, f))"
  by pat_completeness auto

termination
  by (relation "measure (\<lambda>(be, m, d, f). unat (prod d ! m - cons d ! m))")
    (auto simp: mux_pop_def unat_diff_Suc)

declare mux_accept_loop.simps [simp del]

definition mux_chr_accept_input :: "(nat \<Rightarrow> 'f frontend option) \<Rightarrow> mux_chardev \<Rightarrow> 'f \<Rightarrow> mux_chardev \<times> 'f" where
  "mux_chr_accept_input F d f = mux_accept_loop (F (focus d)) (focus d) d f"

definition mux_chr_can_read :: "(nat \<Rightarrow> 'f frontend option) \<Rightarrow> mux_chardev \<Rightarrow> 'f \<Rightarrow> bool" where
  "mux_chr_can_read F d f =
     (let m = focus d in
      if prod d ! m - cons d ! m < of_nat MUX_BUFFER_SIZE then True else fe_ready (F m) f)"

fun mux_read_bytes :: "'f frontend option \<Rightarrow> nat \<Rightarrow> u8 list \<Rightarrow> mux_chardev \<Rightarrow> 'f \<Rightarrow> (mux_chardev \<times> 'f) res" where
  "mux_read_bytes be m [] d f = Inr (d, f)"
| "mux_read_bytes be m (b # bs) d f =
     res_bind (mux_proc_byte b d) (\<lambda>(pass, d).
       if pass then
         if prod d ! m = cons d ! m \<and> fe_ready be f then mux_read_bytes be m bs d (fe_deliver be b f)
         else mux_read_bytes be m bs (mux_push m b d) f
       else mux_read_bytes be m bs d f)"

definition mux_chr_read :: "(nat \<Rightarrow> 'f frontend option) \<Rightarrow> u8 list \<Rightarrow> mux_chardev \<Rightarrow> 'f
    \<Rightarrow> (mux_chardev \<times> 'f) res" where
  "mux_chr_read F buf d f =
     (let m = focus d; be = F m; (d, f) = mux_chr_accept_input F d f
      in mux_read_bytes be m buf d f)"

subsection \<open>The ring buffer as a queue\<close>

definition mux_count :: "mux_chardev \<Rightarrow> nat \<Rightarrow> nat" where
  "mux_count d m = unat (prod d ! m - cons d ! m)"

definition mux_queue :: "mux_chardev \<Rightarrow> nat \<Rightarrow> u8 list" where
  "mux_queue d m = map (\<lambda>i. mux_buffer d ! m ! mux_index (cons d ! m + of_nat i)) [0..<mux_count d m]"

definition mux_wf :: "mux_chardev \<Rightarrow> nat \<Rightarrow> bool" where
  "mux_wf d m \<longleftrightarrow> m < MAX_MUX \<and> length (mux_buffer d) = MAX_MUX \<and> length (prod d) = MAX_MUX \<and>
     length (cons d) = MAX_MUX \<and> length (mux_buffer d ! m) = MUX_BUFFER_SIZE \<and>
     mux_count d m \<le> MUX_BUFFER_SIZE"

lemma mux_index_eq: "mux_index w = unat w mod 32"
proof -
  have "w AND MUX_BUFFER_MASK = take_bit 5 w"
    by (simp add: MUX_BUFFER_MASK_def take_bit_eq_mask mask_eq_exp_minus_1)
  then show ?thesis
    unfolding mux_index_def by (simp only: unsigned_take_bit_eq) (simp add: take_bit_eq_mod)
qed

lemma mux_index_lt: "mux_index w < 32"
  by (simp add: mux_index_eq)

lemma mux_index_add: "mux_index (w + of_nat i) = (mux_index w + i) mod 32"
proof -
  have "unat (w + of_nat i) = (unat w + i) mod 2 ^ 32"
    by (simp add: unat_word_ariths unat_of_nat mod_simps)
  then have "unat (w + of_nat i) mod 32 = (unat w + i) mod 32"
    by (simp add: mod_mod_cancel)
  then show ?thesis by (simp add: mux_index_eq mod_simps)
qed

lemma mux_index_prod: "mux_index (prod d ! m) = (mux_index (cons d ! m) + mux_count d m) mod 32"
  unfolding mux_index_add[symmetric] mux_count_def by simp

lemma mod_32_shift_neq: "(a + i) mod 32 \<noteq> (a + k) mod 32" if "i < k" "k < 32" for a i k :: nat
proof
  assume "(a + i) mod 32 = (a + k) mod 32"
  then have "i mod 32 = k mod 32" by (simp add: nat_mod_eq_iff)
  with that show False by simp
qed

lemma mux_pop_queue:
  assumes "mux_wf d m" and "prod d ! m \<noteq> cons d ! m"
  shows "mux_queue d m = fst (mux_pop m d) # mux_queue (snd (mux_pop m d)) m"
    and "mux_wf (snd (mux_pop m d)) m"
proof -
  have m: "m < length (cons d)" using assms(1) by (simp add: mux_wf_def)
  have n: "mux_count d m = Suc (mux_count (snd (mux_pop m d)) m)"
    using assms(2) m by (simp add: mux_count_def mux_pop_def unat_diff_Suc)
  show "mux_wf (snd (mux_pop m d)) m"
    using assms(1) n by (simp add: mux_wf_def) (simp add: mux_pop_def)
  have s: "cons (snd (mux_pop m d)) ! m = cons d ! m + 1" "mux_buffer (snd (mux_pop m d)) = mux_buffer d"
    using m by (simp_all add: mux_pop_def)
  show "mux_queue d m = fst (mux_pop m d) # mux_queue (snd (mux_pop m d)) m"
    unfolding mux_queue_def n s upt_conv_Cons[OF zero_less_Suc] map_Suc_upt[symmetric]
    by (simp add: mux_pop_def comp_def add.assoc)
qed

lemma mux_push_queue:
  assumes "mux_wf d m" and "mux_count d m < MUX_BUFFER_SIZE"
  shows "mux_queue (mux_push m b d) m = mux_queue d m @ [b]" and "mux_wf (mux_push m b d) m"
proof -
  have m: "m < length (prod d)" "m < length (mux_buffer d)" "length (mux_buffer d ! m) = 32"
    using assms(1) by (simp_all add: mux_wf_def)
  let ?n = "mux_count d m"
  have n: "mux_count (mux_push m b d) m = Suc ?n"
  proof -
    have "prod (mux_push m b d) ! m - cons (mux_push m b d) ! m = (prod d ! m - cons d ! m) + of_nat 1"
      using m(1) by (simp add: mux_push_def)
    moreover have "unat (prod d ! m - cons d ! m) + 1 < 2 ^ LENGTH(32)"
      using assms(2) by (simp add: mux_count_def)
    ultimately show ?thesis
      using unat_add_no_wrap[of "prod d ! m - cons d ! m" 1] by (simp add: mux_count_def)
  qed
  show "mux_wf (mux_push m b d) m"
    using assms n m by (simp add: mux_wf_def) (simp add: mux_push_def)
  have b: "mux_buffer (mux_push m b d) ! m = (mux_buffer d ! m)[(mux_index (cons d ! m) + ?n) mod 32 := b]"
    "cons (mux_push m b d) = cons d"
    using m by (simp_all add: mux_push_def mux_index_prod)
  have "(mux_buffer d ! m)[(mux_index (cons d ! m) + ?n) mod 32 := b] ! ((mux_index (cons d ! m) + i) mod 32) =
      mux_buffer d ! m ! ((mux_index (cons d ! m) + i) mod 32)" if "i < ?n" for i
    using mod_32_shift_neq[OF that assms(2), of "mux_index (cons d ! m)"] by simp
  then show "mux_queue (mux_push m b d) m = mux_queue d m @ [b]"
    using m(3) by (simp add: mux_queue_def n b mux_index_add)
qed

lemma mux_queue_empty: "mux_queue d m = [] \<longleftrightarrow> prod d ! m = cons d ! m"
  by (simp add: mux_queue_def mux_count_def unat_eq_0)

lemma mux_pop_fields [simp]:
  "term_got_escape (snd (mux_pop m d)) = term_got_escape d" "focus (snd (mux_pop m d)) = focus d"
  by (simp_all add: mux_pop_def)

text \<open>
  The accepting loop delivers a prefix of the queue, in order, until the queue is empty or the front
  end is no longer ready.
\<close>

lemma mux_accept_loop_delivers:
  assumes "mux_wf d m" and "mux_accept_loop be m d f = (d', f')"
  shows "\<exists>bs. mux_queue d m = bs @ mux_queue d' m \<and> f' = fold (fe_deliver be) bs f \<and> mux_wf d' m \<and>
    (mux_queue d' m = [] \<or> \<not> fe_ready be f') \<and>
    (fe_ready be f \<and> mux_queue d m \<noteq> [] \<longrightarrow> bs \<noteq> []) \<and>
    term_got_escape d' = term_got_escape d \<and> focus d' = focus d"
  using assms
proof (induction be m d f arbitrary: d' f' rule: mux_accept_loop.induct)
  case (1 be m d f)
  have m: "m < length (cons d)" using "1.prems"(1) by (simp add: mux_wf_def)
  show ?case
  proof (cases "prod d ! m \<noteq> cons d ! m \<and> fe_ready be f")
    case False
    then have "d' = d" "f' = f"
      using "1.prems"(2) by (auto simp: mux_accept_loop.simps[of be m d f])
    with False "1.prems"(1) show ?thesis
      by (intro exI[of _ "[]"]) (auto simp: mux_queue_empty)
  next
    case True
    obtain b d1 where p: "mux_pop m d = (b, d1)" by (cases "mux_pop m d")
    have q: "mux_queue d m = b # mux_queue d1 m" "mux_wf d1 m"
      using mux_pop_queue[OF "1.prems"(1)] True p by auto
    have fs: "term_got_escape d1 = term_got_escape d" "focus d1 = focus d"
      using mux_pop_fields[of m d] p by auto
    have "mux_accept_loop be m d1 (fe_deliver be b f) = (d', f')"
      using "1.prems"(2) True m p by (simp add: mux_accept_loop.simps[of be m d f])
    from "1.IH"[OF _ p[symmetric] refl q(2) this] True m q fs obtain bs where
      "mux_queue d1 m = bs @ mux_queue d' m" "f' = fold (fe_deliver be) bs (fe_deliver be b f)"
      "mux_wf d' m" "mux_queue d' m = [] \<or> \<not> fe_ready be f'"
      "term_got_escape d' = term_got_escape d" "focus d' = focus d" by auto
    with q show ?thesis by (intro exI[of _ "b # bs"]) simp
  qed
qed

text \<open>
  C8: the multiplexer loses, repeats and reorders no input byte. When the terminal offers a byte that
  is not part of an escape sequence while the multiplexer says it can read, then the bytes delivered
  to the front end in focus during the call followed by the bytes still queued are the bytes queued
  before followed by the new byte; the ring buffer never overflows, also when its 32-bit counters
  wrap around.
\<close>

theorem mux_chr_read_in_order:
  assumes "mux_wf d (focus d)" and "mux_chr_can_read F d f"
    and "\<not> term_got_escape d" and "b \<noteq> term_escape_char"
  shows "\<exists>d' f' bs. mux_chr_read F [b] d f = Inr (d', f') \<and> f' = fold (fe_deliver (F (focus d))) bs f \<and>
    bs @ mux_queue d' (focus d) = mux_queue d (focus d) @ [b] \<and> mux_wf d' (focus d)"
proof -
  let ?m = "focus d" and ?be = "F (focus d)"
  obtain d1 f1 where l: "mux_accept_loop ?be ?m d f = (d1, f1)" by (cases "mux_accept_loop ?be ?m d f")
  from mux_accept_loop_delivers[OF assms(1) l] obtain bs where
    q: "mux_queue d ?m = bs @ mux_queue d1 ?m" "f1 = fold (fe_deliver ?be) bs f" "mux_wf d1 ?m"
    and stop: "mux_queue d1 ?m = [] \<or> \<not> fe_ready ?be f1"
    and some: "fe_ready ?be f \<and> mux_queue d ?m \<noteq> [] \<longrightarrow> bs \<noteq> []"
    and esc: "\<not> term_got_escape d1"
    using assms(3) by auto
  have len: "length (mux_queue d ?m) = mux_count d ?m" "length (mux_queue d1 ?m) = mux_count d1 ?m"
    by (simp_all add: mux_queue_def)
  have room: "mux_count d1 ?m < MUX_BUFFER_SIZE"
  proof (cases "mux_count d ?m < MUX_BUFFER_SIZE")
    case True
    with q(1) len show ?thesis by (metis add_leD2 le_less_trans length_append order_refl)
  next
    case False
    with assms(2) have "fe_ready ?be f"
      by (auto simp: mux_chr_can_read_def mux_count_def word_less_nat_alt split: if_splits)
    with some False len have "bs \<noteq> []" by auto
    with q(1) len assms(1) have "mux_count d1 ?m < mux_count d ?m"
      by (metis length_append length_greater_0_conv less_add_same_cancel2)
    with assms(1) show ?thesis by (simp add: mux_wf_def)
  qed
  have r: "mux_chr_read F [b] d f =
      (if prod d1 ! ?m = cons d1 ! ?m \<and> fe_ready ?be f1 then Inr (d1, fe_deliver ?be b f1)
       else Inr (mux_push ?m b d1, f1))"
    using l esc assms(4) by (simp add: mux_chr_read_def mux_chr_accept_input_def mux_proc_byte_def Let_def)
  show ?thesis
  proof (cases "prod d1 ! ?m = cons d1 ! ?m \<and> fe_ready ?be f1")
    case True
    then have "mux_queue d1 ?m = []" by (simp add: mux_queue_empty)
    with True q show ?thesis by (intro exI[of _ d1] exI exI[of _ "bs @ [b]"]) (auto simp: r)
  next
    case False
    with q mux_push_queue[OF q(3) room, of b] show ?thesis
      by (intro exI[of _ "mux_push ?m b d1"] exI exI[of _ bs]) (auto simp: r)
  qed
qed

text \<open>A multiplexer whose counters are about to wrap around, with nothing queued.\<close>

definition mux_fresh :: mux_chardev where
  "mux_fresh = \<lparr>mux_bitset = 1, focus = 0, term_got_escape = False,
     mux_buffer = replicate MAX_MUX (replicate MUX_BUFFER_SIZE 0), prod = replicate MAX_MUX (- 1),
     cons = replicate MAX_MUX (- 1), timestamps = False, linestart = False, mux_trace = [],
     mux_out = []\<rparr>"

lemma mux_chr_read_in_order_witness:
  "mux_wf mux_fresh 0 \<and> (\<exists>d' f' bs. mux_chr_read (\<lambda>_. None) [65] mux_fresh () = Inr (d', f') \<and>
     bs @ mux_queue d' 0 = [65] \<and> mux_wf d' 0)"
proof -
  have "mux_wf mux_fresh (focus mux_fresh)" "mux_chr_can_read (\<lambda>_. None) mux_fresh ()"
    "\<not> term_got_escape mux_fresh" "(65 :: u8) \<noteq> term_escape_char"
    "mux_queue mux_fresh (focus mux_fresh) = []" "focus mux_fresh = 0"
    by (simp_all add: mux_wf_def mux_fresh_def mux_count_def mux_chr_can_read_def
        term_escape_char_def mux_queue_def)
  with mux_chr_read_in_order[of mux_fresh "\<lambda>_. None" "()" 65] show ?thesis by fastforce
qed

end
