(* ===== verification/Lpuart.thy ===== *)
theory Lpuart
  imports Register_Fields Char_Mux
begin

section \<open>The LPUART\<close>

text \<open>
  The device model \<^verbatim>\<open>qemu/hw/char/nxps32k358_lpuart.c\<close> with its header: registers, the receive
  path, the register read and write handlers, the interrupt line (field \<open>lpuart_irq\<close>) and the reset.
  The character device behind the UART is reached through the record \<open>chardev_ops\<close>; a call of
  \<open>qemu_chr_fe_accept_input\<close> may call back into the receive path, so it takes and returns the state
  of the UART. The frequency of the UART's clock is the argument \<open>hz\<close>.
\<close>

subsection \<open>Registers and fields\<close>

datatype lpuart_reg =
    VERID | PARAM | GLOBAL | PINCFG | BAUD | STAT | CONTROL | DATA | MATCH | MODIR | FIFO | WATER
  | DATARO | MCR | MSR | REIR | TEIR | HDCR | TOCR | TOSR

fun A_LPUART :: "lpuart_reg \<Rightarrow> nat" where
  "A_LPUART VERID = 0x00"
| "A_LPUART PARAM = 0x04"
| "A_LPUART GLOBAL = 0x08"
| "A_LPUART PINCFG = 0x0C"
| "A_LPUART BAUD = 0x10"
| "A_LPUART STAT = 0x14"
| "A_LPUART CONTROL = 0x18"
| "A_LPUART DATA = 0x1C"
| "A_LPUART MATCH = 0x20"
| "A_LPUART MODIR = 0x24"
| "A_LPUART FIFO = 0x28"
| "A_LPUART WATER = 0x2C"
| "A_LPUART DATARO = 0x30"
| "A_LPUART MCR = 0x40"
| "A_LPUART MSR = 0x44"
| "A_LPUART REIR = 0x48"
| "A_LPUART TEIR = 0x4C"
| "A_LPUART HDCR = 0x50"
| "A_LPUART TOCR = 0x58"
| "A_LPUART TOSR = 0x5C"

declare A_LPUART.simps [simp del, field_consts]

text \<open>The registers that the \<open>switch\<close> statements of the two handlers distinguish.\<close>

definition lpuart_reg_at :: "nat \<Rightarrow> lpuart_reg option" where
  "lpuart_reg_at addr =
     find (\<lambda>r. A_LPUART r = addr) [VERID, STAT, GLOBAL, DATA, DATARO, CONTROL, BAUD]"

datatype lpuart_field =
    GLOBAL_RST | BAUD_SBR | BAUD_OSR | STAT_RDRF | CONTROL_M | CONTROL_M7 | CONTROL_RE | CONTROL_RIE
  | CONTROL_TCIE | CONTROL_TIE

fun ufld :: "lpuart_field \<Rightarrow> field" where
  "ufld GLOBAL_RST = (1, 1)"
| "ufld BAUD_SBR = (0, 13)"
| "ufld BAUD_OSR = (24, 5)"
| "ufld STAT_RDRF = (21, 1)"
| "ufld CONTROL_M = (4, 1)"
| "ufld CONTROL_M7 = (11, 1)"
| "ufld CONTROL_RE = (18, 1)"
| "ufld CONTROL_RIE = (21, 1)"
| "ufld CONTROL_TCIE = (22, 1)"
| "ufld CONTROL_TIE = (23, 1)"

declare ufld.simps [simp del, field_consts]

definition LPUART_TIMEOUT_NUM :: nat where "LPUART_TIMEOUT_NUM = 4"

definition LPUART_TCBR_NUM :: nat where "LPUART_TCBR_NUM = 128"

definition LPUART_TDBR_NUM :: nat where "LPUART_TDBR_NUM = 256"

definition LPUART_VERID_RESET :: "u32 \<Rightarrow> u32" where
  "LPUART_VERID_RESET n = (if sint n < 2 then 0x04040007 else 0x04040003)"

definition LPUART_PARAM_RESET :: "u32 \<Rightarrow> u32" where
  "LPUART_PARAM_RESET n = (if sint n < 2 then 0x00000404 else 0x00000202)"

definition LPUART_FIFO_RESET :: "u32 \<Rightarrow> u32" where
  "LPUART_FIFO_RESET n = (if sint n < 2 then 0x00C00033 else 0x00C00011)"

subsection \<open>State\<close>

record lpuart_state =
  lpuart_port :: u32
  lpuart_verid :: u32
  lpuart_param :: u32
  lpuart_global :: u32
  lpuart_pincfg :: u32
  lpuart_baud :: u32
  lpuart_stat :: u32
  lpuart_control :: u32
  lpuart_data :: u32
  lpuart_match :: u32
  lpuart_modir :: u32
  lpuart_fifo :: u32
  lpuart_water :: u32
  lpuart_dataro :: u32
  lpuart_mcr :: u32
  lpuart_msr :: u32
  lpuart_reir :: u32
  lpuart_teir :: u32
  lpuart_hdcr :: u32
  lpuart_tocr :: u32
  lpuart_tosr :: u32
  lpuart_timeout :: "u32 list"
  lpuart_tcb :: "u32 list"
  lpuart_tdb :: "u32 list"
  lpuart_irq :: bool

record 'c chardev_ops =
  chr_accept_input :: "lpuart_state \<Rightarrow> 'c \<Rightarrow> lpuart_state \<times> 'c"
  chr_write_all :: "u8 \<Rightarrow> 'c \<Rightarrow> 'c"
  chr_set_params :: "u32 \<Rightarrow> 'c \<Rightarrow> 'c"

subsection \<open>Reception and interrupts\<close>

definition lpuart_can_receive :: "lpuart_state \<Rightarrow> bool" where
  "lpuart_can_receive s \<longleftrightarrow> lpuart_stat s AND R_MASK (ufld STAT_RDRF) = 0"

definition lpuart_irq_mask :: u32 where
  "lpuart_irq_mask = R_MASK (ufld CONTROL_TIE) OR R_MASK (ufld CONTROL_TCIE) OR R_MASK (ufld CONTROL_RIE)"

definition lpuart_update_irq :: "lpuart_state \<Rightarrow> lpuart_state" where
  "lpuart_update_irq s =
     (let mask = lpuart_stat s AND lpuart_control s in
      if mask AND lpuart_irq_mask \<noteq> 0 then s\<lparr>lpuart_irq := True\<rparr> else s\<lparr>lpuart_irq := False\<rparr>)"

definition lpuart_receive :: "u8 \<Rightarrow> lpuart_state \<Rightarrow> lpuart_state" where
  "lpuart_receive b s =
     (if lpuart_control s AND R_MASK (ufld CONTROL_RE) = 0 then s
      else lpuart_update_irq (s\<lparr>lpuart_data := ucast b,
        lpuart_stat := lpuart_stat s OR R_MASK (ufld STAT_RDRF)\<rparr>))"

subsection \<open>Reset and baud rate\<close>

definition lpuart_reset :: "lpuart_state \<Rightarrow> lpuart_state" where
  "lpuart_reset s = lpuart_update_irq (s\<lparr>
     lpuart_verid := LPUART_VERID_RESET (lpuart_port s),
     lpuart_param := LPUART_PARAM_RESET (lpuart_port s),
     lpuart_global := 0x00000002, lpuart_pincfg := 0, lpuart_baud := 0x0F000004,
     lpuart_stat := 0x00C00000, lpuart_control := 0, lpuart_data := 0x00001000,
     lpuart_match := 0, lpuart_modir := 0, lpuart_fifo := LPUART_FIFO_RESET (lpuart_port s),
     lpuart_water := 0, lpuart_dataro := 0x00001000, lpuart_mcr := 0, lpuart_msr := 0,
     lpuart_reir := 0, lpuart_teir := 0, lpuart_hdcr := 0, lpuart_tocr := 0,
     lpuart_tosr := 0x0000000F,
     lpuart_timeout := replicate LPUART_TIMEOUT_NUM 0,
     lpuart_tcb := replicate LPUART_TCBR_NUM 0,
     lpuart_tdb := replicate LPUART_TDBR_NUM 0\<rparr>)"

definition LPUART_BAUD_RATE :: "u32 \<Rightarrow> lpuart_state \<Rightarrow> u32 res" where
  "LPUART_BAUD_RATE hz s =
     (let sbr = FIELD_EX32 (lpuart_baud s) (ufld BAUD_SBR);
          osr = FIELD_EX32 (lpuart_baud s) (ufld BAUD_OSR)
      in if sbr * (osr + 1) = 0 then Inl DivisionByZero else Inr (hz div (sbr * (osr + 1))))"

definition lpuart_update_params :: "'c chardev_ops \<Rightarrow> u32 \<Rightarrow> lpuart_state \<Rightarrow> 'c \<Rightarrow> 'c res" where
  "lpuart_update_params C hz s c =
     res_bind (LPUART_BAUD_RATE hz s) (\<lambda>speed. Inr (chr_set_params C speed c))"

subsection \<open>Register access\<close>

definition lpuart_read :: "'c chardev_ops \<Rightarrow> lpuart_state \<Rightarrow> nat \<Rightarrow> 'c \<Rightarrow> u64 \<times> lpuart_state \<times> 'c" where
  "lpuart_read C s addr c =
     (let data_read =
          (let s = s\<lparr>lpuart_stat := lpuart_stat s AND NOT (R_MASK (ufld STAT_RDRF))\<rparr>;
               (s, c) = chr_accept_input C s c;
               s = lpuart_update_irq s
           in (ucast (lpuart_data s), s, c))
      in case lpuart_reg_at addr of
        Some VERID \<Rightarrow> (ucast (lpuart_verid s), s, c)
      | Some STAT \<Rightarrow> (ucast (lpuart_stat s), s, c)
      | Some GLOBAL \<Rightarrow> (ucast (lpuart_global s), s, c)
      | Some DATA \<Rightarrow> data_read
      | Some DATARO \<Rightarrow> data_read
      | Some CONTROL \<Rightarrow> (ucast (lpuart_control s), s, c)
      | Some BAUD \<Rightarrow> (ucast (lpuart_baud s), s, c)
      | _ \<Rightarrow> (0, s, c))"

definition lpuart_write :: "'c chardev_ops \<Rightarrow> u32 \<Rightarrow> lpuart_state \<Rightarrow> nat \<Rightarrow> u64 \<Rightarrow> 'c
    \<Rightarrow> (lpuart_state \<times> 'c) res" where
  "lpuart_write C hz s addr val64 c =
     (let v = (ucast val64 :: u32) in
      case lpuart_reg_at addr of
        Some GLOBAL \<Rightarrow>
          let s = s\<lparr>lpuart_global := v\<rparr> in
          Inr (if v AND R_MASK (ufld GLOBAL_RST) \<noteq> 0 then lpuart_reset s else s, c)
      | Some STAT \<Rightarrow> Inr (s, c)
      | Some DATA \<Rightarrow>
          let is_7bit = (lpuart_control s AND R_MASK (ufld CONTROL_M7) \<noteq> 0);
              is_9bit = (lpuart_control s AND R_MASK (ufld CONTROL_M) \<noteq> 0)
          in if is_9bit then Inr (s, c)
             else let v = (if is_7bit then v AND 0x7F else v)
               in Inr (s, chr_write_all C (ucast v) c)
      | Some CONTROL \<Rightarrow> Inr (lpuart_update_irq (s\<lparr>lpuart_control := v\<rparr>), c)
      | Some BAUD \<Rightarrow>
          let s = s\<lparr>lpuart_baud := v\<rparr> in
          res_bind (lpuart_update_params C hz s c) (\<lambda>c. Inr (s, c))
      | _ \<Rightarrow> Inr (s, c))"

text \<open>The size of the register window, as \<open>nxps32k358_lpuart_init\<close> creates it.\<close>

definition lpuart_mmio_size :: nat where
  "lpuart_mmio_size = 0x4000"

text \<open>The device realises only when its clock has a source; it then registers its two handlers.\<close>

datatype lpuart_error = ClockNotWired

definition lpuart_frontend :: "lpuart_state frontend" where
  "lpuart_frontend = \<lparr>fe_can_read = Some lpuart_can_receive, fe_read = lpuart_receive\<rparr>"

definition lpuart_realize :: "bool \<Rightarrow> lpuart_error + lpuart_state frontend" where
  "lpuart_realize has_source = (if \<not> has_source then Inl ClockNotWired else Inr lpuart_frontend)"

end
