(* ===== verification/Soc_Map.thy ===== *)
theory Soc_Map
  imports Edma Lpuart
begin

section \<open>The memory map of the SoC\<close>

text \<open>
  What \<open>nxps32k358_soc_realize\<close> and \<open>create_unimplemented_devices\<close> of
  \<^verbatim>\<open>qemu/hw/arm/nxps32k358_soc.c\<close> put into the system memory: the flash, SRAM and TCM regions, the
  mode-entry stub, sixteen UARTs, the first window of the eDMA controller, and below them the
  placeholders of the peripherals that are not implemented. The resulting flat view is the one a
  transfer of the eDMA controller sees. While the controller is transferring, its own window is
  blocked by the re-entrancy guard of \<^verbatim>\<open>qemu/system/memory.c\<close>; reads of it give 0 and writes are
  dropped. The devices behind the view are the UARTs with their character backends.
\<close>

subsection \<open>Constants\<close>

definition CODE_FLASH_BASE_ADDRESS :: nat where "CODE_FLASH_BASE_ADDRESS = 0x00400000"

definition CODE_FLASH_BLOCK_SIZE :: nat where "CODE_FLASH_BLOCK_SIZE = 2 * 1024 * 1024"

definition DATA_FLASH_BASE_ADDRESS :: nat where "DATA_FLASH_BASE_ADDRESS = 0x10000000"

definition DATA_FLASH_SIZE :: nat where "DATA_FLASH_SIZE = 128 * 1024"

definition SRAM_BASE_ADDRESS :: nat where "SRAM_BASE_ADDRESS = 0x20400000"

definition SRAM_BLOCK_SIZE :: nat where "SRAM_BLOCK_SIZE = 256 * 1024"

definition DTCM_BASE_ADDRESS :: nat where "DTCM_BASE_ADDRESS = 0x20000000"

definition DTCM_SIZE :: nat where "DTCM_SIZE = (128 * 1024) + 1"

definition ITCM_BASE_ADDRESS :: nat where "ITCM_BASE_ADDRESS = 0x00000000"

definition ITCM_SIZE :: nat where "ITCM_SIZE = 64 * 1024"

definition MC_ME_BASE_ADDRESS :: nat where "MC_ME_BASE_ADDRESS = 0x402DC000"

definition MC_ME_SIZE :: nat where "MC_ME_SIZE = 1340"

definition LPUART_ADDR :: "nat \<Rightarrow> nat" where "LPUART_ADDR n = 0x40328000 + 0x4000 * n"

definition LPUART_IRQ :: "nat \<Rightarrow> nat" where "LPUART_IRQ n = 141 + n"

definition NUM_LPUARTS :: nat where "NUM_LPUARTS = 16"

definition EDMA_BASE_ADDRESS :: nat where "EDMA_BASE_ADDRESS = 0x4020C000"

definition EDMA_IRQ :: "nat \<Rightarrow> nat" where "EDMA_IRQ n = 4 + n"

definition NUM_EDMA_CHANNELS :: nat where "NUM_EDMA_CHANNELS = 32"

lemmas soc_consts = CODE_FLASH_BASE_ADDRESS_def CODE_FLASH_BLOCK_SIZE_def DATA_FLASH_BASE_ADDRESS_def
  DATA_FLASH_SIZE_def SRAM_BASE_ADDRESS_def SRAM_BLOCK_SIZE_def DTCM_BASE_ADDRESS_def DTCM_SIZE_def
  ITCM_BASE_ADDRESS_def ITCM_SIZE_def MC_ME_BASE_ADDRESS_def MC_ME_SIZE_def LPUART_ADDR_def
  LPUART_IRQ_def NUM_LPUARTS_def EDMA_BASE_ADDRESS_def EDMA_IRQ_def NUM_EDMA_CHANNELS_def

subsection \<open>Placeholders of unimplemented devices\<close>

definition unimplemented_devices_low :: "(string \<times> nat \<times> nat) list" where
  "unimplemented_devices_low = [
     (''hse_xbic'', 0x40008000, 0x4000),
     (''erm1'', 0x4000c000, 0x4000),
     (''pfc1'', 0x40068000, 0x4000),
     (''pfc1_alt'', 0x4006c000, 0x4000),
     (''swt_3'', 0x40070000, 0x4000),
     (''trgmux'', 0x40080000, 0x4000),
     (''bctu'', 0x40084000, 0x4000),
     (''emios0'', 0x40088000, 0x4000),
     (''emios1'', 0x4008c000, 0x4000),
     (''emios2'', 0x40090000, 0x4000),
     (''lcu0'', 0x40098000, 0x4000),
     (''lcu1'', 0x4009c000, 0x4000),
     (''adc_0'', 0x400a0000, 0x4000),
     (''adc_1'', 0x400a4000, 0x4000),
     (''adc_2'', 0x400a8000, 0x4000),
     (''pit0'', 0x400b0000, 0x4000),
     (''pit1'', 0x400b4000, 0x4000),
     (''mu_2'', 0x400b8000, 0x4000),
     (''mu_2'', 0x400bc000, 0x4000),
     (''mu_3'', 0x400c4000, 0x4000),
     (''mu_3'', 0x400c8000, 0x4000),
     (''mu_4'', 0x400cc000, 0x4000),
     (''mu_4'', 0x400d0000, 0x4000),
     (''axbs'', 0x40200000, 0x4000),
     (''system_xbic'', 0x40204000, 0x4000),
     (''periph_xbic'', 0x40208000, 0x4000),
     (''edma'', 0x4020c000, 0x4000),
     (''edma_tcd_0'', 0x40210000, 0x4000),
     (''edma_tcd_1'', 0x40214000, 0x4000),
     (''edma_tcd_2'', 0x40218000, 0x4000),
     (''edma_tcd_3'', 0x4021c000, 0x4000),
     (''edma_tcd_4'', 0x40220000, 0x4000),
     (''edma_tcd_5'', 0x40224000, 0x4000),
     (''edma_tcd_6'', 0x40228000, 0x4000),
     (''edma_tcd_7'', 0x4022c000, 0x4000),
     (''edma_tcd_8'', 0x40230000, 0x4000),
     (''edma_tcd_9'', 0x40234000, 0x4000),
     (''edma_tcd_10'', 0x40238000, 0x4000),
     (''edma_tcd_11'', 0x4023c000, 0x4000),
     (''debug_apb_page0'', 0x40240000, 0x4000),
     (''debug_apb_page1'', 0x40244000, 0x4000),
     (''debug_apb_page2'', 0x40248000, 0x4000),
     (''debug_apb_page3'', 0x4024c000, 0x4000),
     (''debug_apb_paged_area'', 0x40250000, 0x4000),
     (''sda-ap'', 0x40254000, 0x4000),
     (''eim0'', 0x40258000, 0x4000),
     (''erm0'', 0x4025c000, 0x4000),
     (''mscm'', 0x40260000, 0x4000),
     (''pram_0'', 0x40264000, 0x4000),
     (''pfc'', 0x40268000, 0x4000),
     (''pfc_alt'', 0x4026c000, 0x4000),
     (''swt_0'', 0x40270000, 0x4000),
     (''stm_0'', 0x40274000, 0x4000),
     (''xrdc'', 0x40278000, 0x4000),
     (''intm'', 0x4027c000, 0x4000),
     (''dmamux_0'', 0x40280000, 0x4000),
     (''dmamux_1'', 0x40284000, 0x4000),
     (''rtc'', 0x40288000, 0x4000),
     (''mc_rgm'', 0x4028c000, 0x4000),
     (''siul_virtwrapper_pdac0_hse'', 0x40290000, 0x4000),
     (''siul_virtwrapper_pdac0_hse'', 0x40294000, 0x4000),
     (''siul_virtwrapper_pdac1_m7_0'', 0x40298000, 0x4000),
     (''siul_virtwrapper_pdac1_m7_0'', 0x4029c000, 0x4000),
     (''siul_virtwrapper_pdac2_m7_1'', 0x402a0000, 0x4000),
     (''siul_virtwrapper_pdac2_m7_1'', 0x402a4000, 0x4000),
     (''siul_virtwrapper_pdac3'', 0x402a8000, 0x4000),
     (''dcm'', 0x402ac000, 0x4000),
     (''wkpu'', 0x402b4000, 0x4000),
     (''cmu'', 0x402bc000, 0x4000),
     (''tspc'', 0x402c4000, 0x4000),
     (''sirc'', 0x402c8000, 0x4000),
     (''sxosc'', 0x402cc000, 0x4000),
     (''firc'', 0x402d0000, 0x4000),
     (''fxosc'', 0x402d4000, 0x4000),
     (''mc_cgm'', 0x402d8000, 0x4000),
     (''mc_me'', 0x402dc000, 0x4000),
     (''pll'', 0x402e0000, 0x4000),
     (''pll2'', 0x402e4000, 0x4000),
     (''pmc'', 0x402e8000, 0x4000),
     (''fmu'', 0x402ec000, 0x4000),
     (''fmu_alt'', 0x402f0000, 0x4000),
     (''siul_virtwrapper_pdac4_m7_2'', 0x402f4000, 0x4000),
     (''siul_virtwrapper_pdac4_m7_2'', 0x402f8000, 0x4000),
     (''pit2'', 0x402fc000, 0x4000),
     (''pit3'', 0x40300000, 0x4000),
     (''flexcan_0'', 0x40304000, 0x4000),
     (''flexcan_1'', 0x40308000, 0x4000),
     (''flexcan_2'', 0x4030c000, 0x4000),
     (''flexcan_3'', 0x40310000, 0x4000),
     (''flexcan_4'', 0x40314000, 0x4000),
     (''flexcan_5'', 0x40318000, 0x4000),
     (''flexcan_6'', 0x4031c000, 0x4000)]"

definition unimplemented_devices_high :: "(string \<times> nat \<times> nat) list" where
  "unimplemented_devices_high = [
     (''flexcan_7'', 0x40320000, 0x4000),
     (''flexio'', 0x40324000, 0x4000),
     (''lpuart_0'', 0x40328000, 0x4000),
     (''lpuart_1'', 0x4032c000, 0x4000),
     (''lpuart_2'', 0x40330000, 0x4000),
     (''lpuart_3'', 0x40334000, 0x4000),
     (''lpuart_4'', 0x40338000, 0x4000),
     (''lpuart_5'', 0x4033c000, 0x4000),
     (''lpuart_6'', 0x40340000, 0x4000),
     (''lpuart_7'', 0x40344000, 0x4000),
     (''siul_virtwrapper_pdac5_m7_3'', 0x40348000, 0x4000),
     (''siul_virtwrapper_pdac5_m7_3'', 0x4034c000, 0x4000),
     (''lpi2c_0'', 0x40350000, 0x4000),
     (''lpi2c_1'', 0x40354000, 0x4000),
     (''lpspi_0'', 0x40358000, 0x4000),
     (''lpspi_1'', 0x4035c000, 0x4000),
     (''lpspi_2'', 0x40360000, 0x4000),
     (''lpspi_3'', 0x40364000, 0x4000),
     (''sai0'', 0x4036c000, 0x4000),
     (''lpcmp_0'', 0x40370000, 0x4000),
     (''lpcmp_1'', 0x40374000, 0x4000),
     (''tmu'', 0x4037c000, 0x4000),
     (''crc'', 0x40380000, 0x4000),
     (''fccu_'', 0x40384000, 0x4000),
     (''mu_0'', 0x4038c000, 0x4000),
     (''mu_1'', 0x40390000, 0x4000),
     (''jdc'', 0x40394000, 0x4000),
     (''configuration_gpr'', 0x4039c000, 0x4000),
     (''stcu'', 0x403a0000, 0x4000),
     (''selftest_gpr'', 0x403b0000, 0x4000),
     (''aes_accel'', 0x403c0000, 0x10000),
     (''aes_app0'', 0x403d0000, 0x10000),
     (''aes_app1'', 0x403e0000, 0x10000),
     (''aes_app2'', 0x403f0000, 0x10000),
     (''tcm_xbic'', 0x40400000, 0x4000),
     (''edma_xbic'', 0x40404000, 0x4000),
     (''pram2_tcm_xbic'', 0x40408000, 0x4000),
     (''aes_mux_xbic'', 0x4040c000, 0x4000),
     (''edma_tcd_12'', 0x40410000, 0x4000),
     (''edma_tcd_13'', 0x40414000, 0x4000),
     (''edma_tcd_14'', 0x40418000, 0x4000),
     (''edma_tcd_15'', 0x4041c000, 0x4000),
     (''edma_tcd_16'', 0x40420000, 0x4000),
     (''edma_tcd_17'', 0x40424000, 0x4000),
     (''edma_tcd_18'', 0x40428000, 0x4000),
     (''edma_tcd_19'', 0x4042c000, 0x4000),
     (''edma_tcd_20'', 0x40430000, 0x4000),
     (''edma_tcd_21'', 0x40434000, 0x4000),
     (''edma_tcd_22'', 0x40438000, 0x4000),
     (''edma_tcd_23'', 0x4043c000, 0x4000),
     (''edma_tcd_24'', 0x40440000, 0x4000),
     (''edma_tcd_25'', 0x40444000, 0x4000),
     (''edma_tcd_26'', 0x40448000, 0x4000),
     (''edma_tcd_27'', 0x4044c000, 0x4000),
     (''edma_tcd_28'', 0x40450000, 0x4000),
     (''edma_tcd_29'', 0x40454000, 0x4000),
     (''edma_tcd_30'', 0x40458000, 0x4000),
     (''edma_tcd_31'', 0x4045c000, 0x4000),
     (''sema42'', 0x40460000, 0x4000),
     (''pram_1'', 0x40464000, 0x4000),
     (''pram_2'', 0x40468000, 0x4000),
     (''swt_1'', 0x4046c000, 0x4000),
     (''swt_2'', 0x40470000, 0x4000),
     (''stm_1'', 0x40474000, 0x4000),
     (''stm_2'', 0x40478000, 0x4000),
     (''stm_3'', 0x4047c000, 0x4000),
     (''emac'', 0x40480000, 0x4000),
     (''gmac0'', 0x40484000, 0x4000),
     (''gmac1'', 0x40488000, 0x4000),
     (''lpuart_8'', 0x4048c000, 0x4000),
     (''lpuart_9'', 0x40490000, 0x4000),
     (''lpuart_10'', 0x40494000, 0x4000),
     (''lpuart_11'', 0x40498000, 0x4000),
     (''lpuart_12'', 0x4049c000, 0x4000),
     (''lpuart_13'', 0x404a0000, 0x4000),
     (''lpuart_14'', 0x404a4000, 0x4000),
     (''lpuart_15'', 0x404a8000, 0x4000),
     (''lpspi_4'', 0x404bc000, 0x4000),
     (''lpspi_5'', 0x404c0000, 0x4000),
     (''quadspi'', 0x404cc000, 0x4000),
     (''sai1'', 0x404dc000, 0x4000),
     (''usdhc'', 0x404e4000, 0x4000),
     (''lpcmp_2'', 0x404e8000, 0x4000),
     (''mu_1'', 0x404ec000, 0x4000),
     (''eim0'', 0x4050c000, 0x4000),
     (''eim1'', 0x40510000, 0x4000),
     (''eim2'', 0x40514000, 0x4000),
     (''eim3'', 0x40518000, 0x4000),
     (''aes_app3'', 0x40520000, 0x10000),
     (''aes_app4'', 0x40530000, 0x10000),
     (''aes_app5'', 0x40540000, 0x10000),
     (''aes_app6'', 0x40550000, 0x10000),
     (''aes_app7'', 0x40560000, 0x10000),
     (''flexcan_8'', 0x40570000, 0x4000),
     (''flexcan_9'', 0x40574000, 0x4000),
     (''flexcan_10'', 0x40578000, 0x4000),
     (''flexcan_11'', 0x4057c000, 0x4000),
     (''fmu1'', 0x40580000, 0x4000),
     (''fmu1_alt'', 0x40584000, 0x4000),
     (''pram_3'', 0x40588000, 0x4000)]"

definition unimp_read :: "nat \<Rightarrow> nat \<Rightarrow> 'd \<Rightarrow> (u64 \<times> 'd) res" where
  "unimp_read offset sz d = Inr (0, d)"

definition unimp_write :: "nat \<Rightarrow> u64 \<Rightarrow> nat \<Rightarrow> 'd \<Rightarrow> 'd res" where
  "unimp_write offset v sz d = Inr d"

definition create_unimplemented_device :: "string \<times> nat \<times> nat \<Rightarrow> 'd mem_region" where
  "create_unimplemented_device dv = (case dv of (name, base, sz) \<Rightarrow>
     \<lparr>mr_base = base, mr_size = sz, mr_valid_max = 8, mr_kind = Io unimp_read unimp_write\<rparr>)"

definition unimplemented_regions :: "'d mem_region list" where
  "unimplemented_regions =
     map create_unimplemented_device (unimplemented_devices_low @ unimplemented_devices_high)"

subsection \<open>Devices\<close>

record 'c periph =
  lpuart :: "lpuart_state list"
  chr :: "'c list"

definition mc_me_read :: "nat \<Rightarrow> nat \<Rightarrow> 'd \<Rightarrow> (u64 \<times> 'd) res" where
  "mc_me_read addr sz d = Inr (if addr = 0x310 then 0x1000000 else 0, d)"

definition mc_me_write :: "nat \<Rightarrow> u64 \<Rightarrow> nat \<Rightarrow> 'd \<Rightarrow> 'd res" where
  "mc_me_write addr v sz d = Inr d"

definition uart_io_read :: "(nat \<Rightarrow> 'c chardev_ops) \<Rightarrow> nat \<Rightarrow> nat \<Rightarrow> nat \<Rightarrow> 'c periph
    \<Rightarrow> (u64 \<times> 'c periph) res" where
  "uart_io_read C i addr sz d =
     (case lpuart_read (C i) (lpuart d ! i) addr (chr d ! i) of (v, s, c) \<Rightarrow>
        Inr (v, d\<lparr>lpuart := (lpuart d)[i := s], chr := (chr d)[i := c]\<rparr>))"

definition uart_io_write :: "(nat \<Rightarrow> 'c chardev_ops) \<Rightarrow> (nat \<Rightarrow> u32) \<Rightarrow> nat \<Rightarrow> nat \<Rightarrow> u64 \<Rightarrow> nat
    \<Rightarrow> 'c periph \<Rightarrow> 'c periph res" where
  "uart_io_write C hz i addr v sz d =
     res_bind (lpuart_write (C i) (hz i) (lpuart d ! i) addr v (chr d ! i))
       (\<lambda>(s, c). Inr (d\<lparr>lpuart := (lpuart d)[i := s], chr := (chr d)[i := c]\<rparr>))"

text \<open>The eDMA window as its own transfers see it: the guard refuses the access.\<close>

definition guarded_read :: "nat \<Rightarrow> nat \<Rightarrow> 'd \<Rightarrow> (u64 \<times> 'd) res" where
  "guarded_read addr sz d = Inr (0, d)"

definition guarded_write :: "nat \<Rightarrow> u64 \<Rightarrow> nat \<Rightarrow> 'd \<Rightarrow> 'd res" where
  "guarded_write addr v sz d = Inr d"

subsection \<open>The flat view\<close>

definition mem_block :: "'d mr_kind \<Rightarrow> nat \<Rightarrow> nat \<Rightarrow> 'd mem_region" where
  "mem_block k base sz = \<lparr>mr_base = base, mr_size = sz, mr_valid_max = 0, mr_kind = k\<rparr>"

definition soc_memory :: "'d mem_region list" where
  "soc_memory =
     [mem_block Rom CODE_FLASH_BASE_ADDRESS CODE_FLASH_BLOCK_SIZE,
      mem_block Rom (CODE_FLASH_BASE_ADDRESS + CODE_FLASH_BLOCK_SIZE) CODE_FLASH_BLOCK_SIZE,
      mem_block Rom (CODE_FLASH_BASE_ADDRESS + 2 * CODE_FLASH_BLOCK_SIZE) CODE_FLASH_BLOCK_SIZE,
      mem_block Rom (CODE_FLASH_BASE_ADDRESS + 3 * CODE_FLASH_BLOCK_SIZE) CODE_FLASH_BLOCK_SIZE,
      mem_block Rom DATA_FLASH_BASE_ADDRESS DATA_FLASH_SIZE,
      mem_block Ram SRAM_BASE_ADDRESS SRAM_BLOCK_SIZE,
      mem_block Ram (SRAM_BASE_ADDRESS + SRAM_BLOCK_SIZE) SRAM_BLOCK_SIZE,
      mem_block Ram (SRAM_BASE_ADDRESS + 2 * SRAM_BLOCK_SIZE) SRAM_BLOCK_SIZE,
      mem_block Ram DTCM_BASE_ADDRESS DTCM_SIZE,
      mem_block Ram ITCM_BASE_ADDRESS ITCM_SIZE]"

definition uart_regions :: "(nat \<Rightarrow> 'c chardev_ops) \<Rightarrow> (nat \<Rightarrow> u32) \<Rightarrow> 'c periph mem_region list" where
  "uart_regions C hz =
     map (\<lambda>i. mem_block (Io (uart_io_read C i) (uart_io_write C hz i)) (LPUART_ADDR i) lpuart_mmio_size)
       [0..<NUM_LPUARTS]"

definition soc_devices :: "(nat \<Rightarrow> 'c chardev_ops) \<Rightarrow> (nat \<Rightarrow> u32) \<Rightarrow> 'c periph mem_region list" where
  "soc_devices C hz =
     mem_block (Io mc_me_read mc_me_write) MC_ME_BASE_ADDRESS MC_ME_SIZE # uart_regions C hz @
     [mem_block (Io guarded_read guarded_write) EDMA_BASE_ADDRESS edma_mmio0_size]"

definition soc_flatview :: "(nat \<Rightarrow> 'c chardev_ops) \<Rightarrow> (nat \<Rightarrow> u32) \<Rightarrow> 'c periph flatview" where
  "soc_flatview C hz = soc_memory @ soc_devices C hz @ unimplemented_regions"

end
