(* ===== verification/Hw_Clock.thy ===== *)
theory Hw_Clock
  imports Prelude
begin

section \<open>The clock tree\<close>

text \<open>
  \<^verbatim>\<open>qemu/hw/core/clock.c\<close> with the inline operations of \<^verbatim>\<open>qemu/include/hw/clock.h\<close>. Clocks are
  named by numbers; the tree maps a name to the clock object, and \<open>clk_trace\<close> records the callbacks
  that are run, in order. A period is in units of \<open>2 ^ -32\<close> ns. The recursion of
  \<open>clock_propagate_period\<close> follows the children of a clock; its depth is bounded by a fuel argument,
  and \<open>propagate_ok\<close> shows that a fuel above the height of the tree never runs out.
\<close>

subsection \<open>State\<close>

datatype ClockEvent = ClockUpdate | ClockPreUpdate

type_synonym clk_id = nat

record clock_obj =
  period :: u64
  callback :: "ClockEvent set option"
  multiplier :: u32
  divider :: u32
  source :: "clk_id option"
  children :: "clk_id list"

record clock_tree =
  clk :: "clk_id \<Rightarrow> clock_obj"
  clk_trace :: "(clk_id \<times> ClockEvent) list"

definition clock_initfn :: clock_obj where
  "clock_initfn = \<lparr>period = 0, callback = None, multiplier = 1, divider = 1, source = None, children = []\<rparr>"

definition upd_clk :: "clk_id \<Rightarrow> (clock_obj \<Rightarrow> clock_obj) \<Rightarrow> clock_tree \<Rightarrow> clock_tree" where
  "upd_clk c f T = T\<lparr>clk := (clk T)(c := f (clk T c))\<rparr>"

subsection \<open>Periods and frequencies\<close>

definition CLOCK_PERIOD_1SEC :: u64 where
  "CLOCK_PERIOD_1SEC = push_bit 32 1000000000"

definition CLOCK_PERIOD_FROM_HZ :: "u32 \<Rightarrow> u64" where
  "CLOCK_PERIOD_FROM_HZ hz = (if hz \<noteq> 0 then CLOCK_PERIOD_1SEC div ucast hz else 0)"

definition CLOCK_PERIOD_TO_HZ :: "u64 \<Rightarrow> u64" where
  "CLOCK_PERIOD_TO_HZ per = (if per \<noteq> 0 then CLOCK_PERIOD_1SEC div per else 0)"

definition muldiv64 :: "u64 \<Rightarrow> u32 \<Rightarrow> u32 \<Rightarrow> u64" where
  "muldiv64 a b c = of_nat (unat a * unat b div unat c)"

definition clock_get_hz :: "clock_tree \<Rightarrow> clk_id \<Rightarrow> u32" where
  "clock_get_hz T c = ucast (CLOCK_PERIOD_TO_HZ (period (clk T c)))"

subsection \<open>Operations\<close>

definition clock_set :: "clk_id \<Rightarrow> u64 \<Rightarrow> clock_tree \<Rightarrow> bool \<times> clock_tree" where
  "clock_set c p T =
     (if period (clk T c) = p then (False, T) else (True, upd_clk c (\<lambda>k. k\<lparr>period := p\<rparr>) T))"

definition clock_set_hz :: "clk_id \<Rightarrow> u32 \<Rightarrow> clock_tree \<Rightarrow> bool \<times> clock_tree" where
  "clock_set_hz c hz T = clock_set c (CLOCK_PERIOD_FROM_HZ hz) T"

definition clock_get_child_period :: "clock_obj \<Rightarrow> u64" where
  "clock_get_child_period k = muldiv64 (period k) (multiplier k) (divider k)"

definition clock_call_callback :: "clk_id \<Rightarrow> ClockEvent \<Rightarrow> clock_tree \<Rightarrow> clock_tree" where
  "clock_call_callback c e T =
     (case callback (clk T c) of
        Some events \<Rightarrow> if e \<in> events then T\<lparr>clk_trace := clk_trace T @ [(c, e)]\<rparr> else T
      | None \<Rightarrow> T)"

fun clock_propagate_period :: "nat \<Rightarrow> clk_id \<Rightarrow> bool \<Rightarrow> clock_tree \<Rightarrow> clock_tree option"
  and propagate_children :: "nat \<Rightarrow> u64 \<Rightarrow> clk_id list \<Rightarrow> bool \<Rightarrow> clock_tree \<Rightarrow> clock_tree option" where
  "clock_propagate_period 0 c cb T = None"
| "clock_propagate_period (Suc n) c cb T =
     propagate_children n (clock_get_child_period (clk T c)) (children (clk T c)) cb T"
| "propagate_children n child_period [] cb T = Some T"
| "propagate_children n child_period (child # cs) cb T =
     (if period (clk T child) \<noteq> child_period then
        let T = (if cb then clock_call_callback child ClockPreUpdate T else T);
            T = upd_clk child (\<lambda>k. k\<lparr>period := child_period\<rparr>) T;
            T = (if cb then clock_call_callback child ClockUpdate T else T)
        in (case clock_propagate_period n child cb T of
              None \<Rightarrow> None | Some T \<Rightarrow> propagate_children n child_period cs cb T)
      else propagate_children n child_period cs cb T)"

definition clock_propagate :: "nat \<Rightarrow> clk_id \<Rightarrow> clock_tree \<Rightarrow> clock_tree option" where
  "clock_propagate n c T = clock_propagate_period n c True T"

definition clock_update :: "nat \<Rightarrow> clk_id \<Rightarrow> u64 \<Rightarrow> clock_tree \<Rightarrow> clock_tree option" where
  "clock_update n c p T =
     (case clock_set c p T of (True, T) \<Rightarrow> clock_propagate n c T | (False, T) \<Rightarrow> Some T)"

text \<open>An error of \<open>Inl\<close> kind is the failed assertion of the source; \<open>None\<close> is exhausted fuel.\<close>

definition clock_set_source :: "nat \<Rightarrow> clk_id \<Rightarrow> clk_id \<Rightarrow> clock_tree \<Rightarrow> clock_tree option res" where
  "clock_set_source n c src T =
     assert_that (source (clk T c) = None)
       (let T = upd_clk c (\<lambda>k. k\<lparr>period := clock_get_child_period (clk T src)\<rparr>) T;
            T = upd_clk src (\<lambda>k. k\<lparr>children := c # children k\<rparr>) T;
            T = upd_clk c (\<lambda>k. k\<lparr>source := Some src\<rparr>) T
        in Inr (clock_propagate_period n c False T))"

definition clock_disconnect :: "clk_id \<Rightarrow> clock_tree \<Rightarrow> clock_tree" where
  "clock_disconnect c T =
     (case source (clk T c) of
        None \<Rightarrow> T
      | Some p \<Rightarrow> upd_clk p (\<lambda>k. k\<lparr>children := remove1 c (children k)\<rparr>)
          (upd_clk c (\<lambda>k. k\<lparr>source := None\<rparr>) T))"

definition clock_set_mul_div :: "clk_id \<Rightarrow> u32 \<Rightarrow> u32 \<Rightarrow> clock_tree \<Rightarrow> (bool \<times> clock_tree) res" where
  "clock_set_mul_div c mul dv T =
     assert_that (dv \<noteq> 0)
       (Inr (if multiplier (clk T c) = mul \<and> divider (clk T c) = dv then (False, T)
             else (True, upd_clk c (\<lambda>k. k\<lparr>multiplier := mul, divider := dv\<rparr>) T)))"

definition clock_has_source :: "clock_tree \<Rightarrow> clk_id \<Rightarrow> bool" where
  "clock_has_source T c \<longleftrightarrow> source (clk T c) \<noteq> None"

subsection \<open>Consistent trees\<close>

text \<open>
  The structure of a tree: child lists and source pointers agree, and a rank decreases from a clock
  to its children. \<open>ok_except E T\<close>: every clock outside \<open>E\<close> that has a source runs at the period
  its source gives to children.
\<close>

definition clock_wf :: "(clk_id \<Rightarrow> nat) \<Rightarrow> clock_tree \<Rightarrow> bool" where
  "clock_wf r T \<longleftrightarrow> (\<forall>c p. source (clk T c) = Some p \<longleftrightarrow> c \<in> set (children (clk T p))) \<and>
     (\<forall>c p. c \<in> set (children (clk T p)) \<longrightarrow> r c < r p)"

definition ok_except :: "clk_id set \<Rightarrow> clock_tree \<Rightarrow> bool" where
  "ok_except E T \<longleftrightarrow> (\<forall>c p. c \<notin> E \<longrightarrow> source (clk T c) = Some p \<longrightarrow>
     period (clk T c) = clock_get_child_period (clk T p))"

definition same_structure :: "clock_tree \<Rightarrow> clock_tree \<Rightarrow> bool" where
  "same_structure T T' \<longleftrightarrow> (\<forall>c. source (clk T' c) = source (clk T c) \<and>
     children (clk T' c) = children (clk T c) \<and> multiplier (clk T' c) = multiplier (clk T c) \<and>
     divider (clk T' c) = divider (clk T c) \<and> callback (clk T' c) = callback (clk T c))"

lemma same_structure_refl [simp]: "same_structure T T"
  by (simp add: same_structure_def)

lemma same_structure_trans: "same_structure T U \<Longrightarrow> same_structure U V \<Longrightarrow> same_structure T V"
  by (simp add: same_structure_def)

lemma same_structure_wf: "same_structure T T' \<Longrightarrow> clock_wf r T \<Longrightarrow> clock_wf r T'"
  by (simp add: same_structure_def clock_wf_def)

lemma clk_call_callback [simp]: "clk (clock_call_callback c e T) = clk T"
  by (simp add: clock_call_callback_def split: option.split)

lemma clk_upd_clk [simp]: "clk (upd_clk c f T) = (clk T)(c := f (clk T c))"
  by (simp add: upd_clk_def)

text \<open>Setting the period of a clock to the one its source gives moves the exceptions to its children.\<close>

lemma set_child_period:
  assumes "clock_wf r T" and "ok_except E T" and "source (clk T c) = Some p"
    and "clk T' = (clk T)(c := (clk T c)\<lparr>period := clock_get_child_period (clk T p)\<rparr>)"
  shows "same_structure T T'" and "ok_except (E - {c} \<union> set (children (clk T c))) T'"
proof -
  show "same_structure T T'" using assms(4) by (simp add: same_structure_def)
  have pc: "p \<noteq> c" using assms(1,3) by (auto simp: clock_wf_def)
  show "ok_except (E - {c} \<union> set (children (clk T c))) T'"
    unfolding ok_except_def
  proof (intro allI impI)
    fix x q assume x: "x \<notin> E - {c} \<union> set (children (clk T c))" and q: "source (clk T' x) = Some q"
    then have q': "source (clk T x) = Some q" using assms(4) by (auto split: if_splits)
    have "q \<noteq> c" using assms(1) x q' by (auto simp: clock_wf_def)
    then show "period (clk T' x) = clock_get_child_period (clk T' q)"
      using x q' assms(2,3,4) pc by (cases "x = c") (auto simp: ok_except_def)
  qed
qed

lemma ok_except_mono: "ok_except E T \<Longrightarrow> E \<subseteq> F \<Longrightarrow> ok_except F T"
  by (auto simp: ok_except_def)

text \<open>What one call of each of the two loops achieves, for a fuel above the rank.\<close>

definition propagated :: "(clk_id \<Rightarrow> nat) \<Rightarrow> nat \<Rightarrow> clk_id set \<Rightarrow> clock_tree \<Rightarrow> clock_tree option \<Rightarrow> bool" where
  "propagated r k E T res \<longleftrightarrow> (\<exists>T'. res = Some T' \<and> same_structure T T' \<and> ok_except E T' \<and>
     (\<forall>x. k \<le> r x \<longrightarrow> clk T' x = clk T x))"

lemma propagate_children_ok:
  assumes rec: "\<And>c E T. clock_wf r T \<Longrightarrow> ok_except E T \<Longrightarrow> r c < n \<Longrightarrow>
      propagated r (r c) (E - set (children (clk T c))) T (clock_propagate_period n c cb T)"
    and "clock_wf r T" and "ok_except E T" and "set cs \<subseteq> set (children (clk T p))"
    and "cp = clock_get_child_period (clk T p)" and "r p \<le> n"
  shows "propagated r (r p) (E - set cs) T (propagate_children n cp cs cb T)"
  using assms(2-5)
proof (induction cs arbitrary: E T)
  case Nil
  then show ?case by (simp add: propagated_def)
next
  case (Cons child cs)
  have src: "source (clk T child) = Some p" and lt: "r child < r p"
    using Cons.prems(1,3) by (auto simp: clock_wf_def)
  have E: "E - {child} - set cs = E - set (child # cs)" by auto
  show ?case
  proof (cases "period (clk T child) = cp")
    case True
    then have "ok_except (E - {child}) T"
      using Cons.prems(2,4) src by (auto simp: ok_except_def)
    from Cons.IH[OF Cons.prems(1) this] Cons.prems(3,4) True E show ?thesis by simp
  next
    case False
    define T1 where "T1 = (let T = (if cb then clock_call_callback child ClockPreUpdate T else T);
            T = upd_clk child (\<lambda>k. k\<lparr>period := cp\<rparr>) T
        in if cb then clock_call_callback child ClockUpdate T else T)"
    have T1: "clk T1 = (clk T)(child := (clk T child)\<lparr>period := clock_get_child_period (clk T p)\<rparr>)"
      using Cons.prems(4) by (simp add: T1_def Let_def)
    note s1 = set_child_period[OF Cons.prems(1,2) src T1]
    have "r child < n" using lt assms(6) by simp
    from rec[OF same_structure_wf[OF s1(1) Cons.prems(1)] s1(2) this] obtain T2 where
      T2: "clock_propagate_period n child cb T1 = Some T2" "same_structure T1 T2"
        "ok_except (E - {child}) T2" "\<And>x. r child \<le> r x \<Longrightarrow> clk T2 x = clk T1 x"
      unfolding propagated_def by (auto simp: T1 intro: ok_except_mono)
    have p: "clk T2 x = clk T x" if "r p \<le> r x" for x
    proof -
      have "x \<noteq> child" using that lt by auto
      then show ?thesis using T2(4)[of x] that lt by (simp add: T1)
    qed
    have ss: "same_structure T T2" using s1(1) T2(2) by (rule same_structure_trans)
    have "propagated r (r p) (E - {child} - set cs) T2 (propagate_children n cp cs cb T2)"
      using Cons.IH[OF same_structure_wf[OF ss Cons.prems(1)] T2(3)] Cons.prems(3,4) p[of p] by simp
    moreover have "propagate_children n cp (child # cs) cb T = propagate_children n cp cs cb T2"
      using False T2(1) by (simp add: T1_def Let_def)
    ultimately show ?thesis
      using ss p unfolding propagated_def E by (auto intro: same_structure_trans)
  qed
qed

lemma propagate_ok:
  "clock_wf r T \<Longrightarrow> ok_except E T \<Longrightarrow> r c < n \<Longrightarrow>
     propagated r (r c) (E - set (children (clk T c))) T (clock_propagate_period n c cb T)"
proof (induction n arbitrary: c E T)
  case (Suc n)
  then show ?case
    using propagate_children_ok[OF Suc.IH Suc.prems(1,2) subset_refl refl, of c]
    by (simp add: less_Suc_eq_le)
qed simp

lemma ok_except_set_period:
  assumes "ok_except E T" and "clk T' = (clk T)(c := (clk T c)\<lparr>period := p\<rparr>)" and "clock_wf r T"
  shows "ok_except (insert c E \<union> set (children (clk T c))) T'"
proof -
  have "x \<in> set (children (clk T c))" if "source (clk T x) = Some c" for x
    using that assms(3) by (simp add: clock_wf_def)
  then show ?thesis using assms(1,2) by (fastforce simp: ok_except_def)
qed

text \<open>
  C9: changing the frequency of a root clock keeps the whole tree consistent. If every connected clock
  runs at the period its source prescribes (the source's period times its multiplier over its
  divider), then after \<open>clock_update\<close> on a clock without a source the same holds again, the shape of
  the tree is unchanged, and the propagation finishes: a fuel above the rank of the clock is enough.
\<close>

theorem clock_update_consistent:
  assumes "clock_wf r T" and "ok_except {} T" and "source (clk T c) = None" and "r c < n"
  shows "\<exists>T'. clock_update n c p T = Some T' \<and> period (clk T' c) = p \<and> same_structure T T' \<and>
    ok_except {} T'"
proof (cases "period (clk T c) = p")
  case True
  then show ?thesis using assms(2) by (simp add: clock_update_def clock_set_def)
next
  case False
  define T1 where "T1 = upd_clk c (\<lambda>k. k\<lparr>period := p\<rparr>) T"
  have T1: "clk T1 = (clk T)(c := (clk T c)\<lparr>period := p\<rparr>)" by (simp add: T1_def)
  have ss: "same_structure T T1" by (simp add: T1 same_structure_def)
  have "ok_except ({c} \<union> set (children (clk T c))) T1"
    using ok_except_set_period[OF assms(2) T1 assms(1)] by simp
  from propagate_ok[OF same_structure_wf[OF ss assms(1)] this assms(4), of True]
  obtain T2 where T2: "clock_propagate n c T1 = Some T2" "same_structure T1 T2" "clk T2 c = clk T1 c"
    and ok: "ok_except ({c} \<union> set (children (clk T c)) - set (children (clk T1 c))) T2"
    unfolding propagated_def clock_propagate_def by blast
  have "ok_except {c} T2" using ok by (rule ok_except_mono) (auto simp: T1)
  moreover have "source (clk T2 c) = None" using assms(3) ss T2(2) by (simp add: same_structure_def)
  ultimately have "ok_except {} T2" unfolding ok_except_def by (metis option.distinct(1) singletonD)
  with False T2 ss show ?thesis
    by (auto simp: clock_update_def clock_set_def T1_def intro: same_structure_trans)
qed

definition two_clocks :: clock_tree where
  "two_clocks = \<lparr>clk = (\<lambda>_. clock_initfn)(
       0 := clock_initfn\<lparr>multiplier := 8, children := [1]\<rparr>,
       1 := clock_initfn\<lparr>source := Some 0\<rparr>), clk_trace = []\<rparr>"

lemma clock_update_consistent_witness:
  "\<exists>T'. clock_update 2 0 26843545600 two_clocks = Some T' \<and> period (clk T' 0) = 26843545600 \<and>
     ok_except {} T'"
proof -
  let ?r = "\<lambda>c. if c = (0 :: nat) then 1 else 0 :: nat"
  have "clock_wf ?r two_clocks" "ok_except {} two_clocks" "source (clk two_clocks 0) = None"
    by (auto simp: clock_wf_def ok_except_def two_clocks_def clock_initfn_def
        clock_get_child_period_def muldiv64_def)
  from clock_update_consistent[OF this, of 2 26843545600] show ?thesis by auto
qed

end
