(* ===== verification/Lpuart_Props.thy ===== *)
theory Lpuart_Props
  imports Lpuart
begin

section \<open>Properties of the LPUART\<close>

text \<open>
  The character backends of the UART as an interface (locale \<open>uart_backend\<close>), the invariant of the
  interrupt line, what the guest sees of received bytes, and the effect of every register write.
\<close>

subsection \<open>Fields\<close>

lemma field_in_ufld [simp]: "field_in 64 (ufld f)" "field_in 32 (ufld f)"
  by (cases f; simp add: field_in_def field_consts)+

lemma and_ufld:
  fixes v :: "'a :: len word"
  assumes "snd (ufld f) = 1"
  shows "v AND R_MASK (ufld f) \<noteq> 0 \<longleftrightarrow> bit v (fst (ufld f))"
    and "v AND R_MASK (ufld f) = 0 \<longleftrightarrow> \<not> bit v (fst (ufld f))"
proof -
  obtain k where k: "ufld f = (k, 1)" using assms by (cases "ufld f") simp
  then have "field_in 64 (k, 1)" using field_in_ufld(1)[of f] by simp
  then show "v AND R_MASK (ufld f) \<noteq> 0 \<longleftrightarrow> bit v (fst (ufld f))"
    unfolding k by (subst and_R_MASK_one_bit) simp_all
  then show "v AND R_MASK (ufld f) = 0 \<longleftrightarrow> \<not> bit v (fst (ufld f))" by blast
qed

lemma bit_ufld_mask:
  assumes "snd (ufld f) = 1"
  shows "bit (R_MASK (ufld f) :: u32) n \<longleftrightarrow> n = fst (ufld f)"
  using assms field_in_ufld(2)[of f] bit_R_MASK[OF field_in_ufld(1)[of f], of n, where 'a = 32]
  by (auto simp: field_in_def)

lemma uart_flags:
  "v AND R_MASK (ufld STAT_RDRF) = 0 \<longleftrightarrow> \<not> bit v 21" "v AND R_MASK (ufld GLOBAL_RST) = 0 \<longleftrightarrow> \<not> bit v 1"
  "v AND R_MASK (ufld CONTROL_M) = 0 \<longleftrightarrow> \<not> bit v 4" "v AND R_MASK (ufld CONTROL_M7) = 0 \<longleftrightarrow> \<not> bit v 11"
  "v AND R_MASK (ufld CONTROL_RE) = 0 \<longleftrightarrow> \<not> bit v 18"
  for v :: u32
  using and_ufld(2)[of STAT_RDRF v] and_ufld(2)[of GLOBAL_RST v] and_ufld(2)[of CONTROL_M v]
    and_ufld(2)[of CONTROL_M7 v] and_ufld(2)[of CONTROL_RE v]
  by (simp_all add: ufld.simps)

lemma bit_uart_masks:
  "bit (R_MASK (ufld STAT_RDRF) :: u32) n \<longleftrightarrow> n = 21" "bit (R_MASK (ufld CONTROL_RIE) :: u32) n \<longleftrightarrow> n = 21"
  "bit (R_MASK (ufld CONTROL_TCIE) :: u32) n \<longleftrightarrow> n = 22" "bit (R_MASK (ufld CONTROL_TIE) :: u32) n \<longleftrightarrow> n = 23"
  using bit_ufld_mask[of STAT_RDRF n] bit_ufld_mask[of CONTROL_RIE n] bit_ufld_mask[of CONTROL_TCIE n]
    bit_ufld_mask[of CONTROL_TIE n]
  by (simp_all add: ufld.simps)

lemmas uart_bits = uart_flags bit_uart_masks bit_or_iff bit_and_iff bit_not_iff

lemma irq_mask_iff: "w AND lpuart_irq_mask \<noteq> 0 \<longleftrightarrow> bit w 21 \<or> bit w 22 \<or> bit w 23"
  by (auto simp: word_neq_0_iff_bit lpuart_irq_mask_def uart_bits)

lemma can_receive_iff: "lpuart_can_receive s \<longleftrightarrow> \<not> bit (lpuart_stat s) 21"
  by (simp add: lpuart_can_receive_def uart_bits)

subsection \<open>The interrupt line\<close>

text \<open>
  What the guest may rely on: the line is exactly the enabled part of the status flags, the
  transmitter is always reported empty (bits 22 and 23), and no other bit of \<open>STAT\<close> but the
  receive flag (bit 21) is ever set.
\<close>

definition lpuart_inv :: "lpuart_state \<Rightarrow> bool" where
  "lpuart_inv s \<longleftrightarrow>
     (lpuart_irq s \<longleftrightarrow> (\<exists>k \<in> {21, 22, 23}. bit (lpuart_stat s) k \<and> bit (lpuart_control s) k)) \<and>
     (\<forall>k. k \<noteq> 21 \<longrightarrow> (bit (lpuart_stat s) k \<longleftrightarrow> k = 22 \<or> k = 23))"

lemma update_irq_fields [simp]:
  "lpuart_stat (lpuart_update_irq s) = lpuart_stat s"
  "lpuart_control (lpuart_update_irq s) = lpuart_control s"
  "lpuart_data (lpuart_update_irq s) = lpuart_data s"
  "lpuart_irq (lpuart_update_irq s) \<longleftrightarrow>
     (\<exists>k \<in> {21, 22, 23}. bit (lpuart_stat s) k \<and> bit (lpuart_control s) k)"
  using irq_mask_iff[of "lpuart_stat s AND lpuart_control s"]
  by (auto simp: lpuart_update_irq_def Let_def bit_and_iff)

definition stat_ok :: "lpuart_state \<Rightarrow> bool" where
  "stat_ok s \<longleftrightarrow> (\<forall>k. k \<noteq> 21 \<longrightarrow> (bit (lpuart_stat s) k \<longleftrightarrow> k = 22 \<or> k = 23))"

lemma uart_update_irq_inv: "stat_ok s \<Longrightarrow> lpuart_inv (lpuart_update_irq s)"
  by (simp add: lpuart_inv_def stat_ok_def)

lemma inv_stat_ok: "lpuart_inv s \<Longrightarrow> stat_ok s"
  by (simp add: lpuart_inv_def stat_ok_def)

lemma receive_inv: "lpuart_inv s \<Longrightarrow> lpuart_inv (lpuart_receive b s)"
  by (auto simp: lpuart_receive_def stat_ok_def uart_bits intro!: uart_update_irq_inv dest!: inv_stat_ok)

lemma receive_stat_ok: "stat_ok s \<Longrightarrow> stat_ok (lpuart_receive b s)"
  by (auto simp: lpuart_receive_def stat_ok_def uart_bits)

lemma fold_receive_stat_ok: "stat_ok s \<Longrightarrow> stat_ok (fold lpuart_receive bs s)"
  by (induction bs arbitrary: s) (simp_all add: receive_stat_ok)

lemma reset_stat: "bit (0x00C00000 :: u32) k \<longleftrightarrow> k = 22 \<or> k = 23"
proof -
  have "(0x00C00000 :: u32) = push_bit 22 1 OR push_bit 23 1" by simp
  then show ?thesis
    by (simp only: bit_or_iff bit_push_bit_iff bit_1_iff possible_bit_word) auto
qed

lemma reset_inv: "lpuart_inv (lpuart_reset s)"
proof -
  obtain t where t: "lpuart_reset s = lpuart_update_irq t" and st: "lpuart_stat t = 0x00C00000"
    by (rule that, rule lpuart_reset_def) simp
  have "stat_ok t" unfolding stat_ok_def st reset_stat by simp
  then show ?thesis unfolding t by (rule uart_update_irq_inv)
qed

subsection \<open>Character backends\<close>

text \<open>
  What the UART relies on: accepting input does nothing to the UART but hand it received bytes.
\<close>

locale uart_backend =
  fixes C :: "'c chardev_ops"
  assumes accept_delivers: "chr_accept_input C s c = (s', c') \<Longrightarrow> \<exists>bs. s' = fold lpuart_receive bs s"
begin

lemma read_inv:
  assumes "lpuart_inv s" and "lpuart_read C s addr c = (v, s', c')"
  shows "lpuart_inv s'"
proof -
  let ?s = "s\<lparr>lpuart_stat := lpuart_stat s AND NOT (R_MASK (ufld STAT_RDRF))\<rparr>"
  obtain s1 c1 where a: "chr_accept_input C ?s c = (s1, c1)" by (cases "chr_accept_input C ?s c")
  from accept_delivers[OF a] obtain bs where bs: "s1 = fold lpuart_receive bs ?s" by blast
  have "stat_ok ?s"
    using inv_stat_ok[OF assms(1)] by (auto simp: stat_ok_def uart_bits dest: bit_imp_le_length)
  then have "lpuart_inv (lpuart_update_irq s1)"
    unfolding bs by (intro uart_update_irq_inv fold_receive_stat_ok)
  with assms a show ?thesis
    by (auto simp: lpuart_read_def Let_def split: option.splits lpuart_reg.splits)
qed

lemma write_inv:
  assumes "lpuart_inv s" and "lpuart_write C hz s addr v c = Inr (s', c')"
  shows "lpuart_inv s'"
proof -
  have "lpuart_inv (s\<lparr>lpuart_global := x\<rparr>)" "lpuart_inv (s\<lparr>lpuart_baud := x\<rparr>)"
    "lpuart_inv (lpuart_update_irq (s\<lparr>lpuart_control := x\<rparr>))" for x
    using assms(1) by (auto simp: lpuart_inv_def)
  with assms show ?thesis
    by (auto simp: lpuart_write_def Let_def res_bind_eq_Inr_iff reset_inv
        split: option.splits lpuart_reg.splits if_splits)
qed

end

text \<open>The multiplexer with the UART on its first slot, and a UART with no character device.\<close>

definition uart_slots :: "nat \<Rightarrow> lpuart_state frontend option" where
  "uart_slots m = (if m = 0 then Some lpuart_frontend else None)"

definition mux_ops :: "mux_chardev chardev_ops" where
  "mux_ops = \<lparr>chr_accept_input = (\<lambda>s d. let (d', s') = mux_chr_accept_input uart_slots d s in (s', d')),
     chr_write_all = (\<lambda>b d. mux_chr_write [b] d), chr_set_params = (\<lambda>_ d. d)\<rparr>"

definition null_ops :: "unit chardev_ops" where
  "null_ops = \<lparr>chr_accept_input = (\<lambda>s c. (s, c)), chr_write_all = (\<lambda>_ c. c), chr_set_params = (\<lambda>_ c. c)\<rparr>"

lemma deliver_uart: "fe_deliver (uart_slots m) b s = (if m = 0 then lpuart_receive b s else s)"
  by (simp add: fe_deliver_def uart_slots_def lpuart_frontend_def)

lemma accept_loop_receives:
  "mux_accept_loop (uart_slots m) m d s = (d', s') \<Longrightarrow> \<exists>bs. s' = fold lpuart_receive bs s"
proof (induction "uart_slots m" m d s arbitrary: d' s' rule: mux_accept_loop.induct)
  case (1 m d s)
  show ?case
  proof (cases "m < length (cons d) \<and> prod d ! m \<noteq> cons d ! m \<and> fe_ready (uart_slots m) s")
    case True
    obtain b d1 where p: "mux_pop m d = (b, d1)" by (cases "mux_pop m d")
    have "mux_accept_loop (uart_slots m) m d1 (fe_deliver (uart_slots m) b s) = (d', s')"
      using "1.prems" True p by (simp add: mux_accept_loop.simps[of _ m d s])
    from "1.hyps"[OF True p[symmetric] refl this] obtain bs where
      "s' = fold lpuart_receive bs (fe_deliver (uart_slots m) b s)" by blast
    then have "s' = fold lpuart_receive (if m = 0 then b # bs else bs) s" by (simp add: deliver_uart)
    then show ?thesis by blast
  next
    case False
    then have "s' = fold lpuart_receive [] s"
      using "1.prems" by (auto simp: mux_accept_loop.simps[of _ m d s])
    then show ?thesis by blast
  qed
qed

interpretation mux_uart: uart_backend mux_ops
proof
  fix s c s' c' assume "chr_accept_input mux_ops s c = (s', c')"
  then show "\<exists>bs. s' = fold lpuart_receive bs s"
    by (auto simp: mux_ops_def mux_chr_accept_input_def Let_def split: prod.splits
        dest!: accept_loop_receives)
qed

interpretation null_uart: uart_backend null_ops
proof
  fix s c s' c' assume "chr_accept_input null_ops s c = (s', c')"
  then have "s' = fold lpuart_receive [] s" by (simp add: null_ops_def)
  then show "\<exists>bs. s' = fold lpuart_receive bs s" by blast
qed

subsection \<open>Reachable states\<close>

inductive uart_step :: "u32 \<Rightarrow> lpuart_state \<times> mux_chardev \<Rightarrow> lpuart_state \<times> mux_chardev \<Rightarrow> bool" for hz where
  uart_guest_read: "lpuart_read mux_ops s addr d = (v, s', d') \<Longrightarrow> uart_step hz (s, d) (s', d')"
| uart_guest_write: "lpuart_write mux_ops hz s addr v d = Inr (s', d') \<Longrightarrow> uart_step hz (s, d) (s', d')"
| uart_terminal: "mux_chr_read uart_slots buf d s = Inr (d', s') \<Longrightarrow> uart_step hz (s, d) (s', d')"
| uart_reset: "uart_step hz (s, d) (lpuart_reset s, d)"

inductive uart_reachable :: "u32 \<Rightarrow> lpuart_state \<times> mux_chardev \<Rightarrow> bool" for hz where
  uart_reach_reset: "uart_reachable hz (lpuart_reset s, d)"
| uart_reach_step: "uart_reachable hz x \<Longrightarrow> uart_step hz x y \<Longrightarrow> uart_reachable hz y"

inductive_cases uart_stepE: "uart_step hz x y"

lemma fold_receive_inv: "lpuart_inv s \<Longrightarrow> lpuart_inv (fold lpuart_receive bs s)"
  by (induction bs arbitrary: s) (simp_all add: receive_inv)

lemma read_bytes_inv:
  "mux_read_bytes (uart_slots m) m bs d s = Inr (d', s') \<Longrightarrow> lpuart_inv s \<Longrightarrow> lpuart_inv s'"
proof (induction bs arbitrary: d s)
  case (Cons b bs)
  from Cons.prems(1) obtain pass d1 where "mux_proc_byte b d = Inr (pass, d1)"
    and "(\<exists>d2. mux_read_bytes (uart_slots m) m bs d2 s = Inr (d', s')) \<or>
      mux_read_bytes (uart_slots m) m bs d1 (fe_deliver (uart_slots m) b s) = Inr (d', s')"
    by (auto simp: res_bind_eq_Inr_iff split: if_splits)
  with Cons.IH Cons.prems(2) show ?case by (auto simp: deliver_uart receive_inv)
qed simp

lemma mux_chr_read_inv:
  assumes "mux_chr_read uart_slots buf d s = Inr (d', s')" and "lpuart_inv s"
  shows "lpuart_inv s'"
proof -
  obtain d1 s1 where l: "mux_accept_loop (uart_slots (focus d)) (focus d) d s = (d1, s1)"
    by (cases "mux_accept_loop (uart_slots (focus d)) (focus d) d s")
  from accept_loop_receives[OF l] assms(2) have "lpuart_inv s1" by (auto intro: fold_receive_inv)
  moreover have "mux_read_bytes (uart_slots (focus d)) (focus d) buf d1 s1 = Inr (d', s')"
    using assms(1) l by (simp add: mux_chr_read_def mux_chr_accept_input_def Let_def)
  ultimately show ?thesis by (blast intro: read_bytes_inv)
qed

lemma uart_step_inv: "uart_step hz x y \<Longrightarrow> lpuart_inv (fst x) \<Longrightarrow> lpuart_inv (fst y)"
  by (erule uart_stepE) (auto dest: mux_uart.read_inv mux_uart.write_inv mux_chr_read_inv intro: reset_inv)

lemma uart_reachable_inv: "uart_reachable hz x \<Longrightarrow> lpuart_inv (fst x)"
  by (induction rule: uart_reachable.induct) (auto simp: reset_inv intro: uart_step_inv)

text \<open>
  C10: in every state the UART can reach behind the multiplexer (guest reads and writes of any
  register, input from the terminal, resets), the interrupt line is raised exactly when one of the
  flags RDRF, TC and TDRE of \<open>STAT\<close> is set together with its enable bit of \<open>CONTROL\<close>, TC and TDRE
  always read as set, and no bit of \<open>STAT\<close> other than these three is ever set.
\<close>

theorem lpuart_irq_is_enabled_status:
  assumes "uart_reachable hz (s, d)"
  shows "(lpuart_irq s \<longleftrightarrow> (\<exists>k \<in> {21, 22, 23}. bit (lpuart_stat s) k \<and> bit (lpuart_control s) k)) \<and>
    bit (lpuart_stat s) 22 \<and> bit (lpuart_stat s) 23 \<and>
    (\<forall>k. bit (lpuart_stat s) k \<longrightarrow> k \<in> {21, 22, 23})"
  using uart_reachable_inv[OF assms] by (auto simp: lpuart_inv_def)

definition lpuart_zeroed :: lpuart_state where
  "lpuart_zeroed = \<lparr>lpuart_port = 0, lpuart_verid = 0, lpuart_param = 0, lpuart_global = 0,
     lpuart_pincfg = 0, lpuart_baud = 0, lpuart_stat = 0, lpuart_control = 0, lpuart_data = 0,
     lpuart_match = 0, lpuart_modir = 0, lpuart_fifo = 0, lpuart_water = 0, lpuart_dataro = 0,
     lpuart_mcr = 0, lpuart_msr = 0, lpuart_reir = 0, lpuart_teir = 0, lpuart_hdcr = 0,
     lpuart_tocr = 0, lpuart_tosr = 0, lpuart_timeout = [], lpuart_tcb = [], lpuart_tdb = [],
     lpuart_irq = False\<rparr>"

lemma lpuart_irq_is_enabled_status_witness:
  "uart_reachable 40000000 (lpuart_reset lpuart_zeroed, mux_fresh) \<and>
   bit (lpuart_stat (lpuart_reset lpuart_zeroed)) 22"
proof -
  have r: "uart_reachable 40000000 (lpuart_reset lpuart_zeroed, mux_fresh)" by (rule uart_reach_reset)
  from lpuart_irq_is_enabled_status[OF r] r show ?thesis by blast
qed

subsection \<open>Reading received data\<close>

lemma lpuart_reg_at_A:
  "lpuart_reg_at (A_LPUART r) = (if r \<in> {VERID, STAT, GLOBAL, DATA, DATARO, CONTROL, BAUD} then Some r else None)"
  by (cases r) (simp_all add: lpuart_reg_at_def A_LPUART.simps)

lemma ready_uart: "fe_ready (uart_slots 0) s \<longleftrightarrow> lpuart_can_receive s"
  by (simp add: fe_ready_def uart_slots_def lpuart_frontend_def)

lemma receive_enabled:
  assumes "bit (lpuart_control s) 18"
  shows "lpuart_data (lpuart_receive b s) = ucast b" and "bit (lpuart_stat (lpuart_receive b s)) 21"
    and "lpuart_control (lpuart_receive b s) = lpuart_control s"
  using assms by (simp_all add: lpuart_receive_def uart_bits)

text \<open>A receiving UART takes exactly one byte from the queue, and only when its register is empty.\<close>

lemma mux_accept_one:
  assumes "mux_wf d 0" and "focus d = 0" and "bit (lpuart_control s) 18" and "\<not> bit (lpuart_stat s) 21"
  shows "(mux_queue d 0 = [] \<longrightarrow> chr_accept_input mux_ops s d = (s, d)) \<and>
    (\<forall>b q. mux_queue d 0 = b # q \<longrightarrow> (\<exists>d'. chr_accept_input mux_ops s d = (lpuart_receive b s, d') \<and>
       mux_queue d' 0 = q \<and> mux_wf d' 0 \<and> focus d' = 0))"
proof (cases "mux_queue d 0")
  case Nil
  then have "mux_accept_loop (uart_slots 0) 0 d s = (d, s)"
    by (simp add: mux_accept_loop.simps[of _ 0 d s] mux_queue_empty[symmetric])
  with Nil assms(2) show ?thesis by (simp add: mux_ops_def mux_chr_accept_input_def)
next
  case (Cons b q)
  obtain b' d1 where p: "mux_pop 0 d = (b', d1)" by (cases "mux_pop 0 d")
  have ne: "prod d ! 0 \<noteq> cons d ! 0" using Cons mux_queue_empty[of d 0] by auto
  from mux_pop_queue[OF assms(1) ne] p Cons have d1: "b' = b" "mux_queue d1 0 = q" "mux_wf d1 0" by auto
  have f: "focus d1 = 0" using mux_pop_fields(2)[of 0 d] p assms(2) by simp
  have "mux_accept_loop (uart_slots 0) 0 d1 (lpuart_receive b s) = (d1, lpuart_receive b s)"
    using receive_enabled(2)[OF assms(3), of b]
    by (simp add: mux_accept_loop.simps[of _ 0 d1] ready_uart can_receive_iff)
  then have "mux_accept_loop (uart_slots 0) 0 d s = (d1, lpuart_receive b s)"
    using assms(1,4) ne p d1(1)
    by (simp add: mux_accept_loop.simps[of _ 0 d s] ready_uart can_receive_iff deliver_uart mux_wf_def)
  with Cons d1 f assms(2) show ?thesis by (simp add: mux_ops_def mux_chr_accept_input_def)
qed

lemma data_read:
  assumes "mux_wf d 0" and "focus d = 0" and "bit (lpuart_control s) 18" and "r \<in> {DATA, DATARO}"
  shows "\<exists>s' d'. lpuart_read mux_ops s (A_LPUART r) d =
      (case mux_queue d 0 of [] \<Rightarrow> ucast (lpuart_data s) | b # q \<Rightarrow> ucast b, s', d') \<and>
    mux_queue d' 0 = tl (mux_queue d 0) \<and> mux_wf d' 0 \<and> focus d' = 0 \<and>
    lpuart_control s' = lpuart_control s \<and> lpuart_data s' =
      (case mux_queue d 0 of [] \<Rightarrow> lpuart_data s | b # q \<Rightarrow> ucast b) \<and>
    bit (lpuart_stat s') 21 = (mux_queue d 0 \<noteq> [])"
proof -
  define t where "t = s\<lparr>lpuart_stat := lpuart_stat s AND NOT (R_MASK (ufld STAT_RDRF))\<rparr>"
  have t: "bit (lpuart_control t) 18" "\<not> bit (lpuart_stat t) 21" "lpuart_control t = lpuart_control s"
    "lpuart_data t = lpuart_data s"
    using assms(3) by (simp_all add: t_def uart_bits)
  have rd: "lpuart_read mux_ops s (A_LPUART r) d =
      (case chr_accept_input mux_ops t d of (s', d') \<Rightarrow>
         (ucast (lpuart_data s'), lpuart_update_irq s', d'))"
    using assms(4) by (auto simp: lpuart_read_def Let_def lpuart_reg_at_A t_def split: prod.split)
  note acc = mux_accept_one[OF assms(1,2) t(1,2)]
  show ?thesis
  proof (cases "mux_queue d 0")
    case Nil
    with acc assms(1,2) t show ?thesis by (simp add: rd)
  next
    case (Cons b q)
    with acc obtain d' where "chr_accept_input mux_ops t d = (lpuart_receive b t, d')"
      "mux_queue d' 0 = q" "mux_wf d' 0" "focus d' = 0" by blast
    with Cons receive_enabled[OF t(1), of b] t show ?thesis by (simp add: rd)
  qed
qed

text \<open>The values that \<open>n\<close> successive reads of \<open>DATA\<close> return to the guest.\<close>

fun guest_data_reads :: "nat \<Rightarrow> lpuart_state \<Rightarrow> mux_chardev \<Rightarrow> u64 list" where
  "guest_data_reads 0 s d = []"
| "guest_data_reads (Suc n) s d =
     (case lpuart_read mux_ops s (A_LPUART DATA) d of (v, s', d') \<Rightarrow> v # guest_data_reads n s' d')"

text \<open>
  C11: behind the multiplexer a guest that reads \<open>DATA\<close> while more input is queued does not see the
  byte that raised the receive flag: accepting the next byte overwrites the data register before its
  value is returned. With byte \<open>b\<close> in the data register and the bytes \<open>q\<close> queued, the next
  \<open>length q + 1\<close> reads return \<open>q\<close> and then its last byte again (or \<open>b\<close>, correctly, if nothing is
  queued); \<open>b\<close> is lost.
\<close>

theorem lpuart_reads_skip_first_byte:
  assumes "mux_wf d 0" and "focus d = 0" and "bit (lpuart_control s) 18" and "lpuart_data s = ucast b"
  shows "guest_data_reads (Suc (length (mux_queue d 0))) s d =
    map ucast (mux_queue d 0 @ [last (b # mux_queue d 0)])"
  using assms
proof (induction "mux_queue d 0" arbitrary: s d b)
  case Nil
  from data_read[OF Nil.prems(1-3), of DATA] Nil.prems(4) Nil.hyps[symmetric] show ?case by auto
next
  case (Cons x q)
  from data_read[OF Cons.prems(1-3), of DATA] Cons.hyps(2)[symmetric] obtain s' d' where
    r: "lpuart_read mux_ops s (A_LPUART DATA) d = (ucast x, s', d')"
    and d': "mux_queue d' 0 = q" "mux_wf d' 0" "focus d' = 0"
    and s': "lpuart_control s' = lpuart_control s" "lpuart_data s' = ucast x" by auto
  from Cons.hyps(1)[OF d'(1)[symmetric] d'(2,3), of s' x] Cons.prems(3) s' d'(1)
  have "guest_data_reads (Suc (length q)) s' d' = map ucast (q @ [last (x # q)])" by simp
  with r Cons.hyps(2)[symmetric] show ?case by simp
qed

definition rx_uart :: lpuart_state where
  "rx_uart = lpuart_zeroed\<lparr>lpuart_control := 0x00040000, lpuart_stat := 0x00E00000, lpuart_data := 65\<rparr>"

lemma lpuart_reads_skip_first_byte_witness:
  "guest_data_reads 3 rx_uart (mux_push 0 67 (mux_push 0 66 mux_fresh)) = [66, 67, 67]"
proof -
  have f: "mux_wf mux_fresh 0" "mux_count mux_fresh 0 = 0" "mux_queue mux_fresh 0 = []"
    by (simp_all add: mux_wf_def mux_fresh_def mux_count_def mux_queue_def)
  note q1 = mux_push_queue[OF f(1), of 66]
  have "mux_count (mux_push 0 66 mux_fresh) 0 < 32"
    by (simp add: mux_count_def mux_push_def mux_fresh_def)
  note q2 = mux_push_queue[OF q1(2) this, of 67]
  have q: "mux_wf (mux_push 0 67 (mux_push 0 66 mux_fresh)) 0"
    "mux_queue (mux_push 0 67 (mux_push 0 66 mux_fresh)) 0 = [66, 67]"
    using q1 q2 f by simp_all
  have "focus (mux_push 0 67 (mux_push 0 66 mux_fresh)) = 0" "bit (lpuart_control rx_uart) 18"
    "lpuart_data rx_uart = ucast (65 :: u8)"
    by (simp_all add: mux_push_def mux_fresh_def rx_uart_def lpuart_zeroed_def bit_numeral_rec)
  from lpuart_reads_skip_first_byte[OF q(1) this] q(2) show ?thesis
    by (simp add: numeral_3_eq_3)
qed

subsection \<open>Writing\<close>

lemma mux_chr_write_one:
  "mux_out (mux_chr_write [b] d) =
     mux_out d @ (if timestamps d \<and> linestart d then [OutTimestamp] else []) @ [OutByte b]"
  by (simp add: mux_chr_write_def Let_def)

text \<open>
  C12: a write to \<open>DATA\<close> sends exactly one byte, at once, and leaves every register alone: in 8-bit
  mode the low byte of the value, in 7-bit mode its low seven bits; in 9-bit mode, which is not
  supported, nothing is sent.
\<close>

theorem lpuart_data_write:
  "\<exists>d'. lpuart_write mux_ops hz s (A_LPUART DATA) v d = Inr (s, d') \<and>
    mux_out d' = mux_out d @
      (if bit (lpuart_control s) 4 then []
       else (if timestamps d \<and> linestart d then [OutTimestamp] else []) @
         [OutByte (if bit (lpuart_control s) 11 then take_bit 7 (ucast v) else ucast v)])"
proof -
  have c: "(ucast (ucast v :: u32) :: u8) = ucast v"
    "(ucast ((ucast v :: u32) AND 0x7F) :: u8) = take_bit 7 (ucast v)"
  proof -
    show "(ucast (ucast v :: u32) :: u8) = ucast v" by (rule bit_word_eqI) (simp add: bit_simps)
    have "(0x7F :: u32) = mask 7" by (simp add: mask_eq_exp_minus_1)
    then have "(ucast v :: u32) AND 0x7F = take_bit 7 (ucast v)" by (simp only: take_bit_eq_mask)
    then show "(ucast ((ucast v :: u32) AND 0x7F) :: u8) = take_bit 7 (ucast v)"
      by (simp only:) (rule bit_word_eqI, auto simp: bit_simps)
  qed
  show ?thesis
    by (simp add: lpuart_write_def Let_def lpuart_reg_at_A uart_bits mux_ops_def mux_chr_write_one c)
qed

lemma baud_fields:
  "FIELD_EX32 w (ufld BAUD_SBR) = take_bit 13 w" "FIELD_EX32 w (ufld BAUD_OSR) = take_bit 5 (drop_bit 24 w)"
  using extract32_eq[of 13 0 w] extract32_eq[of 5 24 w]
  by (simp_all add: FIELD_EX32_def ufld.simps)

text \<open>
  C13: a write to \<open>BAUD\<close> with a zero divisor SBR ends the emulator with a division by zero, whatever
  the clock; every other value is stored and sets the line speed to the clock frequency divided by
  SBR times OSR plus one, a product that never wraps around.
\<close>

theorem lpuart_baud_write:
  fixes v :: u64
  defines "sbr \<equiv> unat (take_bit 13 (ucast v :: u32))"
    and "osr \<equiv> unat (take_bit 5 (drop_bit 24 (ucast v :: u32)))"
  shows "lpuart_write C hz s (A_LPUART BAUD) v c =
    (if sbr = 0 then Inl DivisionByZero
     else Inr (s\<lparr>lpuart_baud := ucast v\<rparr>, chr_set_params C (of_nat (unat hz div (sbr * (osr + 1)))) c))"
proof -
  let ?sbr = "take_bit 13 (ucast v :: u32)" and ?osr = "take_bit 5 (drop_bit 24 (ucast v :: u32))"
  have b: "sbr < 2 ^ 13" "osr < 2 ^ 5"
    unfolding sbr_def osr_def unsigned_take_bit_eq by (rule take_bit_nat_less_exp)+
  then have lt: "sbr * (osr + 1) < 2 ^ 32"
    using mult_le_mono[of sbr "2 ^ 13" "osr + 1" "2 ^ 5"] by simp
  have osr1: "unat (?osr + 1) = osr + 1"
    using b(2) unat_add_no_wrap[of ?osr 1] by (simp add: osr_def)
  have prod: "unat (?sbr * (?osr + 1)) = sbr * (osr + 1)"
    using lt unat_mult_lem[of ?sbr "?osr + 1"] unfolding osr1 sbr_def by simp
  then have z: "?sbr * (?osr + 1) = 0 \<longleftrightarrow> sbr = 0" by (auto simp: word_unat_eq_iff)
  have d: "hz div (?sbr * (?osr + 1)) = of_nat (unat hz div (sbr * (osr + 1)))"
    unfolding prod[symmetric] unat_div[symmetric] by simp
  show ?thesis
    by (simp add: lpuart_write_def Let_def lpuart_reg_at_A lpuart_update_params_def LPUART_BAUD_RATE_def
        baud_fields z d)
qed

end
