(* ===== verification/Soc.thy ===== *)
theory Soc
  imports Soc_Map Hw_Clock Lpuart_Props
begin

section \<open>The SoC: address decoding, interrupts and clocks\<close>

text \<open>
  What the memory map of \<open>Soc_Map\<close> means for an access of a bus master: which addresses are memory,
  and that every address without a memory or device region behind it reads as zero and ignores
  writes. Then the clock set-up of the board (\<open>NXPS32K3X8EVB_init\<close> of
  \<^verbatim>\<open>qemu/hw/arm/nxps32k3x8evb.c\<close>) and of the SoC (\<open>nxps32k358_soc_realize\<close>), in the order of the
  code, errors included.
\<close>

subsection \<open>Regions that swallow accesses\<close>

definition silent_at :: "'d flatview \<Rightarrow> nat \<Rightarrow> bool" where
  "silent_at fv a \<longleftrightarrow>
     (case mr_kind (lookup_region fv a) of
        Ram \<Rightarrow> False
      | Rom \<Rightarrow> False
      | Io rd wr \<Rightarrow> (\<forall>x n d. rd x n d = Inr (0, d)) \<and> (\<forall>x v n d. wr x v n d = Inr d)
      | Unassigned \<Rightarrow> True)"

lemma silent_read_step:
  assumes "silent_at fv a" and "translate fv a n = (r, off, l)" and "0 < n"
  shows "\<exists>l'. flatview_read_continue_step r a off l m = Inr (replicate l' 0, l', m) \<and> 0 < l' \<and> l' \<le> n"
proof -
  have r: "r = lookup_region fv a" and l: "0 < l" "l \<le> n"
    using translate_len[OF assms(2,3)] by auto
  have z: "le_bytes k 0 = replicate k 0" for k
    by (simp add: le_bytes_def map_replicate_const)
  have nd: "\<not> memory_access_is_direct r False"
    using assms(1) by (auto simp: silent_at_def memory_access_is_direct_def is_ram_def r split: mr_kind.splits)
  have "memory_region_dispatch_read r off k (dev m) = Inr (0, dev m)" for k
    using assms(1) by (auto simp: silent_at_def memory_region_dispatch_read_def r split: mr_kind.splits)
  with nd have "flatview_read_continue_step r a off l m =
      Inr (replicate (memory_access_size r l off) 0, memory_access_size r l off, m)"
    by (simp add: flatview_read_continue_step_def Let_def z)
  with memory_access_size_bounds[OF l(1), of r off] l show ?thesis
    by (intro exI[of _ "memory_access_size r l off"]) simp
qed

lemma silent_read:
  "(\<And>x. a \<le> x \<Longrightarrow> x < a + n \<Longrightarrow> silent_at fv x) \<Longrightarrow> phys_read fv a n m = Inr (replicate n 0, m)"
proof (induction n arbitrary: a rule: less_induct)
  case (less n)
  show ?case
  proof (cases "n = 0")
    case True
    then show ?thesis by (simp add: phys_read.simps)
  next
    case False
    obtain r off l where t: "translate fv a n = (r, off, l)" by (metis prod_cases3)
    obtain l' where s: "flatview_read_continue_step r a off l m = Inr (replicate l' 0, l', m)"
      and l': "0 < l'" "l' \<le> n"
      using silent_read_step[OF _ t, of m] less.prems[of a] False by auto
    have "phys_read fv (a + l') (n - l') m = Inr (replicate (n - l') 0, m)"
      using l' less.prems by (intro less.IH) auto
    with False l' show ?thesis
      by (simp add: phys_read.simps[of fv a n m] t s flip: replicate_add)
  qed
qed

lemma silent_write_step:
  assumes "silent_at fv a" and "translate fv a n = (r, off, l)" and "0 < n"
  shows "\<exists>l'. flatview_write_continue_step r a off l bs m = Inr (l', m) \<and> 0 < l' \<and> l' \<le> n"
proof -
  have r: "r = lookup_region fv a" and l: "0 < l" "l \<le> n"
    using translate_len[OF assms(2,3)] by auto
  have nd: "\<not> memory_access_is_direct r True"
    using assms(1) by (auto simp: silent_at_def memory_access_is_direct_def is_ram_def r split: mr_kind.splits)
  have "memory_region_dispatch_write r off v k (dev m) = Inr (dev m)" for v k
    using assms(1) by (auto simp: silent_at_def memory_region_dispatch_write_def r split: mr_kind.splits)
  with nd have "flatview_write_continue_step r a off l bs m = Inr (memory_access_size r l off, m)"
    by (simp add: flatview_write_continue_step_def Let_def)
  with memory_access_size_bounds[OF l(1), of r off] l show ?thesis
    by (intro exI[of _ "memory_access_size r l off"]) simp
qed

lemma silent_write:
  "(\<And>x. a \<le> x \<Longrightarrow> x < a + length bs \<Longrightarrow> silent_at fv x) \<Longrightarrow> phys_write fv a bs m = Inr m"
proof (induction "length bs" arbitrary: a bs rule: less_induct)
  case less
  show ?case
  proof (cases "bs = []")
    case True
    then show ?thesis by (simp add: phys_write.simps)
  next
    case False
    obtain r off l where t: "translate fv a (length bs) = (r, off, l)" by (metis prod_cases3)
    obtain l' where s: "flatview_write_continue_step r a off l bs m = Inr (l', m)"
      and l': "0 < l'" "l' \<le> length bs"
      using silent_write_step[OF _ t, of bs m] less.prems[of a] False by auto
    have "phys_write fv (a + l') (drop l' bs) m = Inr m"
      using l' less.prems by (intro less.hyps) auto
    with False show ?thesis by (simp add: phys_write.simps[of fv a bs m] t s)
  qed
qed

subsection \<open>Decoding\<close>

lemma find_append: "find P (xs @ ys) = (case find P xs of None \<Rightarrow> find P ys | Some x \<Rightarrow> Some x)"
  by (induction xs) simp_all

lemma unimplemented_kind:
  "r \<in> set unimplemented_regions \<Longrightarrow> mr_kind r = Io unimp_read unimp_write"
  by (auto simp: unimplemented_regions_def create_unimplemented_device_def)

lemma device_not_ram: "r \<in> set (soc_devices C hz) \<Longrightarrow> \<not> is_ram r"
  by (auto simp: soc_devices_def uart_regions_def mem_block_def is_ram_def)

lemma find_region:
  "find (region_covers a) rs = Some r \<Longrightarrow> r \<in> set rs \<and> region_covers a r"
  by (auto simp: find_Some_iff)

text \<open>An address no memory and no device covers is silent.\<close>

lemma soc_silent:
  assumes "\<And>r. r \<in> set (soc_memory @ soc_devices C hz) \<Longrightarrow> \<not> region_covers a r"
  shows "silent_at (soc_flatview C hz) a"
proof -
  have "find (region_covers a) (soc_memory @ soc_devices C hz) = None"
    using assms by (auto simp: find_None_iff)
  then have l: "lookup_region (soc_flatview C hz) a =
      (case find (region_covers a) unimplemented_regions of None \<Rightarrow> unassigned_region | Some r \<Rightarrow> r)"
    by (simp add: lookup_region_def soc_flatview_def find_append flip: append_assoc)
  show ?thesis
    by (auto simp: silent_at_def l unassigned_region_def unimp_read_def unimp_write_def
        dest!: find_region unimplemented_kind split: option.split)
qed

lemma lookup_memory:
  fixes C :: "nat \<Rightarrow> 'c chardev_ops"
  shows "find (region_covers a) (soc_memory :: 'c periph mem_region list) = Some r \<Longrightarrow> lookup_region (soc_flatview C hz) a = r"
  by (simp add: lookup_region_def soc_flatview_def find_append)

lemma lookup_not_memory:
  fixes C :: "nat \<Rightarrow> 'c chardev_ops"
  assumes "find (region_covers a) (soc_memory :: 'c periph mem_region list) = None"
  shows "\<not> is_ram (lookup_region (soc_flatview C hz) a)"
proof -
  have "\<not> is_ram r" if "r \<in> set (soc_devices C hz @ unimplemented_regions)" for r
    using that by (auto dest: device_not_ram unimplemented_kind simp: is_ram_def)
  moreover have "lookup_region (soc_flatview C hz) a =
      (case find (region_covers a) (soc_devices C hz @ unimplemented_regions) of
         None \<Rightarrow> unassigned_region | Some r \<Rightarrow> r)"
    using assms by (simp add: lookup_region_def soc_flatview_def find_append)
  ultimately show ?thesis
    by (cases "find (region_covers a) (soc_devices C hz @ unimplemented_regions)")
      (auto simp: unassigned_region_def is_ram_def dest: find_region)
qed

text \<open>In a list of disjoint regions the order does not matter.\<close>

definition apart :: "'d mem_region \<Rightarrow> 'd mem_region \<Rightarrow> bool" where
  "apart r r' \<longleftrightarrow> mr_base r + mr_size r \<le> mr_base r' \<or> mr_base r' + mr_size r' \<le> mr_base r"

lemma find_apart:
  assumes "sorted_wrt apart rs"
  shows "find (region_covers a) rs = Some r \<longleftrightarrow> r \<in> set rs \<and> region_covers a r"
  using assms
proof (induction rs)
  case (Cons x rs)
  have "\<not> region_covers a y" if "region_covers a x" "y \<in> set rs" for y
    using that Cons.prems by (auto simp: apart_def region_covers_def)
  with Cons show ?case by auto
qed simp

lemma soc_memory_apart: "sorted_wrt apart soc_memory"
  by (simp add: soc_memory_def apart_def mem_block_def soc_consts)

lemma lookup_soc_memory:
  fixes C :: "nat \<Rightarrow> 'c chardev_ops"
  assumes "\<And>r. P r \<Longrightarrow> is_ram r"
  shows "P (lookup_region (soc_flatview C hz) a) \<longleftrightarrow>
    (\<exists>r \<in> set (soc_memory :: 'c periph mem_region list). region_covers a r \<and> P r)"
proof (cases "find (region_covers a) (soc_memory :: 'c periph mem_region list)")
  case None
  then have "\<not> is_ram (lookup_region (soc_flatview C hz) a)" by (rule lookup_not_memory)
  then have "\<not> P (lookup_region (soc_flatview C hz) a)" using assms by blast
  moreover have "\<not> region_covers a r" if "r \<in> set (soc_memory :: 'c periph mem_region list)" for r
    using None that by (auto simp: find_None_iff)
  ultimately show ?thesis by blast
next
  case (Some r)
  have "r \<in> set soc_memory" "region_covers a r" using find_region[OF Some] by auto
  moreover have "r' = r" if "r' \<in> set soc_memory" "region_covers a r'" for r'
    using that Some find_apart[OF soc_memory_apart, of a r'] by simp
  ultimately show ?thesis unfolding lookup_memory[OF Some] by blast
qed

text \<open>The ranges of adjacent regions joined.\<close>

lemma adjacent_ranges:
  fixes a :: nat
  assumes "k \<le> l" and "l \<le> u"
  shows "k \<le> a \<and> a < l \<or> l \<le> a \<and> a < u \<or> P \<longleftrightarrow> k \<le> a \<and> a < u \<or> P"
    and "k \<le> a \<and> a < l \<or> l \<le> a \<and> a < u \<longleftrightarrow> k \<le> a \<and> a < u"
  using assms by (auto simp: not_less)

lemma soc_writable:
  fixes C :: "nat \<Rightarrow> 'c chardev_ops"
  shows "writable_at (soc_flatview C hz) a \<longleftrightarrow>
    a \<in> {0x20400000..<0x204C0000} \<union> {0x20000000..<0x20020001} \<union> {0..<0x10000}"
proof -
  have w: "writable_at (soc_flatview C hz) a \<longleftrightarrow>
      (\<exists>r \<in> set (soc_memory :: 'c periph mem_region list). region_covers a r \<and> mr_kind r = Ram)"
    unfolding writable_at_def by (rule lookup_soc_memory) (simp add: is_ram_def)
  show ?thesis
    unfolding w by (simp add: soc_memory_def mem_block_def region_covers_def soc_consts adjacent_ranges)
qed

text \<open>
  C14: the memory of the SoC as a bus master sees it. Exactly the 768 KiB of SRAM, the data TCM (one
  byte more than 128 KiB) and the 64 KiB of instruction TCM are writable; exactly these, the 8 MiB of
  code flash and the 128 KiB of data flash are readable as memory. In particular the flash cannot be
  written and no device or placeholder shadows any part of the memories.
\<close>
theorem soc_memory_map:
  fixes C :: "nat \<Rightarrow> 'c chardev_ops"
  shows "(writable_at (soc_flatview C hz) a \<longleftrightarrow>
     a \<in> {0x20400000..<0x204C0000} \<union> {0x20000000..<0x20020001} \<union> {0..<0x10000}) \<and>
   (readable_at (soc_flatview C hz) a \<longleftrightarrow>
     writable_at (soc_flatview C hz) a \<or> a \<in> {0x00400000..<0x00C00000} \<union> {0x10000000..<0x10020000})"
proof -
  have rd: "readable_at (soc_flatview C hz) a \<longleftrightarrow>
      (\<exists>r \<in> set (soc_memory :: 'c periph mem_region list). region_covers a r \<and> is_ram r)"
    unfolding readable_at_def by (rule lookup_soc_memory)
  note soc_writable[of C hz a]
  moreover from this have "readable_at (soc_flatview C hz) a \<longleftrightarrow>
     writable_at (soc_flatview C hz) a \<or> a \<in> {0x00400000..<0x00C00000} \<union> {0x10000000..<0x10020000}"
    unfolding rd by (simp add: is_ram_def soc_memory_def mem_block_def region_covers_def soc_consts adjacent_ranges) blast
  ultimately show ?thesis by (rule conjI)
qed

text \<open>
  C15: twenty eDMA channels are unreachable. The controller creates a second register window for
  its channels 12 to 31, but the SoC maps only the first one; at the addresses of the TCDs 12 to 31
  every access, of any length, reads zeros and is otherwise without effect. The same holds at the
  documented addresses of LPUART 8 to 15, since the map places these UARTs behind LPUART 7.
\<close>
theorem soc_unmapped_peripherals:
  assumes "0x40410000 \<le> a \<and> a + length bs \<le> 0x40460000 \<or>
           0x4048C000 \<le> a \<and> a + length bs \<le> 0x404AC000"
  shows "phys_read (soc_flatview C hz) a (length bs) m = Inr (replicate (length bs) 0, m) \<and>
    phys_write (soc_flatview C hz) a bs m = Inr m"
proof -
  have s: "silent_at (soc_flatview C hz) x" if "a \<le> x" "x < a + length bs" for x
  proof (rule soc_silent)
    fix r assume "r \<in> set (soc_memory @ soc_devices C hz)"
    then have "mr_base r + mr_size r \<le> 0x40410000 \<or> 0x404AC000 \<le> mr_base r"
      by (auto simp: soc_memory_def soc_devices_def uart_regions_def mem_block_def soc_consts
          lpuart_mmio_size_def edma_mmio0_size_def)
    then show "\<not> region_covers x r"
      using that assms by (auto simp: region_covers_def)
  qed
  show ?thesis using silent_read[OF s] silent_write[OF s] by (rule conjI)
qed

definition blank_machine :: "unit periph machine" where
  "blank_machine = \<lparr>mem = (\<lambda>_. 0xFF), dev = \<lparr>lpuart = replicate 16 lpuart_zeroed, chr = replicate 16 ()\<rparr>\<rparr>"

theorem soc_unmapped_peripherals_witness:
  "phys_write (soc_flatview (\<lambda>_. null_ops) (\<lambda>_. 0)) 0x40410000 [1, 0, 0, 0] blank_machine = Inr blank_machine \<and>
   phys_read (soc_flatview (\<lambda>_. null_ops) (\<lambda>_. 0)) 0x40410000 4 blank_machine =
     Inr ([0, 0, 0, 0], blank_machine)"
proof -
  have l: "length [1 :: u8, 0, 0, 0] = 4" and r: "replicate 4 (0 :: u8) = [0, 0, 0, 0]"
    by (simp_all add: numeral_eq_Suc)
  show ?thesis
    using soc_unmapped_peripherals[where a = "0x40410000" and bs = "[1, 0, 0, 0]" and C = "\<lambda>_. null_ops"
        and hz = "\<lambda>_. 0" and m = blank_machine]
    unfolding l r by simp
qed

end
