(* ===== verification/Soc_Clocks.thy ===== *)
theory Soc_Clocks
  imports Hw_Clock Lpuart
begin

section \<open>The clocks of the board\<close>

text \<open>
  The clock set-up, in the order of the code: \<open>NXPS32K3X8EVB_init\<close> of
  \<^verbatim>\<open>qemu/hw/arm/nxps32k3x8evb.c\<close> creates the system clock and connects the SoC to it;
  \<open>nxps32k358_soc_realize\<close> of \<^verbatim>\<open>qemu/hw/arm/nxps32k358_soc.c\<close> checks the wiring, derives the
  reference clock, fixes the two peripheral clocks and connects the core and the sixteen UARTs;
  \<open>armv7m_realize\<close> of \<^verbatim>\<open>qemu/hw/arm/armv7m.c\<close> passes the clocks on to the system timer. A failed
  assertion, exhausted fuel and the errors the code reports are values of \<open>clock_error\<close>. The
  clock tree is four levels deep, so a fuel of 4 never runs out.
\<close>

subsection \<open>Names of the clocks\<close>

definition BOARD_SYSCLK :: clk_id where "BOARD_SYSCLK = 0"

definition SOC_SYSCLK :: clk_id where "SOC_SYSCLK = 1"

definition SOC_REFCLK :: clk_id where "SOC_REFCLK = 2"

definition AIPS_PLAT_CLK :: clk_id where "AIPS_PLAT_CLK = 3"

definition AIPS_SLOW_CLK :: clk_id where "AIPS_SLOW_CLK = 4"

definition CPU_CPUCLK :: clk_id where "CPU_CPUCLK = 5"

definition CPU_REFCLK :: clk_id where "CPU_REFCLK = 6"

definition SYSTICK_CPUCLK :: clk_id where "SYSTICK_CPUCLK = 7"

definition SYSTICK_REFCLK :: clk_id where "SYSTICK_REFCLK = 8"

definition LPUART_CLK :: "nat \<Rightarrow> clk_id" where "LPUART_CLK i = 9 + i"

lemmas clock_names = BOARD_SYSCLK_def SOC_SYSCLK_def SOC_REFCLK_def AIPS_PLAT_CLK_def AIPS_SLOW_CLK_def
  CPU_CPUCLK_def CPU_REFCLK_def SYSTICK_CPUCLK_def SYSTICK_REFCLK_def LPUART_CLK_def

definition SYSCLK_FRQ :: u32 where
  "SYSCLK_FRQ = 160000000"

subsection \<open>Set-up\<close>

datatype clock_error =
    RefclkWired
  | SysclkNotWired
  | CpuclkNotConnected
  | UartError lpuart_error
  | Aborted abort
  | FuelExhausted

type_synonym clock_setup = "clock_error + clock_tree"

definition setup_bind :: "clock_setup \<Rightarrow> (clock_tree \<Rightarrow> clock_setup) \<Rightarrow> clock_setup" where
  "setup_bind x f = (case x of Inl e \<Rightarrow> Inl e | Inr T \<Rightarrow> f T)"

definition qdev_connect_clock_in :: "clk_id \<Rightarrow> clk_id \<Rightarrow> clock_tree \<Rightarrow> clock_setup" where
  "qdev_connect_clock_in c src T =
     (case clock_set_source 4 c src T of
        Inl a \<Rightarrow> Inl (Aborted a)
      | Inr None \<Rightarrow> Inl FuelExhausted
      | Inr (Some T') \<Rightarrow> Inr T')"

definition armv7m_realize :: "clock_tree \<Rightarrow> clock_setup" where
  "armv7m_realize T =
     (if \<not> clock_has_source T CPU_CPUCLK then Inl CpuclkNotConnected
      else setup_bind
        (if clock_has_source T CPU_REFCLK then qdev_connect_clock_in SYSTICK_REFCLK CPU_REFCLK T else Inr T)
        (qdev_connect_clock_in SYSTICK_CPUCLK CPU_CPUCLK))"

definition lpuart_clock :: "nat \<Rightarrow> clk_id" where
  "lpuart_clock i = (if i < 2 \<or> i = 8 then AIPS_PLAT_CLK else AIPS_SLOW_CLK)"

definition realize_lpuart :: "nat \<Rightarrow> clock_tree \<Rightarrow> clock_setup" where
  "realize_lpuart i T =
     setup_bind (qdev_connect_clock_in (LPUART_CLK i) (lpuart_clock i) T)
       (\<lambda>T. case lpuart_realize (clock_has_source T (LPUART_CLK i)) of
          Inl e \<Rightarrow> Inl (UartError e) | Inr _ \<Rightarrow> Inr T)"

fun realize_lpuarts :: "nat list \<Rightarrow> clock_tree \<Rightarrow> clock_setup" where
  "realize_lpuarts [] T = Inr T"
| "realize_lpuarts (i # is) T = setup_bind (realize_lpuart i T) (realize_lpuarts is)"

definition soc_realize_clocks :: "clock_tree \<Rightarrow> clock_setup" where
  "soc_realize_clocks T =
     (if clock_has_source T SOC_REFCLK then Inl RefclkWired
      else if \<not> clock_has_source T SOC_SYSCLK then Inl SysclkNotWired
      else case clock_set_mul_div SOC_REFCLK 8 1 T of
        Inl a \<Rightarrow> Inl (Aborted a)
      | Inr (_, T) \<Rightarrow>
          setup_bind (qdev_connect_clock_in SOC_REFCLK SOC_SYSCLK T) (\<lambda>T.
          let T = snd (clock_set_hz AIPS_PLAT_CLK 80000000 T);
              T = snd (clock_set_hz AIPS_SLOW_CLK 40000000 T)
          in setup_bind (qdev_connect_clock_in CPU_CPUCLK SOC_SYSCLK T) (\<lambda>T.
             setup_bind (qdev_connect_clock_in CPU_REFCLK SOC_REFCLK T) (\<lambda>T.
             setup_bind (armv7m_realize T) (realize_lpuarts [0..<16])))))"

definition NXPS32K3X8EVB_init :: "clock_tree \<Rightarrow> clock_setup" where
  "NXPS32K3X8EVB_init T =
     (let T = snd (clock_set_hz BOARD_SYSCLK SYSCLK_FRQ T)
      in setup_bind (qdev_connect_clock_in SOC_SYSCLK BOARD_SYSCLK T) soc_realize_clocks)"

definition fresh_clocks :: clock_tree where
  "fresh_clocks = \<lparr>clk = (\<lambda>_. clock_initfn), clk_trace = []\<rparr>"

subsection \<open>One connection\<close>

lemma setup_bind_Inr [simp]: "setup_bind (Inr T) f = f T"
  by (simp add: setup_bind_def)

definition leaf_connected :: "clk_id \<Rightarrow> clk_id \<Rightarrow> clock_tree \<Rightarrow> clock_tree" where
  "leaf_connected c src T = T\<lparr>clk := (clk T)(
     c := (clk T c)\<lparr>period := clock_get_child_period (clk T src), source := Some src\<rparr>,
     src := (clk T src)\<lparr>children := c # children (clk T src)\<rparr>)\<rparr>"

lemma connect_leaf:
  assumes "source (clk T c) = None" and "children (clk T c) = []" and "c \<noteq> src"
  shows "qdev_connect_clock_in c src T = Inr (leaf_connected c src T)"
proof -
  have "clock_propagate_period 4 c False T' = Some T'" if "children (clk T' c) = []" for T'
    using that by (simp add: numeral_eq_Suc)
  then show ?thesis
    using assms by (simp add: qdev_connect_clock_in_def clock_set_source_def leaf_connected_def Let_def
        upd_clk_def fun_upd_twist)
qed

text \<open>The fields of the clocks after a connection.\<close>

lemma leaf_sel:
  assumes "c \<noteq> src"
  shows "source (clk (leaf_connected c src T) x) = (if x = c then Some src else source (clk T x))"
    and "children (clk (leaf_connected c src T) x) =
      (if x = src then c # children (clk T x) else children (clk T x))"
    and "period (clk (leaf_connected c src T) x) =
      (if x = c then clock_get_child_period (clk T src) else period (clk T x))"
    and "multiplier (clk (leaf_connected c src T) x) = multiplier (clk T x)"
    and "divider (clk (leaf_connected c src T) x) = divider (clk T x)"
  using assms by (simp_all add: leaf_connected_def)

lemma set_hz_sel:
  "source (clk (snd (clock_set_hz c hz T)) x) = source (clk T x)"
  "children (clk (snd (clock_set_hz c hz T)) x) = children (clk T x)"
  "multiplier (clk (snd (clock_set_hz c hz T)) x) = multiplier (clk T x)"
  "divider (clk (snd (clock_set_hz c hz T)) x) = divider (clk T x)"
  "period (clk (snd (clock_set_hz c hz T)) x) = (if x = c then CLOCK_PERIOD_FROM_HZ hz else period (clk T x))"
  by (simp_all add: clock_set_hz_def clock_set_def)

lemma mul_div_sel:
  "source (clk (upd_clk c (\<lambda>k. k\<lparr>multiplier := mul, divider := dv\<rparr>) T) x) = source (clk T x)"
  "children (clk (upd_clk c (\<lambda>k. k\<lparr>multiplier := mul, divider := dv\<rparr>) T) x) = children (clk T x)"
  "period (clk (upd_clk c (\<lambda>k. k\<lparr>multiplier := mul, divider := dv\<rparr>) T) x) = period (clk T x)"
  "multiplier (clk (upd_clk c (\<lambda>k. k\<lparr>multiplier := mul, divider := dv\<rparr>) T) x) =
     (if x = c then mul else multiplier (clk T x))"
  "divider (clk (upd_clk c (\<lambda>k. k\<lparr>multiplier := mul, divider := dv\<rparr>) T) x) =
     (if x = c then dv else divider (clk T x))"
  by (simp_all add: clk_upd_clk)

definition clock_rank :: "clk_id \<Rightarrow> nat" where
  "clock_rank c =
     (if c = BOARD_SYSCLK then 4 else if c = SOC_SYSCLK then 3
      else if c \<in> {SOC_REFCLK, AIPS_PLAT_CLK, AIPS_SLOW_CLK} then 2
      else if c \<in> {CPU_CPUCLK, CPU_REFCLK} then 1 else 0)"

text \<open>The tree is well-formed and every connected clock runs at the period its source prescribes.\<close>

definition tree_ok :: "clock_tree \<Rightarrow> bool" where
  "tree_ok T \<longleftrightarrow> clock_wf clock_rank T \<and> ok_except {} T"

lemma isolated_clock:
  assumes "clock_wf r T" and "source (clk T c) = None" and "children (clk T c) = []"
  shows "source (clk T x) \<noteq> Some c" and "c \<notin> set (children (clk T p))"
proof -
  have eq: "source (clk T y) = Some q \<longleftrightarrow> y \<in> set (children (clk T q))" for y q
    using assms(1) by (simp add: clock_wf_def)
  show "source (clk T x) \<noteq> Some c" using eq[of x c] assms(3) by simp
  show "c \<notin> set (children (clk T p))" using eq[of c p] assms(2) by simp
qed

lemma leaf_connected_ok:
  assumes "tree_ok T" and "source (clk T c) = None" and "children (clk T c) = []"
    and "clock_rank c < clock_rank src"
  shows "tree_ok (leaf_connected c src T)"
proof -
  have n: "c \<noteq> src" using assms(4) by auto
  have wf: "clock_wf clock_rank T" and ok: "ok_except {} T" using assms(1) by (auto simp: tree_ok_def)
  note iso = isolated_clock[OF wf assms(2,3)]
  let ?T = "leaf_connected c src T"
  note s = leaf_sel(1)[OF n] and ch = leaf_sel(2)[OF n] and p = leaf_sel(3)[OF n]
  have cp: "clock_get_child_period (clk ?T x) = clock_get_child_period (clk T x)" if "x \<noteq> c" for x
    using that n by (simp add: clock_get_child_period_def leaf_sel)
  have "clock_wf clock_rank ?T"
  proof -
    have e: "source (clk T x) = Some q \<longleftrightarrow> x \<in> set (children (clk T q))" for x q
      using wf by (simp add: clock_wf_def)
    have "source (clk ?T x) = Some q \<longleftrightarrow> x \<in> set (children (clk ?T q))" for x q
      using iso(2)[of q] e[of x q] by (cases "x = c") (auto simp: s ch)
    moreover have "clock_rank x < clock_rank q" if "x \<in> set (children (clk ?T q))" for x q
    proof -
      have "x \<in> set (children (clk T q)) \<Longrightarrow> clock_rank x < clock_rank q"
        using wf unfolding clock_wf_def by blast
      with that assms(4) show ?thesis by (auto simp: ch split: if_splits)
    qed
    ultimately show ?thesis unfolding clock_wf_def by blast
  qed
  moreover have "ok_except {} ?T"
    unfolding ok_except_def
  proof (intro allI impI)
    fix x q assume q: "source (clk ?T x) = Some q"
    show "period (clk ?T x) = clock_get_child_period (clk ?T q)"
    proof (cases "x = c")
      case True
      with q have "q = src" by (simp add: s)
      with True n show ?thesis using cp[of src] by (simp add: p)
    next
      case False
      with q have q': "source (clk T x) = Some q" by (simp add: s)
      with iso(1)[of x] have "q \<noteq> c" by auto
      have "period (clk T x) = clock_get_child_period (clk T q)"
        using ok q' unfolding ok_except_def by blast
      with False cp[OF \<open>q \<noteq> c\<close>] show ?thesis by (simp add: p)
    qed
  qed
  ultimately show ?thesis by (simp add: tree_ok_def)
qed

lemma root_update_ok:
  assumes "tree_ok T" and "source (clk T c) = None" and "children (clk T c) = []"
    and "clk T' = (clk T)(c := k)" and "source k = None" and "children k = []"
  shows "tree_ok T'"
proof -
  have wf: "clock_wf clock_rank T" and ok: "ok_except {} T" using assms(1) by (auto simp: tree_ok_def)
  note isolated_clock[OF wf assms(2,3)]
  then show ?thesis using wf ok assms by (auto simp: tree_ok_def clock_wf_def ok_except_def)
qed

lemma clk_set_hz:
  "clk (snd (clock_set_hz c hz T)) = (clk T)(c := (clk T c)\<lparr>period := CLOCK_PERIOD_FROM_HZ hz\<rparr>)"
  by (auto simp: clock_set_hz_def clock_set_def)

lemma clk_leaf_connected:
  "clk (leaf_connected c src T) = (clk T)(
     c := (clk T c)\<lparr>period := clock_get_child_period (clk T src), source := Some src\<rparr>,
     src := (clk T src)\<lparr>children := c # children (clk T src)\<rparr>)"
  by (simp add: leaf_connected_def)

subsection \<open>The UARTs\<close>

lemma lpuart_clk_names [simp]:
  "LPUART_CLK i \<noteq> lpuart_clock j" "lpuart_clock j \<noteq> LPUART_CLK i" "LPUART_CLK i = LPUART_CLK j \<longleftrightarrow> i = j"
  "clock_rank (LPUART_CLK i) < clock_rank (lpuart_clock j)"
  by (auto simp: clock_names lpuart_clock_def clock_rank_def)

lemma realize_lpuarts_ok:
  assumes "distinct is" and "tree_ok T" and "\<And>i. i \<in> set is \<Longrightarrow> clk T (LPUART_CLK i) = clock_initfn"
  shows "\<exists>T'. realize_lpuarts is T = Inr T' \<and> tree_ok T' \<and>
    (\<forall>i \<in> set is. period (clk T' (LPUART_CLK i)) = clock_get_child_period (clk T (lpuart_clock i))) \<and>
    (\<forall>c. c \<notin> LPUART_CLK ` set is \<longrightarrow> period (clk T' c) = period (clk T c))"
  using assms
proof (induction "is" arbitrary: T)
  case (Cons i "is")
  define T1 where "T1 = leaf_connected (LPUART_CLK i) (lpuart_clock i) T"
  have i: "clk T (LPUART_CLK i) = clock_initfn" using Cons.prems(3) by simp
  have "realize_lpuart i T = Inr T1"
    using connect_leaf[of T "LPUART_CLK i" "lpuart_clock i"] i
    by (simp add: realize_lpuart_def T1_def clock_initfn_def clock_has_source_def clk_leaf_connected
        lpuart_realize_def)
  moreover have ok: "tree_ok T1"
    unfolding T1_def using Cons.prems(2) i by (intro leaf_connected_ok) (simp_all add: clock_initfn_def)
  have "clk T1 (LPUART_CLK j) = clock_initfn" if "j \<in> set is" for j
    using Cons.prems(1) Cons.prems(3)[of j] that by (auto simp: T1_def clk_leaf_connected)
  then obtain T' where T': "realize_lpuarts is T1 = Inr T'" "tree_ok T'"
      "\<forall>i \<in> set is. period (clk T' (LPUART_CLK i)) = clock_get_child_period (clk T1 (lpuart_clock i))"
      "\<forall>c. c \<notin> LPUART_CLK ` set is \<longrightarrow> period (clk T' c) = period (clk T1 c)"
    using Cons.IH[OF _ ok] Cons.prems(1) by auto
  moreover have p: "clock_get_child_period (clk T1 (lpuart_clock j)) = clock_get_child_period (clk T (lpuart_clock j))" for j
    by (auto simp: T1_def clk_leaf_connected clock_get_child_period_def)
  moreover have "period (clk T1 c) = (if c = LPUART_CLK i then clock_get_child_period (clk T (lpuart_clock i))
      else period (clk T c))" for c
    by (simp add: T1_def clk_leaf_connected)
  moreover have "LPUART_CLK i \<notin> LPUART_CLK ` set is" using Cons.prems(1) by auto
  ultimately show ?case by auto
qed auto

subsection \<open>The board\<close>

text \<open>The tree after the clocks of the core are connected, before the UARTs are.\<close>

definition core_clocks :: clock_tree where
  "core_clocks =
     (let T = snd (clock_set_hz BOARD_SYSCLK SYSCLK_FRQ fresh_clocks);
          T = leaf_connected SOC_SYSCLK BOARD_SYSCLK T;
          T = upd_clk SOC_REFCLK (\<lambda>k. k\<lparr>multiplier := 8, divider := 1\<rparr>) T;
          T = leaf_connected SOC_REFCLK SOC_SYSCLK T;
          T = snd (clock_set_hz AIPS_PLAT_CLK 80000000 T);
          T = snd (clock_set_hz AIPS_SLOW_CLK 40000000 T);
          T = leaf_connected CPU_CPUCLK SOC_SYSCLK T;
          T = leaf_connected CPU_REFCLK SOC_REFCLK T;
          T = leaf_connected SYSTICK_REFCLK CPU_REFCLK T
      in leaf_connected SYSTICK_CPUCLK CPU_CPUCLK T)"

lemmas core_clk = leaf_sel set_hz_sel mul_div_sel fresh_clocks_def clock_initfn_def clock_names

lemma board_init_core: "NXPS32K3X8EVB_init fresh_clocks = realize_lpuarts [0..<16] core_clocks"
  by (simp add: NXPS32K3X8EVB_init_def soc_realize_clocks_def armv7m_realize_def clock_set_mul_div_def
      connect_leaf clock_has_source_def core_clk core_clocks_def Let_def del: clk_upd_clk)

lemma core_clocks_ok: "tree_ok core_clocks"
proof -
  have 0: "tree_ok fresh_clocks"
    by (simp add: tree_ok_def clock_wf_def ok_except_def fresh_clocks_def clock_initfn_def)
  show ?thesis
    unfolding core_clocks_def Let_def
    by (intro leaf_connected_ok root_update_ok[OF _ _ _ clk_set_hz] root_update_ok[OF _ _ _ clk_upd_clk] 0)
      (simp_all add: core_clk clock_rank_def del: clk_upd_clk)
qed

lemma muldiv64_1_1 [simp]: "muldiv64 x 1 1 = x"
  by (simp add: muldiv64_def)

lemma core_periods:
  "period (clk core_clocks CPU_CPUCLK) = CLOCK_PERIOD_FROM_HZ SYSCLK_FRQ"
  "period (clk core_clocks SYSTICK_REFCLK) = muldiv64 (CLOCK_PERIOD_FROM_HZ SYSCLK_FRQ) 8 1"
  "clock_get_child_period (clk core_clocks AIPS_PLAT_CLK) = CLOCK_PERIOD_FROM_HZ 80000000"
  "clock_get_child_period (clk core_clocks AIPS_SLOW_CLK) = CLOCK_PERIOD_FROM_HZ 40000000"
  by (simp_all add: core_clocks_def Let_def core_clk clock_get_child_period_def del: clk_upd_clk)

lemma untouched:
  "x \<noteq> c \<Longrightarrow> x \<noteq> src \<Longrightarrow> clk (leaf_connected c src T) x = clk T x"
  "x \<noteq> c \<Longrightarrow> clk (snd (clock_set_hz c hz T)) x = clk T x"
  "x \<noteq> c \<Longrightarrow> clk (upd_clk c f T) x = clk T x"
  by (simp_all add: clk_leaf_connected clk_set_hz)

lemma core_lpuart_clk: "clk core_clocks (LPUART_CLK i) = clock_initfn"
  by (simp add: core_clocks_def Let_def untouched clock_names fresh_clocks_def del: clk_upd_clk)

lemma periods_to_hz:
  "CLOCK_PERIOD_TO_HZ (CLOCK_PERIOD_FROM_HZ SYSCLK_FRQ) = 160000000"
  "CLOCK_PERIOD_TO_HZ (muldiv64 (CLOCK_PERIOD_FROM_HZ SYSCLK_FRQ) 8 1) = 20000000"
  "CLOCK_PERIOD_TO_HZ (CLOCK_PERIOD_FROM_HZ 80000000) = 80000000"
  "CLOCK_PERIOD_TO_HZ (CLOCK_PERIOD_FROM_HZ 40000000) = 40000000"
  by (simp_all add: CLOCK_PERIOD_TO_HZ_def CLOCK_PERIOD_FROM_HZ_def CLOCK_PERIOD_1SEC_def muldiv64_def
      SYSCLK_FRQ_def push_bit_eq_mult)

text \<open>
  C16: the board comes up with the clocks it means to have. The set-up succeeds (no assertion fails and
  every device finds its clock connected); the core runs at 160 MHz, the reference clock of the
  system timer at an eighth of it, LPUART 0, 1 and 8 at 80 MHz and the others at 40 MHz; and the
  resulting tree is consistent, so that later changes of a root clock propagate.
\<close>
theorem board_clocks:
  "\<exists>T. NXPS32K3X8EVB_init fresh_clocks = Inr T \<and> clock_wf clock_rank T \<and> ok_except {} T \<and>
     clock_get_hz T CPU_CPUCLK = 160000000 \<and> clock_get_hz T SYSTICK_REFCLK = 20000000 \<and>
     map (\<lambda>i. clock_get_hz T (LPUART_CLK i)) [0..<16] =
       map (\<lambda>i. if i \<in> {0, 1, 8} then 80000000 else 40000000) [0..<16]"
proof -
  obtain T where T: "realize_lpuarts [0..<16] core_clocks = Inr T" "tree_ok T"
    and u: "\<And>i. i < 16 \<Longrightarrow> period (clk T (LPUART_CLK i)) = clock_get_child_period (clk core_clocks (lpuart_clock i))"
    and o: "\<And>c. c \<notin> LPUART_CLK ` {0..<16} \<Longrightarrow> period (clk T c) = period (clk core_clocks c)"
    using realize_lpuarts_ok[OF _ core_clocks_ok core_lpuart_clk, of "[0..<16]"] by auto
  have "clock_get_hz T (LPUART_CLK i) = (if i \<in> {0, 1, 8} then 80000000 else 40000000)" if "i < 16" for i
    using that by (auto simp: clock_get_hz_def u lpuart_clock_def core_periods periods_to_hz)
  then have m: "map (\<lambda>i. clock_get_hz T (LPUART_CLK i)) [0..<16] =
      map (\<lambda>i. if i \<in> {0, 1, 8} then 80000000 else 40000000) [0..<16]"
    by (intro map_cong) auto
  have n: "CPU_CPUCLK \<notin> LPUART_CLK ` {0..<16}" "SYSTICK_REFCLK \<notin> LPUART_CLK ` {0..<16}"
    by (auto simp: clock_names)
  have "clock_get_hz T CPU_CPUCLK = 160000000" "clock_get_hz T SYSTICK_REFCLK = 20000000"
    using o[of CPU_CPUCLK] o[of SYSTICK_REFCLK] n by (simp_all add: clock_get_hz_def core_periods periods_to_hz)
  then show ?thesis
    using T m by (intro exI[of _ T] conjI) (simp_all add: board_init_core tree_ok_def)
qed

end
