(* ===== verification/Edma_Irq.thy ===== *)
theory Edma_Irq
  imports Edma
begin

section \<open>Interrupts of the eDMA controller\<close>

text \<open>
  The well-formedness of the device state and the relation the controller keeps between the
  interrupt line of a channel, its bit in \<open>EDMA_INT\<close> and its flag in \<open>CH_INT\<close>; every register
  write and the reset preserve both, so they hold in every reachable state.
\<close>

subsection \<open>Fields\<close>

lemma field_in_fld [simp]: "field_in 64 (fld f)" "field_in 32 (fld f)"
  by (cases f; simp add: field_in_def field_consts)+

lemma field_in_fld16 [simp]:
  "field_in 16 (fld TCD_ATTR_SSIZE)" "field_in 16 (fld TCD_ATTR_DSIZE)"
  "field_in 16 (fld TCD_CITER_CITER)" "field_in 16 (fld TCD_BITER_BITER)"
  by (simp_all add: field_in_def field_consts)

lemma bit_R_MASK_fld:
  "bit (R_MASK (fld f) :: 'a :: len word) n \<longleftrightarrow>
     n < LENGTH('a) \<and> fst (fld f) \<le> n \<and> n < fst (fld f) + snd (fld f)"
  by (rule bit_R_MASK) simp

lemma csr_flag_iff:
  assumes "snd (fld f) = 1"
  shows "csr_flag ch f \<longleftrightarrow> bit (tcd_csr ch) (fst (fld f))"
proof -
  obtain k where k: "fld f = (k, 1)" using assms by (cases "fld f") simp
  then have "field_in 32 (k, 1)" using field_in_fld(2)[of f] by simp
  then show ?thesis
    unfolding csr_flag_def k by (subst FIELD_EX32_one_bit) (auto simp: field_in_def bit_simps)
qed

lemma and_R_MASK_fld:
  fixes v :: "'a :: len word"
  assumes "snd (fld f) = 1"
  shows "v AND R_MASK (fld f) \<noteq> 0 \<longleftrightarrow> bit v (fst (fld f))"
proof -
  obtain k where k: "fld f = (k, 1)" using assms by (cases "fld f") simp
  then have "field_in 64 (k, 1)" using field_in_fld(1)[of f] by simp
  then show ?thesis unfolding k by (subst and_R_MASK_one_bit) simp_all
qed

subsection \<open>Projections of the state updates\<close>

lemma set_tcd_simps [simp]:
  "tcd (set_tcd s n ch) = (tcd s)[n := ch]"
  "edma_csr (set_tcd s n ch) = edma_csr s"
  "edma_es (set_tcd s n ch) = edma_es s"
  "edma_int (set_tcd s n ch) = edma_int s"
  "edma_hrs (set_tcd s n ch) = edma_hrs s"
  "edma_chn_grpri (set_tcd s n ch) = edma_chn_grpri s"
  "arb_offset (set_tcd s n ch) = arb_offset s"
  by (simp_all add: set_tcd_def)

text \<open>The condition under which the update raises the interrupt flag of a channel.\<close>

definition irq_cond :: "tcd_state \<Rightarrow> bool" where
  "irq_cond ch \<longleftrightarrow> csr_flag ch TCD_CSR_INTHALF \<and> citer_of ch \<ge> biter_of ch div 2
     \<or> csr_flag ch TCD_CSR_INTMAJOR \<and> citer_of ch = 0"

definition irq_refresh :: "tcd_state \<Rightarrow> tcd_state" where
  "irq_refresh ch = ch\<lparr>ch_int := (if irq_cond ch then ch_int ch OR 1 else ch_int ch),
     irq := irq_cond ch \<or> bit (ch_int ch) 0\<rparr>"

lemma R_MASK_CH_INT: "R_MASK (fld CH_INT_INT) = (1 :: 'a :: len word)"
proof -
  have "fst (fld CH_INT_INT) = 0" "snd (fld CH_INT_INT) = 1" by (simp_all add: field_consts)
  then show ?thesis by (intro bit_word_eqI) (auto simp: bit_R_MASK_fld bit_1_iff)
qed

lemma and_1_neq_0_iff: "w AND 1 \<noteq> 0 \<longleftrightarrow> bit w 0" for w :: "'a :: len word"
  by (simp add: word_neq_0_iff_bit bit_and_iff bit_1_iff)

lemma citer_biter_ch_int [simp]:
  "citer_of (ch\<lparr>ch_int := x\<rparr>) = citer_of ch" "biter_of (ch\<lparr>ch_int := x\<rparr>) = biter_of ch"
  "csr_flag (ch\<lparr>ch_int := x\<rparr>) f = csr_flag ch f"
  by (simp_all add: citer_of_def biter_of_def csr_flag_def)

lemma update_irq_tcd:
  "tcd (edma_tcd_update_irq s n) = (tcd s)[n := irq_refresh (tcd s ! n)]"
  by (auto simp: edma_tcd_update_irq_def irq_refresh_def irq_cond_def Let_def R_MASK_CH_INT
      and_1_neq_0_iff bit_or_iff bit_1_iff intro!: arg_cong[of _ _ "list_update (tcd s) n"])

lemma update_irq_int:
  "edma_int (edma_tcd_update_irq s n) =
     (if irq (irq_refresh (tcd s ! n)) then edma_int s OR push_bit n 1
      else edma_int s AND NOT (push_bit n 1))"
  by (auto simp: edma_tcd_update_irq_def irq_refresh_def irq_cond_def Let_def R_MASK_CH_INT
      and_1_neq_0_iff bit_or_iff bit_1_iff)

lemma update_irq_other [simp]:
  "edma_csr (edma_tcd_update_irq s n) = edma_csr s"
  "edma_es (edma_tcd_update_irq s n) = edma_es s"
  "edma_hrs (edma_tcd_update_irq s n) = edma_hrs s"
  "edma_chn_grpri (edma_tcd_update_irq s n) = edma_chn_grpri s"
  "arb_offset (edma_tcd_update_irq s n) = arb_offset s"
  by (simp_all add: edma_tcd_update_irq_def Let_def)

lemma bit_update_irq_int:
  assumes "n < 32" and "i < 32"
  shows "bit (edma_int (edma_tcd_update_irq s n)) i \<longleftrightarrow>
     (if i = n then irq (irq_refresh (tcd s ! n)) else bit (edma_int s) i)"
  using assms by (auto simp: update_irq_int bit_simps)

subsection \<open>Invariant\<close>

definition wf_edma :: "edma_state \<Rightarrow> bool" where
  "wf_edma s \<longleftrightarrow> length (tcd s) = EDMA_CHANNELS \<and> length (edma_chn_grpri s) = EDMA_CHANNELS \<and>
     arb_offset s < EDMA_CHANNELS"

definition irq_consistent :: "edma_state \<Rightarrow> bool" where
  "irq_consistent s \<longleftrightarrow> (\<forall>i < EDMA_CHANNELS.
     (bit (edma_int s) i \<longleftrightarrow> irq (tcd s ! i)) \<and>
     (irq (tcd s ! i) \<longrightarrow> bit (ch_int (tcd s ! i)) 0))"

definition edma_inv :: "edma_state \<Rightarrow> bool" where
  "edma_inv s \<longleftrightarrow> wf_edma s \<and> irq_consistent s"

lemma irq_refresh_flag: "irq (irq_refresh ch) \<Longrightarrow> bit (ch_int (irq_refresh ch)) 0"
  by (auto simp: irq_refresh_def bit_or_iff bit_1_iff)

lemma update_irq_inv:
  assumes "wf_edma s" and "n < 32"
    and "\<And>i. i < 32 \<Longrightarrow> i \<noteq> n \<Longrightarrow> (bit (edma_int s) i \<longleftrightarrow> irq (tcd s ! i)) \<and>
      (irq (tcd s ! i) \<longrightarrow> bit (ch_int (tcd s ! i)) 0)"
  shows "edma_inv (edma_tcd_update_irq s n)"
  using assms irq_refresh_flag[of "tcd s ! n"]
  by (auto simp: edma_inv_def wf_edma_def irq_consistent_def update_irq_tcd bit_update_irq_int
      nth_list_update)

text \<open>An update of one descriptor that keeps its line and does not clear its flag.\<close>

lemma set_tcd_inv:
  assumes "edma_inv s" and "n < 32" and "irq ch = irq (tcd s ! n)"
    and "bit (ch_int (tcd s ! n)) 0 \<Longrightarrow> bit (ch_int ch) 0"
  shows "edma_inv (set_tcd s n ch)"
  using assms by (auto simp: edma_inv_def wf_edma_def irq_consistent_def nth_list_update)

lemma set_tcd_update_irq_inv:
  assumes "edma_inv s" and "n < 32"
  shows "edma_inv (edma_tcd_update_irq (set_tcd s n ch) n)"
  using assms
  by (intro update_irq_inv) (auto simp: edma_inv_def wf_edma_def irq_consistent_def nth_list_update)

lemma start_channel_irq [simp]:
  "irq (edma_start_channel ch) = irq ch" "ch_int (edma_start_channel ch) = ch_int ch"
  by (simp_all add: edma_start_channel_def Let_def)

lemma tcd_memcpy_irq [simp]:
  "irq (tcd_memcpy bs ch) = irq ch" "ch_int (tcd_memcpy bs ch) = ch_int ch"
  "ch_csr (tcd_memcpy bs ch) = ch_csr ch"
  by (simp_all add: tcd_memcpy_def)

lemma major_complete_inv:
  assumes "edma_inv s" and "n < 32" and "edma_major_complete B s n m = Inr (s', m')"
  shows "edma_inv s'"
  using assms
  by (auto simp: edma_major_complete_def Let_def res_bind_eq_Inr_iff bit_or_iff
      split: if_splits intro!: set_tcd_inv)

lemma transmit_inv:
  assumes "edma_inv s" and "n < 32" and "edma_transmit B buf s n m = Inr (s', m')"
  shows "edma_inv s'"
  using assms
  by (auto simp: edma_transmit_def Let_def res_bind_eq_Inr_iff assert_that_eq_Inr_iff
      split: if_splits intro: set_tcd_update_irq_inv elim!: major_complete_inv[rotated 2])

lemma arb_order_lt: "j \<in> set (arb_order k) \<Longrightarrow> j < 32"
  by (auto simp: arb_order_def)

lemma find_SomeD: "find P xs = Some x \<Longrightarrow> P x \<and> x \<in> set xs"
  by (induction xs) (auto split: if_splits)

lemma arbitrate_inv:
  assumes "edma_inv s" and "edma_arbitrate B buf s m = Inr (s', m')"
  shows "edma_inv s'"
proof (cases "find (start_pending s) (arb_order (arb_offset s))")
  case None
  with assms show ?thesis by (simp add: edma_arbitrate_def)
next
  case (Some j)
  then have "j < 32" by (auto dest!: find_SomeD dest: arb_order_lt)
  from assms(2) Some obtain s1 where s': "s' = s1\<lparr>arb_offset := (j + 1) mod 32\<rparr>"
    and t: "edma_transmit B buf (set_tcd s j (edma_start_channel (tcd s ! j))) j m = Inr (s1, m')"
    by (auto simp: edma_arbitrate_def res_bind_eq_Inr_iff)
  have "edma_inv (set_tcd s j (edma_start_channel (tcd s ! j)))"
    using assms(1) \<open>j < 32\<close> by (intro set_tcd_inv) auto
  then have "edma_inv s1" using \<open>j < 32\<close> t by (rule transmit_inv)
  then show ?thesis by (simp add: s' edma_inv_def wf_edma_def irq_consistent_def)
qed

lemma tcd_write_inv:
  assumes "edma_inv s" and "c < 32" and "edma_tcd_write B buf s off v c m = Inr (s', m')"
  shows "edma_inv s'"
proof (cases "tcd_reg_at off")
  case None
  with assms show ?thesis by (simp add: edma_tcd_write_def)
next
  case (Some r)
  have upd: "edma_inv (set_tcd s c ch)"
    if "irq ch = irq (tcd s ! c)" "ch_int ch = ch_int (tcd s ! c)" for ch
    using assms(1,2) that by (intro set_tcd_inv) auto
  have int: "edma_inv (edma_tcd_update_irq (set_tcd s c ch) c)" for ch
    using assms(1,2) by (rule set_tcd_update_irq_inv)
  have arb: "edma_arbitrate B buf (set_tcd s c ((tcd s ! c)\<lparr>tcd_csr := w\<rparr>)) m = Inr (s', m') \<Longrightarrow>
    edma_inv s'" for w
    by (rule arbitrate_inv[OF upd]) simp_all
  show ?thesis
    using assms(1,3) Some
    by (cases r; clarsimp simp: edma_tcd_write_def Let_def assert_that_eq_Inr_iff upd int assms(1)
        arb split: if_split_asm)
qed

lemma global_write_simps [simp]:
  "tcd (edma_global_write s off v) = tcd s"
  "edma_int (edma_global_write s off v) = edma_int s"
  "arb_offset (edma_global_write s off v) = arb_offset s"
  "length (edma_chn_grpri (edma_global_write s off v)) = length (edma_chn_grpri s)"
  by (simp_all add: edma_global_write_def Let_def split: option.split edma_reg.split)

lemma global_write_inv: "edma_inv s \<Longrightarrow> edma_inv (edma_global_write s off v)"
  by (simp add: edma_inv_def wf_edma_def irq_consistent_def)

lemma edma0_write_inv:
  assumes "edma_inv s" and "off < edma_mmio0_size" and "edma0_write B buf s off v m = Inr (s', m')"
  shows "edma_inv s'"
proof (cases "off < 0x4000")
  case True
  with assms(1,3) show ?thesis by (auto simp: edma0_write_def intro: global_write_inv)
next
  case False
  with assms(2) have "(off - 0x4000) div 0x4000 < 32" by (simp add: edma_mmio0_size_def)
  with False assms(1,3) show ?thesis
    by (auto simp: edma0_write_def Let_def elim: tcd_write_inv[rotated 2])
qed

lemma edma12_write_inv:
  assumes "edma_inv s" and "off < edma_mmio12_size" and "edma12_write B buf s off v m = Inr (s', m')"
  shows "edma_inv s'"
proof -
  from assms(2) have "off div 0x4000 + 12 < 32" by (simp add: edma_mmio12_size_def)
  with assms(1,3) show ?thesis
    by (auto simp: edma12_write_def Let_def elim: tcd_write_inv[rotated 2])
qed

text \<open>
  The reset establishes the invariant from any state with the right array lengths: after the
  first \<open>k\<close> rounds of its loop the first \<open>k\<close> channels are consistent.
\<close>

lemma reset_channel_length [simp]:
  "length (tcd (edma_reset_channel i s)) = length (tcd s)"
  "length (edma_chn_grpri (edma_reset_channel i s)) = length (edma_chn_grpri s)"
  "arb_offset (edma_reset_channel i s) = arb_offset s"
  by (simp_all add: edma_reset_channel_def Let_def update_irq_tcd)

lemma csr_flag_0: "tcd_csr ch = 0 \<Longrightarrow> \<not> csr_flag ch f"
  by (simp add: csr_flag_def FIELD_EX32_def extract32_val_def)

lemma irq_refresh_reset:
  "irq_refresh (edma_tcd_reset ch) = (edma_tcd_reset ch)\<lparr>irq := False\<rparr>"
  by (simp add: irq_refresh_def irq_cond_def csr_flag_0 edma_tcd_reset_def)

lemma reset_channel_tcd:
  "i < length (tcd s) \<Longrightarrow>
   tcd (edma_reset_channel i s) = (tcd s)[i := (edma_tcd_reset (tcd s ! i))\<lparr>irq := False\<rparr>]"
  by (simp add: edma_reset_channel_def Let_def update_irq_tcd irq_refresh_reset)

lemma reset_channel_int:
  assumes "i < length (tcd s)" and "edma_int s = 0"
  shows "edma_int (edma_reset_channel i s) = 0"
  using assms by (simp add: edma_reset_channel_def Let_def update_irq_int irq_refresh_reset)

lemma reset_loop:
  assumes "k \<le> length (tcd s)" and "edma_int s = 0"
  defines "s' \<equiv> fold edma_reset_channel [0..<k] s"
  shows "edma_int s' = 0 \<and> length (tcd s') = length (tcd s) \<and>
    length (edma_chn_grpri s') = length (edma_chn_grpri s) \<and> arb_offset s' = arb_offset s \<and>
    (\<forall>i < length (tcd s). tcd s' ! i =
       (if i < k then (edma_tcd_reset (tcd s ! i))\<lparr>irq := False\<rparr> else tcd s ! i))"
  using assms(1) unfolding s'_def
proof (induction k)
  case 0
  then show ?case using assms(2) by simp
next
  case (Suc k)
  define t where "t = fold edma_reset_channel [0..<k] s"
  have t: "edma_int t = 0" "length (tcd t) = length (tcd s)"
      "length (edma_chn_grpri t) = length (edma_chn_grpri s)" "arb_offset t = arb_offset s"
    and nth: "\<And>i. i < length (tcd s) \<Longrightarrow> tcd t ! i =
       (if i < k then (edma_tcd_reset (tcd s ! i))\<lparr>irq := False\<rparr> else tcd s ! i)"
    using Suc.IH[OF Suc_leD[OF Suc.prems]] unfolding t_def by blast+
  have step: "fold edma_reset_channel [0..<Suc k] s = edma_reset_channel k t"
    unfolding t_def upt_Suc fold_append comp_def by simp
  have "tcd (edma_reset_channel k t) ! i =
     (if i < Suc k then (edma_tcd_reset (tcd s ! i))\<lparr>irq := False\<rparr> else tcd s ! i)"
    if "i < length (tcd s)" for i
    using Suc.prems that by (cases "i = k") (simp_all add: reset_channel_tcd t nth less_Suc_eq)
  moreover have "edma_int (edma_reset_channel k t) = 0"
    using Suc.prems t by (intro reset_channel_int) simp_all
  ultimately show ?case unfolding step reset_channel_length t by blast
qed

lemma edma_reset_facts:
  assumes "length (tcd s) = EDMA_CHANNELS"
  shows "edma_int (edma_reset s) = 0" and "length (tcd (edma_reset s)) = EDMA_CHANNELS"
    and "length (edma_chn_grpri (edma_reset s)) = length (edma_chn_grpri s)"
    and "arb_offset (edma_reset s) = arb_offset s"
    and "i < EDMA_CHANNELS \<Longrightarrow> tcd (edma_reset s) ! i = (edma_tcd_reset (tcd s ! i))\<lparr>irq := False\<rparr>"
proof -
  define s0 where "s0 = s\<lparr>edma_csr := 0x00300000, edma_es := 0, edma_int := 0, edma_hrs := 0\<rparr>"
  have s0: "edma_int s0 = 0" "tcd s0 = tcd s" "edma_chn_grpri s0 = edma_chn_grpri s"
    "arb_offset s0 = arb_offset s" by (simp_all add: s0_def)
  have eq: "edma_reset s = fold edma_reset_channel [0..<EDMA_CHANNELS] s0"
    unfolding edma_reset_def s0_def ..
  note loop = reset_loop[of EDMA_CHANNELS s0, unfolded s0 assms, OF order_refl refl, folded eq]
  show "edma_int (edma_reset s) = 0" and "length (tcd (edma_reset s)) = EDMA_CHANNELS"
    and "length (edma_chn_grpri (edma_reset s)) = length (edma_chn_grpri s)"
    and "arb_offset (edma_reset s) = arb_offset s"
    and "i < EDMA_CHANNELS \<Longrightarrow> tcd (edma_reset s) ! i = (edma_tcd_reset (tcd s ! i))\<lparr>irq := False\<rparr>"
    using loop by auto
qed

lemma edma_reset_inv:
  assumes "length (tcd s) = EDMA_CHANNELS" and "length (edma_chn_grpri s) = EDMA_CHANNELS"
    and "arb_offset s < EDMA_CHANNELS"
  shows "edma_inv (edma_reset s)"
  using assms by (simp add: edma_inv_def wf_edma_def irq_consistent_def edma_reset_facts)

subsection \<open>Reachable states\<close>

text \<open>
  What can happen to the controller: a register write through either window, a reset, and any
  change of the rest of the machine by others. The device is realised by a reset of the freshly
  allocated (zeroed) object.
\<close>

definition edma_zeroed :: edma_state where
  "edma_zeroed = \<lparr>edma_csr = 0, edma_es = 0, edma_int = 0, edma_hrs = 0,
     edma_chn_grpri = replicate EDMA_CHANNELS 0,
     tcd = replicate EDMA_CHANNELS \<lparr>ch_csr = 0, ch_es = 0, ch_int = 0, ch_sbr = 0, ch_pri = 0,
       tcd_saddr = 0, tcd_soff = 0, tcd_attr = 0, tcd_nbytes_mloff = 0, tcd_slast_sda = 0,
       tcd_daddr = 0, tcd_doff = 0, tcd_citer = 0, tcd_dlast_sga = 0, tcd_csr = 0, tcd_biter = 0,
       irq = False\<rparr>,
     arb_offset = 0\<rparr>"

definition edma_realize :: edma_state where
  "edma_realize = edma_reset edma_zeroed"

inductive edma_step :: "'m bus \<Rightarrow> edma_state \<times> 'm \<Rightarrow> edma_state \<times> 'm \<Rightarrow> bool" for B where
  step_write0: "off < edma_mmio0_size \<Longrightarrow> edma0_write B buf s off v m = Inr (s', m') \<Longrightarrow>
     edma_step B (s, m) (s', m')"
| step_write12: "off < edma_mmio12_size \<Longrightarrow> edma12_write B buf s off v m = Inr (s', m') \<Longrightarrow>
     edma_step B (s, m) (s', m')"
| step_reset: "edma_step B (s, m) (edma_reset s, m)"
| step_environment: "edma_step B (s, m) (s, m')"

inductive edma_reachable :: "'m bus \<Rightarrow> edma_state \<times> 'm \<Rightarrow> bool" for B where
  reach_realize: "edma_reachable B (edma_realize, m)"
| reach_step: "edma_reachable B x \<Longrightarrow> edma_step B x y \<Longrightarrow> edma_reachable B y"

inductive_cases edma_stepE: "edma_step B x y"

lemma edma_inv_wf: "edma_inv s \<Longrightarrow> length (tcd s) = EDMA_CHANNELS \<and>
    length (edma_chn_grpri s) = EDMA_CHANNELS \<and> arb_offset s < EDMA_CHANNELS"
  by (simp add: edma_inv_def wf_edma_def)

lemma edma_step_inv: "edma_step B x y \<Longrightarrow> edma_inv (fst x) \<Longrightarrow> edma_inv (fst y)"
  by (erule edma_stepE)
    (auto dest: edma_inv_wf intro: edma_reset_inv elim: edma0_write_inv[rotated] edma12_write_inv[rotated])

lemma edma_zeroed_lengths:
  "length (tcd edma_zeroed) = EDMA_CHANNELS" "length (edma_chn_grpri edma_zeroed) = EDMA_CHANNELS"
  "arb_offset edma_zeroed < EDMA_CHANNELS"
  by (simp_all add: edma_zeroed_def)

lemma edma_realize_inv: "edma_inv edma_realize"
  unfolding edma_realize_def by (rule edma_reset_inv) (rule edma_zeroed_lengths)+

lemma edma_reachable_fst_inv: "edma_reachable B x \<Longrightarrow> edma_inv (fst x)"
  by (induction rule: edma_reachable.induct) (auto simp: edma_realize_inv intro: edma_step_inv)

text \<open>
  C1: in every reachable state of the controller, for every channel, its bit of \<open>EDMA_INT\<close> equals
  the level of its interrupt line, the line is raised only while the flag of \<open>CH_INT\<close> is set, and
  the arrays and the arbiter's position stay within the 32 channels. The claim covers every
  register write through both windows (transfers included), every reset, and any behaviour of the
  rest of the machine.
\<close>

theorem edma_irq_lines_consistent:
  assumes "edma_reachable B (s, m)"
  shows "length (tcd s) = EDMA_CHANNELS \<and> length (edma_chn_grpri s) = EDMA_CHANNELS \<and>
    arb_offset s < EDMA_CHANNELS \<and>
    (\<forall>i < EDMA_CHANNELS. (bit (edma_int s) i \<longleftrightarrow> irq (tcd s ! i)) \<and>
       (irq (tcd s ! i) \<longrightarrow> bit (ch_int (tcd s ! i)) 0))"
  using edma_reachable_fst_inv[OF assms]
  by (simp add: edma_inv_def wf_edma_def irq_consistent_def)

lemma edma_irq_lines_consistent_witness:
  "edma_reachable (phys_bus []) (edma_realize, \<lparr>mem = (\<lambda>_. 0), dev = ()\<rparr>) \<and>
   (bit (edma_int edma_realize) 5 \<longleftrightarrow> irq (tcd edma_realize ! 5))"
proof -
  have r: "edma_reachable (phys_bus []) (edma_realize, \<lparr>mem = (\<lambda>_. 0), dev = ()\<rparr>)"
    by (rule reach_realize)
  with edma_irq_lines_consistent[OF r] show ?thesis by simp
qed

subsection \<open>Acknowledging an interrupt\<close>

lemma tcd_reg_at_A: "tcd_reg_at (A_TCD r) = Some r"
  by (cases r) (simp_all add: tcd_reg_at_def tcd_regs_def A_TCD.simps)

lemma tcd_reg_at_SomeD: "tcd_reg_at off = Some r \<Longrightarrow> off = A_TCD r"
  unfolding tcd_reg_at_def by (auto dest: find_SomeD)

lemma irq_cond_ch_int [simp]: "irq_cond (ch\<lparr>ch_int := x\<rparr>) = irq_cond ch"
  by (simp add: irq_cond_def)

lemma irq_refresh_irq: "irq (irq_refresh ch) \<longleftrightarrow> irq_cond ch \<or> bit (ch_int ch) 0"
  by (simp add: irq_refresh_def)



end
