(* ===== verification/Edma_Regs.thy ===== *)
theory Edma_Regs
  imports Edma_Irq
begin

section \<open>Register accesses and arbitration of the eDMA controller\<close>

text \<open>
  Which registers of a descriptor read back what was written, which writes trip an assertion, and
  in which order the arbiter serves pending requests.
\<close>

subsection \<open>Reading back\<close>

lemma edma_realize_tcd:
  "i < EDMA_CHANNELS \<Longrightarrow> tcd edma_realize ! i = (edma_tcd_reset (tcd edma_zeroed ! i))\<lparr>irq := False\<rparr>"
  unfolding edma_realize_def by (rule edma_reset_facts(5)[OF edma_zeroed_lengths(1)])

lemma edma_realize_length: "length (tcd edma_realize) = EDMA_CHANNELS"
  using edma_inv_wf[OF edma_realize_inv] by simp

text \<open>The width with which a register is declared (\<open>REG32\<close> or \<open>REG16\<close>).\<close>

definition tcd_width :: "tcd_reg \<Rightarrow> nat" where
  "tcd_width r = (if r \<in> {TCD_SOFF, TCD_ATTR, TCD_DOFF, TCD_CITER, TCD_CSR, TCD_BITER} then 16 else 32)"

text \<open>The registers that hold a transfer, as opposed to the channel's control registers.\<close>

definition tcd_stored :: "tcd_reg \<Rightarrow> bool" where
  "tcd_stored r \<longleftrightarrow> r \<notin> {CH_CSR, CH_ES, CH_INT, CH_SBR, CH_PRI}"

definition tcd_store :: "tcd_reg \<Rightarrow> u64 \<Rightarrow> tcd_state \<Rightarrow> tcd_state" where
  "tcd_store r v ch = (case r of
     TCD_SADDR \<Rightarrow> ch\<lparr>tcd_saddr := ucast v\<rparr>
   | TCD_SOFF \<Rightarrow> ch\<lparr>tcd_soff := ucast v\<rparr>
   | TCD_ATTR \<Rightarrow> ch\<lparr>tcd_attr := ucast v\<rparr>
   | TCD_NBYTES_MLOFF \<Rightarrow> ch\<lparr>tcd_nbytes_mloff := ucast v\<rparr>
   | TCD_SLAST_SDA \<Rightarrow> ch\<lparr>tcd_slast_sda := ucast v\<rparr>
   | TCD_DADDR \<Rightarrow> ch\<lparr>tcd_daddr := ucast v\<rparr>
   | TCD_DOFF \<Rightarrow> ch\<lparr>tcd_doff := ucast v\<rparr>
   | TCD_CITER \<Rightarrow> ch\<lparr>tcd_citer := ucast v\<rparr>
   | TCD_DLAST_SGA \<Rightarrow> ch\<lparr>tcd_dlast_sga := ucast v\<rparr>
   | TCD_CSR \<Rightarrow> ch\<lparr>tcd_csr := ucast v\<rparr>
   | TCD_BITER \<Rightarrow> ch\<lparr>tcd_biter := ucast v\<rparr>
   | _ \<Rightarrow> ch)"

lemma and_START_iff: "v AND R_MASK (fld TCD_CSR_START) \<noteq> 0 \<longleftrightarrow> bit v 0" for v :: "'a :: len word"
  using and_R_MASK_fld[of TCD_CSR_START v] by (simp add: field_consts)

lemma tcd_write_stored:
  assumes "tcd_stored r" and "r = TCD_CSR \<Longrightarrow> \<not> bit v 0"
    and "edma_tcd_write B buf s (A_TCD r) v c m = Inr (s', m')"
  shows "s' = set_tcd s c (tcd_store r v (tcd s ! c)) \<and> m' = m"
  using assms
  by (cases r) (auto simp: tcd_stored_def edma_tcd_write_def Let_def tcd_reg_at_A tcd_store_def
      assert_that_eq_Inr_iff and_START_iff split: if_split_asm)

definition tcd_load :: "tcd_reg \<Rightarrow> tcd_state \<Rightarrow> u64" where
  "tcd_load r ch = ucast (case r of
        CH_CSR \<Rightarrow> ch_csr ch | CH_ES \<Rightarrow> ch_es ch | CH_INT \<Rightarrow> ch_int ch
      | CH_SBR \<Rightarrow> ch_sbr ch | CH_PRI \<Rightarrow> ch_pri ch
      | TCD_SADDR \<Rightarrow> tcd_saddr ch | TCD_SOFF \<Rightarrow> scast (tcd_soff ch) | TCD_ATTR \<Rightarrow> ucast (tcd_attr ch)
      | TCD_NBYTES_MLOFF \<Rightarrow> tcd_nbytes_mloff ch | TCD_SLAST_SDA \<Rightarrow> tcd_slast_sda ch
      | TCD_DADDR \<Rightarrow> tcd_daddr ch | TCD_DOFF \<Rightarrow> ucast (tcd_doff ch) | TCD_CITER \<Rightarrow> ucast (tcd_citer ch)
      | TCD_DLAST_SGA \<Rightarrow> tcd_dlast_sga ch | TCD_CSR \<Rightarrow> ucast (tcd_csr ch)
      | TCD_BITER \<Rightarrow> (ucast (tcd_biter ch) :: u32))"

lemma tcd_read_load: "edma_tcd_read s (A_TCD r) c = tcd_load r (tcd s ! c)"
  by (cases r) (simp_all add: edma_tcd_read_def Let_def tcd_reg_at_A tcd_load_def)

lemma tcd_load_store_other: "r' \<noteq> r \<Longrightarrow> tcd_load r' (tcd_store r v ch) = tcd_load r' ch"
  by (cases r; cases r'; simp add: tcd_load_def tcd_store_def)

lemma tcd_load_store:
  assumes "tcd_stored r"
  shows "take_bit (tcd_width r) (tcd_load r (tcd_store r v ch)) = take_bit (tcd_width r) v"
proof -
  have "take_bit 32 (ucast (ucast v :: u32) :: u64) = take_bit 32 v"
    "take_bit 16 (ucast (ucast (ucast v :: u16) :: u32) :: u64) = take_bit 16 v"
    "take_bit 16 (ucast (scast (ucast v :: u16) :: u32) :: u64) = take_bit 16 v"
    by (auto intro!: bit_word_eqI simp: bit_simps)
  with assms show ?thesis
    by (cases r) (simp_all add: tcd_stored_def tcd_width_def tcd_load_def tcd_store_def)
qed

text \<open>
  C3: a write that sets up a transfer (any register of the descriptor except the channel control
  registers, and not a start request) reads back: the register's declared width of the value is
  returned by the next read of the register, and no other register of any channel, and no memory,
  changes.
\<close>

theorem edma_tcd_write_read_back:
  assumes "length (tcd s) = EDMA_CHANNELS" and "c < EDMA_CHANNELS"
    and "tcd_stored r" and "r = TCD_CSR \<Longrightarrow> \<not> bit v 0"
    and "edma_tcd_write B buf s (A_TCD r) v c m = Inr (s', m')"
  shows "take_bit (tcd_width r) (edma_tcd_read s' (A_TCD r) c) = take_bit (tcd_width r) v \<and>
    (\<forall>r' c'. (r', c') \<noteq> (r, c) \<and> c' < EDMA_CHANNELS \<longrightarrow>
       edma_tcd_read s' (A_TCD r') c' = edma_tcd_read s (A_TCD r') c') \<and> m' = m"
  using tcd_write_stored[OF assms(3-5)] assms(1-3)
  by (auto simp: tcd_read_load tcd_load_store tcd_load_store_other nth_list_update)

lemma edma_tcd_write_read_back_witness:
  "length (tcd edma_realize) = EDMA_CHANNELS \<and> tcd_stored TCD_SOFF \<and>
   (\<exists>s'. edma_tcd_write (phys_bus []) [] edma_realize (A_TCD TCD_SOFF) 4 3
       \<lparr>mem = (\<lambda>_. 0), dev = ()\<rparr> = Inr (s', \<lparr>mem = (\<lambda>_. 0), dev = ()\<rparr>) \<and>
      take_bit 16 (edma_tcd_read s' (A_TCD TCD_SOFF) 3) = take_bit 16 4)"
proof -
  let ?m = "\<lparr>mem = (\<lambda>_. 0), dev = ()\<rparr>"
  note l = edma_realize_length
  have w: "edma_tcd_write (phys_bus []) [] edma_realize (A_TCD TCD_SOFF) 4 3 ?m =
      Inr (set_tcd edma_realize 3 ((tcd edma_realize ! 3)\<lparr>tcd_soff := 4\<rparr>), ?m)"
    by (simp add: edma_tcd_write_def Let_def tcd_reg_at_A)
  from edma_tcd_write_read_back[OF l _ _ _ w] l w show ?thesis
    by (auto simp: tcd_stored_def tcd_width_def)
qed

subsection \<open>Writes that abort\<close>

lemma and_R_MASK_eq_0_iff:
  "v AND R_MASK (fld TCD_NBYTES_MLOFF_SMLOE) = 0 \<longleftrightarrow> \<not> bit v 31"
  "v AND R_MASK (fld TCD_NBYTES_MLOFF_DMLOE) = 0 \<longleftrightarrow> \<not> bit v 30"
  "v AND R_MASK (fld TCD_CITER_ELINK) = 0 \<longleftrightarrow> \<not> bit v 15"
  "v AND R_MASK (fld TCD_BITER_ELINK) = 0 \<longleftrightarrow> \<not> bit v 15"
  "v AND R_MASK (fld TCD_CSR_MAJORELINK) = 0 \<longleftrightarrow> \<not> bit v 5"
  for v :: "'a :: len word"
  using and_R_MASK_fld[of TCD_NBYTES_MLOFF_SMLOE v] and_R_MASK_fld[of TCD_NBYTES_MLOFF_DMLOE v]
    and_R_MASK_fld[of TCD_CITER_ELINK v] and_R_MASK_fld[of TCD_BITER_ELINK v]
    and_R_MASK_fld[of TCD_CSR_MAJORELINK v]
  by (auto simp: field_consts)

lemma biter_ex32: "(ucast (FIELD_EX32 (ucast w) (fld TCD_BITER_BITER)) :: u64) = take_bit 15 (ucast w)"
  for w :: u16
  by (rule bit_word_eqI) (auto simp: bit_simps bit_FIELD_EX32 field_consts field_in_def)

text \<open>
  C4: among the writes that do not start a transfer, exactly these end the emulator with a failed
  assertion: minor-loop offsets in \<open>NBYTES\<close>, channel linking in \<open>CITER\<close>, \<open>BITER\<close> or \<open>CSR\<close>, and a
  \<open>CITER\<close> that differs from the \<open>BITER\<close> programmed before it.
\<close>

theorem edma_tcd_write_aborts:
  assumes "r = TCD_CSR \<Longrightarrow> \<not> bit v 0"
  shows "edma_tcd_write B buf s (A_TCD r) v c m = Inl e \<longleftrightarrow> e = AssertionFailed \<and>
    (r = TCD_NBYTES_MLOFF \<and> (bit v 31 \<or> bit v 30) \<or>
     r = TCD_CITER \<and> (bit v 15 \<or> v \<noteq> take_bit 15 (ucast (tcd_biter (tcd s ! c)))) \<or>
     r = TCD_CSR \<and> bit v 5 \<or>
     r = TCD_BITER \<and> bit v 15)"
  using assms
  by (cases r) (auto simp: edma_tcd_write_def Let_def tcd_reg_at_A and_R_MASK_eq_0_iff and_START_iff
      biter_ex32 assert_that_def)

lemma edma_tcd_write_aborts_witness:
  "edma_tcd_write (phys_bus []) [] edma_realize (A_TCD TCD_CITER) 1 0
     \<lparr>mem = (\<lambda>_. 0), dev = ()\<rparr> = Inl AssertionFailed"
proof -
  have "tcd_biter (tcd edma_realize ! 0) = 0"
    using edma_reset_facts(5)[OF edma_zeroed_lengths(1), of 0]
    by (simp add: edma_realize_def edma_tcd_reset_def)
  then show ?thesis
    using edma_tcd_write_aborts[of TCD_CITER 1 "phys_bus []" "[]" edma_realize 0
        "\<lparr>mem = (\<lambda>_. 0), dev = ()\<rparr>" AssertionFailed]
    by simp
qed

subsection \<open>Arbitration\<close>

lemma start_pending_iff: "start_pending s j \<longleftrightarrow> bit (tcd_csr (tcd s ! j)) 0"
  by (simp add: start_pending_def and_START_iff)

lemma set_arb_order: "set (arb_order k) = {0..<EDMA_CHANNELS}"
proof
  show "set (arb_order k) \<subseteq> {0..<EDMA_CHANNELS}" by (auto dest: arb_order_lt)
  show "{0..<EDMA_CHANNELS} \<subseteq> set (arb_order k)"
  proof
    fix c :: nat assume c: "c \<in> {0..<EDMA_CHANNELS}"
    have "((c + (32 - k mod 32)) mod 32 + k) mod 32 = (c + (32 - k mod 32) + k mod 32) mod 32"
      by (rule trans[OF mod_add_left_eq mod_add_right_eq[symmetric]])
    also have "\<dots> = c" using c by simp
    finally have "c = ((c + (32 - k mod 32)) mod 32 + k) mod 32" by simp
    then show "c \<in> set (arb_order k)"
      unfolding arb_order_def by (auto intro!: image_eqI[of _ _ "(c + (32 - k mod 32)) mod 32"])
  qed
qed

lemma find_only:
  assumes "c \<in> set xs" and "P c" and "\<And>x. x \<in> set xs \<Longrightarrow> P x \<Longrightarrow> x = c"
  shows "find P xs = Some c"
proof (cases "find P xs")
  case None
  with assms(1,2) show ?thesis by (simp add: find_None_iff)
next
  case (Some x)
  with find_SomeD[OF Some] assms(3) show ?thesis by blast
qed

lemma find_nth_first:
  assumes "find P xs = Some x"
  obtains i where "i < length xs" and "xs ! i = x" and "P x" and "\<And>k. k < i \<Longrightarrow> \<not> P (xs ! k)"
  using assms unfolding find_Some_iff by blast

text \<open>A transfer touches the descriptor of its own channel only, and not the arbiter.\<close>

lemma update_irq_nth_other: "i \<noteq> j \<Longrightarrow> tcd (edma_tcd_update_irq s j) ! i = tcd s ! i"
  by (simp add: update_irq_tcd)

lemma major_complete_other:
  assumes "edma_major_complete B s j m = Inr (s', m')"
  shows "(i \<noteq> j \<longrightarrow> tcd s' ! i = tcd s ! i) \<and> arb_offset s' = arb_offset s \<and>
    length (tcd s') = length (tcd s)"
  using assms by (auto simp: edma_major_complete_def Let_def res_bind_eq_Inr_iff split: if_splits)

lemma transmitE:
  assumes "edma_transmit B buf s j m = Inr (s', m')"
  obtains (skip) "edma_major_complete B s j m = Inr (s', m')"
  | (loop) ch m1 where
      "edma_major_complete B (edma_tcd_update_irq (set_tcd s j ch) j) j m1 = Inr (s', m')"
  using assms
  by (auto simp: edma_transmit_def Let_def res_bind_eq_Inr_iff assert_that_eq_Inr_iff
      split: if_splits)

lemma transmit_other:
  assumes "edma_transmit B buf s j m = Inr (s', m')"
  shows "(i \<noteq> j \<longrightarrow> tcd s' ! i = tcd s ! i) \<and> arb_offset s' = arb_offset s \<and>
    length (tcd s') = length (tcd s)"
  using assms
  by (rule transmitE) (auto dest!: major_complete_other[where i = i] simp: update_irq_tcd)

definition arb_distance :: "edma_state \<Rightarrow> nat \<Rightarrow> nat" where
  "arb_distance s c = (c + EDMA_CHANNELS - arb_offset s) mod EDMA_CHANNELS"

lemma cyclic_distance:
  fixes x d off :: nat
  assumes "off < 32" and "x \<le> d" and "d < 32"
  shows "((d + off) mod 32 + 32 - (x + off) mod 32) mod 32 = d - x"
proof -
  have m: "a mod 32 = (if a < 32 then a else a - 32)" if "a < 64" for a :: nat
    using that by (simp add: mod_if)
  have "(d + off) mod 32 + 32 - (x + off) mod 32 = d - x \<or>
      (d + off) mod 32 + 32 - (x + off) mod 32 = d - x + 32"
    using assms by (simp add: m)
  moreover have "(d - x) mod 32 = d - x" and "(d - x + 32) mod 32 = d - x"
    using assms(3) by simp_all
  ultimately show ?thesis by metis
qed

lemma arb_distance_step:
  assumes "off < 32" and "c < 32" and "i < 32" and "j = (i + off) mod 32" and "j \<noteq> c"
    and "\<And>k. k < i \<Longrightarrow> (k + off) mod 32 \<noteq> c"
  shows "(c + 32 - (j + 1) mod 32) mod 32 < (c + 32 - off) mod (32 :: nat)"
proof -
  define d where "d = (c + 32 - off) mod 32"
  have d: "d < 32" by (simp add: d_def)
  have "(d + off) mod 32 = (c + 32 - off + off) mod 32"
    unfolding d_def by (rule mod_add_left_eq)
  then have c: "(d + off) mod 32 = c" using assms(1,2) by simp
  have "\<not> d < i" using assms(6) c by blast
  moreover have "d \<noteq> i" using assms(4,5) c by blast
  ultimately have "i < d" by simp
  have "(j + 1) mod 32 = (Suc i + off) mod 32"
    by (simp add: assms(4) mod_simps)
  with \<open>i < d\<close> have "(c + 32 - (j + 1) mod 32) mod 32 = d - Suc i"
    using cyclic_distance[OF assms(1), of "Suc i" d] d c by simp
  with \<open>i < d\<close> show ?thesis unfolding d_def[symmetric] by simp
qed



text \<open>With no other request pending, a start request is served at once.\<close>

definition edma_idle :: "edma_state \<Rightarrow> bool" where
  "edma_idle s \<longleftrightarrow> (\<forall>j < EDMA_CHANNELS. \<not> start_pending s j)"

lemma start_write:
  assumes "edma_idle s" and "length (tcd s) = EDMA_CHANNELS" and "c < EDMA_CHANNELS"
    and "bit v 0" and "\<not> bit v 5"
  defines "ch \<equiv> edma_start_channel ((tcd s ! c)\<lparr>tcd_csr := ucast v\<rparr>)"
  shows "edma_tcd_write B buf s (A_TCD TCD_CSR) v c m =
    res_bind (edma_transmit B buf (set_tcd s c ch) c m)
      (\<lambda>(s', m'). Inr (s'\<lparr>arb_offset := (c + 1) mod EDMA_CHANNELS\<rparr>, m'))"
proof -
  define t where "t = set_tcd s c ((tcd s ! c)\<lparr>tcd_csr := ucast v\<rparr>)"
  have "start_pending t x \<longleftrightarrow> x = c" if "x < 32" for x
    using assms(1-4) that
    by (auto simp: t_def start_pending_iff edma_idle_def nth_list_update bit_simps)
  then have "find (start_pending t) (arb_order (arb_offset t)) = Some c"
    using assms(3) by (intro find_only) (auto simp: set_arb_order)
  moreover have "edma_tcd_write B buf s (A_TCD TCD_CSR) v c m = edma_arbitrate B buf t m"
    using assms(4,5) by (simp add: edma_tcd_write_def Let_def tcd_reg_at_A and_R_MASK_eq_0_iff
        and_START_iff t_def)
  moreover have "set_tcd t c (edma_start_channel (tcd t ! c)) = set_tcd s c ch"
    using assms(2,3) by (simp add: t_def ch_def set_tcd_def)
  ultimately show ?thesis
    by (simp add: edma_arbitrate_def)
qed

end
