(* ===== verification/Edma_Transfer.thy ===== *)
theory Edma_Transfer
  imports Edma_Regs
begin

section \<open>What a transfer of the eDMA controller copies\<close>

text \<open>
  The transfer loops against a specification of memory copying. The lemmas on data movement are
  proved for any bus that keeps the laws of locale \<open>ram_bus\<close>; the properties at the end instantiate
  them on the physical memory of theory \<open>Phys_Mem\<close>.
\<close>

subsection \<open>Copying blocks of memory\<close>

definition mem_copy :: "nat \<Rightarrow> nat \<Rightarrow> nat \<Rightarrow> (nat \<Rightarrow> u8) \<Rightarrow> nat \<Rightarrow> u8" where
  "mem_copy d s n \<mu> x = (if d \<le> x \<and> x < d + n then \<mu> (s + (x - d)) else \<mu> x)"

lemma mem_copy_0 [simp]: "mem_copy d s 0 \<mu> = \<mu>"
  by (rule ext) (auto simp: mem_copy_def)

text \<open>
  Two adjacent blocks copied one after the other are one block, if the second source is not
  overwritten by the first copy.
\<close>

lemma mem_copy_append:
  assumes "d \<le> s \<or> s + (n + k) \<le> d"
  shows "mem_copy (d + n) (s + n) k (mem_copy d s n \<mu>) = mem_copy d s (n + k) \<mu>"
proof
  fix x
  consider "x < d" | "d \<le> x" "x < d + n" | "d + n \<le> x" "x < d + n + k" | "d + n + k \<le> x" by linarith
  then show "mem_copy (d + n) (s + n) k (mem_copy d s n \<mu>) x = mem_copy d s (n + k) \<mu> x"
    using assms by cases (auto simp: mem_copy_def)
qed

subsection \<open>The minor loop\<close>

lemma bit_small_nat:
  assumes "n < 2 ^ 15" and "15 \<le> i"
  shows "\<not> bit (n :: nat) i"
proof -
  have "n < 2 ^ i" using assms(1) power_increasing[OF assms(2), of "2 :: nat"] by linarith
  then show ?thesis by (simp add: bit_nat_def)
qed

lemma scast_of_nat_small:
  assumes "n < 2 ^ 15"
  shows "(scast (of_nat n :: u16) :: u32) = of_nat n"
proof (rule bit_word_eqI)
  fix i assume "i < LENGTH(32)"
  then show "bit (scast (of_nat n :: u16) :: u32) i = bit (of_nat n :: u32) i"
    using bit_small_nat[OF assms] by (cases "i < 15") (auto simp: bit_simps)
qed

lemma ucast_of_nat_small:
  assumes "n < 2 ^ 15"
  shows "(ucast (of_nat n :: u16) :: u32) = of_nat n"
proof (rule bit_word_eqI)
  fix i assume "i < LENGTH(32)"
  then show "bit (ucast (of_nat n :: u16) :: u32) i = bit (of_nat n :: u32) i"
    using bit_small_nat[OF assms] by (cases "i < 15") (auto simp: bit_simps)
qed

context ram_bus
begin

lemma minor_loop_copy:
  assumes "0 < n" and "n < 2 ^ 15"
    and "unat S + k * n < 2 ^ 32" and "unat D + k * n < 2 ^ 32"
    and "\<And>x. unat S \<le> x \<Longrightarrow> x < unat S + k * n \<Longrightarrow> readable x"
    and "\<And>x. unat D \<le> x \<Longrightarrow> x < unat D + k * n \<Longrightarrow> writable x"
    and "unat D \<le> unat S \<or> unat S + k * n \<le> unat D"
  shows "\<exists>buf' m'. edma_minor_loop B n n n (of_nat n) (of_nat n) k (S, D, buf, m) =
      Inr (S + of_nat (k * n), D + of_nat (k * n), buf', m') \<and>
    rest m' = rest m \<and> peek m' = mem_copy (unat D) (unat S) (k * n) (peek m)"
  using assms(3-)
proof (induction k arbitrary: S D buf m)
  case 0
  then show ?case by simp
next
  case (Suc k)
  obtain bs m1 where bs: "bus_read B (unat S) n m = Inr (bs, m)" "length bs = n"
    and m1: "bus_write B (unat D) bs m = Inr m1" "rest m1 = rest m"
    and p1: "\<And>x. peek m1 x =
      (if unat D \<le> x \<and> x < unat D + n then peek m (unat S + (x - unat D)) else peek m x)"
    using read_write_word[of "unat S" n "unat D" m] Suc.prems(3,4) by auto
  have S: "unat (S + of_nat n) = unat S + n" and D: "unat (D + of_nat n) = unat D + n"
    using Suc.prems(1,2) by (simp_all add: unat_add_no_wrap)
  have "\<exists>buf' m'. edma_minor_loop B n n n (of_nat n) (of_nat n) k
        (S + of_nat n, D + of_nat n, bs @ drop n buf, m1) =
      Inr (S + of_nat n + of_nat (k * n), D + of_nat n + of_nat (k * n), buf', m') \<and>
    rest m' = rest m1 \<and>
    peek m' = mem_copy (unat (D + of_nat n)) (unat (S + of_nat n)) (k * n) (peek m1)"
    using Suc.prems by (intro Suc.IH) (auto simp: S D)
  moreover have "peek m1 = mem_copy (unat D) (unat S) n (peek m)"
    by (auto simp: p1 mem_copy_def)
  moreover have "mem_copy (unat D + n) (unat S + n) (k * n) (mem_copy (unat D) (unat S) n (peek m)) =
      mem_copy (unat D) (unat S) (Suc k * n) (peek m)"
    using Suc.prems(5) by (subst mem_copy_append) auto
  ultimately show ?case
    using bs m1 assms(1) by (auto simp: S D scast_of_nat_small[OF assms(2)]
        ucast_of_nat_small[OF assms(2)] algebra_simps)
qed

end

subsection \<open>One request\<close>

text \<open>
  A channel set up as a plain copy: source and destination move in elements of \<open>2 ^ z\<close> bytes, both
  addresses advance by the size of an element, and the minor loop is a whole number of elements.
\<close>

definition nbytes_of :: "tcd_state \<Rightarrow> nat" where
  "nbytes_of ch = unat (FIELD_EX32 (tcd_nbytes_mloff ch) (fld TCD_NBYTES_MLOFF_NBYTES))"

definition plain_copy :: "nat \<Rightarrow> tcd_state \<Rightarrow> bool" where
  "plain_copy z ch \<longleftrightarrow> z < 7 \<and>
     FIELD_EX16 (tcd_attr ch) (fld TCD_ATTR_SSIZE) = of_nat z \<and>
     FIELD_EX16 (tcd_attr ch) (fld TCD_ATTR_DSIZE) = of_nat z \<and>
     tcd_soff ch = of_nat (2 ^ z) \<and> tcd_doff ch = of_nat (2 ^ z) \<and>
     2 ^ z dvd nbytes_of ch"

text \<open>The state after one request of such a channel is served.\<close>

definition request_served :: "tcd_state \<Rightarrow> tcd_state" where
  "request_served ch = irq_refresh (ch\<lparr>
     tcd_saddr := tcd_saddr ch + of_nat (nbytes_of ch),
     tcd_daddr := tcd_daddr ch + of_nat (nbytes_of ch),
     tcd_citer := FIELD_DP16 (tcd_citer ch) (fld TCD_CITER_CITER) (ucast (citer_of ch) - 1),
     ch_csr := ch_csr ch AND NOT (R_MASK (fld CH_CSR_ACTIVE))\<rparr>)"

definition major_served :: "tcd_state \<Rightarrow> tcd_state" where
  "major_served ch = ch\<lparr>
     tcd_saddr := tcd_saddr ch + tcd_slast_sda ch,
     tcd_daddr := tcd_daddr ch + tcd_dlast_sga ch,
     tcd_citer := FIELD_DP16 (tcd_citer ch) (fld TCD_CITER_CITER) (ucast (biter_of ch)),
     ch_csr := ch_csr ch OR R_MASK (fld CH_CSR_DONE),
     ch_int := ch_int ch OR R_MASK (fld CH_INT_INT)\<rparr>"

lemma FIELD_EX32_full: "FIELD_EX32 v (0, 32) = v"
  by (simp add: FIELD_EX32_def extract32_val_def)

lemma FIELD_EX16_low: "field_in 16 (0, l) \<Longrightarrow> FIELD_EX16 v (0, l) = take_bit l v"
  by (rule bit_word_eqI) (auto simp: bit_FIELD_EX16 bit_take_bit_iff)

lemma citer_of_eq: "citer_of ch = take_bit 15 (tcd_citer ch)"
  and biter_of_eq: "biter_of ch = take_bit 15 (tcd_biter ch)"
  by (simp_all add: citer_of_def biter_of_def field_consts FIELD_EX16_low field_in_def)

lemma citer_lt: "unat (citer_of ch) < 2 ^ 15"
  and biter_lt: "unat (biter_of ch) < 2 ^ 15"
  unfolding citer_of_eq biter_of_eq unsigned_take_bit_eq by (rule take_bit_nat_less_exp)+

lemma citer_deposit:
  "FIELD_EX16 (FIELD_DP16 w (fld TCD_CITER_CITER) x) (fld TCD_CITER_CITER) = ucast (take_bit 15 x)"
  by (subst FIELD_EX16_DP16) (simp_all add: field_consts field_in_def)

lemma irq_refresh_fields [simp]:
  "tcd_saddr (irq_refresh ch) = tcd_saddr ch" "tcd_daddr (irq_refresh ch) = tcd_daddr ch"
  "tcd_soff (irq_refresh ch) = tcd_soff ch" "tcd_doff (irq_refresh ch) = tcd_doff ch"
  "tcd_attr (irq_refresh ch) = tcd_attr ch" "tcd_csr (irq_refresh ch) = tcd_csr ch"
  "tcd_nbytes_mloff (irq_refresh ch) = tcd_nbytes_mloff ch"
  "tcd_slast_sda (irq_refresh ch) = tcd_slast_sda ch"
  "tcd_dlast_sga (irq_refresh ch) = tcd_dlast_sga ch"
  "tcd_citer (irq_refresh ch) = tcd_citer ch" "tcd_biter (irq_refresh ch) = tcd_biter ch"
  "ch_csr (irq_refresh ch) = ch_csr ch"
  by (simp_all add: irq_refresh_def)

text \<open>The fields that neither of the two steps changes.\<close>

lemma served_fields [simp]:
  "tcd_soff (request_served ch) = tcd_soff ch" "tcd_doff (request_served ch) = tcd_doff ch"
  "tcd_attr (request_served ch) = tcd_attr ch" "tcd_csr (request_served ch) = tcd_csr ch"
  "tcd_nbytes_mloff (request_served ch) = tcd_nbytes_mloff ch"
  "tcd_slast_sda (request_served ch) = tcd_slast_sda ch"
  "tcd_dlast_sga (request_served ch) = tcd_dlast_sga ch"
  "tcd_biter (request_served ch) = tcd_biter ch"
  "tcd_saddr (request_served ch) = tcd_saddr ch + of_nat (nbytes_of ch)"
  "tcd_daddr (request_served ch) = tcd_daddr ch + of_nat (nbytes_of ch)"
  "tcd_citer (request_served ch) =
     FIELD_DP16 (tcd_citer ch) (fld TCD_CITER_CITER) (ucast (citer_of ch) - 1)"
  by (simp_all add: request_served_def)

lemma major_served_fields [simp]:
  "tcd_csr (major_served ch) = tcd_csr ch" "tcd_biter (major_served ch) = tcd_biter ch"
  "tcd_saddr (major_served ch) = tcd_saddr ch + tcd_slast_sda ch"
  "tcd_daddr (major_served ch) = tcd_daddr ch + tcd_dlast_sga ch"
  "irq (major_served ch) = irq ch"
  "tcd_citer (major_served ch) = FIELD_DP16 (tcd_citer ch) (fld TCD_CITER_CITER) (ucast (biter_of ch))"
  by (simp_all add: major_served_def)

lemma config_cong:
  "tcd_csr ch' = tcd_csr ch \<Longrightarrow> csr_flag ch' f = csr_flag ch f"
  "tcd_biter ch' = tcd_biter ch \<Longrightarrow> biter_of ch' = biter_of ch"
  "tcd_nbytes_mloff ch' = tcd_nbytes_mloff ch \<Longrightarrow> nbytes_of ch' = nbytes_of ch"
  by (simp_all add: csr_flag_def biter_of_def nbytes_of_def)

lemma csr_flag_request_served [simp]: "csr_flag (request_served ch) f = csr_flag ch f"
  by (rule config_cong(1)) simp

lemma plain_copy_request_served [simp]: "plain_copy z (request_served ch) = plain_copy z ch"
  by (simp add: plain_copy_def config_cong[of "request_served ch" ch])

lemma citer_decrement:
  fixes w :: u16
  assumes "0 < unat w" and "unat w < 2 ^ 15"
  shows "(ucast (take_bit 15 (ucast w - 1 :: u32)) :: u16) = w - 1"
proof -
  have "unat (ucast w - 1 :: u32) = unat w - 1"
    using assms by (subst unat_sub) (simp_all add: word_le_nat_alt unsigned_ucast_eq take_bit_nat_eq_self)
  moreover have "unat (w - 1) = unat w - 1"
    using assms by (subst unat_sub) (simp_all add: word_le_nat_alt)
  ultimately have "unat (ucast (take_bit 15 (ucast w - 1 :: u32)) :: u16) = unat (w - 1)"
    using assms by (simp add: unsigned_ucast_eq unsigned_take_bit_eq take_bit_nat_eq_self)
  then show ?thesis by (simp add: word_unat_eq_iff)
qed

lemma citer_reload:
  fixes w :: u16
  assumes "unat w < 2 ^ 15"
  shows "(ucast (take_bit 15 (ucast w :: u32)) :: u16) = w"
  using assms by (simp add: word_unat_eq_iff unsigned_ucast_eq unsigned_take_bit_eq take_bit_nat_eq_self)

lemma request_served_citer:
  "0 < unat (citer_of ch) \<Longrightarrow> citer_of (request_served ch) = citer_of ch - 1"
  using citer_lt[of ch]
  by (simp add: citer_of_def[of "request_served ch"] citer_deposit citer_decrement)

lemma major_served_citer: "citer_of (major_served ch) = biter_of ch"
  using biter_lt[of ch]
  by (simp add: citer_of_def[of "major_served ch"] citer_deposit citer_reload)

lemma major_complete_plain:
  assumes "c < length (tcd s)" and "\<not> csr_flag (tcd s ! c) TCD_CSR_ESDA"
    and "\<not> csr_flag (tcd s ! c) TCD_CSR_ESG"
  shows "edma_major_complete B s c m =
    Inr (if citer_of (tcd s ! c) = 0 then set_tcd s c (major_served (tcd s ! c)) else s, m)"
proof -
  have "csr_flag ((tcd s ! c)\<lparr>tcd_saddr := x\<rparr>) TCD_CSR_ESG = csr_flag (tcd s ! c) TCD_CSR_ESG" for x
    by (simp add: csr_flag_def)
  with assms show ?thesis
    by (simp add: edma_major_complete_def Let_def major_served_def biter_of_def FIELD_EX32_full
        fld.simps(11,14))
qed

context ram_bus
begin

lemma transmit_plain:
  assumes "plain_copy z (tcd s ! c)" and "c < length (tcd s)" and "0 < unat (citer_of (tcd s ! c))"
    and "\<not> csr_flag (tcd s ! c) TCD_CSR_ESDA" and "\<not> csr_flag (tcd s ! c) TCD_CSR_ESG"
  defines "S \<equiv> unat (tcd_saddr (tcd s ! c))" and "D \<equiv> unat (tcd_daddr (tcd s ! c))"
    and "n \<equiv> nbytes_of (tcd s ! c)"
  assumes "S + n < 2 ^ 32" and "D + n < 2 ^ 32"
    and "\<And>x. S \<le> x \<Longrightarrow> x < S + n \<Longrightarrow> readable x" and "\<And>x. D \<le> x \<Longrightarrow> x < D + n \<Longrightarrow> writable x"
    and "D \<le> S \<or> S + n \<le> D"
  shows "\<exists>s' m'. edma_transmit B buf s c m = Inr (s', m') \<and>
    rest m' = rest m \<and> peek m' = mem_copy D S n (peek m) \<and>
    tcd s' = (tcd s)[c := (if citer_of (tcd s ! c) = 1 then major_served (request_served (tcd s ! c))
                           else request_served (tcd s ! c))]"
proof -
  define ch where "ch = tcd s ! c"
  obtain k where k: "n = k * 2 ^ z"
    using assms(1) by (auto simp: plain_copy_def n_def mult.commute)
  have z: "z < 7" "unat (of_nat z :: u16) = z" "(of_nat z :: u16) \<noteq> 7"
    and sz: "FIELD_EX16 (tcd_attr ch) (fld TCD_ATTR_SSIZE) = of_nat z"
      "FIELD_EX16 (tcd_attr ch) (fld TCD_ATTR_DSIZE) = of_nat z"
    and off: "tcd_soff ch = of_nat (2 ^ z)" "tcd_doff ch = of_nat (2 ^ z)"
    using assms(1) by (auto simp: plain_copy_def ch_def unat_of_nat word_unat_eq_iff)
  have p: "unat (2 ^ z :: u32) = 2 ^ z" "(2 :: nat) ^ z < 2 ^ 15"
    using z(1) power_strict_increasing[of z 15 "2 :: nat"]
    by (simp_all add: unat_2_power del: power_numeral)
  have len: "unat (FIELD_EX32 (tcd_nbytes_mloff ch) (fld TCD_NBYTES_MLOFF_NBYTES) div 2 ^ z) = k"
    using k p(1) by (simp add: unat_div n_def nbytes_of_def ch_def)
  obtain buf' m' where loop: "edma_minor_loop B (2 ^ z) (2 ^ z) (2 ^ z) (2 ^ z) (2 ^ z) k
        (tcd_saddr ch, tcd_daddr ch, buf, m) =
      Inr (tcd_saddr ch + of_nat n, tcd_daddr ch + of_nat n, buf', m')"
    and m': "rest m' = rest m" "peek m' = mem_copy D S n (peek m)"
    using minor_loop_copy[of "2 ^ z" "tcd_saddr ch" k "tcd_daddr ch" buf m] assms p(2)
    unfolding ch_def k S_def D_def by auto
  let ?s = "edma_tcd_update_irq (set_tcd s c (ch\<lparr>tcd_saddr := tcd_saddr ch + of_nat n,
      tcd_daddr := tcd_daddr ch + of_nat n,
      tcd_citer := FIELD_DP16 (tcd_citer ch) (fld TCD_CITER_CITER) (ucast (citer_of ch) - 1),
      ch_csr := ch_csr ch AND NOT (R_MASK (fld CH_CSR_ACTIVE))\<rparr>)) c"
  have tcd: "tcd ?s = (tcd s)[c := request_served ch]"
    using assms(2) by (simp add: update_irq_tcd request_served_def n_def ch_def)
  have t: "edma_transmit B buf s c m = edma_major_complete B ?s c m'"
    using assms(3) by (simp add: edma_transmit_def Let_def ch_def[symmetric] sz z p(1) len off loop
        word_less_nat_alt)
  have cfg: "\<not> csr_flag (request_served ch) TCD_CSR_ESDA" "\<not> csr_flag (request_served ch) TCD_CSR_ESG"
    using assms(4,5) by (simp_all add: ch_def)
  have last: "citer_of (request_served ch) = 0 \<longleftrightarrow> citer_of ch = 1"
    using assms(3) by (simp add: request_served_citer ch_def)
  from t tcd obtain s1 where s1: "edma_transmit B buf s c m = edma_major_complete B s1 c m'"
    "tcd s1 = (tcd s)[c := request_served ch]" by blast
  then show ?thesis
    using assms(2) cfg m' by (simp add: major_complete_plain last ch_def[symmetric])
qed

end

subsection \<open>Requests and the major loop\<close>

text \<open>
  A guest writes \<open>TCD_CSR\<close> with START set once per minor loop; each element of the list is the
  initial content of the transfer's local buffer in one of these requests.
\<close>

fun edma_requests :: "'m bus \<Rightarrow> u64 \<Rightarrow> nat \<Rightarrow> u8 list list \<Rightarrow> edma_state \<times> 'm \<Rightarrow> (edma_state \<times> 'm) res" where
  "edma_requests B v c [] (s, m) = Inr (s, m)"
| "edma_requests B v c (buf # bufs) (s, m) =
     res_bind (edma_tcd_write B buf s (A_TCD TCD_CSR) v c m) (edma_requests B v c bufs)"

definition started :: "u64 \<Rightarrow> tcd_state \<Rightarrow> tcd_state" where
  "started v ch = edma_start_channel (ch\<lparr>tcd_csr := ucast v\<rparr>)"

lemma started_fields [simp]:
  "tcd_saddr (started v ch) = tcd_saddr ch" "tcd_daddr (started v ch) = tcd_daddr ch"
  "tcd_soff (started v ch) = tcd_soff ch" "tcd_doff (started v ch) = tcd_doff ch"
  "tcd_attr (started v ch) = tcd_attr ch" "tcd_nbytes_mloff (started v ch) = tcd_nbytes_mloff ch"
  "tcd_slast_sda (started v ch) = tcd_slast_sda ch" "tcd_dlast_sga (started v ch) = tcd_dlast_sga ch"
  "tcd_citer (started v ch) = tcd_citer ch" "tcd_biter (started v ch) = tcd_biter ch"
  by (simp_all add: started_def edma_start_channel_def)

lemma started_derived [simp]:
  "citer_of (started v ch) = citer_of ch" "biter_of (started v ch) = biter_of ch"
  "nbytes_of (started v ch) = nbytes_of ch" "plain_copy z (started v ch) = plain_copy z ch"
  by (simp_all add: citer_of_def biter_of_def nbytes_of_def plain_copy_def)

lemma bit_started_csr: "bit (tcd_csr (started v ch)) k \<longleftrightarrow> k < 16 \<and> k \<noteq> 0 \<and> bit v k"
proof -
  have "bit (R_MASK (fld TCD_CSR_START) :: u16) k \<longleftrightarrow> k = 0"
    using bit_R_MASK_fld[of TCD_CSR_START k, where 'a = 16] by (auto simp: field_consts)
  then show ?thesis
    by (auto simp: started_def edma_start_channel_def bit_simps)
qed

lemma csr_flag_started:
  "csr_flag (started v ch) TCD_CSR_ESDA \<longleftrightarrow> bit v 7" "csr_flag (started v ch) TCD_CSR_ESG \<longleftrightarrow> bit v 4"
  "csr_flag (started v ch) TCD_CSR_INTMAJOR \<longleftrightarrow> bit v 1"
  by (simp_all add: csr_flag_iff fld.simps bit_started_csr)

definition after_request :: "u64 \<Rightarrow> tcd_state \<Rightarrow> tcd_state" where
  "after_request v ch = (if citer_of ch = 1 then major_served (request_served (started v ch))
     else request_served (started v ch))"

lemma after_request_csr: "tcd_csr (after_request v ch) = tcd_csr (started v ch)"
  by (simp add: after_request_def)

lemma idle_after_request:
  assumes "edma_idle s" and "tcd s' = (tcd s)[c := after_request v (tcd s ! c)]"
  shows "edma_idle s'"
proof -
  have "\<not> bit (tcd_csr (tcd s' ! j)) 0" if "j < EDMA_CHANNELS" for j
    using assms that
    by (cases "j = c \<and> c < length (tcd s)")
      (auto simp: edma_idle_def start_pending_iff nth_list_update after_request_csr bit_started_csr
        list_update_beyond)
  then show ?thesis by (simp add: edma_idle_def start_pending_iff)
qed

text \<open>A start request whose control word asks for no linking, no scatter-gather and no ESDA.\<close>

definition plain_start :: "u64 \<Rightarrow> bool" where
  "plain_start v \<longleftrightarrow> bit v 0 \<and> \<not> bit v 4 \<and> \<not> bit v 5 \<and> \<not> bit v 7"

context ram_bus
begin

lemma start_request:
  assumes "edma_idle s" and "length (tcd s) = EDMA_CHANNELS" and "c < EDMA_CHANNELS"
    and "plain_start v" and "plain_copy z (tcd s ! c)" and "0 < unat (citer_of (tcd s ! c))"
  defines "S \<equiv> unat (tcd_saddr (tcd s ! c))" and "D \<equiv> unat (tcd_daddr (tcd s ! c))"
    and "n \<equiv> nbytes_of (tcd s ! c)"
  assumes "S + n < 2 ^ 32" and "D + n < 2 ^ 32"
    and "\<And>x. S \<le> x \<Longrightarrow> x < S + n \<Longrightarrow> readable x" and "\<And>x. D \<le> x \<Longrightarrow> x < D + n \<Longrightarrow> writable x"
    and "D \<le> S \<or> S + n \<le> D"
  shows "\<exists>s' m'. edma_tcd_write B buf s (A_TCD TCD_CSR) v c m = Inr (s', m') \<and>
    rest m' = rest m \<and> peek m' = mem_copy D S n (peek m) \<and>
    tcd s' = (tcd s)[c := after_request v (tcd s ! c)]"
proof -
  define t where "t = set_tcd s c (started v (tcd s ! c))"
  have ch: "tcd t ! c = started v (tcd s ! c)" "tcd t = (tcd s)[c := started v (tcd s ! c)]"
    and lt: "c < length (tcd t)"
    using assms(2,3) by (simp_all add: t_def)
  have "\<exists>s' m'. edma_transmit B buf t c m = Inr (s', m') \<and> rest m' = rest m \<and>
      peek m' = mem_copy D S n (peek m) \<and> tcd s' = (tcd t)[c := after_request v (tcd s ! c)]"
    using transmit_plain[of z t c buf m] lt assms(4-)
    unfolding ch(1) after_request_def plain_start_def by (simp add: csr_flag_started)
  then have "\<exists>s' m'. edma_transmit B buf t c m = Inr (s', m') \<and> rest m' = rest m \<and>
      peek m' = mem_copy D S n (peek m) \<and> tcd s' = (tcd s)[c := after_request v (tcd s ! c)]"
    by (simp add: ch(2))
  then show ?thesis
    using start_write[OF assms(1-3), of v B buf m] assms(4)
    by (auto simp: plain_start_def started_def t_def)
qed

end

text \<open>
  The descriptor after a completed major loop of \<open>k\<close> requests: the addresses moved past the block
  and adjusted, the iteration counter reloaded, DONE (bit 30) set, ACTIVE (bit 31) clear, the
  interrupt flag set, and the interrupt line raised if the control word asked for it (INTMAJOR).
\<close>

definition copy_completed :: "nat \<Rightarrow> u64 \<Rightarrow> tcd_state \<Rightarrow> tcd_state \<Rightarrow> bool" where
  "copy_completed k v ch ch' \<longleftrightarrow>
     tcd_saddr ch' = tcd_saddr ch + of_nat (k * nbytes_of ch) + tcd_slast_sda ch \<and>
     tcd_daddr ch' = tcd_daddr ch + of_nat (k * nbytes_of ch) + tcd_dlast_sga ch \<and>
     citer_of ch' = biter_of ch \<and>
     bit (ch_csr ch') 30 \<and> \<not> bit (ch_csr ch') 31 \<and>
     bit (ch_int ch') 0 \<and> (bit v 1 \<longrightarrow> irq ch')"

lemma bit_DONE_ACTIVE:
  "bit (R_MASK (fld CH_CSR_DONE) :: u32) k \<longleftrightarrow> k = 30"
  "bit (R_MASK (fld CH_CSR_ACTIVE) :: u32) k \<longleftrightarrow> k = 31"
  using bit_R_MASK_fld[of CH_CSR_DONE k, where 'a = 32] bit_R_MASK_fld[of CH_CSR_ACTIVE k, where 'a = 32]
  by (auto simp: field_consts)

lemma after_request_last:
  assumes "citer_of ch = 1"
  shows "copy_completed 1 v ch (after_request v ch)"
proof -
  have c: "citer_of (request_served (started v ch)) = 0"
    using assms by (simp add: request_served_citer)
  have csr: "csr_flag (request_served (started v ch)) TCD_CSR_INTMAJOR = bit v 1"
    by (simp add: csr_flag_started)
  have "irq (request_served (started v ch))" if "bit v 1"
    using c csr that unfolding request_served_def irq_refresh_irq irq_cond_def
    by (simp add: citer_of_def csr_flag_def)
  moreover have "ch_csr (major_served (request_served (started v ch))) =
      (ch_csr (started v ch) AND NOT (R_MASK (fld CH_CSR_ACTIVE))) OR R_MASK (fld CH_CSR_DONE)"
    by (simp add: major_served_def request_served_def)
  moreover have "bit (ch_int (major_served ch')) 0" for ch'
    by (simp add: major_served_def R_MASK_CH_INT bit_or_iff bit_1_iff)
  moreover have "biter_of (request_served (started v ch)) = biter_of ch"
    by (simp add: biter_of_def)
  ultimately show ?thesis
    using assms
    by (simp add: copy_completed_def after_request_def major_served_citer bit_simps bit_DONE_ACTIVE)
qed

lemma after_request_step:
  assumes "citer_of ch \<noteq> 1"
  shows "tcd_saddr (after_request v ch) = tcd_saddr ch + of_nat (nbytes_of ch)"
    and "tcd_daddr (after_request v ch) = tcd_daddr ch + of_nat (nbytes_of ch)"
    and "nbytes_of (after_request v ch) = nbytes_of ch"
    and "plain_copy z (after_request v ch) = plain_copy z ch"
    and "biter_of (after_request v ch) = biter_of ch"
    and "tcd_slast_sda (after_request v ch) = tcd_slast_sda ch"
    and "tcd_dlast_sga (after_request v ch) = tcd_dlast_sga ch"
    and "0 < unat (citer_of ch) \<Longrightarrow> citer_of (after_request v ch) = citer_of ch - 1"
  using assms by (simp_all add: after_request_def request_served_citer)
    (simp_all add: nbytes_of_def biter_of_def)

lemma copy_completed_Suc:
  assumes "citer_of ch \<noteq> 1" and "copy_completed k v (after_request v ch) ch'"
  shows "copy_completed (Suc k) v ch ch'"
  using assms(2) unfolding copy_completed_def after_request_step[OF assms(1)]
  by (simp add: algebra_simps)

context ram_bus
begin

lemma requests_copy:
  assumes "bufs \<noteq> []" and "edma_idle s" and "length (tcd s) = EDMA_CHANNELS" and "c < EDMA_CHANNELS"
    and "plain_start v" and "plain_copy z (tcd s ! c)" and "unat (citer_of (tcd s ! c)) = length bufs"
    and "unat (tcd_saddr (tcd s ! c)) = S" and "unat (tcd_daddr (tcd s ! c)) = D"
    and "nbytes_of (tcd s ! c) = n"
    and "S + length bufs * n < 2 ^ 32" and "D + length bufs * n < 2 ^ 32"
    and "\<And>x. S \<le> x \<Longrightarrow> x < S + length bufs * n \<Longrightarrow> readable x"
    and "\<And>x. D \<le> x \<Longrightarrow> x < D + length bufs * n \<Longrightarrow> writable x"
    and "D \<le> S \<or> S + length bufs * n \<le> D"
  shows "\<exists>s' m'. edma_requests B v c bufs (s, m) = Inr (s', m') \<and> rest m' = rest m \<and>
    peek m' = mem_copy D S (length bufs * n) (peek m) \<and> edma_idle s' \<and>
    (\<exists>ch'. tcd s' = (tcd s)[c := ch'] \<and> copy_completed (length bufs) v (tcd s ! c) ch')"
  using assms
proof (induction bufs arbitrary: s S D m)
  case Nil
  then show ?case by simp
next
  case (Cons buf bufs)
  have "\<exists>s' m'. edma_tcd_write B buf s (A_TCD TCD_CSR) v c m = Inr (s', m') \<and>
      rest m' = rest m \<and> peek m' = mem_copy D S n (peek m) \<and>
      tcd s' = (tcd s)[c := after_request v (tcd s ! c)]"
    using start_request[of s c v z buf m] Cons.prems by auto
  then obtain s1 m1 where w: "edma_tcd_write B buf s (A_TCD TCD_CSR) v c m = Inr (s1, m1)"
    and m1: "rest m1 = rest m" "peek m1 = mem_copy D S n (peek m)"
    and s1: "tcd s1 = (tcd s)[c := after_request v (tcd s ! c)]" by blast
  have idle: "edma_idle s1" using Cons.prems(2) s1 by (rule idle_after_request)
  show ?case
  proof (cases "bufs = []")
    case True
    then have "citer_of (tcd s ! c) = 1" using Cons.prems(7) by (simp add: word_unat_eq_iff)
    with True show ?thesis
      using w m1 s1 idle after_request_last[of "tcd s ! c" v] by auto
  next
    case False
    then have ne: "citer_of (tcd s ! c) \<noteq> 1" using Cons.prems(7) by auto
    note step = after_request_step[OF ne, where v = v]
    have ch: "tcd s1 ! c = after_request v (tcd s ! c)" using Cons.prems(3,4) s1 by simp
    have cit: "unat (citer_of (tcd s1 ! c)) = length bufs"
      using Cons.prems(7) unat_sub[of 1 "citer_of (tcd s ! c)"]
      unfolding ch by (simp add: step(8) word_le_nat_alt)
    have adr: "unat (tcd_saddr (tcd s1 ! c)) = S + n" "unat (tcd_daddr (tcd s1 ! c)) = D + n"
      unfolding ch step Cons.prems(10) using Cons.prems(8,9,11,12) by (simp_all add: unat_add_no_wrap)
    have "\<exists>s' m'. edma_requests B v c bufs (s1, m1) = Inr (s', m') \<and> rest m' = rest m1 \<and>
        peek m' = mem_copy (D + n) (S + n) (length bufs * n) (peek m1) \<and> edma_idle s' \<and>
        (\<exists>ch'. tcd s' = (tcd s1)[c := ch'] \<and> copy_completed (length bufs) v (tcd s1 ! c) ch')"
      using False idle Cons.prems cit adr s1
      by (intro Cons.IH) (auto simp: ch step)
    moreover have "mem_copy (D + n) (S + n) (length bufs * n) (mem_copy D S n (peek m)) =
        mem_copy D S (length (buf # bufs) * n) (peek m)"
      using Cons.prems(15) by (subst mem_copy_append) auto
    ultimately show ?thesis
      using w m1 s1 copy_completed_Suc[OF ne, of "length bufs" v] unfolding ch by auto
  qed
qed

end

subsection \<open>Properties\<close>

text \<open>
  C6: a whole major loop copies its block. On an idle controller, let a channel be set up as a plain
  copy (equal element sizes, both offsets the element size, a minor loop of \<open>n\<close> bytes that is a
  multiple of it) with \<open>k\<close> iterations left, source in RAM or ROM, destination in RAM, no wrap-around
  of the addresses, and the destination below the source or behind its end. Then the \<open>k\<close> start
  requests succeed; together they copy exactly the \<open>k * n\<close> bytes and change no other byte and no
  device; the descriptor ends completed (addresses adjusted by SLAST and DLAST, CITER reloaded from
  BITER, DONE and the interrupt flag set, the line raised if INTMAJOR is on), no other channel is
  touched, and no request is left pending.
\<close>

theorem edma_major_loop_copies:
  assumes "bufs \<noteq> []" and "edma_idle s" and "length (tcd s) = EDMA_CHANNELS" and "c < EDMA_CHANNELS"
    and "plain_start v" and "plain_copy z (tcd s ! c)" and "unat (citer_of (tcd s ! c)) = length bufs"
    and "unat (tcd_saddr (tcd s ! c)) = S" and "unat (tcd_daddr (tcd s ! c)) = D"
    and "nbytes_of (tcd s ! c) = n"
    and "S + length bufs * n < 2 ^ 32" and "D + length bufs * n < 2 ^ 32"
    and "\<And>x. S \<le> x \<Longrightarrow> x < S + length bufs * n \<Longrightarrow> readable_at fv x"
    and "\<And>x. D \<le> x \<Longrightarrow> x < D + length bufs * n \<Longrightarrow> writable_at fv x"
    and "D \<le> S \<or> S + length bufs * n \<le> D"
  shows "\<exists>s' m' ch'. edma_requests (phys_bus fv) v c bufs (s, m) = Inr (s', m') \<and> dev m' = dev m \<and>
    mem m' = mem_copy D S (length bufs * n) (mem m) \<and>
    tcd s' = (tcd s)[c := ch'] \<and> copy_completed (length bufs) v (tcd s ! c) ch' \<and> edma_idle s'"
  using pm.requests_copy[OF assms, where m = m] by blast

definition demo_fv :: "unit flatview" where
  "demo_fv = [\<lparr>mr_base = 0x20000000, mr_size = 0x20000, mr_valid_max = 0, mr_kind = Ram\<rparr>]"

definition demo_tcd :: tcd_state where
  "demo_tcd = \<lparr>ch_csr = 0, ch_es = 0, ch_int = 0, ch_sbr = 0, ch_pri = 0,
     tcd_saddr = 0x20000000, tcd_soff = 4, tcd_attr = 0x0202, tcd_nbytes_mloff = 8, tcd_slast_sda = 0,
     tcd_daddr = 0x20000100, tcd_doff = 4, tcd_citer = 2, tcd_dlast_sga = 0, tcd_csr = 0,
     tcd_biter = 2, irq = False\<rparr>"

lemma demo_ram:
  assumes "0x20000000 \<le> x" and "x < 0x20020000"
  shows "readable_at demo_fv x" and "writable_at demo_fv x"
  using assms
  by (simp_all add: readable_at_def writable_at_def lookup_region_def demo_fv_def region_covers_def
      is_ram_def)

lemma demo_tcd_plain: "plain_copy 2 demo_tcd" "nbytes_of demo_tcd = 8" "citer_of demo_tcd = 2"
  by (simp_all add: plain_copy_def nbytes_of_def citer_of_def demo_tcd_def field_consts FIELD_EX16_def
      FIELD_EX32_def extract16_val_def extract32_val_def mask_eq_exp_minus_1)

lemma edma_major_loop_copies_witness:
  "\<exists>s' m' ch'. edma_requests (phys_bus demo_fv) 3 5 [[], []]
      (set_tcd edma_realize 5 demo_tcd, \<lparr>mem = (\<lambda>a. of_nat a), dev = ()\<rparr>) = Inr (s', m') \<and>
    mem m' = mem_copy 0x20000100 0x20000000 16 (\<lambda>a. of_nat a) \<and>
    tcd s' = (tcd edma_realize)[5 := ch'] \<and> copy_completed 2 3 demo_tcd ch'"
proof -
  let ?s = "set_tcd edma_realize 5 demo_tcd"
  have ch: "tcd ?s ! 5 = demo_tcd" "length (tcd ?s) = 32"
    by (simp_all add: edma_realize_length)
  have idle: "edma_idle ?s"
    using edma_realize_tcd
    by (auto simp: edma_idle_def start_pending_iff nth_list_update edma_realize_length demo_tcd_def
        edma_tcd_reset_def)
  have v: "plain_start 3" by (simp add: plain_start_def bit_numeral_rec)
  have "plain_copy 2 (tcd ?s ! 5)" "unat (citer_of (tcd ?s ! 5)) = length [[], [] :: u8 list]"
    "unat (tcd_saddr (tcd ?s ! 5)) = 0x20000000" "unat (tcd_daddr (tcd ?s ! 5)) = 0x20000100"
    "nbytes_of (tcd ?s ! 5) = 8"
    unfolding ch demo_tcd_plain by (simp_all add: demo_tcd_plain) (simp_all add: demo_tcd_def)
  from edma_major_loop_copies[OF _ idle ch(2) _ v this, of demo_fv "\<lparr>mem = (\<lambda>a. of_nat a), dev = ()\<rparr>"]
  obtain s' m' ch' where "edma_requests (phys_bus demo_fv) 3 5 [[], []]
      (?s, \<lparr>mem = (\<lambda>a. of_nat a), dev = ()\<rparr>) = Inr (s', m')"
    "mem m' = mem_copy 0x20000100 0x20000000 16 (\<lambda>a. of_nat a)" "tcd s' = (tcd ?s)[5 := ch']"
    "copy_completed (Suc (Suc 0)) 3 demo_tcd ch'"
    unfolding ch by (auto simp: demo_ram simp del: edma_requests.simps)
  then show ?thesis by (auto simp: numeral_2_eq_2 simp del: edma_requests.simps)
qed

lemma read_phase_addr:
  "edma_read_phase B n soff k (S, buf, m) = Inr (S', buf', m') \<Longrightarrow> S' = S + of_nat k * scast soff"
proof (induction k arbitrary: S buf m)
  case (Suc k)
  then obtain bs m1 where
    "edma_read_phase B n soff k (S + scast soff, bs @ drop n buf, m1) = Inr (S', buf', m')"
    by (auto simp: res_bind_eq_Inr_iff)
  from Suc.IH[OF this] show ?case by (simp add: algebra_simps)
qed simp

lemma write_phase_addr:
  "edma_write_phase B n doff k buf (D, m) = Inr (D', m') \<Longrightarrow> D' = D + of_nat k * ucast doff"
proof (induction k arbitrary: D m)
  case (Suc k)
  then obtain m1 where "edma_write_phase B n doff k buf (D + ucast doff, m1) = Inr (D', m')"
    by (auto simp: res_bind_eq_Inr_iff)
  from Suc.IH[OF this] show ?case by (simp add: algebra_simps)
qed simp

text \<open>
  C7: for any sizes and offsets, a minor loop that completes leaves the source address advanced by
  the sign-extended source offset once per read, and the destination address advanced by the
  destination offset once per write, the latter as an unsigned 16-bit number: a destination offset
  of -4 moves the destination 65532 bytes up.
\<close>

theorem edma_minor_loop_addresses:
  assumes "edma_minor_loop B max_size ssize dsize soff doff k (S, D, buf, m) = Inr (S', D', buf', m')"
  shows "S' = S + of_nat (k * (max_size div ssize)) * scast soff \<and>
    D' = D + of_nat (k * (max_size div dsize)) * ucast doff"
  using assms
proof (induction k arbitrary: S D buf m)
  case (Suc k)
  then obtain S1 b1 m1 D1 m2 where
    r: "edma_read_phase B ssize soff (max_size div ssize) (S, buf, m) = Inr (S1, b1, m1)"
    and w: "edma_write_phase B dsize doff (max_size div dsize) b1 (D, m1) = Inr (D1, m2)"
    and l: "edma_minor_loop B max_size ssize dsize soff doff k (S1, D1, b1, m2) = Inr (S', D', buf', m')"
    by (auto simp: res_bind_eq_Inr_iff)
  from Suc.IH[OF l] read_phase_addr[OF r] write_phase_addr[OF w] show ?case
    by (simp add: algebra_simps)
qed simp

lemma edma_minor_loop_addresses_witness:
  "\<exists>S' D' buf' m'. edma_minor_loop (phys_bus demo_fv) 1 1 1 1 0xFFFC 1
      (0x20000000, 0x20000100, [], \<lparr>mem = (\<lambda>a. of_nat a), dev = ()\<rparr>) = Inr (S', D', buf', m') \<and>
    D' = 0x20000100 + 65532"
proof -
  let ?m = "\<lparr>mem = (\<lambda>a. of_nat a), dev = ()\<rparr> :: unit machine"
  have r: "bus_read (phys_bus demo_fv) 0x20000000 1 ?m = Inr (map (mem ?m) [0x20000000..<0x20000000 + 1], ?m)"
    by (rule pm.read_ram) (simp add: demo_ram)
  obtain m1 where w: "bus_write (phys_bus demo_fv) 0x20000100 [mem ?m 0x20000000] ?m = Inr m1"
    using phys_write_ram[of "0x20000100" "[mem ?m 0x20000000]" demo_fv ?m]
    by (auto simp: demo_ram phys_bus_def)
  have e: "edma_minor_loop (phys_bus demo_fv) 1 1 1 1 0xFFFC (Suc 0)
      (0x20000000, 0x20000100, [], ?m) = Inr (0x20000001, 0x200100FC, [mem ?m 0x20000000], m1)"
    using r w by (simp add: upt_rec_numeral)
  from edma_minor_loop_addresses[OF e] e show ?thesis by simp
qed

end
