(* ===== verification/Dma_Regs.thy ===== *)
theory Dma_Regs
  imports Edma_Transfer Soc_Map
begin

section \<open>The DMA driver: register access\<close>

text \<open>
  The register layer of the firmware's DMA driver:
  \<^verbatim>\<open>RTD/include/Dma_Ip_Hwv3_AccessInline.h\<close> over the register structures and masks of
  \<^verbatim>\<open>generate/include/Dma_Ip_Cfg_DeviceRegistersV3.h\<close>. Each accessor reads a register of the
  controller of theory \<open>Edma\<close> through the window the machine maps, changes one field and writes
  the register back. A register block pointer is its guest address. Definitions
  \<open>in_turn\<close>, \<open>set_bits16\<close> and \<open>set_bits32\<close> are the C idioms the accessors share. The lemmas show
  that every access that does not start a transfer acts on the descriptor of its own channel.
\<close>

subsection \<open>Addresses\<close>

definition DMA_IP_BASE :: nat where "DMA_IP_BASE = 0x4020C000"

definition Dma_Ip_paxHwv3BaseInst :: "nat list" where "Dma_Ip_paxHwv3BaseInst = [DMA_IP_BASE]"

definition DMA_IP_TCD_BASE :: nat where "DMA_IP_TCD_BASE = 0x40210000"

definition DMA_IP_TCD_PTR_ARRAY :: "nat list list" where
  "DMA_IP_TCD_PTR_ARRAY =
     [map (\<lambda>i. DMA_IP_TCD_BASE + i * 16384) [0..<12] @
      map (\<lambda>i. DMA_IP_TCD_BASE + (2097152 + i * 16384)) [0..<20]]"

text \<open>The block of a channel; an index outside the array is undefined behaviour of the source.\<close>

definition DMA_IP_HWV3_TCD :: "nat \<Rightarrow> nat \<Rightarrow> nat" where
  "DMA_IP_HWV3_TCD inst ch = DMA_IP_TCD_PTR_ARRAY ! inst ! ch"

text \<open>The byte offsets of the members of \<open>Dma_Ip_Hwv3ChTcdRegType\<close>.\<close>

fun reg_offset :: "tcd_reg \<Rightarrow> nat" where
  "reg_offset CH_CSR = 0"
| "reg_offset CH_ES = 4"
| "reg_offset CH_INT = 8"
| "reg_offset CH_SBR = 12"
| "reg_offset CH_PRI = 16"
| "reg_offset TCD_SADDR = 20 + 12 + 0"
| "reg_offset TCD_SOFF = 20 + 12 + 4"
| "reg_offset TCD_ATTR = 20 + 12 + 6"
| "reg_offset TCD_NBYTES_MLOFF = 20 + 12 + 8"
| "reg_offset TCD_SLAST_SDA = 20 + 12 + 12"
| "reg_offset TCD_DADDR = 20 + 12 + 16"
| "reg_offset TCD_DOFF = 20 + 12 + 20"
| "reg_offset TCD_CITER = 20 + 12 + 22"
| "reg_offset TCD_DLAST_SGA = 20 + 12 + 24"
| "reg_offset TCD_CSR = 20 + 12 + 28"
| "reg_offset TCD_BITER = 20 + 12 + 30"

fun mp_offset :: "edma_reg \<Rightarrow> nat" where
  "mp_offset EDMA_CSR = 0"
| "mp_offset EDMA_ES = 4"
| "mp_offset EDMA_INT = 8"
| "mp_offset EDMA_HRS = 12"

definition grpri_offset :: "nat \<Rightarrow> nat" where
  "grpri_offset ch = 16 + 240 + 4 * ch"

declare reg_offset.simps [simp del] mp_offset.simps [simp del]

subsection \<open>Loads and stores of the processor\<close>

text \<open>
  The window of the controller that \<^verbatim>\<open>soc.c\<close> maps is the first one; an address outside of it is
  not decoded by the controller, and the placeholder devices there read zero and ignore writes.
\<close>

type_synonym 'm hw = "edma_state \<times> 'm"
type_synonym 'm host = "'m bus \<times> u8 list"
type_synonym 'm action = "'m hw \<Rightarrow> 'm hw res"

definition cpu_load :: "nat \<Rightarrow> 'm hw \<Rightarrow> u64" where
  "cpu_load a x =
     (if EDMA_BASE_ADDRESS \<le> a \<and> a < EDMA_BASE_ADDRESS + edma_mmio0_size
      then edma0_read (fst x) (a - EDMA_BASE_ADDRESS) else 0)"

definition cpu_store :: "'m host \<Rightarrow> nat \<Rightarrow> u64 \<Rightarrow> 'm action" where
  "cpu_store H a v x =
     (if EDMA_BASE_ADDRESS \<le> a \<and> a < EDMA_BASE_ADDRESS + edma_mmio0_size
      then edma0_write (fst H) (snd H) (fst x) (a - EDMA_BASE_ADDRESS) v (snd x) else Inr x)"

definition reg_read32 :: "nat \<Rightarrow> tcd_reg \<Rightarrow> 'm hw \<Rightarrow> u32" where
  "reg_read32 p r x = ucast (cpu_load (p + reg_offset r) x)"

definition reg_read16 :: "nat \<Rightarrow> tcd_reg \<Rightarrow> 'm hw \<Rightarrow> u16" where
  "reg_read16 p r x = ucast (cpu_load (p + reg_offset r) x)"

definition reg_write32 :: "'m host \<Rightarrow> nat \<Rightarrow> tcd_reg \<Rightarrow> u32 \<Rightarrow> 'm action" where
  "reg_write32 H p r v = cpu_store H (p + reg_offset r) (ucast v)"

definition reg_write16 :: "'m host \<Rightarrow> nat \<Rightarrow> tcd_reg \<Rightarrow> u16 \<Rightarrow> 'm action" where
  "reg_write16 H p r v = cpu_store H (p + reg_offset r) (ucast v)"

definition in_turn :: "'m action \<Rightarrow> 'm action \<Rightarrow> 'm action" where
  "in_turn f g x = res_bind (f x) g"

text \<open>\<open>(reg & ~MASK) | ((Value << SHIFT) & MASK)\<close>, in the two widths.\<close>

definition set_bits32 :: "u32 \<Rightarrow> nat \<Rightarrow> u32 \<Rightarrow> u32 \<Rightarrow> u32" where
  "set_bits32 msk sh v reg = (reg AND NOT msk) OR (push_bit sh v AND msk)"

definition set_bits16 :: "u16 \<Rightarrow> nat \<Rightarrow> u32 \<Rightarrow> u16 \<Rightarrow> u16" where
  "set_bits16 msk sh v reg = (reg AND NOT msk) OR (push_bit sh (ucast v) AND msk)"

definition rmw32 :: "'m host \<Rightarrow> nat \<Rightarrow> tcd_reg \<Rightarrow> u32 \<Rightarrow> nat \<Rightarrow> u32 \<Rightarrow> 'm action" where
  "rmw32 H p r msk sh v x = reg_write32 H p r (set_bits32 msk sh v (reg_read32 p r x)) x"

definition rmw16 :: "'m host \<Rightarrow> nat \<Rightarrow> tcd_reg \<Rightarrow> u16 \<Rightarrow> nat \<Rightarrow> u32 \<Rightarrow> 'm action" where
  "rmw16 H p r msk sh v x = reg_write16 H p r (set_bits16 msk sh v (reg_read16 p r x)) x"

subsection \<open>Instance accessors\<close>

record logic_instance_config =
  inst_LogicInstId :: u32
  inst_HwVersId :: u8
  inst_HwInstId :: u8
  EnDebug :: bool
  EnRoundRobin :: bool
  EnHaltAfterError :: bool
  EnChLinking :: bool
  EnGlMasterIdReplication :: bool

definition mp_read :: "nat \<Rightarrow> edma_reg \<Rightarrow> 'm hw \<Rightarrow> u32" where
  "mp_read p r x = ucast (cpu_load (p + mp_offset r) x)"

definition mp_write :: "'m host \<Rightarrow> nat \<Rightarrow> edma_reg \<Rightarrow> u32 \<Rightarrow> 'm action" where
  "mp_write H p r v = cpu_store H (p + mp_offset r) (ucast v)"

definition hwv3AccInlineDmaInst_SetConfig :: "'m host \<Rightarrow> nat \<Rightarrow> logic_instance_config \<Rightarrow> 'm action" where
  "hwv3AccInlineDmaInst_SetConfig H ptInst cfg x =
     (let reg = mp_read ptInst EDMA_CSR x;
          reg = set_bits32 0x2 1 (of_bool (EnDebug cfg)) reg;
          reg = set_bits32 0x4 2 (of_bool (EnRoundRobin cfg)) reg;
          reg = set_bits32 0x10 4 (of_bool (EnHaltAfterError cfg)) reg;
          reg = set_bits32 0x40 6 (of_bool (EnChLinking cfg)) reg;
          reg = set_bits32 0x80 7 (of_bool (EnGlMasterIdReplication cfg)) reg
      in mp_write H ptInst EDMA_CSR reg x)"

definition hwv3AccInlineDmaInst_CmdCancelTransfer :: "'m host \<Rightarrow> nat \<Rightarrow> 'm action" where
  "hwv3AccInlineDmaInst_CmdCancelTransfer H ptInst x =
     mp_write H ptInst EDMA_CSR (set_bits32 0x200 9 1 (mp_read ptInst EDMA_CSR x)) x"

definition hwv3AccInlineDmaInst_CmdCancelTransferWithError :: "'m host \<Rightarrow> nat \<Rightarrow> 'm action" where
  "hwv3AccInlineDmaInst_CmdCancelTransferWithError H ptInst x =
     mp_write H ptInst EDMA_CSR (set_bits32 0x100 8 1 (mp_read ptInst EDMA_CSR x)) x"

definition hwv3AccInlineDmaInst_CmdHalt :: "'m host \<Rightarrow> nat \<Rightarrow> 'm action" where
  "hwv3AccInlineDmaInst_CmdHalt H ptInst x =
     mp_write H ptInst EDMA_CSR (set_bits32 0x20 5 1 (mp_read ptInst EDMA_CSR x)) x"

definition hwv3AccInlineDmaInst_CmdResume :: "'m host \<Rightarrow> nat \<Rightarrow> 'm action" where
  "hwv3AccInlineDmaInst_CmdResume H ptInst x =
     mp_write H ptInst EDMA_CSR (set_bits32 0x20 5 0 (mp_read ptInst EDMA_CSR x)) x"

definition DMA_IP_MP_ES_MASK :: u32 where
  "DMA_IP_MP_ES_MASK = 0x1 OR 0x2 OR 0x4 OR 0x8 OR 0x10 OR 0x20 OR 0x40 OR 0x80 OR 0x100 OR 0x200 OR
     0x1F000000 OR 0x80000000"

definition hwv3AccInlineDmaInst_GetErrorStatus :: "nat \<Rightarrow> 'm hw \<Rightarrow> u32" where
  "hwv3AccInlineDmaInst_GetErrorStatus ptInst x = mp_read ptInst EDMA_ES x AND DMA_IP_MP_ES_MASK"

definition hwv3AccInlineDmaInst_GetActiveIdStatus :: "nat \<Rightarrow> 'm hw \<Rightarrow> u8" where
  "hwv3AccInlineDmaInst_GetActiveIdStatus ptInst x = ucast (drop_bit 24 (mp_read ptInst EDMA_CSR x AND 0x1F000000))"

definition hwv3AccInlineDmaInst_GetActiveStatus :: "nat \<Rightarrow> 'm hw \<Rightarrow> bool" where
  "hwv3AccInlineDmaInst_GetActiveStatus ptInst x \<longleftrightarrow> drop_bit 31 (mp_read ptInst EDMA_CSR x AND 0x80000000) \<noteq> 0"

definition hwv3AccInlineDmaInst_GetEdmaVersion :: u8 where
  "hwv3AccInlineDmaInst_GetEdmaVersion = 0xFF"

subsection \<open>Channel accessors\<close>

definition hwv3AccInlineDmaCh_SetPriority_Group :: "'m host \<Rightarrow> nat \<Rightarrow> u32 \<Rightarrow> 'm action" where
  "hwv3AccInlineDmaCh_SetPriority_Group H pGrpri Value x =
     cpu_store H pGrpri (ucast (set_bits32 0x1F 0 Value (ucast (cpu_load pGrpri x)))) x"

definition hwv3AccInlineDmaCh_CmdClearDone :: "'m host \<Rightarrow> nat \<Rightarrow> 'm action" where
  "hwv3AccInlineDmaCh_CmdClearDone H p x = reg_write32 H p CH_CSR (reg_read32 p CH_CSR x OR 0x40000000) x"

definition hwv3AccInlineDmaCh_CmdClearError :: "'m host \<Rightarrow> nat \<Rightarrow> 'm action" where
  "hwv3AccInlineDmaCh_CmdClearError H p x = reg_write32 H p CH_ES (reg_read32 p CH_ES x OR 0x80000000) x"

definition DMA_IP_TCD_CH_ES_MASK :: u32 where
  "DMA_IP_TCD_CH_ES_MASK = 0x1 OR 0x2 OR 0x4 OR 0x8 OR 0x10 OR 0x20 OR 0x40 OR 0x80 OR 0x80000000"

definition hwv3AccInlineDmaCh_GetErrorStatus :: "nat \<Rightarrow> 'm hw \<Rightarrow> u32" where
  "hwv3AccInlineDmaCh_GetErrorStatus p x = reg_read32 p CH_ES x AND DMA_IP_TCD_CH_ES_MASK"

definition hwv3AccInlineDmaCh_GetActiveStatus :: "nat \<Rightarrow> 'm hw \<Rightarrow> bool" where
  "hwv3AccInlineDmaCh_GetActiveStatus p x \<longleftrightarrow> drop_bit 31 (reg_read32 p CH_CSR x AND 0x80000000) \<noteq> 0"

definition hwv3AccInlineDmaCh_GetDoneStatus :: "nat \<Rightarrow> 'm hw \<Rightarrow> bool" where
  "hwv3AccInlineDmaCh_GetDoneStatus p x \<longleftrightarrow> drop_bit 30 (reg_read32 p CH_CSR x AND 0x40000000) \<noteq> 0"

definition hwv3AccInlineDmaCh_CmdSetRequest :: "'m host \<Rightarrow> nat \<Rightarrow> 'm action" where
  "hwv3AccInlineDmaCh_CmdSetRequest H p =
     rmw32 H p CH_CSR 0x1 0 1"

definition hwv3AccInlineDmaCh_CmdClearRequest :: "'m host \<Rightarrow> nat \<Rightarrow> 'm action" where
  "hwv3AccInlineDmaCh_CmdClearRequest H p =
     rmw32 H p CH_CSR 0x1 0 0"

definition hwv3AccInlineDmaCh_CmdSwReqStart :: "'m host \<Rightarrow> nat \<Rightarrow> 'm action" where
  "hwv3AccInlineDmaCh_CmdSwReqStart H p =
     rmw16 H p TCD_CSR 0x1 0 1"

definition hwv3AccInlineDmaCh_SetControl_EnMasterIdReplication :: "'m host \<Rightarrow> nat \<Rightarrow> u32 \<Rightarrow> 'm action" where
  "hwv3AccInlineDmaCh_SetControl_EnMasterIdReplication H p Value =
     rmw32 H p CH_SBR 0x10000 16 Value"

definition hwv3AccInlineDmaCh_SetControl_EnBufferedWrites :: "'m host \<Rightarrow> nat \<Rightarrow> u32 \<Rightarrow> 'm action" where
  "hwv3AccInlineDmaCh_SetControl_EnBufferedWrites H p Value =
     rmw32 H p CH_CSR 0x8 3 Value"

definition hwv3AccInlineDmaCh_SetRequest_EnHwRequest :: "'m host \<Rightarrow> nat \<Rightarrow> u32 \<Rightarrow> 'm action" where
  "hwv3AccInlineDmaCh_SetRequest_EnHwRequest H p Value =
     rmw32 H p CH_CSR 0x1 0 Value"

definition hwv3AccInlineDmaCh_SetInterrupt_EnError :: "'m host \<Rightarrow> nat \<Rightarrow> u32 \<Rightarrow> 'm action" where
  "hwv3AccInlineDmaCh_SetInterrupt_EnError H p Value =
     rmw32 H p CH_CSR 0x4 2 Value"

definition hwv3AccInlineDmaCh_SetPriority_Level :: "'m host \<Rightarrow> nat \<Rightarrow> u32 \<Rightarrow> 'm action" where
  "hwv3AccInlineDmaCh_SetPriority_Level H p Value =
     rmw32 H p CH_PRI 0x7 0 Value"

definition hwv3AccInlineDmaCh_SetPriority_EnPreemption :: "'m host \<Rightarrow> nat \<Rightarrow> u32 \<Rightarrow> 'm action" where
  "hwv3AccInlineDmaCh_SetPriority_EnPreemption H p Value =
     rmw32 H p CH_PRI 0x80000000 31 Value"

definition hwv3AccInlineDmaCh_SetPriority_DisPreempt :: "'m host \<Rightarrow> nat \<Rightarrow> u32 \<Rightarrow> 'm action" where
  "hwv3AccInlineDmaCh_SetPriority_DisPreempt H p Value =
     rmw32 H p CH_PRI 0x40000000 30 Value"

definition hwv3AccInlineDmaCh_SetSource_Address :: "'m host \<Rightarrow> nat \<Rightarrow> u32 \<Rightarrow> 'm action" where
  "hwv3AccInlineDmaCh_SetSource_Address H p Value =
     reg_write32 H p TCD_SADDR Value"

definition hwv3AccInlineDmaCh_SetSource_SignedOffset :: "'m host \<Rightarrow> nat \<Rightarrow> u32 \<Rightarrow> 'm action" where
  "hwv3AccInlineDmaCh_SetSource_SignedOffset H p Value =
     rmw16 H p TCD_SOFF 0xFFFF 0 Value"

definition hwv3AccInlineDmaCh_SetSource_SignedLastAddrAdj :: "'m host \<Rightarrow> nat \<Rightarrow> u32 \<Rightarrow> 'm action" where
  "hwv3AccInlineDmaCh_SetSource_SignedLastAddrAdj H p Value =
     reg_write32 H p TCD_SLAST_SDA Value"

definition hwv3AccInlineDmaCh_SetSource_TransferSize :: "'m host \<Rightarrow> nat \<Rightarrow> u32 \<Rightarrow> 'm action" where
  "hwv3AccInlineDmaCh_SetSource_TransferSize H p Value =
     rmw16 H p TCD_ATTR 0x700 8 Value"

definition hwv3AccInlineDmaCh_SetSource_Modulo :: "'m host \<Rightarrow> nat \<Rightarrow> u32 \<Rightarrow> 'm action" where
  "hwv3AccInlineDmaCh_SetSource_Modulo H p Value =
     rmw16 H p TCD_ATTR 0xF800 11 Value"

definition hwv3AccInlineDmaCh_SetDestination_Address :: "'m host \<Rightarrow> nat \<Rightarrow> u32 \<Rightarrow> 'm action" where
  "hwv3AccInlineDmaCh_SetDestination_Address H p Value =
     reg_write32 H p TCD_DADDR Value"

definition hwv3AccInlineDmaCh_SetDestination_SignedOffset :: "'m host \<Rightarrow> nat \<Rightarrow> u32 \<Rightarrow> 'm action" where
  "hwv3AccInlineDmaCh_SetDestination_SignedOffset H p Value =
     rmw16 H p TCD_DOFF 0xFFFF 0 Value"

definition hwv3AccInlineDmaCh_SetDestination_LastAddrAdj :: "'m host \<Rightarrow> nat \<Rightarrow> u32 \<Rightarrow> 'm action" where
  "hwv3AccInlineDmaCh_SetDestination_LastAddrAdj H p Value =
     reg_write32 H p TCD_DLAST_SGA Value"

definition hwv3AccInlineDmaCh_SetDestination_TransferSize :: "'m host \<Rightarrow> nat \<Rightarrow> u32 \<Rightarrow> 'm action" where
  "hwv3AccInlineDmaCh_SetDestination_TransferSize H p Value =
     rmw16 H p TCD_ATTR 0x7 0 Value"

definition hwv3AccInlineDmaCh_SetDestination_Modulo :: "'m host \<Rightarrow> nat \<Rightarrow> u32 \<Rightarrow> 'm action" where
  "hwv3AccInlineDmaCh_SetDestination_Modulo H p Value =
     rmw16 H p TCD_ATTR 0xF8 3 Value"

definition hwv3AccInlineDmaCh_SetMinorLoop_enSrcOffset :: "'m host \<Rightarrow> nat \<Rightarrow> u32 \<Rightarrow> 'm action" where
  "hwv3AccInlineDmaCh_SetMinorLoop_enSrcOffset H p Value =
     rmw32 H p TCD_NBYTES_MLOFF 0x80000000 31 Value"

definition hwv3AccInlineDmaCh_SetMinorLoop_enDstOffset :: "'m host \<Rightarrow> nat \<Rightarrow> u32 \<Rightarrow> 'm action" where
  "hwv3AccInlineDmaCh_SetMinorLoop_enDstOffset H p Value =
     rmw32 H p TCD_NBYTES_MLOFF 0x40000000 30 Value"

definition hwv3AccInlineDmaCh_SetMinorLoop_SignedOffset :: "'m host \<Rightarrow> nat \<Rightarrow> u32 \<Rightarrow> 'm action" where
  "hwv3AccInlineDmaCh_SetMinorLoop_SignedOffset H p Value =
     rmw32 H p TCD_NBYTES_MLOFF 0x3FFFFC00 10 Value"

definition hwv3AccInlineDmaCh_SetMinorLoop_EnLink :: "'m host \<Rightarrow> nat \<Rightarrow> u32 \<Rightarrow> 'm action" where
  "hwv3AccInlineDmaCh_SetMinorLoop_EnLink H p Value =
     in_turn (rmw16 H p TCD_BITER 0x8000 15 Value) (rmw16 H p TCD_CITER 0x8000 15 Value)"

definition hwv3AccInlineDmaCh_SetMinorLoop_LinkCh :: "'m host \<Rightarrow> nat \<Rightarrow> u32 \<Rightarrow> 'm action" where
  "hwv3AccInlineDmaCh_SetMinorLoop_LinkCh H p Value =
     in_turn (rmw16 H p TCD_BITER 0x3E00 9 Value) (rmw16 H p TCD_CITER 0x3E00 9 Value)"

definition hwv3AccInlineDmaCh_SetMinorLoop_Size :: "'m host \<Rightarrow> nat \<Rightarrow> u32 \<Rightarrow> 'm action" where
  "hwv3AccInlineDmaCh_SetMinorLoop_Size H p Value x =
     (let reg = reg_read32 p TCD_NBYTES_MLOFF x in
      if reg AND (0x80000000 OR 0x40000000) \<noteq> 0
      then reg_write32 H p TCD_NBYTES_MLOFF (set_bits32 0x3FF 0 Value reg) x
      else reg_write32 H p TCD_NBYTES_MLOFF (set_bits32 0x3FFFFFFF 0 Value reg) x)"

definition hwv3AccInlineDmaCh_SetMajorLoop_EnLink :: "'m host \<Rightarrow> nat \<Rightarrow> u32 \<Rightarrow> 'm action" where
  "hwv3AccInlineDmaCh_SetMajorLoop_EnLink H p Value =
     rmw16 H p TCD_CSR 0x20 5 Value"

definition hwv3AccInlineDmaCh_SetMajorLoop_LinkCh :: "'m host \<Rightarrow> nat \<Rightarrow> u32 \<Rightarrow> 'm action" where
  "hwv3AccInlineDmaCh_SetMajorLoop_LinkCh H p Value =
     rmw16 H p TCD_CSR 0x1F00 8 Value"

definition hwv3AccInlineDmaCh_SetMajorLoop_Count :: "'m host \<Rightarrow> nat \<Rightarrow> u32 \<Rightarrow> 'm action" where
  "hwv3AccInlineDmaCh_SetMajorLoop_Count H p Value x =
     (let reg = (reg_read16 p TCD_BITER x AND 0x8000) OR (reg_read16 p TCD_CITER x AND 0x8000) in
      if reg \<noteq> 0
      then in_turn (rmw16 H p TCD_BITER 0x1FF 0 Value) (rmw16 H p TCD_CITER 0x1FF 0 Value) x
      else in_turn (rmw16 H p TCD_BITER 0x7FFF 0 Value) (rmw16 H p TCD_CITER 0x7FFF 0 Value) x)"

definition hwv3AccInlineDmaCh_SetControl_ScatterGatherAddress :: "'m host \<Rightarrow> nat \<Rightarrow> u32 \<Rightarrow> 'm action" where
  "hwv3AccInlineDmaCh_SetControl_ScatterGatherAddress H p Value =
     reg_write32 H p TCD_DLAST_SGA Value"

definition hwv3AccInlineDmaCh_SetControl_StoreDestinationAddress :: "'m host \<Rightarrow> nat \<Rightarrow> u32 \<Rightarrow> 'm action" where
  "hwv3AccInlineDmaCh_SetControl_StoreDestinationAddress H p Value =
     reg_write32 H p TCD_SLAST_SDA Value"

definition hwv3AccInlineDmaCh_SetControl_EnStart :: "'m host \<Rightarrow> nat \<Rightarrow> bool \<Rightarrow> 'm action" where
  "hwv3AccInlineDmaCh_SetControl_EnStart H p Value =
     rmw16 H p TCD_CSR 0x1 0 (if Value then 1 else 0)"

definition hwv3AccInlineDmaCh_SetControl_EnMajor :: "'m host \<Rightarrow> nat \<Rightarrow> u32 \<Rightarrow> 'm action" where
  "hwv3AccInlineDmaCh_SetControl_EnMajor H p Value =
     rmw16 H p TCD_CSR 0x2 1 Value"

definition hwv3AccInlineDmaCh_SetControl_EnHalfMajor :: "'m host \<Rightarrow> nat \<Rightarrow> u32 \<Rightarrow> 'm action" where
  "hwv3AccInlineDmaCh_SetControl_EnHalfMajor H p Value =
     rmw16 H p TCD_CSR 0x4 2 Value"

definition hwv3AccInlineDmaCh_SetControl_DisAutoHwRequest :: "'m host \<Rightarrow> nat \<Rightarrow> u32 \<Rightarrow> 'm action" where
  "hwv3AccInlineDmaCh_SetControl_DisAutoHwRequest H p Value =
     rmw16 H p TCD_CSR 0x8 3 Value"

definition hwv3AccInlineDmaCh_SetControl_EnEndOfPacketSignal :: "'m host \<Rightarrow> nat \<Rightarrow> u32 \<Rightarrow> 'm action" where
  "hwv3AccInlineDmaCh_SetControl_EnEndOfPacketSignal H p Value =
     rmw16 H p TCD_CSR 0x40 6 Value"

definition hwv3AccInlineDmaCh_SetControl_BandwidthControl :: "'m host \<Rightarrow> nat \<Rightarrow> u32 \<Rightarrow> 'm action" where
  "hwv3AccInlineDmaCh_SetControl_BandwidthControl H p Value =
     rmw16 H p TCD_CSR 0xC000 14 Value"

definition hwv3AccInlineDmaCh_SetAuxiliary_EnScatterGatherProcessing :: "'m host \<Rightarrow> nat \<Rightarrow> bool \<Rightarrow> 'm action" where
  "hwv3AccInlineDmaCh_SetAuxiliary_EnScatterGatherProcessing H p Value =
     rmw16 H p TCD_CSR 0x10 4 (if Value then 1 else 0)"

definition hwv3AccInlineDmaCh_SetAuxiliary_EnDestinationStoreAddress :: "'m host \<Rightarrow> nat \<Rightarrow> bool \<Rightarrow> 'm action" where
  "hwv3AccInlineDmaCh_SetAuxiliary_EnDestinationStoreAddress H p Value =
     rmw16 H p TCD_CSR 0x80 7 (if Value then 1 else 0)"


definition hwv3AccInlineDmaCh_GetSourceAddress :: "nat \<Rightarrow> 'm hw \<Rightarrow> u32" where
  "hwv3AccInlineDmaCh_GetSourceAddress p x = reg_read32 p TCD_SADDR x"

definition hwv3AccInlineDmaCh_GetDestinationAddress :: "nat \<Rightarrow> 'm hw \<Rightarrow> u32" where
  "hwv3AccInlineDmaCh_GetDestinationAddress p x = reg_read32 p TCD_DADDR x"

definition hwv3AccInlineDmaCh_GetBeginIterCount :: "nat \<Rightarrow> 'm hw \<Rightarrow> u32" where
  "hwv3AccInlineDmaCh_GetBeginIterCount p x =
     (if reg_read16 p TCD_BITER x AND 0x8000 \<noteq> 0
      then ucast (reg_read16 p TCD_BITER x) AND 0x1FF
      else ucast (reg_read16 p TCD_BITER x) AND 0x7FFF)"

definition hwv3AccInlineDmaCh_GetCurrentIterCount :: "nat \<Rightarrow> 'm hw \<Rightarrow> u32" where
  "hwv3AccInlineDmaCh_GetCurrentIterCount p x =
     (if reg_read16 p TCD_CITER x AND 0x8000 \<noteq> 0
      then ucast (reg_read16 p TCD_CITER x) AND 0x1FF
      else ucast (reg_read16 p TCD_CITER x) AND 0x7FFF)"

definition hwv3AccInlineDmaCh_GetStoreDstAddress :: "nat \<Rightarrow> 'm hw \<Rightarrow> u32" where
  "hwv3AccInlineDmaCh_GetStoreDstAddress p x = reg_read32 p TCD_SLAST_SDA x"

definition hwv3AccInlineDmaCh_GetMasterId :: "nat \<Rightarrow> 'm hw \<Rightarrow> u32" where
  "hwv3AccInlineDmaCh_GetMasterId p x = reg_read32 p CH_SBR x AND 0x3F"

definition hwv3AccInlineDmaCh_GetIntMajor :: "nat \<Rightarrow> 'm hw \<Rightarrow> u32" where
  "hwv3AccInlineDmaCh_GetIntMajor p x = drop_bit 1 (ucast (reg_read16 p TCD_CSR x) AND 0x2)"

definition hwv3AccInlineDmaCh_GetIntHalfMajor :: "nat \<Rightarrow> 'm hw \<Rightarrow> u32" where
  "hwv3AccInlineDmaCh_GetIntHalfMajor p x = drop_bit 2 (ucast (reg_read16 p TCD_CSR x) AND 0x4)"

subsection \<open>The registers the driver reaches\<close>

lemma reg_offset_A: "reg_offset r = A_TCD r"
  by (cases r) (simp_all add: reg_offset.simps A_TCD.simps)

lemma A_TCD_lt: "A_TCD r < 0x40"
  by (cases r) (simp_all add: A_TCD.simps)

lemma HWV3_TCD_low: "c < 12 \<Longrightarrow> DMA_IP_HWV3_TCD 0 c = EDMA_BASE_ADDRESS + (0x4000 + c * 0x4000)"
  by (simp add: DMA_IP_HWV3_TCD_def DMA_IP_TCD_PTR_ARRAY_def nth_append DMA_IP_TCD_BASE_def
      EDMA_BASE_ADDRESS_def)

lemma HWV3_TCD_high:
  "12 \<le> c \<Longrightarrow> c < 32 \<Longrightarrow> EDMA_BASE_ADDRESS + edma_mmio0_size \<le> DMA_IP_HWV3_TCD 0 c"
  by (simp add: DMA_IP_HWV3_TCD_def DMA_IP_TCD_PTR_ARRAY_def nth_append DMA_IP_TCD_BASE_def
      EDMA_BASE_ADDRESS_def edma_mmio0_size_def)

lemma window_split:
  fixes A c :: nat
  assumes "c < 12" and "A < 0x40"
  shows "0x4000 + c * 0x4000 + A < edma_mmio0_size"
    and "(0x4000 + c * 0x4000 + A) mod 0x4000 = A"
    and "(0x4000 + c * 0x4000 + A - 0x4000) div 0x4000 = c"
proof -
  have e: "0x4000 + c * 0x4000 + A = A + (c + 1) * 0x4000" by simp
  show "(0x4000 + c * 0x4000 + A) mod 0x4000 = A"
    unfolding e mod_mult_self1 using assms by simp
qed (use assms in \<open>auto simp: edma_mmio0_size_def\<close>)

lemma cpu_load_low:
  assumes "c < 12"
  shows "cpu_load (DMA_IP_HWV3_TCD 0 c + reg_offset r) x = tcd_load r (tcd (fst x) ! c)"
  using window_split[OF assms A_TCD_lt[of r]]
  by (simp add: cpu_load_def HWV3_TCD_low[OF assms] reg_offset_A edma0_read_def Let_def
      tcd_read_load add.assoc)

lemma cpu_store_low:
  assumes "c < 12"
  shows "cpu_store H (DMA_IP_HWV3_TCD 0 c + reg_offset r) v x =
    edma_tcd_write (fst H) (snd H) (fst x) (A_TCD r) v c (snd x)"
  using window_split[OF assms A_TCD_lt[of r]]
  by (simp add: cpu_store_def HWV3_TCD_low[OF assms] reg_offset_A edma0_write_def Let_def add.assoc)

text \<open>
  C21: the addresses the driver computes for the registers of channels 0 to 11 decode to exactly
  those registers of the controller; those of channels 12 to 31 are decoded by no register, so a
  load reads zero and a store is lost.
\<close>

theorem dma_driver_reaches_channels:
  assumes "c < 32"
  shows "cpu_load (DMA_IP_HWV3_TCD 0 c + reg_offset r) x =
      (if c < 12 then edma_tcd_read (fst x) (A_TCD r) c else 0) \<and>
    cpu_store H (DMA_IP_HWV3_TCD 0 c + reg_offset r) v x =
      (if c < 12 then edma_tcd_write (fst H) (snd H) (fst x) (A_TCD r) v c (snd x) else Inr x)"
proof (cases "c < 12")
  case True
  then show ?thesis by (simp add: cpu_load_low cpu_store_low tcd_read_load)
next
  case False
  with HWV3_TCD_high[of c] assms show ?thesis by (simp add: cpu_load_def cpu_store_def)
qed

lemma dma_driver_reaches_channels_witness:
  "cpu_load (DMA_IP_HWV3_TCD 0 20 + reg_offset CH_SBR) (edma_realize, ()) = 0 \<and>
   cpu_load (DMA_IP_HWV3_TCD 0 2 + reg_offset CH_SBR) (edma_realize, ()) = 0x8002"
proof -
  have "edma_tcd_read edma_realize (A_TCD CH_SBR) 2 = 0x8002"
    by (simp add: tcd_read_load tcd_load_def edma_realize_tcd edma_tcd_reset_def)
  then show ?thesis
    using dma_driver_reaches_channels[of 20 CH_SBR "(edma_realize, ())"]
      dma_driver_reaches_channels[of 2 CH_SBR "(edma_realize, ())"] by simp
qed

subsection \<open>Accesses that start no transfer\<close>

text \<open>A machine whose channel \<open>c\<close> has the descriptor \<open>ch\<close>.\<close>

definition with_ch :: "edma_state \<Rightarrow> 'm \<Rightarrow> nat \<Rightarrow> tcd_state \<Rightarrow> 'm hw" where
  "with_ch s m c ch = (set_tcd s c ch, m)"

lemma with_ch_self: "(s, m) = with_ch s m c (tcd s ! c)"
  by (simp add: with_ch_def set_tcd_def)

lemma with_ch_nth [simp]: "c < length (tcd s) \<Longrightarrow> tcd (fst (with_ch s m c ch)) ! c = ch"
  by (simp add: with_ch_def)

lemma ucast_cut16: "(ucast (ucast (v :: u16) :: u64) :: u16) = v"
  "(ucast (ucast (ucast (v :: u16) :: u32) :: u64) :: u16) = v"
  "(ucast (ucast (scast (v :: u16) :: u32) :: u64) :: u16) = v"
  by (rule bit_word_eqI; auto simp: bit_simps)+

lemma ucast_cut32: "(ucast (ucast (v :: u32) :: u64) :: u32) = v"
  by (rule bit_word_eqI) (auto simp: bit_simps)

lemma bit_ucast64: "bit (ucast (v :: u16) :: u64) n = bit v n" "bit (ucast (w :: u32) :: u64) n = bit w n"
  by (auto simp: bit_simps dest: bit_imp_le_length)

lemma read_with_ch:
  assumes "c < 12" and "c < length (tcd s)"
  shows "reg_read32 (DMA_IP_HWV3_TCD 0 c) CH_CSR (with_ch s m c ch) = ch_csr ch"
    and "reg_read32 (DMA_IP_HWV3_TCD 0 c) CH_ES (with_ch s m c ch) = ch_es ch"
    and "reg_read32 (DMA_IP_HWV3_TCD 0 c) CH_INT (with_ch s m c ch) = ch_int ch"
    and "reg_read32 (DMA_IP_HWV3_TCD 0 c) TCD_SADDR (with_ch s m c ch) = tcd_saddr ch"
    and "reg_read32 (DMA_IP_HWV3_TCD 0 c) TCD_DADDR (with_ch s m c ch) = tcd_daddr ch"
    and "reg_read32 (DMA_IP_HWV3_TCD 0 c) TCD_NBYTES_MLOFF (with_ch s m c ch) = tcd_nbytes_mloff ch"
    and "reg_read16 (DMA_IP_HWV3_TCD 0 c) TCD_SOFF (with_ch s m c ch) = tcd_soff ch"
    and "reg_read16 (DMA_IP_HWV3_TCD 0 c) TCD_ATTR (with_ch s m c ch) = tcd_attr ch"
    and "reg_read16 (DMA_IP_HWV3_TCD 0 c) TCD_DOFF (with_ch s m c ch) = tcd_doff ch"
    and "reg_read16 (DMA_IP_HWV3_TCD 0 c) TCD_CITER (with_ch s m c ch) = tcd_citer ch"
    and "reg_read16 (DMA_IP_HWV3_TCD 0 c) TCD_CSR (with_ch s m c ch) = tcd_csr ch"
    and "reg_read16 (DMA_IP_HWV3_TCD 0 c) TCD_BITER (with_ch s m c ch) = tcd_biter ch"
  using assms
  by (simp_all add: reg_read32_def reg_read16_def cpu_load_low tcd_load_def ucast_cut16 ucast_cut32)

lemma R_MASK_channel: "R_MASK (fld CH_CSR_DONE) = (0x40000000 :: u64)" "R_MASK (fld CH_ES_ERR) = (0x80000000 :: u64)"
  "R_MASK (fld CH_CSR_DONE) = (0x40000000 :: u32)" "R_MASK (fld CH_ES_ERR) = (0x80000000 :: u32)"
  by (simp_all add: R_MASK_def MAKE_64BIT_MASK_def field_consts)

lemma ucast_and64: "(ucast (ucast (v :: u32) AND 0x40000000 :: u64) :: u32) = v AND 0x40000000"
  "(ucast (ucast (v :: u32) AND 0x80000000 :: u64) :: u32) = v AND 0x80000000"
  by (rule bit_word_eqI; auto simp: bit_simps)+

lemma set_tcd_twice [simp]: "set_tcd (set_tcd s c ch) c ch' = set_tcd s c ch'"
  by (simp add: set_tcd_def)

lemma write32_with_ch:
  assumes "c < 12" and "c < length (tcd s)"
  shows "reg_write32 H (DMA_IP_HWV3_TCD 0 c) TCD_SADDR v (with_ch s m c ch) =
      Inr (with_ch s m c (ch\<lparr>tcd_saddr := v\<rparr>))"
    and "reg_write32 H (DMA_IP_HWV3_TCD 0 c) TCD_DADDR v (with_ch s m c ch) =
      Inr (with_ch s m c (ch\<lparr>tcd_daddr := v\<rparr>))"
    and "reg_write32 H (DMA_IP_HWV3_TCD 0 c) TCD_SLAST_SDA v (with_ch s m c ch) =
      Inr (with_ch s m c (ch\<lparr>tcd_slast_sda := v\<rparr>))"
    and "reg_write32 H (DMA_IP_HWV3_TCD 0 c) TCD_DLAST_SGA v (with_ch s m c ch) =
      Inr (with_ch s m c (ch\<lparr>tcd_dlast_sga := v\<rparr>))"
    and "reg_write32 H (DMA_IP_HWV3_TCD 0 c) CH_SBR v (with_ch s m c ch) = Inr (with_ch s m c ch)"
    and "reg_write32 H (DMA_IP_HWV3_TCD 0 c) CH_PRI v (with_ch s m c ch) = Inr (with_ch s m c ch)"
    and "reg_write32 H (DMA_IP_HWV3_TCD 0 c) CH_CSR v (with_ch s m c ch) =
      Inr (with_ch s m c (ch\<lparr>ch_csr := ch_csr ch AND NOT 0x40000000 OR v AND 0x40000000\<rparr>))"
    and "reg_write32 H (DMA_IP_HWV3_TCD 0 c) CH_ES v (with_ch s m c ch) =
      Inr (with_ch s m c (ch\<lparr>ch_es := ch_es ch AND NOT 0x80000000 OR v AND 0x80000000\<rparr>))"
    and "\<not> bit v 31 \<Longrightarrow> \<not> bit v 30 \<Longrightarrow>
      reg_write32 H (DMA_IP_HWV3_TCD 0 c) TCD_NBYTES_MLOFF v (with_ch s m c ch) =
        Inr (with_ch s m c (ch\<lparr>tcd_nbytes_mloff := v\<rparr>))"
  using assms
  by (simp_all add: reg_write32_def cpu_store_low edma_tcd_write_def tcd_reg_at_A with_ch_def
      ucast_cut32 and_R_MASK_eq_0_iff bit_ucast64 assert_that_def R_MASK_channel ucast_and64)

lemma take_bit_15:
  fixes v :: u16
  assumes "\<not> bit v 15"
  shows "take_bit 15 (ucast v :: u64) = ucast v"
proof (rule bit_word_eqI)
  fix n :: nat
  have "\<not> bit v n" if "15 \<le> n" using assms bit_imp_le_length[of v n] that by (cases "n = 15") auto
  then show "bit (take_bit 15 (ucast v :: u64)) n = bit (ucast v :: u64) n"
    by (cases "n < 15") (auto simp: bit_take_bit_iff bit_ucast64)
qed

lemma write16_with_ch:
  assumes "c < 12" and "c < length (tcd s)"
  shows "reg_write16 H (DMA_IP_HWV3_TCD 0 c) TCD_SOFF v (with_ch s m c ch) =
      Inr (with_ch s m c (ch\<lparr>tcd_soff := v\<rparr>))"
    and "reg_write16 H (DMA_IP_HWV3_TCD 0 c) TCD_DOFF v (with_ch s m c ch) =
      Inr (with_ch s m c (ch\<lparr>tcd_doff := v\<rparr>))"
    and "reg_write16 H (DMA_IP_HWV3_TCD 0 c) TCD_ATTR v (with_ch s m c ch) =
      Inr (with_ch s m c (ch\<lparr>tcd_attr := v\<rparr>))"
    and "\<not> bit v 15 \<Longrightarrow> reg_write16 H (DMA_IP_HWV3_TCD 0 c) TCD_BITER v (with_ch s m c ch) =
      Inr (with_ch s m c (ch\<lparr>tcd_biter := v\<rparr>))"
    and "\<not> bit v 15 \<Longrightarrow> v = tcd_biter ch \<Longrightarrow>
      reg_write16 H (DMA_IP_HWV3_TCD 0 c) TCD_CITER v (with_ch s m c ch) =
      Inr (with_ch s m c (ch\<lparr>tcd_citer := v\<rparr>))"
    and "\<not> bit v 0 \<Longrightarrow> \<not> bit v 5 \<Longrightarrow>
      reg_write16 H (DMA_IP_HWV3_TCD 0 c) TCD_CSR v (with_ch s m c ch) =
      Inr (with_ch s m c (ch\<lparr>tcd_csr := v\<rparr>))"
proof -
  show "reg_write16 H (DMA_IP_HWV3_TCD 0 c) TCD_SOFF v (with_ch s m c ch) =
      Inr (with_ch s m c (ch\<lparr>tcd_soff := v\<rparr>))"
    "reg_write16 H (DMA_IP_HWV3_TCD 0 c) TCD_DOFF v (with_ch s m c ch) =
      Inr (with_ch s m c (ch\<lparr>tcd_doff := v\<rparr>))"
    "reg_write16 H (DMA_IP_HWV3_TCD 0 c) TCD_ATTR v (with_ch s m c ch) =
      Inr (with_ch s m c (ch\<lparr>tcd_attr := v\<rparr>))"
    using assms
    by (simp_all add: reg_write16_def cpu_store_low edma_tcd_write_def tcd_reg_at_A with_ch_def
        ucast_cut16)
  show "\<not> bit v 15 \<Longrightarrow> reg_write16 H (DMA_IP_HWV3_TCD 0 c) TCD_BITER v (with_ch s m c ch) =
      Inr (with_ch s m c (ch\<lparr>tcd_biter := v\<rparr>))"
    "\<not> bit v 15 \<Longrightarrow> v = tcd_biter ch \<Longrightarrow>
      reg_write16 H (DMA_IP_HWV3_TCD 0 c) TCD_CITER v (with_ch s m c ch) =
      Inr (with_ch s m c (ch\<lparr>tcd_citer := v\<rparr>))"
    "\<not> bit v 0 \<Longrightarrow> \<not> bit v 5 \<Longrightarrow>
      reg_write16 H (DMA_IP_HWV3_TCD 0 c) TCD_CSR v (with_ch s m c ch) =
      Inr (with_ch s m c (ch\<lparr>tcd_csr := v\<rparr>))"
    using assms
    by (simp_all add: reg_write16_def cpu_store_low edma_tcd_write_def tcd_reg_at_A with_ch_def
        ucast_cut16 and_R_MASK_eq_0_iff bit_ucast64 assert_that_def biter_ex32 take_bit_15 and_START_iff)
qed

text \<open>The accessors, for proofs that evaluate them.\<close>

lemmas accessor_defs =
  hwv3AccInlineDmaCh_CmdSetRequest_def hwv3AccInlineDmaCh_CmdClearRequest_def
  hwv3AccInlineDmaCh_CmdSwReqStart_def hwv3AccInlineDmaCh_SetControl_EnMasterIdReplication_def
  hwv3AccInlineDmaCh_SetControl_EnBufferedWrites_def
  hwv3AccInlineDmaCh_SetRequest_EnHwRequest_def hwv3AccInlineDmaCh_SetInterrupt_EnError_def
  hwv3AccInlineDmaCh_SetPriority_Level_def hwv3AccInlineDmaCh_SetPriority_EnPreemption_def
  hwv3AccInlineDmaCh_SetPriority_DisPreempt_def hwv3AccInlineDmaCh_SetSource_Address_def
  hwv3AccInlineDmaCh_SetSource_SignedOffset_def
  hwv3AccInlineDmaCh_SetSource_SignedLastAddrAdj_def
  hwv3AccInlineDmaCh_SetSource_TransferSize_def hwv3AccInlineDmaCh_SetSource_Modulo_def
  hwv3AccInlineDmaCh_SetDestination_Address_def
  hwv3AccInlineDmaCh_SetDestination_SignedOffset_def
  hwv3AccInlineDmaCh_SetDestination_LastAddrAdj_def
  hwv3AccInlineDmaCh_SetDestination_TransferSize_def
  hwv3AccInlineDmaCh_SetDestination_Modulo_def hwv3AccInlineDmaCh_SetMinorLoop_enSrcOffset_def
  hwv3AccInlineDmaCh_SetMinorLoop_enDstOffset_def
  hwv3AccInlineDmaCh_SetMinorLoop_SignedOffset_def hwv3AccInlineDmaCh_SetMinorLoop_EnLink_def
  hwv3AccInlineDmaCh_SetMinorLoop_LinkCh_def hwv3AccInlineDmaCh_SetMinorLoop_Size_def
  hwv3AccInlineDmaCh_SetMajorLoop_EnLink_def hwv3AccInlineDmaCh_SetMajorLoop_LinkCh_def
  hwv3AccInlineDmaCh_SetMajorLoop_Count_def
  hwv3AccInlineDmaCh_SetControl_ScatterGatherAddress_def
  hwv3AccInlineDmaCh_SetControl_StoreDestinationAddress_def
  hwv3AccInlineDmaCh_SetControl_EnStart_def hwv3AccInlineDmaCh_SetControl_EnMajor_def
  hwv3AccInlineDmaCh_SetControl_EnHalfMajor_def
  hwv3AccInlineDmaCh_SetControl_DisAutoHwRequest_def
  hwv3AccInlineDmaCh_SetControl_EnEndOfPacketSignal_def
  hwv3AccInlineDmaCh_SetControl_BandwidthControl_def
  hwv3AccInlineDmaCh_SetAuxiliary_EnScatterGatherProcessing_def
  hwv3AccInlineDmaCh_SetAuxiliary_EnDestinationStoreAddress_def

end
