(* ===== verification/Dma_Hw_Access.thy ===== *)
theory Dma_Hw_Access
  imports Dma_Regs
begin

section \<open>The DMA driver: hardware access layer\<close>

text \<open>
  The configuration types of \<^verbatim>\<open>RTD/include/Dma_Ip_Types.h\<close> and \<^verbatim>\<open>Dma_Ip.h\<close>, and the layer
  \<^verbatim>\<open>RTD/src/Dma_Ip_Hw_Access.c\<close>, which selects the accessors of theory \<open>Dma_Regs\<close> by the hardware
  version and by tables of function pointers. The build has hardware version 3 only and its
  development assertions are off, so the \<open>default\<close> branch of each switch does nothing. A table
  indexed by an enumeration is a case analysis over it. The lemmas give the descriptor that each
  transfer parameter leaves.
\<close>

subsection \<open>Configuration\<close>

datatype dma_callback = DmaCh0_Callback_ptr

record logic_channel_id =
  LogicChId :: u32
  HwVersId :: u8
  HwInstId :: u8
  HwChId :: u8
  IntCallback :: "dma_callback option"
  ErrIntCallback :: "dma_callback option"

record global_config =
  EnMasterIdReplication :: bool
  EnBufferedWrites :: bool
  EnRequest :: bool
  EnErrorInt :: bool
  SwapSize :: u8
  prio_Group :: u8
  prio_Level :: u8
  EnPreemption :: bool
  DisPreempt :: bool

record transfer_config =
  ScatterGatherAddr :: u32
  DestinationStoreAddr :: u32
  BandwidthControl :: u8
  TransferModeControl :: u8
  EnStart :: bool
  EnMajorInt :: bool
  EnHalfMajorInt :: bool
  DisAutoHwRequest :: bool
  EnEndOfPacketSignal :: bool
  src_Addr :: u32
  src_LastAddrAdj :: u32
  src_SignedOffset :: u16
  src_TransferSize :: u8
  src_Modulo :: u8
  dst_Addr :: u32
  dst_LastAddrAdj :: u32
  dst_SignedOffset :: u16
  dst_TransferSize :: u8
  dst_Modulo :: u8
  minor_Size :: u32
  minor_Offset :: u32
  minor_LogicLinkCh :: u8
  minor_EnLink :: bool
  EnSrcOffset :: bool
  EnDstOffset :: bool
  major_Count :: u32
  major_LogicLinkCh :: u8
  major_EnLink :: bool

text \<open>
  A null pointer to a configuration is \<open>None\<close>. No scatter/gather configuration is generated for
  the firmware, and its pointer, null in every channel, is left out.
\<close>

record logic_channel_config =
  ch_LogicChId :: logic_channel_id
  pxGlobalConfig :: "global_config option"
  pxTransferConfig :: "transfer_config option"

text \<open>A pointer to a channel state structure is its number.\<close>

record dma_init =
  ppxChStateArray :: "nat list"
  pxLogicChannelResetConfig :: logic_channel_config
  ppxLogicChannelConfigArray :: "logic_channel_config list"
  pxLogicInstanceResetConfig :: logic_instance_config
  ppxLogicInstConfigArray :: "logic_instance_config list"

datatype instance_cmd =
    DMA_IP_INST_CANCEL_TRANSFER | DMA_IP_INST_CANCEL_TRANSFER_WITH_ERROR | DMA_IP_INST_HALT
  | DMA_IP_INST_RESUME

datatype channel_cmd =
    DMA_IP_CH_SET_HARDWARE_REQUEST | DMA_IP_CH_CLEAR_HARDWARE_REQUEST
  | DMA_IP_CH_SET_SOFTWARE_REQUEST | DMA_IP_CH_CLEAR_DONE | DMA_IP_CH_CLEAR_ERROR

datatype global_param =
    DMA_IP_CH_SET_EN_MASTER_ID_REPLICATION | DMA_IP_CH_SET_EN_BUFFERED_WRITES
  | DMA_IP_CH_SET_EN_HARDWARE_REQ | DMA_IP_CH_SET_EN_ERROR_INTERRUPT
  | DMA_IP_CH_SET_GROUP_PRIORITY | DMA_IP_CH_SET_LEVEL_PRIORITY
  | DMA_IP_CH_SET_EN_PREEMPTION_PRIORITY | DMA_IP_CH_SET_DIS_PREEMPT_PRIORITY

datatype transfer_param =
    DMA_IP_CH_SET_SOURCE_ADDRESS | DMA_IP_CH_SET_SOURCE_SIGNED_OFFSET
  | DMA_IP_CH_SET_SOURCE_SIGNED_LAST_ADDR_ADJ | DMA_IP_CH_SET_SOURCE_TRANSFER_SIZE
  | DMA_IP_CH_SET_SOURCE_MODULO | DMA_IP_CH_SET_DESTINATION_ADDRESS
  | DMA_IP_CH_SET_DESTINATION_SIGNED_OFFSET | DMA_IP_CH_SET_DESTINATION_SIGNED_LAST_ADDR_ADJ
  | DMA_IP_CH_SET_DESTINATION_TRANSFER_SIZE | DMA_IP_CH_SET_DESTINATION_MODULO
  | DMA_IP_CH_SET_MINORLOOP_EN_SRC_OFFSET | DMA_IP_CH_SET_MINORLOOP_EN_DST_OFFSET
  | DMA_IP_CH_SET_MINORLOOP_SIGNED_OFFSET | DMA_IP_CH_SET_MINORLOOP_EN_LINK
  | DMA_IP_CH_SET_MINORLOOP_LOGIC_LINK_CH | DMA_IP_CH_SET_MINORLOOP_SIZE
  | DMA_IP_CH_SET_MAJORLOOP_EN_LINK | DMA_IP_CH_SET_MAJORLOOP_LOGIC_LINK_CH
  | DMA_IP_CH_SET_MAJORLOOP_COUNT | DMA_IP_CH_SET_CONTROL_STORE_DST_ADDR
  | DMA_IP_CH_SET_CONTROL_SOFTWARE_REQUEST | DMA_IP_CH_SET_CONTROL_EN_MAJOR_INTERRUPT
  | DMA_IP_CH_SET_CONTROL_EN_HALF_MAJOR_INTERRUPT | DMA_IP_CH_SET_CONTROL_DIS_AUTO_REQUEST
  | DMA_IP_CH_SET_CONTROL_EN_END_OF_PACKET_SIGNAL | DMA_IP_CH_SET_CONTROL_BANDWIDTH

datatype info_param =
    DMA_IP_CH_GET_SOURCE_ADDRESS | DMA_IP_CH_GET_DESTINATION_ADDRESS
  | DMA_IP_CH_GET_BEGIN_ITER_COUNT | DMA_IP_CH_GET_CURRENT_ITER_COUNT
  | DMA_IP_CH_GET_STORE_DST_ADDR | DMA_IP_CH_GET_MASTER_ID
  | DMA_IP_CH_GET_MAJOR_INTERRUPT | DMA_IP_CH_GET_HALF_MAJOR_INTERRUPT

record instance_status =
  is_Errors :: u32
  is_ActiveId :: u8
  is_Active :: bool
  is_Version :: u8

definition DMA_IP_HARDWARE_VERSION_3 :: nat where "DMA_IP_HARDWARE_VERSION_3 = 3"

text \<open>The switch over the hardware version; an index outside of the array is undefined behaviour.\<close>

definition hwv3 :: "nat \<Rightarrow> 'm action \<Rightarrow> 'm action" where
  "hwv3 LocHwVers f x = (if LocHwVers = DMA_IP_HARDWARE_VERSION_3 then f x else Inr x)"

definition Dma_Ip_ConvertLogicChToHwCh :: "dma_init \<Rightarrow> u32 \<Rightarrow> u32" where
  "Dma_Ip_ConvertLogicChToHwCh ini LogicCh =
     ucast (HwChId (ch_LogicChId (ppxLogicChannelConfigArray ini ! unat LogicCh)))"

subsection \<open>Instances\<close>

definition HwAccDmaInst_SetConfig ::
    "'m host \<Rightarrow> nat \<Rightarrow> nat \<Rightarrow> logic_instance_config \<Rightarrow> 'm action" where
  "HwAccDmaInst_SetConfig H LocHwVers LocHwInst cfg =
     hwv3 LocHwVers (hwv3AccInlineDmaInst_SetConfig H (Dma_Ip_paxHwv3BaseInst ! LocHwInst) cfg)"

definition hwAccDmaInst_CmdCancelTransfer :: "'m host \<Rightarrow> nat \<Rightarrow> nat \<Rightarrow> 'm action" where
  "hwAccDmaInst_CmdCancelTransfer H LocHwVers LocHwInst =
     hwv3 LocHwVers (hwv3AccInlineDmaInst_CmdCancelTransfer H (Dma_Ip_paxHwv3BaseInst ! LocHwInst))"

definition hwAccDmaInst_CmdCancelTransferWithError :: "'m host \<Rightarrow> nat \<Rightarrow> nat \<Rightarrow> 'm action" where
  "hwAccDmaInst_CmdCancelTransferWithError H LocHwVers LocHwInst =
     hwv3 LocHwVers (hwv3AccInlineDmaInst_CmdCancelTransferWithError H (Dma_Ip_paxHwv3BaseInst ! LocHwInst))"

definition hwAccDmaInst_CmdHalt :: "'m host \<Rightarrow> nat \<Rightarrow> nat \<Rightarrow> 'm action" where
  "hwAccDmaInst_CmdHalt H LocHwVers LocHwInst =
     hwv3 LocHwVers (hwv3AccInlineDmaInst_CmdHalt H (Dma_Ip_paxHwv3BaseInst ! LocHwInst))"

definition hwAccDmaInst_CmdResume :: "'m host \<Rightarrow> nat \<Rightarrow> nat \<Rightarrow> 'm action" where
  "hwAccDmaInst_CmdResume H LocHwVers LocHwInst =
     hwv3 LocHwVers (hwv3AccInlineDmaInst_CmdResume H (Dma_Ip_paxHwv3BaseInst ! LocHwInst))"

definition HwAccDmaInst_SetCommand :: "'m host \<Rightarrow> instance_cmd \<Rightarrow> nat \<Rightarrow> nat \<Rightarrow> 'm action" where
  "HwAccDmaInst_SetCommand H Command = (case Command of
     DMA_IP_INST_CANCEL_TRANSFER \<Rightarrow> hwAccDmaInst_CmdCancelTransfer H
   | DMA_IP_INST_CANCEL_TRANSFER_WITH_ERROR \<Rightarrow> hwAccDmaInst_CmdCancelTransferWithError H
   | DMA_IP_INST_HALT \<Rightarrow> hwAccDmaInst_CmdHalt H
   | DMA_IP_INST_RESUME \<Rightarrow> hwAccDmaInst_CmdResume H)"

definition HwAccDmaInst_GetStatus :: "nat \<Rightarrow> nat \<Rightarrow> 'm hw \<Rightarrow> instance_status \<Rightarrow> instance_status" where
  "HwAccDmaInst_GetStatus LocHwVers LocHwInst x old =
     (let p = Dma_Ip_paxHwv3BaseInst ! LocHwInst in
      if LocHwVers = DMA_IP_HARDWARE_VERSION_3
      then \<lparr>is_Errors = hwv3AccInlineDmaInst_GetErrorStatus p x,
            is_ActiveId = hwv3AccInlineDmaInst_GetActiveIdStatus p x,
            is_Active = hwv3AccInlineDmaInst_GetActiveStatus p x,
            is_Version = hwv3AccInlineDmaInst_GetEdmaVersion\<rparr>
      else old)"

subsection \<open>Channel commands and status\<close>

definition HwAccDmaCh_CmdSetHwRequest :: "'m host \<Rightarrow> nat \<Rightarrow> nat \<Rightarrow> nat \<Rightarrow> 'm action" where
  "HwAccDmaCh_CmdSetHwRequest H LocHwVers LocHwInst LocHwCh =
     hwv3 LocHwVers (hwv3AccInlineDmaCh_CmdSetRequest H (DMA_IP_HWV3_TCD LocHwInst LocHwCh))"

definition HwAccDmaCh_CmdClearHwRequest :: "'m host \<Rightarrow> nat \<Rightarrow> nat \<Rightarrow> nat \<Rightarrow> 'm action" where
  "HwAccDmaCh_CmdClearHwRequest H LocHwVers LocHwInst LocHwCh =
     hwv3 LocHwVers (hwv3AccInlineDmaCh_CmdClearRequest H (DMA_IP_HWV3_TCD LocHwInst LocHwCh))"

definition HwAccDmaCh_CmdSetSwRequest :: "'m host \<Rightarrow> nat \<Rightarrow> nat \<Rightarrow> nat \<Rightarrow> 'm action" where
  "HwAccDmaCh_CmdSetSwRequest H LocHwVers LocHwInst LocHwCh =
     hwv3 LocHwVers (hwv3AccInlineDmaCh_CmdSwReqStart H (DMA_IP_HWV3_TCD LocHwInst LocHwCh))"

definition HwAccDmaCh_CmdClearDone :: "'m host \<Rightarrow> nat \<Rightarrow> nat \<Rightarrow> nat \<Rightarrow> 'm action" where
  "HwAccDmaCh_CmdClearDone H LocHwVers LocHwInst LocHwCh =
     hwv3 LocHwVers (hwv3AccInlineDmaCh_CmdClearDone H (DMA_IP_HWV3_TCD LocHwInst LocHwCh))"

definition HwAccDmaCh_CmdClearError :: "'m host \<Rightarrow> nat \<Rightarrow> nat \<Rightarrow> nat \<Rightarrow> 'm action" where
  "HwAccDmaCh_CmdClearError H LocHwVers LocHwInst LocHwCh =
     hwv3 LocHwVers (hwv3AccInlineDmaCh_CmdClearError H (DMA_IP_HWV3_TCD LocHwInst LocHwCh))"

definition HwAccDmaCh_SetCommand :: "'m host \<Rightarrow> channel_cmd \<Rightarrow> nat \<Rightarrow> nat \<Rightarrow> nat \<Rightarrow> 'm action" where
  "HwAccDmaCh_SetCommand H Command = (case Command of
     DMA_IP_CH_SET_HARDWARE_REQUEST \<Rightarrow> HwAccDmaCh_CmdSetHwRequest H
   | DMA_IP_CH_CLEAR_HARDWARE_REQUEST \<Rightarrow> HwAccDmaCh_CmdClearHwRequest H
   | DMA_IP_CH_SET_SOFTWARE_REQUEST \<Rightarrow> HwAccDmaCh_CmdSetSwRequest H
   | DMA_IP_CH_CLEAR_DONE \<Rightarrow> HwAccDmaCh_CmdClearDone H
   | DMA_IP_CH_CLEAR_ERROR \<Rightarrow> HwAccDmaCh_CmdClearError H)"

text \<open>The out-parameters \<open>Active\<close> and \<open>Done\<close>, and \<open>pLocError\<close>; \<open>old\<close> is what they held.\<close>

definition HwAccDmaCh_GetStatus :: "nat \<Rightarrow> nat \<Rightarrow> nat \<Rightarrow> 'm hw \<Rightarrow> bool \<times> bool \<Rightarrow> bool \<times> bool" where
  "HwAccDmaCh_GetStatus LocHwVers LocHwInst LocHwCh x old =
     (if LocHwVers = DMA_IP_HARDWARE_VERSION_3
      then (hwv3AccInlineDmaCh_GetActiveStatus (DMA_IP_HWV3_TCD LocHwInst LocHwCh) x,
            hwv3AccInlineDmaCh_GetDoneStatus (DMA_IP_HWV3_TCD LocHwInst LocHwCh) x)
      else old)"

definition HwAccDmaCh_GetStatus_Error :: "nat \<Rightarrow> nat \<Rightarrow> nat \<Rightarrow> 'm hw \<Rightarrow> u32 \<Rightarrow> u32" where
  "HwAccDmaCh_GetStatus_Error LocHwVers LocHwInst LocHwCh x old =
     (if LocHwVers = DMA_IP_HARDWARE_VERSION_3
      then hwv3AccInlineDmaCh_GetErrorStatus (DMA_IP_HWV3_TCD LocHwInst LocHwCh) x else old)"

subsection \<open>Global parameters\<close>

definition HwAccDmaCh_SetControl_EnMasterIdReplication :: "'m host \<Rightarrow> nat \<Rightarrow> nat \<Rightarrow> nat \<Rightarrow> u32 \<Rightarrow> 'm action" where
  "HwAccDmaCh_SetControl_EnMasterIdReplication H LocHwVers LocHwInst LocHwCh LocValue =
     hwv3 LocHwVers (hwv3AccInlineDmaCh_SetControl_EnMasterIdReplication H (DMA_IP_HWV3_TCD LocHwInst LocHwCh) LocValue)"

definition HwAccDmaCh_SetControl_EnBufferedWrites :: "'m host \<Rightarrow> nat \<Rightarrow> nat \<Rightarrow> nat \<Rightarrow> u32 \<Rightarrow> 'm action" where
  "HwAccDmaCh_SetControl_EnBufferedWrites H LocHwVers LocHwInst LocHwCh LocValue =
     hwv3 LocHwVers (hwv3AccInlineDmaCh_SetControl_EnBufferedWrites H (DMA_IP_HWV3_TCD LocHwInst LocHwCh) LocValue)"

definition HwAccDmaCh_SetRequest_EnRequest :: "'m host \<Rightarrow> nat \<Rightarrow> nat \<Rightarrow> nat \<Rightarrow> u32 \<Rightarrow> 'm action" where
  "HwAccDmaCh_SetRequest_EnRequest H LocHwVers LocHwInst LocHwCh LocValue =
     hwv3 LocHwVers (hwv3AccInlineDmaCh_SetRequest_EnHwRequest H (DMA_IP_HWV3_TCD LocHwInst LocHwCh) LocValue)"

definition HwAccDmaCh_SetInterrupt_EnError :: "'m host \<Rightarrow> nat \<Rightarrow> nat \<Rightarrow> nat \<Rightarrow> u32 \<Rightarrow> 'm action" where
  "HwAccDmaCh_SetInterrupt_EnError H LocHwVers LocHwInst LocHwCh LocValue =
     hwv3 LocHwVers (hwv3AccInlineDmaCh_SetInterrupt_EnError H (DMA_IP_HWV3_TCD LocHwInst LocHwCh) LocValue)"

definition HwAccDmaCh_SetPriority_Group :: "'m host \<Rightarrow> nat \<Rightarrow> nat \<Rightarrow> nat \<Rightarrow> u32 \<Rightarrow> 'm action" where
  "HwAccDmaCh_SetPriority_Group H LocHwVers LocHwInst LocHwCh LocValue =
     hwv3 LocHwVers (hwv3AccInlineDmaCh_SetPriority_Group H (Dma_Ip_paxHwv3BaseInst ! LocHwInst + grpri_offset LocHwCh) LocValue)"

definition HwAccDmaCh_SetPriority_Level :: "'m host \<Rightarrow> nat \<Rightarrow> nat \<Rightarrow> nat \<Rightarrow> u32 \<Rightarrow> 'm action" where
  "HwAccDmaCh_SetPriority_Level H LocHwVers LocHwInst LocHwCh LocValue =
     hwv3 LocHwVers (hwv3AccInlineDmaCh_SetPriority_Level H (DMA_IP_HWV3_TCD LocHwInst LocHwCh) LocValue)"

definition HwAccDmaCh_SetPriority_EnPreemption :: "'m host \<Rightarrow> nat \<Rightarrow> nat \<Rightarrow> nat \<Rightarrow> u32 \<Rightarrow> 'm action" where
  "HwAccDmaCh_SetPriority_EnPreemption H LocHwVers LocHwInst LocHwCh LocValue =
     hwv3 LocHwVers (hwv3AccInlineDmaCh_SetPriority_EnPreemption H (DMA_IP_HWV3_TCD LocHwInst LocHwCh) LocValue)"

definition HwAccDmaCh_SetPriority_DisPreempt :: "'m host \<Rightarrow> nat \<Rightarrow> nat \<Rightarrow> nat \<Rightarrow> u32 \<Rightarrow> 'm action" where
  "HwAccDmaCh_SetPriority_DisPreempt H LocHwVers LocHwInst LocHwCh LocValue =
     hwv3 LocHwVers (hwv3AccInlineDmaCh_SetPriority_DisPreempt H (DMA_IP_HWV3_TCD LocHwInst LocHwCh) LocValue)"

definition HwAccDmaCh_SetGlobalParam ::
    "'m host \<Rightarrow> global_param \<Rightarrow> nat \<Rightarrow> nat \<Rightarrow> nat \<Rightarrow> u32 \<Rightarrow> 'm action" where
  "HwAccDmaCh_SetGlobalParam H Parameter = (case Parameter of
     DMA_IP_CH_SET_EN_MASTER_ID_REPLICATION \<Rightarrow> HwAccDmaCh_SetControl_EnMasterIdReplication H
   | DMA_IP_CH_SET_EN_BUFFERED_WRITES \<Rightarrow> HwAccDmaCh_SetControl_EnBufferedWrites H
   | DMA_IP_CH_SET_EN_HARDWARE_REQ \<Rightarrow> HwAccDmaCh_SetRequest_EnRequest H
   | DMA_IP_CH_SET_EN_ERROR_INTERRUPT \<Rightarrow> HwAccDmaCh_SetInterrupt_EnError H
   | DMA_IP_CH_SET_GROUP_PRIORITY \<Rightarrow> HwAccDmaCh_SetPriority_Group H
   | DMA_IP_CH_SET_LEVEL_PRIORITY \<Rightarrow> HwAccDmaCh_SetPriority_Level H
   | DMA_IP_CH_SET_EN_PREEMPTION_PRIORITY \<Rightarrow> HwAccDmaCh_SetPriority_EnPreemption H
   | DMA_IP_CH_SET_DIS_PREEMPT_PRIORITY \<Rightarrow> HwAccDmaCh_SetPriority_DisPreempt H)"

subsection \<open>Transfer parameters\<close>

definition HwAccDmaCh_SetSource_Address :: "'m host \<Rightarrow> nat \<Rightarrow> nat \<Rightarrow> u32 \<Rightarrow> 'm action" where
  "HwAccDmaCh_SetSource_Address H LocHwVers pxLocTcd LocValue =
     hwv3 LocHwVers (hwv3AccInlineDmaCh_SetSource_Address H pxLocTcd LocValue)"

definition HwAccDmaCh_SetSource_SignedOffset :: "'m host \<Rightarrow> nat \<Rightarrow> nat \<Rightarrow> u32 \<Rightarrow> 'm action" where
  "HwAccDmaCh_SetSource_SignedOffset H LocHwVers pxLocTcd LocValue =
     hwv3 LocHwVers (hwv3AccInlineDmaCh_SetSource_SignedOffset H pxLocTcd LocValue)"

definition HwAccDmaCh_SetSource_LastAddrAdj :: "'m host \<Rightarrow> nat \<Rightarrow> nat \<Rightarrow> u32 \<Rightarrow> 'm action" where
  "HwAccDmaCh_SetSource_LastAddrAdj H LocHwVers pxLocTcd LocValue =
     hwv3 LocHwVers (in_turn
       (hwv3AccInlineDmaCh_SetAuxiliary_EnDestinationStoreAddress H pxLocTcd False)
       (hwv3AccInlineDmaCh_SetSource_SignedLastAddrAdj H pxLocTcd LocValue))"

definition HwAccDmaCh_SetSource_TransferSize :: "'m host \<Rightarrow> nat \<Rightarrow> nat \<Rightarrow> u32 \<Rightarrow> 'm action" where
  "HwAccDmaCh_SetSource_TransferSize H LocHwVers pxLocTcd LocValue =
     hwv3 LocHwVers (hwv3AccInlineDmaCh_SetSource_TransferSize H pxLocTcd LocValue)"

definition HwAccDmaCh_SetSource_Modulo :: "'m host \<Rightarrow> nat \<Rightarrow> nat \<Rightarrow> u32 \<Rightarrow> 'm action" where
  "HwAccDmaCh_SetSource_Modulo H LocHwVers pxLocTcd LocValue =
     hwv3 LocHwVers (hwv3AccInlineDmaCh_SetSource_Modulo H pxLocTcd LocValue)"

definition HwAccDmaCh_SetDestination_Address :: "'m host \<Rightarrow> nat \<Rightarrow> nat \<Rightarrow> u32 \<Rightarrow> 'm action" where
  "HwAccDmaCh_SetDestination_Address H LocHwVers pxLocTcd LocValue =
     hwv3 LocHwVers (hwv3AccInlineDmaCh_SetDestination_Address H pxLocTcd LocValue)"

definition HwAccDmaCh_SetDestination_SignedOffset :: "'m host \<Rightarrow> nat \<Rightarrow> nat \<Rightarrow> u32 \<Rightarrow> 'm action" where
  "HwAccDmaCh_SetDestination_SignedOffset H LocHwVers pxLocTcd LocValue =
     hwv3 LocHwVers (hwv3AccInlineDmaCh_SetDestination_SignedOffset H pxLocTcd LocValue)"

definition HwAccDmaCh_SetDestination_LastAddrAdj :: "'m host \<Rightarrow> nat \<Rightarrow> nat \<Rightarrow> u32 \<Rightarrow> 'm action" where
  "HwAccDmaCh_SetDestination_LastAddrAdj H LocHwVers pxLocTcd LocValue =
     hwv3 LocHwVers (hwv3AccInlineDmaCh_SetDestination_LastAddrAdj H pxLocTcd LocValue)"

definition HwAccDmaCh_SetDestination_TransferSize :: "'m host \<Rightarrow> nat \<Rightarrow> nat \<Rightarrow> u32 \<Rightarrow> 'm action" where
  "HwAccDmaCh_SetDestination_TransferSize H LocHwVers pxLocTcd LocValue =
     hwv3 LocHwVers (hwv3AccInlineDmaCh_SetDestination_TransferSize H pxLocTcd LocValue)"

definition HwAccDmaCh_SetDestination_Modulo :: "'m host \<Rightarrow> nat \<Rightarrow> nat \<Rightarrow> u32 \<Rightarrow> 'm action" where
  "HwAccDmaCh_SetDestination_Modulo H LocHwVers pxLocTcd LocValue =
     hwv3 LocHwVers (hwv3AccInlineDmaCh_SetDestination_Modulo H pxLocTcd LocValue)"

definition HwAccDmaCh_SetMinorLoop_enSrcOffset :: "'m host \<Rightarrow> nat \<Rightarrow> nat \<Rightarrow> u32 \<Rightarrow> 'm action" where
  "HwAccDmaCh_SetMinorLoop_enSrcOffset H LocHwVers pxLocTcd LocValue =
     hwv3 LocHwVers (hwv3AccInlineDmaCh_SetMinorLoop_enSrcOffset H pxLocTcd LocValue)"

definition HwAccDmaCh_SetMinorLoop_enDstOffset :: "'m host \<Rightarrow> nat \<Rightarrow> nat \<Rightarrow> u32 \<Rightarrow> 'm action" where
  "HwAccDmaCh_SetMinorLoop_enDstOffset H LocHwVers pxLocTcd LocValue =
     hwv3 LocHwVers (hwv3AccInlineDmaCh_SetMinorLoop_enDstOffset H pxLocTcd LocValue)"

definition HwAccDmaCh_SetMinorLoop_Offset :: "'m host \<Rightarrow> nat \<Rightarrow> nat \<Rightarrow> u32 \<Rightarrow> 'm action" where
  "HwAccDmaCh_SetMinorLoop_Offset H LocHwVers pxLocTcd LocValue =
     hwv3 LocHwVers (hwv3AccInlineDmaCh_SetMinorLoop_SignedOffset H pxLocTcd LocValue)"

definition HwAccDmaCh_SetMinorLoop_EnLink :: "'m host \<Rightarrow> nat \<Rightarrow> nat \<Rightarrow> u32 \<Rightarrow> 'm action" where
  "HwAccDmaCh_SetMinorLoop_EnLink H LocHwVers pxLocTcd LocValue =
     hwv3 LocHwVers (hwv3AccInlineDmaCh_SetMinorLoop_EnLink H pxLocTcd LocValue)"

definition HwAccDmaCh_SetMinorLoop_LogicLinkCh :: "dma_init \<Rightarrow> 'm host \<Rightarrow> nat \<Rightarrow> nat \<Rightarrow> u32 \<Rightarrow> 'm action" where
  "HwAccDmaCh_SetMinorLoop_LogicLinkCh ini H LocHwVers pxLocTcd LocValue =
     (let hwLinkCh = Dma_Ip_ConvertLogicChToHwCh ini LocValue
      in hwv3 LocHwVers (hwv3AccInlineDmaCh_SetMinorLoop_LinkCh H pxLocTcd hwLinkCh))"

definition HwAccDmaCh_SetMinorLoop_Size :: "'m host \<Rightarrow> nat \<Rightarrow> nat \<Rightarrow> u32 \<Rightarrow> 'm action" where
  "HwAccDmaCh_SetMinorLoop_Size H LocHwVers pxLocTcd LocValue =
     hwv3 LocHwVers (hwv3AccInlineDmaCh_SetMinorLoop_Size H pxLocTcd LocValue)"

definition HwAccDmaCh_SetMajorLoop_EnLink :: "'m host \<Rightarrow> nat \<Rightarrow> nat \<Rightarrow> u32 \<Rightarrow> 'm action" where
  "HwAccDmaCh_SetMajorLoop_EnLink H LocHwVers pxLocTcd LocValue =
     hwv3 LocHwVers (hwv3AccInlineDmaCh_SetMajorLoop_EnLink H pxLocTcd LocValue)"

definition HwAccDmaCh_SetMajorLoop_LogicLinkCh :: "dma_init \<Rightarrow> 'm host \<Rightarrow> nat \<Rightarrow> nat \<Rightarrow> u32 \<Rightarrow> 'm action" where
  "HwAccDmaCh_SetMajorLoop_LogicLinkCh ini H LocHwVers pxLocTcd LocValue =
     (let hwLinkCh = Dma_Ip_ConvertLogicChToHwCh ini LocValue
      in hwv3 LocHwVers (hwv3AccInlineDmaCh_SetMajorLoop_LinkCh H pxLocTcd hwLinkCh))"

definition HwAccDmaCh_SetMajorLoop_Count :: "'m host \<Rightarrow> nat \<Rightarrow> nat \<Rightarrow> u32 \<Rightarrow> 'm action" where
  "HwAccDmaCh_SetMajorLoop_Count H LocHwVers pxLocTcd LocValue =
     hwv3 LocHwVers (hwv3AccInlineDmaCh_SetMajorLoop_Count H pxLocTcd LocValue)"

definition HwAccDmaCh_SetControl_StoreDestinationAddress :: "'m host \<Rightarrow> nat \<Rightarrow> nat \<Rightarrow> u32 \<Rightarrow> 'm action" where
  "HwAccDmaCh_SetControl_StoreDestinationAddress H LocHwVers pxLocTcd LocValue =
     hwv3 LocHwVers (in_turn
       (hwv3AccInlineDmaCh_SetControl_StoreDestinationAddress H pxLocTcd LocValue)
       (hwv3AccInlineDmaCh_SetAuxiliary_EnDestinationStoreAddress H pxLocTcd True))"

definition HwAccDmaCh_SetControl_EnStart :: "'m host \<Rightarrow> nat \<Rightarrow> nat \<Rightarrow> u32 \<Rightarrow> 'm action" where
  "HwAccDmaCh_SetControl_EnStart H LocHwVers pxLocTcd LocValue =
     hwv3 LocHwVers (hwv3AccInlineDmaCh_SetControl_EnStart H pxLocTcd (LocValue \<noteq> 0))"

definition HwAccDmaCh_SetControl_EnMajor :: "'m host \<Rightarrow> nat \<Rightarrow> nat \<Rightarrow> u32 \<Rightarrow> 'm action" where
  "HwAccDmaCh_SetControl_EnMajor H LocHwVers pxLocTcd LocValue =
     hwv3 LocHwVers (hwv3AccInlineDmaCh_SetControl_EnMajor H pxLocTcd LocValue)"

definition HwAccDmaCh_SetControl_EnHalfMajor :: "'m host \<Rightarrow> nat \<Rightarrow> nat \<Rightarrow> u32 \<Rightarrow> 'm action" where
  "HwAccDmaCh_SetControl_EnHalfMajor H LocHwVers pxLocTcd LocValue =
     hwv3 LocHwVers (hwv3AccInlineDmaCh_SetControl_EnHalfMajor H pxLocTcd LocValue)"

definition HwAccDmaCh_SetControl_DisAutoHwRequest :: "'m host \<Rightarrow> nat \<Rightarrow> nat \<Rightarrow> u32 \<Rightarrow> 'm action" where
  "HwAccDmaCh_SetControl_DisAutoHwRequest H LocHwVers pxLocTcd LocValue =
     hwv3 LocHwVers (hwv3AccInlineDmaCh_SetControl_DisAutoHwRequest H pxLocTcd LocValue)"

definition HwAccDmaCh_SetControl_EnEndOfPacketSignal :: "'m host \<Rightarrow> nat \<Rightarrow> nat \<Rightarrow> u32 \<Rightarrow> 'm action" where
  "HwAccDmaCh_SetControl_EnEndOfPacketSignal H LocHwVers pxLocTcd LocValue =
     hwv3 LocHwVers (hwv3AccInlineDmaCh_SetControl_EnEndOfPacketSignal H pxLocTcd LocValue)"

definition HwAccDmaCh_SetControl_BandwidthControl :: "'m host \<Rightarrow> nat \<Rightarrow> nat \<Rightarrow> u32 \<Rightarrow> 'm action" where
  "HwAccDmaCh_SetControl_BandwidthControl H LocHwVers pxLocTcd LocValue =
     hwv3 LocHwVers (hwv3AccInlineDmaCh_SetControl_BandwidthControl H pxLocTcd LocValue)"

definition HwAccDmaCh_SetControl_ScatterGatherAddress :: "'m host \<Rightarrow> nat \<Rightarrow> nat \<Rightarrow> u32 \<Rightarrow> 'm action" where
  "HwAccDmaCh_SetControl_ScatterGatherAddress H LocHwVers pxLocTcd LocValue =
     hwv3 LocHwVers (hwv3AccInlineDmaCh_SetControl_ScatterGatherAddress H pxLocTcd LocValue)"

definition HwAccDmaCh_SetControl_EnScatterGatherProcessing :: "'m host \<Rightarrow> nat \<Rightarrow> nat \<Rightarrow> bool \<Rightarrow> 'm action" where
  "HwAccDmaCh_SetControl_EnScatterGatherProcessing H LocHwVers pxLocTcd LocValue =
     hwv3 LocHwVers (hwv3AccInlineDmaCh_SetAuxiliary_EnScatterGatherProcessing H pxLocTcd LocValue)"

definition HwAccDmaCh_SetTransferParam ::
    "dma_init \<Rightarrow> 'm host \<Rightarrow> transfer_param \<Rightarrow> nat \<Rightarrow> nat \<Rightarrow> u32 \<Rightarrow> 'm action" where
  "HwAccDmaCh_SetTransferParam ini H Parameter = (case Parameter of
     DMA_IP_CH_SET_SOURCE_ADDRESS \<Rightarrow> HwAccDmaCh_SetSource_Address H
   | DMA_IP_CH_SET_SOURCE_SIGNED_OFFSET \<Rightarrow> HwAccDmaCh_SetSource_SignedOffset H
   | DMA_IP_CH_SET_SOURCE_SIGNED_LAST_ADDR_ADJ \<Rightarrow> HwAccDmaCh_SetSource_LastAddrAdj H
   | DMA_IP_CH_SET_SOURCE_TRANSFER_SIZE \<Rightarrow> HwAccDmaCh_SetSource_TransferSize H
   | DMA_IP_CH_SET_SOURCE_MODULO \<Rightarrow> HwAccDmaCh_SetSource_Modulo H
   | DMA_IP_CH_SET_DESTINATION_ADDRESS \<Rightarrow> HwAccDmaCh_SetDestination_Address H
   | DMA_IP_CH_SET_DESTINATION_SIGNED_OFFSET \<Rightarrow> HwAccDmaCh_SetDestination_SignedOffset H
   | DMA_IP_CH_SET_DESTINATION_SIGNED_LAST_ADDR_ADJ \<Rightarrow> HwAccDmaCh_SetDestination_LastAddrAdj H
   | DMA_IP_CH_SET_DESTINATION_TRANSFER_SIZE \<Rightarrow> HwAccDmaCh_SetDestination_TransferSize H
   | DMA_IP_CH_SET_DESTINATION_MODULO \<Rightarrow> HwAccDmaCh_SetDestination_Modulo H
   | DMA_IP_CH_SET_MINORLOOP_EN_SRC_OFFSET \<Rightarrow> HwAccDmaCh_SetMinorLoop_enSrcOffset H
   | DMA_IP_CH_SET_MINORLOOP_EN_DST_OFFSET \<Rightarrow> HwAccDmaCh_SetMinorLoop_enDstOffset H
   | DMA_IP_CH_SET_MINORLOOP_SIGNED_OFFSET \<Rightarrow> HwAccDmaCh_SetMinorLoop_Offset H
   | DMA_IP_CH_SET_MINORLOOP_EN_LINK \<Rightarrow> HwAccDmaCh_SetMinorLoop_EnLink H
   | DMA_IP_CH_SET_MINORLOOP_LOGIC_LINK_CH \<Rightarrow> HwAccDmaCh_SetMinorLoop_LogicLinkCh ini H
   | DMA_IP_CH_SET_MINORLOOP_SIZE \<Rightarrow> HwAccDmaCh_SetMinorLoop_Size H
   | DMA_IP_CH_SET_MAJORLOOP_EN_LINK \<Rightarrow> HwAccDmaCh_SetMajorLoop_EnLink H
   | DMA_IP_CH_SET_MAJORLOOP_LOGIC_LINK_CH \<Rightarrow> HwAccDmaCh_SetMajorLoop_LogicLinkCh ini H
   | DMA_IP_CH_SET_MAJORLOOP_COUNT \<Rightarrow> HwAccDmaCh_SetMajorLoop_Count H
   | DMA_IP_CH_SET_CONTROL_STORE_DST_ADDR \<Rightarrow> HwAccDmaCh_SetControl_StoreDestinationAddress H
   | DMA_IP_CH_SET_CONTROL_SOFTWARE_REQUEST \<Rightarrow> HwAccDmaCh_SetControl_EnStart H
   | DMA_IP_CH_SET_CONTROL_EN_MAJOR_INTERRUPT \<Rightarrow> HwAccDmaCh_SetControl_EnMajor H
   | DMA_IP_CH_SET_CONTROL_EN_HALF_MAJOR_INTERRUPT \<Rightarrow> HwAccDmaCh_SetControl_EnHalfMajor H
   | DMA_IP_CH_SET_CONTROL_DIS_AUTO_REQUEST \<Rightarrow> HwAccDmaCh_SetControl_DisAutoHwRequest H
   | DMA_IP_CH_SET_CONTROL_EN_END_OF_PACKET_SIGNAL \<Rightarrow> HwAccDmaCh_SetControl_EnEndOfPacketSignal H
   | DMA_IP_CH_SET_CONTROL_BANDWIDTH \<Rightarrow> HwAccDmaCh_SetControl_BandwidthControl H)"

subsection \<open>Parameters read back\<close>

definition HwAccDmaCh_GetSourceAddress :: "nat \<Rightarrow> nat \<Rightarrow> nat \<Rightarrow> 'm hw \<Rightarrow> u32 \<Rightarrow> u32" where
  "HwAccDmaCh_GetSourceAddress LocHwVers LocHwInst LocHwCh x old =
     (if LocHwVers = DMA_IP_HARDWARE_VERSION_3
      then hwv3AccInlineDmaCh_GetSourceAddress (DMA_IP_HWV3_TCD LocHwInst LocHwCh) x else old)"

definition HwAccDmaCh_GetDestinationAddress :: "nat \<Rightarrow> nat \<Rightarrow> nat \<Rightarrow> 'm hw \<Rightarrow> u32 \<Rightarrow> u32" where
  "HwAccDmaCh_GetDestinationAddress LocHwVers LocHwInst LocHwCh x old =
     (if LocHwVers = DMA_IP_HARDWARE_VERSION_3
      then hwv3AccInlineDmaCh_GetDestinationAddress (DMA_IP_HWV3_TCD LocHwInst LocHwCh) x else old)"

definition HwAccDmaCh_GetBeginIterCount :: "nat \<Rightarrow> nat \<Rightarrow> nat \<Rightarrow> 'm hw \<Rightarrow> u32 \<Rightarrow> u32" where
  "HwAccDmaCh_GetBeginIterCount LocHwVers LocHwInst LocHwCh x old =
     (if LocHwVers = DMA_IP_HARDWARE_VERSION_3
      then hwv3AccInlineDmaCh_GetBeginIterCount (DMA_IP_HWV3_TCD LocHwInst LocHwCh) x else old)"

definition HwAccDmaCh_GetCurrentIterCount :: "nat \<Rightarrow> nat \<Rightarrow> nat \<Rightarrow> 'm hw \<Rightarrow> u32 \<Rightarrow> u32" where
  "HwAccDmaCh_GetCurrentIterCount LocHwVers LocHwInst LocHwCh x old =
     (if LocHwVers = DMA_IP_HARDWARE_VERSION_3
      then hwv3AccInlineDmaCh_GetCurrentIterCount (DMA_IP_HWV3_TCD LocHwInst LocHwCh) x else old)"

definition HwAccDmaCh_GetStoreDstAddress :: "nat \<Rightarrow> nat \<Rightarrow> nat \<Rightarrow> 'm hw \<Rightarrow> u32 \<Rightarrow> u32" where
  "HwAccDmaCh_GetStoreDstAddress LocHwVers LocHwInst LocHwCh x old =
     (if LocHwVers = DMA_IP_HARDWARE_VERSION_3
      then hwv3AccInlineDmaCh_GetStoreDstAddress (DMA_IP_HWV3_TCD LocHwInst LocHwCh) x else old)"

definition HwAccDmaCh_GetMasterId :: "nat \<Rightarrow> nat \<Rightarrow> nat \<Rightarrow> 'm hw \<Rightarrow> u32 \<Rightarrow> u32" where
  "HwAccDmaCh_GetMasterId LocHwVers LocHwInst LocHwCh x old =
     (if LocHwVers = DMA_IP_HARDWARE_VERSION_3
      then hwv3AccInlineDmaCh_GetMasterId (DMA_IP_HWV3_TCD LocHwInst LocHwCh) x else old)"

definition HwAccDmaCh_GetIntMajor :: "nat \<Rightarrow> nat \<Rightarrow> nat \<Rightarrow> 'm hw \<Rightarrow> u32 \<Rightarrow> u32" where
  "HwAccDmaCh_GetIntMajor LocHwVers LocHwInst LocHwCh x old =
     (if LocHwVers = DMA_IP_HARDWARE_VERSION_3
      then hwv3AccInlineDmaCh_GetIntMajor (DMA_IP_HWV3_TCD LocHwInst LocHwCh) x else old)"

definition HwAccDmaCh_GetIntHalfMajor :: "nat \<Rightarrow> nat \<Rightarrow> nat \<Rightarrow> 'm hw \<Rightarrow> u32 \<Rightarrow> u32" where
  "HwAccDmaCh_GetIntHalfMajor LocHwVers LocHwInst LocHwCh x old =
     (if LocHwVers = DMA_IP_HARDWARE_VERSION_3
      then hwv3AccInlineDmaCh_GetIntHalfMajor (DMA_IP_HWV3_TCD LocHwInst LocHwCh) x else old)"

definition HwAccDmaCh_GetParam :: "info_param \<Rightarrow> nat \<Rightarrow> nat \<Rightarrow> nat \<Rightarrow> 'm hw \<Rightarrow> u32 \<Rightarrow> u32" where
  "HwAccDmaCh_GetParam Parameter = (case Parameter of
     DMA_IP_CH_GET_SOURCE_ADDRESS \<Rightarrow> HwAccDmaCh_GetSourceAddress
   | DMA_IP_CH_GET_DESTINATION_ADDRESS \<Rightarrow> HwAccDmaCh_GetDestinationAddress
   | DMA_IP_CH_GET_BEGIN_ITER_COUNT \<Rightarrow> HwAccDmaCh_GetBeginIterCount
   | DMA_IP_CH_GET_CURRENT_ITER_COUNT \<Rightarrow> HwAccDmaCh_GetCurrentIterCount
   | DMA_IP_CH_GET_STORE_DST_ADDR \<Rightarrow> HwAccDmaCh_GetStoreDstAddress
   | DMA_IP_CH_GET_MASTER_ID \<Rightarrow> HwAccDmaCh_GetMasterId
   | DMA_IP_CH_GET_MAJOR_INTERRUPT \<Rightarrow> HwAccDmaCh_GetIntMajor
   | DMA_IP_CH_GET_HALF_MAJOR_INTERRUPT \<Rightarrow> HwAccDmaCh_GetIntHalfMajor)"

text \<open>The wrappers, for proofs that evaluate them.\<close>

lemmas wrapper_defs = hwv3_def
  HwAccDmaCh_SetControl_EnMasterIdReplication_def HwAccDmaCh_SetControl_EnBufferedWrites_def
  HwAccDmaCh_SetRequest_EnRequest_def HwAccDmaCh_SetInterrupt_EnError_def
  HwAccDmaCh_SetPriority_Group_def HwAccDmaCh_SetPriority_Level_def
  HwAccDmaCh_SetPriority_EnPreemption_def HwAccDmaCh_SetPriority_DisPreempt_def
  HwAccDmaCh_SetSource_Address_def HwAccDmaCh_SetSource_SignedOffset_def
  HwAccDmaCh_SetSource_LastAddrAdj_def HwAccDmaCh_SetSource_TransferSize_def
  HwAccDmaCh_SetSource_Modulo_def HwAccDmaCh_SetDestination_Address_def
  HwAccDmaCh_SetDestination_SignedOffset_def HwAccDmaCh_SetDestination_LastAddrAdj_def
  HwAccDmaCh_SetDestination_TransferSize_def HwAccDmaCh_SetDestination_Modulo_def
  HwAccDmaCh_SetMinorLoop_enSrcOffset_def HwAccDmaCh_SetMinorLoop_enDstOffset_def
  HwAccDmaCh_SetMinorLoop_Offset_def HwAccDmaCh_SetMinorLoop_EnLink_def
  HwAccDmaCh_SetMinorLoop_LogicLinkCh_def HwAccDmaCh_SetMinorLoop_Size_def
  HwAccDmaCh_SetMajorLoop_EnLink_def HwAccDmaCh_SetMajorLoop_LogicLinkCh_def
  HwAccDmaCh_SetMajorLoop_Count_def HwAccDmaCh_SetControl_StoreDestinationAddress_def
  HwAccDmaCh_SetControl_EnStart_def HwAccDmaCh_SetControl_EnMajor_def
  HwAccDmaCh_SetControl_EnHalfMajor_def HwAccDmaCh_SetControl_DisAutoHwRequest_def
  HwAccDmaCh_SetControl_EnEndOfPacketSignal_def HwAccDmaCh_SetControl_BandwidthControl_def
  HwAccDmaCh_SetControl_ScatterGatherAddress_def
  HwAccDmaCh_SetControl_EnScatterGatherProcessing_def HwAccDmaCh_CmdSetHwRequest_def
  HwAccDmaCh_CmdClearHwRequest_def HwAccDmaCh_CmdSetSwRequest_def HwAccDmaCh_CmdClearDone_def
  HwAccDmaCh_CmdClearError_def

end
