(* ===== verification/Dma_Ip.thy ===== *)
theory Dma_Ip
  imports Dma_Hw_Access
begin

section \<open>The DMA driver\<close>

text \<open>
  The driver proper: \<^verbatim>\<open>RTD/src/Dma_Ip.c\<close>, the channel state machine of
  \<^verbatim>\<open>RTD/src/Dma_Ip_Driver_State.c\<close> and the interrupt handler of \<^verbatim>\<open>RTD/src/Dma_Ip_Irq.c\<close>, over
  the access layer of theory \<open>Dma_Hw_Access\<close>. The driver's static variables are the record
  \<open>driver\<close>. The build has one core, no register protection and no scatter/gather configuration;
  the exclusive areas mask interrupts around a body that runs to completion here. A callback is
  reported by the handler that calls it.
\<close>

subsection \<open>State\<close>

datatype dma_status = DMA_IP_STATUS_SUCCESS | DMA_IP_STATUS_ERROR | DMA_IP_STATUS_WRONG_STATE

datatype ch_state_value =
    DMA_IP_CH_RESET_STATE | DMA_IP_CH_READY_STATE | DMA_IP_CH_TRANSFER_STATE
  | DMA_IP_CH_SCATTERGATHER_STATE | DMA_IP_CH_ERROR_STATE

datatype ch_event =
    DMA_IP_CH_RESET_EVENT | DMA_IP_CH_READY_EVENT | DMA_IP_CH_TRANSFER_EVENT
  | DMA_IP_CH_SCATTERGATHER_EVENT | DMA_IP_CH_ERROR_EVENT

record hw_channel_state =
  hs_LogicChId :: "logic_channel_id option"
  StateValue :: ch_state_value
  LogicChErrors :: u32

record driver =
  Dma_Ip_pxInit :: "dma_init option"
  ptHwChV3StateArray :: "nat \<Rightarrow> nat \<Rightarrow> nat option"
  ch_states :: "nat \<Rightarrow> hw_channel_state"

definition put_state :: "nat \<Rightarrow> hw_channel_state \<Rightarrow> driver \<Rightarrow> driver" where
  "put_state p st d = d\<lparr>ch_states := (ch_states d)(p := st)\<rparr>"

subsection \<open>The channel state machine\<close>

definition set_state_value :: "ch_state_value \<Rightarrow> nat \<Rightarrow> nat \<Rightarrow> nat \<Rightarrow> driver \<Rightarrow> driver res" where
  "set_state_value v LocHwVers LocHwInst LocHwCh d =
     (if LocHwVers = DMA_IP_HARDWARE_VERSION_3
      then res_bind (deref (ptHwChV3StateArray d LocHwInst LocHwCh))
        (\<lambda>p. Inr (put_state p ((ch_states d p)\<lparr>StateValue := v\<rparr>) d))
      else Inr d)"

definition Dma_Ip_SetHwChannel_ResetEvent :: "nat \<Rightarrow> nat \<Rightarrow> nat \<Rightarrow> driver \<Rightarrow> driver res" where
  "Dma_Ip_SetHwChannel_ResetEvent = set_state_value DMA_IP_CH_RESET_STATE"

definition Dma_Ip_SetHwChannel_ReadyEvent :: "nat \<Rightarrow> nat \<Rightarrow> nat \<Rightarrow> driver \<Rightarrow> driver res" where
  "Dma_Ip_SetHwChannel_ReadyEvent = set_state_value DMA_IP_CH_READY_STATE"

definition Dma_Ip_SetHwChannel_TransferEvent :: "nat \<Rightarrow> nat \<Rightarrow> nat \<Rightarrow> driver \<Rightarrow> driver res" where
  "Dma_Ip_SetHwChannel_TransferEvent = set_state_value DMA_IP_CH_TRANSFER_STATE"

definition Dma_Ip_SetHwChannel_ScatterGatherEvent :: "nat \<Rightarrow> nat \<Rightarrow> nat \<Rightarrow> driver \<Rightarrow> driver res" where
  "Dma_Ip_SetHwChannel_ScatterGatherEvent = set_state_value DMA_IP_CH_SCATTERGATHER_STATE"

definition Dma_Ip_SetHwChannel_ErrorEvent :: "nat \<Rightarrow> nat \<Rightarrow> nat \<Rightarrow> driver \<Rightarrow> driver res" where
  "Dma_Ip_SetHwChannel_ErrorEvent = set_state_value DMA_IP_CH_ERROR_STATE"

text \<open>The rows and columns of the table \<open>fpa_Dma_Ip_HwChannelState\<close>.\<close>

fun state_index :: "ch_state_value \<Rightarrow> nat" where
  "state_index DMA_IP_CH_RESET_STATE = 0"
| "state_index DMA_IP_CH_READY_STATE = 1"
| "state_index DMA_IP_CH_TRANSFER_STATE = 2"
| "state_index DMA_IP_CH_SCATTERGATHER_STATE = 3"
| "state_index DMA_IP_CH_ERROR_STATE = 4"

fun event_index :: "ch_event \<Rightarrow> nat" where
  "event_index DMA_IP_CH_RESET_EVENT = 0"
| "event_index DMA_IP_CH_READY_EVENT = 1"
| "event_index DMA_IP_CH_TRANSFER_EVENT = 2"
| "event_index DMA_IP_CH_SCATTERGATHER_EVENT = 3"
| "event_index DMA_IP_CH_ERROR_EVENT = 4"

definition fpa_Dma_Ip_HwChannelState :: "(nat \<Rightarrow> nat \<Rightarrow> nat \<Rightarrow> driver \<Rightarrow> driver res) list list" where
  "fpa_Dma_Ip_HwChannelState =
     (let reset = Dma_Ip_SetHwChannel_ResetEvent; ready = Dma_Ip_SetHwChannel_ReadyEvent;
          transfer = Dma_Ip_SetHwChannel_TransferEvent; sg = Dma_Ip_SetHwChannel_ScatterGatherEvent;
          error = Dma_Ip_SetHwChannel_ErrorEvent
      in [[reset, ready, error, error, error],
          [reset, ready, transfer, sg, error],
          [reset, ready, transfer, sg, error],
          [reset, ready, transfer, sg, error],
          [reset, ready, error, error, error]])"

definition Dma_Ip_SetHwChannelState :: "nat \<Rightarrow> nat \<Rightarrow> nat \<Rightarrow> ch_event \<Rightarrow> driver \<Rightarrow> driver res" where
  "Dma_Ip_SetHwChannelState LocHwVers LocHwInst LocHwCh EventValue d =
     (if LocHwVers = DMA_IP_HARDWARE_VERSION_3
      then res_bind (deref (ptHwChV3StateArray d LocHwInst LocHwCh))
        (\<lambda>p. (fpa_Dma_Ip_HwChannelState ! state_index (StateValue (ch_states d p)) ! event_index EventValue)
           LocHwVers LocHwInst LocHwCh d)
      else Inr d)"

definition Dma_Ip_GetHwChannelState :: "nat \<Rightarrow> nat \<Rightarrow> nat \<Rightarrow> driver \<Rightarrow> ch_state_value res" where
  "Dma_Ip_GetHwChannelState LocHwVers LocHwInst LocHwCh d =
     (if LocHwVers = DMA_IP_HARDWARE_VERSION_3
      then res_bind (deref (ptHwChV3StateArray d LocHwInst LocHwCh)) (\<lambda>p. Inr (StateValue (ch_states d p)))
      else Inr DMA_IP_CH_RESET_STATE)"

definition Dma_Ip_GetHwChannelStatePointer :: "nat \<Rightarrow> nat \<Rightarrow> nat \<Rightarrow> driver \<Rightarrow> nat option" where
  "Dma_Ip_GetHwChannelStatePointer LocHwVers LocHwInst LocHwCh d =
     (if LocHwVers = DMA_IP_HARDWARE_VERSION_3 then ptHwChV3StateArray d LocHwInst LocHwCh else None)"

definition Dma_Ip_SetHwChannelStatePointer ::
    "nat \<Rightarrow> nat \<Rightarrow> nat \<Rightarrow> nat option \<Rightarrow> driver \<Rightarrow> driver" where
  "Dma_Ip_SetHwChannelStatePointer LocHwVers LocHwInst LocHwCh StatePointer d =
     (if LocHwVers = DMA_IP_HARDWARE_VERSION_3
      then d\<lparr>ptHwChV3StateArray := (ptHwChV3StateArray d)(LocHwInst :=
        (ptHwChV3StateArray d LocHwInst)(LocHwCh := StatePointer))\<rparr>
      else d)"

subsection \<open>Parameter lists\<close>

fun each :: "('a \<Rightarrow> 'm action) \<Rightarrow> 'a list \<Rightarrow> 'm action" where
  "each f [] x = Inr x"
| "each f (a # as) x = res_bind (f a x) (each f as)"

definition Static_Dma_Ip_SetLogicChannelGlobalList ::
    "'m host \<Rightarrow> nat \<Rightarrow> nat \<Rightarrow> nat \<Rightarrow> (global_param \<times> u32) list \<Rightarrow> 'm action" where
  "Static_Dma_Ip_SetLogicChannelGlobalList H LocHwVers LocHwInst LocHwCh =
     each (\<lambda>(Param, Value). HwAccDmaCh_SetGlobalParam H Param LocHwVers LocHwInst LocHwCh Value)"

definition channel_id :: "dma_init \<Rightarrow> nat \<Rightarrow> logic_channel_id" where
  "channel_id ini LogicCh = ch_LogicChId (ppxLogicChannelConfigArray ini ! LogicCh)"

definition Static_Dma_Ip_SetLogicChannelTransferList ::
    "'m host \<Rightarrow> dma_init \<Rightarrow> nat \<Rightarrow> nat \<Rightarrow> (transfer_param \<times> u32) list \<Rightarrow> 'm action" where
  "Static_Dma_Ip_SetLogicChannelTransferList H ini LogicCh PxTcd =
     each (\<lambda>(Param, Value). HwAccDmaCh_SetTransferParam ini H Param
       (unat (HwVersId (channel_id ini LogicCh))) PxTcd Value)"

definition global_list :: "global_config \<Rightarrow> (global_param \<times> u32) list" where
  "global_list GlobalConfig =
     [(DMA_IP_CH_SET_EN_MASTER_ID_REPLICATION, of_bool (EnMasterIdReplication GlobalConfig)),
      (DMA_IP_CH_SET_EN_BUFFERED_WRITES, of_bool (EnBufferedWrites GlobalConfig)),
      (DMA_IP_CH_SET_EN_ERROR_INTERRUPT, of_bool (EnErrorInt GlobalConfig)),
      (DMA_IP_CH_SET_EN_ERROR_INTERRUPT, of_bool (EnErrorInt GlobalConfig)),
      (DMA_IP_CH_SET_EN_ERROR_INTERRUPT, of_bool (EnErrorInt GlobalConfig)),
      (DMA_IP_CH_SET_EN_ERROR_INTERRUPT, of_bool (EnErrorInt GlobalConfig)),
      (DMA_IP_CH_SET_GROUP_PRIORITY, ucast (prio_Group GlobalConfig)),
      (DMA_IP_CH_SET_LEVEL_PRIORITY, ucast (prio_Level GlobalConfig)),
      (DMA_IP_CH_SET_EN_PREEMPTION_PRIORITY, of_bool (EnPreemption GlobalConfig)),
      (DMA_IP_CH_SET_DIS_PREEMPT_PRIORITY, of_bool (DisPreempt GlobalConfig)),
      (DMA_IP_CH_SET_EN_HARDWARE_REQ, of_bool (EnRequest GlobalConfig))]"

definition Static_Dma_Ip_SetLogicChannelGlobalConfig ::
    "'m host \<Rightarrow> dma_init \<Rightarrow> nat \<Rightarrow> global_config \<Rightarrow> 'm hw \<Rightarrow> (dma_status \<times> 'm hw) res" where
  "Static_Dma_Ip_SetLogicChannelGlobalConfig H ini LogicCh GlobalConfig x =
     (let cid = channel_id ini LogicCh in
      res_bind
        (if unat (HwVersId cid) = DMA_IP_HARDWARE_VERSION_3
         then Static_Dma_Ip_SetLogicChannelGlobalList H (unat (HwVersId cid)) (unat (HwInstId cid))
           (unat (HwChId cid)) (global_list GlobalConfig) x
         else Inr x)
        (\<lambda>x. Inr (DMA_IP_STATUS_SUCCESS, x)))"

definition transfer_list :: "transfer_config \<Rightarrow> (transfer_param \<times> u32) list" where
  "transfer_list TransferConfig =
     [(DMA_IP_CH_SET_SOURCE_ADDRESS, src_Addr TransferConfig),
      (DMA_IP_CH_SET_SOURCE_SIGNED_OFFSET, scast (src_SignedOffset TransferConfig)),
      (DMA_IP_CH_SET_SOURCE_SIGNED_LAST_ADDR_ADJ, src_LastAddrAdj TransferConfig),
      (DMA_IP_CH_SET_SOURCE_TRANSFER_SIZE, ucast (src_TransferSize TransferConfig)),
      (DMA_IP_CH_SET_SOURCE_MODULO, ucast (src_Modulo TransferConfig)),
      (DMA_IP_CH_SET_DESTINATION_ADDRESS, dst_Addr TransferConfig),
      (DMA_IP_CH_SET_DESTINATION_SIGNED_OFFSET, scast (dst_SignedOffset TransferConfig)),
      (DMA_IP_CH_SET_DESTINATION_SIGNED_LAST_ADDR_ADJ, dst_LastAddrAdj TransferConfig),
      (DMA_IP_CH_SET_DESTINATION_TRANSFER_SIZE, ucast (dst_TransferSize TransferConfig)),
      (DMA_IP_CH_SET_DESTINATION_MODULO, ucast (dst_Modulo TransferConfig)),
      (DMA_IP_CH_SET_MINORLOOP_EN_SRC_OFFSET, of_bool (EnSrcOffset TransferConfig)),
      (DMA_IP_CH_SET_MINORLOOP_EN_DST_OFFSET, of_bool (EnDstOffset TransferConfig)),
      (DMA_IP_CH_SET_MINORLOOP_SIGNED_OFFSET, minor_Offset TransferConfig),
      (DMA_IP_CH_SET_MINORLOOP_EN_LINK, of_bool (minor_EnLink TransferConfig)),
      (DMA_IP_CH_SET_MINORLOOP_LOGIC_LINK_CH, ucast (minor_LogicLinkCh TransferConfig)),
      (DMA_IP_CH_SET_MINORLOOP_SIZE, minor_Size TransferConfig),
      (DMA_IP_CH_SET_MAJORLOOP_EN_LINK, of_bool (major_EnLink TransferConfig)),
      (DMA_IP_CH_SET_MAJORLOOP_LOGIC_LINK_CH, ucast (major_LogicLinkCh TransferConfig)),
      (DMA_IP_CH_SET_MAJORLOOP_COUNT, major_Count TransferConfig),
      (DMA_IP_CH_SET_CONTROL_EN_MAJOR_INTERRUPT, of_bool (EnMajorInt TransferConfig)),
      (DMA_IP_CH_SET_CONTROL_EN_HALF_MAJOR_INTERRUPT, of_bool (EnHalfMajorInt TransferConfig)),
      (DMA_IP_CH_SET_CONTROL_DIS_AUTO_REQUEST, of_bool (DisAutoHwRequest TransferConfig)),
      (DMA_IP_CH_SET_CONTROL_EN_END_OF_PACKET_SIGNAL, of_bool (EnEndOfPacketSignal TransferConfig)),
      (DMA_IP_CH_SET_CONTROL_BANDWIDTH, ucast (BandwidthControl TransferConfig)),
      (DMA_IP_CH_SET_CONTROL_SOFTWARE_REQUEST, of_bool (EnStart TransferConfig))]"

definition Static_Dma_Ip_SetLogicChannelTransferConfig ::
    "'m host \<Rightarrow> dma_init \<Rightarrow> nat \<Rightarrow> transfer_config \<Rightarrow> 'm hw \<Rightarrow> (dma_status \<times> 'm hw) res" where
  "Static_Dma_Ip_SetLogicChannelTransferConfig H ini LogicCh TransferConfig x =
     (let cid = channel_id ini LogicCh;
          LocHwVers = unat (HwVersId cid); LocHwInst = unat (HwInstId cid); LocHwCh = unat (HwChId cid)
      in res_bind (HwAccDmaCh_SetCommand H DMA_IP_CH_CLEAR_DONE LocHwVers LocHwInst LocHwCh x)
        (\<lambda>x. res_bind
          (if LocHwVers = DMA_IP_HARDWARE_VERSION_3
           then Static_Dma_Ip_SetLogicChannelTransferList H ini LogicCh
             (DMA_IP_HWV3_TCD LocHwInst LocHwCh) (transfer_list TransferConfig) x
           else Inr x)
          (\<lambda>x. Inr (DMA_IP_STATUS_SUCCESS, x))))"

subsection \<open>Instances\<close>

definition Dma_Ip_SetLogicInstanceCommand ::
    "'m host \<Rightarrow> nat \<Rightarrow> instance_cmd \<Rightarrow> driver \<times> 'm hw \<Rightarrow> (dma_status \<times> driver \<times> 'm hw) res" where
  "Dma_Ip_SetLogicInstanceCommand H LogicInst Command = (\<lambda>(d, x).
     res_bind (deref (Dma_Ip_pxInit d)) (\<lambda>ini.
       let PaxLogicInst = ppxLogicInstConfigArray ini ! LogicInst in
       res_bind (HwAccDmaInst_SetCommand H Command (unat (inst_HwVersId PaxLogicInst))
           (unat (inst_HwInstId PaxLogicInst)) x)
         (\<lambda>x. Inr (DMA_IP_STATUS_SUCCESS, d, x))))"

definition Dma_Ip_GetLogicInstanceStatus ::
    "nat \<Rightarrow> driver \<times> 'm hw \<Rightarrow> instance_status \<Rightarrow> (dma_status \<times> instance_status) res" where
  "Dma_Ip_GetLogicInstanceStatus LogicInst = (\<lambda>(d, x) old.
     res_bind (deref (Dma_Ip_pxInit d)) (\<lambda>ini.
       let PaxLogicInst = ppxLogicInstConfigArray ini ! LogicInst in
       Inr (DMA_IP_STATUS_SUCCESS, HwAccDmaInst_GetStatus (unat (inst_HwVersId PaxLogicInst))
         (unat (inst_HwInstId PaxLogicInst)) x old)))"

subsection \<open>Channels\<close>

text \<open>The errors of a channel accumulate until the clear-error command.\<close>

definition Static_Dma_Ip_GetLogicChannelError :: "nat \<Rightarrow> nat \<Rightarrow> nat \<Rightarrow> 'm hw \<Rightarrow> u32 \<Rightarrow> u32" where
  "Static_Dma_Ip_GetLogicChannelError LocHwVers LocHwInst LocHwCh x LocLogicChErrors =
     LocLogicChErrors OR HwAccDmaCh_GetStatus_Error LocHwVers LocHwInst LocHwCh x 0"

definition latch_errors :: "nat \<Rightarrow> nat \<Rightarrow> nat \<Rightarrow> nat \<Rightarrow> 'm hw \<Rightarrow> driver \<Rightarrow> driver" where
  "latch_errors LocHwVers LocHwInst LocHwCh p x d =
     put_state p ((ch_states d p)\<lparr>LogicChErrors :=
       Static_Dma_Ip_GetLogicChannelError LocHwVers LocHwInst LocHwCh x (LogicChErrors (ch_states d p))\<rparr>) d"

text \<open>The first half of a channel's initialisation: its descriptor, and the state it is left in.\<close>

definition load_transfer ::
    "'m host \<Rightarrow> dma_init \<Rightarrow> nat \<Rightarrow> driver \<times> 'm hw \<Rightarrow> (dma_status \<times> driver \<times> 'm hw) res" where
  "load_transfer H ini LogicCh = (\<lambda>(d, x).
     let cid = channel_id ini LogicCh;
         LocHwVers = unat (HwVersId cid); LocHwInst = unat (HwInstId cid); LocHwCh = unat (HwChId cid);
         PxTcd = DMA_IP_HWV3_TCD LocHwInst LocHwCh
     in case pxTransferConfig (ppxLogicChannelConfigArray ini ! LogicCh) of
       Some cfg \<Rightarrow>
         res_bind (HwAccDmaCh_SetControl_EnScatterGatherProcessing H LocHwVers PxTcd False x) (\<lambda>x.
         res_bind (HwAccDmaCh_SetControl_ScatterGatherAddress H LocHwVers PxTcd 0 x) (\<lambda>x.
         res_bind (Dma_Ip_SetHwChannelState LocHwVers LocHwInst LocHwCh DMA_IP_CH_TRANSFER_EVENT d) (\<lambda>d.
         res_bind (Static_Dma_Ip_SetLogicChannelTransferConfig H ini (unat (LogicChId cid)) cfg x) (\<lambda>(st, x).
         Inr (st, d, x)))))
     | None \<Rightarrow>
         res_bind (deref (pxTransferConfig (pxLogicChannelResetConfig ini))) (\<lambda>cfg.
         res_bind (Static_Dma_Ip_SetLogicChannelTransferConfig H ini (unat (LogicChId cid)) cfg x) (\<lambda>(st, x).
         Inr (st, d, x))))"

definition load_global ::
    "'m host \<Rightarrow> dma_init \<Rightarrow> nat \<Rightarrow> 'm hw \<Rightarrow> (dma_status \<times> 'm hw) res" where
  "load_global H ini LogicCh x =
     (let cid = channel_id ini LogicCh in
      case pxGlobalConfig (ppxLogicChannelConfigArray ini ! LogicCh) of
        Some cfg \<Rightarrow> Static_Dma_Ip_SetLogicChannelGlobalConfig H ini (unat (LogicChId cid)) cfg x
      | None \<Rightarrow>
          res_bind (deref (pxGlobalConfig (pxLogicChannelResetConfig ini))) (\<lambda>cfg.
            Static_Dma_Ip_SetLogicChannelGlobalConfig H ini (unat (LogicChId cid)) cfg x))"

definition Dma_Ip_LogicChannelInit ::
    "'m host \<Rightarrow> nat \<Rightarrow> driver \<times> 'm hw \<Rightarrow> (dma_status \<times> driver \<times> 'm hw) res" where
  "Dma_Ip_LogicChannelInit H LogicCh = (\<lambda>(d, x).
     res_bind (deref (Dma_Ip_pxInit d)) (\<lambda>ini.
       let cid = channel_id ini LogicCh;
           LocHwVers = unat (HwVersId cid); LocHwInst = unat (HwInstId cid); LocHwCh = unat (HwChId cid)
       in res_bind
         (case Dma_Ip_GetHwChannelStatePointer LocHwVers LocHwInst LocHwCh d of
            None \<Rightarrow> Inr (DMA_IP_STATUS_SUCCESS, d, x)
          | Some p \<Rightarrow>
              if StateValue (ch_states d p) \<noteq> DMA_IP_CH_RESET_STATE
              then Inr (DMA_IP_STATUS_WRONG_STATE, d, x)
              else let d = put_state p ((ch_states d p)\<lparr>hs_LogicChId := Some cid\<rparr>) d in
                res_bind (Dma_Ip_SetHwChannelState LocHwVers LocHwInst LocHwCh DMA_IP_CH_READY_EVENT d) (\<lambda>d.
                res_bind (load_transfer H ini LogicCh (d, x)) (\<lambda>(st, d, x).
                if st = DMA_IP_STATUS_SUCCESS
                then res_bind (load_global H ini LogicCh x) (\<lambda>(st, x). Inr (st, d, x))
                else Inr (st, d, x))))
         (\<lambda>(st, d, x).
           if st \<noteq> DMA_IP_STATUS_SUCCESS
           then res_bind (Dma_Ip_SetHwChannelState LocHwVers LocHwInst LocHwCh DMA_IP_CH_ERROR_EVENT d)
             (\<lambda>d. Inr (st, d, x))
           else Inr (st, d, x))))"

definition Static_Dma_Ip_ResetConfig :: "'m host \<Rightarrow> dma_init \<Rightarrow> nat \<Rightarrow> 'm action" where
  "Static_Dma_Ip_ResetConfig H ini LogicCh x =
     res_bind (deref (pxGlobalConfig (pxLogicChannelResetConfig ini))) (\<lambda>g.
     res_bind (Static_Dma_Ip_SetLogicChannelGlobalConfig H ini LogicCh g x) (\<lambda>(_, x).
     res_bind (deref (pxTransferConfig (pxLogicChannelResetConfig ini))) (\<lambda>t.
     res_bind (Static_Dma_Ip_SetLogicChannelTransferConfig H ini LogicCh t x) (\<lambda>(_, x). Inr x))))"

definition Dma_Ip_LogicChannelDeinit ::
    "'m host \<Rightarrow> nat \<Rightarrow> driver \<times> 'm hw \<Rightarrow> (dma_status \<times> driver \<times> 'm hw) res" where
  "Dma_Ip_LogicChannelDeinit H LogicCh = (\<lambda>(d, x).
     res_bind (deref (Dma_Ip_pxInit d)) (\<lambda>ini.
       let cid = channel_id ini LogicCh;
           LocHwVers = unat (HwVersId cid); LocHwInst = unat (HwInstId cid); LocHwCh = unat (HwChId cid)
       in res_bind (Dma_Ip_SetHwChannelState LocHwVers LocHwInst LocHwCh DMA_IP_CH_RESET_EVENT d) (\<lambda>d.
          res_bind (Static_Dma_Ip_ResetConfig H ini LogicCh x) (\<lambda>x.
          let d = (case Dma_Ip_GetHwChannelStatePointer LocHwVers LocHwInst LocHwCh d of
                None \<Rightarrow> d | Some p \<Rightarrow> put_state p ((ch_states d p)\<lparr>LogicChErrors := 0\<rparr>) d) in
          res_bind (HwAccDmaCh_SetCommand H DMA_IP_CH_CLEAR_ERROR LocHwVers LocHwInst LocHwCh x) (\<lambda>x.
          Inr (DMA_IP_STATUS_SUCCESS, d, x))))))"

definition Dma_Ip_SetLogicChannelCommand ::
    "'m host \<Rightarrow> nat \<Rightarrow> channel_cmd \<Rightarrow> driver \<times> 'm hw \<Rightarrow> (dma_status \<times> driver \<times> 'm hw) res" where
  "Dma_Ip_SetLogicChannelCommand H LogicCh Command = (\<lambda>(d, x).
     res_bind (deref (Dma_Ip_pxInit d)) (\<lambda>ini.
       let cid = channel_id ini LogicCh;
           LocHwVers = unat (HwVersId cid); LocHwInst = unat (HwInstId cid); LocHwCh = unat (HwChId cid)
       in case Dma_Ip_GetHwChannelStatePointer LocHwVers LocHwInst LocHwCh d of
         None \<Rightarrow> Inr (DMA_IP_STATUS_SUCCESS, d, x)
       | Some p \<Rightarrow>
           if Command = DMA_IP_CH_CLEAR_ERROR
           then let d = put_state p ((ch_states d p)\<lparr>LogicChErrors := 0\<rparr>) d in
             res_bind (Dma_Ip_SetHwChannelState LocHwVers LocHwInst LocHwCh DMA_IP_CH_READY_EVENT d) (\<lambda>d.
             res_bind (HwAccDmaCh_SetCommand H Command LocHwVers LocHwInst LocHwCh x) (\<lambda>x.
             Inr (DMA_IP_STATUS_SUCCESS, d, x)))
           else let d = latch_errors LocHwVers LocHwInst LocHwCh p x d in
             if LogicChErrors (ch_states d p) \<noteq> 0
             then res_bind (Dma_Ip_SetHwChannelState LocHwVers LocHwInst LocHwCh DMA_IP_CH_ERROR_EVENT d)
               (\<lambda>d. Inr (DMA_IP_STATUS_ERROR, d, x))
             else if StateValue (ch_states d p) = DMA_IP_CH_TRANSFER_STATE \<or>
                     StateValue (ch_states d p) = DMA_IP_CH_SCATTERGATHER_STATE
             then res_bind (HwAccDmaCh_SetCommand H Command LocHwVers LocHwInst LocHwCh x)
               (\<lambda>x. Inr (DMA_IP_STATUS_SUCCESS, d, x))
             else Inr (DMA_IP_STATUS_WRONG_STATE, d, x)))"

record channel_status =
  ChStateValue :: ch_state_value
  cs_Errors :: u32
  cs_Active :: bool
  cs_Done :: bool

definition Dma_Ip_GetLogicChannelStatus ::
    "nat \<Rightarrow> channel_status \<Rightarrow> driver \<times> 'm hw \<Rightarrow> (dma_status \<times> channel_status \<times> driver) res" where
  "Dma_Ip_GetLogicChannelStatus LogicCh ChStatus = (\<lambda>(d, x).
     res_bind (deref (Dma_Ip_pxInit d)) (\<lambda>ini.
       let cid = channel_id ini LogicCh;
           LocHwVers = unat (HwVersId cid); LocHwInst = unat (HwInstId cid); LocHwCh = unat (HwChId cid)
       in case Dma_Ip_GetHwChannelStatePointer LocHwVers LocHwInst LocHwCh d of
         None \<Rightarrow> Inr (DMA_IP_STATUS_SUCCESS, ChStatus, d)
       | Some p \<Rightarrow>
           let d = latch_errors LocHwVers LocHwInst LocHwCh p x d;
               (act, done) = HwAccDmaCh_GetStatus LocHwVers LocHwInst LocHwCh x
                 (cs_Active ChStatus, cs_Done ChStatus)
           in res_bind (Dma_Ip_GetHwChannelState LocHwVers LocHwInst LocHwCh d) (\<lambda>v.
             Inr (DMA_IP_STATUS_SUCCESS, \<lparr>ChStateValue = v, cs_Errors = LogicChErrors (ch_states d p),
               cs_Active = act, cs_Done = done\<rparr>, d))))"

definition Dma_Ip_SetLogicChannelGlobalList ::
    "'m host \<Rightarrow> nat \<Rightarrow> (global_param \<times> u32) list \<Rightarrow> driver \<times> 'm hw \<Rightarrow>
     (dma_status \<times> driver \<times> 'm hw) res" where
  "Dma_Ip_SetLogicChannelGlobalList H LogicCh params = (\<lambda>(d, x).
     res_bind (deref (Dma_Ip_pxInit d)) (\<lambda>ini.
       let cid = channel_id ini LogicCh;
           LocHwVers = unat (HwVersId cid); LocHwInst = unat (HwInstId cid); LocHwCh = unat (HwChId cid)
       in case Dma_Ip_GetHwChannelStatePointer LocHwVers LocHwInst LocHwCh d of
         None \<Rightarrow> Inr (DMA_IP_STATUS_SUCCESS, d, x)
       | Some p \<Rightarrow>
           let d = latch_errors LocHwVers LocHwInst LocHwCh p x d in
           if LogicChErrors (ch_states d p) \<noteq> 0
           then res_bind (Dma_Ip_SetHwChannelState LocHwVers LocHwInst LocHwCh DMA_IP_CH_ERROR_EVENT d)
             (\<lambda>d. Inr (DMA_IP_STATUS_ERROR, d, x))
           else if StateValue (ch_states d p) = DMA_IP_CH_TRANSFER_STATE \<or>
                   StateValue (ch_states d p) = DMA_IP_CH_SCATTERGATHER_STATE \<or>
                   StateValue (ch_states d p) = DMA_IP_CH_READY_STATE
           then res_bind (Static_Dma_Ip_SetLogicChannelGlobalList H LocHwVers LocHwInst LocHwCh params x)
             (\<lambda>x. Inr (DMA_IP_STATUS_SUCCESS, d, x))
           else Inr (DMA_IP_STATUS_WRONG_STATE, d, x)))"

definition Dma_Ip_SetLogicChannelTransferList ::
    "'m host \<Rightarrow> nat \<Rightarrow> (transfer_param \<times> u32) list \<Rightarrow> driver \<times> 'm hw \<Rightarrow>
     (dma_status \<times> driver \<times> 'm hw) res" where
  "Dma_Ip_SetLogicChannelTransferList H LogicCh params = (\<lambda>(d, x).
     res_bind (deref (Dma_Ip_pxInit d)) (\<lambda>ini.
       let cid = channel_id ini LogicCh;
           LocHwVers = unat (HwVersId cid); LocHwInst = unat (HwInstId cid); LocHwCh = unat (HwChId cid);
           PxTcd = DMA_IP_HWV3_TCD LocHwInst LocHwCh
       in case Dma_Ip_GetHwChannelStatePointer LocHwVers LocHwInst LocHwCh d of
         None \<Rightarrow> Inr (DMA_IP_STATUS_SUCCESS, d, x)
       | Some p \<Rightarrow>
           let d = latch_errors LocHwVers LocHwInst LocHwCh p x d in
           if LogicChErrors (ch_states d p) \<noteq> 0
           then res_bind (Dma_Ip_SetHwChannelState LocHwVers LocHwInst LocHwCh DMA_IP_CH_ERROR_EVENT d)
             (\<lambda>d. Inr (DMA_IP_STATUS_ERROR, d, x))
           else
             res_bind (HwAccDmaCh_SetCommand H DMA_IP_CH_CLEAR_DONE LocHwVers LocHwInst LocHwCh x) (\<lambda>x.
             if StateValue (ch_states d p) = DMA_IP_CH_TRANSFER_STATE
             then res_bind (Static_Dma_Ip_SetLogicChannelTransferList H ini LogicCh PxTcd params x)
               (\<lambda>x. Inr (DMA_IP_STATUS_SUCCESS, d, x))
             else
               res_bind (HwAccDmaCh_SetControl_EnScatterGatherProcessing H LocHwVers PxTcd False x) (\<lambda>x.
               res_bind (HwAccDmaCh_SetControl_ScatterGatherAddress H LocHwVers PxTcd 0 x) (\<lambda>x.
               if StateValue (ch_states d p) = DMA_IP_CH_SCATTERGATHER_STATE \<or>
                  StateValue (ch_states d p) = DMA_IP_CH_READY_STATE
               then
                 res_bind (Dma_Ip_SetHwChannelState LocHwVers LocHwInst LocHwCh DMA_IP_CH_TRANSFER_EVENT d) (\<lambda>d.
                 res_bind (Static_Dma_Ip_SetLogicChannelTransferList H ini LogicCh PxTcd params x) (\<lambda>x.
                 Inr (DMA_IP_STATUS_SUCCESS, d, x)))
               else Inr (DMA_IP_STATUS_WRONG_STATE, d, x))))))"

definition Dma_Ip_GetLogicChannelParam ::
    "nat \<Rightarrow> info_param \<Rightarrow> driver \<times> 'm hw \<Rightarrow> u32 \<Rightarrow> (dma_status \<times> u32) res" where
  "Dma_Ip_GetLogicChannelParam LogicCh Param = (\<lambda>(d, x) old.
     res_bind (deref (Dma_Ip_pxInit d)) (\<lambda>ini.
       let cid = channel_id ini LogicCh in
       Inr (DMA_IP_STATUS_SUCCESS,
         HwAccDmaCh_GetParam Param (unat (HwVersId cid)) (unat (HwInstId cid)) (unat (HwChId cid)) x old)))"

subsection \<open>Initialisation of the driver\<close>

text \<open>The sizes \<open>DMA_IP_NOF_CFG_LOGIC_INSTANCES\<close> and \<open>DMA_IP_NOF_CFG_LOGIC_CHANNELS\<close> of the build.\<close>

definition DMA_IP_NOF_CFG_LOGIC_INSTANCES :: nat where "DMA_IP_NOF_CFG_LOGIC_INSTANCES = 1"

definition DMA_IP_NOF_CFG_LOGIC_CHANNELS :: nat where "DMA_IP_NOF_CFG_LOGIC_CHANNELS = 1"

definition init_instance :: "'m host \<Rightarrow> dma_init \<Rightarrow> nat \<Rightarrow> 'm action" where
  "init_instance H ini LocCfgIdx =
     (let cfg = ppxLogicInstConfigArray ini ! LocCfgIdx
      in HwAccDmaInst_SetConfig H (unat (inst_HwVersId cfg)) (unat (inst_HwInstId cfg)) cfg)"

definition deinit_instance :: "'m host \<Rightarrow> dma_init \<Rightarrow> nat \<Rightarrow> 'm action" where
  "deinit_instance H ini LocCfgIdx =
     (let cfg = ppxLogicInstConfigArray ini ! LocCfgIdx
      in HwAccDmaInst_SetConfig H (unat (inst_HwVersId cfg)) (unat (inst_HwInstId cfg))
        (pxLogicInstanceResetConfig ini))"

text \<open>The body of the channel loop; the status of the loop is that of its last iteration.\<close>

definition init_channel ::
    "'m host \<Rightarrow> dma_init \<Rightarrow> nat \<Rightarrow> dma_status \<times> driver \<times> 'm hw \<Rightarrow> (dma_status \<times> driver \<times> 'm hw) res" where
  "init_channel H ini LocCfgIdx = (\<lambda>(LocStatus, d, x).
     let cid = channel_id ini LocCfgIdx;
         LocHwVers = unat (HwVersId cid); LocHwInst = unat (HwInstId cid); LocHwCh = unat (HwChId cid);
         d = Dma_Ip_SetHwChannelStatePointer LocHwVers LocHwInst LocHwCh
           (Some (ppxChStateArray ini ! LocCfgIdx)) d
     in case Dma_Ip_GetHwChannelStatePointer LocHwVers LocHwInst LocHwCh d of
       None \<Rightarrow> Inr (LocStatus, d, x)
     | Some p \<Rightarrow>
         if StateValue (ch_states d p) \<noteq> DMA_IP_CH_RESET_STATE
         then Inr (DMA_IP_STATUS_WRONG_STATE, d, x)
         else Dma_Ip_LogicChannelInit H LocCfgIdx (d, x))"

fun init_channels ::
    "'m host \<Rightarrow> dma_init \<Rightarrow> nat list \<Rightarrow> dma_status \<times> driver \<times> 'm hw \<Rightarrow>
     (dma_status \<times> driver \<times> 'm hw) res" where
  "init_channels H ini [] y = Inr y"
| "init_channels H ini (i # is) y = res_bind (init_channel H ini i y) (init_channels H ini is)"

definition Dma_Ip_Init ::
    "'m host \<Rightarrow> dma_init \<Rightarrow> driver \<times> 'm hw \<Rightarrow> (dma_status \<times> driver \<times> 'm hw) res" where
  "Dma_Ip_Init H DmaInit = (\<lambda>(d, x).
     let d = d\<lparr>Dma_Ip_pxInit := Some DmaInit\<rparr> in
     res_bind (each (init_instance H DmaInit) [0..<DMA_IP_NOF_CFG_LOGIC_INSTANCES] x) (\<lambda>x.
     init_channels H DmaInit [0..<DMA_IP_NOF_CFG_LOGIC_CHANNELS] (DMA_IP_STATUS_SUCCESS, d, x)))"

fun deinit_channels ::
    "'m host \<Rightarrow> nat list \<Rightarrow> driver \<times> 'm hw \<Rightarrow> (driver \<times> 'm hw) res" where
  "deinit_channels H [] y = Inr y"
| "deinit_channels H (i # is) y =
     res_bind (Dma_Ip_LogicChannelDeinit H i y) (\<lambda>(_, y). deinit_channels H is y)"

definition Dma_Ip_Deinit ::
    "'m host \<Rightarrow> driver \<times> 'm hw \<Rightarrow> (dma_status \<times> driver \<times> 'm hw) res" where
  "Dma_Ip_Deinit H = (\<lambda>(d, x).
     res_bind (deref (Dma_Ip_pxInit d)) (\<lambda>ini.
     res_bind (each (deinit_instance H ini) [0..<DMA_IP_NOF_CFG_LOGIC_INSTANCES] x) (\<lambda>x.
     res_bind (deinit_channels H [0..<DMA_IP_NOF_CFG_LOGIC_CHANNELS] (d, x)) (\<lambda>(d, x).
     Inr (DMA_IP_STATUS_SUCCESS, d, x)))))"

subsection \<open>Interrupts\<close>

definition Dma_Ip_IntIrqHandler :: "nat \<Rightarrow> nat \<Rightarrow> nat \<Rightarrow> driver \<Rightarrow> dma_callback list res" where
  "Dma_Ip_IntIrqHandler LocHwVers LocHwInst LocHwCh d =
     (case Dma_Ip_GetHwChannelStatePointer LocHwVers LocHwInst LocHwCh d of
        None \<Rightarrow> Inr []
      | Some p \<Rightarrow> res_bind (deref (hs_LogicChId (ch_states d p))) (\<lambda>cid.
          Inr (case IntCallback cid of None \<Rightarrow> [] | Some f \<Rightarrow> [f])))"

definition Dma_Ip_ErrorIrqHandler ::
    "nat \<Rightarrow> nat \<Rightarrow> nat \<Rightarrow> driver \<times> 'm hw \<Rightarrow> (dma_callback list \<times> driver) res" where
  "Dma_Ip_ErrorIrqHandler LocHwVers LocHwInst LocHwCh = (\<lambda>(d, x).
     case Dma_Ip_GetHwChannelStatePointer LocHwVers LocHwInst LocHwCh d of
       None \<Rightarrow> Inr ([], d)
     | Some p \<Rightarrow>
         let d = latch_errors LocHwVers LocHwInst LocHwCh p x d in
         res_bind
           (if LogicChErrors (ch_states d p) \<noteq> 0
            then Dma_Ip_SetHwChannelState LocHwVers LocHwInst LocHwCh DMA_IP_CH_ERROR_EVENT d else Inr d)
           (\<lambda>d. res_bind (deref (hs_LogicChId (ch_states d p))) (\<lambda>cid.
             Inr (case ErrIntCallback cid of None \<Rightarrow> [] | Some f \<Rightarrow> [f], d))))"

text \<open>The interrupt handler of a channel, with the callbacks it runs in their order.\<close>

definition IrqHandler ::
    "'m host \<Rightarrow> nat \<Rightarrow> nat \<Rightarrow> nat \<Rightarrow> driver \<times> 'm hw \<Rightarrow> (dma_callback list \<times> driver \<times> 'm hw) res" where
  "IrqHandler H LocHwVers LocHwInst LocHwCh = (\<lambda>(d, x).
     let p = DMA_IP_HWV3_TCD LocHwInst LocHwCh;
         ChIntStatus = reg_read32 p CH_INT x AND 0x1;
         ChErrStatus = reg_read32 p CH_ES x AND 0x80000000;
         ChIntEnable = ucast (reg_read16 p TCD_CSR x) AND (0x2 OR 0x4 :: u32);
         ChErrEnable = reg_read32 p CH_CSR x AND 0x4
     in res_bind
       (if ChErrStatus \<noteq> 0 \<and> ChErrEnable \<noteq> 0
        then res_bind (Dma_Ip_ErrorIrqHandler LocHwVers LocHwInst LocHwCh (d, x)) (\<lambda>(cbs, d).
          res_bind (reg_write32 H p CH_ES 0x80000000 x) (\<lambda>x. Inr (cbs, d, x)))
        else Inr ([], d, x))
       (\<lambda>(cbs, d, x).
         if ChIntStatus \<noteq> 0 \<and> ChIntEnable \<noteq> 0
         then res_bind (reg_write32 H p CH_INT 0x1 x) (\<lambda>x.
           res_bind (Dma_Ip_IntIrqHandler LocHwVers LocHwInst LocHwCh d) (\<lambda>cbs'. Inr (cbs @ cbs', d, x)))
         else Inr (cbs, d, x)))"

definition Dma0_Ch0_IRQHandler ::
    "'m host \<Rightarrow> driver \<times> 'm hw \<Rightarrow> (dma_callback list \<times> driver \<times> 'm hw) res" where
  "Dma0_Ch0_IRQHandler H = IrqHandler H 3 0 0"

end
