(* ===== verification/Dma_Cfg.thy ===== *)
theory Dma_Cfg
  imports Dma_Ip
begin

section \<open>The generated DMA configuration\<close>

text \<open>
  The configuration of the firmware's DMA driver, from \<^verbatim>\<open>generate/src/Dma_Ip_PBcfg.c\<close> and
  \<^verbatim>\<open>generate/src/Dma_Ip_Cfg.c\<close>: one instance with round-robin arbitration, and one channel that
  moves 128 bytes in words of four bytes and raises an interrupt at the end.
\<close>

definition Dma_Ip_xLogicInstanceResetConfig :: logic_instance_config where
  "Dma_Ip_xLogicInstanceResetConfig =
     \<lparr>inst_LogicInstId = 0, inst_HwVersId = 3, inst_HwInstId = 0, EnDebug = False, EnRoundRobin = False,
      EnHaltAfterError = False, EnChLinking = False, EnGlMasterIdReplication = False\<rparr>"

definition GlobalResetConfig :: global_config where
  "GlobalResetConfig =
     \<lparr>EnMasterIdReplication = False, EnBufferedWrites = False, EnRequest = False, EnErrorInt = False,
      SwapSize = 0, prio_Group = 0, prio_Level = 0, EnPreemption = False, DisPreempt = False\<rparr>"

definition TransferResetConfig :: transfer_config where
  "TransferResetConfig =
     \<lparr>ScatterGatherAddr = 0, DestinationStoreAddr = 0, BandwidthControl = 0, TransferModeControl = 0,
      EnStart = False, EnMajorInt = False, EnHalfMajorInt = False, DisAutoHwRequest = False,
      EnEndOfPacketSignal = False,
      src_Addr = 0, src_LastAddrAdj = 0, src_SignedOffset = 0, src_TransferSize = 0, src_Modulo = 0,
      dst_Addr = 0, dst_LastAddrAdj = 0, dst_SignedOffset = 0, dst_TransferSize = 0, dst_Modulo = 0,
      minor_Size = 0, minor_Offset = 0, minor_LogicLinkCh = 0, minor_EnLink = False,
      EnSrcOffset = False, EnDstOffset = False,
      major_Count = 0, major_LogicLinkCh = 0, major_EnLink = False\<rparr>"

definition Dma_Ip_xLogicChannelResetConfig :: logic_channel_config where
  "Dma_Ip_xLogicChannelResetConfig =
     \<lparr>ch_LogicChId = \<lparr>LogicChId = 0, HwVersId = 3, HwInstId = 0, HwChId = 0,
        IntCallback = None, ErrIntCallback = None\<rparr>,
      pxGlobalConfig = Some GlobalResetConfig, pxTransferConfig = Some TransferResetConfig\<rparr>"

definition LogicInstance0ConfigPB :: logic_instance_config where
  "LogicInstance0ConfigPB =
     \<lparr>inst_LogicInstId = 0, inst_HwVersId = 3, inst_HwInstId = 0, EnDebug = False, EnRoundRobin = True,
      EnHaltAfterError = False, EnChLinking = False, EnGlMasterIdReplication = False\<rparr>"

definition LogicChannel0GlobalConfigPB :: global_config where
  "LogicChannel0GlobalConfigPB =
     \<lparr>EnMasterIdReplication = False, EnBufferedWrites = False, EnRequest = False, EnErrorInt = False,
      SwapSize = 0, prio_Group = 0, prio_Level = 0, EnPreemption = False, DisPreempt = False\<rparr>"

definition LogicChannel0TransferConfigPB :: transfer_config where
  "LogicChannel0TransferConfigPB =
     \<lparr>ScatterGatherAddr = 0, DestinationStoreAddr = 0, BandwidthControl = 0, TransferModeControl = 0,
      EnStart = False, EnMajorInt = True, EnHalfMajorInt = False, DisAutoHwRequest = False,
      EnEndOfPacketSignal = False,
      src_Addr = 0, src_LastAddrAdj = 0, src_SignedOffset = 4, src_TransferSize = 2, src_Modulo = 0,
      dst_Addr = 0, dst_LastAddrAdj = 0, dst_SignedOffset = 4, dst_TransferSize = 2, dst_Modulo = 0,
      minor_Size = 128, minor_Offset = 0, minor_LogicLinkCh = 0, minor_EnLink = False,
      EnSrcOffset = False, EnDstOffset = False,
      major_Count = 1, major_LogicLinkCh = 0, major_EnLink = False\<rparr>"

definition LogicChannel0ConfigPB :: logic_channel_config where
  "LogicChannel0ConfigPB =
     \<lparr>ch_LogicChId = \<lparr>LogicChId = 0, HwVersId = 3, HwInstId = 0, HwChId = 0,
        IntCallback = Some DmaCh0_Callback_ptr, ErrIntCallback = None\<rparr>,
      pxGlobalConfig = Some LogicChannel0GlobalConfigPB,
      pxTransferConfig = Some LogicChannel0TransferConfigPB\<rparr>"

text \<open>The state structure \<open>HwChannel0StatePB\<close> is structure number 0; it starts cleared.\<close>

definition Dma_Ip_xDmaInitPB :: dma_init where
  "Dma_Ip_xDmaInitPB =
     \<lparr>ppxChStateArray = [0], pxLogicChannelResetConfig = Dma_Ip_xLogicChannelResetConfig,
      ppxLogicChannelConfigArray = [LogicChannel0ConfigPB],
      pxLogicInstanceResetConfig = Dma_Ip_xLogicInstanceResetConfig,
      ppxLogicInstConfigArray = [LogicInstance0ConfigPB]\<rparr>"

definition driver_cleared :: driver where
  "driver_cleared = \<lparr>Dma_Ip_pxInit = None, ptHwChV3StateArray = (\<lambda>_ _. None),
     ch_states = (\<lambda>_. \<lparr>hs_LogicChId = None, StateValue = DMA_IP_CH_RESET_STATE, LogicChErrors = 0\<rparr>)\<rparr>"

end
