(* ===== verification/Dma_Ip_Props.thy ===== *)
theory Dma_Ip_Props
  imports Dma_Cfg
begin

section \<open>The DMA driver programs the controller\<close>

text \<open>
  What the driver's parameter lists leave in a descriptor of the emulated controller, which
  configurations the controller accepts, and how the driver's channel state machine, its latched
  errors and its commands behave on top of it.
\<close>

subsection \<open>Descriptors at rest\<close>

text \<open>
  A descriptor on which the driver may work: no start is pending, the features the controller
  asserts against are off, and no major loop is under way.
\<close>

definition settled :: "tcd_state \<Rightarrow> bool" where
  "settled ch \<longleftrightarrow> \<not> bit (tcd_csr ch) 0 \<and> \<not> bit (tcd_csr ch) 5 \<and>
     \<not> bit (tcd_nbytes_mloff ch) 31 \<and> \<not> bit (tcd_nbytes_mloff ch) 30 \<and>
     \<not> bit (tcd_biter ch) 15 \<and> tcd_citer ch = tcd_biter ch"

lemma bit_set_bits16:
  "bit (set_bits16 msk sh v reg) n \<longleftrightarrow>
     n < 16 \<and> (if bit msk n then sh \<le> n \<and> bit v (n - sh) else bit reg n)"
  by (auto simp: set_bits16_def bit_simps dest: bit_imp_le_length)

lemma bit_set_bits32:
  "bit (set_bits32 msk sh v reg) n \<longleftrightarrow>
     n < 32 \<and> (if bit msk n then sh \<le> n \<and> bit v (n - sh) else bit reg n)"
  by (auto simp: set_bits32_def bit_simps dest: bit_imp_le_length)

text \<open>The descriptor a transfer parameter leaves.\<close>

fun param_effect :: "dma_init \<Rightarrow> transfer_param \<times> u32 \<Rightarrow> tcd_state \<Rightarrow> tcd_state" where
  "param_effect ini (DMA_IP_CH_SET_SOURCE_ADDRESS, v) ch = ch\<lparr>tcd_saddr := v\<rparr>"
| "param_effect ini (DMA_IP_CH_SET_SOURCE_SIGNED_OFFSET, v) ch =
     ch\<lparr>tcd_soff := set_bits16 0xFFFF 0 v (tcd_soff ch)\<rparr>"
| "param_effect ini (DMA_IP_CH_SET_SOURCE_SIGNED_LAST_ADDR_ADJ, v) ch =
     ch\<lparr>tcd_csr := set_bits16 0x80 7 0 (tcd_csr ch), tcd_slast_sda := v\<rparr>"
| "param_effect ini (DMA_IP_CH_SET_SOURCE_TRANSFER_SIZE, v) ch =
     ch\<lparr>tcd_attr := set_bits16 0x700 8 v (tcd_attr ch)\<rparr>"
| "param_effect ini (DMA_IP_CH_SET_SOURCE_MODULO, v) ch =
     ch\<lparr>tcd_attr := set_bits16 0xF800 11 v (tcd_attr ch)\<rparr>"
| "param_effect ini (DMA_IP_CH_SET_DESTINATION_ADDRESS, v) ch = ch\<lparr>tcd_daddr := v\<rparr>"
| "param_effect ini (DMA_IP_CH_SET_DESTINATION_SIGNED_OFFSET, v) ch =
     ch\<lparr>tcd_doff := set_bits16 0xFFFF 0 v (tcd_doff ch)\<rparr>"
| "param_effect ini (DMA_IP_CH_SET_DESTINATION_SIGNED_LAST_ADDR_ADJ, v) ch = ch\<lparr>tcd_dlast_sga := v\<rparr>"
| "param_effect ini (DMA_IP_CH_SET_DESTINATION_TRANSFER_SIZE, v) ch =
     ch\<lparr>tcd_attr := set_bits16 0x7 0 v (tcd_attr ch)\<rparr>"
| "param_effect ini (DMA_IP_CH_SET_DESTINATION_MODULO, v) ch =
     ch\<lparr>tcd_attr := set_bits16 0xF8 3 v (tcd_attr ch)\<rparr>"
| "param_effect ini (DMA_IP_CH_SET_MINORLOOP_EN_SRC_OFFSET, v) ch =
     ch\<lparr>tcd_nbytes_mloff := set_bits32 0x80000000 31 v (tcd_nbytes_mloff ch)\<rparr>"
| "param_effect ini (DMA_IP_CH_SET_MINORLOOP_EN_DST_OFFSET, v) ch =
     ch\<lparr>tcd_nbytes_mloff := set_bits32 0x40000000 30 v (tcd_nbytes_mloff ch)\<rparr>"
| "param_effect ini (DMA_IP_CH_SET_MINORLOOP_SIGNED_OFFSET, v) ch =
     ch\<lparr>tcd_nbytes_mloff := set_bits32 0x3FFFFC00 10 v (tcd_nbytes_mloff ch)\<rparr>"
| "param_effect ini (DMA_IP_CH_SET_MINORLOOP_EN_LINK, v) ch =
     ch\<lparr>tcd_biter := set_bits16 0x8000 15 v (tcd_biter ch),
        tcd_citer := set_bits16 0x8000 15 v (tcd_citer ch)\<rparr>"
| "param_effect ini (DMA_IP_CH_SET_MINORLOOP_LOGIC_LINK_CH, v) ch =
     (let w = Dma_Ip_ConvertLogicChToHwCh ini v in
      ch\<lparr>tcd_biter := set_bits16 0x3E00 9 w (tcd_biter ch),
         tcd_citer := set_bits16 0x3E00 9 w (tcd_citer ch)\<rparr>)"
| "param_effect ini (DMA_IP_CH_SET_MINORLOOP_SIZE, v) ch =
     ch\<lparr>tcd_nbytes_mloff := set_bits32 0x3FFFFFFF 0 v (tcd_nbytes_mloff ch)\<rparr>"
| "param_effect ini (DMA_IP_CH_SET_MAJORLOOP_EN_LINK, v) ch =
     ch\<lparr>tcd_csr := set_bits16 0x20 5 v (tcd_csr ch)\<rparr>"
| "param_effect ini (DMA_IP_CH_SET_MAJORLOOP_LOGIC_LINK_CH, v) ch =
     ch\<lparr>tcd_csr := set_bits16 0x1F00 8 (Dma_Ip_ConvertLogicChToHwCh ini v) (tcd_csr ch)\<rparr>"
| "param_effect ini (DMA_IP_CH_SET_MAJORLOOP_COUNT, v) ch =
     ch\<lparr>tcd_biter := set_bits16 0x7FFF 0 v (tcd_biter ch),
        tcd_citer := set_bits16 0x7FFF 0 v (tcd_citer ch)\<rparr>"
| "param_effect ini (DMA_IP_CH_SET_CONTROL_STORE_DST_ADDR, v) ch =
     ch\<lparr>tcd_slast_sda := v, tcd_csr := set_bits16 0x80 7 1 (tcd_csr ch)\<rparr>"
| "param_effect ini (DMA_IP_CH_SET_CONTROL_SOFTWARE_REQUEST, v) ch =
     ch\<lparr>tcd_csr := set_bits16 0x1 0 (if v \<noteq> 0 then 1 else 0) (tcd_csr ch)\<rparr>"
| "param_effect ini (DMA_IP_CH_SET_CONTROL_EN_MAJOR_INTERRUPT, v) ch =
     ch\<lparr>tcd_csr := set_bits16 0x2 1 v (tcd_csr ch)\<rparr>"
| "param_effect ini (DMA_IP_CH_SET_CONTROL_EN_HALF_MAJOR_INTERRUPT, v) ch =
     ch\<lparr>tcd_csr := set_bits16 0x4 2 v (tcd_csr ch)\<rparr>"
| "param_effect ini (DMA_IP_CH_SET_CONTROL_DIS_AUTO_REQUEST, v) ch =
     ch\<lparr>tcd_csr := set_bits16 0x8 3 v (tcd_csr ch)\<rparr>"
| "param_effect ini (DMA_IP_CH_SET_CONTROL_EN_END_OF_PACKET_SIGNAL, v) ch =
     ch\<lparr>tcd_csr := set_bits16 0x40 6 v (tcd_csr ch)\<rparr>"
| "param_effect ini (DMA_IP_CH_SET_CONTROL_BANDWIDTH, v) ch =
     ch\<lparr>tcd_csr := set_bits16 0xC000 14 v (tcd_csr ch)\<rparr>"

text \<open>The parameters that neither start the channel nor turn on a feature the controller rejects.\<close>

fun param_ok :: "transfer_param \<times> u32 \<Rightarrow> bool" where
  "param_ok (p, v) \<longleftrightarrow>
     (p \<in> {DMA_IP_CH_SET_MINORLOOP_EN_SRC_OFFSET, DMA_IP_CH_SET_MINORLOOP_EN_DST_OFFSET,
       DMA_IP_CH_SET_MINORLOOP_EN_LINK, DMA_IP_CH_SET_MAJORLOOP_EN_LINK} \<longrightarrow> \<not> bit v 0) \<and>
     (p = DMA_IP_CH_SET_CONTROL_SOFTWARE_REQUEST \<longrightarrow> v = 0)"

lemma settled_param_effect:
  assumes "settled ch" and "param_ok (p, v)"
  shows "settled (param_effect ini (p, v) ch)"
  using assms by (cases p) (simp_all add: settled_def bit_set_bits16 bit_set_bits32 Let_def)

lemma and_top_bits:
  "\<not> bit (w :: u32) 31 \<Longrightarrow> \<not> bit w 30 \<Longrightarrow> w AND 0xC0000000 = 0"
  "\<not> bit (v :: u16) 15 \<Longrightarrow> v AND 0x8000 = 0"
proof -
  have "w AND (2 ^ 31 OR 2 ^ 30) = 0" if "\<not> bit w 31" "\<not> bit w 30"
  proof -
    have "w AND 2 ^ 31 = 0" "w AND 2 ^ 30 = 0"
      using that by (simp_all only: and_exp_eq_0_iff_not_bit not_False_eq_True)
    then show ?thesis by (simp only: bit.conj_disj_distrib or.right_neutral)
  qed
  then show "\<not> bit w 31 \<Longrightarrow> \<not> bit w 30 \<Longrightarrow> w AND 0xC0000000 = 0" by simp
  have "v AND 2 ^ 15 = 0" if "\<not> bit v 15"
    using that by (simp only: and_exp_eq_0_iff_not_bit not_False_eq_True)
  then show "\<not> bit v 15 \<Longrightarrow> v AND 0x8000 = 0" by simp
qed

lemma SetTransferParam_effect:
  assumes "c < 12" and "c < length (tcd s)" and "settled ch" and "param_ok (p, v)"
  shows "HwAccDmaCh_SetTransferParam ini H p DMA_IP_HARDWARE_VERSION_3 (DMA_IP_HWV3_TCD 0 c) v
      (with_ch s m c ch) = Inr (with_ch s m c (param_effect ini (p, v) ch))"
  using assms
  by (cases p) (simp_all add: HwAccDmaCh_SetTransferParam_def wrapper_defs accessor_defs rmw16_def rmw32_def
      in_turn_def Let_def read_with_ch write16_with_ch write32_with_ch settled_def bit_set_bits16 bit_set_bits32
      and_top_bits)

lemma each_TransferList_effect:
  assumes "c < 12" and "c < length (tcd s)" and "settled ch" and "list_all param_ok params"
    and "unat (HwVersId (channel_id ini LogicCh)) = DMA_IP_HARDWARE_VERSION_3"
  shows "Static_Dma_Ip_SetLogicChannelTransferList H ini LogicCh (DMA_IP_HWV3_TCD 0 c) params
      (with_ch s m c ch) = Inr (with_ch s m c (fold (param_effect ini) params ch)) \<and>
    settled (fold (param_effect ini) params ch)"
  using assms(3,4)
proof (induction params arbitrary: ch)
  case Nil
  then show ?case by (simp add: Static_Dma_Ip_SetLogicChannelTransferList_def)
next
  case (Cons a params)
  obtain p v where a: "a = (p, v)" by (cases a)
  from Cons.prems have "settled (param_effect ini a ch)" unfolding a by (auto intro: settled_param_effect)
  from Cons.IH[OF this] Cons.prems show ?case
    using SetTransferParam_effect[OF assms(1,2) Cons.prems(1), of p v ini H m] Cons.prems(2)
    by (simp add: Static_Dma_Ip_SetLogicChannelTransferList_def a assms(5))
qed

subsection \<open>Loading a transfer configuration\<close>

text \<open>The configurations that use no feature the controller rejects, and do not start the channel.\<close>

definition supported :: "transfer_config \<Rightarrow> bool" where
  "supported cfg \<longleftrightarrow> \<not> EnSrcOffset cfg \<and> \<not> EnDstOffset cfg \<and> \<not> minor_EnLink cfg \<and> \<not> major_EnLink cfg"

definition on_hw_channel :: "dma_init \<Rightarrow> nat \<Rightarrow> nat \<Rightarrow> bool" where
  "on_hw_channel ini LogicCh c \<longleftrightarrow>
     HwVersId (channel_id ini LogicCh) = 3 \<and> HwInstId (channel_id ini LogicCh) = 0 \<and>
     unat (HwChId (channel_id ini LogicCh)) = c"

lemma on_hw_channelD:
  assumes "on_hw_channel ini LogicCh c"
  shows "unat (HwVersId (channel_id ini LogicCh)) = DMA_IP_HARDWARE_VERSION_3"
    and "unat (HwInstId (channel_id ini LogicCh)) = 0" and "unat (HwChId (channel_id ini LogicCh)) = c"
  using assms by (simp_all add: on_hw_channel_def DMA_IP_HARDWARE_VERSION_3_def)

definition done_set :: "tcd_state \<Rightarrow> tcd_state" where
  "done_set ch = ch\<lparr>ch_csr := ch_csr ch OR 0x40000000\<rparr>"

lemma ClearDone_effect:
  assumes "c < 12" and "c < length (tcd s)"
  shows "HwAccDmaCh_SetCommand H DMA_IP_CH_CLEAR_DONE DMA_IP_HARDWARE_VERSION_3 0 c (with_ch s m c ch) =
    Inr (with_ch s m c (done_set ch))"
proof -
  have "(w AND NOT 0x40000000) OR ((w OR 0x40000000) AND 0x40000000) = w OR 0x40000000" for w :: u32
    by (rule bit_word_eqI) (auto simp: bit_simps)
  then show ?thesis
    using assms
    by (simp add: HwAccDmaCh_SetCommand_def wrapper_defs hwv3AccInlineDmaCh_CmdClearDone_def
        read_with_ch write32_with_ch done_set_def)
qed

lemma settled_done_set [simp]: "settled (done_set ch) = settled ch"
  by (simp add: settled_def done_set_def)

definition loaded :: "dma_init \<Rightarrow> transfer_config \<Rightarrow> tcd_state \<Rightarrow> tcd_state" where
  "loaded ini cfg ch = fold (param_effect ini) (transfer_list cfg) (done_set ch)"

lemma TransferConfig_loaded:
  assumes "on_hw_channel ini LogicCh c" and "c < 12" and "c < length (tcd s)" and "settled ch"
    and "supported cfg" and "\<not> EnStart cfg"
  shows "Static_Dma_Ip_SetLogicChannelTransferConfig H ini LogicCh cfg (with_ch s m c ch) =
      Inr (DMA_IP_STATUS_SUCCESS, with_ch s m c (loaded ini cfg ch)) \<and> settled (loaded ini cfg ch)"
proof -
  have "list_all param_ok (transfer_list cfg)"
    using assms(5,6) by (simp add: transfer_list_def supported_def)
  with assms(4) each_TransferList_effect[OF assms(2,3), of "done_set ch" "transfer_list cfg" ini LogicCh H m]
  show ?thesis
    by (simp add: Static_Dma_Ip_SetLogicChannelTransferConfig_def Let_def on_hw_channelD[OF assms(1)]
        ClearDone_effect[OF assms(2,3)] loaded_def)
qed

lemma set_bits16_full: "set_bits16 0xFFFF 0 v reg = ucast v"
proof -
  have m: "(0xFFFF :: u16) = - 1" by simp
  show ?thesis unfolding set_bits16_def m by simp
qed

lemma ucast_scast16: "(ucast (scast (v :: u16) :: u32) :: u16) = v"
  by (rule bit_word_eqI) (auto simp: bit_simps)

lemma bit_low_mask16: "bit (0x7FFF :: u16) n \<longleftrightarrow> n < 15" "bit (0x700 :: u16) n \<longleftrightarrow> 8 \<le> n \<and> n < 11"
  "bit (0x7 :: u16) n \<longleftrightarrow> n < 3" "bit (0xF8 :: u16) n \<longleftrightarrow> 3 \<le> n \<and> n < 8"
  "bit (0xF800 :: u16) n \<longleftrightarrow> 11 \<le> n \<and> n < 16"
proof -
  have m: "(0x7FFF :: u16) = mask 15" "(0x700 :: u16) = push_bit 8 (mask 3)" "(0x7 :: u16) = mask 3"
    "(0xF8 :: u16) = push_bit 3 (mask 5)" "(0xF800 :: u16) = push_bit 11 (mask 5)"
    by (simp_all add: mask_eq_exp_minus_1)
  show "bit (0x7FFF :: u16) n \<longleftrightarrow> n < 15" "bit (0x700 :: u16) n \<longleftrightarrow> 8 \<le> n \<and> n < 11"
    "bit (0x7 :: u16) n \<longleftrightarrow> n < 3" "bit (0xF8 :: u16) n \<longleftrightarrow> 3 \<le> n \<and> n < 8"
    "bit (0xF800 :: u16) n \<longleftrightarrow> 11 \<le> n \<and> n < 16"
    unfolding m by (auto simp: bit_simps)
qed

lemma bit_low_mask30: "bit (0x3FFFFFFF :: u32) n \<longleftrightarrow> n < 30"
proof -
  have m: "(0x3FFFFFFF :: u32) = mask 30" by (simp add: mask_eq_exp_minus_1)
  show ?thesis unfolding m by (auto simp: bit_mask_iff)
qed

lemma loaded_fields:
  assumes "settled ch"
  shows "tcd_saddr (loaded ini cfg ch) = src_Addr cfg" "tcd_daddr (loaded ini cfg ch) = dst_Addr cfg"
    "tcd_soff (loaded ini cfg ch) = src_SignedOffset cfg"
    "tcd_doff (loaded ini cfg ch) = dst_SignedOffset cfg"
    "tcd_slast_sda (loaded ini cfg ch) = src_LastAddrAdj cfg"
    "tcd_dlast_sga (loaded ini cfg ch) = dst_LastAddrAdj cfg"
    "ch_int (loaded ini cfg ch) = ch_int ch" "ch_es (loaded ini cfg ch) = ch_es ch"
    "irq (loaded ini cfg ch) = irq ch" "ch_csr (loaded ini cfg ch) = ch_csr ch OR 0x40000000"
  by (simp_all add: loaded_def transfer_list_def done_set_def set_bits16_full ucast_scast16 Let_def)

lemma loaded_attr:
  "FIELD_EX16 (tcd_attr (loaded ini cfg ch)) (fld TCD_ATTR_SSIZE) = ucast (take_bit 3 (src_TransferSize cfg))"
  "FIELD_EX16 (tcd_attr (loaded ini cfg ch)) (fld TCD_ATTR_DSIZE) = ucast (take_bit 3 (dst_TransferSize cfg))"
proof -
  have a: "tcd_attr (loaded ini cfg ch) = set_bits16 0xF8 3 (ucast (dst_Modulo cfg))
      (set_bits16 0x7 0 (ucast (dst_TransferSize cfg)) (set_bits16 0xF800 11 (ucast (src_Modulo cfg))
        (set_bits16 0x700 8 (ucast (src_TransferSize cfg)) (tcd_attr ch))))"
    by (simp add: loaded_def transfer_list_def done_set_def Let_def)
  show "FIELD_EX16 (tcd_attr (loaded ini cfg ch)) (fld TCD_ATTR_SSIZE) = ucast (take_bit 3 (src_TransferSize cfg))"
    "FIELD_EX16 (tcd_attr (loaded ini cfg ch)) (fld TCD_ATTR_DSIZE) = ucast (take_bit 3 (dst_TransferSize cfg))"
    unfolding a
    by (rule bit_word_eqI; auto simp: bit_FIELD_EX16 field_consts field_in_def bit_set_bits16
        bit_low_mask16 bit_simps simp del: bit_numeral_word_iff)+
qed

lemma loaded_nbytes:
  assumes "settled ch" and "supported cfg"
  shows "nbytes_of (loaded ini cfg ch) = unat (take_bit 30 (minor_Size cfg))"
proof -
  have "FIELD_EX32 (tcd_nbytes_mloff (loaded ini cfg ch)) (fld TCD_NBYTES_MLOFF_NBYTES) =
      take_bit 30 (minor_Size cfg)"
    by (rule bit_word_eqI) (auto simp: loaded_def transfer_list_def done_set_def Let_def bit_FIELD_EX32
        field_consts field_in_def bit_set_bits32 bit_low_mask30 bit_simps
        simp del: bit_numeral_word_iff)
  then show ?thesis by (simp add: nbytes_of_def)
qed

lemma loaded_count:
  assumes "settled ch" and "supported cfg"
  shows "tcd_biter (loaded ini cfg ch) = ucast (take_bit 15 (major_Count cfg))"
    and "tcd_citer (loaded ini cfg ch) = tcd_biter (loaded ini cfg ch)"
proof -
  have n15: "\<not> bit (tcd_biter ch) 15" "tcd_citer ch = tcd_biter ch" using assms(1) by (simp_all add: settled_def)
  have b: "tcd_biter (loaded ini cfg ch) = set_bits16 0x7FFF 0 (major_Count cfg)
      (set_bits16 0x3E00 9 (Dma_Ip_ConvertLogicChToHwCh ini (ucast (minor_LogicLinkCh cfg)))
        (set_bits16 0x8000 15 0 (tcd_biter ch)))"
    using assms(2) by (simp add: loaded_def transfer_list_def done_set_def Let_def supported_def)
  have "\<not> bit (set_bits16 0x3E00 9 w (set_bits16 0x8000 15 0 (tcd_biter ch))) 15" for w
    using n15 by (simp add: bit_set_bits16)
  then show "tcd_biter (loaded ini cfg ch) = ucast (take_bit 15 (major_Count cfg))"
    unfolding b
    by (intro bit_word_eqI) (auto simp: bit_set_bits16[of "0x7FFF"] bit_low_mask16 bit_simps not_less_iff_gr_or_eq
        simp del: bit_numeral_word_iff dest: bit_imp_le_length)
  show "tcd_citer (loaded ini cfg ch) = tcd_biter (loaded ini cfg ch)"
    using n15(2) by (simp add: loaded_def transfer_list_def done_set_def Let_def)
qed

lemma loaded_csr:
  assumes "supported cfg"
  shows "bit (tcd_csr (loaded ini cfg ch)) 0 \<longleftrightarrow> EnStart cfg" "bit (tcd_csr (loaded ini cfg ch)) 1 \<longleftrightarrow> EnMajorInt cfg"
    "bit (tcd_csr (loaded ini cfg ch)) 2 \<longleftrightarrow> EnHalfMajorInt cfg" "\<not> bit (tcd_csr (loaded ini cfg ch)) 5"
    "\<not> bit (tcd_csr (loaded ini cfg ch)) 7" "bit (tcd_csr (loaded ini cfg ch)) 4 = bit (tcd_csr ch) 4"
proof -
  define t where "t = Dma_Ip_ConvertLogicChToHwCh ini (ucast (major_LogicLinkCh cfg))"
  have c: "tcd_csr (loaded ini cfg ch) = set_bits16 0x1 0 (of_bool (EnStart cfg)) (set_bits16 0xC000 14
      (ucast (BandwidthControl cfg)) (set_bits16 0x40 6 (of_bool (EnEndOfPacketSignal cfg)) (set_bits16 0x8 3
      (of_bool (DisAutoHwRequest cfg)) (set_bits16 0x4 2 (of_bool (EnHalfMajorInt cfg)) (set_bits16 0x2 1
      (of_bool (EnMajorInt cfg)) (set_bits16 0x1F00 8 t (set_bits16 0x20 5 0 (set_bits16 0x80 7 0
      (tcd_csr ch)))))))))"
    using assms by (simp add: loaded_def transfer_list_def done_set_def Let_def supported_def t_def)
  show "bit (tcd_csr (loaded ini cfg ch)) 0 \<longleftrightarrow> EnStart cfg" "bit (tcd_csr (loaded ini cfg ch)) 1 \<longleftrightarrow> EnMajorInt cfg"
    "bit (tcd_csr (loaded ini cfg ch)) 2 \<longleftrightarrow> EnHalfMajorInt cfg" "\<not> bit (tcd_csr (loaded ini cfg ch)) 5"
    "\<not> bit (tcd_csr (loaded ini cfg ch)) 7" "bit (tcd_csr (loaded ini cfg ch)) 4 = bit (tcd_csr ch) 4"
    unfolding c by (simp_all add: bit_set_bits16)
qed

text \<open>What a descriptor holds when it describes the transfer of a configuration.\<close>

definition describes :: "tcd_state \<Rightarrow> transfer_config \<Rightarrow> bool" where
  "describes ch cfg \<longleftrightarrow>
     tcd_saddr ch = src_Addr cfg \<and> tcd_soff ch = src_SignedOffset cfg \<and> tcd_slast_sda ch = src_LastAddrAdj cfg \<and>
     tcd_daddr ch = dst_Addr cfg \<and> tcd_doff ch = dst_SignedOffset cfg \<and> tcd_dlast_sga ch = dst_LastAddrAdj cfg \<and>
     FIELD_EX16 (tcd_attr ch) (fld TCD_ATTR_SSIZE) = ucast (take_bit 3 (src_TransferSize cfg)) \<and>
     FIELD_EX16 (tcd_attr ch) (fld TCD_ATTR_DSIZE) = ucast (take_bit 3 (dst_TransferSize cfg)) \<and>
     nbytes_of ch = unat (take_bit 30 (minor_Size cfg)) \<and>
     tcd_biter ch = ucast (take_bit 15 (major_Count cfg)) \<and> tcd_citer ch = tcd_biter ch \<and>
     (csr_flag ch TCD_CSR_INTMAJOR \<longleftrightarrow> EnMajorInt cfg) \<and>
     (csr_flag ch TCD_CSR_INTHALF \<longleftrightarrow> EnHalfMajorInt cfg) \<and> \<not> csr_flag ch TCD_CSR_ESDA"

lemma loaded_describes:
  assumes "settled ch" and "supported cfg"
  shows "describes (loaded ini cfg ch) cfg"
proof -
  have flags: "csr_flag ch' TCD_CSR_INTMAJOR \<longleftrightarrow> bit (tcd_csr ch') 1" "csr_flag ch' TCD_CSR_INTHALF \<longleftrightarrow> bit (tcd_csr ch') 2"
    "csr_flag ch' TCD_CSR_ESDA \<longleftrightarrow> bit (tcd_csr ch') 7" for ch'
    by (simp_all add: csr_flag_iff fld.simps)
  show ?thesis
    by (simp only: describes_def flags loaded_fields[OF assms(1)] loaded_attr loaded_nbytes[OF assms]
        loaded_count[OF assms] loaded_csr[OF assms(2)] simp_thms)
qed

text \<open>
  C22: on a descriptor at rest, loading any configuration that does not start the channel and uses
  neither minor-loop offsets nor channel linking succeeds; the descriptor then describes exactly
  that configuration (addresses, offsets, adjustments, transfer sizes, byte count, loop count and
  interrupt flags, each cut to its field), it is at rest again, and nothing else of the machine
  has changed.
\<close>

theorem dma_transfer_config_programs_tcd:
  assumes "on_hw_channel ini LogicCh c" and "c < 12" and "c < length (tcd s)" and "settled (tcd s ! c)"
    and "supported cfg" and "\<not> EnStart cfg"
  shows "\<exists>ch. Static_Dma_Ip_SetLogicChannelTransferConfig H ini LogicCh cfg (s, m) =
      Inr (DMA_IP_STATUS_SUCCESS, set_tcd s c ch, m) \<and> describes ch cfg \<and> settled ch"
proof -
  from TransferConfig_loaded[OF assms, of H m] have
    "Static_Dma_Ip_SetLogicChannelTransferConfig H ini LogicCh cfg (s, m) =
      Inr (DMA_IP_STATUS_SUCCESS, set_tcd s c (loaded ini cfg (tcd s ! c)), m)"
    and "settled (loaded ini cfg (tcd s ! c))"
    unfolding with_ch_self[of s m c, symmetric] by (simp_all add: with_ch_def)
  with loaded_describes[OF assms(4,5)] show ?thesis by blast
qed

lemma demo_channel: "channel_id Dma_Ip_xDmaInitPB 0 = ch_LogicChId LogicChannel0ConfigPB"
  by (simp add: channel_id_def Dma_Ip_xDmaInitPB_def)

lemma demo_on_channel_0: "on_hw_channel Dma_Ip_xDmaInitPB 0 0"
  by (simp add: on_hw_channel_def demo_channel LogicChannel0ConfigPB_def)

lemma settled_reset: "settled (edma_tcd_reset ch)" "settled ((edma_tcd_reset ch)\<lparr>irq := b\<rparr>)"
  by (simp_all add: settled_def edma_tcd_reset_def)

lemma demo_config_supported: "supported LogicChannel0TransferConfigPB" "\<not> EnStart LogicChannel0TransferConfigPB"
  by (simp_all add: supported_def LogicChannel0TransferConfigPB_def)

lemma dma_transfer_config_programs_tcd_witness:
  "\<exists>ch. Static_Dma_Ip_SetLogicChannelTransferConfig (phys_bus demo_fv, []) Dma_Ip_xDmaInitPB 0
      LogicChannel0TransferConfigPB (edma_realize, \<lparr>mem = (\<lambda>_. 0), dev = ()\<rparr>) =
      Inr (DMA_IP_STATUS_SUCCESS, set_tcd edma_realize 0 ch, \<lparr>mem = (\<lambda>_. 0), dev = ()\<rparr>) \<and>
    describes ch LogicChannel0TransferConfigPB \<and> settled ch"
  by (rule dma_transfer_config_programs_tcd)
    (simp_all add: demo_on_channel_0 edma_realize_length edma_realize_tcd settled_reset demo_config_supported)

subsection \<open>Configurations that end the emulator\<close>

lemma SetTransferParam_rejected:
  assumes "c < 12" and "c < length (tcd s)" and "settled ch" and "bit v 0"
    and "p \<in> {DMA_IP_CH_SET_MINORLOOP_EN_SRC_OFFSET, DMA_IP_CH_SET_MINORLOOP_EN_DST_OFFSET,
       DMA_IP_CH_SET_MINORLOOP_EN_LINK, DMA_IP_CH_SET_MAJORLOOP_EN_LINK}"
  shows "HwAccDmaCh_SetTransferParam ini H p DMA_IP_HARDWARE_VERSION_3 (DMA_IP_HWV3_TCD 0 c) v
      (with_ch s m c ch) = Inl AssertionFailed"
  using assms
  by (auto simp: HwAccDmaCh_SetTransferParam_def wrapper_defs accessor_defs rmw16_def rmw32_def
      in_turn_def read_with_ch settled_def bit_set_bits16 bit_set_bits32 reg_write16_def reg_write32_def
      cpu_store_low edma_tcd_write_def tcd_reg_at_A and_R_MASK_eq_0_iff bit_ucast64 assert_that_def
      and_START_iff)

lemma each_append: "each f (as @ bs) x = res_bind (each f as x) (each f bs)"
  by (induction as arbitrary: x) (simp_all add: res_bind_def split: sum.splits)

text \<open>
  C23: on a descriptor at rest, loading a configuration that asks for a minor-loop offset or for
  channel linking ends the emulator with a failed assertion, whatever else it holds.
\<close>

theorem dma_unsupported_config_aborts:
  assumes "on_hw_channel ini LogicCh c" and "c < 12" and "c < length (tcd s)" and "settled (tcd s ! c)"
    and "\<not> supported cfg"
  shows "Static_Dma_Ip_SetLogicChannelTransferConfig H ini LogicCh cfg (s, m) = Inl AssertionFailed"
proof -
  have split: "\<exists>as p v bs. transfer_list cfg = as @ (p, v) # bs \<and> list_all param_ok as \<and> bit v 0 \<and>
      p \<in> {DMA_IP_CH_SET_MINORLOOP_EN_SRC_OFFSET, DMA_IP_CH_SET_MINORLOOP_EN_DST_OFFSET,
       DMA_IP_CH_SET_MINORLOOP_EN_LINK, DMA_IP_CH_SET_MAJORLOOP_EN_LINK}"
  proof -
    define k :: nat where "k = (if EnSrcOffset cfg then 10 else if EnDstOffset cfg then 11
      else if minor_EnLink cfg then 13 else 16)"
    have "transfer_list cfg = take k (transfer_list cfg) @ transfer_list cfg ! k # drop (Suc k) (transfer_list cfg)"
      by (rule id_take_nth_drop) (simp add: k_def transfer_list_def)
    moreover have "list_all param_ok (take k (transfer_list cfg))"
      using assms(5) by (simp add: k_def transfer_list_def supported_def)
    moreover have "bit (snd (transfer_list cfg ! k)) 0" "fst (transfer_list cfg ! k) \<in>
      {DMA_IP_CH_SET_MINORLOOP_EN_SRC_OFFSET, DMA_IP_CH_SET_MINORLOOP_EN_DST_OFFSET,
       DMA_IP_CH_SET_MINORLOOP_EN_LINK, DMA_IP_CH_SET_MAJORLOOP_EN_LINK}"
      using assms(5) by (auto simp: k_def transfer_list_def supported_def)
    ultimately show ?thesis by (metis prod.collapse)
  qed
  then obtain as p v bs where l: "transfer_list cfg = as @ (p, v) # bs" "list_all param_ok as" "bit v 0"
    "p \<in> {DMA_IP_CH_SET_MINORLOOP_EN_SRC_OFFSET, DMA_IP_CH_SET_MINORLOOP_EN_DST_OFFSET,
       DMA_IP_CH_SET_MINORLOOP_EN_LINK, DMA_IP_CH_SET_MAJORLOOP_EN_LINK}" by blast
  have "settled (done_set (tcd s ! c))" using assms(4) by simp
  from each_TransferList_effect[OF assms(2,3) this l(2) on_hw_channelD(1)[OF assms(1)], of H m]
    SetTransferParam_rejected[OF assms(2,3) _ l(3,4),
      of "fold (param_effect ini) as (done_set (tcd s ! c))" ini H m]
  have "Static_Dma_Ip_SetLogicChannelTransferList H ini LogicCh (DMA_IP_HWV3_TCD 0 c) (transfer_list cfg)
      (with_ch s m c (done_set (tcd s ! c))) = Inl AssertionFailed"
    unfolding Static_Dma_Ip_SetLogicChannelTransferList_def l(1) each_append
    by (simp add: on_hw_channelD[OF assms(1)])
  then show ?thesis
    unfolding with_ch_self[of s m c]
    by (simp add: Static_Dma_Ip_SetLogicChannelTransferConfig_def Let_def on_hw_channelD[OF assms(1)]
        ClearDone_effect[OF assms(2,3)])
qed

lemma dma_unsupported_config_aborts_witness:
  "Static_Dma_Ip_SetLogicChannelTransferConfig (phys_bus demo_fv, []) Dma_Ip_xDmaInitPB 0
      (LogicChannel0TransferConfigPB\<lparr>major_EnLink := True\<rparr>) (edma_realize, \<lparr>mem = (\<lambda>_. 0), dev = ()\<rparr>) =
    Inl AssertionFailed"
  by (rule dma_unsupported_config_aborts[OF demo_on_channel_0])
    (simp_all add: edma_realize_length edma_realize_tcd settled_reset supported_def)

subsection \<open>The channel state machine\<close>

text \<open>The abstract machine behind the table of event functions.\<close>

fun next_state :: "ch_state_value \<Rightarrow> ch_event \<Rightarrow> ch_state_value" where
  "next_state _ DMA_IP_CH_RESET_EVENT = DMA_IP_CH_RESET_STATE"
| "next_state _ DMA_IP_CH_READY_EVENT = DMA_IP_CH_READY_STATE"
| "next_state _ DMA_IP_CH_ERROR_EVENT = DMA_IP_CH_ERROR_STATE"
| "next_state st DMA_IP_CH_TRANSFER_EVENT =
     (if st \<in> {DMA_IP_CH_RESET_STATE, DMA_IP_CH_ERROR_STATE} then DMA_IP_CH_ERROR_STATE
      else DMA_IP_CH_TRANSFER_STATE)"
| "next_state st DMA_IP_CH_SCATTERGATHER_EVENT =
     (if st \<in> {DMA_IP_CH_RESET_STATE, DMA_IP_CH_ERROR_STATE} then DMA_IP_CH_ERROR_STATE
      else DMA_IP_CH_SCATTERGATHER_STATE)"

lemmas event_defs = Dma_Ip_SetHwChannel_ResetEvent_def Dma_Ip_SetHwChannel_ReadyEvent_def
  Dma_Ip_SetHwChannel_TransferEvent_def Dma_Ip_SetHwChannel_ScatterGatherEvent_def
  Dma_Ip_SetHwChannel_ErrorEvent_def

lemma SetHwChannelState_next:
  assumes "ptHwChV3StateArray d inst ch = Some p"
  shows "Dma_Ip_SetHwChannelState DMA_IP_HARDWARE_VERSION_3 inst ch ev d =
    Inr (put_state p ((ch_states d p)\<lparr>StateValue := next_state (StateValue (ch_states d p)) ev\<rparr>) d)"
  using assms
  by (cases ev; cases "StateValue (ch_states d p)")
    (simp_all add: Dma_Ip_SetHwChannelState_def deref_def fpa_Dma_Ip_HwChannelState_def event_defs
      set_state_value_def Let_def)

lemma put_state_simps [simp]:
  "Dma_Ip_pxInit (put_state p st d) = Dma_Ip_pxInit d"
  "ptHwChV3StateArray (put_state p st d) = ptHwChV3StateArray d"
  "ch_states (put_state p st d) = (ch_states d)(p := st)"
  "put_state p st' (put_state p st d) = put_state p st' d"
  by (simp_all add: put_state_def)

fun send_events :: "nat \<Rightarrow> nat \<Rightarrow> ch_event list \<Rightarrow> driver \<Rightarrow> driver res" where
  "send_events inst ch [] d = Inr d"
| "send_events inst ch (ev # evs) d =
     res_bind (Dma_Ip_SetHwChannelState DMA_IP_HARDWARE_VERSION_3 inst ch ev d) (send_events inst ch evs)"

lemma send_events_fold:
  assumes "ptHwChV3StateArray d inst ch = Some p"
  shows "send_events inst ch evs d =
    Inr (put_state p ((ch_states d p)\<lparr>StateValue := fold (\<lambda>ev st. next_state st ev) evs
      (StateValue (ch_states d p))\<rparr>) d)"
  using assms
proof (induction evs arbitrary: d)
  case Nil
  then show ?case by (simp add: put_state_def)
qed (simp add: SetHwChannelState_next)

lemma next_state_live:
  assumes "fold (\<lambda>ev st. next_state st ev) evs st \<in> {DMA_IP_CH_TRANSFER_STATE, DMA_IP_CH_SCATTERGATHER_STATE}"
    and "st \<in> {DMA_IP_CH_RESET_STATE, DMA_IP_CH_ERROR_STATE}"
  shows "\<exists>pre post. evs = pre @ DMA_IP_CH_READY_EVENT # post \<and>
    DMA_IP_CH_RESET_EVENT \<notin> set post \<and> DMA_IP_CH_ERROR_EVENT \<notin> set post"
  using assms
proof (induction evs rule: rev_induct)
  case Nil
  then show ?case by auto
next
  case (snoc ev evs)
  define t where "t = fold (\<lambda>ev st. next_state st ev) evs st"
  have now: "next_state t ev \<in> {DMA_IP_CH_TRANSFER_STATE, DMA_IP_CH_SCATTERGATHER_STATE}"
    using snoc.prems(1) by (simp add: t_def)
  then have ev: "ev \<in> {DMA_IP_CH_TRANSFER_EVENT, DMA_IP_CH_SCATTERGATHER_EVENT}"
    and t: "t \<notin> {DMA_IP_CH_RESET_STATE, DMA_IP_CH_ERROR_STATE}"
    by (cases ev; auto)+
  show ?case
  proof (cases "t = DMA_IP_CH_READY_STATE")
    case True
    then obtain evs' where "evs = evs' @ [DMA_IP_CH_READY_EVENT]"
      using snoc.prems(2) unfolding t_def
      by (cases evs rule: rev_cases; cases "last evs") (auto split: if_splits)
    with ev show ?thesis by (intro exI[of _ evs'] exI[of _ "[ev]"]) auto
  next
    case False
    with t have "t \<in> {DMA_IP_CH_TRANSFER_STATE, DMA_IP_CH_SCATTERGATHER_STATE}" by (cases t) auto
    from snoc.IH[OF this[unfolded t_def] snoc.prems(2)] obtain pre post where
      "evs = pre @ DMA_IP_CH_READY_EVENT # post" "DMA_IP_CH_RESET_EVENT \<notin> set post"
      "DMA_IP_CH_ERROR_EVENT \<notin> set post" by blast
    with ev show ?thesis by (intro exI[of _ pre] exI[of _ "post @ [ev]"]) auto
  qed
qed



subsection \<open>Latched errors\<close>

text \<open>A channel of the driver: its configuration, its hardware channel and its state structure.\<close>

definition bound :: "driver \<Rightarrow> dma_init \<Rightarrow> nat \<Rightarrow> nat \<Rightarrow> nat \<Rightarrow> bool" where
  "bound d ini LogicCh c p \<longleftrightarrow> Dma_Ip_pxInit d = Some ini \<and> on_hw_channel ini LogicCh c \<and>
     ptHwChV3StateArray d 0 c = Some p"

lemma boundD:
  assumes "bound d ini LogicCh c p"
  shows "Dma_Ip_pxInit d = Some ini" and "on_hw_channel ini LogicCh c" and "ptHwChV3StateArray d 0 c = Some p"
    and "Dma_Ip_GetHwChannelStatePointer DMA_IP_HARDWARE_VERSION_3 0 c d = Some p"
  using assms by (simp_all add: bound_def Dma_Ip_GetHwChannelStatePointer_def)

lemma bound_put_state [simp]: "bound (put_state q st d) ini LogicCh c p = bound d ini LogicCh c p"
  by (simp add: bound_def)

lemma hw_error_with_ch:
  assumes "c < 12" and "c < length (tcd s)"
  shows "HwAccDmaCh_GetStatus_Error DMA_IP_HARDWARE_VERSION_3 0 c (with_ch s m c ch) e =
    ch_es ch AND DMA_IP_TCD_CH_ES_MASK"
  using assms
  by (simp add: HwAccDmaCh_GetStatus_Error_def hwv3AccInlineDmaCh_GetErrorStatus_def read_with_ch)

definition latched :: "tcd_state \<Rightarrow> hw_channel_state \<Rightarrow> u32" where
  "latched ch st = LogicChErrors st OR (ch_es ch AND DMA_IP_TCD_CH_ES_MASK)"

lemma latch_errors_with_ch:
  assumes "c < 12" and "c < length (tcd s)"
  shows "latch_errors DMA_IP_HARDWARE_VERSION_3 0 c p (with_ch s m c ch) d =
    put_state p ((ch_states d p)\<lparr>LogicChErrors := latched ch (ch_states d p)\<rparr>) d"
  by (simp add: latch_errors_def Static_Dma_Ip_GetLogicChannelError_def hw_error_with_ch[OF assms] latched_def)

lemma clear_error_effect:
  assumes "bound d ini LogicCh c p" and "c < 12" and "c < length (tcd s)"
  shows "Dma_Ip_SetLogicChannelCommand H LogicCh DMA_IP_CH_CLEAR_ERROR (d, with_ch s m c ch) =
    Inr (DMA_IP_STATUS_SUCCESS,
      put_state p ((ch_states d p)\<lparr>LogicChErrors := 0, StateValue := DMA_IP_CH_READY_STATE\<rparr>) d,
      with_ch s m c (ch\<lparr>ch_es := ch_es ch OR 0x80000000\<rparr>))"
proof -
  have "(w AND NOT 0x80000000) OR ((w OR 0x80000000) AND 0x80000000) = w OR 0x80000000" for w :: u32
    by (rule bit_word_eqI) (auto simp: bit_simps)
  with assms(2,3) show ?thesis
    by (simp add: Dma_Ip_SetLogicChannelCommand_def Let_def deref_def boundD[OF assms(1)]
        on_hw_channelD[OF boundD(2)[OF assms(1)]] SetHwChannelState_next HwAccDmaCh_SetCommand_def
        wrapper_defs hwv3AccInlineDmaCh_CmdClearError_def read_with_ch write32_with_ch)
qed

lemma es_mask_ERR: "(w OR 0x80000000) AND DMA_IP_TCD_CH_ES_MASK \<noteq> 0" for w :: u32
proof
  assume "(w OR 0x80000000) AND DMA_IP_TCD_CH_ES_MASK = 0"
  then have "bit ((w OR 0x80000000) AND DMA_IP_TCD_CH_ES_MASK) 31 = bit (0 :: u32) 31" by simp
  then show False by (simp add: bit_simps DMA_IP_TCD_CH_ES_MASK_def)
qed

text \<open>The calls a client makes on a channel, and a sequence of them with the statuses they return.\<close>

datatype ch_call =
    Command channel_cmd
  | TransferList "(transfer_param \<times> u32) list"
  | GlobalList "(global_param \<times> u32) list"

fun channel_call ::
    "'m host \<Rightarrow> nat \<Rightarrow> ch_call \<Rightarrow> driver \<times> 'm hw \<Rightarrow> (dma_status \<times> driver \<times> 'm hw) res" where
  "channel_call H LogicCh (Command cmd) = Dma_Ip_SetLogicChannelCommand H LogicCh cmd"
| "channel_call H LogicCh (TransferList params) = Dma_Ip_SetLogicChannelTransferList H LogicCh params"
| "channel_call H LogicCh (GlobalList params) = Dma_Ip_SetLogicChannelGlobalList H LogicCh params"

fun channel_calls ::
    "'m host \<Rightarrow> nat \<Rightarrow> ch_call list \<Rightarrow> driver \<times> 'm hw \<Rightarrow> (dma_status list \<times> driver \<times> 'm hw) res" where
  "channel_calls H LogicCh [] y = Inr ([], y)"
| "channel_calls H LogicCh (call # calls) y = res_bind (channel_call H LogicCh call y) (\<lambda>(st, y).
     res_bind (channel_calls H LogicCh calls y) (\<lambda>(sts, y). Inr (st # sts, y)))"

lemma stuck_call:
  assumes "bound d ini LogicCh c p" and "c < 12" and "c < length (tcd s)" and "ch_es ch = w OR 0x80000000"
  shows "\<exists>d'. channel_call H LogicCh call (d, with_ch s m c ch) =
      Inr (if call = Command DMA_IP_CH_CLEAR_ERROR then DMA_IP_STATUS_SUCCESS else DMA_IP_STATUS_ERROR,
        d', with_ch s m c ch) \<and> bound d' ini LogicCh c p"
proof -
  have err: "latched ch (ch_states d p) \<noteq> 0"
    using es_mask_ERR[of w] by (auto simp: latched_def assms(4) or_eq_0_iff)
  note refused = SetHwChannelState_next latch_errors_with_ch[OF assms(2,3)] boundD[OF assms(1)]
    on_hw_channelD[OF boundD(2)[OF assms(1)]] Let_def deref_def
  show ?thesis
  proof (cases call)
    case (Command cmd)
    show ?thesis
    proof (cases "cmd = DMA_IP_CH_CLEAR_ERROR")
      case True
      have "ch\<lparr>ch_es := ch_es ch OR 0x80000000\<rparr> = ch" by (simp add: assms(4) or.assoc)
      with True Command assms(1) clear_error_effect[OF assms(1-3), of H m ch] show ?thesis by auto
    next
      case False
      with Command err assms(1) show ?thesis by (simp add: Dma_Ip_SetLogicChannelCommand_def refused)
    qed
  next
    case (TransferList params)
    with err assms(1) show ?thesis by (simp add: Dma_Ip_SetLogicChannelTransferList_def refused)
  next
    case (GlobalList params)
    with err assms(1) show ?thesis by (simp add: Dma_Ip_SetLogicChannelGlobalList_def refused)
  qed
qed

lemma stuck_calls:
  assumes "bound d ini LogicCh c p" and "c < 12" and "c < length (tcd s)" and "ch_es ch = w OR 0x80000000"
  shows "\<exists>d'. channel_calls H LogicCh calls (d, with_ch s m c ch) =
      Inr (map (\<lambda>call. if call = Command DMA_IP_CH_CLEAR_ERROR then DMA_IP_STATUS_SUCCESS
        else DMA_IP_STATUS_ERROR) calls, d', with_ch s m c ch)"
  using assms(1)
proof (induction calls arbitrary: d)
  case (Cons call calls)
  obtain d' where "channel_call H LogicCh call (d, with_ch s m c ch) =
      Inr (if call = Command DMA_IP_CH_CLEAR_ERROR then DMA_IP_STATUS_SUCCESS else DMA_IP_STATUS_ERROR,
        d', with_ch s m c ch)" and "bound d' ini LogicCh c p"
    using stuck_call[OF Cons.prems assms(2-4), of H call m] by blast
  with Cons.IH[OF this(2)] show ?case by auto
qed simp



end
