(* ===== verification/Dma_Demo.thy ===== *)
theory Dma_Demo
  imports Dma_Ip_Props
begin

section \<open>The demo's DMA rounds\<close>

text \<open>
  The part of \<^verbatim>\<open>src/main.c\<close> that uses the DMA driver, run on the emulated controller: the sending
  task programs the addresses of the two buffers, fills the source buffer and requests the
  transfer; the interrupt handler acknowledges the completion and runs the callback; the receiving
  task compares the buffers. The buffers lie where the linker puts them and \<open>rand\<close> is the C
  library's, so both are parameters. The processor's accesses to the buffers are accesses to the
  RAM.
\<close>

subsection \<open>The tasks\<close>

definition DMA_CH0_BUFFER_DIMENSION :: nat where "DMA_CH0_BUFFER_DIMENSION = 128"

definition DMA_LOGIC_CH_0 :: nat where "DMA_LOGIC_CH_0 = 0"

definition DmaCh0_TransferList :: "u32 \<Rightarrow> u32 \<Rightarrow> (transfer_param \<times> u32) list" where
  "DmaCh0_TransferList src dst =
     [(DMA_IP_CH_SET_SOURCE_ADDRESS, src), (DMA_IP_CH_SET_DESTINATION_ADDRESS, dst)]"

text \<open>The first \<open>n\<close> iterations of the loop that fills the source buffer (MAX is 10, MIN is 1).\<close>

primrec fill_source :: "nat \<Rightarrow> (nat \<Rightarrow> nat) \<Rightarrow> nat \<Rightarrow> (nat \<Rightarrow> u8) \<Rightarrow> (nat \<Rightarrow> u8)" where
  "fill_source src rand 0 mm = mm"
| "fill_source src rand (Suc n) mm =
     (fill_source src rand n mm)(src + n := of_nat (rand n mod (10 - 1 + 1) + 1))"

definition send_round ::
    "'d machine host \<Rightarrow> u32 \<Rightarrow> u32 \<Rightarrow> (nat \<Rightarrow> nat) \<Rightarrow> driver \<times> 'd machine hw \<Rightarrow> (driver \<times> 'd machine hw) res" where
  "send_round H src dst rand y =
     res_bind (Dma_Ip_SetLogicChannelTransferList H DMA_LOGIC_CH_0 (DmaCh0_TransferList src dst) y)
       (\<lambda>(_, d, s, m).
         let m = m\<lparr>mem := fill_source (unat src) rand 128 (mem m)\<rparr> in
         res_bind (Dma_Ip_SetLogicChannelCommand H DMA_LOGIC_CH_0 DMA_IP_CH_SET_SOFTWARE_REQUEST (d, s, m))
           (\<lambda>(_, y). Inr y))"

text \<open>
  The interrupt of channel 0 is taken while its line is up. The callback counts in a 32-bit
  variable; the semaphore it gives belongs to the kernel.
\<close>

fun DmaCh0_Callback :: "dma_callback \<Rightarrow> u32 \<Rightarrow> u32" where
  "DmaCh0_Callback DmaCh0_Callback_ptr g_DmaCh0_CallbackCounter = g_DmaCh0_CallbackCounter + 1"

definition dma_interrupt ::
    "'d machine host \<Rightarrow> u32 \<Rightarrow> driver \<times> 'd machine hw \<Rightarrow> (u32 \<times> driver \<times> 'd machine hw) res" where
  "dma_interrupt H ctr = (\<lambda>(d, s, m).
     if irq (tcd s ! 0)
     then res_bind (Dma0_Ch0_IRQHandler H (d, s, m)) (\<lambda>(cbs, y). Inr (fold DmaCh0_Callback cbs ctr, y))
     else Inr (ctr, d, s, m))"

datatype std_return = E_OK | E_NOT_OK

text \<open>The comparison from index \<open>Length - n\<close> on.\<close>

primrec buffer_compare :: "(nat \<Rightarrow> u8) \<Rightarrow> nat \<Rightarrow> nat \<Rightarrow> nat \<Rightarrow> nat \<Rightarrow> std_return" where
  "buffer_compare mm pSource pDestination Length 0 = E_OK"
| "buffer_compare mm pSource pDestination Length (Suc n) =
     (if mm (pSource + (Length - Suc n)) \<noteq> mm (pDestination + (Length - Suc n)) then E_NOT_OK
      else buffer_compare mm pSource pDestination Length n)"

definition CHECK_Uint8_BufferCompare :: "(nat \<Rightarrow> u8) \<Rightarrow> nat \<Rightarrow> nat \<Rightarrow> nat \<Rightarrow> std_return" where
  "CHECK_Uint8_BufferCompare mm pSource pDestination Length =
     buffer_compare mm pSource pDestination Length Length"

text \<open>
  The rounds of the two tasks with the interrupt in between; the result holds what each comparison
  returned.
\<close>

fun demo_rounds ::
    "'d machine host \<Rightarrow> u32 \<Rightarrow> u32 \<Rightarrow> (nat \<Rightarrow> nat) list \<Rightarrow> u32 \<times> driver \<times> 'd machine hw \<Rightarrow>
     (std_return list \<times> u32 \<times> driver \<times> 'd machine hw) res" where
  "demo_rounds H src dst [] z = Inr ([], z)"
| "demo_rounds H src dst (rand # rands) (ctr, y) =
     res_bind (send_round H src dst rand y) (\<lambda>y.
     res_bind (dma_interrupt H ctr y) (\<lambda>(ctr, d, s, m).
     res_bind (demo_rounds H src dst rands (ctr, d, s, m)) (\<lambda>(rs, z).
     Inr (CHECK_Uint8_BufferCompare (mem m) (unat src) (unat dst) DMA_CH0_BUFFER_DIMENSION # rs, z))))"

subsection \<open>The buffers\<close>

lemma fill_source_nth:
  "fill_source src rand n mm a =
     (if src \<le> a \<and> a < src + n then of_nat (rand (a - src) mod 10 + 1) else mm a)"
  by (induction n) (auto simp: less_Suc_eq)

lemma buffer_compare_ok:
  "n \<le> l \<Longrightarrow> buffer_compare mm p q l n = E_OK \<longleftrightarrow> (\<forall>i. l - n \<le> i \<and> i < l \<longrightarrow> mm (p + i) = mm (q + i))"
proof (induction n)
  case (Suc n)
  have "l - Suc n \<le> i \<and> i < l \<longleftrightarrow> i = l - Suc n \<or> l - n \<le> i \<and> i < l" for i
    using Suc.prems by auto
  with Suc show ?case by (auto simp: all_conj_distrib)
qed auto

lemma buffer_compare_iff:
  "CHECK_Uint8_BufferCompare mm p q l = E_OK \<longleftrightarrow> (\<forall>i < l. mm (p + i) = mm (q + i))"
  by (simp add: CHECK_Uint8_BufferCompare_def buffer_compare_ok)

subsection \<open>One round\<close>

text \<open>The descriptor and the driver between two rounds.\<close>

definition demo_desc :: "tcd_state \<Rightarrow> bool" where
  "demo_desc ch \<longleftrightarrow> settled ch \<and> plain_copy 2 ch \<and> nbytes_of ch = 128 \<and> tcd_biter ch = 1 \<and>
     bit (tcd_csr ch) 1 \<and> \<not> bit (tcd_csr ch) 2 \<and> \<not> bit (tcd_csr ch) 4 \<and> \<not> bit (tcd_csr ch) 7 \<and>
     ch_es ch = 0"

definition demo_ready :: "driver \<Rightarrow> edma_state \<Rightarrow> bool" where
  "demo_ready d s \<longleftrightarrow> bound d Dma_Ip_xDmaInitPB 0 0 0 \<and>
     StateValue (ch_states d 0) = DMA_IP_CH_TRANSFER_STATE \<and> LogicChErrors (ch_states d 0) = 0 \<and>
     hs_LogicChId (ch_states d 0) = Some (channel_id Dma_Ip_xDmaInitPB 0) \<and>
     length (tcd s) = 32 \<and> edma_idle s \<and> demo_desc (tcd s ! 0) \<and> \<not> irq (tcd s ! 0)"

lemma latch_nothing:
  assumes "c < 12" and "c < length (tcd s)" and "ch_es ch = 0" and "LogicChErrors (ch_states d p) = 0"
  shows "latch_errors DMA_IP_HARDWARE_VERSION_3 0 c p (with_ch s m c ch) d = d"
proof -
  have same: "(ch_states d p)\<lparr>LogicChErrors := 0\<rparr> = ch_states d p"
    using assms(4) by (cases "ch_states d p") simp
  show ?thesis
    by (simp add: latch_errors_with_ch[OF assms(1,2)] latched_def assms(3,4) put_state_def same)
qed

definition addressed :: "u32 \<Rightarrow> u32 \<Rightarrow> tcd_state \<Rightarrow> tcd_state" where
  "addressed src dst ch = (done_set ch)\<lparr>tcd_saddr := src, tcd_daddr := dst\<rparr>"

lemma demo_desc_addressed: "demo_desc ch \<Longrightarrow> demo_desc (addressed src dst ch)"
  by (simp add: demo_desc_def addressed_def settled_def plain_copy_def nbytes_of_def done_set_def)

lemma transfer_list_round:
  assumes "demo_ready d s"
  shows "Dma_Ip_SetLogicChannelTransferList H 0 (DmaCh0_TransferList src dst) (d, s, m) =
    Inr (DMA_IP_STATUS_SUCCESS, d, with_ch s m 0 (addressed src dst (tcd s ! 0)))"
proof -
  from assms have r: "bound d Dma_Ip_xDmaInitPB 0 0 0" "StateValue (ch_states d 0) = DMA_IP_CH_TRANSFER_STATE"
    "LogicChErrors (ch_states d 0) = 0" "0 < length (tcd s)" "settled (tcd s ! 0)" "ch_es (tcd s ! 0) = 0"
    by (auto simp: demo_ready_def demo_desc_def)
  have list: "Static_Dma_Ip_SetLogicChannelTransferList H Dma_Ip_xDmaInitPB 0 (DMA_IP_HWV3_TCD 0 0)
      (DmaCh0_TransferList src dst) (with_ch s m 0 (done_set (tcd s ! 0))) =
      Inr (with_ch s m 0 (addressed src dst (tcd s ! 0)))"
    using each_TransferList_effect[of 0 s "done_set (tcd s ! 0)" "DmaCh0_TransferList src dst"
        Dma_Ip_xDmaInitPB 0 H m] r(4,5)
    by (simp add: DmaCh0_TransferList_def on_hw_channelD[OF demo_on_channel_0] addressed_def)
  show ?thesis
    unfolding with_ch_self[of s m 0]
    by (simp add: Dma_Ip_SetLogicChannelTransferList_def deref_def Let_def boundD[OF r(1)]
        on_hw_channelD[OF demo_on_channel_0] latch_nothing[OF _ r(4)] r ClearDone_effect[OF _ r(4)] list)
qed

definition start_word :: "tcd_state \<Rightarrow> u64" where
  "start_word ch = ucast (set_bits16 0x1 0 1 (tcd_csr ch))"

lemma bit_start_word: "bit (start_word ch) n \<longleftrightarrow> n = 0 \<or> bit (tcd_csr ch) n"
  by (auto simp: start_word_def bit_ucast64 bit_set_bits16 bit_1_iff dest: bit_imp_le_length)

lemma plain_start_word: "demo_desc ch \<Longrightarrow> plain_start (start_word ch)"
  by (simp add: plain_start_def bit_start_word demo_desc_def settled_def)

lemma software_request:
  assumes "demo_ready d s" and "demo_desc ch"
  shows "Dma_Ip_SetLogicChannelCommand H 0 DMA_IP_CH_SET_SOFTWARE_REQUEST (d, with_ch s m 0 ch) =
    res_bind (edma_tcd_write (fst H) (snd H) (set_tcd s 0 ch) (A_TCD TCD_CSR) (start_word ch) 0 m)
      (\<lambda>x. Inr (DMA_IP_STATUS_SUCCESS, d, x))"
proof -
  from assms have r: "bound d Dma_Ip_xDmaInitPB 0 0 0" "StateValue (ch_states d 0) = DMA_IP_CH_TRANSFER_STATE"
    "LogicChErrors (ch_states d 0) = 0" "0 < length (tcd s)" "ch_es ch = 0"
    by (auto simp: demo_ready_def demo_desc_def)
  show ?thesis
    by (simp add: Dma_Ip_SetLogicChannelCommand_def deref_def Let_def boundD[OF r(1)]
        on_hw_channelD[OF demo_on_channel_0] latch_nothing[OF _ r(4)] r HwAccDmaCh_SetCommand_def wrapper_defs
        accessor_defs rmw16_def read_with_ch[OF _ r(4)] reg_write16_def cpu_store_low start_word_def)
      (simp add: with_ch_def)
qed

lemma demo_desc_citer: "demo_desc ch \<Longrightarrow> citer_of ch = 1" "demo_desc ch \<Longrightarrow> biter_of ch = 1"
  by (simp_all add: demo_desc_def settled_def citer_of_eq biter_of_eq take_bit_eq_mod)

lemma transfer_done:
  assumes "demo_ready d s" and "demo_desc ch"
  defines "S \<equiv> unat (tcd_saddr ch)" and "D \<equiv> unat (tcd_daddr ch)"
  assumes "S + 128 < 2 ^ 32" and "D + 128 < 2 ^ 32"
    and "\<And>x. S \<le> x \<Longrightarrow> x < S + 128 \<Longrightarrow> readable_at fv x" and "\<And>x. D \<le> x \<Longrightarrow> x < D + 128 \<Longrightarrow> writable_at fv x"
    and "D \<le> S \<or> S + 128 \<le> D"
  shows "\<exists>s' m'. edma_tcd_write (phys_bus fv) buf (set_tcd s 0 ch) (A_TCD TCD_CSR) (start_word ch) 0 m = Inr (s', m') \<and>
    dev m' = dev m \<and> mem m' = mem_copy D S 128 (mem m) \<and> edma_idle s' \<and>
    tcd s' = (tcd s)[0 := after_request (start_word ch) ch]"
proof -
  have l: "length (tcd s) = 32" "edma_idle s" using assms(1) by (simp_all add: demo_ready_def)
  have idle: "edma_idle (set_tcd s 0 ch)"
    using l assms(2)
    by (auto simp: edma_idle_def start_pending_iff nth_list_update demo_desc_def settled_def)
  have c: "tcd (set_tcd s 0 ch) ! 0 = ch" "tcd (set_tcd s 0 ch) = (tcd s)[0 := ch]"
    "length (tcd (set_tcd s 0 ch)) = 32"
    using l by simp_all
  have n: "nbytes_of ch = 128" "plain_copy 2 ch" using assms(2) by (simp_all add: demo_desc_def)
  obtain s' m' where "edma_tcd_write (phys_bus fv) buf (set_tcd s 0 ch) (A_TCD TCD_CSR) (start_word ch) 0 m = Inr (s', m')"
    "dev m' = dev m" "mem m' = mem_copy D S 128 (mem m)"
    and t: "tcd s' = (tcd (set_tcd s 0 ch))[0 := after_request (start_word ch) (tcd (set_tcd s 0 ch) ! 0)]"
    using pm.start_request[OF idle c(3) _ plain_start_word[OF assms(2)], of 0 2 fv buf m] assms(5-) n
    unfolding c(1) S_def D_def by (auto simp: demo_desc_citer[OF assms(2)])
  moreover have "edma_idle s'" using idle t by (rule idle_after_request)
  moreover have "tcd s' = (tcd s)[0 := after_request (start_word ch) ch]" using t unfolding c(1) by (simp add: c(2))
  ultimately show ?thesis by blast
qed

lemma started_start_word: "demo_desc ch \<Longrightarrow> tcd_csr (started (start_word ch) ch) = tcd_csr ch"
  by (rule bit_word_eqI) (auto simp: bit_started_csr bit_start_word demo_desc_def settled_def intro: gr0I)

lemma demo_citer_cycle:
  "FIELD_DP16 (FIELD_DP16 1 (fld TCD_CITER_CITER) 0) (fld TCD_CITER_CITER) 1 = 1"
  by (rule bit_word_eqI) (auto simp: bit_FIELD_DP16 field_consts field_in_def bit_1_iff)

text \<open>The descriptor after the transfer, and after the interrupt is acknowledged.\<close>

definition acknowledged :: "tcd_state \<Rightarrow> tcd_state" where
  "acknowledged ch = irq_refresh (ch\<lparr>ch_int := ch_int ch AND NOT 1\<rparr>)"

lemma after_request_demo:
  assumes "demo_desc ch"
  shows "demo_desc (after_request (start_word ch) ch)" and "bit (ch_int (after_request (start_word ch) ch)) 0"
    and "irq (after_request (start_word ch) ch)"
proof -
  let ?ch = "after_request (start_word ch) ch"
  have one: "citer_of ch = 1" "tcd_citer ch = 1" "tcd_biter ch = 1"
    using assms by (simp_all add: demo_desc_citer demo_desc_def settled_def)
  have b: "biter_of (request_served (started (start_word ch) ch)) = 1"
    using one by (simp add: biter_of_eq take_bit_eq_mod)
  have "tcd_csr ?ch = tcd_csr ch" by (simp add: after_request_csr started_start_word[OF assms])
  moreover have "tcd_citer ?ch = 1"
    using one demo_citer_cycle by (simp add: after_request_def b)
  moreover have "tcd_biter ?ch = 1" "tcd_nbytes_mloff ?ch = tcd_nbytes_mloff ch" "tcd_attr ?ch = tcd_attr ch"
    "tcd_soff ?ch = tcd_soff ch" "tcd_doff ?ch = tcd_doff ch" "ch_es ?ch = ch_es ch"
    using one by (simp_all add: after_request_def)
      (simp_all add: major_served_def request_served_def irq_refresh_def started_def edma_start_channel_def)
  ultimately show "demo_desc ?ch"
    using assms by (simp add: demo_desc_def settled_def plain_copy_def nbytes_of_def)
  have "copy_completed 1 (start_word ch) ch ?ch" using one(1) by (rule after_request_last)
  then show "bit (ch_int ?ch) 0" "irq ?ch"
    using assms by (simp_all add: copy_completed_def bit_start_word demo_desc_def)
qed

lemma acknowledged_demo:
  assumes "demo_desc ch"
  shows "demo_desc (acknowledged ch)" and "\<not> irq (acknowledged ch)" and "tcd_csr (acknowledged ch) = tcd_csr ch"
proof -
  have "\<not> irq_cond ch"
    using assms demo_desc_citer[OF assms]
    by (simp add: irq_cond_def csr_flag_iff fld.simps demo_desc_def)
  then show "\<not> irq (acknowledged ch)" by (simp add: acknowledged_def irq_refresh_irq bit_simps)
  show "demo_desc (acknowledged ch)" "tcd_csr (acknowledged ch) = tcd_csr ch"
    using assms
    by (simp_all add: acknowledged_def demo_desc_def settled_def plain_copy_def nbytes_of_def irq_refresh_def)
qed

lemma write_CH_INT:
  assumes "c < 12" and "c < length (tcd s)"
  shows "reg_write32 H (DMA_IP_HWV3_TCD 0 c) CH_INT 0x1 (s, m) =
    Inr (edma_tcd_update_irq (set_tcd s c ((tcd s ! c)\<lparr>ch_int := ch_int (tcd s ! c) AND NOT 1\<rparr>)) c, m)"
  using assms by (simp add: reg_write32_def cpu_store_low edma_tcd_write_def tcd_reg_at_A Let_def R_MASK_CH_INT)

lemma interrupt_round:
  assumes "bound d Dma_Ip_xDmaInitPB 0 0 0" and "hs_LogicChId (ch_states d 0) = Some (channel_id Dma_Ip_xDmaInitPB 0)"
    and "0 < length (tcd s)" and "demo_desc (tcd s ! 0)" and "bit (ch_int (tcd s ! 0)) 0" and "irq (tcd s ! 0)"
  shows "\<exists>s'. dma_interrupt H ctr (d, s, m) = Inr (ctr + 1, d, s', m) \<and>
    tcd s' = (tcd s)[0 := acknowledged (tcd s ! 0)]"
proof -
  note read = read_with_ch[OF _ assms(3), of m "tcd s ! 0", folded with_ch_self]
  have int: "ch_int (tcd s ! 0) AND 1 \<noteq> 0" using assms(5) by (simp add: and_one_eq odd_iff_mod_2_eq_one bit_0)
  have en: "(ucast (tcd_csr (tcd s ! 0)) :: u32) AND (0x2 OR 0x4) \<noteq> 0"
  proof
    assume "(ucast (tcd_csr (tcd s ! 0)) :: u32) AND (0x2 OR 0x4) = 0"
    then have "\<not> bit ((ucast (tcd_csr (tcd s ! 0)) :: u32) AND (0x2 OR 0x4)) 1" by simp
    then show False using assms(4) by (simp add: bit_simps demo_desc_def)
  qed
  have es: "ch_es (tcd s ! 0) = 0" using assms(4) by (simp add: demo_desc_def)
  have "IntCallback (channel_id Dma_Ip_xDmaInitPB 0) = Some DmaCh0_Callback_ptr"
    by (simp add: demo_channel LogicChannel0ConfigPB_def)
  then have "dma_interrupt H ctr (d, s, m) = Inr (ctr + 1, d,
      edma_tcd_update_irq (set_tcd s 0 ((tcd s ! 0)\<lparr>ch_int := ch_int (tcd s ! 0) AND NOT 1\<rparr>)) 0, m)"
    using int en
    by (simp add: dma_interrupt_def assms(2,6) Dma0_Ch0_IRQHandler_def IrqHandler_def Let_def read es
        write_CH_INT[OF _ assms(3)] Dma_Ip_IntIrqHandler_def deref_def
        boundD(4)[OF assms(1), unfolded DMA_IP_HARDWARE_VERSION_3_def])
  then show ?thesis
    using assms(3) by (simp add: update_irq_tcd acknowledged_def)
qed

text \<open>The two buffers: in RAM, without wrap-around and apart from each other.\<close>

definition buffers_ok :: "'d flatview \<Rightarrow> u32 \<Rightarrow> u32 \<Rightarrow> bool" where
  "buffers_ok fv src dst \<longleftrightarrow> unat src + 128 < 2 ^ 32 \<and> unat dst + 128 < 2 ^ 32 \<and>
     (\<forall>i < 128. writable_at fv (unat src + i) \<and> writable_at fv (unat dst + i)) \<and>
     (unat dst + 128 \<le> unat src \<or> unat src + 128 \<le> unat dst)"

lemma buffers_range:
  assumes "\<forall>i < n. P (a + i)" and "a \<le> x" and "x < a + n"
  shows "P (x :: nat)"
  using assms(1)[rule_format, of "x - a"] assms(2,3) by simp

definition round_memory :: "u32 \<Rightarrow> u32 \<Rightarrow> (nat \<Rightarrow> nat) \<Rightarrow> (nat \<Rightarrow> u8) \<Rightarrow> (nat \<Rightarrow> u8)" where
  "round_memory src dst rand mm = mem_copy (unat dst) (unat src) 128 (fill_source (unat src) rand 128 mm)"

lemma send_round_effect:
  assumes "demo_ready d s" and "buffers_ok fv src dst"
  shows "\<exists>s' m'. send_round (phys_bus fv, buf) src dst rand (d, s, m) = Inr (d, s', m') \<and>
    dev m' = dev m \<and> mem m' = round_memory src dst rand (mem m) \<and> edma_idle s' \<and>
    (\<exists>ch. tcd s' = (tcd s)[0 := ch] \<and> demo_desc ch \<and> bit (ch_int ch) 0 \<and> irq ch)"
proof -
  define ch where "ch = addressed src dst (tcd s ! 0)"
  have ch: "demo_desc ch" "tcd_saddr ch = src" "tcd_daddr ch = dst"
    using assms(1) demo_desc_addressed by (simp_all add: ch_def demo_ready_def) (simp_all add: addressed_def)
  define m0 where "m0 = m\<lparr>mem := fill_source (unat src) rand 128 (mem m)\<rparr>"
  have b: "unat src + 128 < 2 ^ 32" "unat dst + 128 < 2 ^ 32" "unat dst \<le> unat src \<or> unat src + 128 \<le> unat dst"
    and w: "\<forall>i < 128. writable_at fv (unat dst + i)" "\<forall>i < 128. writable_at fv (unat src + i)"
    using assms(2) by (auto simp: buffers_ok_def)
  have "readable_at fv x" if "unat src \<le> x" "x < unat src + 128" for x
    using buffers_range[OF w(2) that] by (rule writable_imp_readable)
  with transfer_done[OF assms(1) ch(1), of fv buf m0] b buffers_range[OF w(1)] obtain s' m' where
    t: "edma_tcd_write (phys_bus fv) buf (set_tcd s 0 ch) (A_TCD TCD_CSR) (start_word ch) 0 m0 = Inr (s', m')"
    "dev m' = dev m0" "mem m' = mem_copy (unat dst) (unat src) 128 (mem m0)" "edma_idle s'"
    "tcd s' = (tcd s)[0 := after_request (start_word ch) ch]"
    unfolding ch(2,3) by blast
  have "send_round (phys_bus fv, buf) src dst rand (d, s, m) = Inr (d, s', m')"
    using software_request[OF assms(1) ch(1), of "(phys_bus fv, buf)" m0] t(1)
    by (simp add: send_round_def DMA_LOGIC_CH_0_def transfer_list_round[OF assms(1)] ch_def[symmetric]
        with_ch_def m0_def Let_def)
  with t after_request_demo[OF ch(1)] show ?thesis by (auto simp: m0_def round_memory_def)
qed

subsection \<open>Any number of rounds\<close>

lemma round_memory_nth:
  assumes "buffers_ok fv src dst"
  shows "i < 128 \<Longrightarrow> round_memory src dst rand mm (unat src + i) = of_nat (rand i mod 10 + 1)"
    and "i < 128 \<Longrightarrow> round_memory src dst rand mm (unat dst + i) = of_nat (rand i mod 10 + 1)"
    and "\<not> (unat src \<le> a \<and> a < unat src + 128) \<Longrightarrow> \<not> (unat dst \<le> a \<and> a < unat dst + 128) \<Longrightarrow>
      round_memory src dst rand mm a = mm a"
  using assms by (auto simp: round_memory_def mem_copy_def fill_source_nth buffers_ok_def)

lemma demo_round:
  assumes "demo_ready d s" and "buffers_ok fv src dst"
  shows "\<exists>y s' m'. send_round (phys_bus fv, buf) src dst rand (d, s, m) = Inr y \<and>
    dma_interrupt (phys_bus fv, buf) ctr y = Inr (ctr + 1, d, s', m') \<and> demo_ready d s' \<and>
    dev m' = dev m \<and> mem m' = round_memory src dst rand (mem m)"
proof -
  from send_round_effect[OF assms, of buf rand m] obtain s1 m1 ch where
    r: "send_round (phys_bus fv, buf) src dst rand (d, s, m) = Inr (d, s1, m1)" "dev m1 = dev m"
      "mem m1 = round_memory src dst rand (mem m)" "edma_idle s1"
    and ch: "tcd s1 = (tcd s)[0 := ch]" "demo_desc ch" "bit (ch_int ch) 0" "irq ch" by blast
  have d: "bound d Dma_Ip_xDmaInitPB 0 0 0" "hs_LogicChId (ch_states d 0) = Some (channel_id Dma_Ip_xDmaInitPB 0)"
    "length (tcd s) = 32"
    using assms(1) by (simp_all add: demo_ready_def)
  with ch interrupt_round[OF d(1,2), of s1 "(phys_bus fv, buf)" ctr m1] obtain s' where
    s': "dma_interrupt (phys_bus fv, buf) ctr (d, s1, m1) = Inr (ctr + 1, d, s', m1)"
      "tcd s' = (tcd s1)[0 := acknowledged ch]" by auto
  have "\<not> bit (tcd_csr ch) 0" using ch(2) by (simp add: demo_desc_def settled_def)
  with r(4) ch(1) d(3) acknowledged_demo(3)[OF ch(2)] s'(2) have "edma_idle s'"
    by (auto simp: edma_idle_def start_pending_iff nth_list_update)
  with assms(1) acknowledged_demo[OF ch(2)] s'(2) ch(1) have "demo_ready d s'"
    by (simp add: demo_ready_def)
  with r s' show ?thesis by blast
qed

lemma demo_rounds_ok:
  assumes "demo_ready d s" and "buffers_ok fv src dst"
  shows "\<exists>s' m'. demo_rounds (phys_bus fv, buf) src dst rands (ctr, d, s, m) =
      Inr (replicate (length rands) E_OK, ctr + of_nat (length rands), d, s', m') \<and>
    demo_ready d s' \<and> dev m' = dev m \<and> mem m' = fold (round_memory src dst) rands (mem m)"
  using assms(1)
proof (induction rands arbitrary: ctr s m)
  case (Cons rand rands)
  from demo_round[OF Cons.prems assms(2), of buf rand m ctr] obtain y s1 m1 where
    r: "send_round (phys_bus fv, buf) src dst rand (d, s, m) = Inr y"
      "dma_interrupt (phys_bus fv, buf) ctr y = Inr (ctr + 1, d, s1, m1)" "demo_ready d s1"
      "dev m1 = dev m" "mem m1 = round_memory src dst rand (mem m)" by blast
  have "CHECK_Uint8_BufferCompare (mem m1) (unat src) (unat dst) DMA_CH0_BUFFER_DIMENSION = E_OK"
    by (simp add: buffer_compare_iff r(5) round_memory_nth[OF assms(2)] DMA_CH0_BUFFER_DIMENSION_def)
  with r Cons.IH[OF r(3), of "ctr + 1" m1] show ?case by (auto simp: algebra_simps)
qed simp

subsection \<open>Initialisation\<close>

lemma tcd_global_write [simp]: "tcd (edma_global_write s o' v) = tcd s"
  by (simp add: edma_global_write_def Let_def split: option.split edma_reg.split)

lemma store_global:
  assumes "o' < 0x4000"
  shows "cpu_store H (DMA_IP_BASE + o') v (s, m) = Inr (edma_global_write s o' v, m)"
  using assms by (simp add: cpu_store_def DMA_IP_BASE_def EDMA_BASE_ADDRESS_def edma_mmio0_size_def edma0_write_def)

lemma mp_offset_lt: "mp_offset r < 0x4000" "c < 32 \<Longrightarrow> grpri_offset c < 0x4000"
  by (cases r; simp add: mp_offset.simps) (simp add: grpri_offset_def)

lemma init_instance_effect:
  "\<exists>s'. init_instance H Dma_Ip_xDmaInitPB 0 (s, m) = Inr (s', m) \<and> tcd s' = tcd s"
  by (simp add: init_instance_def Dma_Ip_xDmaInitPB_def LogicInstance0ConfigPB_def HwAccDmaInst_SetConfig_def
      hwv3_def DMA_IP_HARDWARE_VERSION_3_def Dma_Ip_paxHwv3BaseInst_def hwv3AccInlineDmaInst_SetConfig_def
      Let_def mp_write_def store_global mp_offset_lt)

text \<open>A global parameter changes no descriptor: the controller keeps only the group priorities.\<close>

lemma keeps_bit:
  fixes w :: u32
  assumes "\<not> bit msk k"
  shows "w AND NOT (2 ^ k) OR set_bits32 msk sh v w AND 2 ^ k = w"
  using assms
  by (intro bit_word_eqI) (auto simp: bit_and_iff bit_or_iff bit_not_iff bit_exp_iff bit_set_bits32)

lemma keeps_DONE: "\<not> bit msk 30 \<Longrightarrow> w AND - 0x40000001 OR set_bits32 msk sh v w AND 0x40000000 = w"
  using keeps_bit[of msk 30 w sh v] by simp

lemma global_param_effect:
  assumes "c < 12" and "c < length (tcd s)"
  shows "\<exists>s'. HwAccDmaCh_SetGlobalParam H p DMA_IP_HARDWARE_VERSION_3 0 c v (s, m) = Inr (s', m) \<and> tcd s' = tcd s"
proof (cases "p = DMA_IP_CH_SET_GROUP_PRIORITY")
  case True
  with assms(1) show ?thesis
    by (simp add: HwAccDmaCh_SetGlobalParam_def wrapper_defs Dma_Ip_paxHwv3BaseInst_def
        hwv3AccInlineDmaCh_SetPriority_Group_def Let_def store_global mp_offset_lt)
next
  case False
  have "HwAccDmaCh_SetGlobalParam H p DMA_IP_HARDWARE_VERSION_3 0 c v (with_ch s m c (tcd s ! c)) =
      Inr (with_ch s m c (tcd s ! c))"
    using False assms
    by (cases p) (simp_all add: HwAccDmaCh_SetGlobalParam_def wrapper_defs accessor_defs rmw32_def
        read_with_ch write32_with_ch keeps_DONE)
  then show ?thesis by (simp add: with_ch_self[symmetric])
qed

lemma global_list_effect:
  assumes "c < 12" and "c < length (tcd s)"
  shows "\<exists>s'. Static_Dma_Ip_SetLogicChannelGlobalList H DMA_IP_HARDWARE_VERSION_3 0 c params (s, m) = Inr (s', m) \<and>
    tcd s' = tcd s"
  using assms(2)
proof (induction params arbitrary: s)
  case Nil
  then show ?case by (simp add: Static_Dma_Ip_SetLogicChannelGlobalList_def)
next
  case (Cons a params)
  obtain p v where a: "a = (p, v)" by (cases a)
  from global_param_effect[OF assms(1) Cons.prems, of H p v m] obtain s1 where
    s1: "HwAccDmaCh_SetGlobalParam H p DMA_IP_HARDWARE_VERSION_3 0 c v (s, m) = Inr (s1, m)" "tcd s1 = tcd s"
    by blast
  with Cons.IH[of s1] Cons.prems show ?case
    by (simp add: Static_Dma_Ip_SetLogicChannelGlobalList_def a)
qed

definition sg_off :: "tcd_state \<Rightarrow> tcd_state" where
  "sg_off ch = ch\<lparr>tcd_csr := set_bits16 0x10 4 0 (tcd_csr ch), tcd_dlast_sga := 0\<rparr>"

lemma sg_off_effect:
  assumes "c < 12" and "c < length (tcd s)" and "settled ch"
  shows "res_bind (HwAccDmaCh_SetControl_EnScatterGatherProcessing H DMA_IP_HARDWARE_VERSION_3 (DMA_IP_HWV3_TCD 0 c) False (with_ch s m c ch))
      (HwAccDmaCh_SetControl_ScatterGatherAddress H DMA_IP_HARDWARE_VERSION_3 (DMA_IP_HWV3_TCD 0 c) 0) =
    Inr (with_ch s m c (sg_off ch)) \<and> settled (sg_off ch)"
  using assms
  by (simp add: HwAccDmaCh_SetControl_EnScatterGatherProcessing_def HwAccDmaCh_SetControl_ScatterGatherAddress_def
      hwv3_def accessor_defs rmw16_def read_with_ch write16_with_ch write32_with_ch settled_def bit_set_bits16 sg_off_def)

lemma demo_desc_loaded:
  assumes "settled ch" and "ch_es ch = 0"
  shows "demo_desc (loaded ini LogicChannel0TransferConfigPB (sg_off ch))"
proof -
  have s: "settled (sg_off ch)" "\<not> bit (tcd_csr (sg_off ch)) 4"
    using assms(1) by (simp_all add: sg_off_def settled_def bit_set_bits16)
  note l = loaded_csr[OF demo_config_supported(1), unfolded One_nat_def] loaded_count[OF s(1) demo_config_supported(1)]
    loaded_nbytes[OF s(1) demo_config_supported(1)] loaded_fields[OF s(1)] loaded_attr
  have "\<not> bit (tcd_nbytes_mloff (loaded ini LogicChannel0TransferConfigPB (sg_off ch))) 31"
    "\<not> bit (tcd_nbytes_mloff (loaded ini LogicChannel0TransferConfigPB (sg_off ch))) 30"
    by (simp_all add: loaded_def transfer_list_def Let_def bit_set_bits32 LogicChannel0TransferConfigPB_def)
  then show ?thesis
    using assms(2) s(2)
    by (simp add: demo_desc_def settled_def plain_copy_def l)
      (simp add: LogicChannel0TransferConfigPB_def take_bit_eq_mod sg_off_def)
qed

lemma load_transfer_effect:
  assumes "bound d Dma_Ip_xDmaInitPB 0 0 p" and "0 < length (tcd s)" and "settled (tcd s ! 0)"
  shows "load_transfer H Dma_Ip_xDmaInitPB 0 (d, s, m) =
    Inr (DMA_IP_STATUS_SUCCESS,
      put_state p ((ch_states d p)\<lparr>StateValue := next_state (StateValue (ch_states d p)) DMA_IP_CH_TRANSFER_EVENT\<rparr>) d,
      with_ch s m 0 (loaded Dma_Ip_xDmaInitPB LogicChannel0TransferConfigPB (sg_off (tcd s ! 0))))"
proof -
  from sg_off_effect[OF _ assms(2,3), of H m] obtain x where
    x: "HwAccDmaCh_SetControl_EnScatterGatherProcessing H DMA_IP_HARDWARE_VERSION_3 (DMA_IP_HWV3_TCD 0 0) False
        (with_ch s m 0 (tcd s ! 0)) = Inr x"
      "HwAccDmaCh_SetControl_ScatterGatherAddress H DMA_IP_HARDWARE_VERSION_3 (DMA_IP_HWV3_TCD 0 0) 0 x =
        Inr (with_ch s m 0 (sg_off (tcd s ! 0)))"
    and s: "settled (sg_off (tcd s ! 0))" by (auto simp: res_bind_eq_Inr_iff)
  have cfg: "pxTransferConfig (ppxLogicChannelConfigArray Dma_Ip_xDmaInitPB ! 0) = Some LogicChannel0TransferConfigPB"
    "LogicChId (channel_id Dma_Ip_xDmaInitPB 0) = 0"
    by (simp_all add: Dma_Ip_xDmaInitPB_def channel_id_def LogicChannel0ConfigPB_def)
  show ?thesis
    unfolding with_ch_self[of s m 0]
    using TransferConfig_loaded[OF demo_on_channel_0 _ assms(2) s demo_config_supported, of H m]
    by (simp add: load_transfer_def Let_def cfg on_hw_channelD[OF demo_on_channel_0] x
        SetHwChannelState_next[OF boundD(3)[OF assms(1)]])
qed

lemma load_global_effect:
  assumes "0 < length (tcd s)"
  shows "\<exists>s'. load_global H Dma_Ip_xDmaInitPB 0 (s, m) = Inr (DMA_IP_STATUS_SUCCESS, s', m) \<and> tcd s' = tcd s"
proof -
  have cfg: "pxGlobalConfig (ppxLogicChannelConfigArray Dma_Ip_xDmaInitPB ! 0) = Some LogicChannel0GlobalConfigPB"
    "LogicChId (channel_id Dma_Ip_xDmaInitPB 0) = 0"
    by (simp_all add: Dma_Ip_xDmaInitPB_def channel_id_def LogicChannel0ConfigPB_def)
  from global_list_effect[OF _ assms, of H "global_list LogicChannel0GlobalConfigPB" m] obtain s' where
    "Static_Dma_Ip_SetLogicChannelGlobalList H DMA_IP_HARDWARE_VERSION_3 0 0 (global_list LogicChannel0GlobalConfigPB)
      (s, m) = Inr (s', m)" "tcd s' = tcd s" by auto
  then show ?thesis
    by (simp add: load_global_def Let_def cfg Static_Dma_Ip_SetLogicChannelGlobalConfig_def
        on_hw_channelD[OF demo_on_channel_0])
qed

lemma channel_init_effect:
  assumes "bound d Dma_Ip_xDmaInitPB 0 0 0" and "StateValue (ch_states d 0) = DMA_IP_CH_RESET_STATE"
    and "0 < length (tcd s)" and "settled (tcd s ! 0)"
  shows "\<exists>d' s'. Dma_Ip_LogicChannelInit H 0 (d, s, m) = Inr (DMA_IP_STATUS_SUCCESS, d', s', m) \<and>
    bound d' Dma_Ip_xDmaInitPB 0 0 0 \<and>
    ch_states d' 0 = (ch_states d 0)\<lparr>hs_LogicChId := Some (channel_id Dma_Ip_xDmaInitPB 0),
      StateValue := DMA_IP_CH_TRANSFER_STATE\<rparr> \<and>
    tcd s' = (tcd s)[0 := loaded Dma_Ip_xDmaInitPB LogicChannel0TransferConfigPB (sg_off (tcd s ! 0))]"
proof -
  define d1 where "d1 = put_state 0 ((ch_states d 0)\<lparr>hs_LogicChId := Some (channel_id Dma_Ip_xDmaInitPB 0),
    StateValue := DMA_IP_CH_READY_STATE\<rparr>) d"
  define ch where "ch = loaded Dma_Ip_xDmaInitPB LogicChannel0TransferConfigPB (sg_off (tcd s ! 0))"
  have d1: "bound d1 Dma_Ip_xDmaInitPB 0 0 0" using assms(1) by (simp add: d1_def)
  from load_global_effect[of "set_tcd s 0 ch" H m] assms(3) obtain s' where
    s': "load_global H Dma_Ip_xDmaInitPB 0 (set_tcd s 0 ch, m) = Inr (DMA_IP_STATUS_SUCCESS, s', m)"
      "tcd s' = (tcd s)[0 := ch]" by auto
  have b: "ptHwChV3StateArray d 0 0 = Some 0" using assms(1) by (simp add: bound_def)
  have "Dma_Ip_LogicChannelInit H 0 (d, s, m) = Inr (DMA_IP_STATUS_SUCCESS,
      put_state 0 ((ch_states d1 0)\<lparr>StateValue := DMA_IP_CH_TRANSFER_STATE\<rparr>) d1, s', m)"
    using load_transfer_effect[OF d1 assms(3,4), of H m] s'(1)
    by (simp add: Dma_Ip_LogicChannelInit_def deref_def Let_def boundD[OF assms(1)] assms(2) b
        on_hw_channelD[OF demo_on_channel_0] SetHwChannelState_next d1_def ch_def with_ch_def)
  with s'(2) d1 show ?thesis by (simp add: ch_def d1_def)
qed

lemma demo_init:
  "\<exists>d s. Dma_Ip_Init H Dma_Ip_xDmaInitPB (driver_cleared, edma_realize, m) =
      Inr (DMA_IP_STATUS_SUCCESS, d, s, m) \<and> demo_ready d s"
proof -
  define d0 where "d0 = driver_cleared\<lparr>Dma_Ip_pxInit := Some Dma_Ip_xDmaInitPB,
    ptHwChV3StateArray := (\<lambda>_ _. None)(0 := (\<lambda>_. None)(0 := Some 0))\<rparr>"
  from init_instance_effect[of H edma_realize m] obtain s0 where
    s0: "init_instance H Dma_Ip_xDmaInitPB 0 (edma_realize, m) = Inr (s0, m)" "tcd s0 = tcd edma_realize" by blast
  have t: "0 < length (tcd s0)" "settled (tcd s0 ! 0)" "ch_es (tcd s0 ! 0) = 0" "\<not> irq (tcd s0 ! 0)" "edma_idle s0"
    by (auto simp: s0(2) edma_realize_length edma_realize_tcd settled_reset edma_idle_def start_pending_iff)
      (simp_all add: edma_tcd_reset_def)
  have "bound d0 Dma_Ip_xDmaInitPB 0 0 0" "StateValue (ch_states d0 0) = DMA_IP_CH_RESET_STATE"
    by (simp_all add: bound_def d0_def demo_on_channel_0 driver_cleared_def)
  from channel_init_effect[OF this t(1,2), of H m] obtain d s where
    i: "Dma_Ip_LogicChannelInit H 0 (d0, s0, m) = Inr (DMA_IP_STATUS_SUCCESS, d, s, m)"
      "bound d Dma_Ip_xDmaInitPB 0 0 0"
      "ch_states d 0 = (ch_states d0 0)\<lparr>hs_LogicChId := Some (channel_id Dma_Ip_xDmaInitPB 0),
        StateValue := DMA_IP_CH_TRANSFER_STATE\<rparr>"
      "tcd s = (tcd s0)[0 := loaded Dma_Ip_xDmaInitPB LogicChannel0TransferConfigPB (sg_off (tcd s0 ! 0))]"
    by blast
  let ?ch = "loaded Dma_Ip_xDmaInitPB LogicChannel0TransferConfigPB (sg_off (tcd s0 ! 0))"
  have "demo_desc ?ch" using t(2,3) by (rule demo_desc_loaded)
  moreover from this have "\<not> bit (tcd_csr ?ch) 0" by (simp add: demo_desc_def settled_def)
  moreover have "irq ?ch = irq (tcd s0 ! 0)"
    using t(2) loaded_fields(9)[of "sg_off (tcd s0 ! 0)"] by (simp add: sg_off_def settled_def bit_set_bits16)
  ultimately have "demo_ready d s"
    using i(2-4) t s0(2)
    by (auto simp: demo_ready_def edma_realize_length edma_idle_def start_pending_iff nth_list_update
        d0_def driver_cleared_def)
  moreover have "ppxChStateArray Dma_Ip_xDmaInitPB = [0]" by (simp add: Dma_Ip_xDmaInitPB_def)
  then have "Dma_Ip_Init H Dma_Ip_xDmaInitPB (driver_cleared, edma_realize, m) = Inr (DMA_IP_STATUS_SUCCESS, d, s, m)"
    using i(1) s0(1)
    by (simp add: Dma_Ip_Init_def DMA_IP_NOF_CFG_LOGIC_INSTANCES_def DMA_IP_NOF_CFG_LOGIC_CHANNELS_def Let_def
        init_channel_def on_hw_channelD[OF demo_on_channel_0] Dma_Ip_SetHwChannelStatePointer_def
        Dma_Ip_GetHwChannelStatePointer_def d0_def driver_cleared_def)
  ultimately show ?thesis by blast
qed

text \<open>The whole run: initialisation of the driver, then the rounds.\<close>

definition demo_run ::
    "'d machine host \<Rightarrow> u32 \<Rightarrow> u32 \<Rightarrow> (nat \<Rightarrow> nat) list \<Rightarrow> 'd machine \<Rightarrow>
     (std_return list \<times> u32 \<times> driver \<times> 'd machine hw) res" where
  "demo_run H src dst rands m =
     res_bind (Dma_Ip_Init H Dma_Ip_xDmaInitPB (driver_cleared, edma_realize, m))
       (\<lambda>(_, y). demo_rounds H src dst rands (0, y))"

lemma demo_run_ok:
  assumes "buffers_ok fv src dst"
  shows "\<exists>d s m'. demo_run (phys_bus fv, buf) src dst rands m =
      Inr (replicate (length rands) E_OK, of_nat (length rands), d, s, m') \<and> \<not> irq (tcd s ! 0) \<and>
    dev m' = dev m \<and> mem m' = fold (round_memory src dst) rands (mem m)"
proof -
  from demo_init[of "(phys_bus fv, buf)" m] obtain d s where
    i: "Dma_Ip_Init (phys_bus fv, buf) Dma_Ip_xDmaInitPB (driver_cleared, edma_realize, m) =
      Inr (DMA_IP_STATUS_SUCCESS, d, s, m)" "demo_ready d s" by blast
  from demo_rounds_ok[OF i(2) assms, of buf rands 0 m] i(1) show ?thesis
    by (auto simp: demo_run_def demo_ready_def)
qed

lemma round_memory_last:
  assumes "buffers_ok fv src dst" and "i < 128"
  shows "fold (round_memory src dst) (rands @ [rand]) mm (unat dst + i) = of_nat (rand i mod 10 + 1)"
    and "fold (round_memory src dst) (rands @ [rand]) mm (unat src + i) = of_nat (rand i mod 10 + 1)"
  by (simp_all add: round_memory_nth(1,2)[OF assms])

lemma round_memory_frame:
  assumes "buffers_ok fv src dst"
    and "\<not> (unat src \<le> a \<and> a < unat src + 128)" and "\<not> (unat dst \<le> a \<and> a < unat dst + 128)"
  shows "fold (round_memory src dst) rands mm a = mm a"
  by (induction rands arbitrary: mm) (simp_all add: round_memory_nth(3)[OF assms])

end
