(* ===== verification/Rtos_List.thy ===== *)
theory Rtos_List
  imports Prelude "HOL-Library.Multiset"
begin

section \<open>FreeRTOS lists\<close>

text \<open>
  \<^verbatim>\<open>FreeRTOS/Source/list.c\<close> and the macros of \<^verbatim>\<open>list.h\<close>: circular doubly linked lists with an
  end marker and an index that walks through the list. The heap gives the fields of every list item and
  of every list; an item is addressed by \<open>Item n\<close>, the end marker inside the list \<open>l\<close> by
  \<open>ListEnd l\<close>. With the configuration of the demo the integrity checks are empty and the marker is a
  mini item, so that nothing reads its owner or container.

  The abstraction \<open>is_list h l xs\<close> says that the list \<open>l\<close> holds the items \<open>xs\<close> in order; each
  operation is shown to do to \<open>xs\<close> what its documentation says and to leave other lists alone. The
  search loop of \<open>vListInsert\<close> is a partial function; that it returns is part of the theorem.
\<close>

subsection \<open>Heap and operations\<close>

datatype list_item = Item nat | ListEnd nat

record list_heap =
  xItemValue :: "list_item \<Rightarrow> u32"
  pxNext :: "list_item \<Rightarrow> list_item"
  pxPrevious :: "list_item \<Rightarrow> list_item"
  pvOwner :: "list_item \<Rightarrow> nat"
  pxContainer :: "list_item \<Rightarrow> nat option"
  uxNumberOfItems :: "nat \<Rightarrow> u32"
  pxIndex :: "nat \<Rightarrow> list_item"

definition portMAX_DELAY :: u32 where
  "portMAX_DELAY = 0xFFFFFFFF"

definition set_next :: "list_item \<Rightarrow> list_item \<Rightarrow> list_heap \<Rightarrow> list_heap" where
  "set_next p q h = h\<lparr>pxNext := (pxNext h)(p := q)\<rparr>"

definition set_prev :: "list_item \<Rightarrow> list_item \<Rightarrow> list_heap \<Rightarrow> list_heap" where
  "set_prev p q h = h\<lparr>pxPrevious := (pxPrevious h)(p := q)\<rparr>"

definition set_container :: "list_item \<Rightarrow> nat option \<Rightarrow> list_heap \<Rightarrow> list_heap" where
  "set_container p c h = h\<lparr>pxContainer := (pxContainer h)(p := c)\<rparr>"

definition set_index :: "nat \<Rightarrow> list_item \<Rightarrow> list_heap \<Rightarrow> list_heap" where
  "set_index l p h = h\<lparr>pxIndex := (pxIndex h)(l := p)\<rparr>"

definition set_count :: "nat \<Rightarrow> u32 \<Rightarrow> list_heap \<Rightarrow> list_heap" where
  "set_count l n h = h\<lparr>uxNumberOfItems := (uxNumberOfItems h)(l := n)\<rparr>"

lemmas heap_ops = set_next_def set_prev_def set_container_def set_index_def set_count_def

definition vListInitialise :: "nat \<Rightarrow> list_heap \<Rightarrow> list_heap" where
  "vListInitialise l h =
     (let h = set_index l (ListEnd l) h;
          h = h\<lparr>xItemValue := (xItemValue h)(ListEnd l := portMAX_DELAY)\<rparr>;
          h = set_next (ListEnd l) (ListEnd l) h;
          h = set_prev (ListEnd l) (ListEnd l) h
      in set_count l 0 h)"

definition vListInitialiseItem :: "list_item \<Rightarrow> list_heap \<Rightarrow> list_heap" where
  "vListInitialiseItem p h = set_container p None h"

definition vListInsertEnd :: "nat \<Rightarrow> list_item \<Rightarrow> list_heap \<Rightarrow> list_heap" where
  "vListInsertEnd l new h =
     (let index = pxIndex h l;
          h = set_next new index h;
          h = set_prev new (pxPrevious h index) h;
          h = set_next (pxPrevious h index) new h;
          h = set_prev index new h;
          h = set_container new (Some l) h
      in set_count l (uxNumberOfItems h l + 1) h)"

partial_function (option) insert_position :: "list_heap \<Rightarrow> u32 \<Rightarrow> list_item \<Rightarrow> list_item option" where
  "insert_position h v it =
     (if xItemValue h (pxNext h it) \<le> v then insert_position h v (pxNext h it) else Some it)"

definition list_insert_after :: "nat \<Rightarrow> list_item \<Rightarrow> list_item \<Rightarrow> list_heap \<Rightarrow> list_heap" where
  "list_insert_after l it new h =
     (let h = set_next new (pxNext h it) h;
          h = set_prev (pxNext h new) new h;
          h = set_prev new it h;
          h = set_next it new h;
          h = set_container new (Some l) h
      in set_count l (uxNumberOfItems h l + 1) h)"

definition vListInsert :: "nat \<Rightarrow> list_item \<Rightarrow> list_heap \<Rightarrow> list_heap option" where
  "vListInsert l new h =
     (let v = xItemValue h new in
      case (if v = portMAX_DELAY then Some (pxPrevious h (ListEnd l)) else insert_position h v (ListEnd l)) of
        None \<Rightarrow> None
      | Some it \<Rightarrow> Some (list_insert_after l it new h))"

definition uxListRemove :: "list_item \<Rightarrow> list_heap \<Rightarrow> (u32 \<times> list_heap) option" where
  "uxListRemove item h =
     (case pxContainer h item of
        None \<Rightarrow> None
      | Some l \<Rightarrow>
          let h = set_prev (pxNext h item) (pxPrevious h item) h;
              h = set_next (pxPrevious h item) (pxNext h item) h;
              h = (if pxIndex h l = item then set_index l (pxPrevious h item) h else h);
              h = set_container item None h;
              h = set_count l (uxNumberOfItems h l - 1) h
          in Some (uxNumberOfItems h l, h))"

definition listGET_OWNER_OF_NEXT_ENTRY :: "nat \<Rightarrow> list_heap \<Rightarrow> nat \<times> list_heap" where
  "listGET_OWNER_OF_NEXT_ENTRY l h =
     (let h = set_index l (pxNext h (pxIndex h l)) h;
          h = (if pxIndex h l = ListEnd l then set_index l (pxNext h (pxIndex h l)) h else h)
      in (pvOwner h (pxIndex h l), h))"

text \<open>The inlined variants of removal and insertion that the tick handler uses.\<close>

definition listREMOVE_ITEM :: "list_item \<Rightarrow> list_heap \<Rightarrow> list_heap option" where
  "listREMOVE_ITEM item h =
     (case pxContainer h item of
        None \<Rightarrow> None
      | Some l \<Rightarrow>
          let h = set_prev (pxNext h item) (pxPrevious h item) h;
              h = set_next (pxPrevious h item) (pxNext h item) h;
              h = (if pxIndex h l = item then set_index l (pxPrevious h item) h else h);
              h = set_container item None h
          in Some (set_count l (uxNumberOfItems h l - 1) h))"

definition listINSERT_END :: "nat \<Rightarrow> list_item \<Rightarrow> list_heap \<Rightarrow> list_heap" where
  "listINSERT_END l new h =
     (let index = pxIndex h l;
          h = set_next new index h;
          h = set_prev new (pxPrevious h index) h;
          h = set_next (pxPrevious h index) new h;
          h = set_prev index new h;
          h = set_container new (Some l) h
      in set_count l (uxNumberOfItems h l + 1) h)"

lemma list_inline_variants:
  "listREMOVE_ITEM item h = map_option snd (uxListRemove item h)" "listINSERT_END = vListInsertEnd"
  by (auto simp: listREMOVE_ITEM_def uxListRemove_def listINSERT_END_def vListInsertEnd_def Let_def fun_eq_iff
      split: option.split)

definition listGET_ITEM_VALUE_OF_HEAD_ENTRY :: "nat \<Rightarrow> list_heap \<Rightarrow> u32" where
  "listGET_ITEM_VALUE_OF_HEAD_ENTRY l h = xItemValue h (pxNext h (ListEnd l))"

definition listGET_OWNER_OF_HEAD_ENTRY :: "nat \<Rightarrow> list_heap \<Rightarrow> nat" where
  "listGET_OWNER_OF_HEAD_ENTRY l h = pvOwner h (pxNext h (ListEnd l))"

definition listGET_HEAD_ENTRY :: "nat \<Rightarrow> list_heap \<Rightarrow> list_item" where
  "listGET_HEAD_ENTRY l h = pxNext h (ListEnd l)"

definition listLIST_IS_EMPTY :: "nat \<Rightarrow> list_heap \<Rightarrow> bool" where
  "listLIST_IS_EMPTY l h \<longleftrightarrow> uxNumberOfItems h l = 0"

definition listCURRENT_LIST_LENGTH :: "nat \<Rightarrow> list_heap \<Rightarrow> u32" where
  "listCURRENT_LIST_LENGTH l h = uxNumberOfItems h l"

definition listSET_LIST_ITEM_VALUE :: "list_item \<Rightarrow> u32 \<Rightarrow> list_heap \<Rightarrow> list_heap" where
  "listSET_LIST_ITEM_VALUE p v h = h\<lparr>xItemValue := (xItemValue h)(p := v)\<rparr>"

definition listSET_LIST_ITEM_OWNER :: "list_item \<Rightarrow> nat \<Rightarrow> list_heap \<Rightarrow> list_heap" where
  "listSET_LIST_ITEM_OWNER p ow h = h\<lparr>pvOwner := (pvOwner h)(p := ow)\<rparr>"

definition listIS_CONTAINED_WITHIN :: "nat \<Rightarrow> list_item \<Rightarrow> list_heap \<Rightarrow> bool" where
  "listIS_CONTAINED_WITHIN l p h \<longleftrightarrow> pxContainer h p = Some l"

subsection \<open>Linked sequences of items\<close>

fun linked :: "list_heap \<Rightarrow> list_item list \<Rightarrow> bool" where
  "linked h (x # y # zs) \<longleftrightarrow> pxNext h x = y \<and> pxPrevious h y = x \<and> linked h (y # zs)"
| "linked h _ \<longleftrightarrow> True"

lemma linked_append:
  "linked h (xs @ x # y # ys) \<longleftrightarrow>
     linked h (xs @ [x]) \<and> pxNext h x = y \<and> pxPrevious h y = x \<and> linked h (y # ys)"
proof (induction xs)
  case (Cons a xs)
  then show ?case by (cases xs) auto
qed simp

text \<open>Only the next pointers of all but the last and the previous pointers of all but the first matter.\<close>

lemma linked_cong:
  assumes "\<And>x. x \<in> set (butlast xs) \<Longrightarrow> pxNext h' x = pxNext h x"
    and "\<And>x. x \<in> set (tl xs) \<Longrightarrow> pxPrevious h' x = pxPrevious h x"
  shows "linked h' xs \<longleftrightarrow> linked h xs"
  using assms
proof (induction h xs rule: linked.induct)
  case (1 h x y zs)
  have "linked h' (y # zs) \<longleftrightarrow> linked h (y # zs)"
  proof (rule 1(1))
    show "pxPrevious h' a = pxPrevious h a" if "a \<in> set (tl (y # zs))" for a using that 1(3) by simp
    show "pxNext h' a = pxNext h a" if "a \<in> set (butlast (y # zs))" for a using that 1(2) by simp
  qed
  then show ?case using 1(2)[of x] 1(3)[of y] by simp
qed simp_all

lemma set_tlD: "x \<in> set (tl xs) \<Longrightarrow> x \<in> set xs"
  by (cases xs) auto

lemma ring_positions:
  assumes "distinct (butlast (as @ it # nx # bs))" and "distinct (tl (as @ it # nx # bs))"
  shows "it \<notin> set as" and "it \<notin> set (butlast (nx # bs))" and "nx \<notin> set (tl (as @ [it]))" and "nx \<notin> set bs"
proof -
  have b: "butlast (as @ it # nx # bs) = as @ it # butlast (nx # bs)" by (simp add: butlast_append)
  show "it \<notin> set as" "it \<notin> set (butlast (nx # bs))" using assms(1) unfolding b by auto
  have "tl (as @ it # nx # bs) = tl (as @ [it]) @ nx # bs" by (cases as) simp_all
  then show "nx \<notin> set (tl (as @ [it]))" "nx \<notin> set bs" using assms(2) by auto
qed

lemma pointers_insert_after [simp]:
  "pxNext (list_insert_after l it new h) = (pxNext h)(new := pxNext h it, it := new)"
  "new \<noteq> pxNext h it \<Longrightarrow>
     pxPrevious (list_insert_after l it new h) = (pxPrevious h)(pxNext h it := new, new := it)"
  "pxContainer (list_insert_after l it new h) = (pxContainer h)(new := Some l)"
  "uxNumberOfItems (list_insert_after l it new h) = (uxNumberOfItems h)(l := uxNumberOfItems h l + 1)"
  "xItemValue (list_insert_after l it new h) = xItemValue h"
  "pvOwner (list_insert_after l it new h) = pvOwner h"
  "pxIndex (list_insert_after l it new h) = pxIndex h"
  by (simp_all add: list_insert_after_def heap_ops Let_def)

lemma linked_insert:
  assumes "linked h (as @ it # nx # bs)"
    and "distinct (butlast (as @ it # nx # bs))" and "distinct (tl (as @ it # nx # bs))"
    and "new \<notin> set (as @ it # nx # bs)"
  shows "linked (list_insert_after l it new h) (as @ it # new # nx # bs)"
proof -
  let ?h = "list_insert_after l it new h"
  note pos = ring_positions[OF assms(2,3)]
  have l: "linked h (as @ [it])" "pxNext h it = nx" "linked h (nx # bs)"
    using assms(1) by (simp_all add: linked_append)
  have "linked ?h (as @ [it]) \<longleftrightarrow> linked h (as @ [it])"
    using pos assms(4) l(2) by (intro linked_cong) (auto dest: set_tlD)
  moreover have "linked ?h (nx # bs) \<longleftrightarrow> linked h (nx # bs)"
    using pos assms(4) l(2) by (intro linked_cong) (auto dest: in_set_butlastD split: if_splits)
  ultimately show ?thesis
    using l assms(4) by (simp add: linked_append) auto
qed

text \<open>The unlinking step of \<open>uxListRemove\<close>.\<close>

definition list_unlink :: "list_item \<Rightarrow> list_heap \<Rightarrow> list_heap" where
  "list_unlink item h =
     (let h = set_prev (pxNext h item) (pxPrevious h item) h
      in set_next (pxPrevious h item) (pxNext h item) h)"

lemma linked_unlink:
  assumes "linked h (as @ a # x # c # bs)"
    and "distinct (butlast (as @ a # x # c # bs))" and "distinct (tl (as @ a # x # c # bs))"
    and "x \<noteq> a" and "x \<noteq> c"
  shows "linked (list_unlink x h) (as @ a # c # bs)"
proof -
  let ?h = "list_unlink x h"
  have l: "linked h (as @ [a])" "pxNext h a = x" "pxPrevious h x = a" "pxNext h x = c" "pxPrevious h c = x"
      "linked h (c # bs)"
    using assms(1) by (auto simp: linked_append)
  have h: "pxNext ?h = (pxNext h)(a := c)" "pxPrevious ?h = (pxPrevious h)(c := a)"
    using l assms(4,5) by (simp_all add: list_unlink_def heap_ops Let_def)
  have "distinct (butlast ((as @ [a]) @ x # c # bs))" "distinct (tl ((as @ [a]) @ x # c # bs))"
    using assms(2,3) by simp_all
  note pos = ring_positions[OF assms(2,3)] ring_positions[OF this]
  have "tl ((as @ [a]) @ [x]) = tl (as @ [a]) @ [x]" by (cases as) simp_all
  then have n: "a \<notin> set as" "a \<notin> set (butlast (c # bs))" "c \<notin> set (tl (as @ [a]))" "c \<notin> set bs"
    using pos(1,2,7,8) by simp_all
  have "linked ?h (as @ [a]) \<longleftrightarrow> linked h (as @ [a])"
    using n by (intro linked_cong) (auto simp: h)
  moreover have "linked ?h (c # bs) \<longleftrightarrow> linked h (c # bs)"
    using n by (intro linked_cong) (auto simp: h split: if_splits)
  ultimately show ?thesis using l by (simp add: linked_append h)
qed

subsection \<open>The abstraction to sequences\<close>

definition is_list :: "list_heap \<Rightarrow> nat \<Rightarrow> list_item list \<Rightarrow> bool" where
  "is_list h l xs \<longleftrightarrow>
     linked h (ListEnd l # xs @ [ListEnd l]) \<and> distinct xs \<and> set xs \<subseteq> range Item \<and>
     (\<forall>x \<in> set xs. pxContainer h x = Some l) \<and>
     uxNumberOfItems h l = of_nat (length xs) \<and> length xs < 2 ^ 32 \<and>
     xItemValue h (ListEnd l) = portMAX_DELAY \<and> pxIndex h l \<in> insert (ListEnd l) (set xs)"

text \<open>All lists with an address in \<open>D\<close> at once.\<close>

definition heap_lists :: "list_heap \<Rightarrow> nat set \<Rightarrow> (nat \<Rightarrow> list_item list) \<Rightarrow> bool" where
  "heap_lists h D L \<longleftrightarrow> (\<forall>l \<in> D. is_list h l (L l))"

lemma is_list_ring:
  assumes "is_list h l xs"
  shows "distinct (butlast (ListEnd l # xs @ [ListEnd l]))" and "distinct (tl (ListEnd l # xs @ [ListEnd l]))"
    and "ListEnd l \<notin> set xs"
  using assms by (auto simp: is_list_def)

lemma is_list_cong:
  assumes "is_list h l xs"
    and "\<And>x. x \<in> insert (ListEnd l) (set xs) \<Longrightarrow> pxNext h' x = pxNext h x \<and> pxPrevious h' x = pxPrevious h x"
    and "\<And>x. x \<in> set xs \<Longrightarrow> pxContainer h' x = pxContainer h x"
    and "uxNumberOfItems h' l = uxNumberOfItems h l" and "xItemValue h' (ListEnd l) = xItemValue h (ListEnd l)"
    and "pxIndex h' l = pxIndex h l"
  shows "is_list h' l xs"
proof -
  have "linked h' (ListEnd l # xs @ [ListEnd l]) \<longleftrightarrow> linked h (ListEnd l # xs @ [ListEnd l])"
    using assms(2) by (intro linked_cong) (auto dest: in_set_butlastD)
  with assms show ?thesis by (simp add: is_list_def)
qed

text \<open>An item of one list is in no other list, and an item outside all lists is in none.\<close>

lemma other_list:
  assumes "is_list h l xs" and "is_list h l' ys" and "l \<noteq> l'" and "x \<in> insert (ListEnd l) (set xs)"
  shows "x \<notin> insert (ListEnd l') (set ys)"
  using assms by (auto simp: is_list_def)

lemma not_in_list: "is_list h l xs \<Longrightarrow> pxContainer h x \<noteq> Some l \<Longrightarrow> x \<notin> set xs"
  by (auto simp: is_list_def)

lemma lists_update:
  assumes "heap_lists h D L" and "l \<in> D" and "is_list h' l xs"
    and "\<And>l' ys. l' \<in> D \<Longrightarrow> l' \<noteq> l \<Longrightarrow> is_list h l' (L l') \<Longrightarrow> is_list h' l' (L l')"
  shows "heap_lists h' D (L(l := xs))"
  using assms by (auto simp: heap_lists_def)

lemma ring_split:
  "ListEnd l # (xs @ ys) @ [ListEnd l] =
     butlast (ListEnd l # xs) @ last (ListEnd l # xs) # hd (ys @ [ListEnd l]) # tl (ys @ [ListEnd l])"
proof -
  have "ListEnd l # xs = butlast (ListEnd l # xs) @ [last (ListEnd l # xs)]"
    by (rule append_butlast_last_id[symmetric]) simp
  moreover have "ys @ [ListEnd l] = hd (ys @ [ListEnd l]) # tl (ys @ [ListEnd l])"
    by (rule hd_Cons_tl[symmetric]) simp
  ultimately show ?thesis
    by (metis append.assoc append_Cons append_Nil)
qed

lemma next_prev_at:
  assumes "is_list h l (xs @ ys)"
  shows "pxNext h (last (ListEnd l # xs)) = hd (ys @ [ListEnd l])"
    and "pxPrevious h (hd (ys @ [ListEnd l])) = last (ListEnd l # xs)"
  using assms unfolding is_list_def ring_split linked_append by simp_all

lemma insert_after_is_list:
  assumes "is_list h l (xs @ ys)" and "it = last (ListEnd l # xs)"
    and "pxContainer h (Item n) \<noteq> Some l" and "Suc (length (xs @ ys)) < 2 ^ 32"
  shows "is_list (list_insert_after l it (Item n) h) l (xs @ Item n # ys)"
proof -
  have new: "Item n \<notin> set (xs @ ys)" using not_in_list[OF assms(1,3)] .
  have "linked h (ListEnd l # (xs @ ys) @ [ListEnd l])" using assms(1) by (simp add: is_list_def)
  moreover note is_list_ring(1,2)[OF assms(1)]
  moreover have "Item n \<notin> set (ListEnd l # (xs @ ys) @ [ListEnd l])" using new by simp
  ultimately have "linked (list_insert_after l it (Item n) h)
      (butlast (ListEnd l # xs) @ it # Item n # hd (ys @ [ListEnd l]) # tl (ys @ [ListEnd l]))"
    unfolding ring_split assms(2) by (rule linked_insert)
  moreover have "butlast (ListEnd l # xs) @ it # Item n # hd (ys @ [ListEnd l]) # tl (ys @ [ListEnd l]) =
      ListEnd l # (xs @ Item n # ys) @ [ListEnd l]"
    using ring_split[of l xs "Item n # ys"] by (simp add: assms(2))
  ultimately have "linked (list_insert_after l it (Item n) h) (ListEnd l # (xs @ Item n # ys) @ [ListEnd l])"
    by (simp only:)
  moreover have "uxNumberOfItems (list_insert_after l it (Item n) h) l = of_nat (length (xs @ Item n # ys))"
    using assms(1) by (simp add: is_list_def)
  moreover have "Item n \<noteq> ListEnd l" by simp
  ultimately show ?thesis
    using assms(1,4) new unfolding is_list_def by (auto simp del: linked.simps append_assoc append_Cons of_nat_add)
qed

lemma insert_after_other:
  assumes "is_list h l (xs @ ys)" and "it = last (ListEnd l # xs)" and "pxContainer h (Item n) = None"
    and "is_list h l' zs" and "l' \<noteq> l"
  shows "is_list (list_insert_after l it (Item n) h) l' zs"
proof -
  have nx: "pxNext h it = hd (ys @ [ListEnd l])" using next_prev_at[OF assms(1)] assms(2) by simp
  have "it \<in> insert (ListEnd l) (set (xs @ ys))" "pxNext h it \<in> insert (ListEnd l) (set (xs @ ys))"
    unfolding nx by (auto simp: assms(2) hd_append)
  from this[THEN other_list[OF assms(1,4) assms(5)[symmetric]]]
  have o: "it \<notin> insert (ListEnd l') (set zs)" "pxNext h it \<notin> insert (ListEnd l') (set zs)" by auto
  have "Item n \<notin> set (xs @ ys)" "Item n \<notin> set zs"
    using not_in_list[OF assms(1)] not_in_list[OF assms(4)] assms(3) by auto
  moreover from this have "Item n \<noteq> pxNext h it" unfolding nx by (auto simp: hd_append split: if_splits)
  ultimately show ?thesis
    using o assms(5) by (intro is_list_cong[OF assms(4)]) auto
qed

lemma insert_after_lists:
  assumes "heap_lists h D L" and "l \<in> D" and "L l = xs @ ys" and "it = last (ListEnd l # xs)"
    and "pxContainer h (Item n) = None" and "Suc (length (L l)) < 2 ^ 32"
  shows "heap_lists (list_insert_after l it (Item n) h) D (L(l := xs @ Item n # ys))"
proof -
  have l: "is_list h l (xs @ ys)" using assms(1-3) by (auto simp: heap_lists_def)
  show ?thesis
    using insert_after_is_list[OF l assms(4)] insert_after_other[OF l assms(4,5)] assms
    by (intro lists_update[OF assms(1,2)]) auto
qed

subsection \<open>Insertion in order of value\<close>

lemma insert_position_spec:
  "linked h (p # ys @ [ListEnd l]) \<Longrightarrow> v < xItemValue h (ListEnd l) \<Longrightarrow>
     insert_position h v p = Some (last (p # takeWhile (\<lambda>x. xItemValue h x \<le> v) ys))"
proof (induction ys arbitrary: p)
  case Nil
  then show ?case by (simp add: insert_position.simps[of h v p] not_le[symmetric])
next
  case (Cons y ys)
  then have "linked h (y # ys @ [ListEnd l])" "pxNext h p = y" by simp_all
  with Cons show ?case by (simp add: insert_position.simps[of h v p])
qed

lemma takeWhile_all: "(\<And>x. x \<in> set xs \<Longrightarrow> P x) \<Longrightarrow> takeWhile P xs = xs"
  by (simp add: takeWhile_eq_all_conv)

lemma portMAX_DELAY_max: "portMAX_DELAY = - 1"
  by (simp add: portMAX_DELAY_def)

lemma vListInsert_eq:
  assumes "is_list h l xs"
  shows "vListInsert l new h =
    Some (list_insert_after l (last (ListEnd l # takeWhile (\<lambda>x. xItemValue h x \<le> xItemValue h new) xs)) new h)"
proof (cases "xItemValue h new = portMAX_DELAY")
  case True
  have "xItemValue h x \<le> portMAX_DELAY" for x by (simp add: portMAX_DELAY_max)
  moreover have "pxPrevious h (ListEnd l) = last (ListEnd l # xs)"
    using next_prev_at(2)[of h l xs "[]"] assms by simp
  ultimately show ?thesis using True by (simp add: vListInsert_def takeWhile_all)
next
  case False
  have "xItemValue h new < portMAX_DELAY"
    using False word_order.not_eq_extremum[of "xItemValue h new"] by (simp add: portMAX_DELAY_max)
  with assms False show ?thesis
    using insert_position_spec[of h "ListEnd l" xs l "xItemValue h new"]
    by (simp add: vListInsert_def is_list_def)
qed

lemma sorted_insert:
  fixes f :: "'a \<Rightarrow> 'b :: linorder"
  assumes "sorted (map f xs)"
  shows "sorted (map f (takeWhile (\<lambda>x. f x \<le> f a) xs @ a # dropWhile (\<lambda>x. f x \<le> f a) xs))"
  using assms
proof (induction xs)
  case (Cons x xs)
  then show ?case by (auto simp: order.trans dest: set_takeWhileD set_dropWhileD)
qed simp

text \<open>Initialisation makes the list empty and leaves the others alone.\<close>

lemma vListInitialise_lists:
  assumes "heap_lists h D L"
  shows "heap_lists (vListInitialise l h) (insert l D) (L(l := []))"
proof -
  have "is_list (vListInitialise l h) l []"
    by (simp add: is_list_def vListInitialise_def heap_ops Let_def)
  moreover have "is_list (vListInitialise l h) l' xs" if "is_list h l' xs" "l' \<noteq> l" for l' xs
    using that(2) by (intro is_list_cong[OF that(1)])
      (use that(1) in \<open>auto simp: vListInitialise_def heap_ops Let_def is_list_def\<close>)
  ultimately show ?thesis using assms by (auto simp: heap_lists_def)
qed

text \<open>A heap with the list 0 holding the items 1 and 2, the empty list 1, and the free item 3.\<close>

definition demo_lists :: list_heap where
  "demo_lists = \<lparr>
     xItemValue = (\<lambda>_. 0)(ListEnd 0 := portMAX_DELAY, ListEnd 1 := portMAX_DELAY, Item 1 := 5, Item 2 := 7, Item 3 := 5),
     pxNext = id(ListEnd 0 := Item 1, Item 1 := Item 2, Item 2 := ListEnd 0),
     pxPrevious = id(Item 1 := ListEnd 0, Item 2 := Item 1, ListEnd 0 := Item 2),
     pvOwner = (\<lambda>p. case p of Item n \<Rightarrow> 100 + n | ListEnd l \<Rightarrow> 0),
     pxContainer = (\<lambda>_. None)(Item 1 := Some 0, Item 2 := Some 0),
     uxNumberOfItems = (\<lambda>_. 0)(0 := 2), pxIndex = ListEnd(0 := Item 1)\<rparr>"

definition demo_seqs :: "nat \<Rightarrow> list_item list" where
  "demo_seqs = (\<lambda>_. [])(0 := [Item 1, Item 2])"

lemma demo_lists_ok: "heap_lists demo_lists {0, 1} demo_seqs"
  by (auto simp: heap_lists_def is_list_def demo_lists_def demo_seqs_def)

lemma demo_facts:
  "xItemValue demo_lists (Item 1) = 5" "xItemValue demo_lists (Item 2) = 7" "xItemValue demo_lists (Item 3) = 5"
  "pxContainer demo_lists (Item 3) = None" "pxIndex demo_lists 0 = Item 1" "pvOwner demo_lists (Item n) = 100 + n"
  "demo_seqs 0 = [Item 1, Item 2]"
  by (simp_all add: demo_lists_def demo_seqs_def)

text \<open>
  C17: \<open>vListInsert\<close> returns for every item that is in no list, and puts it behind all items whose value
  is not greater: a list that was sorted stays sorted, equal values keep their order of insertion,
  and every other list is unchanged.
\<close>
theorem vListInsert_refines:
  assumes "heap_lists h D L" and "l \<in> D" and "pxContainer h (Item n) = None" and "Suc (length (L l)) < 2 ^ 32"
  shows "\<exists>h'. vListInsert l (Item n) h = Some h' \<and> xItemValue h' = xItemValue h \<and>
    heap_lists h' D (L(l := takeWhile (\<lambda>x. xItemValue h x \<le> xItemValue h (Item n)) (L l) @
       Item n # dropWhile (\<lambda>x. xItemValue h x \<le> xItemValue h (Item n)) (L l))) \<and>
    (sorted (map (xItemValue h) (L l)) \<longrightarrow>
     sorted (map (xItemValue h) (takeWhile (\<lambda>x. xItemValue h x \<le> xItemValue h (Item n)) (L l) @
       Item n # dropWhile (\<lambda>x. xItemValue h x \<le> xItemValue h (Item n)) (L l))))"
proof -
  have "is_list h l (L l)" using assms(1,2) by (simp add: heap_lists_def)
  from vListInsert_eq[OF this, of "Item n"] insert_after_lists[OF assms(1,2) _ refl assms(3,4),
      of "takeWhile (\<lambda>x. xItemValue h x \<le> xItemValue h (Item n)) (L l)"
         "dropWhile (\<lambda>x. xItemValue h x \<le> xItemValue h (Item n)) (L l)"]
  show ?thesis using sorted_insert[of "xItemValue h" "L l" "Item n"] by auto
qed

theorem vListInsert_refines_witness:
  "\<exists>h'. vListInsert 0 (Item 3) demo_lists = Some h' \<and> heap_lists h' {0, 1} (demo_seqs(0 := [Item 1, Item 3, Item 2]))"
  using vListInsert_refines[OF demo_lists_ok, of 0 3] by (auto simp: demo_facts simp del: One_nat_def)

subsection \<open>Removal\<close>

lemma uxListRemove_eq:
  assumes "pxContainer h x = Some l"
  shows "uxListRemove x h =
    (let h' = list_unlink x h;
         h' = (if pxIndex h l = x then set_index l (pxPrevious h' x) h' else h');
         h' = set_container x None h'
     in Some (uxNumberOfItems h l - 1, set_count l (uxNumberOfItems h l - 1) h'))"
  using assms by (auto simp: uxListRemove_def list_unlink_def heap_ops Let_def)

text \<open>The heap after a removal, field by field.\<close>

lemma removed_fields:
  assumes "is_list h l (xs @ x # ys)"
  shows "\<exists>h'. uxListRemove x h = Some (of_nat (length (xs @ ys)), h') \<and>
    pxNext h' = pxNext (list_unlink x h) \<and> pxPrevious h' = pxPrevious (list_unlink x h) \<and>
    pxContainer h' = (pxContainer h)(x := None) \<and> xItemValue h' = xItemValue h \<and> pvOwner h' = pvOwner h \<and>
    uxNumberOfItems h' = (uxNumberOfItems h)(l := of_nat (length (xs @ ys))) \<and>
    pxIndex h' = (if pxIndex h l = x then (pxIndex h)(l := last (ListEnd l # xs)) else pxIndex h)"
proof -
  have c: "pxContainer h x = Some l" and "uxNumberOfItems h l = of_nat (length (xs @ x # ys))"
    using assms by (simp_all add: is_list_def)
  then have n: "uxNumberOfItems h l - 1 = of_nat (length (xs @ ys))" by simp
  have ring: "distinct (tl (ListEnd l # (xs @ x # ys) @ [ListEnd l]))" using is_list_ring(2)[OF assms] .
  then have ne: "pxNext h x \<noteq> x"
    using next_prev_at(1)[of h l "xs @ [x]" ys] assms by (auto simp: hd_append split: if_splits)
  have p: "pxPrevious h x = last (ListEnd l # xs)"
    using next_prev_at(2)[OF assms] by simp
  have u: "pxPrevious (list_unlink x h) x = pxPrevious h x"
    "pxContainer (list_unlink x h) = pxContainer h" "xItemValue (list_unlink x h) = xItemValue h"
    "pvOwner (list_unlink x h) = pvOwner h" "uxNumberOfItems (list_unlink x h) = uxNumberOfItems h"
    "pxIndex (list_unlink x h) = pxIndex h"
    using ne by (simp_all add: list_unlink_def heap_ops Let_def)
  show ?thesis
    unfolding uxListRemove_eq[OF c] Let_def n
    by (intro exI conjI, rule refl) (simp_all add: heap_ops u p del: last.simps)
qed

lemma removed_is_list:
  assumes "is_list h l (xs @ x # ys)" and "uxListRemove x h = Some (k, h')"
  shows "is_list h' l (xs @ ys)"
proof -
  obtain h0 where h0: "uxListRemove x h = Some (of_nat (length (xs @ ys)), h0)"
    and f: "pxNext h0 = pxNext (list_unlink x h)" "pxPrevious h0 = pxPrevious (list_unlink x h)"
      "pxContainer h0 = (pxContainer h)(x := None)" "xItemValue h0 = xItemValue h"
      "uxNumberOfItems h0 = (uxNumberOfItems h)(l := of_nat (length (xs @ ys)))"
      "pxIndex h0 = (if pxIndex h l = x then (pxIndex h)(l := last (ListEnd l # xs)) else pxIndex h)"
    using removed_fields[OF assms(1)] by auto
  have "h' = h0" using h0 assms(2) by simp
  note f = f[folded this]
  have e: "ListEnd l # (xs @ x # ys) @ [ListEnd l] =
      butlast (ListEnd l # xs) @ last (ListEnd l # xs) # x # hd (ys @ [ListEnd l]) # tl (ys @ [ListEnd l])"
    using ring_split[of l xs "x # ys"] by simp
  have "linked h (ListEnd l # (xs @ x # ys) @ [ListEnd l])" using assms(1) by (simp add: is_list_def)
  moreover have "x \<noteq> last (ListEnd l # xs)" "x \<noteq> hd (ys @ [ListEnd l])"
    using assms(1) is_list_ring(3)[OF assms(1)] by (auto simp: is_list_def hd_append split: if_splits)
  ultimately have "linked (list_unlink x h)
      (butlast (ListEnd l # xs) @ last (ListEnd l # xs) # hd (ys @ [ListEnd l]) # tl (ys @ [ListEnd l]))"
    using is_list_ring(1,2)[OF assms(1)] unfolding e by (intro linked_unlink)
  then have "linked h' (ListEnd l # (xs @ ys) @ [ListEnd l])"
    unfolding ring_split[symmetric] by (subst linked_cong[where h = "list_unlink x h"]) (simp_all add: f)
  moreover have "last (ListEnd l # xs) \<in> insert (ListEnd l) (set (xs @ ys))" by simp
  ultimately show ?thesis
    using assms(1) unfolding is_list_def f by (auto simp del: linked.simps append_assoc append_Cons last.simps)
qed

lemma removed_other:
  assumes "is_list h l (xs @ x # ys)" and "uxListRemove x h = Some (k, h')" and "is_list h l' zs" and "l' \<noteq> l"
  shows "is_list h' l' zs"
proof -
  obtain h0 where h0: "uxListRemove x h = Some (of_nat (length (xs @ ys)), h0)"
    and f: "pxNext h0 = pxNext (list_unlink x h)" "pxPrevious h0 = pxPrevious (list_unlink x h)"
      "pxContainer h0 = (pxContainer h)(x := None)" "xItemValue h0 = xItemValue h"
      "uxNumberOfItems h0 = (uxNumberOfItems h)(l := of_nat (length (xs @ ys)))"
      "pxIndex h0 = (if pxIndex h l = x then (pxIndex h)(l := last (ListEnd l # xs)) else pxIndex h)"
    using removed_fields[OF assms(1)] by auto
  have "h' = h0" using h0 assms(2) by simp
  note f = f[folded this]
  have p: "pxPrevious h x = last (ListEnd l # xs)" and n: "pxNext h x = hd (ys @ [ListEnd l])"
    using next_prev_at(2)[OF assms(1)] next_prev_at(1)[of h l "xs @ [x]" ys] assms(1) by simp_all
  have "pxPrevious h x \<in> insert (ListEnd l) (set (xs @ x # ys))"
    "pxNext h x \<in> insert (ListEnd l) (set (xs @ x # ys))" "x \<in> insert (ListEnd l) (set (xs @ x # ys))"
    unfolding p n by (auto simp: hd_append)
  from this[THEN other_list[OF assms(1,3) assms(4)[symmetric]]] show ?thesis
    using assms(4) by (intro is_list_cong[OF assms(3)]) (auto simp: f list_unlink_def heap_ops Let_def)
qed

text \<open>
  C18: \<open>uxListRemove\<close> takes an item out of its list, returns the number of the remaining items, marks the
  item as being in no list, moves the index back when it pointed to the item, and leaves the values,
  the owners and all other lists unchanged.
\<close>
theorem uxListRemove_refines:
  assumes "heap_lists h D L" and "l \<in> D" and "x \<in> set (L l)"
  shows "\<exists>h'. uxListRemove x h = Some (of_nat (length (L l) - 1), h') \<and> heap_lists h' D (L(l := remove1 x (L l))) \<and>
    pxContainer h' x = None \<and> xItemValue h' = xItemValue h \<and> pvOwner h' = pvOwner h"
proof -
  obtain xs ys where s: "L l = xs @ x # ys" "x \<notin> set xs" using assms(3) by (meson split_list_first)
  have l: "is_list h l (xs @ x # ys)" using assms(1,2) s by (auto simp: heap_lists_def)
  obtain h' where h': "uxListRemove x h = Some (of_nat (length (xs @ ys)), h')" "pxContainer h' x = None"
      "xItemValue h' = xItemValue h" "pvOwner h' = pvOwner h"
    using removed_fields[OF l] by auto
  have "heap_lists h' D (L(l := xs @ ys))"
    using removed_is_list[OF l h'(1)] removed_other[OF l h'(1)] assms s
    by (intro lists_update[OF assms(1,2)]) auto
  with h' s show ?thesis by (simp add: remove1_append)
qed

theorem uxListRemove_refines_witness:
  "\<exists>h'. uxListRemove (Item 1) demo_lists = Some (1, h') \<and> heap_lists h' {0, 1} (demo_seqs(0 := [Item 2]))"
  using uxListRemove_refines[OF demo_lists_ok, of 0 "Item 1"] by (auto simp: demo_facts simp del: One_nat_def)

subsection \<open>Walking through a list\<close>

text \<open>The order in which the calls of \<open>listGET_OWNER_OF_NEXT_ENTRY\<close> visit the items.\<close>

definition rr_order :: "list_item \<Rightarrow> list_item list \<Rightarrow> list_item list" where
  "rr_order idx xs = tl (dropWhile (\<lambda>x. x \<noteq> idx) xs) @ takeWhile (\<lambda>x. x \<noteq> idx) xs @
     (if idx \<in> set xs then [idx] else [])"

lemma rr_order_end [simp]: "idx \<notin> set xs \<Longrightarrow> rr_order idx xs = xs"
proof -
  assume "idx \<notin> set xs"
  then have e: "takeWhile (\<lambda>x. x \<noteq> idx) xs = xs" "dropWhile (\<lambda>x. x \<noteq> idx) xs = []"
    by (auto simp: takeWhile_eq_all_conv)
  show ?thesis unfolding rr_order_def e using \<open>idx \<notin> set xs\<close> by simp
qed

lemma rr_order_at:
  assumes "i \<notin> set xs"
  shows "rr_order i (xs @ i # ys) = ys @ xs @ [i]"
proof -
  have "takeWhile (\<lambda>x. x \<noteq> i) (xs @ i # ys) = xs" "dropWhile (\<lambda>x. x \<noteq> i) (xs @ i # ys) = i # ys"
    using assms by (auto simp: takeWhile_append dropWhile_append)
  then show ?thesis by (simp add: rr_order_def)
qed

lemma set_rr_order: "distinct xs \<Longrightarrow> mset (rr_order idx xs) = mset xs"
  by (cases "idx \<in> set xs") (auto dest!: split_list simp: rr_order_at)

text \<open>Every item has a position: the index is the marker or splits the list.\<close>

lemma index_cases:
  assumes "is_list h l xs"
  obtains (marker) "pxIndex h l = ListEnd l" "ListEnd l \<notin> set xs"
  | (item) as bs where "xs = as @ pxIndex h l # bs" "pxIndex h l \<notin> set as" "pxIndex h l \<notin> set bs"
      "pxIndex h l \<noteq> ListEnd l"
proof (cases "pxIndex h l \<in> set xs")
  case True
  then obtain as bs where "xs = as @ pxIndex h l # bs" by (meson split_list)
  with assms is_list_ring(3)[OF assms] that(2) show ?thesis by (auto simp: is_list_def)
next
  case False
  with assms is_list_ring(3)[OF assms] that(1) show ?thesis by (auto simp: is_list_def)
qed

lemma rr_order_hd:
  assumes "distinct xs" and "xs \<noteq> []"
  shows "rr_order (hd (rr_order i xs)) xs = rotate1 (rr_order i xs)"
proof -
  have h: "rr_order (hd ys) ys = rotate1 ys" if "distinct ys" "ys \<noteq> []" for ys
    using that rr_order_at[of "hd ys" "[]" "tl ys"] by (cases ys) auto
  show ?thesis
  proof (cases "i \<in> set xs")
    case True
    then obtain as bs where xs: "xs = as @ i # bs" by (meson split_list)
    with assms have d: "i \<notin> set as" by simp
    show ?thesis
    proof (cases bs)
      case Nil
      then show ?thesis using h[of xs] assms rr_order_at[OF d] xs by simp
    next
      case (Cons b bs')
      then show ?thesis
        using rr_order_at[OF d] rr_order_at[of b "as @ [i]" bs'] assms xs by auto
    qed
  next
    case False
    then show ?thesis using h[OF assms] by simp
  qed
qed

lemma next_entry:
  assumes "is_list h l xs" and "xs \<noteq> []"
  defines "i \<equiv> hd (rr_order (pxIndex h l) xs)"
  shows "listGET_OWNER_OF_NEXT_ENTRY l h = (pvOwner h i, set_index l i h)"
proof -
  have E: "ListEnd l \<notin> set xs" "pxNext h (ListEnd l) = hd xs"
    using is_list_ring(3)[OF assms(1)] next_prev_at(1)[of h l "[]" xs] assms(1,2) by (simp_all add: hd_append)
  then have ne: "hd xs \<noteq> ListEnd l" using assms(2) hd_in_set by metis
  from assms(1) show ?thesis
  proof (cases rule: index_cases)
    case marker
    then show ?thesis
      using E ne assms(2) by (simp add: listGET_OWNER_OF_NEXT_ENTRY_def i_def set_index_def)
  next
    case (item as bs)
    have n: "pxNext h (pxIndex h l) = hd (bs @ [ListEnd l])"
      using next_prev_at(1)[of h l "as @ [pxIndex h l]" bs] assms(1) item(1) by simp
    have r: "i = hd (bs @ as @ [pxIndex h l])" using rr_order_at[OF item(2)] item(1) by (simp add: i_def)
    show ?thesis
    proof (cases bs)
      case Nil
      then have "i = hd xs" using r item(1) by simp
      with n Nil E ne show ?thesis
        by (simp add: listGET_OWNER_OF_NEXT_ENTRY_def set_index_def)
    next
      case (Cons b bs')
      moreover have "b \<noteq> ListEnd l" using E(1) item(1) Cons by auto
      ultimately show ?thesis
        using n r by (simp add: listGET_OWNER_OF_NEXT_ENTRY_def set_index_def)
    qed
  qed
qed

fun next_entries :: "nat \<Rightarrow> nat \<Rightarrow> list_heap \<Rightarrow> nat list \<times> list_heap" where
  "next_entries 0 l h = ([], h)"
| "next_entries (Suc n) l h =
     (let (ow, h) = listGET_OWNER_OF_NEXT_ENTRY l h; (ows, h) = next_entries n l h in (ow # ows, h))"

lemma set_index_is_list:
  assumes "is_list h l xs" and "i \<in> set xs"
  shows "is_list (set_index l i h) l xs"
proof -
  have "linked (set_index l i h) ys \<longleftrightarrow> linked h ys" for ys
    by (rule linked_cong) (simp_all add: set_index_def)
  with assms show ?thesis by (simp add: is_list_def set_index_def)
qed

lemma next_entries_take:
  assumes "is_list h l xs" and "n \<le> length xs"
  shows "\<exists>i. i \<in> insert (pxIndex h l) (set xs) \<and> next_entries n l h =
      (map (pvOwner h) (take n (rr_order (pxIndex h l) xs)), set_index l i h) \<and>
     rr_order i xs = rotate n (rr_order (pxIndex h l) xs)"
  using assms
proof (induction n arbitrary: h)
  case 0
  have "set_index l (pxIndex h l) h = h" by (simp add: set_index_def)
  then show ?case by auto
next
  case (Suc n)
  let ?r = "rr_order (pxIndex h l) xs"
  define h1 where "h1 = set_index l (hd ?r) h"
  have d: "distinct xs" "xs \<noteq> []" using Suc.prems by (auto simp: is_list_def)
  have m: "set ?r = set xs" "length ?r = length xs" using set_rr_order[OF d(1)] mset_eq_setD mset_eq_length by blast+
  have ne: "?r \<noteq> []" using m(2) d(2) by auto
  then have "hd ?r \<in> set xs" using m(1) hd_in_set by blast
  then have l1: "is_list h1 l xs" unfolding h1_def by (rule set_index_is_list[OF Suc.prems(1)])
  have r1: "rr_order (pxIndex h1 l) xs = rotate1 ?r"
    using rr_order_hd[OF d] by (simp add: h1_def set_index_def)
  have "take n (rotate1 ?r) = take n (tl ?r)" using ne m(2) Suc.prems(2) by (cases ?r) simp_all
  then have t: "hd ?r # take n (rotate1 ?r) = take (Suc n) ?r" using ne by (cases ?r) simp_all
  obtain i where i: "i \<in> insert (pxIndex h1 l) (set xs)"
    "next_entries n l h1 = (map (pvOwner h1) (take n (rotate1 ?r)), set_index l i h1)"
    "rr_order i xs = rotate n (rotate1 ?r)"
    using Suc.IH[OF l1] Suc.prems(2) r1 by auto
  have "next_entries (Suc n) l h = (map (pvOwner h) (take (Suc n) ?r), set_index l i h)"
    using next_entry[OF Suc.prems(1) d(2)] i(2) by (simp add: h1_def set_index_def flip: t)
  moreover have "i \<in> set xs" using i(1) \<open>hd ?r \<in> set xs\<close> by (auto simp: h1_def set_index_def)
  ultimately show ?case using i(3) by (auto simp: rotate1_rotate_swap[symmetric])
qed

lemma vListInsertEnd_eq:
  assumes "is_list h l xs" and "pxContainer h (Item n) = None"
  shows "vListInsertEnd l (Item n) h =
    list_insert_after l (last (ListEnd l # takeWhile (\<lambda>x. x \<noteq> pxIndex h l) xs)) (Item n) h"
proof -
  let ?i = "pxIndex h l" and ?as = "takeWhile (\<lambda>x. x \<noteq> pxIndex h l) xs"
    and ?bs = "dropWhile (\<lambda>x. x \<noteq> pxIndex h l) xs"
  have s: "is_list h l (?as @ ?bs)" using assms(1) by simp
  have i: "?i = hd (?bs @ [ListEnd l])"
  proof (cases "?i \<in> set xs")
    case True
    then have "?bs \<noteq> []" by (auto simp: dropWhile_eq_Nil_conv)
    with hd_dropWhile[of "\<lambda>x. x \<noteq> ?i" xs] show ?thesis unfolding hd_append by auto
  next
    case False
    then have "?bs = []" by (auto simp: dropWhile_eq_Nil_conv)
    moreover have "?i = ListEnd l" using assms(1) False by (auto simp: is_list_def)
    ultimately show ?thesis by (metis append_Nil list.sel(1))
  qed
  note np = next_prev_at[OF s, folded i]
  have "Item n \<notin> set xs" using not_in_list[OF assms(1)] assms(2) by simp
  moreover have "last (ListEnd l # ?as) \<in> insert (ListEnd l) (set xs)"
    using set_takeWhileD[OF last_in_set, of "\<lambda>x. x \<noteq> ?i" xs] by (cases "?as = []") simp_all
  ultimately have "Item n \<noteq> ?i" "Item n \<noteq> pxPrevious h ?i"
    using assms(1) unfolding np(2) by (auto simp: is_list_def simp del: last.simps)
  then show ?thesis
    unfolding np(2)[symmetric] using np(1)[folded np(2)]
    by (simp add: vListInsertEnd_def list_insert_after_def heap_ops Let_def fun_upd_twist)
qed

text \<open>
  C19: round robin. \<open>vListInsertEnd\<close> puts an item just before the position of the index, and from then on as
  many calls of \<open>listGET_OWNER_OF_NEXT_ENTRY\<close> as there are items return every owner exactly once: first the
  items that were to come before, then the new one, and at the end the item the index pointed to (if it
  pointed to an item). Lists other than \<open>l\<close> are unchanged.
\<close>
theorem list_round_robin:
  assumes "heap_lists h D L" and "l \<in> D" and "pxContainer h (Item n) = None" and "Suc (length (L l)) < 2 ^ 32"
  shows "heap_lists (vListInsertEnd l (Item n) h) D
      (L(l := takeWhile (\<lambda>x. x \<noteq> pxIndex h l) (L l) @ Item n # dropWhile (\<lambda>x. x \<noteq> pxIndex h l) (L l))) \<and>
    fst (next_entries (Suc (length (L l))) l (vListInsertEnd l (Item n) h)) = map (pvOwner h)
      (if pxIndex h l = ListEnd l then L l @ [Item n]
       else butlast (rr_order (pxIndex h l) (L l)) @ [Item n, pxIndex h l])"
proof -
  let ?i = "pxIndex h l" and ?h = "vListInsertEnd l (Item n) h"
  let ?xs = "takeWhile (\<lambda>x. x \<noteq> ?i) (L l) @ Item n # dropWhile (\<lambda>x. x \<noteq> ?i) (L l)"
  have l: "is_list h l (L l)" using assms(1,2) by (simp add: heap_lists_def)
  note e = vListInsertEnd_eq[OF l assms(3)]
  have ls: "heap_lists ?h D (L(l := ?xs))"
    unfolding e by (rule insert_after_lists[OF assms(1,2) _ refl assms(3,4)]) simp
  then have l': "is_list ?h l ?xs" using assms(2) unfolding heap_lists_def by (metis fun_upd_same)
  have len: "length ?xs = Suc (length (L l))"
    by (metis add_Suc_right length_Cons length_append takeWhile_dropWhile_id)
  have f: "pxIndex ?h l = ?i" "pvOwner ?h = pvOwner h" unfolding e by simp_all
  have new: "Item n \<notin> set (L l)" using not_in_list[OF l] assms(3) by simp
  have "distinct ?xs" using l' unfolding is_list_def by blast
  then have m: "length (rr_order ?i ?xs) = length ?xs" by (rule mset_eq_length[OF set_rr_order])
  have "rr_order ?i ?xs = (if ?i = ListEnd l then L l @ [Item n] else butlast (rr_order ?i (L l)) @ [Item n, ?i])"
    using l
  proof (cases rule: index_cases)
    case marker
    then have "takeWhile (\<lambda>x. x \<noteq> ?i) (L l) = L l" "dropWhile (\<lambda>x. x \<noteq> ?i) (L l) = []"
      by (auto simp: takeWhile_eq_all_conv dropWhile_eq_Nil_conv)
    then have "?xs = L l @ [Item n]" by metis
    with marker show ?thesis by simp
  next
    case (item as bs)
    then have "?xs = (as @ [Item n]) @ ?i # bs"
      by (subst (1 2) item(1)) (auto simp: takeWhile_append dropWhile_append)
    moreover have "?i \<notin> set (as @ [Item n])" using item new by auto
    ultimately have "rr_order ?i ?xs = bs @ (as @ [Item n]) @ [?i]" by (metis rr_order_at)
    moreover have "rr_order ?i (L l) = bs @ as @ [?i]" by (metis item(1,2) rr_order_at)
    ultimately show ?thesis using item(4) by (simp add: butlast_append)
  qed
  with next_entries_take[OF l', of "length ?xs"] ls m show ?thesis unfolding len f by auto
qed

theorem list_round_robin_witness:
  "fst (next_entries 3 0 (vListInsertEnd 0 (Item 3) demo_lists)) = [102, 103, 101]"
proof -
  have r: "rr_order (Item 1) [Item 1, Item 2] = [Item 2, Item 1]" by (simp add: rr_order_def)
  have n: "Suc (length [Item 1, Item 2]) = 3" by simp
  show ?thesis
    using list_round_robin[OF demo_lists_ok, of 0 3] unfolding demo_facts n r by (simp add: demo_facts)
qed

end
