(* ===== verification/Rtos_Tasks.thy ===== *)
theory Rtos_Tasks
  imports Rtos_List
begin

section \<open>The FreeRTOS scheduler\<close>

text \<open>
  \<^verbatim>\<open>FreeRTOS/Source/tasks.c\<close> with the configuration of the demo (five priorities, preemption with time
  slicing, generic task selection, 32-bit ticks, mutexes, notifications with one entry, no tickless
  idling, no tick hook), over the linked lists of theory \<open>Rtos_List\<close>. The static variables are the
  record \<open>kernel\<close>; a task is the address of its control block, and 0 is the null pointer.

  Critical sections mask interrupts around bodies that run to completion here. A yield sets the
  PendSV bit of the interrupt controller (\<open>port_yield\<close>); the handler switches the context when the
  interrupt is taken. A failed \<open>configASSERT\<close> stops the system, a null pointer is undefined and a loop
  may run forever: these are the values \<open>Inl\<close> of the result type.
\<close>

subsection \<open>State\<close>

definition configMAX_PRIORITIES :: nat where "configMAX_PRIORITIES = 5"

definition tskIDLE_PRIORITY :: nat where "tskIDLE_PRIORITY = 0"

text \<open>The lists of the scheduler by their addresses; the lists of other kernel objects follow.\<close>

abbreviation (input) pxReadyTasksLists :: "nat \<Rightarrow> nat" where "pxReadyTasksLists p \<equiv> p"

definition xDelayedTaskList1 :: nat where "xDelayedTaskList1 = 5"

definition xDelayedTaskList2 :: nat where "xDelayedTaskList2 = 6"

definition xPendingReadyList :: nat where "xPendingReadyList = 7"

definition xTasksWaitingTermination :: nat where "xTasksWaitingTermination = 8"

definition xSuspendedTaskList :: nat where "xSuspendedTaskList = 9"

lemmas list_addresses = xDelayedTaskList1_def xDelayedTaskList2_def xPendingReadyList_def
  xTasksWaitingTermination_def xSuspendedTaskList_def

text \<open>The two list items inside a control block.\<close>

definition xStateListItem :: "nat \<Rightarrow> list_item" where "xStateListItem t = Item (2 * t)"

definition xEventListItem :: "nat \<Rightarrow> list_item" where "xEventListItem t = Item (2 * t + 1)"

datatype notify_state = taskNOT_WAITING_NOTIFICATION | taskWAITING_NOTIFICATION | taskNOTIFICATION_RECEIVED

record tcb =
  pxTopOfStack :: u32
  uxPriority :: nat
  pxStack :: u32
  pcTaskName :: "u8 list"
  uxTCBNumber :: u32
  uxBasePriority :: nat
  uxMutexesHeld :: u32
  ulNotifiedValue :: u32
  ucNotifyState :: notify_state
  ucDelayAborted :: bool

record kernel =
  lists :: list_heap
  tcbs :: "nat \<Rightarrow> tcb"
  pxCurrentTCB :: "nat option"
  pxDelayedTaskList :: nat
  pxOverflowDelayedTaskList :: nat
  uxDeletedTasksWaitingCleanUp :: u32
  uxCurrentNumberOfTasks :: u32
  xTickCount :: u32
  uxTopReadyPriority :: nat
  xSchedulerRunning :: bool
  xPendedTicks :: u32
  xYieldPending :: bool
  xNumOfOverflows :: u32
  uxTaskNumber :: u32
  xNextTaskUnblockTime :: u32
  uxSchedulerSuspended :: u32
  port_yield :: bool

type_synonym 'a kcall = "kernel \<Rightarrow> ('a \<times> kernel) res"

text \<open>Updates of one control block, and the list operations on the kernel's heap.\<close>

definition upd_tcb :: "nat \<Rightarrow> (tcb \<Rightarrow> tcb) \<Rightarrow> kernel \<Rightarrow> kernel" where
  "upd_tcb t f k = k\<lparr>tcbs := (tcbs k)(t := f (tcbs k t))\<rparr>"

definition item_value :: "kernel \<Rightarrow> list_item \<Rightarrow> u32" where
  "item_value k it = xItemValue (lists k) it"

definition set_item_value :: "list_item \<Rightarrow> u32 \<Rightarrow> kernel \<Rightarrow> kernel" where
  "set_item_value it v k = k\<lparr>lists := listSET_LIST_ITEM_VALUE it v (lists k)\<rparr>"

definition container :: "kernel \<Rightarrow> list_item \<Rightarrow> nat option" where
  "container k it = pxContainer (lists k) it"

definition insert_end :: "nat \<Rightarrow> list_item \<Rightarrow> kernel \<Rightarrow> kernel" where
  "insert_end l it k = k\<lparr>lists := listINSERT_END l it (lists k)\<rparr>"

definition insert_sorted :: "nat \<Rightarrow> list_item \<Rightarrow> kernel \<Rightarrow> kernel res" where
  "insert_sorted l it k =
     (case vListInsert l it (lists k) of None \<Rightarrow> Inl Diverges | Some h \<Rightarrow> Inr (k\<lparr>lists := h\<rparr>))"

definition remove_item :: "list_item \<Rightarrow> kernel \<Rightarrow> kernel res" where
  "remove_item it k =
     (case listREMOVE_ITEM it (lists k) of None \<Rightarrow> Inl NullPointer | Some h \<Rightarrow> Inr (k\<lparr>lists := h\<rparr>))"

definition list_remove :: "list_item \<Rightarrow> u32 kcall" where
  "list_remove it k =
     (case uxListRemove it (lists k) of None \<Rightarrow> Inl NullPointer | Some (n, h) \<Rightarrow> Inr (n, k\<lparr>lists := h\<rparr>))"

definition portYIELD_WITHIN_API :: "kernel \<Rightarrow> kernel" where
  "portYIELD_WITHIN_API k = k\<lparr>port_yield := True\<rparr>"

definition current :: "kernel \<Rightarrow> nat res" where
  "current k = deref (pxCurrentTCB k)"

definition current_priority :: "kernel \<Rightarrow> nat res" where
  "current_priority k = res_bind (current k) (\<lambda>c. Inr (uxPriority (tcbs k c)))"

subsection \<open>Ready lists and task selection\<close>

definition taskRECORD_READY_PRIORITY :: "nat \<Rightarrow> kernel \<Rightarrow> kernel" where
  "taskRECORD_READY_PRIORITY p k =
     (if p > uxTopReadyPriority k then k\<lparr>uxTopReadyPriority := p\<rparr> else k)"

definition prvAddTaskToReadyList :: "nat \<Rightarrow> kernel \<Rightarrow> kernel" where
  "prvAddTaskToReadyList t k =
     (let k = taskRECORD_READY_PRIORITY (uxPriority (tcbs k t)) k
      in insert_end (pxReadyTasksLists (uxPriority (tcbs k t))) (xStateListItem t) k)"

text \<open>The search downwards from a priority; at priority 0 an empty list violates the assertion.\<close>

primrec top_ready_from :: "list_heap \<Rightarrow> nat \<Rightarrow> nat res" where
  "top_ready_from h 0 = (if listLIST_IS_EMPTY (pxReadyTasksLists 0) h then Inl AssertionFailed else Inr 0)"
| "top_ready_from h (Suc p) =
     (if listLIST_IS_EMPTY (pxReadyTasksLists (Suc p)) h then top_ready_from h p else Inr (Suc p))"

definition taskSELECT_HIGHEST_PRIORITY_TASK :: "kernel \<Rightarrow> kernel res" where
  "taskSELECT_HIGHEST_PRIORITY_TASK k =
     res_bind (top_ready_from (lists k) (uxTopReadyPriority k)) (\<lambda>uxTopPriority.
       let (ow, h) = listGET_OWNER_OF_NEXT_ENTRY (pxReadyTasksLists uxTopPriority) (lists k)
       in Inr (k\<lparr>lists := h, pxCurrentTCB := Some ow, uxTopReadyPriority := uxTopPriority\<rparr>))"

definition vTaskSwitchContext :: "kernel \<Rightarrow> kernel res" where
  "vTaskSwitchContext k =
     (if uxSchedulerSuspended k \<noteq> 0 then Inr (k\<lparr>xYieldPending := True\<rparr>)
      else taskSELECT_HIGHEST_PRIORITY_TASK (k\<lparr>xYieldPending := False\<rparr>))"

text \<open>The PendSV handler: what it does besides saving and restoring registers.\<close>

definition xPortPendSVHandler :: "kernel \<Rightarrow> kernel res" where
  "xPortPendSVHandler k = vTaskSwitchContext (k\<lparr>port_yield := False\<rparr>)"

subsection \<open>Time\<close>

definition prvResetNextTaskUnblockTime :: "kernel \<Rightarrow> kernel" where
  "prvResetNextTaskUnblockTime k =
     (if listLIST_IS_EMPTY (pxDelayedTaskList k) (lists k) then k\<lparr>xNextTaskUnblockTime := portMAX_DELAY\<rparr>
      else k\<lparr>xNextTaskUnblockTime := listGET_ITEM_VALUE_OF_HEAD_ENTRY (pxDelayedTaskList k) (lists k)\<rparr>)"

definition taskSWITCH_DELAYED_LISTS :: "kernel \<Rightarrow> kernel res" where
  "taskSWITCH_DELAYED_LISTS k =
     assert_that (listLIST_IS_EMPTY (pxDelayedTaskList k) (lists k))
       (let k = k\<lparr>pxDelayedTaskList := pxOverflowDelayedTaskList k,
                pxOverflowDelayedTaskList := pxDelayedTaskList k,
                xNumOfOverflows := xNumOfOverflows k + 1\<rparr>
        in Inr (prvResetNextTaskUnblockTime k))"

text \<open>
  A task whose time has come leaves the delayed list and the list of the event it waited for; the
  result tells whether its priority is above that of the running task.
\<close>

definition unblock_task :: "nat \<Rightarrow> bool kcall" where
  "unblock_task t k =
     res_bind (remove_item (xStateListItem t) k) (\<lambda>k.
     res_bind (if container k (xEventListItem t) \<noteq> None then remove_item (xEventListItem t) k else Inr k) (\<lambda>k.
     let k = prvAddTaskToReadyList t k in
     res_bind (current_priority k) (\<lambda>p. Inr (uxPriority (tcbs k t) > p, k))))"

partial_function (option) unblock_expired :: "u32 \<Rightarrow> bool \<Rightarrow> kernel \<Rightarrow> (bool \<times> kernel) res option" where
  "unblock_expired xConstTickCount xSwitchRequired k =
     (if listLIST_IS_EMPTY (pxDelayedTaskList k) (lists k)
      then Some (Inr (xSwitchRequired, k\<lparr>xNextTaskUnblockTime := portMAX_DELAY\<rparr>))
      else
        let t = listGET_OWNER_OF_HEAD_ENTRY (pxDelayedTaskList k) (lists k);
            v = item_value k (xStateListItem t)
        in if xConstTickCount < v then Some (Inr (xSwitchRequired, k\<lparr>xNextTaskUnblockTime := v\<rparr>))
           else case unblock_task t k of
               Inl e \<Rightarrow> Some (Inl e)
             | Inr (higher, k') \<Rightarrow> unblock_expired xConstTickCount (xSwitchRequired \<or> higher) k')"

definition run_unblock :: "u32 \<Rightarrow> kernel \<Rightarrow> (bool \<times> kernel) res" where
  "run_unblock tick k =
     (if tick \<ge> xNextTaskUnblockTime k
      then (case unblock_expired tick False k of None \<Rightarrow> Inl Diverges | Some r \<Rightarrow> r)
      else Inr (False, k))"

definition xTaskIncrementTick :: "bool kcall" where
  "xTaskIncrementTick k =
     (if uxSchedulerSuspended k = 0 then
        let xConstTickCount = xTickCount k + 1; k = k\<lparr>xTickCount := xConstTickCount\<rparr> in
        res_bind (if xConstTickCount = 0 then taskSWITCH_DELAYED_LISTS k else Inr k) (\<lambda>k.
        res_bind (run_unblock xConstTickCount k) (\<lambda>(xSwitchRequired, k).
        res_bind (current_priority k) (\<lambda>p.
        Inr (xSwitchRequired \<or> listCURRENT_LIST_LENGTH (pxReadyTasksLists p) (lists k) > 1 \<or> xYieldPending k, k))))
      else Inr (False, k\<lparr>xPendedTicks := xPendedTicks k + 1\<rparr>))"

definition xPortSysTickHandler :: "kernel \<Rightarrow> kernel res" where
  "xPortSysTickHandler k =
     res_bind (xTaskIncrementTick k) (\<lambda>(sw, k). Inr (if sw then k\<lparr>port_yield := True\<rparr> else k))"

subsection \<open>Blocking\<close>

definition prvAddCurrentTaskToDelayedList :: "u32 \<Rightarrow> bool \<Rightarrow> kernel \<Rightarrow> kernel res" where
  "prvAddCurrentTaskToDelayedList xTicksToWait xCanBlockIndefinitely k =
     res_bind (current k) (\<lambda>c.
       let k = upd_tcb c (ucDelayAborted_update (\<lambda>_. False)) k in
       res_bind (list_remove (xStateListItem c) k) (\<lambda>(_, k).
       if xTicksToWait = portMAX_DELAY \<and> xCanBlockIndefinitely
       then Inr (insert_end xSuspendedTaskList (xStateListItem c) k)
       else
         let xTimeToWake = xTickCount k + xTicksToWait; k = set_item_value (xStateListItem c) xTimeToWake k in
         if xTimeToWake < xTickCount k
         then insert_sorted (pxOverflowDelayedTaskList k) (xStateListItem c) k
         else res_bind (insert_sorted (pxDelayedTaskList k) (xStateListItem c) k) (\<lambda>k.
           Inr (if xTimeToWake < xNextTaskUnblockTime k then k\<lparr>xNextTaskUnblockTime := xTimeToWake\<rparr> else k))))"

definition vTaskSuspendAll :: "kernel \<Rightarrow> kernel" where
  "vTaskSuspendAll k = k\<lparr>uxSchedulerSuspended := uxSchedulerSuspended k + 1\<rparr>"

text \<open>Tasks readied while the scheduler was suspended move to their ready lists; the flag tells whether any did.\<close>

definition move_pending :: "nat \<Rightarrow> kernel \<Rightarrow> kernel res" where
  "move_pending t k =
     res_bind (remove_item (xEventListItem t) k) (\<lambda>k.
     res_bind (remove_item (xStateListItem t) k) (\<lambda>k.
     let k = prvAddTaskToReadyList t k in
     res_bind (current_priority k) (\<lambda>p.
     Inr (if uxPriority (tcbs k t) \<ge> p then k\<lparr>xYieldPending := True\<rparr> else k))))"

partial_function (option) drain_pending :: "bool \<Rightarrow> kernel \<Rightarrow> (bool \<times> kernel) res option" where
  "drain_pending moved k =
     (if listLIST_IS_EMPTY xPendingReadyList (lists k) then Some (Inr (moved, k))
      else case move_pending (listGET_OWNER_OF_HEAD_ENTRY xPendingReadyList (lists k)) k of
          Inl e \<Rightarrow> Some (Inl e)
        | Inr k' \<Rightarrow> drain_pending True k')"

primrec pended_ticks :: "nat \<Rightarrow> kernel \<Rightarrow> kernel res" where
  "pended_ticks 0 k = Inr k"
| "pended_ticks (Suc n) k =
     res_bind (xTaskIncrementTick k) (\<lambda>(sw, k). pended_ticks n (if sw then k\<lparr>xYieldPending := True\<rparr> else k))"

definition resume_tasks :: "bool kcall" where
  "resume_tasks k =
     res_bind (case drain_pending False k of None \<Rightarrow> Inl Diverges | Some r \<Rightarrow> r) (\<lambda>(moved, k).
       let k = (if moved then prvResetNextTaskUnblockTime k else k) in
       res_bind (if xPendedTicks k > 0
           then res_bind (pended_ticks (unat (xPendedTicks k)) k) (\<lambda>k. Inr (k\<lparr>xPendedTicks := 0\<rparr>))
           else Inr k) (\<lambda>k.
       Inr (xYieldPending k, if xYieldPending k then portYIELD_WITHIN_API k else k)))"

definition xTaskResumeAll :: "bool kcall" where
  "xTaskResumeAll k =
     assert_that (uxSchedulerSuspended k \<noteq> 0)
       (let k = k\<lparr>uxSchedulerSuspended := uxSchedulerSuspended k - 1\<rparr> in
        if uxSchedulerSuspended k = 0 \<and> uxCurrentNumberOfTasks k > 0 then resume_tasks k else Inr (False, k))"

definition vTaskDelay :: "u32 \<Rightarrow> kernel \<Rightarrow> kernel res" where
  "vTaskDelay xTicksToDelay k =
     res_bind
       (if xTicksToDelay > 0
        then assert_that (uxSchedulerSuspended k = 0)
          (res_bind (prvAddCurrentTaskToDelayedList xTicksToDelay False (vTaskSuspendAll k)) xTaskResumeAll)
        else Inr (False, k))
       (\<lambda>(xAlreadyYielded, k). Inr (if \<not> xAlreadyYielded then portYIELD_WITHIN_API k else k))"

text \<open>Returns whether the task was delayed and the time of the next wake-up.\<close>

definition xTaskDelayUntil :: "u32 \<Rightarrow> u32 \<Rightarrow> (bool \<times> u32) kcall" where
  "xTaskDelayUntil PreviousWakeTime xTimeIncrement k =
     assert_that (xTimeIncrement > 0) (assert_that (uxSchedulerSuspended k = 0)
       (let k = vTaskSuspendAll k;
            xConstTickCount = xTickCount k;
            xTimeToWake = PreviousWakeTime + xTimeIncrement;
            xShouldDelay =
              (if xConstTickCount < PreviousWakeTime
               then xTimeToWake < PreviousWakeTime \<and> xTimeToWake > xConstTickCount
               else xTimeToWake < PreviousWakeTime \<or> xTimeToWake > xConstTickCount)
        in res_bind (if xShouldDelay then prvAddCurrentTaskToDelayedList (xTimeToWake - xConstTickCount) False k
             else Inr k) (\<lambda>k.
           res_bind (xTaskResumeAll k) (\<lambda>(xAlreadyYielded, k).
           Inr ((xShouldDelay, xTimeToWake), if \<not> xAlreadyYielded then portYIELD_WITHIN_API k else k)))))"

end
