(* ===== verification/Rtos_Task_Api.thy ===== *)
theory Rtos_Task_Api
  imports Rtos_Tasks
begin

section \<open>Events, priorities, suspension and notifications\<close>

text \<open>
  The operations of \<^verbatim>\<open>FreeRTOS/Source/tasks.c\<close> that queues, semaphores and applications call, over
  the scheduler of theory \<open>Rtos_Tasks\<close>. A handle that may be null is an option; a call that blocks in the
  middle is two definitions, the part before the context switch and the part the task runs when it is
  scheduled again. In the functions for interrupt handlers, \<open>prio_ok\<close> is the condition that
  \<open>portASSERT_IF_INTERRUPT_PRIORITY_INVALID\<close> reads from the interrupt controller.
\<close>

subsection \<open>Event lists\<close>

definition taskEVENT_LIST_ITEM_VALUE_IN_USE :: u32 where
  "taskEVENT_LIST_ITEM_VALUE_IN_USE = 0x80000000"

definition vTaskPlaceOnEventList :: "nat \<Rightarrow> u32 \<Rightarrow> kernel \<Rightarrow> kernel res" where
  "vTaskPlaceOnEventList pxEventList xTicksToWait k =
     res_bind (current k) (\<lambda>c.
     res_bind (insert_sorted pxEventList (xEventListItem c) k)
       (prvAddCurrentTaskToDelayedList xTicksToWait True))"

definition vTaskPlaceOnUnorderedEventList :: "nat \<Rightarrow> u32 \<Rightarrow> u32 \<Rightarrow> kernel \<Rightarrow> kernel res" where
  "vTaskPlaceOnUnorderedEventList pxEventList v xTicksToWait k =
     assert_that (uxSchedulerSuspended k \<noteq> 0)
       (res_bind (current k) (\<lambda>c.
          let k = set_item_value (xEventListItem c) (v OR taskEVENT_LIST_ITEM_VALUE_IN_USE) k;
              k = insert_end pxEventList (xEventListItem c) k
          in prvAddCurrentTaskToDelayedList xTicksToWait True k))"

definition vTaskPlaceOnEventListRestricted :: "nat \<Rightarrow> u32 \<Rightarrow> bool \<Rightarrow> kernel \<Rightarrow> kernel res" where
  "vTaskPlaceOnEventListRestricted pxEventList xTicksToWait xWaitIndefinitely k =
     res_bind (current k) (\<lambda>c.
       let k = insert_end pxEventList (xEventListItem c) k;
           xTicksToWait = (if xWaitIndefinitely then portMAX_DELAY else xTicksToWait)
       in prvAddCurrentTaskToDelayedList xTicksToWait xWaitIndefinitely k)"

text \<open>Make a task ready, or hold it in the pending list while the scheduler is suspended.\<close>

definition ready_or_pend :: "nat \<Rightarrow> kernel \<Rightarrow> kernel res" where
  "ready_or_pend t k =
     (if uxSchedulerSuspended k = 0
      then res_bind (remove_item (xStateListItem t) k) (\<lambda>k. Inr (prvAddTaskToReadyList t k))
      else Inr (insert_end xPendingReadyList (xEventListItem t) k))"

text \<open>The flag tells whether the task is above the running one; then a yield is also marked pending.\<close>

definition pend_yield_if_higher :: "nat \<Rightarrow> bool kcall" where
  "pend_yield_if_higher t k =
     res_bind (current_priority k) (\<lambda>p.
       Inr (if uxPriority (tcbs k t) > p then (True, k\<lparr>xYieldPending := True\<rparr>) else (False, k)))"

definition xTaskRemoveFromEventList :: "nat \<Rightarrow> bool kcall" where
  "xTaskRemoveFromEventList pxEventList k =
     (let t = listGET_OWNER_OF_HEAD_ENTRY pxEventList (lists k) in
      assert_that (t \<noteq> 0)
        (res_bind (remove_item (xEventListItem t) k) (\<lambda>k.
         res_bind (ready_or_pend t k) (pend_yield_if_higher t))))"

definition vTaskRemoveFromUnorderedEventList :: "list_item \<Rightarrow> u32 \<Rightarrow> kernel \<Rightarrow> kernel res" where
  "vTaskRemoveFromUnorderedEventList pxEventListItem v k =
     assert_that (uxSchedulerSuspended k \<noteq> 0)
       (let k = set_item_value pxEventListItem (v OR taskEVENT_LIST_ITEM_VALUE_IN_USE) k;
            t = pvOwner (lists k) pxEventListItem
        in assert_that (t \<noteq> 0)
          (res_bind (remove_item pxEventListItem k) (\<lambda>k.
           res_bind (remove_item (xStateListItem t) k) (\<lambda>k.
           res_bind (pend_yield_if_higher t (prvAddTaskToReadyList t k)) (\<lambda>(_, k). Inr k)))))"

definition uxTaskResetEventItemValue :: "u32 kcall" where
  "uxTaskResetEventItemValue k =
     res_bind (current k) (\<lambda>c.
       Inr (item_value k (xEventListItem c),
            set_item_value (xEventListItem c) (of_nat configMAX_PRIORITIES - of_nat (uxPriority (tcbs k c))) k))"

subsection \<open>Timeouts\<close>

record timeout =
  xOverflowCount :: u32
  xTimeOnEntering :: u32

definition vTaskInternalSetTimeOutState :: "kernel \<Rightarrow> timeout" where
  "vTaskInternalSetTimeOutState k = \<lparr>xOverflowCount = xNumOfOverflows k, xTimeOnEntering = xTickCount k\<rparr>"

definition vTaskSetTimeOutState :: "kernel \<Rightarrow> timeout" where
  "vTaskSetTimeOutState k = \<lparr>xOverflowCount = xNumOfOverflows k, xTimeOnEntering = xTickCount k\<rparr>"

text \<open>Returns whether the time is over, the updated timeout and the updated ticks to wait.\<close>

definition xTaskCheckForTimeOut :: "timeout \<Rightarrow> u32 \<Rightarrow> (bool \<times> timeout \<times> u32) kcall" where
  "xTaskCheckForTimeOut pxTimeOut ticks k =
     res_bind (current k) (\<lambda>c.
       let xConstTickCount = xTickCount k;
           xElapsedTime = xConstTickCount - xTimeOnEntering pxTimeOut
       in Inr
         (if ucDelayAborted (tcbs k c)
          then ((True, pxTimeOut, ticks), upd_tcb c (ucDelayAborted_update (\<lambda>_. False)) k)
          else if ticks = portMAX_DELAY then ((False, pxTimeOut, ticks), k)
          else if xNumOfOverflows k \<noteq> xOverflowCount pxTimeOut \<and> xConstTickCount \<ge> xTimeOnEntering pxTimeOut
          then ((True, pxTimeOut, 0), k)
          else if xElapsedTime < ticks
          then ((False, vTaskInternalSetTimeOutState k, ticks - xElapsedTime), k)
          else ((True, pxTimeOut, 0), k)))"

definition vTaskMissedYield :: "kernel \<Rightarrow> kernel" where
  "vTaskMissedYield k = k\<lparr>xYieldPending := True\<rparr>"

definition xTaskCatchUpTicks :: "u32 \<Rightarrow> bool kcall" where
  "xTaskCatchUpTicks xTicksToCatchUp k =
     assert_that (uxSchedulerSuspended k = 0)
       (let k = vTaskSuspendAll k in xTaskResumeAll (k\<lparr>xPendedTicks := xPendedTicks k + xTicksToCatchUp\<rparr>))"

subsection \<open>Priorities\<close>

definition prvGetTCBFromHandle :: "nat option \<Rightarrow> kernel \<Rightarrow> nat res" where
  "prvGetTCBFromHandle h k = (case h of None \<Rightarrow> current k | Some t \<Rightarrow> Inr t)"

definition uxTaskPriorityGet :: "nat option \<Rightarrow> kernel \<Rightarrow> nat res" where
  "uxTaskPriorityGet h k = res_bind (prvGetTCBFromHandle h k) (\<lambda>t. Inr (uxPriority (tcbs k t)))"

text \<open>The value of an event item follows the priority unless an event group uses it.\<close>

definition reset_event_value :: "nat \<Rightarrow> nat \<Rightarrow> kernel \<Rightarrow> kernel" where
  "reset_event_value t p k =
     (if item_value k (xEventListItem t) AND taskEVENT_LIST_ITEM_VALUE_IN_USE = 0
      then set_item_value (xEventListItem t) (of_nat configMAX_PRIORITIES - of_nat p) k else k)"

definition in_ready_list :: "nat \<Rightarrow> nat \<Rightarrow> kernel \<Rightarrow> bool" where
  "in_ready_list p t k = listIS_CONTAINED_WITHIN (pxReadyTasksLists p) (xStateListItem t) (lists k)"

definition vTaskPrioritySet :: "nat option \<Rightarrow> nat \<Rightarrow> kernel \<Rightarrow> kernel res" where
  "vTaskPrioritySet h uxNewPriority k =
     assert_that (uxNewPriority < configMAX_PRIORITIES)
       (res_bind (prvGetTCBFromHandle h k) (\<lambda>t.
          let uxCurrentBasePriority = uxBasePriority (tcbs k t) in
          if uxCurrentBasePriority = uxNewPriority then Inr k
          else res_bind
            (if uxNewPriority > uxCurrentBasePriority
             then (if Some t \<noteq> pxCurrentTCB k
                   then res_bind (current_priority k) (\<lambda>p. Inr (uxNewPriority \<ge> p)) else Inr False)
             else Inr (Some t = pxCurrentTCB k))
            (\<lambda>xYieldRequired.
               let uxPriorityUsedOnEntry = uxPriority (tcbs k t);
                   k = (if uxBasePriority (tcbs k t) = uxPriority (tcbs k t)
                        then upd_tcb t (uxPriority_update (\<lambda>_. uxNewPriority)) k else k);
                   k = upd_tcb t (uxBasePriority_update (\<lambda>_. uxNewPriority)) k;
                   k = reset_event_value t uxNewPriority k
               in res_bind
                 (if in_ready_list uxPriorityUsedOnEntry t k
                  then res_bind (list_remove (xStateListItem t) k) (\<lambda>(_, k). Inr (prvAddTaskToReadyList t k))
                  else Inr k)
                 (\<lambda>k. Inr (if xYieldRequired then portYIELD_WITHIN_API k else k)))))"

definition xTaskPriorityInherit :: "nat option \<Rightarrow> bool kcall" where
  "xTaskPriorityInherit pxMutexHolder k =
     (case pxMutexHolder of
        None \<Rightarrow> Inr (False, k)
      | Some t \<Rightarrow> res_bind (current_priority k) (\<lambda>p.
          if uxPriority (tcbs k t) < p then
            let k = reset_event_value t p k in
            res_bind
              (if in_ready_list (uxPriority (tcbs k t)) t k
               then res_bind (list_remove (xStateListItem t) k) (\<lambda>(_, k).
                 Inr (prvAddTaskToReadyList t (upd_tcb t (uxPriority_update (\<lambda>_. p)) k)))
               else Inr (upd_tcb t (uxPriority_update (\<lambda>_. p)) k))
              (\<lambda>k. Inr (True, k))
          else Inr (uxBasePriority (tcbs k t) < p, k)))"

definition xTaskPriorityDisinherit :: "nat option \<Rightarrow> bool kcall" where
  "xTaskPriorityDisinherit pxMutexHolder k =
     (case pxMutexHolder of
        None \<Rightarrow> Inr (False, k)
      | Some t \<Rightarrow> assert_that (Some t = pxCurrentTCB k) (assert_that (uxMutexesHeld (tcbs k t) \<noteq> 0)
          (let k = upd_tcb t (uxMutexesHeld_update (\<lambda>n. n - 1)) k in
           if uxPriority (tcbs k t) \<noteq> uxBasePriority (tcbs k t) \<and> uxMutexesHeld (tcbs k t) = 0
           then res_bind (list_remove (xStateListItem t) k) (\<lambda>(_, k).
             let k = upd_tcb t (\<lambda>c. c\<lparr>uxPriority := uxBasePriority c\<rparr>) k;
                 k = set_item_value (xEventListItem t)
                       (of_nat configMAX_PRIORITIES - of_nat (uxPriority (tcbs k t))) k
             in Inr (True, prvAddTaskToReadyList t k))
           else Inr (False, k))))"

definition vTaskPriorityDisinheritAfterTimeout :: "nat option \<Rightarrow> nat \<Rightarrow> kernel \<Rightarrow> kernel res" where
  "vTaskPriorityDisinheritAfterTimeout pxMutexHolder uxHighestPriorityWaitingTask k =
     (case pxMutexHolder of
        None \<Rightarrow> Inr k
      | Some t \<Rightarrow> assert_that (uxMutexesHeld (tcbs k t) \<noteq> 0)
          (let uxPriorityToUse =
                 (if uxBasePriority (tcbs k t) < uxHighestPriorityWaitingTask then uxHighestPriorityWaitingTask
                  else uxBasePriority (tcbs k t))
           in if uxPriority (tcbs k t) \<noteq> uxPriorityToUse \<and> uxMutexesHeld (tcbs k t) = 1
              then assert_that (Some t \<noteq> pxCurrentTCB k)
                (let uxPriorityUsedOnEntry = uxPriority (tcbs k t);
                     k = upd_tcb t (uxPriority_update (\<lambda>_. uxPriorityToUse)) k;
                     k = reset_event_value t uxPriorityToUse k
                 in if in_ready_list uxPriorityUsedOnEntry t k
                    then res_bind (list_remove (xStateListItem t) k) (\<lambda>(_, k). Inr (prvAddTaskToReadyList t k))
                    else Inr k)
              else Inr k))"

definition pvTaskIncrementMutexHeldCount :: "kernel \<Rightarrow> nat option \<times> kernel" where
  "pvTaskIncrementMutexHeldCount k =
     (pxCurrentTCB k,
      case pxCurrentTCB k of None \<Rightarrow> k | Some c \<Rightarrow> upd_tcb c (uxMutexesHeld_update (\<lambda>n. n + 1)) k)"

subsection \<open>Suspension\<close>

definition clear_notify_wait :: "tcb \<Rightarrow> tcb" where
  "clear_notify_wait c =
     (if ucNotifyState c = taskWAITING_NOTIFICATION then c\<lparr>ucNotifyState := taskNOT_WAITING_NOTIFICATION\<rparr> else c)"

definition remove_event_item :: "nat \<Rightarrow> kernel \<Rightarrow> kernel res" where
  "remove_event_item t k =
     (if container k (xEventListItem t) \<noteq> None
      then res_bind (list_remove (xEventListItem t) k) (\<lambda>(_, k). Inr k) else Inr k)"

definition vTaskSuspend :: "nat option \<Rightarrow> kernel \<Rightarrow> kernel res" where
  "vTaskSuspend xTaskToSuspend k =
     res_bind (prvGetTCBFromHandle xTaskToSuspend k) (\<lambda>t.
     res_bind (list_remove (xStateListItem t) k) (\<lambda>(_, k).
     res_bind (remove_event_item t k) (\<lambda>k.
       let k = k\<lparr>lists := vListInsertEnd xSuspendedTaskList (xStateListItem t) (lists k)\<rparr>;
           k = upd_tcb t clear_notify_wait k;
           k = (if xSchedulerRunning k then prvResetNextTaskUnblockTime k else k)
       in if Some t = pxCurrentTCB k then
            if xSchedulerRunning k
            then assert_that (uxSchedulerSuspended k = 0) (Inr (portYIELD_WITHIN_API k))
            else if listCURRENT_LIST_LENGTH xSuspendedTaskList (lists k) = uxCurrentNumberOfTasks k
            then Inr (k\<lparr>pxCurrentTCB := None\<rparr>)
            else vTaskSwitchContext k
          else Inr k)))"

definition prvTaskIsTaskSuspended :: "nat \<Rightarrow> kernel \<Rightarrow> bool" where
  "prvTaskIsTaskSuspended t k \<longleftrightarrow>
     listIS_CONTAINED_WITHIN xSuspendedTaskList (xStateListItem t) (lists k) \<and>
     \<not> listIS_CONTAINED_WITHIN xPendingReadyList (xEventListItem t) (lists k) \<and>
     container k (xEventListItem t) = None"

definition vTaskResume :: "nat option \<Rightarrow> kernel \<Rightarrow> kernel res" where
  "vTaskResume xTaskToResume k =
     (case xTaskToResume of
        None \<Rightarrow> Inl AssertionFailed
      | Some t \<Rightarrow>
          if Some t \<noteq> pxCurrentTCB k \<and> prvTaskIsTaskSuspended t k
          then res_bind (list_remove (xStateListItem t) k) (\<lambda>(_, k).
            let k = prvAddTaskToReadyList t k in
            res_bind (current_priority k) (\<lambda>p.
            Inr (if uxPriority (tcbs k t) \<ge> p then portYIELD_WITHIN_API k else k)))
          else Inr k)"

definition xTaskResumeFromISR :: "bool \<Rightarrow> nat option \<Rightarrow> bool kcall" where
  "xTaskResumeFromISR prio_ok xTaskToResume k =
     (case xTaskToResume of
        None \<Rightarrow> Inl AssertionFailed
      | Some t \<Rightarrow> assert_that prio_ok
          (if prvTaskIsTaskSuspended t k then
             if uxSchedulerSuspended k = 0 then
               res_bind (current_priority k) (\<lambda>p.
                 let xYieldRequired = (uxPriority (tcbs k t) \<ge> p);
                     k = (if xYieldRequired then k\<lparr>xYieldPending := True\<rparr> else k)
                 in res_bind (list_remove (xStateListItem t) k) (\<lambda>(_, k).
                    Inr (xYieldRequired, prvAddTaskToReadyList t k)))
             else Inr (False, k\<lparr>lists := vListInsertEnd xPendingReadyList (xEventListItem t) (lists k)\<rparr>)
           else Inr (False, k)))"

datatype eTaskState = eRunning | eReady | eBlocked | eSuspended | eDeleted | eInvalid

definition eTaskGetState :: "nat option \<Rightarrow> kernel \<Rightarrow> eTaskState res" where
  "eTaskGetState xTask k =
     (case xTask of
        None \<Rightarrow> Inl AssertionFailed
      | Some t \<Rightarrow> Inr
          (let pxStateList = container k (xStateListItem t) in
           if Some t = pxCurrentTCB k then eRunning
           else if pxStateList = Some (pxDelayedTaskList k) \<or> pxStateList = Some (pxOverflowDelayedTaskList k)
           then eBlocked
           else if pxStateList = Some xSuspendedTaskList then
             if container k (xEventListItem t) = None then
               if ucNotifyState (tcbs k t) = taskWAITING_NOTIFICATION then eBlocked else eSuspended
             else eBlocked
           else if pxStateList = Some xTasksWaitingTermination \<or> pxStateList = None then eDeleted
           else eReady))"

definition xTaskAbortDelay :: "nat option \<Rightarrow> bool kcall" where
  "xTaskAbortDelay xTask k =
     (case xTask of
        None \<Rightarrow> Inl AssertionFailed
      | Some t \<Rightarrow>
          let k = vTaskSuspendAll k in
          res_bind (eTaskGetState xTask k) (\<lambda>s.
          res_bind
            (if s = eBlocked then
               res_bind (list_remove (xStateListItem t) k) (\<lambda>(_, k).
               res_bind
                 (if container k (xEventListItem t) \<noteq> None
                  then res_bind (list_remove (xEventListItem t) k) (\<lambda>(_, k).
                    Inr (upd_tcb t (ucDelayAborted_update (\<lambda>_. True)) k))
                  else Inr k) (\<lambda>k.
               res_bind (pend_yield_if_higher t (prvAddTaskToReadyList t k)) (\<lambda>(_, k). Inr (True, k))))
             else Inr (False, k)) (\<lambda>(xReturn, k).
          res_bind (xTaskResumeAll k) (\<lambda>(_, k). Inr (xReturn, k)))))"

subsection \<open>Notifications\<close>

datatype eNotifyAction = eNoAction | eSetBits | eIncrement | eSetValueWithOverwrite | eSetValueWithoutOverwrite

text \<open>The new value, and whether it could be written.\<close>

definition notify_value :: "eNotifyAction \<Rightarrow> u32 \<Rightarrow> notify_state \<Rightarrow> u32 \<Rightarrow> bool \<times> u32" where
  "notify_value eAction ulValue original v =
     (case eAction of
        eSetBits \<Rightarrow> (True, v OR ulValue)
      | eIncrement \<Rightarrow> (True, v + 1)
      | eSetValueWithOverwrite \<Rightarrow> (True, ulValue)
      | eSetValueWithoutOverwrite \<Rightarrow> if original \<noteq> taskNOTIFICATION_RECEIVED then (True, ulValue) else (False, v)
      | eNoAction \<Rightarrow> (True, v))"

definition notify_tcb :: "eNotifyAction \<Rightarrow> u32 \<Rightarrow> tcb \<Rightarrow> tcb" where
  "notify_tcb eAction ulValue c =
     c\<lparr>ucNotifyState := taskNOTIFICATION_RECEIVED,
       ulNotifiedValue := snd (notify_value eAction ulValue (ucNotifyState c) (ulNotifiedValue c))\<rparr>"

text \<open>Returns whether the value was written, and the previous value.\<close>

definition xTaskGenericNotify :: "nat option \<Rightarrow> u32 \<Rightarrow> eNotifyAction \<Rightarrow> (bool \<times> u32) kcall" where
  "xTaskGenericNotify xTaskToNotify ulValue eAction k =
     (case xTaskToNotify of
        None \<Rightarrow> Inl AssertionFailed
      | Some t \<Rightarrow>
          let original = ucNotifyState (tcbs k t); previous = ulNotifiedValue (tcbs k t);
              r = (fst (notify_value eAction ulValue original previous), previous);
              k = upd_tcb t (notify_tcb eAction ulValue) k
          in if original = taskWAITING_NOTIFICATION then
               res_bind (remove_item (xStateListItem t) k) (\<lambda>k.
                 let k = prvAddTaskToReadyList t k in
                 assert_that (container k (xEventListItem t) = None)
                   (res_bind (current_priority k) (\<lambda>p.
                    Inr (r, if uxPriority (tcbs k t) > p then portYIELD_WITHIN_API k else k))))
             else Inr (r, k))"

text \<open>Returns whether a task above the running one was woken, besides the results of the task version.\<close>

definition xTaskGenericNotifyFromISR ::
    "bool \<Rightarrow> nat option \<Rightarrow> u32 \<Rightarrow> eNotifyAction \<Rightarrow> (bool \<times> u32 \<times> bool) kcall" where
  "xTaskGenericNotifyFromISR prio_ok xTaskToNotify ulValue eAction k =
     (case xTaskToNotify of
        None \<Rightarrow> Inl AssertionFailed
      | Some t \<Rightarrow> assert_that prio_ok
          (let original = ucNotifyState (tcbs k t); previous = ulNotifiedValue (tcbs k t);
               w = fst (notify_value eAction ulValue original previous);
               k = upd_tcb t (notify_tcb eAction ulValue) k
           in if original = taskWAITING_NOTIFICATION then
                assert_that (container k (xEventListItem t) = None)
                  (res_bind (ready_or_pend t k) (\<lambda>k.
                   res_bind (pend_yield_if_higher t k) (\<lambda>(woken, k). Inr ((w, previous, woken), k))))
              else Inr ((w, previous, False), k)))"

definition vTaskGenericNotifyGiveFromISR :: "bool \<Rightarrow> nat option \<Rightarrow> bool kcall" where
  "vTaskGenericNotifyGiveFromISR prio_ok xTaskToNotify k =
     (case xTaskToNotify of
        None \<Rightarrow> Inl AssertionFailed
      | Some t \<Rightarrow> assert_that prio_ok
          (let original = ucNotifyState (tcbs k t);
               k = upd_tcb t (\<lambda>c. c\<lparr>ucNotifyState := taskNOTIFICATION_RECEIVED,
                                    ulNotifiedValue := ulNotifiedValue c + 1\<rparr>) k
           in if original = taskWAITING_NOTIFICATION then
                assert_that (container k (xEventListItem t) = None)
                  (res_bind (ready_or_pend t k) (pend_yield_if_higher t))
              else Inr (False, k)))"

text \<open>Taking and waiting, before and after the task blocks.\<close>

definition notify_block :: "u32 \<Rightarrow> nat \<Rightarrow> kernel \<Rightarrow> kernel res" where
  "notify_block xTicksToWait c k =
     (let k = upd_tcb c (ucNotifyState_update (\<lambda>_. taskWAITING_NOTIFICATION)) k in
      if xTicksToWait > 0
      then res_bind (prvAddCurrentTaskToDelayedList xTicksToWait True k) (\<lambda>k. Inr (portYIELD_WITHIN_API k))
      else Inr k)"

definition ulTaskGenericNotifyTake_enter :: "u32 \<Rightarrow> kernel \<Rightarrow> kernel res" where
  "ulTaskGenericNotifyTake_enter xTicksToWait k =
     res_bind (current k) (\<lambda>c. if ulNotifiedValue (tcbs k c) = 0 then notify_block xTicksToWait c k else Inr k)"

definition ulTaskGenericNotifyTake_exit :: "bool \<Rightarrow> u32 kcall" where
  "ulTaskGenericNotifyTake_exit xClearCountOnExit k =
     res_bind (current k) (\<lambda>c.
       let v = ulNotifiedValue (tcbs k c);
           k = (if v \<noteq> 0
                then upd_tcb c (ulNotifiedValue_update (\<lambda>_. if xClearCountOnExit then 0 else v - 1)) k else k)
       in Inr (v, upd_tcb c (ucNotifyState_update (\<lambda>_. taskNOT_WAITING_NOTIFICATION)) k))"

definition xTaskGenericNotifyWait_enter :: "u32 \<Rightarrow> u32 \<Rightarrow> kernel \<Rightarrow> kernel res" where
  "xTaskGenericNotifyWait_enter ulBitsToClearOnEntry xTicksToWait k =
     res_bind (current k) (\<lambda>c.
       if ucNotifyState (tcbs k c) \<noteq> taskNOTIFICATION_RECEIVED
       then notify_block xTicksToWait c (upd_tcb c (ulNotifiedValue_update (\<lambda>v. v AND NOT ulBitsToClearOnEntry)) k)
       else Inr k)"

definition xTaskGenericNotifyWait_exit :: "u32 \<Rightarrow> (bool \<times> u32) kcall" where
  "xTaskGenericNotifyWait_exit ulBitsToClearOnExit k =
     res_bind (current k) (\<lambda>c.
       let v = ulNotifiedValue (tcbs k c); got = (ucNotifyState (tcbs k c) = taskNOTIFICATION_RECEIVED);
           k = (if got then upd_tcb c (ulNotifiedValue_update (\<lambda>v. v AND NOT ulBitsToClearOnExit)) k else k)
       in Inr ((got, v), upd_tcb c (ucNotifyState_update (\<lambda>_. taskNOT_WAITING_NOTIFICATION)) k))"

definition xTaskGenericNotifyStateClear :: "nat option \<Rightarrow> bool kcall" where
  "xTaskGenericNotifyStateClear h k =
     res_bind (prvGetTCBFromHandle h k) (\<lambda>t.
       Inr (if ucNotifyState (tcbs k t) = taskNOTIFICATION_RECEIVED
            then (True, upd_tcb t (ucNotifyState_update (\<lambda>_. taskNOT_WAITING_NOTIFICATION)) k)
            else (False, k)))"

definition ulTaskGenericNotifyValueClear :: "nat option \<Rightarrow> u32 \<Rightarrow> u32 kcall" where
  "ulTaskGenericNotifyValueClear h ulBitsToClear k =
     res_bind (prvGetTCBFromHandle h k) (\<lambda>t.
       Inr (ulNotifiedValue (tcbs k t), upd_tcb t (ulNotifiedValue_update (\<lambda>v. v AND NOT ulBitsToClear)) k))"

end
