(* ===== verification/Rtos_Heap.thy ===== *)
theory Rtos_Heap
  imports Prelude
begin

section \<open>The FreeRTOS heap\<close>

text \<open>
  \<^verbatim>\<open>FreeRTOS/Source/portable/MemMang/heap_1.c\<close>: allocation without release from the static array
  \<open>ucHeap\<close>, whose address is an argument. The two static variables are the state. The scheduler is
  suspended during an allocation, so that allocations do not interleave. A call of \<open>vPortFree\<close> with a
  pointer other than NULL fails the assertion, which stops the program.
\<close>

subsection \<open>State and operations\<close>

definition portBYTE_ALIGNMENT :: u32 where "portBYTE_ALIGNMENT = 8"

definition portBYTE_ALIGNMENT_MASK :: u32 where "portBYTE_ALIGNMENT_MASK = 7"

definition configTOTAL_HEAP_SIZE :: u32 where "configTOTAL_HEAP_SIZE = 8192"

definition configADJUSTED_HEAP_SIZE :: u32 where
  "configADJUSTED_HEAP_SIZE = configTOTAL_HEAP_SIZE - portBYTE_ALIGNMENT"

lemmas heap_consts = portBYTE_ALIGNMENT_def portBYTE_ALIGNMENT_MASK_def configTOTAL_HEAP_SIZE_def
  configADJUSTED_HEAP_SIZE_def

record heap_state =
  xNextFreeByte :: u32
  pucAlignedHeap :: u32

definition heap_cleared :: heap_state where
  "heap_cleared = \<lparr>xNextFreeByte = 0, pucAlignedHeap = 0\<rparr>"

definition align_size :: "u32 \<Rightarrow> u32" where
  "align_size w =
     (if w AND portBYTE_ALIGNMENT_MASK \<noteq> 0 then
        if w + (portBYTE_ALIGNMENT - (w AND portBYTE_ALIGNMENT_MASK)) > w
        then w + (portBYTE_ALIGNMENT - (w AND portBYTE_ALIGNMENT_MASK))
        else 0
      else w)"

text \<open>The result is NULL (0) when there is no room.\<close>

definition pvPortMalloc :: "u32 \<Rightarrow> u32 \<Rightarrow> heap_state \<Rightarrow> u32 \<times> heap_state" where
  "pvPortMalloc ucHeap xWantedSize s =
     (let w = align_size xWantedSize;
          s = (if pucAlignedHeap s = 0
               then s\<lparr>pucAlignedHeap := (ucHeap + (portBYTE_ALIGNMENT - 1)) AND NOT portBYTE_ALIGNMENT_MASK\<rparr>
               else s)
      in if w > 0 \<and> xNextFreeByte s + w < configADJUSTED_HEAP_SIZE \<and> xNextFreeByte s + w > xNextFreeByte s
         then (pucAlignedHeap s + xNextFreeByte s, s\<lparr>xNextFreeByte := xNextFreeByte s + w\<rparr>)
         else (0, s))"

definition vPortFree :: "u32 \<Rightarrow> heap_state \<Rightarrow> heap_state res" where
  "vPortFree pv s = assert_that (pv = 0) (Inr s)"

definition vPortInitialiseBlocks :: "heap_state \<Rightarrow> heap_state" where
  "vPortInitialiseBlocks s = s\<lparr>xNextFreeByte := 0\<rparr>"

definition xPortGetFreeHeapSize :: "heap_state \<Rightarrow> u32" where
  "xPortGetFreeHeapSize s = configADJUSTED_HEAP_SIZE - xNextFreeByte s"

subsection \<open>Alignment\<close>

lemma and_7_mod: "unat ((w :: u32) AND 7) = unat w mod 8"
proof -
  have e: "w AND 7 = take_bit 3 w" by (simp add: take_bit_eq_mask mask_eq_exp_minus_1)
  show ?thesis unfolding e unsigned_take_bit_eq by (simp add: take_bit_eq_mod)
qed

lemma unat_plus_ge:
  fixes a b :: u32
  assumes "a \<le> a + b"
  shows "unat (a + b) = unat a + unat b"
  using assms no_olen_add_nat unat_add_lem by blast

lemma align_size_spec:
  "align_size w = 0 \<or> unat w \<le> unat (align_size w) \<and> 8 dvd unat (align_size w)"
proof (cases "w AND 7 = 0")
  case True
  then have "unat w mod 8 = 0" using and_7_mod[of w] by simp
  then show ?thesis using True by (simp add: align_size_def heap_consts mod_eq_0_iff_dvd)
next
  case False
  let ?p = "8 - (w AND 7)"
  have m: "unat (w AND 7) = unat w mod 8" by (rule and_7_mod)
  have "(w AND 7) \<le> 8" unfolding word_le_nat_alt m by simp
  then have p: "unat ?p = 8 - unat w mod 8" using m by (simp add: unat_sub)
  show ?thesis
  proof (cases "w + ?p > w")
    case True
    then have "unat (w + ?p) = unat w + (8 - unat w mod 8)" using unat_plus_ge[of w ?p] p by simp
    moreover have "8 dvd unat w + (8 - unat w mod 8)" by presburger
    moreover have "unat w \<le> unat w + 8 - unat w mod 8" using mod_less_divisor[of 8 "unat w"] by linarith
    ultimately show ?thesis using True False by (simp add: align_size_def heap_consts)
  next
    case F: False
    then show ?thesis using False by (simp add: align_size_def heap_consts)
  qed
qed

subsection \<open>Allocated blocks\<close>

definition heap_base :: "u32 \<Rightarrow> u32" where
  "heap_base ucHeap = (ucHeap + 7) AND NOT 7"

definition heap_inv :: "u32 \<Rightarrow> heap_state \<Rightarrow> bool" where
  "heap_inv ucHeap s \<longleftrightarrow> pucAlignedHeap s \<in> {0, heap_base ucHeap} \<and> 8 dvd unat (xNextFreeByte s) \<and>
     unat (xNextFreeByte s) \<le> 8184"

text \<open>The array neither starts at address 0 nor runs past the end of the address space.\<close>

definition heap_placed :: "u32 \<Rightarrow> bool" where
  "heap_placed ucHeap \<longleftrightarrow> ucHeap \<noteq> 0 \<and> unat ucHeap + 8192 \<le> 2 ^ 32"

lemma heap_base_spec:
  assumes "heap_placed u"
  shows "8 dvd unat (heap_base u)" and "unat u \<le> unat (heap_base u)" and "unat (heap_base u) \<le> unat u + 7"
    and "heap_base u \<noteq> 0"
proof -
  have u: "unat (u + 7) = unat u + 7"
    using assms unat_add_no_wrap[of u 7] by (simp add: heap_placed_def)
  have "((u + 7) AND NOT 7) + ((u + 7) AND 7) = ((u + 7) AND NOT 7) OR ((u + 7) AND 7)"
    by (rule disjunctive_add) (auto simp: bit_simps)
  moreover have "((u + 7) AND NOT 7) OR ((u + 7) AND 7) = u + 7"
    by (rule bit_word_eqI) (auto simp: bit_simps)
  ultimately have e: "(u + 7) AND NOT 7 = (u + 7) - ((u + 7) AND 7)" by (simp add: eq_diff_eq)
  have "(u + 7) AND 7 \<le> u + 7" by (simp add: word_and_le2)
  then have "unat (heap_base u) = unat u + 7 - (unat u + 7) mod 8"
    unfolding heap_base_def e by (simp add: unat_sub and_7_mod u)
  then show a: "8 dvd unat (heap_base u)" "unat u \<le> unat (heap_base u)" "unat (heap_base u) \<le> unat u + 7"
    by presburger+
  have "unat u \<noteq> 0" using assms by (simp add: heap_placed_def unat_eq_zero)
  with a(2) show "heap_base u \<noteq> 0" by auto
qed

lemma malloc_cases:
  assumes "heap_placed u" and "heap_inv u s" and "pvPortMalloc u w s = (p, s')"
  shows "heap_inv u s' \<and>
    (p = 0 \<and> xNextFreeByte s' = xNextFreeByte s \<or>
     p \<noteq> 0 \<and> unat p = unat (heap_base u) + unat (xNextFreeByte s) \<and>
     unat (xNextFreeByte s) + unat w \<le> unat (xNextFreeByte s') \<and> unat w > 0)"
proof -
  let ?w = "align_size w" and ?n = "xNextFreeByte s"
  note b = heap_base_spec[OF assms(1)]
  have base: "(if pucAlignedHeap s = 0 then heap_base u else pucAlignedHeap s) = heap_base u"
    using assms(2) b(4) by (auto simp: heap_inv_def)
  show ?thesis
  proof (cases "?w > 0 \<and> ?n + ?w < configADJUSTED_HEAP_SIZE \<and> ?n + ?w > ?n")
    case True
    then have "?n \<le> ?n + ?w" by (meson less_imp_le)
    then have sum: "unat (?n + ?w) = unat ?n + unat ?w" by (rule unat_plus_ge)
    have lt: "unat (?n + ?w) < 8184" using True by (simp add: heap_consts word_less_nat_alt)
    have al: "unat w \<le> unat ?w" "8 dvd unat ?w" using align_size_spec[of w] True by auto
    have res: "p = heap_base u + ?n" "xNextFreeByte s' = ?n + ?w" "pucAlignedHeap s' = heap_base u"
      using assms(3) True base by (auto simp: pvPortMalloc_def Let_def heap_base_def heap_consts split: if_splits)
    have w0: "unat w > 0"
    proof (rule ccontr)
      assume "\<not> unat w > 0"
      then have "?w = 0" by (simp add: align_size_def unat_eq_zero)
      with True show False by simp
    qed
    have "unat p = unat (heap_base u) + unat ?n"
      unfolding res using unat_add_lem[of "heap_base u" ?n] b(3) assms(1,2)
      by (simp add: heap_placed_def heap_inv_def)
    then show ?thesis
      using res sum lt al w0 b(4) assms(2) by (auto simp: heap_inv_def unat_eq_zero)
  next
    case False
    then show ?thesis
      using assms(2,3) base by (auto simp: pvPortMalloc_def Let_def heap_base_def heap_inv_def heap_consts split: if_splits)
  qed
qed

fun malloc_all :: "u32 \<Rightarrow> u32 list \<Rightarrow> heap_state \<Rightarrow> (u32 \<times> u32) list \<times> heap_state" where
  "malloc_all u [] s = ([], s)"
| "malloc_all u (w # ws) s =
     (let (p, s) = pvPortMalloc u w s; (ps, s) = malloc_all u ws s
      in (if p = 0 then ps else (p, w) # ps, s))"

lemma malloc_all_blocks:
  assumes "heap_placed u" and "heap_inv u s"
  shows "heap_inv u (snd (malloc_all u ws s)) \<and>
    (\<forall>(p, n) \<in> set (fst (malloc_all u ws s)). 8 dvd unat p \<and>
       unat (heap_base u) + unat (xNextFreeByte s) \<le> unat p \<and> unat p + unat n \<le> unat (heap_base u) + 8184) \<and>
    sorted_wrt (\<lambda>(p, n) (q, k). unat p + unat n \<le> unat q) (fst (malloc_all u ws s))"
  using assms(2)
proof (induction ws arbitrary: s)
  case (Cons w ws)
  obtain p s1 where m: "pvPortMalloc u w s = (p, s1)" by force
  obtain ps s2 where r: "malloc_all u ws s1 = (ps, s2)" by force
  note c = malloc_cases[OF assms(1) Cons.prems m]
  have i: "heap_inv u s1" using c by simp
  have ih: "heap_inv u s2"
    "\<And>q n. (q, n) \<in> set ps \<Longrightarrow> 8 dvd unat q \<and> unat (heap_base u) + unat (xNextFreeByte s1) \<le> unat q \<and>
       unat q + unat n \<le> unat (heap_base u) + 8184"
    "sorted_wrt (\<lambda>(p, n) (q, k). unat p + unat n \<le> unat q) ps"
    using Cons.IH[OF i] r by auto
  show ?case
  proof (cases "p = 0")
    case True
    then show ?thesis using c m r ih by (force simp: Let_def)
  next
    case False
    then have p: "unat p = unat (heap_base u) + unat (xNextFreeByte s)"
      "unat (xNextFreeByte s) + unat w \<le> unat (xNextFreeByte s1)" using c by auto
    have "8 dvd unat p" using heap_base_spec(1)[OF assms(1)] Cons.prems by (simp add: p heap_inv_def)
    moreover have "unat (xNextFreeByte s1) \<le> 8184" using i by (simp add: heap_inv_def)
    moreover have "unat p + unat w \<le> unat q" if "(q, n) \<in> set ps" for q n using ih(2)[OF that] p by simp
    ultimately show ?thesis using False m r ih p by (fastforce simp: Let_def)
  qed
qed (simp add: assms)

text \<open>
  C20: memory safety of the heap. In any sequence of requests, the blocks that are handed out are eight-byte
  aligned, lie inside the array \<open>ucHeap\<close>, have at least the requested size and do not overlap: each
  one starts at or behind the end of all earlier ones.
\<close>
theorem heap_blocks_disjoint:
  assumes "heap_placed u"
  shows "(\<forall>(p, n) \<in> set (fst (malloc_all u ws heap_cleared)).
      8 dvd unat p \<and> unat u \<le> unat p \<and> unat p + unat n \<le> unat u + 8192) \<and>
    sorted_wrt (\<lambda>(p, n) (q, k). unat p + unat n \<le> unat q) (fst (malloc_all u ws heap_cleared))"
proof -
  have "heap_inv u heap_cleared" by (simp add: heap_inv_def heap_cleared_def)
  from malloc_all_blocks[OF assms this, of ws] heap_base_spec(2,3)[OF assms] show ?thesis
    by (fastforce simp: heap_cleared_def)
qed

theorem heap_blocks_disjoint_witness:
  "fst (malloc_all 0x20400004 [1200, 8000, 100] heap_cleared) = [(0x20400008, 1200), (0x204004B8, 100)] \<and>
   sorted_wrt (\<lambda>(p, n) (q, k). unat p + unat n \<le> unat q) (fst (malloc_all 0x20400004 [1200, 8000, 100] heap_cleared))"
  using heap_blocks_disjoint[of "0x20400004" "[1200, 8000, 100]"]
  by (simp add: heap_placed_def heap_cleared_def pvPortMalloc_def align_size_def heap_consts Let_def)

end
