(* ===== verification/Rtos_Queue.thy ===== *)
theory Rtos_Queue
  imports Rtos_Task_Api Rtos_Heap
begin

section \<open>FreeRTOS queues, semaphores and mutexes\<close>

text \<open>
  \<^verbatim>\<open>FreeRTOS/Source/queue.c\<close> with the configuration of the demo (mutexes, recursive mutexes and counting
  semaphores, a registry of two queues, dynamic allocation only, no queue sets, no co-routines), over
  the scheduler of the theories \<open>Rtos_Tasks\<close> and \<open>Rtos_Task_Api\<close>. A queue is the address of its structure
  and 0 is the null pointer; items are bytes of the memory \<open>ram\<close>, read and written through pointers.

  Critical sections are atomic. Between them, interrupts may run, and while the scheduler is not
  suspended other tasks too: the blocking calls take an argument \<open>env\<close> that gives, for each round of their
  loop and each window between two atomic sections, what runs there. The placement of the calling task
  on an event list needs no window inside: the scheduler is suspended and the queue is locked.
\<close>

subsection \<open>State\<close>

text \<open>
  The union of the two pointers \<open>pcTail\<close>, \<open>pcReadFrom\<close> with the data of a mutex is two words. The lock
  counts are signed bytes.
\<close>

record queue =
  pcHead :: u32
  pcWriteTo :: u32
  u_word0 :: u32
  u_word1 :: u32
  uxMessagesWaiting :: u32
  uxLength :: u32
  uxItemSize :: u32
  cRxLock :: u8
  cTxLock :: u8
  uxQueueNumber :: u32
  ucQueueType :: u8

record registry_item =
  pcQueueName :: u32
  xHandle :: u32

record sys =
  kern :: kernel
  queues :: "u32 \<Rightarrow> queue"
  ram :: "u32 \<Rightarrow> u8"
  heap :: heap_state
  xQueueRegistry :: "registry_item list"

abbreviation pcTail :: "queue \<Rightarrow> u32" where "pcTail \<equiv> u_word0"

abbreviation pcReadFrom :: "queue \<Rightarrow> u32" where "pcReadFrom \<equiv> u_word1"

definition task_handle :: "u32 \<Rightarrow> nat option" where
  "task_handle w = (if w = 0 then None else Some (unat w))"

definition handle_word :: "nat option \<Rightarrow> u32" where
  "handle_word h = (case h of None \<Rightarrow> 0 | Some t \<Rightarrow> of_nat t)"

definition xMutexHolder :: "queue \<Rightarrow> nat option" where "xMutexHolder Q = task_handle (u_word0 Q)"

abbreviation uxRecursiveCallCount :: "queue \<Rightarrow> u32" where "uxRecursiveCallCount \<equiv> u_word1"

definition queueQUEUE_IS_MUTEX :: u32 where "queueQUEUE_IS_MUTEX = 0"

definition queueUNLOCKED :: u8 where "queueUNLOCKED = - 1"

definition queueLOCKED_UNMODIFIED :: u8 where "queueLOCKED_UNMODIFIED = 0"

definition queueINT8_MAX :: u8 where "queueINT8_MAX = 127"

definition queueSEMAPHORE_QUEUE_ITEM_LENGTH :: u32 where "queueSEMAPHORE_QUEUE_ITEM_LENGTH = 0"

definition queueMUTEX_GIVE_BLOCK_TIME :: u32 where "queueMUTEX_GIVE_BLOCK_TIME = 0"

definition configQUEUE_REGISTRY_SIZE :: nat where "configQUEUE_REGISTRY_SIZE = 2"

definition queueQUEUE_TYPE_COUNTING_SEMAPHORE :: u8 where "queueQUEUE_TYPE_COUNTING_SEMAPHORE = 2"

definition queueQUEUE_TYPE_BINARY_SEMAPHORE :: u8 where "queueQUEUE_TYPE_BINARY_SEMAPHORE = 3"

datatype copy_position = queueSEND_TO_BACK | queueSEND_TO_FRONT | queueOVERWRITE

text \<open>The size of the structure: ten words, padding included, and two embedded lists of five words.\<close>

definition sizeof_Queue :: u32 where "sizeof_Queue = 80"

text \<open>The two lists of waiting tasks inside a queue structure, by their addresses.\<close>

definition xTasksWaitingToSend :: "u32 \<Rightarrow> nat" where "xTasksWaitingToSend q = 10 + 2 * unat q"

definition xTasksWaitingToReceive :: "u32 \<Rightarrow> nat" where "xTasksWaitingToReceive q = 11 + 2 * unat q"

definition upd_queue :: "u32 \<Rightarrow> (queue \<Rightarrow> queue) \<Rightarrow> sys \<Rightarrow> sys" where
  "upd_queue q f s = s\<lparr>queues := (queues s)(q := f (queues s q))\<rparr>"

text \<open>Calls of the scheduler on its part of the state.\<close>

definition on_kern :: "(kernel \<Rightarrow> kernel) \<Rightarrow> sys \<Rightarrow> sys" where
  "on_kern f s = s\<lparr>kern := f (kern s)\<rparr>"

definition kernel_call :: "'a kcall \<Rightarrow> sys \<Rightarrow> ('a \<times> sys) res" where
  "kernel_call f s = res_bind (f (kern s)) (\<lambda>(a, k). Inr (a, s\<lparr>kern := k\<rparr>))"

definition kernel_do :: "(kernel \<Rightarrow> kernel res) \<Rightarrow> sys \<Rightarrow> sys res" where
  "kernel_do f s = res_bind (f (kern s)) (\<lambda>k. Inr (s\<lparr>kern := k\<rparr>))"

definition memcpy :: "u32 \<Rightarrow> u32 \<Rightarrow> u32 \<Rightarrow> sys \<Rightarrow> sys" where
  "memcpy dst src n s = s\<lparr>ram := (\<lambda>a. if a - dst < n then ram s (src + (a - dst)) else ram s a)\<rparr>"

datatype scheduler_state = taskSCHEDULER_NOT_STARTED | taskSCHEDULER_RUNNING | taskSCHEDULER_SUSPENDED

definition xTaskGetSchedulerState :: "kernel \<Rightarrow> scheduler_state" where
  "xTaskGetSchedulerState k =
     (if \<not> xSchedulerRunning k then taskSCHEDULER_NOT_STARTED
      else if uxSchedulerSuspended k = 0 then taskSCHEDULER_RUNNING else taskSCHEDULER_SUSPENDED)"

definition queueYIELD_IF_USING_PREEMPTION :: "sys \<Rightarrow> sys" where
  "queueYIELD_IF_USING_PREEMPTION = on_kern portYIELD_WITHIN_API"

subsection \<open>Moving items\<close>

definition copy_to_back :: "u32 \<Rightarrow> u32 \<Rightarrow> sys \<Rightarrow> sys" where
  "copy_to_back q pvItemToQueue s =
     (let Q = queues s q;
          s = memcpy (pcWriteTo Q) pvItemToQueue (uxItemSize Q) s;
          w = pcWriteTo Q + uxItemSize Q
      in upd_queue q (pcWriteTo_update (\<lambda>_. if w \<ge> pcTail Q then pcHead Q else w)) s)"

definition copy_to_front :: "u32 \<Rightarrow> u32 \<Rightarrow> sys \<Rightarrow> sys" where
  "copy_to_front q pvItemToQueue s =
     (let Q = queues s q;
          s = memcpy (pcReadFrom Q) pvItemToQueue (uxItemSize Q) s;
          r = pcReadFrom Q - uxItemSize Q
      in upd_queue q (u_word1_update (\<lambda>_. if r < pcHead Q then pcTail Q - uxItemSize Q else r)) s)"

text \<open>The result tells whether giving back a mutex requires a yield.\<close>

definition prvCopyDataToQueue :: "u32 \<Rightarrow> u32 \<Rightarrow> copy_position \<Rightarrow> sys \<Rightarrow> (bool \<times> sys) res" where
  "prvCopyDataToQueue q pvItemToQueue xPosition s =
     (let Q = queues s q; n = uxMessagesWaiting Q in
      res_bind
        (if uxItemSize Q = 0 then
           if pcHead Q = queueQUEUE_IS_MUTEX
           then res_bind (kernel_call (xTaskPriorityDisinherit (xMutexHolder Q)) s) (\<lambda>(r, s).
             Inr (r, n, upd_queue q (u_word0_update (\<lambda>_. handle_word None)) s))
           else Inr (False, n, s)
         else if xPosition = queueSEND_TO_BACK then Inr (False, n, copy_to_back q pvItemToQueue s)
         else Inr (False, if xPosition = queueOVERWRITE \<and> n > 0 then n - 1 else n, copy_to_front q pvItemToQueue s))
        (\<lambda>(r, n, s). Inr (r, upd_queue q (uxMessagesWaiting_update (\<lambda>_. n + 1)) s)))"

definition prvCopyDataFromQueue :: "u32 \<Rightarrow> u32 \<Rightarrow> sys \<Rightarrow> sys" where
  "prvCopyDataFromQueue q pvBuffer s =
     (let Q = queues s q in
      if uxItemSize Q \<noteq> 0 then
        let r = pcReadFrom Q + uxItemSize Q; r = (if r \<ge> pcTail Q then pcHead Q else r)
        in memcpy pvBuffer r (uxItemSize Q) (upd_queue q (u_word1_update (\<lambda>_. r)) s)
      else s)"

definition prvIsQueueEmpty :: "queue \<Rightarrow> bool" where "prvIsQueueEmpty Q \<longleftrightarrow> uxMessagesWaiting Q = 0"

definition prvIsQueueFull :: "queue \<Rightarrow> bool" where "prvIsQueueFull Q \<longleftrightarrow> uxMessagesWaiting Q = uxLength Q"

text \<open>Wake the first task of an event list, if any; the result tells whether it is above the running task.\<close>

definition wake_first :: "nat \<Rightarrow> sys \<Rightarrow> (bool \<times> sys) res" where
  "wake_first l s =
     (if listLIST_IS_EMPTY l (lists (kern s)) then Inr (False, s)
      else kernel_call (xTaskRemoveFromEventList l) s)"

definition wake_and_yield :: "nat \<Rightarrow> sys \<Rightarrow> sys res" where
  "wake_and_yield l s =
     res_bind (wake_first l s) (\<lambda>(higher, s). Inr (if higher then queueYIELD_IF_USING_PREEMPTION s else s))"

subsection \<open>Locking against interrupts\<close>

definition prvLockQueue :: "u32 \<Rightarrow> sys \<Rightarrow> sys" where
  "prvLockQueue q =
     upd_queue q (\<lambda>Q. Q\<lparr>cRxLock := (if cRxLock Q = queueUNLOCKED then queueLOCKED_UNMODIFIED else cRxLock Q),
                        cTxLock := (if cTxLock Q = queueUNLOCKED then queueLOCKED_UNMODIFIED else cTxLock Q)\<rparr>)"

text \<open>The new value of a lock count; the comparison converts the signed byte to an unsigned word.\<close>

definition increment_lock :: "u8 \<Rightarrow> kernel \<Rightarrow> u8 res" where
  "increment_lock lock k =
     (if (scast lock :: u32) < uxCurrentNumberOfTasks k
      then assert_that (lock \<noteq> queueINT8_MAX) (Inr (lock + 1)) else Inr lock)"

definition prvIncrementQueueTxLock :: "u32 \<Rightarrow> u8 \<Rightarrow> sys \<Rightarrow> sys res" where
  "prvIncrementQueueTxLock q lock s =
     res_bind (increment_lock lock (kern s)) (\<lambda>n. Inr (upd_queue q (cTxLock_update (\<lambda>_. n)) s))"

definition prvIncrementQueueRxLock :: "u32 \<Rightarrow> u8 \<Rightarrow> sys \<Rightarrow> sys res" where
  "prvIncrementQueueRxLock q lock s =
     res_bind (increment_lock lock (kern s)) (\<lambda>n. Inr (upd_queue q (cRxLock_update (\<lambda>_. n)) s))"

text \<open>Wake up to \<open>n\<close> tasks; the loop ends early when no task is left.\<close>

primrec unlock_loop :: "nat \<Rightarrow> nat \<Rightarrow> sys \<Rightarrow> sys res" where
  "unlock_loop l 0 s = Inr s"
| "unlock_loop l (Suc n) s =
     (if listLIST_IS_EMPTY l (lists (kern s)) then Inr s
      else res_bind (kernel_call (xTaskRemoveFromEventList l) s) (\<lambda>(higher, s).
        unlock_loop l n (if higher then on_kern vTaskMissedYield s else s)))"

text \<open>The windows between the atomic sections of a blocking call.\<close>

datatype window = Attempted | Suspended | Locked | TimeChecked | QueueChecked | Inherited | Placed | TxUnlocked
  | Unlocked | Resumed | FoundEmpty | Again

type_synonym windows = "window \<Rightarrow> sys \<Rightarrow> sys res"

definition prvUnlockQueue :: "windows \<Rightarrow> u32 \<Rightarrow> sys \<Rightarrow> sys res" where
  "prvUnlockQueue env q s =
     res_bind (unlock_loop (xTasksWaitingToReceive q) (nat (sint (cTxLock (queues s q)))) s) (\<lambda>s.
     res_bind (env TxUnlocked (upd_queue q (cTxLock_update (\<lambda>_. queueUNLOCKED)) s)) (\<lambda>s.
     res_bind (unlock_loop (xTasksWaitingToSend q) (nat (sint (cRxLock (queues s q)))) s) (\<lambda>s.
     Inr (upd_queue q (cRxLock_update (\<lambda>_. queueUNLOCKED)) s))))"

subsection \<open>Blocking calls\<close>

text \<open>One pass through the critical section at the head of the loop: a result, or the time the wait began.\<close>

datatype attempt = Finished bool | Blocking timeout

definition wait_or_fail :: "u32 \<Rightarrow> timeout option \<Rightarrow> sys \<Rightarrow> (attempt \<times> sys) res" where
  "wait_or_fail xTicksToWait entry s =
     Inr (if xTicksToWait = 0 then Finished False
          else Blocking (case entry of None \<Rightarrow> vTaskInternalSetTimeOutState (kern s) | Some t \<Rightarrow> t), s)"

definition send_attempt :: "u32 \<Rightarrow> u32 \<Rightarrow> copy_position \<Rightarrow> u32 \<Rightarrow> timeout option \<Rightarrow> sys \<Rightarrow> (attempt \<times> sys) res" where
  "send_attempt q pvItemToQueue xCopyPosition xTicksToWait entry s =
     (if uxMessagesWaiting (queues s q) < uxLength (queues s q) \<or> xCopyPosition = queueOVERWRITE
      then res_bind (prvCopyDataToQueue q pvItemToQueue xCopyPosition s) (\<lambda>(xYieldRequired, s).
        res_bind
          (if \<not> listLIST_IS_EMPTY (xTasksWaitingToReceive q) (lists (kern s))
           then wake_and_yield (xTasksWaitingToReceive q) s
           else Inr (if xYieldRequired then queueYIELD_IF_USING_PREEMPTION s else s))
          (\<lambda>s. Inr (Finished True, s)))
      else wait_or_fail xTicksToWait entry s)"

definition receive_attempt :: "u32 \<Rightarrow> u32 \<Rightarrow> u32 \<Rightarrow> timeout option \<Rightarrow> sys \<Rightarrow> (attempt \<times> sys) res" where
  "receive_attempt q pvBuffer xTicksToWait entry s =
     (let n = uxMessagesWaiting (queues s q) in
      if n > 0
      then let s = upd_queue q (uxMessagesWaiting_update (\<lambda>_. n - 1)) (prvCopyDataFromQueue q pvBuffer s)
        in res_bind (wake_and_yield (xTasksWaitingToSend q) s) (\<lambda>s. Inr (Finished True, s))
      else wait_or_fail xTicksToWait entry s)"

definition take_attempt :: "u32 \<Rightarrow> u32 \<Rightarrow> timeout option \<Rightarrow> sys \<Rightarrow> (attempt \<times> sys) res" where
  "take_attempt q xTicksToWait entry s =
     (let n = uxMessagesWaiting (queues s q) in
      if n > 0
      then let s = upd_queue q (uxMessagesWaiting_update (\<lambda>_. n - 1)) s;
               s = (if pcHead (queues s q) = queueQUEUE_IS_MUTEX
                    then let (holder, k) = pvTaskIncrementMutexHeldCount (kern s)
                      in upd_queue q (u_word0_update (\<lambda>_. handle_word holder)) (s\<lparr>kern := k\<rparr>)
                    else s)
        in res_bind (wake_and_yield (xTasksWaitingToSend q) s) (\<lambda>s. Inr (Finished True, s))
      else wait_or_fail xTicksToWait entry s)"

definition peek_attempt :: "u32 \<Rightarrow> u32 \<Rightarrow> u32 \<Rightarrow> timeout option \<Rightarrow> sys \<Rightarrow> (attempt \<times> sys) res" where
  "peek_attempt q pvBuffer xTicksToWait entry s =
     (if uxMessagesWaiting (queues s q) > 0
      then let pcOriginalReadPosition = pcReadFrom (queues s q);
               s = upd_queue q (u_word1_update (\<lambda>_. pcOriginalReadPosition)) (prvCopyDataFromQueue q pvBuffer s)
        in res_bind (wake_and_yield (xTasksWaitingToReceive q) s) (\<lambda>s. Inr (Finished True, s))
      else wait_or_fail xTicksToWait entry s)"

text \<open>
  The part of the loop behind the critical section, the same in all four calls but for the condition to
  wait, the event list and the priority inheritance of mutexes (\<open>prepare\<close>): suspend the scheduler, lock the
  queue, and wait unless the time is over or the condition has gone.
\<close>

definition unlock_and_resume :: "windows \<Rightarrow> u32 \<Rightarrow> sys \<Rightarrow> (bool \<times> sys) res" where
  "unlock_and_resume env q s =
     res_bind (prvUnlockQueue env q s) (\<lambda>s. res_bind (env Unlocked s) (kernel_call xTaskResumeAll))"

definition queue_wait :: "(queue \<Rightarrow> bool) \<Rightarrow> (windows \<Rightarrow> bool \<Rightarrow> sys \<Rightarrow> (bool \<times> sys) res) \<Rightarrow> nat \<Rightarrow> u32 \<Rightarrow>
    windows \<Rightarrow> timeout \<Rightarrow> u32 \<Rightarrow> bool \<Rightarrow> sys \<Rightarrow> ((bool \<times> timeout \<times> u32 \<times> bool) \<times> sys) res" where
  "queue_wait must_wait prepare l q env xTimeOut xTicksToWait inherited s =
     res_bind (env Suspended (on_kern vTaskSuspendAll s)) (\<lambda>s.
     res_bind (env Locked (prvLockQueue q s)) (\<lambda>s.
     res_bind (kernel_call (xTaskCheckForTimeOut xTimeOut xTicksToWait) s) (\<lambda>((over, xTimeOut, xTicksToWait), s).
     res_bind (env TimeChecked s) (\<lambda>s.
       if \<not> over then
         let blocked = must_wait (queues s q) in
         res_bind (env QueueChecked s) (\<lambda>s.
           if blocked then
             res_bind (prepare env inherited s) (\<lambda>(inherited, s).
             res_bind (kernel_do (vTaskPlaceOnEventList l xTicksToWait) s) (\<lambda>s.
             res_bind (env Placed s) (\<lambda>s.
             res_bind (unlock_and_resume env q s) (\<lambda>(yielded, s).
             Inr ((False, xTimeOut, xTicksToWait, inherited),
                  if \<not> yielded then on_kern portYIELD_WITHIN_API s else s)))))
           else res_bind (unlock_and_resume env q s) (\<lambda>(_, s). Inr ((False, xTimeOut, xTicksToWait, inherited), s)))
       else res_bind (unlock_and_resume env q s) (\<lambda>(_, s). Inr ((True, xTimeOut, xTicksToWait, inherited), s))))))"

definition no_inheritance :: "windows \<Rightarrow> bool \<Rightarrow> sys \<Rightarrow> (bool \<times> sys) res" where
  "no_inheritance env inherited s = Inr (inherited, s)"

text \<open>Taking a mutex that another task holds.\<close>

definition inherit_priority :: "u32 \<Rightarrow> windows \<Rightarrow> bool \<Rightarrow> sys \<Rightarrow> (bool \<times> sys) res" where
  "inherit_priority q env inherited s =
     (if pcHead (queues s q) = queueQUEUE_IS_MUTEX
      then res_bind (kernel_call (xTaskPriorityInherit (xMutexHolder (queues s q))) s) (\<lambda>(inherited, s).
        res_bind (env Inherited s) (\<lambda>s. Inr (inherited, s)))
      else Inr (inherited, s))"

definition prvGetDisinheritPriorityAfterTimeout :: "u32 \<Rightarrow> sys \<Rightarrow> nat" where
  "prvGetDisinheritPriorityAfterTimeout q s =
     (if listCURRENT_LIST_LENGTH (xTasksWaitingToReceive q) (lists (kern s)) > 0
      then unat (of_nat configMAX_PRIORITIES -
        listGET_ITEM_VALUE_OF_HEAD_ENTRY (xTasksWaitingToReceive q) (lists (kern s)))
      else tskIDLE_PRIORITY)"

definition disinherit_after_timeout :: "u32 \<Rightarrow> bool \<Rightarrow> sys \<Rightarrow> sys res" where
  "disinherit_after_timeout q inherited s =
     (if inherited
      then kernel_do (vTaskPriorityDisinheritAfterTimeout (xMutexHolder (queues s q))
        (prvGetDisinheritPriorityAfterTimeout q s)) s
      else Inr s)"

text \<open>What follows an expired timeout; the flag tells whether the call gives up.\<close>

definition give_up :: "windows \<Rightarrow> bool \<Rightarrow> sys \<Rightarrow> (bool \<times> sys) res" where
  "give_up env inherited s = Inr (True, s)"

definition give_up_if_empty :: "u32 \<Rightarrow> windows \<Rightarrow> bool \<Rightarrow> sys \<Rightarrow> (bool \<times> sys) res" where
  "give_up_if_empty q env inherited s =
     res_bind (env Resumed s) (\<lambda>s. Inr (prvIsQueueEmpty (queues s q), s))"

definition give_up_take :: "u32 \<Rightarrow> windows \<Rightarrow> bool \<Rightarrow> sys \<Rightarrow> (bool \<times> sys) res" where
  "give_up_take q env inherited s =
     res_bind (env Resumed s) (\<lambda>s.
       if prvIsQueueEmpty (queues s q)
       then res_bind (env FoundEmpty s) (\<lambda>s. res_bind (disinherit_after_timeout q inherited s) (\<lambda>s. Inr (True, s)))
       else Inr (False, s))"

text \<open>The loop; its state are the ticks to wait, the time the wait began, and whether a priority was inherited.\<close>

definition wait_round ::
    "(windows \<Rightarrow> timeout \<Rightarrow> u32 \<Rightarrow> bool \<Rightarrow> sys \<Rightarrow> ((bool \<times> timeout \<times> u32 \<times> bool) \<times> sys) res) \<Rightarrow>
     (windows \<Rightarrow> bool \<Rightarrow> sys \<Rightarrow> (bool \<times> sys) res) \<Rightarrow> windows \<Rightarrow> timeout \<Rightarrow> u32 \<Rightarrow> bool \<Rightarrow> sys \<Rightarrow>
     ((bool \<times> timeout \<times> u32 \<times> bool) \<times> sys) res" where
  "wait_round wait expired env xTimeOut xTicksToWait inherited s =
     res_bind (env Attempted s) (\<lambda>s.
     res_bind (wait env xTimeOut xTicksToWait inherited s) (\<lambda>((over, xTimeOut, xTicksToWait, inherited), s).
       if over then res_bind (expired env inherited s) (\<lambda>(gave_up, s).
         Inr ((gave_up, xTimeOut, xTicksToWait, inherited), s))
       else Inr ((False, xTimeOut, xTicksToWait, inherited), s)))"

partial_function (option) blocking_loop ::
    "(u32 \<Rightarrow> timeout option \<Rightarrow> sys \<Rightarrow> (attempt \<times> sys) res) \<Rightarrow>
     (windows \<Rightarrow> timeout \<Rightarrow> u32 \<Rightarrow> bool \<Rightarrow> sys \<Rightarrow> ((bool \<times> timeout \<times> u32 \<times> bool) \<times> sys) res) \<Rightarrow>
     (nat \<Rightarrow> windows) \<Rightarrow> nat \<Rightarrow> u32 \<Rightarrow> timeout option \<Rightarrow> bool \<Rightarrow> sys \<Rightarrow> (bool \<times> sys) res option" where
  "blocking_loop attempt wait env i xTicksToWait entry inherited s =
     (case attempt xTicksToWait entry s of
        Inl e \<Rightarrow> Some (Inl e)
      | Inr (a, s) \<Rightarrow>
          (case a of
             Finished r \<Rightarrow> Some (Inr (r, s))
           | Blocking xTimeOut \<Rightarrow>
               (case wait (env i) xTimeOut xTicksToWait inherited s of
                  Inl e \<Rightarrow> Some (Inl e)
                | Inr ((gave_up, xTimeOut, xTicksToWait, inherited), s) \<Rightarrow>
                    if gave_up then Some (Inr (False, s))
                    else case env i Again s of
                        Inl e \<Rightarrow> Some (Inl e)
                      | Inr s \<Rightarrow> blocking_loop attempt wait env (Suc i) xTicksToWait (Some xTimeOut) inherited s)))"

definition run_blocking where
  "run_blocking attempt wait env xTicksToWait s =
     (case blocking_loop attempt wait env 0 xTicksToWait None False s of None \<Rightarrow> Inl Diverges | Some r \<Rightarrow> r)"

definition may_block :: "u32 \<Rightarrow> sys \<Rightarrow> bool" where
  "may_block xTicksToWait s \<longleftrightarrow> \<not> (xTaskGetSchedulerState (kern s) = taskSCHEDULER_SUSPENDED \<and> xTicksToWait \<noteq> 0)"

definition xQueueGenericSend ::
    "(nat \<Rightarrow> windows) \<Rightarrow> u32 \<Rightarrow> u32 \<Rightarrow> u32 \<Rightarrow> copy_position \<Rightarrow> sys \<Rightarrow> (bool \<times> sys) res" where
  "xQueueGenericSend env q pvItemToQueue xTicksToWait xCopyPosition s =
     assert_that (q \<noteq> 0)
     (assert_that (\<not> (pvItemToQueue = 0 \<and> uxItemSize (queues s q) \<noteq> 0))
     (assert_that (\<not> (xCopyPosition = queueOVERWRITE \<and> uxLength (queues s q) \<noteq> 1))
     (assert_that (may_block xTicksToWait s)
       (run_blocking (send_attempt q pvItemToQueue xCopyPosition)
         (wait_round (queue_wait prvIsQueueFull no_inheritance (xTasksWaitingToSend q) q) give_up)
         env xTicksToWait s))))"

definition xQueueReceive :: "(nat \<Rightarrow> windows) \<Rightarrow> u32 \<Rightarrow> u32 \<Rightarrow> u32 \<Rightarrow> sys \<Rightarrow> (bool \<times> sys) res" where
  "xQueueReceive env q pvBuffer xTicksToWait s =
     assert_that (q \<noteq> 0)
     (assert_that (\<not> (pvBuffer = 0 \<and> uxItemSize (queues s q) \<noteq> 0))
     (assert_that (may_block xTicksToWait s)
       (run_blocking (receive_attempt q pvBuffer)
         (wait_round (queue_wait prvIsQueueEmpty no_inheritance (xTasksWaitingToReceive q) q) (give_up_if_empty q))
         env xTicksToWait s)))"

definition xQueueSemaphoreTake :: "(nat \<Rightarrow> windows) \<Rightarrow> u32 \<Rightarrow> u32 \<Rightarrow> sys \<Rightarrow> (bool \<times> sys) res" where
  "xQueueSemaphoreTake env q xTicksToWait s =
     assert_that (q \<noteq> 0)
     (assert_that (uxItemSize (queues s q) = 0)
     (assert_that (may_block xTicksToWait s)
       (run_blocking (take_attempt q)
         (wait_round (queue_wait prvIsQueueEmpty (inherit_priority q) (xTasksWaitingToReceive q) q) (give_up_take q))
         env xTicksToWait s)))"

definition xQueuePeek :: "(nat \<Rightarrow> windows) \<Rightarrow> u32 \<Rightarrow> u32 \<Rightarrow> u32 \<Rightarrow> sys \<Rightarrow> (bool \<times> sys) res" where
  "xQueuePeek env q pvBuffer xTicksToWait s =
     assert_that (q \<noteq> 0)
     (assert_that (\<not> (pvBuffer = 0 \<and> uxItemSize (queues s q) \<noteq> 0))
     (assert_that (may_block xTicksToWait s)
       (run_blocking (peek_attempt q pvBuffer)
         (wait_round (queue_wait prvIsQueueEmpty no_inheritance (xTasksWaitingToReceive q) q) (give_up_if_empty q))
         env xTicksToWait s)))"

subsection \<open>Calls from interrupt handlers\<close>

text \<open>
  \<open>prio_ok\<close> is the condition that \<open>portASSERT_IF_INTERRUPT_PRIORITY_INVALID\<close> reads from the interrupt
  controller. The second part of the result tells whether \<open>*pxHigherPriorityTaskWoken\<close> is set.
\<close>

definition notify_receivers :: "u32 \<Rightarrow> u8 \<Rightarrow> sys \<Rightarrow> (bool \<times> sys) res" where
  "notify_receivers q lock s =
     (if lock = queueUNLOCKED then wake_first (xTasksWaitingToReceive q) s
      else res_bind (prvIncrementQueueTxLock q lock s) (\<lambda>s. Inr (False, s)))"

definition notify_senders :: "u32 \<Rightarrow> u8 \<Rightarrow> sys \<Rightarrow> (bool \<times> sys) res" where
  "notify_senders q lock s =
     (if lock = queueUNLOCKED then wake_first (xTasksWaitingToSend q) s
      else res_bind (prvIncrementQueueRxLock q lock s) (\<lambda>s. Inr (False, s)))"

definition xQueueGenericSendFromISR ::
    "bool \<Rightarrow> u32 \<Rightarrow> u32 \<Rightarrow> copy_position \<Rightarrow> sys \<Rightarrow> ((bool \<times> bool) \<times> sys) res" where
  "xQueueGenericSendFromISR prio_ok q pvItemToQueue xCopyPosition s =
     assert_that (q \<noteq> 0)
     (assert_that (\<not> (pvItemToQueue = 0 \<and> uxItemSize (queues s q) \<noteq> 0))
     (assert_that (\<not> (xCopyPosition = queueOVERWRITE \<and> uxLength (queues s q) \<noteq> 1))
     (assert_that prio_ok
       (if uxMessagesWaiting (queues s q) < uxLength (queues s q) \<or> xCopyPosition = queueOVERWRITE
        then let lock = cTxLock (queues s q) in
          res_bind (prvCopyDataToQueue q pvItemToQueue xCopyPosition s) (\<lambda>(_, s).
          res_bind (notify_receivers q lock s) (\<lambda>(woken, s). Inr ((True, woken), s)))
        else Inr ((False, False), s)))))"

definition xQueueGiveFromISR :: "bool \<Rightarrow> u32 \<Rightarrow> sys \<Rightarrow> ((bool \<times> bool) \<times> sys) res" where
  "xQueueGiveFromISR prio_ok q s =
     assert_that (q \<noteq> 0)
     (assert_that (uxItemSize (queues s q) = 0)
     (assert_that (\<not> (pcHead (queues s q) = queueQUEUE_IS_MUTEX \<and> xMutexHolder (queues s q) \<noteq> None))
     (assert_that prio_ok
       (let n = uxMessagesWaiting (queues s q) in
        if n < uxLength (queues s q)
        then let lock = cTxLock (queues s q); s = upd_queue q (uxMessagesWaiting_update (\<lambda>_. n + 1)) s in
          res_bind (notify_receivers q lock s) (\<lambda>(woken, s). Inr ((True, woken), s))
        else Inr ((False, False), s)))))"

definition xQueueReceiveFromISR :: "bool \<Rightarrow> u32 \<Rightarrow> u32 \<Rightarrow> sys \<Rightarrow> ((bool \<times> bool) \<times> sys) res" where
  "xQueueReceiveFromISR prio_ok q pvBuffer s =
     assert_that (q \<noteq> 0)
     (assert_that (\<not> (pvBuffer = 0 \<and> uxItemSize (queues s q) \<noteq> 0))
     (assert_that prio_ok
       (let n = uxMessagesWaiting (queues s q) in
        if n > 0
        then let lock = cRxLock (queues s q);
                 s = upd_queue q (uxMessagesWaiting_update (\<lambda>_. n - 1)) (prvCopyDataFromQueue q pvBuffer s) in
          res_bind (notify_senders q lock s) (\<lambda>(woken, s). Inr ((True, woken), s))
        else Inr ((False, False), s))))"

definition xQueuePeekFromISR :: "bool \<Rightarrow> u32 \<Rightarrow> u32 \<Rightarrow> sys \<Rightarrow> (bool \<times> sys) res" where
  "xQueuePeekFromISR prio_ok q pvBuffer s =
     assert_that (q \<noteq> 0)
     (assert_that (\<not> (pvBuffer = 0 \<and> uxItemSize (queues s q) \<noteq> 0))
     (assert_that (uxItemSize (queues s q) \<noteq> 0)
     (assert_that prio_ok
       (if uxMessagesWaiting (queues s q) > 0
        then let pcOriginalReadPosition = pcReadFrom (queues s q)
          in Inr (True, upd_queue q (u_word1_update (\<lambda>_. pcOriginalReadPosition)) (prvCopyDataFromQueue q pvBuffer s))
        else Inr (False, s)))))"

subsection \<open>Creation and deletion\<close>

text \<open>An allocation suspends the scheduler and resumes it.\<close>

definition heap_alloc :: "u32 \<Rightarrow> u32 \<Rightarrow> sys \<Rightarrow> (u32 \<times> sys) res" where
  "heap_alloc ucHeap xWantedSize s =
     (let s = on_kern vTaskSuspendAll s; (p, h) = pvPortMalloc ucHeap xWantedSize (heap s)
      in res_bind (kernel_call xTaskResumeAll (s\<lparr>heap := h\<rparr>)) (\<lambda>(_, s). Inr (p, s)))"

definition xQueueGenericReset :: "u32 \<Rightarrow> bool \<Rightarrow> sys \<Rightarrow> (bool \<times> sys) res" where
  "xQueueGenericReset q xNewQueue s =
     assert_that (q \<noteq> 0)
     (let Q = queues s q in
      assert_that (uxLength Q \<ge> 1 \<and> (- 1) div uxLength Q \<ge> uxItemSize Q)
       (let s = upd_queue q (\<lambda>Q. Q\<lparr>u_word0 := pcHead Q + uxLength Q * uxItemSize Q, uxMessagesWaiting := 0,
                  pcWriteTo := pcHead Q, u_word1 := pcHead Q + (uxLength Q - 1) * uxItemSize Q,
                  cRxLock := queueUNLOCKED, cTxLock := queueUNLOCKED\<rparr>) s
        in res_bind
          (if \<not> xNewQueue then wake_and_yield (xTasksWaitingToSend q) s
           else Inr (on_kern (\<lambda>k. k\<lparr>lists := vListInitialise (xTasksWaitingToReceive q)
             (vListInitialise (xTasksWaitingToSend q) (lists k))\<rparr>) s))
          (\<lambda>s. Inr (True, s))))"

definition prvInitialiseNewQueue :: "u32 \<Rightarrow> u32 \<Rightarrow> u32 \<Rightarrow> u8 \<Rightarrow> u32 \<Rightarrow> sys \<Rightarrow> sys res" where
  "prvInitialiseNewQueue uxQueueLength itemSize pucQueueStorage queueType pxNewQueue s =
     (let s = upd_queue pxNewQueue (\<lambda>Q. Q\<lparr>pcHead := (if itemSize = 0 then pxNewQueue else pucQueueStorage),
                uxLength := uxQueueLength, uxItemSize := itemSize\<rparr>) s
      in res_bind (xQueueGenericReset pxNewQueue True s) (\<lambda>(_, s).
         Inr (upd_queue pxNewQueue (ucQueueType_update (\<lambda>_. queueType)) s)))"

definition xQueueGenericCreate :: "u32 \<Rightarrow> u32 \<Rightarrow> u32 \<Rightarrow> u8 \<Rightarrow> sys \<Rightarrow> (u32 \<times> sys) res" where
  "xQueueGenericCreate ucHeap uxQueueLength itemSize queueType s =
     assert_that (uxQueueLength > 0 \<and> (- 1) div uxQueueLength \<ge> itemSize \<and>
         (- 1) - sizeof_Queue \<ge> uxQueueLength * itemSize)
       (res_bind (heap_alloc ucHeap (sizeof_Queue + uxQueueLength * itemSize) s) (\<lambda>(q, s).
          if q \<noteq> 0
          then res_bind (prvInitialiseNewQueue uxQueueLength itemSize (q + sizeof_Queue) queueType q s) (\<lambda>s. Inr (q, s))
          else Inr (q, s)))"

text \<open>Nothing else runs while a call that cannot block is in progress.\<close>

definition undisturbed :: "nat \<Rightarrow> windows" where "undisturbed i w s = Inr s"

definition prvInitialiseMutex :: "u32 \<Rightarrow> sys \<Rightarrow> sys res" where
  "prvInitialiseMutex q s =
     (if q \<noteq> 0
      then let s = upd_queue q (\<lambda>Q. Q\<lparr>u_word0 := handle_word None, pcHead := queueQUEUE_IS_MUTEX, u_word1 := 0\<rparr>) s
        in res_bind (xQueueGenericSend undisturbed q 0 0 queueSEND_TO_BACK s) (\<lambda>(_, s). Inr s)
      else Inr s)"

definition xQueueCreateMutex :: "u32 \<Rightarrow> u8 \<Rightarrow> sys \<Rightarrow> (u32 \<times> sys) res" where
  "xQueueCreateMutex ucHeap queueType s =
     res_bind (xQueueGenericCreate ucHeap 1 0 queueType s) (\<lambda>(q, s).
     res_bind (prvInitialiseMutex q s) (\<lambda>s. Inr (q, s)))"

definition xQueueCreateCountingSemaphore :: "u32 \<Rightarrow> u32 \<Rightarrow> u32 \<Rightarrow> sys \<Rightarrow> (u32 \<times> sys) res" where
  "xQueueCreateCountingSemaphore ucHeap uxMaxCount uxInitialCount s =
     assert_that (uxMaxCount \<noteq> 0 \<and> uxInitialCount \<le> uxMaxCount)
       (res_bind (xQueueGenericCreate ucHeap uxMaxCount queueSEMAPHORE_QUEUE_ITEM_LENGTH
           queueQUEUE_TYPE_COUNTING_SEMAPHORE s) (\<lambda>(q, s).
          Inr (q, if q \<noteq> 0 then upd_queue q (uxMessagesWaiting_update (\<lambda>_. uxInitialCount)) s else s)))"

definition xSemaphoreCreateBinary :: "u32 \<Rightarrow> sys \<Rightarrow> (u32 \<times> sys) res" where
  "xSemaphoreCreateBinary ucHeap =
     xQueueGenericCreate ucHeap 1 queueSEMAPHORE_QUEUE_ITEM_LENGTH queueQUEUE_TYPE_BINARY_SEMAPHORE"

definition xQueueGetMutexHolder :: "u32 \<Rightarrow> sys \<Rightarrow> nat option res" where
  "xQueueGetMutexHolder q s =
     assert_that (q \<noteq> 0)
       (Inr (if pcHead (queues s q) = queueQUEUE_IS_MUTEX then xMutexHolder (queues s q) else None))"

definition xQueueGetMutexHolderFromISR :: "u32 \<Rightarrow> sys \<Rightarrow> nat option res" where
  "xQueueGetMutexHolderFromISR q s =
     assert_that (q \<noteq> 0)
       (Inr (if pcHead (queues s q) = queueQUEUE_IS_MUTEX then xMutexHolder (queues s q) else None))"

definition xQueueGiveMutexRecursive :: "(nat \<Rightarrow> windows) \<Rightarrow> u32 \<Rightarrow> sys \<Rightarrow> (bool \<times> sys) res" where
  "xQueueGiveMutexRecursive env q s =
     assert_that (q \<noteq> 0)
     (if xMutexHolder (queues s q) = pxCurrentTCB (kern s)
      then let s = upd_queue q (u_word1_update (\<lambda>n. n - 1)) s in
        res_bind
          (if uxRecursiveCallCount (queues s q) = 0
           then res_bind (xQueueGenericSend env q 0 queueMUTEX_GIVE_BLOCK_TIME queueSEND_TO_BACK s) (\<lambda>(_, s). Inr s)
           else Inr s)
          (\<lambda>s. Inr (True, s))
      else Inr (False, s))"

definition xQueueTakeMutexRecursive :: "(nat \<Rightarrow> windows) \<Rightarrow> u32 \<Rightarrow> u32 \<Rightarrow> sys \<Rightarrow> (bool \<times> sys) res" where
  "xQueueTakeMutexRecursive env q xTicksToWait s =
     assert_that (q \<noteq> 0)
     (if xMutexHolder (queues s q) = pxCurrentTCB (kern s)
      then Inr (True, upd_queue q (u_word1_update (\<lambda>n. n + 1)) s)
      else res_bind (xQueueSemaphoreTake env q xTicksToWait s) (\<lambda>(r, s).
        Inr (r, if r then upd_queue q (u_word1_update (\<lambda>n. n + 1)) s else s)))"

definition uxQueueMessagesWaiting :: "u32 \<Rightarrow> sys \<Rightarrow> u32 res" where
  "uxQueueMessagesWaiting q s = assert_that (q \<noteq> 0) (Inr (uxMessagesWaiting (queues s q)))"

definition uxQueueSpacesAvailable :: "u32 \<Rightarrow> sys \<Rightarrow> u32 res" where
  "uxQueueSpacesAvailable q s =
     assert_that (q \<noteq> 0) (Inr (uxLength (queues s q) - uxMessagesWaiting (queues s q)))"

definition uxQueueMessagesWaitingFromISR :: "u32 \<Rightarrow> sys \<Rightarrow> u32 res" where
  "uxQueueMessagesWaitingFromISR q s = assert_that (q \<noteq> 0) (Inr (uxMessagesWaiting (queues s q)))"

definition xQueueIsQueueEmptyFromISR :: "u32 \<Rightarrow> sys \<Rightarrow> bool res" where
  "xQueueIsQueueEmptyFromISR q s = assert_that (q \<noteq> 0) (Inr (uxMessagesWaiting (queues s q) = 0))"

definition xQueueIsQueueFullFromISR :: "u32 \<Rightarrow> sys \<Rightarrow> bool res" where
  "xQueueIsQueueFullFromISR q s =
     assert_that (q \<noteq> 0) (Inr (uxMessagesWaiting (queues s q) = uxLength (queues s q)))"

subsection \<open>Registry\<close>

text \<open>The entry to write: that of the queue, or else the first free one before it.\<close>

fun registry_slot :: "u32 \<Rightarrow> registry_item list \<Rightarrow> nat \<Rightarrow> nat option \<Rightarrow> nat option" where
  "registry_slot q [] ux entry = entry"
| "registry_slot q (r # rs) ux entry =
     (if q = xHandle r then Some ux
      else registry_slot q rs (Suc ux) (if entry = None \<and> pcQueueName r = 0 then Some ux else entry))"

definition vQueueAddToRegistry :: "u32 \<Rightarrow> u32 \<Rightarrow> sys \<Rightarrow> sys res" where
  "vQueueAddToRegistry q name s =
     assert_that (q \<noteq> 0)
     (Inr (case (if name \<noteq> 0 then registry_slot q (take configQUEUE_REGISTRY_SIZE (xQueueRegistry s)) 0 None else None) of
         None \<Rightarrow> s
       | Some ux \<Rightarrow> s\<lparr>xQueueRegistry := (xQueueRegistry s)[ux := \<lparr>pcQueueName = name, xHandle = q\<rparr>]\<rparr>))"

fun registry_find :: "u32 \<Rightarrow> registry_item list \<Rightarrow> nat \<Rightarrow> nat option" where
  "registry_find q [] ux = None"
| "registry_find q (r # rs) ux = (if xHandle r = q then Some ux else registry_find q rs (Suc ux))"

definition pcQueueGetName :: "u32 \<Rightarrow> sys \<Rightarrow> u32 res" where
  "pcQueueGetName q s =
     assert_that (q \<noteq> 0)
     (Inr (case registry_find q (take configQUEUE_REGISTRY_SIZE (xQueueRegistry s)) 0 of
         None \<Rightarrow> 0 | Some ux \<Rightarrow> pcQueueName (xQueueRegistry s ! ux)))"

definition vQueueUnregisterQueue :: "u32 \<Rightarrow> sys \<Rightarrow> sys res" where
  "vQueueUnregisterQueue q s =
     assert_that (q \<noteq> 0)
     (Inr (case registry_find q (take configQUEUE_REGISTRY_SIZE (xQueueRegistry s)) 0 of
         None \<Rightarrow> s
       | Some ux \<Rightarrow> s\<lparr>xQueueRegistry := (xQueueRegistry s)[ux := \<lparr>pcQueueName = 0, xHandle = 0\<rparr>]\<rparr>))"

definition vQueueDelete :: "u32 \<Rightarrow> sys \<Rightarrow> sys res" where
  "vQueueDelete q s =
     assert_that (q \<noteq> 0)
     (res_bind (vQueueUnregisterQueue q s) (\<lambda>s. res_bind (vPortFree q (heap s)) (\<lambda>h. Inr (s\<lparr>heap := h\<rparr>))))"

definition uxQueueGetQueueNumber :: "u32 \<Rightarrow> sys \<Rightarrow> u32" where
  "uxQueueGetQueueNumber q s = uxQueueNumber (queues s q)"

definition vQueueSetQueueNumber :: "u32 \<Rightarrow> u32 \<Rightarrow> sys \<Rightarrow> sys" where
  "vQueueSetQueueNumber q n = upd_queue q (uxQueueNumber_update (\<lambda>_. n))"

definition ucQueueGetQueueType :: "u32 \<Rightarrow> sys \<Rightarrow> u8" where
  "ucQueueGetQueueType q s = ucQueueType (queues s q)"

text \<open>Used by the timer task, with the scheduler suspended.\<close>

definition vQueueWaitForMessageRestricted :: "windows \<Rightarrow> u32 \<Rightarrow> u32 \<Rightarrow> bool \<Rightarrow> sys \<Rightarrow> sys res" where
  "vQueueWaitForMessageRestricted env q xTicksToWait xWaitIndefinitely s =
     res_bind (env Locked (prvLockQueue q s)) (\<lambda>s.
     let blocked = (uxMessagesWaiting (queues s q) = 0) in
     res_bind (env QueueChecked s) (\<lambda>s.
     res_bind
       (if blocked
        then kernel_do (vTaskPlaceOnEventListRestricted (xTasksWaitingToReceive q) xTicksToWait xWaitIndefinitely) s
        else Inr s) (\<lambda>s.
     res_bind (env Placed s) (prvUnlockQueue env q))))"

end
