(* ===== verification/Rtos_Create.thy ===== *)
theory Rtos_Create
  imports Rtos_Queue
begin

section \<open>Creation and deletion of tasks\<close>

text \<open>
  The parts of \<^verbatim>\<open>tasks.c\<close> and \<^verbatim>\<open>port.c\<close> that create and delete tasks on the heap of heap_1,
  for a processor whose stack grows down and without memory protection unit, and the search for a task by
  its name.
\<close>

subsection \<open>Memory\<close>

text \<open>Addresses that the linker assigns.\<close>

record image =
  ucHeap :: u32
  prvTaskExitError :: u32
  prvIdleTask :: u32
  configIDLE_TASK_NAME :: u32
  prvTimerTask :: u32
  configTIMER_SERVICE_TASK_NAME :: u32
  timer_queue_name :: u32

definition memset :: "u32 \<Rightarrow> u8 \<Rightarrow> u32 \<Rightarrow> sys \<Rightarrow> sys" where
  "memset dst c n s = s\<lparr>ram := (\<lambda>a. if a - dst < n then c else ram s a)\<rparr>"

definition store32 :: "u32 \<Rightarrow> u32 \<Rightarrow> sys \<Rightarrow> sys" where
  "store32 p v s = s\<lparr>ram := (ram s)(p := ucast v, p + 1 := ucast (drop_bit 8 v),
     p + 2 := ucast (drop_bit 16 v), p + 3 := ucast (drop_bit 24 v))\<rparr>"

subsection \<open>A new task\<close>

definition configMINIMAL_STACK_SIZE :: "16 word" where "configMINIMAL_STACK_SIZE = 300"

definition configMAX_TASK_NAME_LEN :: nat where "configMAX_TASK_NAME_LEN = 10"

definition tskSTACK_FILL_BYTE :: u8 where "tskSTACK_FILL_BYTE = 0xA5"

definition sizeof_TCB :: u32 where "sizeof_TCB = 88"

definition portINITIAL_XPSR :: u32 where "portINITIAL_XPSR = 0x01000000"

definition portINITIAL_EXC_RETURN :: u32 where "portINITIAL_EXC_RETURN = 0xFFFFFFFD"

definition portSTART_ADDRESS_MASK :: u32 where "portSTART_ADDRESS_MASK = 0xFFFFFFFE"

definition pxPortInitialiseStack :: "image \<Rightarrow> u32 \<Rightarrow> u32 \<Rightarrow> u32 \<Rightarrow> sys \<Rightarrow> u32 \<times> sys" where
  "pxPortInitialiseStack img top_of_stack pxCode pvParameters s =
     (let p = top_of_stack - 4;
          s = store32 p portINITIAL_XPSR s;
          p = p - 4;
          s = store32 p (pxCode AND portSTART_ADDRESS_MASK) s;
          p = p - 4;
          s = store32 p (prvTaskExitError img) s;
          p = p - 5 * 4;
          s = store32 p pvParameters s;
          p = p - 4;
          s = store32 p portINITIAL_EXC_RETURN s
      in (p - 8 * 4, s))"

text \<open>The copy of the name stops behind the terminating zero or when the field is full.\<close>

function copy_name :: "(u32 \<Rightarrow> u8) \<Rightarrow> u32 \<Rightarrow> nat \<Rightarrow> u8 list \<Rightarrow> u8 list" where
  "copy_name mem pcName x name =
     (if x < configMAX_TASK_NAME_LEN
      then let c = mem (pcName + of_nat x); name = name[x := c]
        in if c = 0 then name else copy_name mem pcName (Suc x) name
      else name)"

  by pat_completeness auto

termination by (relation "measure (\<lambda>(_, _, x, _). configMAX_TASK_NAME_LEN - x)") auto

declare copy_name.simps [simp del]

definition task_name :: "u32 \<Rightarrow> sys \<Rightarrow> u8 list \<Rightarrow> u8 list" where
  "task_name pcName s name =
     (if pcName \<noteq> 0 then (copy_name (ram s) pcName 0 name)[configMAX_TASK_NAME_LEN - 1 := 0] else name)"

text \<open>A control block and its list items filled with zeros.\<close>

definition clear_tcb :: "nat \<Rightarrow> kernel \<Rightarrow> kernel" where
  "clear_tcb t k =
     k\<lparr>tcbs := (tcbs k)(t := \<lparr>pxTopOfStack = 0, uxPriority = 0, pxStack = 0,
          pcTaskName = replicate configMAX_TASK_NAME_LEN 0, uxTCBNumber = 0, uxBasePriority = 0, uxMutexesHeld = 0,
          ulNotifiedValue = 0, ucNotifyState = taskNOT_WAITING_NOTIFICATION, ucDelayAborted = False\<rparr>),
       lists := (lists k)\<lparr>
          xItemValue := (xItemValue (lists k))(xStateListItem t := 0, xEventListItem t := 0),
          pvOwner := (pvOwner (lists k))(xStateListItem t := 0, xEventListItem t := 0),
          pxContainer := (pxContainer (lists k))(xStateListItem t := None, xEventListItem t := None)\<rparr>\<rparr>"

definition init_items :: "nat \<Rightarrow> nat \<Rightarrow> kernel \<Rightarrow> kernel" where
  "init_items t p k =
     (let h = vListInitialiseItem (xStateListItem t) (lists k);
          h = vListInitialiseItem (xEventListItem t) h;
          h = listSET_LIST_ITEM_OWNER (xStateListItem t) t h;
          h = listSET_LIST_ITEM_VALUE (xEventListItem t) (of_nat configMAX_PRIORITIES - of_nat p) h;
          h = listSET_LIST_ITEM_OWNER (xEventListItem t) t h
      in k\<lparr>lists := h\<rparr>)"

definition prvInitialiseNewTask ::
    "image \<Rightarrow> u32 \<Rightarrow> u32 \<Rightarrow> u32 \<Rightarrow> u32 \<Rightarrow> nat \<Rightarrow> nat \<Rightarrow> sys \<Rightarrow> sys res" where
  "prvInitialiseNewTask img pxTaskCode pcName ulStackDepth pvParameters p t s =
     (let stack = pxStack (tcbs (kern s) t);
          s = memset stack tskSTACK_FILL_BYTE (ulStackDepth * 4) s;
          top = (stack + (ulStackDepth - 1) * 4) AND NOT portBYTE_ALIGNMENT_MASK
      in assert_that (top AND portBYTE_ALIGNMENT_MASK = 0)
       (let s = on_kern (upd_tcb t (pcTaskName_update (task_name pcName s))) s
        in assert_that (p < configMAX_PRIORITIES)
          (let p = (if p \<ge> configMAX_PRIORITIES then configMAX_PRIORITIES - 1 else p);
               s = on_kern (upd_tcb t (\<lambda>x. x\<lparr>uxPriority := p, uxBasePriority := p\<rparr>)) s;
               s = on_kern (init_items t p) s;
               (top, s) = pxPortInitialiseStack img top pxTaskCode pvParameters s
           in Inr (on_kern (upd_tcb t (pxTopOfStack_update (\<lambda>_. top))) s))))"

definition prvInitialiseTaskLists :: "kernel \<Rightarrow> kernel" where
  "prvInitialiseTaskLists k =
     (let h = fold vListInitialise (map pxReadyTasksLists [0..<configMAX_PRIORITIES]) (lists k);
          h = vListInitialise xDelayedTaskList1 h;
          h = vListInitialise xDelayedTaskList2 h;
          h = vListInitialise xPendingReadyList h;
          h = vListInitialise xTasksWaitingTermination h;
          h = vListInitialise xSuspendedTaskList h
      in k\<lparr>lists := h, pxDelayedTaskList := xDelayedTaskList1, pxOverflowDelayedTaskList := xDelayedTaskList2\<rparr>)"

definition prvAddNewTaskToReadyList :: "nat \<Rightarrow> kernel \<Rightarrow> kernel res" where
  "prvAddNewTaskToReadyList t k =
     (let k = k\<lparr>uxCurrentNumberOfTasks := uxCurrentNumberOfTasks k + 1\<rparr> in
      res_bind
        (case pxCurrentTCB k of
           None \<Rightarrow>
             (let k = k\<lparr>pxCurrentTCB := Some t\<rparr>
              in Inr (if uxCurrentNumberOfTasks k = 1 then prvInitialiseTaskLists k else k))
         | Some c \<Rightarrow>
             Inr (if \<not> xSchedulerRunning k \<and> uxPriority (tcbs k c) \<le> uxPriority (tcbs k t)
                  then k\<lparr>pxCurrentTCB := Some t\<rparr> else k))
        (\<lambda>k. let k = k\<lparr>uxTaskNumber := uxTaskNumber k + 1\<rparr>;
                 k = upd_tcb t (uxTCBNumber_update (\<lambda>_. uxTaskNumber k)) k;
                 k = prvAddTaskToReadyList t k
           in if xSchedulerRunning k
              then res_bind (current_priority k) (\<lambda>cp.
                Inr (if cp < uxPriority (tcbs k t) then portYIELD_WITHIN_API k else k))
              else Inr k))"

text \<open>The result is the return value with the handle of the task; 0 is the null pointer.\<close>

definition pdPASS :: int where "pdPASS = 1"

definition pdFAIL :: int where "pdFAIL = 0"

definition errCOULD_NOT_ALLOCATE_REQUIRED_MEMORY :: int where "errCOULD_NOT_ALLOCATE_REQUIRED_MEMORY = - 1"

definition xTaskCreate ::
    "image \<Rightarrow> u32 \<Rightarrow> u32 \<Rightarrow> 16 word \<Rightarrow> u32 \<Rightarrow> nat \<Rightarrow> sys \<Rightarrow> ((int \<times> u32) \<times> sys) res" where
  "xTaskCreate img pxTaskCode pcName usStackDepth pvParameters p s =
     res_bind (heap_alloc (ucHeap img) (ucast usStackDepth * 4) s) (\<lambda>(stack, s).
     res_bind
       (if stack \<noteq> 0 then
          res_bind (heap_alloc (ucHeap img) sizeof_TCB s) (\<lambda>(t, s).
            if t \<noteq> 0
            then Inr (t, on_kern (\<lambda>k. upd_tcb (unat t) (pxStack_update (\<lambda>_. stack)) (clear_tcb (unat t) k)) s)
            else res_bind (vPortFree stack (heap s)) (\<lambda>h. Inr (t, s\<lparr>heap := h\<rparr>)))
        else Inr (0, s)) (\<lambda>(t, s).
     if t \<noteq> 0
     then res_bind (prvInitialiseNewTask img pxTaskCode pcName (ucast usStackDepth) pvParameters p (unat t) s) (\<lambda>s.
       res_bind (kernel_do (prvAddNewTaskToReadyList (unat t)) s) (\<lambda>s. Inr ((pdPASS, t), s)))
     else Inr ((errCOULD_NOT_ALLOCATE_REQUIRED_MEMORY, 0), s)))"

subsection \<open>Deleting tasks\<close>

definition prvDeleteTCB :: "nat \<Rightarrow> sys \<Rightarrow> sys res" where
  "prvDeleteTCB t s =
     res_bind (vPortFree (pxStack (tcbs (kern s) t)) (heap s)) (\<lambda>h.
     res_bind (vPortFree (of_nat t) h) (\<lambda>h. Inr (s\<lparr>heap := h\<rparr>)))"

definition delete_lists :: "nat \<Rightarrow> kernel \<Rightarrow> kernel res" where
  "delete_lists t k =
     res_bind (list_remove (xStateListItem t) k) (\<lambda>(_, k).
     res_bind (if container k (xEventListItem t) \<noteq> None
               then res_bind (list_remove (xEventListItem t) k) (\<lambda>(_, k). Inr k) else Inr k) (\<lambda>k.
     let k = k\<lparr>uxTaskNumber := uxTaskNumber k + 1\<rparr> in
     Inr (if pxCurrentTCB k = Some t
          then (insert_end xTasksWaitingTermination (xStateListItem t) k)
                 \<lparr>uxDeletedTasksWaitingCleanUp := uxDeletedTasksWaitingCleanUp k + 1\<rparr>
          else prvResetNextTaskUnblockTime (k\<lparr>uxCurrentNumberOfTasks := uxCurrentNumberOfTasks k - 1\<rparr>))))"

definition vTaskDelete :: "nat option \<Rightarrow> sys \<Rightarrow> sys res" where
  "vTaskDelete xTaskToDelete s =
     res_bind (prvGetTCBFromHandle xTaskToDelete (kern s)) (\<lambda>t.
     res_bind (kernel_do (delete_lists t) s) (\<lambda>s.
     res_bind (if pxCurrentTCB (kern s) \<noteq> Some t then prvDeleteTCB t s else Inr s) (\<lambda>s.
       if xSchedulerRunning (kern s) \<and> pxCurrentTCB (kern s) = Some t
       then assert_that (uxSchedulerSuspended (kern s) = 0) (Inr (on_kern portYIELD_WITHIN_API s))
       else Inr s)))"

text \<open>The idle task's loop over the deleted tasks; each pass decrements the counter it tests.\<close>

definition reap_task :: "sys \<Rightarrow> sys res" where
  "reap_task s =
     (let t = listGET_OWNER_OF_HEAD_ENTRY xTasksWaitingTermination (lists (kern s)) in
      res_bind (kernel_call (list_remove (xStateListItem t)) s) (\<lambda>(_, s).
        prvDeleteTCB t (on_kern (\<lambda>k. k\<lparr>uxCurrentNumberOfTasks := uxCurrentNumberOfTasks k - 1,
          uxDeletedTasksWaitingCleanUp := uxDeletedTasksWaitingCleanUp k - 1\<rparr>) s)))"

primrec reap_tasks :: "nat \<Rightarrow> sys \<Rightarrow> sys res" where
  "reap_tasks 0 s = Inr s"
| "reap_tasks (Suc n) s = res_bind (reap_task s) (reap_tasks n)"

definition prvCheckTasksWaitingTermination :: "sys \<Rightarrow> sys res" where
  "prvCheckTasksWaitingTermination s = reap_tasks (unat (uxDeletedTasksWaitingCleanUp (kern s))) s"

definition idle_pass :: "sys \<Rightarrow> sys res" where
  "idle_pass s =
     res_bind (prvCheckTasksWaitingTermination s) (\<lambda>s.
       Inr (if listCURRENT_LIST_LENGTH (pxReadyTasksLists tskIDLE_PRIORITY) (lists (kern s)) > 1
            then on_kern portYIELD_WITHIN_API s else s))"

subsection \<open>Queries\<close>

definition xTaskGetTickCount :: "kernel \<Rightarrow> u32" where "xTaskGetTickCount k = xTickCount k"

definition uxTaskGetNumberOfTasks :: "kernel \<Rightarrow> u32" where "uxTaskGetNumberOfTasks k = uxCurrentNumberOfTasks k"

definition pcTaskGetName :: "nat option \<Rightarrow> kernel \<Rightarrow> u8 list res" where
  "pcTaskGetName xTaskToQuery k = res_bind (prvGetTCBFromHandle xTaskToQuery k) (\<lambda>t. Inr (pcTaskName (tcbs k t)))"

definition xTaskGetCurrentTaskHandle :: "kernel \<Rightarrow> nat option" where "xTaskGetCurrentTaskHandle k = pxCurrentTCB k"

text \<open>The comparison of two names, and the walk through a list until the first task comes round again.\<close>

function names_match :: "u8 list \<Rightarrow> (nat \<Rightarrow> u8) \<Rightarrow> nat \<Rightarrow> bool" where
  "names_match name query x =
     (if x < configMAX_TASK_NAME_LEN
      then if name ! x \<noteq> query x then False else if name ! x = 0 then True else names_match name query (Suc x)
      else False)"
  by pat_completeness auto

termination by (relation "measure (\<lambda>(_, _, x). configMAX_TASK_NAME_LEN - x)") auto

declare names_match.simps [simp del]

partial_function (option) search_walk :: "nat \<Rightarrow> (nat \<Rightarrow> u8) \<Rightarrow> nat \<Rightarrow> kernel \<Rightarrow> (nat \<times> kernel) option" where
  "search_walk l query first k =
     (let (t, h) = listGET_OWNER_OF_NEXT_ENTRY l (lists k); k = k\<lparr>lists := h\<rparr> in
      if names_match (pcTaskName (tcbs k t)) query 0 then Some (t, k)
      else if t = first then Some (0, k) else search_walk l query first k)"

text \<open>The result 0 is the null pointer.\<close>

definition prvSearchForNameWithinSingleList :: "nat \<Rightarrow> (nat \<Rightarrow> u8) \<Rightarrow> nat kcall" where
  "prvSearchForNameWithinSingleList l query k =
     (if listCURRENT_LIST_LENGTH l (lists k) > 0
      then let (first, h) = listGET_OWNER_OF_NEXT_ENTRY l (lists k) in
        case search_walk l query first (k\<lparr>lists := h\<rparr>) of None \<Rightarrow> Inl Diverges | Some r \<Rightarrow> Inr r
      else Inr (0, k))"

fun search_lists :: "nat list \<Rightarrow> (nat \<Rightarrow> u8) \<Rightarrow> nat kcall" where
  "search_lists [] query k = Inr (0, k)"
| "search_lists (l # ls) query k =
     res_bind (prvSearchForNameWithinSingleList l query k) (\<lambda>(t, k).
       if t \<noteq> 0 then Inr (t, k) else search_lists ls query k)"

definition xTaskGetHandle :: "(nat \<Rightarrow> u8) \<Rightarrow> nat kcall" where
  "xTaskGetHandle query k =
     assert_that (\<exists>n < configMAX_TASK_NAME_LEN. query n = 0)
     (let k = vTaskSuspendAll k in
      res_bind (search_lists (map pxReadyTasksLists (rev [0..<configMAX_PRIORITIES]) @
          [pxDelayedTaskList k, pxOverflowDelayedTaskList k, xSuspendedTaskList, xTasksWaitingTermination]) query k)
        (\<lambda>(t, k). res_bind (xTaskResumeAll k) (\<lambda>(_, k). Inr (t, k))))"

end
