(* ===== verification/Rtos_Timers.thy ===== *)
theory Rtos_Timers
  imports Rtos_Create
begin

section \<open>FreeRTOS software timers\<close>

text \<open>
  \<^verbatim>\<open>FreeRTOS/Source/timers.c\<close> with the configuration of the demo (dynamic allocation, pended function
  calls, trace numbers, no start-up hook). Its static variables and timers are the record \<open>timers\<close>, beside
  the state \<open>sys\<close> of the kernel; a timer is the address of its structure and 0 is the null pointer. The
  two lists of active timers have a heap of list items of their own.

  The function that a timer calls belongs to the application: the argument \<open>cb\<close> says what a call with a
  function pointer and arguments does to the kernel, and \<open>expired\<close> records the timers whose function was
  called. Interrupts run in the windows of theory \<open>Rtos_Queue\<close>; they do not touch the lists of timers.
\<close>

subsection \<open>State\<close>

definition tmrNO_DELAY :: u32 where "tmrNO_DELAY = 0"

definition tmrMAX_TIME_BEFORE_OVERFLOW :: u32 where "tmrMAX_TIME_BEFORE_OVERFLOW = - 1"

definition tmrSTATUS_IS_ACTIVE :: u8 where "tmrSTATUS_IS_ACTIVE = 1"

definition tmrSTATUS_IS_STATICALLY_ALLOCATED :: u8 where "tmrSTATUS_IS_STATICALLY_ALLOCATED = 2"

definition tmrSTATUS_IS_AUTORELOAD :: u8 where "tmrSTATUS_IS_AUTORELOAD = 4"

lemmas tmr_status = tmrSTATUS_IS_ACTIVE_def tmrSTATUS_IS_STATICALLY_ALLOCATED_def tmrSTATUS_IS_AUTORELOAD_def

record timer =
  pcTimerName :: u32
  xTimerPeriodInTicks :: u32
  pvTimerID :: u32
  pxCallbackFunction :: u32
  uxTimerNumber :: u32
  ucStatus :: u8

record timers =
  timer_lists :: list_heap
  timer_at :: "u32 \<Rightarrow> timer"
  pxCurrentTimerList :: nat
  pxOverflowTimerList :: nat
  xTimerQueue :: u32
  xTimerTaskHandle :: u32
  xLastTime :: u32
  expired :: "u32 list"

definition xActiveTimerList1 :: nat where "xActiveTimerList1 = 0"

definition xActiveTimerList2 :: nat where "xActiveTimerList2 = 1"

definition xTimerListItem :: "u32 \<Rightarrow> list_item" where "xTimerListItem t = Item (unat t)"

definition upd_timer :: "u32 \<Rightarrow> (timer \<Rightarrow> timer) \<Rightarrow> timers \<Rightarrow> timers" where
  "upd_timer t f m = m\<lparr>timer_at := (timer_at m)(t := f (timer_at m t))\<rparr>"

definition set_status :: "u32 \<Rightarrow> u8 \<Rightarrow> timers \<Rightarrow> timers" where
  "set_status t b = upd_timer t (\<lambda>x. x\<lparr>ucStatus := ucStatus x OR b\<rparr>)"

definition clear_status :: "u32 \<Rightarrow> u8 \<Rightarrow> timers \<Rightarrow> timers" where
  "clear_status t b = upd_timer t (\<lambda>x. x\<lparr>ucStatus := ucStatus x AND NOT b\<rparr>)"

definition has_status :: "u32 \<Rightarrow> u8 \<Rightarrow> timers \<Rightarrow> bool" where
  "has_status t b m \<longleftrightarrow> ucStatus (timer_at m t) AND b \<noteq> 0"

type_synonym callbacks = "u32 \<Rightarrow> u32 \<Rightarrow> u32 \<Rightarrow> sys \<Rightarrow> sys res"

text \<open>The call of a timer's function; its second argument is not used.\<close>

definition call_timer :: "callbacks \<Rightarrow> u32 \<Rightarrow> timers \<times> sys \<Rightarrow> (timers \<times> sys) res" where
  "call_timer cb t = (\<lambda>(m, s).
     res_bind (cb (pxCallbackFunction (timer_at m t)) t 0 s) (\<lambda>s. Inr (m\<lparr>expired := expired m @ [t]\<rparr>, s)))"

subsection \<open>Creation\<close>

definition sizeof_Timer :: u32 where "sizeof_Timer = 44"

definition sizeof_DaemonTaskMessage :: u32 where "sizeof_DaemonTaskMessage = 16"

definition configTIMER_QUEUE_LENGTH :: u32 where "configTIMER_QUEUE_LENGTH = 10"

definition configTIMER_TASK_STACK_DEPTH :: "16 word" where "configTIMER_TASK_STACK_DEPTH = 180"

definition configTIMER_TASK_PRIORITY :: nat where "configTIMER_TASK_PRIORITY = 2"

definition queueQUEUE_TYPE_BASE :: u8 where "queueQUEUE_TYPE_BASE = 0"

definition prvCheckForValidListAndQueue :: "image \<Rightarrow> timers \<times> sys \<Rightarrow> (timers \<times> sys) res" where
  "prvCheckForValidListAndQueue img = (\<lambda>(m, s).
     if xTimerQueue m = 0 then
       let m = m\<lparr>timer_lists := vListInitialise xActiveTimerList2 (vListInitialise xActiveTimerList1 (timer_lists m)),
                 pxCurrentTimerList := xActiveTimerList1, pxOverflowTimerList := xActiveTimerList2\<rparr>
       in res_bind (xQueueGenericCreate (ucHeap img) configTIMER_QUEUE_LENGTH sizeof_DaemonTaskMessage
            queueQUEUE_TYPE_BASE s) (\<lambda>(q, s).
          res_bind (if q \<noteq> 0 then vQueueAddToRegistry q (timer_queue_name img) s else Inr s) (\<lambda>s.
          Inr (m\<lparr>xTimerQueue := q\<rparr>, s)))
     else Inr (m, s))"

definition xTimerCreateTimerTask :: "image \<Rightarrow> timers \<times> sys \<Rightarrow> (int \<times> timers \<times> sys) res" where
  "xTimerCreateTimerTask img ms =
     res_bind (prvCheckForValidListAndQueue img ms) (\<lambda>(m, s).
     res_bind
       (if xTimerQueue m \<noteq> 0
        then res_bind (xTaskCreate img (prvTimerTask img) (configTIMER_SERVICE_TASK_NAME img)
            configTIMER_TASK_STACK_DEPTH 0 configTIMER_TASK_PRIORITY s) (\<lambda>((xReturn, t), s).
          Inr (xReturn, m\<lparr>xTimerTaskHandle := if xReturn = pdPASS then t else xTimerTaskHandle m\<rparr>, s))
        else Inr (pdFAIL, m, s)) (\<lambda>(xReturn, m, s).
     assert_that (xReturn \<noteq> 0) (Inr (xReturn, m, s))))"

definition prvInitialiseNewTimer ::
    "image \<Rightarrow> u32 \<Rightarrow> u32 \<Rightarrow> bool \<Rightarrow> u32 \<Rightarrow> u32 \<Rightarrow> u32 \<Rightarrow> timers \<times> sys \<Rightarrow> (timers \<times> sys) res" where
  "prvInitialiseNewTimer img name period xAutoReload ID fn t ms =
     assert_that (period > 0)
     (res_bind (prvCheckForValidListAndQueue img ms) (\<lambda>(m, s).
       let m = upd_timer t (\<lambda>x. x\<lparr>pcTimerName := name, xTimerPeriodInTicks := period, pvTimerID := ID,
                 pxCallbackFunction := fn\<rparr>) m;
           m = m\<lparr>timer_lists := vListInitialiseItem (xTimerListItem t) (timer_lists m)\<rparr>
       in Inr (if xAutoReload then set_status t tmrSTATUS_IS_AUTORELOAD m else m, s)))"

definition xTimerCreate ::
    "image \<Rightarrow> u32 \<Rightarrow> u32 \<Rightarrow> bool \<Rightarrow> u32 \<Rightarrow> u32 \<Rightarrow> timers \<times> sys \<Rightarrow> (u32 \<times> timers \<times> sys) res" where
  "xTimerCreate img name period xAutoReload ID fn = (\<lambda>(m, s).
     res_bind (heap_alloc (ucHeap img) sizeof_Timer s) (\<lambda>(t, s).
     res_bind
       (if t \<noteq> 0
        then prvInitialiseNewTimer img name period xAutoReload ID fn t (upd_timer t (ucStatus_update (\<lambda>_. 0)) m, s)
        else Inr (m, s)) (\<lambda>(m, s). Inr (t, m, s))))"

subsection \<open>Commands to the daemon task\<close>

definition tmrCOMMAND_EXECUTE_CALLBACK_FROM_ISR :: int where "tmrCOMMAND_EXECUTE_CALLBACK_FROM_ISR = - 2"

definition tmrCOMMAND_EXECUTE_CALLBACK :: int where "tmrCOMMAND_EXECUTE_CALLBACK = - 1"

definition tmrFIRST_FROM_ISR_COMMAND :: int where "tmrFIRST_FROM_ISR_COMMAND = 6"

definition load32 :: "u32 \<Rightarrow> sys \<Rightarrow> u32" where
  "load32 p s = ucast (ram s p) OR push_bit 8 (ucast (ram s (p + 1))) OR push_bit 16 (ucast (ram s (p + 2))) OR
     push_bit 24 (ucast (ram s (p + 3)))"

text \<open>
  The message is a local variable at the address \<open>xMessage\<close>: an identifier and three words. The results
  are the return value and whether \<open>*pxHigherPriorityTaskWoken\<close> is set.
\<close>

definition xTimerGenericCommand ::
    "(nat \<Rightarrow> windows) \<Rightarrow> bool \<Rightarrow> u32 \<Rightarrow> u32 \<Rightarrow> int \<Rightarrow> u32 \<Rightarrow> u32 \<Rightarrow> timers \<times> sys \<Rightarrow> ((bool \<times> bool) \<times> timers \<times> sys) res" where
  "xTimerGenericCommand env prio_ok xMessage t xCommandID xOptionalValue xTicksToWait = (\<lambda>(m, s).
     assert_that (t \<noteq> 0)
     (if xTimerQueue m \<noteq> 0 then
        let s = store32 xMessage (of_int xCommandID) s;
            s = store32 (xMessage + 4) xOptionalValue s;
            s = store32 (xMessage + 8) t s
        in if xCommandID < tmrFIRST_FROM_ISR_COMMAND
           then res_bind (xQueueGenericSend env (xTimerQueue m) xMessage
               (if xTaskGetSchedulerState (kern s) = taskSCHEDULER_RUNNING then xTicksToWait else tmrNO_DELAY)
               queueSEND_TO_BACK s) (\<lambda>(r, s). Inr ((r, False), m, s))
           else res_bind (xQueueGenericSendFromISR prio_ok (xTimerQueue m) xMessage queueSEND_TO_BACK s)
             (\<lambda>(r, s). Inr (r, m, s))
      else Inr ((False, False), m, s)))"

definition store_callback :: "u32 \<Rightarrow> int \<Rightarrow> u32 \<Rightarrow> u32 \<Rightarrow> u32 \<Rightarrow> sys \<Rightarrow> sys" where
  "store_callback xMessage ID fn p1 p2 s =
     store32 (xMessage + 12) p2 (store32 (xMessage + 8) p1 (store32 (xMessage + 4) fn (store32 xMessage (of_int ID) s)))"

definition xTimerPendFunctionCallFromISR ::
    "bool \<Rightarrow> u32 \<Rightarrow> u32 \<Rightarrow> u32 \<Rightarrow> u32 \<Rightarrow> timers \<times> sys \<Rightarrow> ((bool \<times> bool) \<times> timers \<times> sys) res" where
  "xTimerPendFunctionCallFromISR prio_ok xMessage fn p1 p2 = (\<lambda>(m, s).
     res_bind (xQueueGenericSendFromISR prio_ok (xTimerQueue m) xMessage queueSEND_TO_BACK
       (store_callback xMessage tmrCOMMAND_EXECUTE_CALLBACK_FROM_ISR fn p1 p2 s)) (\<lambda>(r, s). Inr (r, m, s)))"

definition xTimerPendFunctionCall ::
    "(nat \<Rightarrow> windows) \<Rightarrow> u32 \<Rightarrow> u32 \<Rightarrow> u32 \<Rightarrow> u32 \<Rightarrow> u32 \<Rightarrow> timers \<times> sys \<Rightarrow> (bool \<times> timers \<times> sys) res" where
  "xTimerPendFunctionCall env xMessage fn p1 p2 xTicksToWait = (\<lambda>(m, s).
     assert_that (xTimerQueue m \<noteq> 0)
     (res_bind (xQueueGenericSend env (xTimerQueue m) xMessage xTicksToWait queueSEND_TO_BACK
       (store_callback xMessage tmrCOMMAND_EXECUTE_CALLBACK fn p1 p2 s)) (\<lambda>(r, s). Inr (r, m, s))))"

definition xTimerGetTimerDaemonTaskHandle :: "timers \<Rightarrow> u32 res" where
  "xTimerGetTimerDaemonTaskHandle m = assert_that (xTimerTaskHandle m \<noteq> 0) (Inr (xTimerTaskHandle m))"

definition xTimerGetPeriod :: "u32 \<Rightarrow> timers \<Rightarrow> u32 res" where
  "xTimerGetPeriod t m = assert_that (t \<noteq> 0) (Inr (xTimerPeriodInTicks (timer_at m t)))"

definition vTimerSetReloadMode :: "u32 \<Rightarrow> bool \<Rightarrow> timers \<Rightarrow> timers res" where
  "vTimerSetReloadMode t xAutoReload m =
     assert_that (t \<noteq> 0) (Inr ((if xAutoReload then set_status else clear_status) t tmrSTATUS_IS_AUTORELOAD m))"

definition xTimerGetReloadMode :: "u32 \<Rightarrow> timers \<Rightarrow> bool res" where
  "xTimerGetReloadMode t m = assert_that (t \<noteq> 0) (Inr (has_status t tmrSTATUS_IS_AUTORELOAD m))"

definition xTimerGetExpiryTime :: "u32 \<Rightarrow> timers \<Rightarrow> u32 res" where
  "xTimerGetExpiryTime t m = assert_that (t \<noteq> 0) (Inr (xItemValue (timer_lists m) (xTimerListItem t)))"

definition pcTimerGetName :: "u32 \<Rightarrow> timers \<Rightarrow> u32 res" where
  "pcTimerGetName t m = assert_that (t \<noteq> 0) (Inr (pcTimerName (timer_at m t)))"

definition xTimerIsTimerActive :: "u32 \<Rightarrow> timers \<Rightarrow> bool res" where
  "xTimerIsTimerActive t m = assert_that (t \<noteq> 0) (Inr (has_status t tmrSTATUS_IS_ACTIVE m))"

definition pvTimerGetTimerID :: "u32 \<Rightarrow> timers \<Rightarrow> u32 res" where
  "pvTimerGetTimerID t m = assert_that (t \<noteq> 0) (Inr (pvTimerID (timer_at m t)))"

definition vTimerSetTimerID :: "u32 \<Rightarrow> u32 \<Rightarrow> timers \<Rightarrow> timers res" where
  "vTimerSetTimerID t ID m = assert_that (t \<noteq> 0) (Inr (upd_timer t (pvTimerID_update (\<lambda>_. ID)) m))"

definition uxTimerGetTimerNumber :: "u32 \<Rightarrow> timers \<Rightarrow> u32" where
  "uxTimerGetTimerNumber t m = uxTimerNumber (timer_at m t)"

definition vTimerSetTimerNumber :: "u32 \<Rightarrow> u32 \<Rightarrow> timers \<Rightarrow> timers" where
  "vTimerSetTimerNumber t n = upd_timer t (uxTimerNumber_update (\<lambda>_. n))"

subsection \<open>Active timers\<close>

definition insert_timer :: "nat \<Rightarrow> u32 \<Rightarrow> timers \<Rightarrow> timers res" where
  "insert_timer l t m =
     (case vListInsert l (xTimerListItem t) (timer_lists m) of
        None \<Rightarrow> Inl Diverges | Some h \<Rightarrow> Inr (m\<lparr>timer_lists := h\<rparr>))"

definition remove_timer :: "u32 \<Rightarrow> timers \<Rightarrow> timers res" where
  "remove_timer t m =
     (case uxListRemove (xTimerListItem t) (timer_lists m) of
        None \<Rightarrow> Inl NullPointer | Some (_, h) \<Rightarrow> Inr (m\<lparr>timer_lists := h\<rparr>))"

text \<open>The result tells whether the timer has expired already and is to be processed now.\<close>

definition prvInsertTimerInActiveList :: "u32 \<Rightarrow> u32 \<Rightarrow> u32 \<Rightarrow> u32 \<Rightarrow> timers \<Rightarrow> (bool \<times> timers) res" where
  "prvInsertTimerInActiveList t xNextExpiryTime xTimeNow xCommandTime m =
     (let h = listSET_LIST_ITEM_VALUE (xTimerListItem t) xNextExpiryTime (timer_lists m);
          h = listSET_LIST_ITEM_OWNER (xTimerListItem t) (unat t) h;
          m = m\<lparr>timer_lists := h\<rparr>
      in if xNextExpiryTime \<le> xTimeNow then
           if xTimeNow - xCommandTime \<ge> xTimerPeriodInTicks (timer_at m t) then Inr (True, m)
           else res_bind (insert_timer (pxOverflowTimerList m) t m) (\<lambda>m. Inr (False, m))
         else if xTimeNow < xCommandTime \<and> xNextExpiryTime \<ge> xCommandTime then Inr (True, m)
         else res_bind (insert_timer (pxCurrentTimerList m) t m) (\<lambda>m. Inr (False, m)))"

partial_function (option) reload_loop ::
    "callbacks \<Rightarrow> u32 \<Rightarrow> u32 \<Rightarrow> u32 \<Rightarrow> timers \<times> sys \<Rightarrow> (timers \<times> sys) res option" where
  "reload_loop cb t xExpiredTime xTimeNow ms =
     (let (m, s) = ms; period = xTimerPeriodInTicks (timer_at m t) in
      case prvInsertTimerInActiveList t (xExpiredTime + period) xTimeNow xExpiredTime m of
        Inl e \<Rightarrow> Some (Inl e)
      | Inr (process_now, m) \<Rightarrow>
          if process_now then
            (case call_timer cb t (m, s) of
               Inl e \<Rightarrow> Some (Inl e)
             | Inr ms \<Rightarrow> reload_loop cb t (xExpiredTime + period) xTimeNow ms)
          else Some (Inr (m, s)))"

definition prvReloadTimer :: "callbacks \<Rightarrow> u32 \<Rightarrow> u32 \<Rightarrow> u32 \<Rightarrow> timers \<times> sys \<Rightarrow> (timers \<times> sys) res" where
  "prvReloadTimer cb t xExpiredTime xTimeNow ms =
     (case reload_loop cb t xExpiredTime xTimeNow ms of None \<Rightarrow> Inl Diverges | Some r \<Rightarrow> r)"

definition prvProcessExpiredTimer :: "callbacks \<Rightarrow> u32 \<Rightarrow> u32 \<Rightarrow> timers \<times> sys \<Rightarrow> (timers \<times> sys) res" where
  "prvProcessExpiredTimer cb xNextExpireTime xTimeNow = (\<lambda>(m, s).
     let t = of_nat (listGET_OWNER_OF_HEAD_ENTRY (pxCurrentTimerList m) (timer_lists m)) in
     res_bind (remove_timer t m) (\<lambda>m.
     res_bind (if has_status t tmrSTATUS_IS_AUTORELOAD m then prvReloadTimer cb t xNextExpireTime xTimeNow (m, s)
               else Inr (clear_status t tmrSTATUS_IS_ACTIVE m, s)) (call_timer cb t)))"

partial_function (option) expire_all :: "callbacks \<Rightarrow> timers \<times> sys \<Rightarrow> (timers \<times> sys) res option" where
  "expire_all cb ms =
     (let (m, s) = ms in
      if listLIST_IS_EMPTY (pxCurrentTimerList m) (timer_lists m) then Some (Inr ms)
      else case prvProcessExpiredTimer cb (listGET_ITEM_VALUE_OF_HEAD_ENTRY (pxCurrentTimerList m) (timer_lists m))
            tmrMAX_TIME_BEFORE_OVERFLOW ms of
          Inl e \<Rightarrow> Some (Inl e)
        | Inr ms \<Rightarrow> expire_all cb ms)"

definition prvSwitchTimerLists :: "callbacks \<Rightarrow> timers \<times> sys \<Rightarrow> (timers \<times> sys) res" where
  "prvSwitchTimerLists cb ms =
     res_bind (case expire_all cb ms of None \<Rightarrow> Inl Diverges | Some r \<Rightarrow> r) (\<lambda>(m, s).
       Inr (m\<lparr>pxCurrentTimerList := pxOverflowTimerList m, pxOverflowTimerList := pxCurrentTimerList m\<rparr>, s))"

definition prvSampleTimeNow :: "callbacks \<Rightarrow> timers \<times> sys \<Rightarrow> ((u32 \<times> bool) \<times> timers \<times> sys) res" where
  "prvSampleTimeNow cb = (\<lambda>(m, s).
     let xTimeNow = xTaskGetTickCount (kern s); switched = xTimeNow < xLastTime m in
     res_bind (if switched then prvSwitchTimerLists cb (m, s) else Inr (m, s)) (\<lambda>(m, s).
       Inr ((xTimeNow, switched), m\<lparr>xLastTime := xTimeNow\<rparr>, s)))"

definition prvGetNextExpireTime :: "timers \<Rightarrow> u32 \<times> bool" where
  "prvGetNextExpireTime m =
     (if listLIST_IS_EMPTY (pxCurrentTimerList m) (timer_lists m) then (0, True)
      else (listGET_ITEM_VALUE_OF_HEAD_ENTRY (pxCurrentTimerList m) (timer_lists m), False))"

subsection \<open>The daemon task\<close>

definition prvProcessTimerOrBlockTask ::
    "callbacks \<Rightarrow> windows \<Rightarrow> u32 \<Rightarrow> bool \<Rightarrow> timers \<times> sys \<Rightarrow> (timers \<times> sys) res" where
  "prvProcessTimerOrBlockTask cb env xNextExpireTime xListWasEmpty = (\<lambda>(m, s).
     res_bind (env Suspended (on_kern vTaskSuspendAll s)) (\<lambda>s.
     res_bind (prvSampleTimeNow cb (m, s)) (\<lambda>((xTimeNow, switched), m, s).
       if switched then res_bind (kernel_call xTaskResumeAll s) (\<lambda>(_, s). Inr (m, s))
       else if \<not> xListWasEmpty \<and> xNextExpireTime \<le> xTimeNow
       then res_bind (kernel_call xTaskResumeAll s) (\<lambda>(_, s). prvProcessExpiredTimer cb xNextExpireTime xTimeNow (m, s))
       else
         let indefinitely = xListWasEmpty \<and> listLIST_IS_EMPTY (pxOverflowTimerList m) (timer_lists m) in
         res_bind (vQueueWaitForMessageRestricted env (xTimerQueue m) (xNextExpireTime - xTimeNow) indefinitely s) (\<lambda>s.
         res_bind (env Unlocked s) (\<lambda>s.
         res_bind (kernel_call xTaskResumeAll s) (\<lambda>(yielded, s).
         Inr (m, if \<not> yielded then on_kern portYIELD_WITHIN_API s else s)))))))"

definition start_timer :: "callbacks \<Rightarrow> u32 \<Rightarrow> u32 \<Rightarrow> u32 \<Rightarrow> timers \<times> sys \<Rightarrow> (timers \<times> sys) res" where
  "start_timer cb t xMessageValue xTimeNow = (\<lambda>(m, s).
     let m = set_status t tmrSTATUS_IS_ACTIVE m; period = xTimerPeriodInTicks (timer_at m t) in
     res_bind (prvInsertTimerInActiveList t (xMessageValue + period) xTimeNow xMessageValue m) (\<lambda>(process_now, m).
       if process_now then
         res_bind (if has_status t tmrSTATUS_IS_AUTORELOAD m then prvReloadTimer cb t (xMessageValue + period) xTimeNow (m, s)
                   else Inr (clear_status t tmrSTATUS_IS_ACTIVE m, s)) (call_timer cb t)
       else Inr (m, s)))"

definition change_period :: "u32 \<Rightarrow> u32 \<Rightarrow> u32 \<Rightarrow> timers \<Rightarrow> timers res" where
  "change_period t xMessageValue xTimeNow m =
     (let m = upd_timer t (xTimerPeriodInTicks_update (\<lambda>_. xMessageValue)) (set_status t tmrSTATUS_IS_ACTIVE m) in
      assert_that (xMessageValue > 0)
       (res_bind (prvInsertTimerInActiveList t (xTimeNow + xMessageValue) xTimeNow xTimeNow m) (\<lambda>(_, m). Inr m)))"

definition timer_command :: "callbacks \<Rightarrow> int \<Rightarrow> u32 \<Rightarrow> u32 \<Rightarrow> timers \<times> sys \<Rightarrow> (timers \<times> sys) res" where
  "timer_command cb ID xMessageValue t = (\<lambda>(m, s).
     res_bind (if pxContainer (timer_lists m) (xTimerListItem t) \<noteq> None then remove_timer t m else Inr m) (\<lambda>m.
     res_bind (prvSampleTimeNow cb (m, s)) (\<lambda>((xTimeNow, _), m, s).
       if ID \<in> {1, 2, 6, 7} then start_timer cb t xMessageValue xTimeNow (m, s)
       else if ID \<in> {3, 8} then Inr (clear_status t tmrSTATUS_IS_ACTIVE m, s)
       else if ID \<in> {4, 9} then res_bind (change_period t xMessageValue xTimeNow m) (\<lambda>m. Inr (m, s))
       else if ID = 5 then
         if has_status t tmrSTATUS_IS_STATICALLY_ALLOCATED m then Inr (clear_status t tmrSTATUS_IS_ACTIVE m, s)
         else res_bind (vPortFree t (heap s)) (\<lambda>h. Inr (m, s\<lparr>heap := h\<rparr>))
       else Inr (m, s))))"

definition daemon_message :: "callbacks \<Rightarrow> u32 \<Rightarrow> timers \<times> sys \<Rightarrow> (timers \<times> sys) res" where
  "daemon_message cb xMessage = (\<lambda>(m, s).
     let ID = sint (load32 xMessage s); a = load32 (xMessage + 4) s; b = load32 (xMessage + 8) s in
     if ID < 0 then res_bind (cb a b (load32 (xMessage + 12) s) s) (\<lambda>s. Inr (m, s))
     else timer_command cb ID a b (m, s))"

partial_function (option) daemon_loop ::
    "callbacks \<Rightarrow> u32 \<Rightarrow> timers \<times> sys \<Rightarrow> (timers \<times> sys) res option" where
  "daemon_loop cb xMessage ms =
     (case xQueueReceive undisturbed (xTimerQueue (fst ms)) xMessage tmrNO_DELAY (snd ms) of
        Inl e \<Rightarrow> Some (Inl e)
      | Inr (received, s) \<Rightarrow>
          if received then
            (case daemon_message cb xMessage (fst ms, s) of
               Inl e \<Rightarrow> Some (Inl e)
             | Inr ms \<Rightarrow> daemon_loop cb xMessage ms)
          else Some (Inr (fst ms, s)))"

definition prvProcessReceivedCommands :: "callbacks \<Rightarrow> u32 \<Rightarrow> timers \<times> sys \<Rightarrow> (timers \<times> sys) res" where
  "prvProcessReceivedCommands cb xMessage ms =
     (case daemon_loop cb xMessage ms of None \<Rightarrow> Inl Diverges | Some r \<Rightarrow> r)"

text \<open>One pass of the daemon task's loop; \<open>cpu\<close> runs the other tasks while it is blocked.\<close>

definition timer_task_pass ::
    "callbacks \<Rightarrow> windows \<Rightarrow> (sys \<Rightarrow> sys res) \<Rightarrow> u32 \<Rightarrow> timers \<times> sys \<Rightarrow> (timers \<times> sys) res" where
  "timer_task_pass cb env cpu xMessage ms =
     (let (xNextExpireTime, xListWasEmpty) = prvGetNextExpireTime (fst ms) in
      res_bind (prvProcessTimerOrBlockTask cb env xNextExpireTime xListWasEmpty ms) (\<lambda>(m, s).
      res_bind (cpu s) (\<lambda>s. prvProcessReceivedCommands cb xMessage (m, s))))"

end
