(* ===== verification/Rtos_Task_Inv.thy ===== *)
theory Rtos_Task_Inv
  imports Rtos_Task_Api
begin

section \<open>The invariant of the scheduler\<close>

text \<open>
  The lists of the kernel as sequences of items of the control blocks in \<open>T\<close>, what each primitive list
  operation does to them, and the invariant \<open>kernel_ok\<close> that relates them to priorities and wake times.
\<close>

named_theorems kernel_simps \<open>what an operation leaves unchanged\<close>

subsection \<open>Lists of control blocks\<close>

definition task_items :: "nat set \<Rightarrow> list_item set" where
  "task_items T = xStateListItem ` T \<union> xEventListItem ` T"

lemma item_eq_iff [simp]:
  "xStateListItem s = xStateListItem t \<longleftrightarrow> s = t" "xEventListItem s = xEventListItem t \<longleftrightarrow> s = t"
  "xStateListItem s \<noteq> xEventListItem t" "xEventListItem t \<noteq> xStateListItem s"
  "xStateListItem s \<noteq> ListEnd l" "xEventListItem s \<noteq> ListEnd l"
  by (simp_all add: xStateListItem_def xEventListItem_def) presburger+

lemma item_in_image [simp]:
  "xStateListItem t \<in> xStateListItem ` A \<longleftrightarrow> t \<in> A" "xEventListItem t \<in> xEventListItem ` A \<longleftrightarrow> t \<in> A"
  "xStateListItem t \<notin> xEventListItem ` A" "xEventListItem t \<notin> xStateListItem ` A"
  "xStateListItem t \<in> task_items A \<longleftrightarrow> t \<in> A" "xEventListItem t \<in> task_items A \<longleftrightarrow> t \<in> A"
  by (auto simp: task_items_def)

lemma task_item_is_Item:
  assumes "x \<in> task_items T"
  obtains n where "x = Item n"
  using assms by (auto simp: task_items_def xStateListItem_def xEventListItem_def)

definition lists_ok :: "list_heap \<Rightarrow> nat set \<Rightarrow> nat set \<Rightarrow> (nat \<Rightarrow> list_item list) \<Rightarrow> bool" where
  "lists_ok h D T L \<longleftrightarrow>
     heap_lists h D L \<and> finite T \<and> card T < 2 ^ 31 \<and> 0 \<notin> T \<and>
     (\<forall>x l. pxContainer h x = Some l \<longrightarrow> l \<in> D \<and> x \<in> set (L l)) \<and>
     (\<forall>l \<in> D. set (L l) \<subseteq> task_items T) \<and>
     (\<forall>t \<in> T. pvOwner h (xStateListItem t) = t \<and> pvOwner h (xEventListItem t) = t)"

lemma lists_okD:
  assumes "lists_ok h D T L"
  shows "heap_lists h D L" "finite T" "card T < 2 ^ 31"
    and "l \<in> D \<Longrightarrow> is_list h l (L l)" "l \<in> D \<Longrightarrow> set (L l) \<subseteq> task_items T" "l \<in> D \<Longrightarrow> distinct (L l)"
    and "t \<in> T \<Longrightarrow> pvOwner h (xStateListItem t) = t" "t \<in> T \<Longrightarrow> pvOwner h (xEventListItem t) = t"
    and "t \<in> T \<Longrightarrow> t \<noteq> 0"
proof -
  show il: "is_list h l (L l)" if "l \<in> D" for l
    using assms that by (simp add: lists_ok_def heap_lists_def)
  show "distinct (L l)" if "l \<in> D" using il[OF that] by (simp add: is_list_def)
  show "t \<noteq> 0" if "t \<in> T" using assms that unfolding lists_ok_def by metis
qed (use assms in \<open>simp_all add: lists_ok_def\<close>)

lemma container_iff:
  assumes "lists_ok h D T L"
  shows "pxContainer h x = Some l \<longleftrightarrow> l \<in> D \<and> x \<in> set (L l)"
proof
  show "l \<in> D \<and> x \<in> set (L l)" if "pxContainer h x = Some l"
    using assms that by (simp add: lists_ok_def)
  show "pxContainer h x = Some l" if "l \<in> D \<and> x \<in> set (L l)"
    using lists_okD(4)[OF assms, of l] that by (simp add: is_list_def)
qed

lemma container_NoneD: "lists_ok h D T L \<Longrightarrow> pxContainer h x = None \<Longrightarrow> l \<in> D \<Longrightarrow> x \<notin> set (L l)"
  using container_iff[of h D T L x l] by simp

lemma card_task_items:
  assumes "finite T"
  shows "card (task_items T) \<le> 2 * card T"
proof -
  have "card (task_items T) \<le> card (xStateListItem ` T) + card (xEventListItem ` T)"
    unfolding task_items_def by (rule card_Un_le)
  also have "\<dots> \<le> card T + card T" using assms by (intro add_mono card_image_le)
  finally show ?thesis by simp
qed

lemma finite_task_items [simp]: "finite T \<Longrightarrow> finite (task_items T)"
  by (simp add: task_items_def)

lemma room_for_item:
  assumes "lists_ok h D T L" and "l \<in> D" and "x \<in> task_items T" and "x \<notin> set (L l)"
  shows "Suc (length (L l)) < 2 ^ 32"
proof -
  note d = lists_okD[OF assms(1)]
  have "Suc (length (L l)) = card (insert x (set (L l)))"
    using d(6)[OF assms(2)] assms(4) by (simp add: distinct_card)
  also have "\<dots> \<le> card (task_items T)"
    using d(2) d(5)[OF assms(2)] assms(3) by (intro card_mono) auto
  finally show ?thesis using card_task_items[OF d(2)] d(3) by simp
qed

text \<open>An operation that changes one list and the container of one item.\<close>

lemma lists_ok_upd:
  assumes ok: "lists_ok h D T L" and "l \<in> D" and "heap_lists h' D (L(l := zs))" and "pvOwner h' = pvOwner h"
    and c: "pxContainer h' = (pxContainer h)(x := c)" and "c = None \<or> c = Some l"
    and zs: "set zs \<subseteq> task_items T" "x \<in> set zs \<longleftrightarrow> c = Some l" "set (L l) - {x} \<subseteq> set zs"
    and "pxContainer h x = None \<or> pxContainer h x = Some l"
  shows "lists_ok h' D T (L(l := zs))"
proof -
  have "l' \<in> D \<and> y \<in> set ((L(l := zs)) l')" if "pxContainer h' y = Some l'" for y l'
  proof (cases "y = x")
    case True
    then show ?thesis using that assms by auto
  next
    case False
    then have "l' \<in> D \<and> y \<in> set (L l')" using that c container_iff[OF ok] by simp
    then show ?thesis using False zs(3) by auto
  qed
  then show ?thesis using assms by (simp add: lists_ok_def)
qed

text \<open>Taking an item out.\<close>

lemma list_remove_ok:
  assumes ok: "lists_ok h D T L" and c: "pxContainer h x = Some l"
  shows "\<exists>h'. uxListRemove x h = Some (of_nat (length (L l) - 1), h') \<and>
    lists_ok h' D T (L(l := remove1 x (L l))) \<and> pxContainer h' = (pxContainer h)(x := None) \<and>
    xItemValue h' = xItemValue h \<and> (\<forall>l'. l' \<noteq> l \<longrightarrow> pxIndex h' l' = pxIndex h l')"
proof -
  note d = lists_okD[OF ok]
  have l: "l \<in> D" "x \<in> set (L l)" using c by (simp_all add: container_iff[OF ok])
  then obtain xs ys where s: "L l = xs @ x # ys" "x \<notin> set xs" by (meson split_list_first)
  have il: "is_list h l (xs @ x # ys)" using d(4)[OF l(1)] s by simp
  obtain h' where h': "uxListRemove x h = Some (of_nat (length (xs @ ys)), h')"
      "pxContainer h' = (pxContainer h)(x := None)" "xItemValue h' = xItemValue h" "pvOwner h' = pvOwner h"
      "pxIndex h' = (if pxIndex h l = x then (pxIndex h)(l := last (ListEnd l # xs)) else pxIndex h)"
    using removed_fields[OF il] by blast
  have "heap_lists h' D (L(l := xs @ ys))"
    using removed_is_list[OF il h'(1)] removed_other[OF il h'(1)] by (intro lists_update[OF d(1) l(1)]) auto
  moreover have r: "remove1 x (L l) = xs @ ys" using s by (simp add: remove1_append)
  moreover have "distinct (xs @ x # ys)" "set (xs @ x # ys) \<subseteq> task_items T" using d(5,6)[OF l(1)] s(1) by simp_all
  ultimately have "lists_ok h' D T (L(l := remove1 x (L l)))"
    unfolding r by (intro lists_ok_upd[OF ok l(1) _ h'(4,2)]) (use c s in auto)
  with h' s r show ?thesis by auto
qed

text \<open>Putting an item in at a position.\<close>

lemma insert_after_ok:
  assumes ok: "lists_ok h D T L" and l: "l \<in> D" "L l = xs @ ys" and x: "x \<in> task_items T" "pxContainer h x = None"
  shows "lists_ok (list_insert_after l (last (ListEnd l # xs)) x h) D T (L(l := xs @ x # ys)) \<and>
    pxContainer (list_insert_after l (last (ListEnd l # xs)) x h) = (pxContainer h)(x := Some l)"
proof -
  obtain n where n: "x = Item n" using x(1) by (rule task_item_is_Item)
  have room: "Suc (length (L l)) < 2 ^ 32"
    using room_for_item[OF ok l(1) x(1)] container_NoneD[OF ok x(2) l(1)] by simp
  have hl: "heap_lists (list_insert_after l (last (ListEnd l # xs)) x h) D (L(l := xs @ x # ys))"
    unfolding n by (rule insert_after_lists[OF lists_okD(1)[OF ok] l refl x(2)[unfolded n] room])
  have c: "pxContainer (list_insert_after l (last (ListEnd l # xs)) x h) = (pxContainer h)(x := Some l)"
    "pvOwner (list_insert_after l (last (ListEnd l # xs)) x h) = pvOwner h" by (simp_all del: last.simps)
  have "set (xs @ ys) \<subseteq> task_items T" using lists_okD(5)[OF ok l(1)] l(2) by simp
  then have "lists_ok (list_insert_after l (last (ListEnd l # xs)) x h) D T (L(l := xs @ x # ys))"
    by (intro lists_ok_upd[OF ok l(1) hl c(2,1)]) (use x l(2) in auto)
  with c(1) show ?thesis by simp
qed

definition before_index :: "list_item \<Rightarrow> list_item \<Rightarrow> list_item list \<Rightarrow> list_item list" where
  "before_index i x xs = takeWhile (\<lambda>y. y \<noteq> i) xs @ x # dropWhile (\<lambda>y. y \<noteq> i) xs"

definition by_value :: "(list_item \<Rightarrow> u32) \<Rightarrow> list_item \<Rightarrow> list_item list \<Rightarrow> list_item list" where
  "by_value v x xs = takeWhile (\<lambda>y. v y \<le> v x) xs @ x # dropWhile (\<lambda>y. v y \<le> v x) xs"

lemma set_before_index [simp]: "set (before_index i x xs) = insert x (set xs)"
  unfolding before_index_def set_append list.set
  by (metis Un_insert_right set_append takeWhile_dropWhile_id)

lemma set_by_value [simp]: "set (by_value v x xs) = insert x (set xs)"
  unfolding by_value_def set_append list.set
  by (metis Un_insert_right set_append takeWhile_dropWhile_id)

lemma sorted_by_value: "sorted (map v xs) \<Longrightarrow> sorted (map v (by_value v x xs))"
  unfolding by_value_def by (rule sorted_insert)

lemma insert_end_ok:
  assumes "lists_ok h D T L" "l \<in> D" "x \<in> task_items T" "pxContainer h x = None"
  shows "lists_ok (vListInsertEnd l x h) D T (L(l := before_index (pxIndex h l) x (L l))) \<and>
    pxContainer (vListInsertEnd l x h) = (pxContainer h)(x := Some l) \<and>
    xItemValue (vListInsertEnd l x h) = xItemValue h \<and> pxIndex (vListInsertEnd l x h) = pxIndex h"
proof -
  obtain n where n: "x = Item n" using assms(3) by (rule task_item_is_Item)
  note e = vListInsertEnd_eq[OF lists_okD(4)[OF assms(1,2)] assms(4)[unfolded n], folded n]
  show ?thesis
    unfolding e before_index_def using insert_after_ok[OF assms(1,2) _ assms(3,4)] by (simp del: last.simps)
qed

lemma insert_sorted_ok:
  assumes "lists_ok h D T L" "l \<in> D" "x \<in> task_items T" "pxContainer h x = None"
  shows "\<exists>h'. vListInsert l x h = Some h' \<and> lists_ok h' D T (L(l := by_value (xItemValue h) x (L l))) \<and>
    pxContainer h' = (pxContainer h)(x := Some l) \<and> xItemValue h' = xItemValue h \<and> pxIndex h' = pxIndex h"
  unfolding vListInsert_eq[OF lists_okD(4)[OF assms(1,2)]] by_value_def
  using insert_after_ok[OF assms(1,2) _ assms(3,4)] by (simp del: last.simps)

lemma list_is_empty_iff:
  assumes "lists_ok h D T L" "l \<in> D"
  shows "listLIST_IS_EMPTY l h \<longleftrightarrow> L l = []"
proof -
  have "is_list h l (L l)" using lists_okD(4)[OF assms] .
  then have "uxNumberOfItems h l = of_nat (length (L l))" "length (L l) < 2 ^ 32" by (simp_all add: is_list_def)
  then show ?thesis
    using of_nat_inverse[of "length (L l)" "uxNumberOfItems h l"] by (auto simp: listLIST_IS_EMPTY_def)
qed

lemma list_length_word:
  assumes "lists_ok h D T L" "l \<in> D"
  shows "unat (listCURRENT_LIST_LENGTH l h) = length (L l)"
  using lists_okD(4)[OF assms] of_nat_inverse[of "length (L l)" "uxNumberOfItems h l"]
  by (simp add: is_list_def listCURRENT_LIST_LENGTH_def)

lemma list_head:
  assumes "lists_ok h D T L" "l \<in> D" "L l \<noteq> []"
  shows "pxNext h (ListEnd l) = hd (L l)"
  using next_prev_at(1)[of h l "[]" "L l"] lists_okD(4)[OF assms(1,2)] assms(3) by (simp add: hd_append)

lemma set_value_ok:
  assumes "lists_ok h D T L" "x \<in> task_items T"
  shows "lists_ok (listSET_LIST_ITEM_VALUE x v h) D T L"
proof -
  have "is_list (listSET_LIST_ITEM_VALUE x v h) l (L l)" if "l \<in> D" for l
    using task_item_is_Item[OF assms(2)] by (intro is_list_cong[OF lists_okD(4)[OF assms(1) that]])
      (auto simp: listSET_LIST_ITEM_VALUE_def)
  with assms(1) show ?thesis by (simp add: lists_ok_def heap_lists_def listSET_LIST_ITEM_VALUE_def)
qed

subsection \<open>The invariant\<close>

abbreviation kernel_lists :: "nat set \<Rightarrow> nat set" where
  "kernel_lists E \<equiv> {..<10} \<union> E"

abbreviation state_list :: "kernel \<Rightarrow> nat \<Rightarrow> nat option" where
  "state_list k t \<equiv> pxContainer (lists k) (xStateListItem t)"

abbreviation event_list :: "kernel \<Rightarrow> nat \<Rightarrow> nat option" where
  "event_list k t \<equiv> pxContainer (lists k) (xEventListItem t)"

abbreviation wake_time :: "kernel \<Rightarrow> nat \<Rightarrow> u32" where
  "wake_time k t \<equiv> xItemValue (lists k) (xStateListItem t)"

abbreviation prio :: "kernel \<Rightarrow> nat \<Rightarrow> nat" where
  "prio k t \<equiv> uxPriority (tcbs k t)"

text \<open>
  A task is in a state list, and in a ready list only that of its priority and not above the recorded top
  priority; event items are in event lists or in the pending list.
\<close>

definition sched_ok :: "kernel \<Rightarrow> nat set \<Rightarrow> nat set \<Rightarrow> bool" where
  "sched_ok k E T \<longleftrightarrow>
     E \<inter> {..<10} = {} \<and> uxTopReadyPriority k < 5 \<and>
     (pxDelayedTaskList k = 5 \<and> pxOverflowDelayedTaskList k = 6 \<or>
      pxDelayedTaskList k = 6 \<and> pxOverflowDelayedTaskList k = 5) \<and>
     (\<exists>c \<in> T. pxCurrentTCB k = Some c) \<and> (\<forall>t \<in> T. prio k t < 5) \<and>
     (\<forall>t \<in> T. \<forall>l. state_list k t = Some l \<longrightarrow>
        l < 10 \<and> l \<noteq> 7 \<and> (l < 5 \<longrightarrow> l = prio k t \<and> l \<le> uxTopReadyPriority k)) \<and>
     (\<forall>t \<in> T. \<forall>l. event_list k t = Some l \<longrightarrow> l \<in> insert 7 E)"

text \<open>The delayed lists are in the order of the wake times.\<close>

definition sorted_ok :: "kernel \<Rightarrow> (nat \<Rightarrow> list_item list) \<Rightarrow> bool" where
  "sorted_ok k L \<longleftrightarrow> sorted (map (xItemValue (lists k)) (L 5)) \<and> sorted (map (xItemValue (lists k)) (L 6))"

text \<open>
  Wake times in the delayed list lie ahead and are not before the time of the next unblocking; those in
  the overflow list come after the next wrap of the tick counter.
\<close>

definition time_ok :: "kernel \<Rightarrow> nat set \<Rightarrow> bool" where
  "time_ok k T \<longleftrightarrow> (\<forall>t \<in> T.
     (state_list k t = Some (pxDelayedTaskList k) \<longrightarrow>
        xTickCount k < wake_time k t \<and> xNextTaskUnblockTime k \<le> wake_time k t) \<and>
     (state_list k t = Some (pxOverflowDelayedTaskList k) \<longrightarrow> wake_time k t < xTickCount k))"

definition struct_ok :: "kernel \<Rightarrow> nat set \<Rightarrow> nat set \<Rightarrow> (nat \<Rightarrow> list_item list) \<Rightarrow> bool" where
  "struct_ok k E T L \<longleftrightarrow> lists_ok (lists k) (kernel_lists E) T L \<and> sorted_ok k L \<and> sched_ok k E T"

definition kernel_ok :: "kernel \<Rightarrow> nat set \<Rightarrow> nat set \<Rightarrow> bool" where
  "kernel_ok k E T \<longleftrightarrow> (\<exists>L. struct_ok k E T L) \<and> time_ok k T"

lemma struct_okD:
  assumes "struct_ok k E T L"
  shows "lists_ok (lists k) (kernel_lists E) T L" "sorted_ok k L" "sched_ok k E T"
  using assms by (simp_all add: struct_ok_def)

lemma sched_okD:
  assumes "sched_ok k E T"
  shows "pxDelayedTaskList k \<in> {5, 6}" "pxOverflowDelayedTaskList k \<in> {5, 6}"
    and "pxDelayedTaskList k \<noteq> pxOverflowDelayedTaskList k"
    and "t \<in> T \<Longrightarrow> prio k t < 5" and "uxTopReadyPriority k < 5"
    and "t \<in> T \<Longrightarrow> state_list k t = Some l \<Longrightarrow> l < 10"
    and "t \<in> T \<Longrightarrow> state_list k t = Some l \<Longrightarrow> l < 5 \<Longrightarrow> l = prio k t \<and> l \<le> uxTopReadyPriority k"
    and "t \<in> T \<Longrightarrow> event_list k t = Some l \<Longrightarrow> l \<in> insert 7 E"
  using assms by (auto simp: sched_ok_def)

lemma current_ok:
  assumes "sched_ok k E T"
  obtains c where "c \<in> T" "pxCurrentTCB k = Some c" "current k = Inr c" "current_priority k = Inr (prio k c)"
  using assms by (auto simp: sched_ok_def current_def current_priority_def)

lemma kernel_lists_simps [simp]:
  "l < 10 \<Longrightarrow> l \<in> kernel_lists E" "l < 5 \<Longrightarrow> l \<in> kernel_lists E" "l \<in> {5, 6} \<Longrightarrow> l \<in> kernel_lists E"
  by auto

subsection \<open>Primitive operations on the kernel\<close>

lemma sorted_ok_remove:
  "sorted_ok k L \<Longrightarrow> xItemValue h = xItemValue (lists k) \<Longrightarrow> sorted_ok (k\<lparr>lists := h\<rparr>) (L(l := remove1 x (L l)))"
  by (auto simp: sorted_ok_def sorted_map_remove1)

lemma sorted_ok_other:
  "sorted_ok k L \<Longrightarrow> xItemValue h = xItemValue (lists k) \<Longrightarrow> l \<notin> {5, 6} \<Longrightarrow> sorted_ok (k\<lparr>lists := h\<rparr>) (L(l := xs))"
  by (auto simp: sorted_ok_def)

lemma list_remove_kernel:
  assumes ok: "struct_ok k E T L" and "pxContainer (lists k) x = Some l" "x \<in> task_items T"
  shows "\<exists>h. list_remove x k = Inr (of_nat (length (L l) - 1), k\<lparr>lists := h\<rparr>) \<and> remove_item x k = Inr (k\<lparr>lists := h\<rparr>) \<and>
    struct_ok (k\<lparr>lists := h\<rparr>) E T (L(l := remove1 x (L l))) \<and>
    pxContainer h = (pxContainer (lists k))(x := None) \<and> xItemValue h = xItemValue (lists k)"
proof -
  obtain h where h: "uxListRemove x (lists k) = Some (of_nat (length (L l) - 1), h)"
      "lists_ok h (kernel_lists E) T (L(l := remove1 x (L l)))" "pxContainer h = (pxContainer (lists k))(x := None)"
      "xItemValue h = xItemValue (lists k)"
    using list_remove_ok[OF struct_okD(1)[OF ok] assms(2)] by blast
  have "sched_ok (k\<lparr>lists := h\<rparr>) E T" using struct_okD(3)[OF ok] by (simp add: sched_ok_def h(3))
  with h sorted_ok_remove[OF struct_okD(2)[OF ok] h(4)] show ?thesis
    by (intro exI[of _ h]) (simp add: list_remove_def remove_item_def list_inline_variants struct_ok_def)
qed

lemma add_ready_kernel:
  assumes ok: "struct_ok k E T L" and t: "t \<in> T" "state_list k t = None"
  shows "\<exists>h u L'. prvAddTaskToReadyList t k = k\<lparr>lists := h, uxTopReadyPriority := u\<rparr> \<and>
    struct_ok (k\<lparr>lists := h, uxTopReadyPriority := u\<rparr>) E T L' \<and> (\<forall>l. l \<ge> 5 \<longrightarrow> L' l = L l) \<and>
    pxContainer h = (pxContainer (lists k))(xStateListItem t := Some (prio k t)) \<and> xItemValue h = xItemValue (lists k)"
proof -
  note s = struct_okD[OF ok]
  let ?p = "prio k t" and ?x = "xStateListItem t"
  define h where "h = vListInsertEnd ?p ?x (lists k)"
  define u where "u = max ?p (uxTopReadyPriority k)"
  define L' where "L' = L(?p := before_index (pxIndex (lists k) ?p) ?x (L ?p))"
  have p: "?p < 5" using sched_okD(4)[OF s(3) t(1)] .
  have h: "lists_ok h (kernel_lists E) T L'" "pxContainer h = (pxContainer (lists k))(?x := Some ?p)"
      "xItemValue h = xItemValue (lists k)"
    using insert_end_ok[OF s(1), of ?p ?x] p t by (simp_all add: h_def L'_def)
  have "prvAddTaskToReadyList t k = k\<lparr>lists := h, uxTopReadyPriority := u\<rparr>"
    by (auto simp: prvAddTaskToReadyList_def taskRECORD_READY_PRIORITY_def insert_end_def list_inline_variants
        h_def u_def max_def Let_def)
  moreover have "sorted_ok (k\<lparr>lists := h, uxTopReadyPriority := u\<rparr>) L'"
    using s(2) p h(3) by (auto simp: sorted_ok_def L'_def)
  moreover have "sched_ok (k\<lparr>lists := h, uxTopReadyPriority := u\<rparr>) E T"
    using s(3) p by (auto simp: sched_ok_def h(2) u_def le_max_iff_disj)
  ultimately show ?thesis using h p by (intro exI[of _ h] exI[of _ u] exI[of _ L']) (auto simp: struct_ok_def L'_def)
qed

end
