(* ===== verification/Rtos_Timer_Props.thy ===== *)
theory Rtos_Timer_Props
  imports Rtos_Timers Rtos_Task_Inv
begin

section \<open>Software timers across the wrap of the tick counter\<close>

text \<open>
  When the daemon task notices that the tick counter has wrapped, every timer in the list of the old
  round is overdue. The lemmas below show how often a timer is called when it is reloaded, that the
  loops of \<open>prvReloadTimer\<close> and \<open>prvSwitchTimerLists\<close> end, and where the next expiry is entered.
\<close>

subsection \<open>Times\<close>

lemma expired_iff:
  fixes E P N :: u32
  shows "(if E + P \<le> N then P \<le> N - E else N < E \<and> E \<le> E + P) \<longleftrightarrow> P \<le> N - E"
  by unat_arith

subsection \<open>Lists of timers\<close>

abbreviation expiry :: "timers \<Rightarrow> u32 \<Rightarrow> u32" where
  "expiry m t \<equiv> xItemValue (timer_lists m) (xTimerListItem t)"

definition timers_ok :: "timers \<Rightarrow> u32 list \<Rightarrow> u32 list \<Rightarrow> bool" where
  "timers_ok m xs ys \<longleftrightarrow>
     pxCurrentTimerList m \<noteq> pxOverflowTimerList m \<and>
     is_list (timer_lists m) (pxCurrentTimerList m) (map xTimerListItem xs) \<and>
     is_list (timer_lists m) (pxOverflowTimerList m) (map xTimerListItem ys) \<and>
     sorted (map (expiry m) xs) \<and> sorted (map (expiry m) ys) \<and>
     (\<forall>t. t \<notin> set xs \<union> set ys \<longrightarrow> pxContainer (timer_lists m) (xTimerListItem t) = None) \<and>
     (\<forall>t \<in> set xs \<union> set ys. t \<noteq> 0 \<and> pvOwner (timer_lists m) (xTimerListItem t) = unat t \<and>
        xTimerPeriodInTicks (timer_at m t) \<noteq> 0)"

text \<open>Where a timer goes among others that are in the order of their expiry.\<close>

definition by_expiry :: "timers \<Rightarrow> u32 \<Rightarrow> u32 list \<Rightarrow> u32 list" where
  "by_expiry m t ts = takeWhile (\<lambda>u. expiry m u \<le> expiry m t) ts @ t # dropWhile (\<lambda>u. expiry m u \<le> expiry m t) ts"

lemma timer_item_eq [simp]: "xTimerListItem t = xTimerListItem u \<longleftrightarrow> t = u"
  by (simp add: xTimerListItem_def word_unat_eq_iff)

lemma timer_item_inj: "inj_on xTimerListItem A"
  by (simp add: inj_on_def)

lemma set_by_expiry [simp]: "set (by_expiry m t ts) = insert t (set ts)"
  unfolding by_expiry_def set_append list.set by (metis Un_insert_right set_append takeWhile_dropWhile_id)

lemma by_expiry_sorted: "sorted (map (expiry m) ts) \<Longrightarrow> sorted (map (expiry m) (by_expiry m t ts))"
  unfolding by_expiry_def using sorted_insert[of "expiry m" ts t] by simp

lemma by_expiry_cong:
  "(\<And>u. u \<in> insert t (set ts) \<Longrightarrow> expiry m' u = expiry m u) \<Longrightarrow> by_expiry m' t ts = by_expiry m t ts"
  unfolding by_expiry_def by (intro arg_cong2[where f = append] arg_cong[where f = "(#) t"] takeWhile_cong dropWhile_cong) auto

lemma timer_room:
  assumes "distinct ts" "0 \<notin> set ts" "t \<notin> set ts" "t \<noteq> (0 :: u32)"
  shows "Suc (length ts) < 2 ^ 32"
proof -
  have "length (0 # t # ts) = card (set (0 # t # ts))" using assms by (simp add: distinct_card)
  also have "\<dots> \<le> card (UNIV :: u32 set)" by (intro card_mono) auto
  finally show ?thesis by (simp add: card_word)
qed

text \<open>Setting the expiry of a timer that is in no list.\<close>

lemma set_expiry_ok:
  fixes v
  assumes ok: "timers_ok m xs ys" and t: "t \<notin> set xs \<union> set ys"
  defines "m' \<equiv> m\<lparr>timer_lists := listSET_LIST_ITEM_OWNER (xTimerListItem t) (unat t)
    (listSET_LIST_ITEM_VALUE (xTimerListItem t) v (timer_lists m))\<rparr>"
  shows "timers_ok m' xs ys" "expiry m' t = v" "\<And>u. u \<noteq> t \<Longrightarrow> expiry m' u = expiry m u"
    "pvOwner (timer_lists m') (xTimerListItem t) = unat t"
proof -
  show e: "expiry m' t = v" "\<And>u. u \<noteq> t \<Longrightarrow> expiry m' u = expiry m u" "pvOwner (timer_lists m') (xTimerListItem t) = unat t"
    by (simp_all add: m'_def listSET_LIST_ITEM_OWNER_def listSET_LIST_ITEM_VALUE_def)
  have il: "is_list (timer_lists m') l ts" if "is_list (timer_lists m) l ts" for l ts
    by (rule is_list_cong[OF that]) (auto simp: m'_def listSET_LIST_ITEM_OWNER_def listSET_LIST_ITEM_VALUE_def xTimerListItem_def)
  have mc: "map (expiry m') ts = map (expiry m) ts" if "t \<notin> set ts" for ts
    by (rule map_cong[OF refl]) (use that e(2) in metis)
  have "t \<notin> set xs" "t \<notin> set ys" using t by simp_all
  then have "sorted (map (expiry m') xs)" "sorted (map (expiry m') ys)" unfolding mc[OF \<open>t \<notin> set xs\<close>] mc[OF \<open>t \<notin> set ys\<close>]
    using ok by (simp_all add: timers_ok_def)
  moreover have "pxCurrentTimerList m' = pxCurrentTimerList m" "pxOverflowTimerList m' = pxOverflowTimerList m" "timer_at m' = timer_at m"
    "pxContainer (timer_lists m') = pxContainer (timer_lists m)"
    "pvOwner (timer_lists m') = (pvOwner (timer_lists m))(xTimerListItem t := unat t)"
    by (simp_all add: m'_def listSET_LIST_ITEM_OWNER_def listSET_LIST_ITEM_VALUE_def)
  ultimately show "timers_ok m' xs ys" using ok t il by (simp add: timers_ok_def)
qed

lemma insert_list_ok:
  assumes l: "is_list (timer_lists m) l (map xTimerListItem ts)" and l': "is_list (timer_lists m) l' (map xTimerListItem us)" "l' \<noteq> l"
    and t: "pxContainer (timer_lists m) (xTimerListItem t) = None" "t \<noteq> 0" "0 \<notin> set ts"
  shows "\<exists>m'. insert_timer l t m = Inr m' \<and> is_list (timer_lists m') l (map xTimerListItem (by_expiry m t ts)) \<and>
    is_list (timer_lists m') l' (map xTimerListItem us) \<and> xItemValue (timer_lists m') = xItemValue (timer_lists m) \<and>
    pxContainer (timer_lists m') = (pxContainer (timer_lists m))(xTimerListItem t := Some l) \<and>
    pvOwner (timer_lists m') = pvOwner (timer_lists m) \<and> (\<exists>h. m' = m\<lparr>timer_lists := h\<rparr>)"
proof -
  let ?h = "timer_lists m" and ?P = "\<lambda>u. expiry m u \<le> expiry m t"
  let ?xs = "map xTimerListItem (takeWhile ?P ts)" and ?ys = "map xTimerListItem (dropWhile ?P ts)"
  let ?h' = "list_insert_after l (last (ListEnd l # ?xs)) (xTimerListItem t) ?h"
  have tw: "takeWhile (\<lambda>x. xItemValue ?h x \<le> expiry m t) (map xTimerListItem ts) = ?xs"
    by (simp add: takeWhile_map comp_def)
  have nt: "t \<notin> set ts" using l t(1) by (auto simp: is_list_def)
  have "distinct ts" using l by (simp add: is_list_def distinct_map)
  then have room: "Suc (length (map xTimerListItem ts)) < 2 ^ 32" using timer_room[of ts t] nt t(2,3) by simp
  define L where "L = (\<lambda>k. if k = l then map xTimerListItem ts else map xTimerListItem us)"
  have hl: "heap_lists ?h {l, l'} L" using l l' by (auto simp: heap_lists_def L_def)
  have "L l = ?xs @ ?ys" "l \<in> {l, l'}" by (simp_all add: L_def map_append[symmetric] del: map_append)
  from insert_after_lists[OF hl this(2,1) refl, where n = "unat t", folded xTimerListItem_def, OF t(1)]
  have "heap_lists ?h' {l, l'} (L(l := ?xs @ xTimerListItem t # ?ys))"
    using room by (simp add: L_def del: last.simps)
  then have "is_list ?h' l (map xTimerListItem (by_expiry m t ts))" "is_list ?h' l' (map xTimerListItem us)"
    using l'(2) by (auto simp: heap_lists_def L_def by_expiry_def)
  then show ?thesis
    by (intro exI[of _ "m\<lparr>timer_lists := ?h'\<rparr>"])
       (auto simp: insert_timer_def vListInsert_eq[OF l] tw simp del: last.simps)
qed

lemma insert_overflow_ok:
  assumes ok: "timers_ok m xs ys" and t: "t \<notin> set xs \<union> set ys" "t \<noteq> 0" "pvOwner (timer_lists m) (xTimerListItem t) = unat t"
    "xTimerPeriodInTicks (timer_at m t) \<noteq> 0"
  shows "\<exists>h. insert_timer (pxOverflowTimerList m) t m = Inr (m\<lparr>timer_lists := h\<rparr>) \<and>
    timers_ok (m\<lparr>timer_lists := h\<rparr>) xs (by_expiry m t ys) \<and> xItemValue h = xItemValue (timer_lists m)"
proof -
  note o = ok[unfolded timers_ok_def]
  have c: "pxContainer (timer_lists m) (xTimerListItem t) = None" "0 \<notin> set ys" using o t(1) by auto
  obtain h where h: "insert_timer (pxOverflowTimerList m) t m = Inr (m\<lparr>timer_lists := h\<rparr>)"
      "is_list h (pxOverflowTimerList m) (map xTimerListItem (by_expiry m t ys))"
      "is_list h (pxCurrentTimerList m) (map xTimerListItem xs)" "xItemValue h = xItemValue (timer_lists m)"
      "pxContainer h = (pxContainer (timer_lists m))(xTimerListItem t := Some (pxOverflowTimerList m))"
      "pvOwner h = pvOwner (timer_lists m)"
    using insert_list_ok[of m "pxOverflowTimerList m" ys "pxCurrentTimerList m" xs t] o c t(2) by auto
  have "timers_ok (m\<lparr>timer_lists := h\<rparr>) xs (by_expiry m t ys)"
    using o h t by_expiry_sorted[of m ys t] by (auto simp: timers_ok_def)
  with h(1,4) show ?thesis by blast
qed

lemma insert_current_ok:
  assumes ok: "timers_ok m xs ys" and t: "t \<notin> set xs \<union> set ys" "t \<noteq> 0" "pvOwner (timer_lists m) (xTimerListItem t) = unat t"
    "xTimerPeriodInTicks (timer_at m t) \<noteq> 0"
  shows "\<exists>h. insert_timer (pxCurrentTimerList m) t m = Inr (m\<lparr>timer_lists := h\<rparr>) \<and>
    timers_ok (m\<lparr>timer_lists := h\<rparr>) (by_expiry m t xs) ys \<and> xItemValue h = xItemValue (timer_lists m)"
proof -
  note o = ok[unfolded timers_ok_def]
  have c: "pxContainer (timer_lists m) (xTimerListItem t) = None" "0 \<notin> set xs" using o t(1) by auto
  obtain h where h: "insert_timer (pxCurrentTimerList m) t m = Inr (m\<lparr>timer_lists := h\<rparr>)"
      "is_list h (pxCurrentTimerList m) (map xTimerListItem (by_expiry m t xs))"
      "is_list h (pxOverflowTimerList m) (map xTimerListItem ys)" "xItemValue h = xItemValue (timer_lists m)"
      "pxContainer h = (pxContainer (timer_lists m))(xTimerListItem t := Some (pxCurrentTimerList m))"
      "pvOwner h = pvOwner (timer_lists m)"
    using insert_list_ok[of m "pxCurrentTimerList m" xs "pxOverflowTimerList m" ys t] o c t(2) by auto
  have "timers_ok (m\<lparr>timer_lists := h\<rparr>) (by_expiry m t xs) ys"
    using o h t by_expiry_sorted[of m xs t] by (auto simp: timers_ok_def)
  with h(1,4) show ?thesis by blast
qed

subsection \<open>Reloading a timer\<close>

lemma insert_active_ok:
  fixes E P N :: u32
  assumes ok: "timers_ok m xs ys" and t: "t \<notin> set xs \<union> set ys" "t \<noteq> 0" and P: "P = xTimerPeriodInTicks (timer_at m t)" "P \<noteq> 0"
  shows "\<exists>h. prvInsertTimerInActiveList t (E + P) N E m = Inr (P \<le> N - E, m\<lparr>timer_lists := h\<rparr>) \<and>
    xItemValue h (xTimerListItem t) = E + P \<and> (\<forall>u. u \<noteq> t \<longrightarrow> xItemValue h (xTimerListItem u) = expiry m u) \<and>
    (if P \<le> N - E then timers_ok (m\<lparr>timer_lists := h\<rparr>) xs ys
     else if E + P \<le> N then timers_ok (m\<lparr>timer_lists := h\<rparr>) xs (by_expiry (m\<lparr>timer_lists := h\<rparr>) t ys)
     else timers_ok (m\<lparr>timer_lists := h\<rparr>) (by_expiry (m\<lparr>timer_lists := h\<rparr>) t xs) ys)"
proof -
  define h1 where "h1 = listSET_LIST_ITEM_OWNER (xTimerListItem t) (unat t)
    (listSET_LIST_ITEM_VALUE (xTimerListItem t) (E + P) (timer_lists m))"
  let ?m = "m\<lparr>timer_lists := h1\<rparr>"
  have m1: "timers_ok ?m xs ys" "expiry ?m t = E + P" "\<And>u. u \<noteq> t \<Longrightarrow> expiry ?m u = expiry m u"
    "pvOwner (timer_lists ?m) (xTimerListItem t) = unat t" "xTimerPeriodInTicks (timer_at ?m t) \<noteq> 0"
    unfolding h1_def using set_expiry_ok(1,2,4)[OF ok t(1), of "E + P"] set_expiry_ok(3)[OF ok t(1), where v = "E + P"] P
    by simp_all
  have eq: "prvInsertTimerInActiveList t (E + P) N E m =
    (if P \<le> N - E then Inr (True, ?m)
     else if E + P \<le> N then res_bind (insert_timer (pxOverflowTimerList ?m) t ?m) (\<lambda>m. Inr (False, m))
     else res_bind (insert_timer (pxCurrentTimerList ?m) t ?m) (\<lambda>m. Inr (False, m)))"
    using expired_iff[of E P N] by (cases "E + P \<le> N"; cases "P \<le> N - E")
      (auto simp add: prvInsertTimerInActiveList_def Let_def h1_def P(1)[symmetric])
  consider (now) "P \<le> N - E" | (later) "\<not> P \<le> N - E" "E + P \<le> N" | (soon) "\<not> P \<le> N - E" "\<not> E + P \<le> N" by blast
  then show ?thesis
  proof cases
    case now
    with eq m1 show ?thesis by (intro exI[of _ h1]) simp
  next
    case later
    obtain h where h: "insert_timer (pxOverflowTimerList ?m) t ?m = Inr (?m\<lparr>timer_lists := h\<rparr>)"
        "timers_ok (?m\<lparr>timer_lists := h\<rparr>) xs (by_expiry ?m t ys)" "xItemValue h = xItemValue (timer_lists ?m)"
      using insert_overflow_ok[OF m1(1) t m1(4,5)] by blast
    have "by_expiry (m\<lparr>timer_lists := h\<rparr>) t ys = by_expiry ?m t ys" using h(3) by (intro by_expiry_cong) simp
    with later eq m1(2,3) h show ?thesis by (intro exI[of _ h]) simp
  next
    case soon
    obtain h where h: "insert_timer (pxCurrentTimerList ?m) t ?m = Inr (?m\<lparr>timer_lists := h\<rparr>)"
        "timers_ok (?m\<lparr>timer_lists := h\<rparr>) (by_expiry ?m t xs) ys" "xItemValue h = xItemValue (timer_lists ?m)"
      using insert_current_ok[OF m1(1) t m1(4,5)] by blast
    have "by_expiry (m\<lparr>timer_lists := h\<rparr>) t xs = by_expiry ?m t xs" using h(3) by (intro by_expiry_cong) simp
    with soon eq m1(2,3) h show ?thesis by (intro exI[of _ h]) simp
  qed
qed

text \<open>What reloading changes: the expiry and the place of the timer, and the record of the calls.\<close>

definition reloaded :: "u32 \<Rightarrow> timers \<Rightarrow> timers \<Rightarrow> bool" where
  "reloaded t m m' \<longleftrightarrow>
     timer_at m' = timer_at m \<and> pxCurrentTimerList m' = pxCurrentTimerList m \<and>
     pxOverflowTimerList m' = pxOverflowTimerList m \<and> (\<forall>u. u \<noteq> t \<longrightarrow> expiry m' u = expiry m u)"

lemma reload_loop_ok:
  fixes E P N :: u32
  assumes "timers_ok m xs ys" and "t \<notin> set xs \<union> set ys" "t \<noteq> 0" and "P = xTimerPeriodInTicks (timer_at m t)" "P \<noteq> 0"
    and "\<And>s. \<exists>s'. cb (pxCallbackFunction (timer_at m t)) t 0 s = Inr s'"
  shows "\<exists>m' s'. reload_loop cb t E N (m, s) = Some (Inr (m', s')) \<and> reloaded t m m' \<and>
    expired m' = expired m @ replicate (unat (N - E) div unat P) t \<and>
    expiry m' t = E + of_nat (Suc (unat (N - E) div unat P)) * P \<and>
    (if expiry m' t \<le> N then timers_ok m' xs (by_expiry m' t ys) else timers_ok m' (by_expiry m' t xs) ys)"
  using assms
proof (induction "unat (N - E)" arbitrary: E m s rule: less_induct)
  case less
  note t = less.prems(2,3) and P = less.prems(4,5)
  obtain h where h: "prvInsertTimerInActiveList t (E + P) N E m = Inr (P \<le> N - E, m\<lparr>timer_lists := h\<rparr>)"
      "xItemValue h (xTimerListItem t) = E + P" "\<forall>u. u \<noteq> t \<longrightarrow> xItemValue h (xTimerListItem u) = expiry m u"
      "if P \<le> N - E then timers_ok (m\<lparr>timer_lists := h\<rparr>) xs ys
       else if E + P \<le> N then timers_ok (m\<lparr>timer_lists := h\<rparr>) xs (by_expiry (m\<lparr>timer_lists := h\<rparr>) t ys)
       else timers_ok (m\<lparr>timer_lists := h\<rparr>) (by_expiry (m\<lparr>timer_lists := h\<rparr>) t xs) ys"
    using insert_active_ok[OF less.prems(1) t P, of E N] by blast
  show ?case
  proof (cases "P \<le> N - E")
    case False
    then have "unat (N - E) div unat P = 0" by (simp add: word_less_nat_alt not_le)
    with False h P(1) show ?thesis
      by (subst reload_loop.simps) (simp add: reloaded_def split: if_splits)
  next
    case True
    let ?m = "m\<lparr>timer_lists := h, expired := expired m @ [t]\<rparr>"
    have ok: "timers_ok ?m xs ys" using h(4) True by (simp add: timers_ok_def)
    obtain s1 where s1: "cb (pxCallbackFunction (timer_at m t)) t 0 s = Inr s1" using less.prems(6) by blast
    have e: "N - (E + P) = (N - E) - P" by simp
    have u: "unat (N - (E + P)) = unat (N - E) - unat P" unfolding e using True by (simp add: unat_sub)
    have "0 < unat P" "unat P \<le> unat (N - E)" using P(2) True by (simp_all add: unat_gt_0 word_le_nat_alt)
    then have d: "unat (N - (E + P)) < unat (N - E)" "unat (N - E) div unat P = Suc (unat (N - (E + P)) div unat P)"
      using u by (simp_all add: div_if)
    obtain m' s' where m': "reload_loop cb t (E + P) N (?m, s1) = Some (Inr (m', s'))" "reloaded t ?m m'"
        "expired m' = expired ?m @ replicate (unat (N - (E + P)) div unat P) t"
        "expiry m' t = E + P + of_nat (Suc (unat (N - (E + P)) div unat P)) * P"
        "if expiry m' t \<le> N then timers_ok m' xs (by_expiry m' t ys) else timers_ok m' (by_expiry m' t xs) ys"
      using less.hyps[OF d(1) ok t, of s1] P less.prems(6) by auto
    have "reload_loop cb t E N (m, s) = Some (Inr (m', s'))"
      using h(1) P(1) True s1 m'(1) by (subst reload_loop.simps) (simp add: call_timer_def)
    moreover have "reloaded t m m'" using m'(2) h(3) by (simp add: reloaded_def)
    ultimately show ?thesis using m'(3-5) d(2) by (simp add: algebra_simps)
  qed
qed

subsection \<open>Switching the lists\<close>

lemma remove_head_ok:
  assumes ok: "timers_ok m (t # xs) ys"
  shows "\<exists>h. remove_timer t m = Inr (m\<lparr>timer_lists := h\<rparr>) \<and> timers_ok (m\<lparr>timer_lists := h\<rparr>) xs ys \<and>
    xItemValue h = xItemValue (timer_lists m)"
    "t \<notin> set xs \<union> set ys" "t \<noteq> 0"
    "of_nat (listGET_OWNER_OF_HEAD_ENTRY (pxCurrentTimerList m) (timer_lists m)) = t"
    "listGET_ITEM_VALUE_OF_HEAD_ENTRY (pxCurrentTimerList m) (timer_lists m) = expiry m t"
    "\<not> listLIST_IS_EMPTY (pxCurrentTimerList m) (timer_lists m)"
proof -
  note o = ok[unfolded timers_ok_def]
  let ?c = "pxCurrentTimerList m" and ?h = "timer_lists m"
  have il: "is_list ?h ?c ([] @ xTimerListItem t # map xTimerListItem xs)" using o by simp
  have d: "distinct (t # xs)" using o by (auto simp: is_list_def distinct_map)
  have c: "pxContainer ?h (xTimerListItem t) = Some ?c" "\<And>u. u \<in> set ys \<Longrightarrow> pxContainer ?h (xTimerListItem u) = Some (pxOverflowTimerList m)"
    using o by (auto simp: is_list_def)
  then show nt: "t \<notin> set xs \<union> set ys" "t \<noteq> 0" using d o by auto
  have "pxNext ?h (ListEnd ?c) = xTimerListItem t" using next_prev_at(1)[of ?h ?c "[]" "map xTimerListItem (t # xs)"] il by simp
  then show "of_nat (listGET_OWNER_OF_HEAD_ENTRY ?c ?h) = t" "listGET_ITEM_VALUE_OF_HEAD_ENTRY ?c ?h = expiry m t"
    using o by (simp_all add: listGET_OWNER_OF_HEAD_ENTRY_def listGET_ITEM_VALUE_OF_HEAD_ENTRY_def)
  have "uxNumberOfItems ?h ?c = of_nat (Suc (length xs))" "Suc (length xs) < 2 ^ 32" using il by (simp_all add: is_list_def)
  then show "\<not> listLIST_IS_EMPTY ?c ?h"
    using of_nat_inverse[of "Suc (length xs)" "uxNumberOfItems ?h ?c"] by (auto simp: listLIST_IS_EMPTY_def)
  obtain h where h: "uxListRemove (xTimerListItem t) ?h = Some (of_nat (length ([] @ map xTimerListItem xs)), h)"
      "pxContainer h = (pxContainer ?h)(xTimerListItem t := None)" "xItemValue h = xItemValue ?h" "pvOwner h = pvOwner ?h"
    using removed_fields[OF il] by blast
  have "is_list h ?c (map xTimerListItem xs)" using removed_is_list[OF il h(1)] by simp
  moreover have "is_list h (pxOverflowTimerList m) (map xTimerListItem ys)"
    using removed_other[OF il h(1)] o by simp
  ultimately have "timers_ok (m\<lparr>timer_lists := h\<rparr>) xs ys" using o h nt by (auto simp: timers_ok_def)
  with h show "\<exists>h. remove_timer t m = Inr (m\<lparr>timer_lists := h\<rparr>) \<and> timers_ok (m\<lparr>timer_lists := h\<rparr>) xs ys \<and>
    xItemValue h = xItemValue ?h" by (auto simp: remove_timer_def)
qed

text \<open>How often a timer expires before the tick counter wraps.\<close>

abbreviation auto_reload :: "timers \<Rightarrow> u32 \<Rightarrow> bool" where
  "auto_reload m t \<equiv> has_status t tmrSTATUS_IS_AUTORELOAD m"

definition overdue_calls :: "timers \<Rightarrow> u32 \<Rightarrow> nat" where
  "overdue_calls m t =
     Suc (if auto_reload m t then unat (tmrMAX_TIME_BEFORE_OVERFLOW - expiry m t) div unat (xTimerPeriodInTicks (timer_at m t)) else 0)"

text \<open>The timer after its last expiry before the wrap: reloaded, or no longer active.\<close>

definition settled_timer :: "timers \<Rightarrow> timers \<Rightarrow> u32 \<Rightarrow> bool" where
  "settled_timer m m' t \<longleftrightarrow>
     (if auto_reload m t
      then timer_at m' t = timer_at m t \<and>
        expiry m' t = expiry m t + of_nat (overdue_calls m t) * xTimerPeriodInTicks (timer_at m t)
      else timer_at m' t = (timer_at m t)\<lparr>ucStatus := ucStatus (timer_at m t) AND NOT tmrSTATUS_IS_ACTIVE\<rparr>)"

lemma process_expired_ok:
  assumes ok: "timers_ok m (t # xs) ys" and cb: "\<And>s. \<exists>s'. cb (pxCallbackFunction (timer_at m t)) t 0 s = Inr s'"
  shows "\<exists>m' s' ys'. prvProcessExpiredTimer cb (expiry m t) tmrMAX_TIME_BEFORE_OVERFLOW (m, s) = Inr (m', s') \<and>
    timers_ok m' xs ys' \<and> set ys' = (if auto_reload m t then insert t (set ys) else set ys) \<and>
    pxCurrentTimerList m' = pxCurrentTimerList m \<and> pxOverflowTimerList m' = pxOverflowTimerList m \<and>
    expired m' = expired m @ replicate (overdue_calls m t) t \<and> settled_timer m m' t \<and>
    (\<forall>u. u \<noteq> t \<longrightarrow> timer_at m' u = timer_at m u \<and> expiry m' u = expiry m u)"
proof -
  note r = remove_head_ok[OF ok]
  obtain h where h: "remove_timer t m = Inr (m\<lparr>timer_lists := h\<rparr>)" "timers_ok (m\<lparr>timer_lists := h\<rparr>) xs ys"
    "xItemValue h = xItemValue (timer_lists m)" using r(1) by blast
  let ?m = "m\<lparr>timer_lists := h\<rparr>"
  have P: "xTimerPeriodInTicks (timer_at m t) \<noteq> 0" using ok by (simp add: timers_ok_def)
  show ?thesis
  proof (cases "auto_reload m t")
    case True
    have ar: "has_status t tmrSTATUS_IS_AUTORELOAD ?m" using True by (simp add: has_status_def)
    have cb': "\<And>s. \<exists>s'. cb (pxCallbackFunction (timer_at ?m t)) t 0 s = Inr s'" using cb by simp
    obtain m1 s1 where m1: "reload_loop cb t (expiry m t) tmrMAX_TIME_BEFORE_OVERFLOW (?m, s) = Some (Inr (m1, s1))"
        "reloaded t ?m m1" "expired m1 = expired ?m @ replicate (overdue_calls m t - 1) t"
        "expiry m1 t = expiry m t + of_nat (overdue_calls m t) * xTimerPeriodInTicks (timer_at m t)"
        "timers_ok m1 xs (by_expiry m1 t ys)"
      using reload_loop_ok[OF h(2) r(2,3) refl, of cb "expiry m t" tmrMAX_TIME_BEFORE_OVERFLOW s] P cb' True
      by (auto simp: overdue_calls_def tmrMAX_TIME_BEFORE_OVERFLOW_def)
    obtain s2 where "cb (pxCallbackFunction (timer_at m1 t)) t 0 s1 = Inr s2" using cb m1(2) by (auto simp: reloaded_def)
    then have "prvProcessExpiredTimer cb (expiry m t) tmrMAX_TIME_BEFORE_OVERFLOW (m, s) = Inr (m1\<lparr>expired := expired m1 @ [t]\<rparr>, s2)"
      using h(1) r(4) m1(1) ar by (simp add: prvProcessExpiredTimer_def prvReloadTimer_def call_timer_def)
    moreover have "replicate (overdue_calls m t - 1) t @ [t] = replicate (overdue_calls m t) t"
      by (simp add: overdue_calls_def replicate_append_same)
    ultimately show ?thesis using m1 True h(3)
      by (intro exI[of _ "m1\<lparr>expired := expired m1 @ [t]\<rparr>"] exI[of _ s2] exI[of _ "by_expiry m1 t ys"])
         (auto simp: reloaded_def timers_ok_def settled_timer_def)
  next
    case False
    have ar: "\<not> has_status t tmrSTATUS_IS_AUTORELOAD ?m" using False by (simp add: has_status_def)
    let ?m' = "(clear_status t tmrSTATUS_IS_ACTIVE ?m)\<lparr>expired := expired m @ [t]\<rparr>"
    obtain s1 where "cb (pxCallbackFunction (timer_at m t)) t 0 s = Inr s1" using cb by blast
    then have "prvProcessExpiredTimer cb (expiry m t) tmrMAX_TIME_BEFORE_OVERFLOW (m, s) = Inr (?m', s1)"
      using h(1) r(4) ar by (simp add: prvProcessExpiredTimer_def call_timer_def clear_status_def upd_timer_def)
    moreover have "timers_ok ?m' xs ys" using h(2) by (simp add: timers_ok_def clear_status_def upd_timer_def)
    ultimately show ?thesis using False h(3)
      by (intro exI[of _ ?m'] exI[of _ s1] exI[of _ ys])
         (simp add: overdue_calls_def settled_timer_def clear_status_def upd_timer_def)
  qed
qed

lemma expire_all_ok:
  assumes "timers_ok m xs ys" and "\<And>t s. t \<in> set xs \<Longrightarrow> \<exists>s'. cb (pxCallbackFunction (timer_at m t)) t 0 s = Inr s'"
  shows "\<exists>m' s' ys'. expire_all cb (m, s) = Some (Inr (m', s')) \<and> timers_ok m' [] ys' \<and>
    set ys' = set ys \<union> {t \<in> set xs. auto_reload m t} \<and>
    pxCurrentTimerList m' = pxCurrentTimerList m \<and> pxOverflowTimerList m' = pxOverflowTimerList m \<and>
    expired m' = expired m @ concat (map (\<lambda>t. replicate (overdue_calls m t) t) xs) \<and> (\<forall>t \<in> set xs. settled_timer m m' t) \<and>
    (\<forall>u. u \<notin> set xs \<longrightarrow> timer_at m' u = timer_at m u \<and> expiry m' u = expiry m u)"
  using assms
proof (induction xs arbitrary: m ys s)
  case Nil
  then have "is_list (timer_lists m) (pxCurrentTimerList m) []" by (simp add: timers_ok_def)
  then have "listLIST_IS_EMPTY (pxCurrentTimerList m) (timer_lists m)" by (simp add: is_list_def listLIST_IS_EMPTY_def)
  with Nil show ?case by (subst expire_all.simps) auto
next
  case (Cons t xs)
  note r = remove_head_ok[OF Cons.prems(1)]
  have cb: "\<And>s. \<exists>s'. cb (pxCallbackFunction (timer_at m t)) t 0 s = Inr s'" using Cons.prems(2) by simp
  obtain m1 s1 ys1 where m1: "prvProcessExpiredTimer cb (expiry m t) tmrMAX_TIME_BEFORE_OVERFLOW (m, s) = Inr (m1, s1)"
      "timers_ok m1 xs ys1" "set ys1 = (if auto_reload m t then insert t (set ys) else set ys)"
      "pxCurrentTimerList m1 = pxCurrentTimerList m" "pxOverflowTimerList m1 = pxOverflowTimerList m"
      "expired m1 = expired m @ replicate (overdue_calls m t) t" "settled_timer m m1 t"
      "\<forall>u. u \<noteq> t \<longrightarrow> timer_at m1 u = timer_at m u \<and> expiry m1 u = expiry m u"
    using process_expired_ok[OF Cons.prems(1), of cb s, OF cb] by blast
  have same: "timer_at m1 u = timer_at m u" "expiry m1 u = expiry m u" "auto_reload m1 u = auto_reload m u"
      "overdue_calls m1 u = overdue_calls m u" if "u \<in> set xs" for u
  proof -
    have "u \<noteq> t" using r(2) that by auto
    then show "timer_at m1 u = timer_at m u" "expiry m1 u = expiry m u" using m1(8) by auto
    then show "auto_reload m1 u = auto_reload m u" "overdue_calls m1 u = overdue_calls m u"
      by (simp_all add: has_status_def overdue_calls_def)
  qed
  have "\<And>u s. u \<in> set xs \<Longrightarrow> \<exists>s'. cb (pxCallbackFunction (timer_at m1 u)) u 0 s = Inr s'"
    using Cons.prems(2) same(1) by auto
  from Cons.IH[OF m1(2) this, of s1] obtain m2 s2 ys2 where m2: "expire_all cb (m1, s1) = Some (Inr (m2, s2))" "timers_ok m2 [] ys2"
      "set ys2 = set ys1 \<union> {u \<in> set xs. auto_reload m1 u}" "pxCurrentTimerList m2 = pxCurrentTimerList m1"
      "pxOverflowTimerList m2 = pxOverflowTimerList m1"
      "expired m2 = expired m1 @ concat (map (\<lambda>u. replicate (overdue_calls m1 u) u) xs)" "\<forall>u \<in> set xs. settled_timer m1 m2 u"
      "\<forall>u. u \<notin> set xs \<longrightarrow> timer_at m2 u = timer_at m1 u \<and> expiry m2 u = expiry m1 u" by auto
  have run: "expire_all cb (m, s) = Some (Inr (m2, s2))"
    using r(5,6) m1(1) m2(1) by (subst expire_all.simps) simp
  have eqm: "map (\<lambda>u. replicate (overdue_calls m1 u) u) xs = map (\<lambda>u. replicate (overdue_calls m u) u) xs"
    using same(4) by (intro map_cong) auto
  have "expired m2 = expired m @ concat (map (\<lambda>u. replicate (overdue_calls m u) u) (t # xs))"
    unfolding m2(6) m1(6) eqm by simp
  moreover have "settled_timer m m2 u" if "u \<in> set (t # xs)" for u
  proof (cases "u = t")
    case True
    then show ?thesis using m1(7) m2(8) r(2) by (simp add: settled_timer_def)
  next
    case False
    then show ?thesis using that m2(7) same by (simp add: settled_timer_def)
  qed
  moreover have "set ys2 = set ys \<union> {u \<in> set (t # xs). auto_reload m u}"
    unfolding m2(3) m1(3) using same(3) by auto
  ultimately show ?case using run m2(2,4,5,8) m1(4,5,8) by (intro exI[of _ m2] exI[of _ s2] exI[of _ ys2]) auto
qed

text \<open>The first expiry of a reloaded timer after the wrap, in true time.\<close>

lemma settled_expiry:
  assumes "settled_timer m m' t" "auto_reload m t" and P: "xTimerPeriodInTicks (timer_at m t) \<noteq> 0"
  shows "unat (expiry m' t) + 2 ^ 32 = unat (expiry m t) + overdue_calls m t * unat (xTimerPeriodInTicks (timer_at m t)) \<and>
    expiry m' t < xTimerPeriodInTicks (timer_at m t)"
proof -
  define v where "v = expiry m t"
  define p where "p = xTimerPeriodInTicks (timer_at m t)"
  define d where "d = unat (tmrMAX_TIME_BEFORE_OVERFLOW - v)"
  have "v \<le> - 1" by simp
  then have "d = unat (- 1 :: u32) - unat v" unfolding d_def tmrMAX_TIME_BEFORE_OVERFLOW_def by (rule unat_sub)
  moreover have "unat v < 2 ^ LENGTH(32)" "unat p < 2 ^ LENGTH(32)" by (rule unsigned_less)+
  ultimately have d: "d + unat v = 2 ^ 32 - 1" and pl: "unat p < 2 ^ 32"
    by (simp_all add: unsigned_minus_1_eq_mask mask_eq_exp_minus_1)
  have n: "overdue_calls m t = Suc (d div unat p)" using assms(2) by (simp add: overdue_calls_def d_def v_def p_def)
  have p: "0 < unat p" using P by (simp add: p_def unat_gt_0)
  have s: "unat v + Suc (d div unat p) * unat p = 2 ^ 32 + (unat p - 1 - d mod unat p)"
  proof -
    have "v + (q + x) = 2 ^ 32 + (q - 1 - r)" if "d + v = 2 ^ 32 - 1" "x + r = d" "r < q" for v q x r :: nat using that by simp
    from this[OF d div_mult_mod_eq mod_less_divisor[OF p]] show ?thesis by (simp only: mult_Suc)
  qed
  have b: "unat p - 1 - d mod unat p < 2 ^ 32" using pl by (simp add: less_imp_diff_less)
  have "expiry m' t = of_nat (unat v + Suc (d div unat p) * unat p)"
    using assms(1,2) n by (simp add: settled_timer_def v_def p_def distrib_right)
  moreover have "unat (of_nat (2 ^ 32 + k) :: u32) = k" if "k < 2 ^ 32" for k
    using that by (simp only: unat_of_nat take_bit_eq_mod) simp
  ultimately have u: "unat (expiry m' t) = unat p - 1 - d mod unat p" unfolding s using b by simp
  have "expiry m' t < p" using u p by (simp add: word_less_nat_alt)
  with u s n show ?thesis by (simp add: v_def[symmetric] p_def[symmetric])
qed

lemma and_not_self: "(w AND NOT b) AND b = 0" for w b :: u8
  by (rule bit_eqI) (auto simp: bit_simps)

text \<open>
  C37: no expiry is lost or duplicated when the tick counter wraps. If the functions of the timers return,
  \<open>prvSwitchTimerLists\<close> returns; it calls the timers of the old round in the order of their expiry, each as
  often as it expires before the wrap, enters the timers with automatic reload with their first expiry
  after the wrap, in the order of expiry among those already waiting for the new round, and marks the
  others as not active; timers of the new round are left alone.
\<close>
theorem prvSwitchTimerLists_expires_all:
  assumes ok: "timers_ok m xs ys" and cb: "\<And>t s. t \<in> set xs \<Longrightarrow> \<exists>s'. cb (pxCallbackFunction (timer_at m t)) t 0 s = Inr s'"
  shows "\<exists>m' s' zs. prvSwitchTimerLists cb (m, s) = Inr (m', s') \<and> timers_ok m' zs [] \<and>
    set zs = set ys \<union> {t \<in> set xs. auto_reload m t} \<and> pxCurrentTimerList m' = pxOverflowTimerList m \<and>
    expired m' = expired m @ concat (map (\<lambda>t. replicate (overdue_calls m t) t) xs) \<and>
    (\<forall>t \<in> set xs. auto_reload m t \<longrightarrow>
       unat (expiry m' t) + 2 ^ 32 = unat (expiry m t) + overdue_calls m t * unat (xTimerPeriodInTicks (timer_at m t)) \<and>
       expiry m' t < xTimerPeriodInTicks (timer_at m t) \<and> timer_at m' t = timer_at m t) \<and>
    (\<forall>t \<in> set xs. \<not> auto_reload m t \<longrightarrow> \<not> has_status t tmrSTATUS_IS_ACTIVE m') \<and>
    (\<forall>t. t \<notin> set xs \<longrightarrow> timer_at m' t = timer_at m t \<and> expiry m' t = expiry m t)"
proof -
  obtain m1 s1 ys1 where m1: "expire_all cb (m, s) = Some (Inr (m1, s1))" "timers_ok m1 [] ys1"
      "set ys1 = set ys \<union> {t \<in> set xs. auto_reload m t}" "pxOverflowTimerList m1 = pxOverflowTimerList m"
      "expired m1 = expired m @ concat (map (\<lambda>t. replicate (overdue_calls m t) t) xs)" "\<forall>t \<in> set xs. settled_timer m m1 t"
      "\<forall>u. u \<notin> set xs \<longrightarrow> timer_at m1 u = timer_at m u \<and> expiry m1 u = expiry m u"
    using expire_all_ok[OF ok, of cb s] cb by blast
  let ?m = "m1\<lparr>pxCurrentTimerList := pxOverflowTimerList m1, pxOverflowTimerList := pxCurrentTimerList m1\<rparr>"
  have "prvSwitchTimerLists cb (m, s) = Inr (?m, s1)" using m1(1) by (simp add: prvSwitchTimerLists_def)
  moreover have "timers_ok ?m ys1 []" using m1(2) by (auto simp: timers_ok_def)
  moreover have "xTimerPeriodInTicks (timer_at m t) \<noteq> 0" if "t \<in> set xs" for t using ok that by (simp add: timers_ok_def)
  then have "\<forall>t \<in> set xs. auto_reload m t \<longrightarrow>
       unat (expiry m1 t) + 2 ^ 32 = unat (expiry m t) + overdue_calls m t * unat (xTimerPeriodInTicks (timer_at m t)) \<and>
       expiry m1 t < xTimerPeriodInTicks (timer_at m t) \<and> timer_at m1 t = timer_at m t"
    using settled_expiry[of m m1] m1(6) by (auto simp: settled_timer_def)
  moreover have "\<forall>t \<in> set xs. \<not> auto_reload m t \<longrightarrow> \<not> has_status t tmrSTATUS_IS_ACTIVE m1"
    using m1(6) by (auto simp: settled_timer_def has_status_def[of _ tmrSTATUS_IS_ACTIVE] and_not_self)
  ultimately show ?thesis using m1(3,4,5,7)
    by (intro exI[of _ ?m] exI[of _ s1] exI[of _ ys1]) (simp add: has_status_def)
qed

text \<open>Two timers of the old round: timer 1 with automatic reload four times in a round, and timer 2.\<close>

definition two_timers :: timers where
  "two_timers = \<lparr>timer_lists = demo_lists\<lparr>pvOwner := (\<lambda>p. case p of Item n \<Rightarrow> n | ListEnd l \<Rightarrow> 0)\<rparr>,
     timer_at = (\<lambda>t. \<lparr>pcTimerName = 0, xTimerPeriodInTicks = 0x40000000, pvTimerID = 0, pxCallbackFunction = 0,
       uxTimerNumber = 0, ucStatus = if t = 1 then 5 else 1\<rparr>),
     pxCurrentTimerList = 0, pxOverflowTimerList = 1, xTimerQueue = 0, xTimerTaskHandle = 0, xLastTime = 0, expired = []\<rparr>"

lemma two_timers_fields:
  "pxCurrentTimerList two_timers = 0" "pxOverflowTimerList two_timers = 1" "xTimerPeriodInTicks (timer_at two_timers t) = 0x40000000"
  "ucStatus (timer_at two_timers t) = (if t = 1 then 5 else 1)" "expiry two_timers 1 = 5" "expiry two_timers 2 = 7"
  "pvOwner (timer_lists two_timers) (xTimerListItem t) = unat t" "expired two_timers = []"
  "pxContainer (timer_lists two_timers) = (\<lambda>_. None)(xTimerListItem 1 := Some 0, xTimerListItem 2 := Some 0)"
  by (simp_all add: two_timers_def demo_lists_def xTimerListItem_def)

lemma two_timers_ok: "timers_ok two_timers [1, 2] []"
proof -
  have "is_list (timer_lists two_timers) l xs" if "is_list demo_lists l xs" for l xs
    by (rule is_list_cong[OF that]) (simp_all add: two_timers_def)
  moreover have "is_list demo_lists 0 (map xTimerListItem [1, 2])" "is_list demo_lists 1 (map xTimerListItem [])"
    using demo_lists_ok by (simp_all add: heap_lists_def demo_seqs_def xTimerListItem_def)
  ultimately show ?thesis unfolding timers_ok_def two_timers_fields by (simp add: two_timers_fields(5,6))
qed

theorem prvSwitchTimerLists_expires_all_witness:
  "\<forall>s. \<exists>m' s' zs. prvSwitchTimerLists (\<lambda>_ _ _ s. Inr s) (two_timers, s) = Inr (m', s') \<and> expired m' = [1, 1, 1, 1, 2] \<and>
    unat (expiry m' 1) = 5 \<and> timers_ok m' zs [] \<and> set zs = {1}"
proof
  fix s
  have c: "auto_reload two_timers 1" "\<not> auto_reload two_timers 2" "overdue_calls two_timers 1 = 4" "overdue_calls two_timers 2 = 1"
    by (simp_all add: has_status_def overdue_calls_def two_timers_fields tmr_status tmrMAX_TIME_BEFORE_OVERFLOW_def)
  have a: "{t \<in> set [1, 2]. auto_reload two_timers t} = {1}" using c by auto
  have r: "concat (map (\<lambda>t. replicate (overdue_calls two_timers t) t) [1, 2]) = [1, 1, 1, 1, 2]" by (simp add: c eval_nat_numeral)
  obtain m' s' zs where m': "prvSwitchTimerLists (\<lambda>_ _ _ s. Inr s) (two_timers, s) = Inr (m', s')" "timers_ok m' zs []"
      "set zs = set [] \<union> {t \<in> set [1, 2]. auto_reload two_timers t}"
      "expired m' = expired two_timers @ concat (map (\<lambda>t. replicate (overdue_calls two_timers t) t) [1, 2])"
      "\<forall>t \<in> set [1, 2]. auto_reload two_timers t \<longrightarrow>
       unat (expiry m' t) + 2 ^ 32 = unat (expiry two_timers t) + overdue_calls two_timers t * unat (xTimerPeriodInTicks (timer_at two_timers t)) \<and>
       expiry m' t < xTimerPeriodInTicks (timer_at two_timers t) \<and> timer_at m' t = timer_at two_timers t"
    using prvSwitchTimerLists_expires_all[OF two_timers_ok, of "\<lambda>_ _ _ s. Inr s" s] by blast
  have "unat (expiry m' 1) = 5" using m'(5) c by (simp add: two_timers_fields)
  with m'(1-4) show "\<exists>m' s' zs. prvSwitchTimerLists (\<lambda>_ _ _ s. Inr s) (two_timers, s) = Inr (m', s') \<and> expired m' = [1, 1, 1, 1, 2] \<and>
      unat (expiry m' 1) = 5 \<and> timers_ok m' zs [] \<and> set zs = {1}" unfolding a r two_timers_fields by auto
qed

end
