(* ===== verification/Rtos_Port.thy ===== *)
theory Rtos_Port
  imports Rtos_Timers Register_Fields
begin

section \<open>The port to the Cortex-M7 and the start of the scheduler\<close>

text \<open>
  Critical sections, the set-up of the interrupt controller and the system timer, the start of the first task
  (\<^verbatim>\<open>FreeRTOS/Source/portable/GCC/ARM_CM7/r0p1/port.c\<close>) and \<open>vTaskStartScheduler\<close>. The registers
  hold what is written, except for the priority registers, of which the controller keeps the implemented bits.
\<close>

record port =
  basepri :: u32
  uxCriticalNesting :: u32
  ucMaxSysCallPriority :: u8
  ulMaxPRIGROUPValue :: u32
  pucFirstUserPriorityRegister :: u8
  portNVIC_SHPR3_REG :: u32
  portNVIC_SYSTICK_CTRL_REG :: u32
  portNVIC_SYSTICK_LOAD_REG :: u32
  portNVIC_SYSTICK_CURRENT_VALUE_REG :: u32
  CPACR :: u32
  portFPCCR :: u32

definition configPRIO_BITS :: nat where "configPRIO_BITS = 4"

definition configKERNEL_INTERRUPT_PRIORITY :: u32 where
  "configKERNEL_INTERRUPT_PRIORITY = push_bit (8 - configPRIO_BITS) 0x0F"

definition configMAX_SYSCALL_INTERRUPT_PRIORITY :: u32 where
  "configMAX_SYSCALL_INTERRUPT_PRIORITY = push_bit (8 - configPRIO_BITS) 1"

definition configCPU_CLOCK_HZ :: u32 where "configCPU_CLOCK_HZ = 160000000"

definition configTICK_RATE_HZ :: u32 where "configTICK_RATE_HZ = 1000"

subsection \<open>Critical sections\<close>

definition vPortRaiseBASEPRI :: "port \<Rightarrow> port" where
  "vPortRaiseBASEPRI p = p\<lparr>basepri := configMAX_SYSCALL_INTERRUPT_PRIORITY\<rparr>"

definition ulPortRaiseBASEPRI :: "port \<Rightarrow> u32 \<times> port" where
  "ulPortRaiseBASEPRI p = (basepri p, p\<lparr>basepri := configMAX_SYSCALL_INTERRUPT_PRIORITY\<rparr>)"

definition vPortSetBASEPRI :: "u32 \<Rightarrow> port \<Rightarrow> port" where
  "vPortSetBASEPRI v p = p\<lparr>basepri := v\<rparr>"

text \<open>\<open>vectactive\<close> is the number of the exception in progress, 0 in a task.\<close>

definition vPortEnterCritical :: "u32 \<Rightarrow> port \<Rightarrow> port res" where
  "vPortEnterCritical vectactive p =
     (let p = vPortRaiseBASEPRI p; p = p\<lparr>uxCriticalNesting := uxCriticalNesting p + 1\<rparr>
      in if uxCriticalNesting p = 1 then assert_that (vectactive = 0) (Inr p) else Inr p)"

definition vPortExitCritical :: "port \<Rightarrow> port res" where
  "vPortExitCritical p =
     assert_that (uxCriticalNesting p \<noteq> 0)
       (let p = p\<lparr>uxCriticalNesting := uxCriticalNesting p - 1\<rparr>
        in Inr (if uxCriticalNesting p = 0 then vPortSetBASEPRI 0 p else p))"

definition portFIRST_USER_INTERRUPT_NUMBER :: u32 where "portFIRST_USER_INTERRUPT_NUMBER = 16"

definition portPRIORITY_GROUP_MASK :: u32 where "portPRIORITY_GROUP_MASK = push_bit 8 7"

definition vPortValidateInterruptPriority :: "u32 \<Rightarrow> (u32 \<Rightarrow> u8) \<Rightarrow> u32 \<Rightarrow> port \<Rightarrow> unit res" where
  "vPortValidateInterruptPriority ipsr pcInterruptPriorityRegisters aircr p =
     res_bind
       (if ipsr \<ge> portFIRST_USER_INTERRUPT_NUMBER
        then assert_that (pcInterruptPriorityRegisters ipsr \<ge> ucMaxSysCallPriority p) (Inr ()) else Inr ())
       (\<lambda>_. assert_that (aircr AND portPRIORITY_GROUP_MASK \<le> ulMaxPRIGROUPValue p) (Inr ()))"

definition vPortEndScheduler :: "port \<Rightarrow> port res" where
  "vPortEndScheduler p = assert_that (uxCriticalNesting p = 1000) (Inr p)"

subsection \<open>The number of priority bits\<close>

text \<open>What the interrupt controller of the emulated chip keeps of a priority.\<close>

definition num_prio_bits :: nat where "num_prio_bits = 4"

definition set_prio :: "nat \<Rightarrow> u8 \<Rightarrow> u8" where
  "set_prio n prio = prio AND ucast (MAKE_64BIT_MASK (8 - n) n)"

definition portMAX_8_BIT_VALUE :: u8 where "portMAX_8_BIT_VALUE = 0xFF"

definition portMAX_PRIGROUP_BITS :: u32 where "portMAX_PRIGROUP_BITS = 7"

definition portTOP_BIT_OF_BYTE :: u8 where "portTOP_BIT_OF_BYTE = 0x80"

definition portPRIGROUP_SHIFT :: nat where "portPRIGROUP_SHIFT = 8"

lemma push_top_bit_less:
  assumes "v AND 0x80 = (0x80 :: u8)"
  shows "unat (v * 2) < unat v"
proof -
  have "unat (v AND 0x80) \<le> unat v" using word_and_le2[of v "0x80"] by (simp add: word_le_nat_alt)
  then have "128 \<le> unat v" using assms by simp
  moreover have "unat v < 2 ^ LENGTH(8)" by (rule unsigned_less)
  moreover have "unat (v * 2) = (unat v * 2) mod 256" by (simp add: unat_word_ariths)
  ultimately show ?thesis by (simp add: le_mod_geq)
qed

function prigroup_loop :: "u8 \<Rightarrow> u32 \<Rightarrow> u32" where
  "prigroup_loop ucMaxPriorityValue n =
     (if ucMaxPriorityValue AND portTOP_BIT_OF_BYTE = portTOP_BIT_OF_BYTE
      then prigroup_loop (push_bit 1 ucMaxPriorityValue) (n - 1) else n)"
  by pat_completeness auto

termination
  by (relation "measure (\<lambda>(v, _). unat v)") (simp_all add: portTOP_BIT_OF_BYTE_def push_top_bit_less)

declare prigroup_loop.simps [simp del]

definition count_priority_bits :: "(u8 \<Rightarrow> u8) \<Rightarrow> port \<Rightarrow> port res" where
  "count_priority_bits keeps p =
     (let ulOriginalPriority = pucFirstUserPriorityRegister p;
          p = p\<lparr>pucFirstUserPriorityRegister := keeps portMAX_8_BIT_VALUE\<rparr>;
          ucMaxPriorityValue = pucFirstUserPriorityRegister p;
          p = p\<lparr>ucMaxSysCallPriority := ucast configMAX_SYSCALL_INTERRUPT_PRIORITY AND ucMaxPriorityValue\<rparr>;
          p = p\<lparr>ulMaxPRIGROUPValue := prigroup_loop ucMaxPriorityValue portMAX_PRIGROUP_BITS\<rparr>
      in assert_that (portMAX_PRIGROUP_BITS - ulMaxPRIGROUPValue p = of_nat configPRIO_BITS)
        (let p = p\<lparr>ulMaxPRIGROUPValue := push_bit portPRIGROUP_SHIFT (ulMaxPRIGROUPValue p) AND portPRIORITY_GROUP_MASK\<rparr>
         in Inr (p\<lparr>pucFirstUserPriorityRegister := keeps ulOriginalPriority\<rparr>)))"

subsection \<open>The system timer and the floating-point unit\<close>

definition portNVIC_SYSTICK_CLK_BIT :: u32 where "portNVIC_SYSTICK_CLK_BIT = push_bit 2 1"

definition portNVIC_SYSTICK_INT_BIT :: u32 where "portNVIC_SYSTICK_INT_BIT = push_bit 1 1"

definition portNVIC_SYSTICK_ENABLE_BIT :: u32 where "portNVIC_SYSTICK_ENABLE_BIT = push_bit 0 1"

definition portNVIC_PENDSV_PRI :: u32 where "portNVIC_PENDSV_PRI = push_bit 16 configKERNEL_INTERRUPT_PRIORITY"

definition portNVIC_SYSTICK_PRI :: u32 where "portNVIC_SYSTICK_PRI = push_bit 24 configKERNEL_INTERRUPT_PRIORITY"

definition portASPEN_AND_LSPEN_BITS :: u32 where "portASPEN_AND_LSPEN_BITS = push_bit 30 3"

definition vPortSetupTimerInterrupt :: "port \<Rightarrow> port" where
  "vPortSetupTimerInterrupt p =
     (let p = p\<lparr>portNVIC_SYSTICK_CTRL_REG := 0\<rparr>;
          p = p\<lparr>portNVIC_SYSTICK_CURRENT_VALUE_REG := 0\<rparr>;
          p = p\<lparr>portNVIC_SYSTICK_LOAD_REG := configCPU_CLOCK_HZ div configTICK_RATE_HZ - 1\<rparr>
      in p\<lparr>portNVIC_SYSTICK_CTRL_REG :=
             portNVIC_SYSTICK_CLK_BIT OR portNVIC_SYSTICK_INT_BIT OR portNVIC_SYSTICK_ENABLE_BIT\<rparr>)"

definition vPortEnableVFP :: "port \<Rightarrow> port" where
  "vPortEnableVFP p = p\<lparr>CPACR := CPACR p OR push_bit 20 0xF\<rparr>"

subsection \<open>The first task\<close>

text \<open>
  The supervisor call restores the context of the current task: the registers r4 to r11, the link register
  for the exception return and the stack pointer of the task.
\<close>

definition vPortSVCHandler :: "sys \<Rightarrow> port \<Rightarrow> ((u32 list \<times> u32 \<times> u32) \<times> port) res" where
  "vPortSVCHandler s p =
     res_bind (current (kern s)) (\<lambda>t.
       let r0 = pxTopOfStack (tcbs (kern s) t)
       in Inr ((map (\<lambda>i. load32 (r0 + 4 * of_nat i) s) [0..<8], load32 (r0 + 32) s, r0 + 36), vPortSetBASEPRI 0 p))"

text \<open>
  The registers of a task after the exception return of the emulated core to thread mode with the process
  stack and a frame without floating-point registers, the only one the port sets up itself.
\<close>

record thread =
  R0 :: u32
  R1 :: u32
  R2 :: u32
  R3 :: u32
  R4_R11 :: "u32 list"
  R12 :: u32
  R14 :: u32
  R15 :: u32
  XPSR :: u32
  PSP :: u32

definition XPSR_SPREALIGN :: u32 where "XPSR_SPREALIGN = push_bit 9 1"

definition XPSR_SFPA :: u32 where "XPSR_SFPA = push_bit 20 1"

definition pop_registers :: "u32 \<Rightarrow> u32 list \<Rightarrow> sys \<Rightarrow> thread" where
  "pop_registers frameptr regs s =
     (let r15 = load32 (frameptr + 0x18) s in
      \<lparr>R0 = load32 frameptr s, R1 = load32 (frameptr + 0x4) s, R2 = load32 (frameptr + 0x8) s, R3 = load32 (frameptr + 0xC) s,
       R4_R11 = regs, R12 = load32 (frameptr + 0x10) s, R14 = load32 (frameptr + 0x14) s,
       R15 = (if r15 AND 1 \<noteq> 0 then r15 AND NOT 1 else r15), XPSR = load32 (frameptr + 0x1C) s, PSP = frameptr\<rparr>)"

definition consume_frame :: "thread \<Rightarrow> thread" where
  "consume_frame r =
     (let frameptr = PSP r + 0x20;
          frameptr = (if XPSR r AND XPSR_SPREALIGN \<noteq> 0 then frameptr OR 4 else frameptr)
      in r\<lparr>PSP := frameptr, XPSR := XPSR r AND NOT (XPSR_SPREALIGN OR XPSR_SFPA)\<rparr>)"

definition exception_return :: "u32 list \<times> u32 \<times> u32 \<Rightarrow> sys \<Rightarrow> thread option" where
  "exception_return = (\<lambda>(regs, excret, psp) s.
     if excret = portINITIAL_EXC_RETURN then Some (consume_frame (pop_registers psp regs s)) else None)"

definition prvPortStartFirstTask :: "sys \<Rightarrow> port \<Rightarrow> (thread option \<times> port) res" where
  "prvPortStartFirstTask s p = res_bind (vPortSVCHandler s p) (\<lambda>(c, p). Inr (exception_return c s, p))"

text \<open>The call does not return on the target; the result is the state in which the first task starts.\<close>

definition xPortStartScheduler :: "(u8 \<Rightarrow> u8) \<Rightarrow> sys \<Rightarrow> port \<Rightarrow> (thread option \<times> port) res" where
  "xPortStartScheduler keeps s p =
     assert_that (configMAX_SYSCALL_INTERRUPT_PRIORITY \<noteq> 0)
     (res_bind (count_priority_bits keeps p) (\<lambda>p.
       let p = p\<lparr>portNVIC_SHPR3_REG := portNVIC_SHPR3_REG p OR portNVIC_PENDSV_PRI\<rparr>;
           p = p\<lparr>portNVIC_SHPR3_REG := portNVIC_SHPR3_REG p OR portNVIC_SYSTICK_PRI\<rparr>;
           p = vPortSetupTimerInterrupt p;
           p = p\<lparr>uxCriticalNesting := 0\<rparr>;
           p = vPortEnableVFP p;
           p = p\<lparr>portFPCCR := portFPCCR p OR portASPEN_AND_LSPEN_BITS\<rparr>
       in prvPortStartFirstTask s p))"

text \<open>Without memory for the idle or the timer task no task is started.\<close>

definition vTaskStartScheduler ::
    "image \<Rightarrow> (u8 \<Rightarrow> u8) \<Rightarrow> port \<times> timers \<times> sys \<Rightarrow> (thread option \<times> port \<times> timers \<times> sys) res" where
  "vTaskStartScheduler img keeps = (\<lambda>(p, m, s).
     res_bind (xTaskCreate img (prvIdleTask img) (configIDLE_TASK_NAME img) configMINIMAL_STACK_SIZE 0 tskIDLE_PRIORITY s)
       (\<lambda>((xReturn, _), s).
     res_bind (if xReturn = pdPASS then xTimerCreateTimerTask img (m, s) else Inr (xReturn, m, s)) (\<lambda>(xReturn, m, s).
       if xReturn = pdPASS
       then let p = vPortRaiseBASEPRI p;
                s = on_kern (\<lambda>k. k\<lparr>xNextTaskUnblockTime := portMAX_DELAY, xSchedulerRunning := True, xTickCount := 0\<rparr>) s
            in res_bind (xPortStartScheduler keeps s p) (\<lambda>(r, p). Inr (r, p, m, s))
       else assert_that (xReturn \<noteq> errCOULD_NOT_ALLOCATE_REQUIRED_MEMORY) (Inr (None, p, m, s)))))"

definition vTaskEndScheduler :: "port \<times> sys \<Rightarrow> (port \<times> sys) res" where
  "vTaskEndScheduler = (\<lambda>(p, s).
     let p = vPortRaiseBASEPRI p; s = on_kern (\<lambda>k. k\<lparr>xSchedulerRunning := False\<rparr>) s
     in res_bind (vPortEndScheduler p) (\<lambda>p. Inr (p, s)))"

end
