(* ===== verification/Rtos_Tick.thy ===== *)
theory Rtos_Tick
  imports Rtos_Task_Inv
begin

section \<open>Time and task selection\<close>

text \<open>
  The tick interrupt wakes exactly the tasks whose time has come, also when the tick counter wraps; a
  delay lasts exactly the number of ticks asked for; the context switch selects a ready task of the
  highest priority, in round-robin order.
\<close>

subsection \<open>Waking one task\<close>

lemma unblock_task_ok:
  assumes ok: "struct_ok k E T L" and t: "t \<in> T" "state_list k t = Some l" "l \<in> {5, 6}" and c: "pxCurrentTCB k = Some c"
  shows "\<exists>h u L'. unblock_task t k = Inr (prio k t > prio k c, k\<lparr>lists := h, uxTopReadyPriority := u\<rparr>) \<and>
    struct_ok (k\<lparr>lists := h, uxTopReadyPriority := u\<rparr>) E T L' \<and> L' l = remove1 (xStateListItem t) (L l) \<and>
    pxContainer h = (pxContainer (lists k))(xStateListItem t := Some (prio k t), xEventListItem t := None) \<and>
    xItemValue h = xItemValue (lists k)"
proof -
  let ?x = "xStateListItem t" and ?e = "xEventListItem t"
  obtain h1 where h1: "remove_item ?x k = Inr (k\<lparr>lists := h1\<rparr>)"
      "struct_ok (k\<lparr>lists := h1\<rparr>) E T (L(l := remove1 ?x (L l)))"
      "pxContainer h1 = (pxContainer (lists k))(?x := None)" "xItemValue h1 = xItemValue (lists k)"
    using list_remove_kernel[OF ok t(2)] t(1) by auto
  obtain h2 L2 where h2: "(if container (k\<lparr>lists := h1\<rparr>) ?e \<noteq> None then remove_item ?e (k\<lparr>lists := h1\<rparr>)
        else Inr (k\<lparr>lists := h1\<rparr>)) = Inr (k\<lparr>lists := h2\<rparr>)"
      "struct_ok (k\<lparr>lists := h2\<rparr>) E T L2" "L2 l = remove1 ?x (L l)"
      "pxContainer h2 = (pxContainer (lists k))(?x := None, ?e := None)" "xItemValue h2 = xItemValue (lists k)"
  proof (cases "event_list k t")
    case None
    then have "(pxContainer (lists k))(?x := None) = (pxContainer (lists k))(?x := None, ?e := None)"
      by (auto simp: fun_eq_iff)
    with None show ?thesis using that[of h1 "L(l := remove1 ?x (L l))"] h1 by (simp add: container_def)
  next
    case (Some m)
    have "m \<in> insert 7 E" "E \<inter> {..<10} = {}"
      using sched_okD(8)[OF struct_okD(3)[OF ok] t(1) Some] struct_okD(3)[OF ok] by (simp_all add: sched_ok_def)
    then have "m \<noteq> l" using t(3) by auto
    moreover have "pxContainer (lists (k\<lparr>lists := h1\<rparr>)) ?e = Some m" using Some h1(3) by simp
    ultimately show ?thesis
      using list_remove_kernel[OF h1(2), of ?e m] that t(1) h1 by (auto simp: container_def)
  qed
  obtain h u L' where h: "prvAddTaskToReadyList t (k\<lparr>lists := h2\<rparr>) = k\<lparr>lists := h, uxTopReadyPriority := u\<rparr>"
      "struct_ok (k\<lparr>lists := h, uxTopReadyPriority := u\<rparr>) E T L'" "\<forall>l. l \<ge> 5 \<longrightarrow> L' l = L2 l"
      "pxContainer h = (pxContainer h2)(?x := Some (prio k t))" "xItemValue h = xItemValue h2"
    using add_ready_kernel[OF h2(2) t(1)] h2(4) by auto
  have "unblock_task t k = Inr (prio k t > prio k c, k\<lparr>lists := h, uxTopReadyPriority := u\<rparr>)"
    unfolding unblock_task_def h1(1) res_bind_Inr h2(1) using c
    by (simp add: h(1) current_priority_def current_def)
  with h h2 t(3) show ?thesis
    by (intro exI[of _ h] exI[of _ u] exI[of _ L']) (auto simp: fun_upd_twist)
qed

subsection \<open>The unblocking loop\<close>

definition due :: "kernel \<Rightarrow> u32 \<Rightarrow> nat \<Rightarrow> bool" where
  "due k tick t \<longleftrightarrow> state_list k t = Some (pxDelayedTaskList k) \<and> wake_time k t \<le> tick"

text \<open>What the loop does to the tasks in \<open>T\<close>; the other fields are unchanged.\<close>

definition unblocked :: "u32 \<Rightarrow> nat set \<Rightarrow> kernel \<Rightarrow> kernel \<Rightarrow> bool" where
  "unblocked tick T k k' \<longleftrightarrow>
     k' = k\<lparr>lists := lists k', uxTopReadyPriority := uxTopReadyPriority k',
           xNextTaskUnblockTime := xNextTaskUnblockTime k'\<rparr> \<and>
     xItemValue (lists k') = xItemValue (lists k) \<and>
     (\<forall>t \<in> T. state_list k' t = (if due k tick t then Some (prio k t) else state_list k t) \<and>
        event_list k' t = (if due k tick t then None else event_list k t) \<and>
        (state_list k' t = Some (pxDelayedTaskList k) \<longrightarrow> xNextTaskUnblockTime k' \<le> wake_time k t))"

lemma unblocked_fields:
  assumes "unblocked tick T k k'"
  shows "tcbs k' = tcbs k" "pxCurrentTCB k' = pxCurrentTCB k" "pxDelayedTaskList k' = pxDelayedTaskList k"
    "pxOverflowDelayedTaskList k' = pxOverflowDelayedTaskList k" "xTickCount k' = xTickCount k"
    "xYieldPending k' = xYieldPending k" "uxSchedulerSuspended k' = uxSchedulerSuspended k"
    "xPendedTicks k' = xPendedTicks k" "xNumOfOverflows k' = xNumOfOverflows k" "port_yield k' = port_yield k"
    "uxCurrentNumberOfTasks k' = uxCurrentNumberOfTasks k" "xSchedulerRunning k' = xSchedulerRunning k"
proof -
  have e: "k' = k\<lparr>lists := lists k', uxTopReadyPriority := uxTopReadyPriority k',
      xNextTaskUnblockTime := xNextTaskUnblockTime k'\<rparr>"
    using assms unfolding unblocked_def by (elim conjE)
  show "tcbs k' = tcbs k" "pxCurrentTCB k' = pxCurrentTCB k" "pxDelayedTaskList k' = pxDelayedTaskList k"
    "pxOverflowDelayedTaskList k' = pxOverflowDelayedTaskList k" "xTickCount k' = xTickCount k"
    "xYieldPending k' = xYieldPending k" "uxSchedulerSuspended k' = uxSchedulerSuspended k"
    "xPendedTicks k' = xPendedTicks k" "xNumOfOverflows k' = xNumOfOverflows k" "port_yield k' = port_yield k"
    "uxCurrentNumberOfTasks k' = uxCurrentNumberOfTasks k" "xSchedulerRunning k' = xSchedulerRunning k"
    by (subst e, simp)+
qed

lemma unblockedD:
  assumes "unblocked tick T k k'"
  shows "xItemValue (lists k') = xItemValue (lists k)"
    and "t \<in> T \<Longrightarrow> state_list k' t = (if due k tick t then Some (prio k t) else state_list k t)"
    and "t \<in> T \<Longrightarrow> event_list k' t = (if due k tick t then None else event_list k t)"
  using assms unfolding unblocked_def by blast+

lemma delayed_head:
  assumes ok: "struct_ok k E T L" and ne: "L (pxDelayedTaskList k) \<noteq> []"
  obtains t where "t \<in> T" "hd (L (pxDelayedTaskList k)) = xStateListItem t"
    "listGET_OWNER_OF_HEAD_ENTRY (pxDelayedTaskList k) (lists k) = t" "state_list k t = Some (pxDelayedTaskList k)"
    "\<And>s. s \<in> T \<Longrightarrow> state_list k s = Some (pxDelayedTaskList k) \<Longrightarrow> wake_time k t \<le> wake_time k s"
proof -
  note s = struct_okD[OF ok]
  let ?d = "pxDelayedTaskList k" and ?x = "hd (L (pxDelayedTaskList k))"
  have d: "?d \<in> {5, 6}" "?d \<in> kernel_lists E" "E \<inter> {..<10} = {}"
    using sched_okD(1)[OF s(3)] s(3) by (auto simp: sched_ok_def)
  have x: "?x \<in> set (L ?d)" using ne by simp
  then have c: "pxContainer (lists k) ?x = Some ?d" using container_iff[OF s(1)] d(2) by simp
  have "?x \<in> task_items T" using lists_okD(5)[OF s(1) d(2)] x by blast
  moreover have "?x \<noteq> xEventListItem t" if "t \<in> T" for t
    using sched_okD(8)[OF s(3) that, of ?d] c d(1,3) by auto
  ultimately obtain t where t: "t \<in> T" "?x = xStateListItem t" by (auto simp: task_items_def)
  have o: "listGET_OWNER_OF_HEAD_ENTRY ?d (lists k) = t"
    using list_head[OF s(1) d(2) ne] t lists_okD(7)[OF s(1) t(1)] by (simp add: listGET_OWNER_OF_HEAD_ENTRY_def)
  have "sorted (map (xItemValue (lists k)) (L ?d))" using s(2) d(1) by (auto simp: sorted_ok_def)
  then have "wake_time k t \<le> wake_time k s" if "s \<in> T" "state_list k s = Some ?d" for s
    using that ne t(2) container_iff[OF s(1), of "xStateListItem s" ?d] by (cases "L ?d") auto
  with that t c o show ?thesis by metis
qed

lemma unblock_expired_ok:
  assumes "struct_ok k E T L" and "pxCurrentTCB k = Some c"
  shows "\<exists>k' L'. unblock_expired tick sw k =
      Some (Inr (sw \<or> (\<exists>t \<in> T. due k tick t \<and> prio k t > prio k c), k')) \<and> struct_ok k' E T L' \<and> unblocked tick T k k'"
  using assms
proof (induction "length (L (pxDelayedTaskList k))" arbitrary: k L sw rule: less_induct)
  case less
  note s = struct_okD[OF less.prems(1)]
  let ?d = "pxDelayedTaskList k"
  have d: "?d \<in> {5, 6}" "?d \<in> kernel_lists E" using sched_okD(1)[OF s(3)] by auto
  have keep: "struct_ok (k\<lparr>xNextTaskUnblockTime := n\<rparr>) E T L" for n
    using s by (simp add: struct_ok_def sched_ok_def sorted_ok_def)
  show ?case
  proof (cases "L ?d = []")
    case True
    then have "state_list k t \<noteq> Some ?d" if "t \<in> T" for t using container_iff[OF s(1)] by simp
    then have "unblocked tick T k (k\<lparr>xNextTaskUnblockTime := portMAX_DELAY\<rparr>)" "\<not> (\<exists>t \<in> T. due k tick t)"
      by (auto simp: unblocked_def due_def)
    then show ?thesis
      using True keep list_is_empty_iff[OF s(1) d(2)] by (subst unblock_expired.simps) auto
  next
    case False
    obtain t where t: "t \<in> T" "hd (L ?d) = xStateListItem t" "listGET_OWNER_OF_HEAD_ENTRY ?d (lists k) = t"
        "state_list k t = Some ?d" and min: "\<And>s. s \<in> T \<Longrightarrow> state_list k s = Some ?d \<Longrightarrow> wake_time k t \<le> wake_time k s"
      using delayed_head[OF less.prems(1) False] by metis
    note step = unblock_expired.simps[of tick sw k, unfolded Let_def t(3) item_value_def]
    show ?thesis
    proof (cases "tick < wake_time k t")
      case True
      then have "\<not> due k tick s" if "s \<in> T" for s using min[OF that] by (auto simp: due_def)
      then have "unblocked tick T k (k\<lparr>xNextTaskUnblockTime := wake_time k t\<rparr>)" "\<not> (\<exists>t \<in> T. due k tick t)"
        using min by (auto simp: unblocked_def)
      then show ?thesis using True False keep list_is_empty_iff[OF s(1) d(2)] by (subst step) auto
    next
      case F: False
      obtain h u L1 where u: "unblock_task t k = Inr (prio k t > prio k c, k\<lparr>lists := h, uxTopReadyPriority := u\<rparr>)"
          "struct_ok (k\<lparr>lists := h, uxTopReadyPriority := u\<rparr>) E T L1" "L1 ?d = remove1 (xStateListItem t) (L ?d)"
          "pxContainer h = (pxContainer (lists k))(xStateListItem t := Some (prio k t), xEventListItem t := None)"
          "xItemValue h = xItemValue (lists k)"
        using unblock_task_ok[OF less.prems(1) t(1,4) d(1) less.prems(2)] by blast
      let ?k = "k\<lparr>lists := h, uxTopReadyPriority := u\<rparr>"
      have "length (L1 ?d) < length (L ?d)" using u(3) t(2) False by (cases "L ?d") auto
      then obtain k' L' where r: "unblock_expired tick (sw \<or> prio k t > prio k c) ?k =
          Some (Inr ((sw \<or> prio k t > prio k c) \<or> (\<exists>t \<in> T. due ?k tick t \<and> prio ?k t > prio ?k c), k'))"
          "struct_ok k' E T L'" "unblocked tick T ?k k'"
        using less.hyps[of L1 ?k "sw \<or> prio k t > prio k c"] u(2) less.prems(2) by auto
      have p: "prio k t \<noteq> ?d" using sched_okD(4)[OF s(3) t(1)] d(1) by auto
      then have due: "due ?k tick a \<longleftrightarrow> due k tick a \<and> a \<noteq> t" for a by (simp add: due_def u(4,5))
      have "due k tick t" using t(4) F by (simp add: due_def)
      then have "unblocked tick T k k'" using r(3) p unfolding unblocked_def due by (auto simp: u(4,5))
      moreover have "(sw \<or> prio k t > prio k c) \<or> (\<exists>t \<in> T. due ?k tick t \<and> prio ?k t > prio ?k c) \<longleftrightarrow>
          sw \<or> (\<exists>t \<in> T. due k tick t \<and> prio k t > prio k c)"
        using \<open>due k tick t\<close> t(1) unfolding due by auto
      ultimately show ?thesis using r(1,2) False F u(1) list_is_empty_iff[OF s(1) d(2)] by (subst step) auto
    qed
  qed
qed

subsection \<open>One tick\<close>

text \<open>A task with a timeout, and the number of ticks until it is over.\<close>

definition timed :: "kernel \<Rightarrow> nat \<Rightarrow> bool" where
  "timed k t \<longleftrightarrow> state_list k t \<in> {Some (pxDelayedTaskList k), Some (pxOverflowDelayedTaskList k)}"

definition ticks_left :: "kernel \<Rightarrow> nat \<Rightarrow> nat" where
  "ticks_left k t = unat (wake_time k t - xTickCount k)"

lemma timed_wake_time: "time_ok k T \<Longrightarrow> t \<in> T \<Longrightarrow> timed k t \<Longrightarrow> wake_time k t \<noteq> xTickCount k"
  by (auto simp: time_ok_def timed_def)

lemma ticks_left_pos: "time_ok k T \<Longrightarrow> t \<in> T \<Longrightarrow> timed k t \<Longrightarrow> 0 < ticks_left k t"
  using timed_wake_time[of k T t] by (simp add: ticks_left_def unat_gt_0)

lemma ticks_left_1: "ticks_left k t = 1 \<longleftrightarrow> wake_time k t = xTickCount k + 1"
proof -
  have "unat w = 1 \<longleftrightarrow> w = 1" for w :: u32 by (metis unat_1 unsigned_word_eqI)
  then show ?thesis by (simp add: ticks_left_def diff_eq_eq add.commute)
qed

lemma ticks_left_step:
  assumes "wake_time k t \<noteq> xTickCount k" "wake_time k' t = wake_time k t" "xTickCount k' = xTickCount k + 1"
  shows "ticks_left k' t = ticks_left k t - 1"
proof -
  have "wake_time k' t - xTickCount k' = (wake_time k t - xTickCount k) - 1" using assms(2,3) by simp
  then show ?thesis using assms(1) unat_minus_one[of "wake_time k t - xTickCount k"] by (simp add: ticks_left_def)
qed

text \<open>The state in which the unblocking loop starts: a wake time may be now.\<close>

definition pre_time :: "kernel \<Rightarrow> nat set \<Rightarrow> bool" where
  "pre_time k T \<longleftrightarrow> (\<forall>t \<in> T.
     (state_list k t = Some (pxDelayedTaskList k) \<longrightarrow>
        xTickCount k \<le> wake_time k t \<and> xNextTaskUnblockTime k \<le> wake_time k t) \<and>
     (state_list k t = Some (pxOverflowDelayedTaskList k) \<longrightarrow> wake_time k t < xTickCount k))"

lemma run_unblock_ok:
  assumes ok: "struct_ok k E T L" "pre_time k T" and c: "pxCurrentTCB k = Some c" and tick: "tick = xTickCount k"
  shows "\<exists>k' L'. run_unblock tick k = Inr (\<exists>t \<in> T. due k tick t \<and> prio k t > prio k c, k') \<and>
    struct_ok k' E T L' \<and> unblocked tick T k k' \<and> time_ok k' T"
proof -
  have "\<exists>k' L'. run_unblock tick k = Inr (\<exists>t \<in> T. due k tick t \<and> prio k t > prio k c, k') \<and>
    struct_ok k' E T L' \<and> unblocked tick T k k'"
  proof (cases "xNextTaskUnblockTime k \<le> tick")
    case True
    then show ?thesis using unblock_expired_ok[OF ok(1) c, of tick False] by (auto simp: run_unblock_def)
  next
    case False
    have nd: "\<not> due k tick t" if "t \<in> T" for t
      using ok(2) that False by (auto simp: pre_time_def due_def)
    have "unblocked tick T k k" unfolding unblocked_def using nd ok(2) by (auto simp: pre_time_def)
    with False ok(1) nd show ?thesis by (auto simp: run_unblock_def)
  qed
  then obtain k' L' where k': "run_unblock tick k = Inr (\<exists>t \<in> T. due k tick t \<and> prio k t > prio k c, k')"
    "struct_ok k' E T L'" "unblocked tick T k k'" by blast
  note f = unblocked_fields[OF k'(3)]
  have p: "prio k t \<noteq> pxDelayedTaskList k" "prio k t \<noteq> pxOverflowDelayedTaskList k" if "t \<in> T" for t
    using sched_okD(1,2,4)[OF struct_okD(3)[OF ok(1)]] that by fastforce+
  have "xTickCount k < wake_time k t" if "t \<in> T" "state_list k t = Some (pxDelayedTaskList k)" "\<not> due k tick t" for t
    using that tick by (simp add: due_def)
  then have "time_ok k' T"
    using k'(3) ok(2) p unfolding time_ok_def pre_time_def f unblocked_def by (auto split: if_splits)
  with k' show ?thesis by blast
qed

text \<open>Counting the tick, with the switch of the delayed lists when the counter wraps.\<close>

definition count_tick :: "kernel \<Rightarrow> kernel res" where
  "count_tick k =
     (let k' = k\<lparr>xTickCount := xTickCount k + 1\<rparr>
      in if xTickCount k + 1 = 0 then taskSWITCH_DELAYED_LISTS k' else Inr k')"

lemma tick_wraps: "(w :: u32) + 1 = 0 \<longleftrightarrow> w = - 1"
  by (metis add.commute add_eq_0_iff)

lemma reset_unblock_time_le:
  assumes ok: "struct_ok k E T L" and "t \<in> T" "state_list k t = Some (pxDelayedTaskList k)"
  shows "xNextTaskUnblockTime (prvResetNextTaskUnblockTime k) \<le> wake_time k t"
proof -
  note s = struct_okD[OF ok]
  let ?d = "pxDelayedTaskList k"
  have d: "?d \<in> kernel_lists E" using sched_okD(1)[OF s(3)] by auto
  have ne: "L ?d \<noteq> []" using assms(3) container_iff[OF s(1)] by auto
  obtain a where a: "hd (L ?d) = xStateListItem a"
      "\<And>s. s \<in> T \<Longrightarrow> state_list k s = Some ?d \<Longrightarrow> wake_time k a \<le> wake_time k s"
    using delayed_head[OF ok ne] by metis
  show ?thesis
    using a(2)[OF assms(2,3)] ne list_is_empty_iff[OF s(1) d] list_head[OF s(1) d ne] a(1)
    by (simp add: prvResetNextTaskUnblockTime_def listGET_ITEM_VALUE_OF_HEAD_ENTRY_def)
qed

lemma reset_unblock_time_fields:
  "prvResetNextTaskUnblockTime k = k\<lparr>xNextTaskUnblockTime := xNextTaskUnblockTime (prvResetNextTaskUnblockTime k)\<rparr>"
  by (simp add: prvResetNextTaskUnblockTime_def)

lemma count_tick_ok:
  assumes ok: "struct_ok k E T L" and time: "time_ok k T"
  shows "\<exists>d q n f. count_tick k = Inr (k\<lparr>xTickCount := xTickCount k + 1, pxDelayedTaskList := d,
      pxOverflowDelayedTaskList := q, xNumOfOverflows := f, xNextTaskUnblockTime := n\<rparr>) \<and>
    {d, q} = {pxDelayedTaskList k, pxOverflowDelayedTaskList k} \<and> d \<noteq> q \<and>
    f = xNumOfOverflows k + (if xTickCount k = - 1 then 1 else 0) \<and>
    pre_time (k\<lparr>xTickCount := xTickCount k + 1, pxDelayedTaskList := d,
      pxOverflowDelayedTaskList := q, xNumOfOverflows := f, xNextTaskUnblockTime := n\<rparr>) T \<and>
    (\<forall>t \<in> T. timed k t \<longrightarrow> (state_list k t = Some d \<and> wake_time k t \<le> xTickCount k + 1 \<longleftrightarrow>
       wake_time k t = xTickCount k + 1))"
proof (cases "xTickCount k = - 1")
  case False
  then have nz: "xTickCount k + 1 \<noteq> 0" by (simp add: tick_wraps)
  then have lt: "xTickCount k < xTickCount k + 1"
    using unatSuc[of "xTickCount k"] by (simp add: word_less_nat_alt add.commute)
  have "pre_time (k\<lparr>xTickCount := xTickCount k + 1\<rparr>) T"
    using time lt unfolding pre_time_def time_ok_def by (auto simp: inc_le intro: less_trans)
  moreover have "state_list k t = Some (pxDelayedTaskList k) \<and> wake_time k t \<le> xTickCount k + 1 \<longleftrightarrow>
       wake_time k t = xTickCount k + 1" if "t \<in> T" "timed k t" for t
    using time that lt unfolding time_ok_def timed_def by (auto simp: inc_le intro: antisym)
  ultimately show ?thesis using nz False sched_okD(3)[OF struct_okD(3)[OF ok]]
    by (intro exI[of _ "pxDelayedTaskList k"] exI[of _ "pxOverflowDelayedTaskList k"]
        exI[of _ "xNextTaskUnblockTime k"] exI[of _ "xNumOfOverflows k"]) (simp add: count_tick_def)
next
  case True
  note s = struct_okD[OF ok]
  let ?d = "pxDelayedTaskList k" and ?q = "pxOverflowDelayedTaskList k"
  have d: "?d \<in> kernel_lists E" "?d \<noteq> ?q" using sched_okD(1,3)[OF s(3)] by auto
  have none: "state_list k t \<noteq> Some ?d" if "t \<in> T" for t
    using time that True by (auto simp: time_ok_def)
  have e: "L ?d = []" using delayed_head[OF ok] none by metis
  let ?k = "k\<lparr>xTickCount := 0, pxDelayedTaskList := ?q, pxOverflowDelayedTaskList := ?d,
      xNumOfOverflows := xNumOfOverflows k + 1\<rparr>"
  let ?n = "xNextTaskUnblockTime (prvResetNextTaskUnblockTime ?k)"
  have sk: "struct_ok ?k E T L" using s by (auto simp: struct_ok_def sched_ok_def sorted_ok_def)
  have "count_tick k = Inr (prvResetNextTaskUnblockTime ?k)"
    using True e list_is_empty_iff[OF s(1) d(1)] by (simp add: count_tick_def taskSWITCH_DELAYED_LISTS_def)
  also have "\<dots> = Inr (?k\<lparr>xNextTaskUnblockTime := ?n\<rparr>)" by (subst reset_unblock_time_fields) simp
  finally have c: "count_tick k = Inr (?k\<lparr>xNextTaskUnblockTime := ?n\<rparr>)" .
  have "?n \<le> wake_time k t" if "t \<in> T" "state_list k t = Some ?q" for t
    using reset_unblock_time_le[OF sk that(1)] that(2) by simp
  then have "pre_time (?k\<lparr>xNextTaskUnblockTime := ?n\<rparr>) T" using none by (simp add: pre_time_def)
  with c True d(2) none show ?thesis
    by (intro exI[of _ ?q] exI[of _ ?d] exI[of _ ?n] exI[of _ "xNumOfOverflows k + 1"]) (auto simp: timed_def)
qed

text \<open>What a tick does: timeouts shorten by one, and those that are over make their task ready.\<close>

definition ticked :: "nat set \<Rightarrow> kernel \<Rightarrow> kernel \<Rightarrow> bool" where
  "ticked T k k' \<longleftrightarrow>
     xTickCount k' = xTickCount k + 1 \<and> tcbs k' = tcbs k \<and> pxCurrentTCB k' = pxCurrentTCB k \<and>
     uxSchedulerSuspended k' = uxSchedulerSuspended k \<and> xYieldPending k' = xYieldPending k \<and>
     (\<forall>t \<in> T.
       (timed k t \<and> ticks_left k t = 1 \<longrightarrow> state_list k' t = Some (prio k t) \<and> event_list k' t = None) \<and>
       (timed k t \<and> ticks_left k t \<noteq> 1 \<longrightarrow>
          timed k' t \<and> ticks_left k' t = ticks_left k t - 1 \<and> event_list k' t = event_list k t) \<and>
       (\<not> timed k t \<longrightarrow> state_list k' t = state_list k t \<and> event_list k' t = event_list k t))"

lemma ready_list_items:
  assumes ok: "struct_ok k E T L" and p: "p < 5"
  shows "set (L p) = xStateListItem ` {t \<in> T. state_list k t = Some p}"
proof (intro equalityI subsetI)
  note s = struct_okD[OF ok]
  have p': "p \<in> kernel_lists E" "p \<notin> insert 7 E" using p s(3) by (auto simp: sched_ok_def)
  fix x assume x: "x \<in> set (L p)"
  then have c: "pxContainer (lists k) x = Some p" using container_iff[OF s(1)] p' by simp
  have "x \<in> task_items T" using lists_okD(5)[OF s(1) p'(1)] x by blast
  moreover have "x \<noteq> xEventListItem t" if "t \<in> T" for t using sched_okD(8)[OF s(3) that] c p'(2) by auto
  ultimately show "x \<in> xStateListItem ` {t \<in> T. state_list k t = Some p}" using c by (auto simp: task_items_def)
qed (use container_iff[OF struct_okD(1)[OF ok]] in auto)

lemma ready_count:
  assumes ok: "struct_ok k E T L" and p: "p < 5"
  shows "unat (listCURRENT_LIST_LENGTH p (lists k)) = card {t \<in> T. state_list k t = Some p}"
proof -
  note s = struct_okD[OF ok]
  have p': "p \<in> kernel_lists E" using p by simp
  have "inj_on xStateListItem A" for A by (rule inj_onI) simp
  then have "length (L p) = card {t \<in> T. state_list k t = Some p}"
    using ready_list_items[OF ok p] distinct_card[OF lists_okD(6)[OF s(1) p']] by (simp add: card_image)
  then show ?thesis using list_length_word[OF s(1) p'] by simp
qed

lemma increment_tick_ok:
  assumes ok: "kernel_ok k E T" and "uxSchedulerSuspended k = 0" and c: "pxCurrentTCB k = Some c"
  shows "\<exists>k'. xTaskIncrementTick k =
      Inr ((\<exists>t \<in> T. timed k t \<and> ticks_left k t = 1 \<and> prio k t > prio k c) \<or>
           card {t \<in> T. state_list k' t = Some (prio k c)} > 1 \<or> xYieldPending k, k') \<and>
    kernel_ok k' E T \<and> ticked T k k'"
proof -
  obtain L where L: "struct_ok k E T L" "time_ok k T" using ok by (auto simp: kernel_ok_def)
  note s = struct_okD[OF L(1)]
  obtain d q n f k1 where ct: "count_tick k = Inr k1" and k1: "k1 = k\<lparr>xTickCount := xTickCount k + 1, pxDelayedTaskList := d,
      pxOverflowDelayedTaskList := q, xNumOfOverflows := f, xNextTaskUnblockTime := n\<rparr>"
    and dq: "{d, q} = {pxDelayedTaskList k, pxOverflowDelayedTaskList k}" "d \<noteq> q" and pre: "pre_time k1 T"
    and due: "\<forall>t \<in> T. timed k t \<longrightarrow> (state_list k t = Some d \<and> wake_time k t \<le> xTickCount k + 1 \<longleftrightarrow>
       wake_time k t = xTickCount k + 1)"
    using count_tick_ok[OF L] by blast
  have sk: "struct_ok k1 E T L"
    using s dq by (auto simp: k1 struct_ok_def sched_ok_def sorted_ok_def doubleton_eq_iff)
  obtain k' L' where k': "run_unblock (xTickCount k + 1) k1 =
        Inr (\<exists>t \<in> T. due k1 (xTickCount k + 1) t \<and> prio k1 t > prio k1 c, k')"
      "struct_ok k' E T L'" "unblocked (xTickCount k + 1) T k1 k'" "time_ok k' T"
  proof -
    have "pxCurrentTCB k1 = Some c" "xTickCount k + 1 = xTickCount k1" using c by (simp_all add: k1)
    from run_unblock_ok[OF sk pre this] that show ?thesis by blast
  qed
  note u = unblocked_fields[OF k'(3), unfolded k1, simplified]
  have due': "due k1 (xTickCount k + 1) t \<longleftrightarrow> timed k t \<and> ticks_left k t = 1" if "t \<in> T" for t
    using due that dq(1) unfolding ticks_left_1 by (auto simp: k1 due_def timed_def doubleton_eq_iff)
  have tm: "timed k' t \<longleftrightarrow> state_list k' t \<in> {Some (pxDelayedTaskList k), Some (pxOverflowDelayedTaskList k)}" for t
    using dq(1) unfolding timed_def u by (auto simp: doubleton_eq_iff)
  have "ticks_left k' t = ticks_left k t - 1" if "t \<in> T" "timed k t" for t
    using timed_wake_time[OF L(2) that] unblockedD(1)[OF k'(3)] u(5) by (intro ticks_left_step) (simp_all add: k1)
  moreover have "lists k1 = lists k" "tcbs k1 = tcbs k" by (simp_all add: k1)
  ultimately have "ticked T k k'"
    using unblockedD(2,3)[OF k'(3)] due' unfolding ticked_def tm u by (auto simp: timed_def)
  moreover have "kernel_ok k' E T" using k' by (auto simp: kernel_ok_def)
  moreover have "listCURRENT_LIST_LENGTH (prio k c) (lists k') > 1 \<longleftrightarrow>
      card {t \<in> T. state_list k' t = Some (prio k c)} > 1"
    using ready_count[OF k'(2), of "prio k c"] sched_okD(4)[OF s(3)] c s(3)
    by (auto simp: word_less_nat_alt sched_ok_def)
  moreover have "xTaskIncrementTick k = res_bind (count_tick k) (\<lambda>k1. res_bind (run_unblock (xTickCount k + 1) k1)
      (\<lambda>(sw, k). res_bind (current_priority k) (\<lambda>p. Inr (sw \<or> listCURRENT_LIST_LENGTH p (lists k) > 1 \<or> xYieldPending k, k))))"
    using assms(2) by (simp add: xTaskIncrementTick_def count_tick_def Let_def)
  moreover have "(\<exists>t \<in> T. due k1 (xTickCount k + 1) t \<and> prio k1 t > prio k1 c) \<longleftrightarrow>
      (\<exists>t \<in> T. timed k t \<and> ticks_left k t = 1 \<and> prio k t > prio k c)" using due' by (auto simp: k1)
  moreover have "current_priority k' = Inr (prio k c)" "xYieldPending k' = xYieldPending k"
    using c u by (simp_all add: current_priority_def current_def)
  ultimately show ?thesis by (intro exI[of _ k']) (simp add: ct k'(1))
qed

end
