(* ===== verification/Rtos_Switch.thy ===== *)
theory Rtos_Switch
  imports Rtos_Tick
begin

section \<open>Task selection\<close>

text \<open>
  The context switch takes a ready task of the highest priority, and repeated switches visit the ready
  tasks of that priority in turn.
\<close>

definition ready :: "kernel \<Rightarrow> nat \<Rightarrow> bool" where
  "ready k t \<longleftrightarrow> state_list k t = Some (prio k t)"

definition top_tasks :: "kernel \<Rightarrow> nat set \<Rightarrow> nat set" where
  "top_tasks k T = {t \<in> T. ready k t \<and> (\<forall>s \<in> T. ready k s \<longrightarrow> prio k s \<le> prio k t)}"

lemma top_ready_from_ok:
  assumes "\<And>q. q \<le> p \<Longrightarrow> listLIST_IS_EMPTY q h \<longleftrightarrow> L q = []" and "\<exists>q \<le> p. L q \<noteq> []"
  shows "\<exists>q \<le> p. top_ready_from h p = Inr q \<and> L q \<noteq> [] \<and> (\<forall>r. q < r \<and> r \<le> p \<longrightarrow> L r = [])"
  using assms
proof (induction p)
  case (Suc p)
  show ?case
  proof (cases "L (Suc p) = []")
    case True
    with Suc.prems(2) have "\<exists>q \<le> p. L q \<noteq> []" by (metis le_Suc_eq)
    with Suc True show ?thesis by (fastforce simp: le_Suc_eq)
  qed (use Suc.prems(1) in auto)
qed auto

lemma set_index_ok:
  assumes ok: "lists_ok h D T L" and l: "l \<in> D" "i \<in> set (L l)"
  shows "lists_ok (set_index l i h) D T L"
proof -
  have "is_list (set_index l i h) l' (L l')" if "l' \<in> D" for l'
  proof (cases "l' = l")
    case True
    then show ?thesis using set_index_is_list[OF lists_okD(4)[OF ok l(1)] l(2)] by simp
  next
    case False
    then show ?thesis by (intro is_list_cong[OF lists_okD(4)[OF ok that]]) (simp_all add: set_index_def)
  qed
  with ok show ?thesis by (simp add: lists_ok_def heap_lists_def set_index_def)
qed

lemma select_task_ok:
  assumes ok: "struct_ok k E T L" and r: "t0 \<in> T" "ready k t0"
  shows "\<exists>p i. p < 5 \<and> L p \<noteq> [] \<and> i = hd (rr_order (pxIndex (lists k) p) (L p)) \<and> i \<in> set (L p) \<and>
    set (L p) = xStateListItem ` top_tasks k T \<and>
    taskSELECT_HIGHEST_PRIORITY_TASK k =
      Inr (k\<lparr>lists := set_index p i (lists k), pxCurrentTCB := Some (pvOwner (lists k) i), uxTopReadyPriority := p\<rparr>)"
proof -
  note s = struct_okD[OF ok]
  let ?u = "uxTopReadyPriority k"
  have e: "listLIST_IS_EMPTY q (lists k) \<longleftrightarrow> L q = []" if "q \<le> ?u" for q
    using list_is_empty_iff[OF s(1)] that sched_okD(5)[OF s(3)] by simp
  have t: "state_list k t = Some p \<longleftrightarrow> ready k t \<and> prio k t = p" if "t \<in> T" "p < 5" for t p
    using sched_okD(7)[OF s(3) that(1)] that(2) by (auto simp: ready_def)
  have ne: "prio k a \<le> ?u \<and> L (prio k a) \<noteq> []" if "a \<in> T" "ready k a" for a
    using sched_okD(4,7)[OF s(3) that(1)] that(2) container_iff[OF s(1)] by (fastforce simp: ready_def)
  obtain p where p: "p \<le> ?u" "top_ready_from (lists k) ?u = Inr p" "L p \<noteq> []" "\<forall>r. p < r \<and> r \<le> ?u \<longrightarrow> L r = []"
    using top_ready_from_ok[of ?u "lists k" L] e ne[OF r] by blast
  have p5: "p < 5" using p(1) sched_okD(5)[OF s(3)] by simp
  have le: "prio k a \<le> p" if "a \<in> T" "ready k a" for a using ne[OF that] p(4) by (metis not_le)
  have items: "set (L p) = xStateListItem ` {a \<in> T. ready k a \<and> prio k a = p}"
    using ready_list_items[OF ok p5] t p5 by auto
  then obtain b where b: "b \<in> T" "ready k b" "prio k b = p" using p(3) by (cases "L p") auto
  have "top_tasks k T = {a \<in> T. ready k a \<and> prio k a = p}"
    using le b by (force simp: top_tasks_def intro: antisym)
  moreover define i where "i = hd (rr_order (pxIndex (lists k) p) (L p))"
  have il: "is_list (lists k) p (L p)" using lists_okD(4)[OF s(1)] p5 by simp
  then have "mset (rr_order (pxIndex (lists k) p) (L p)) = mset (L p)" by (intro set_rr_order) (simp add: is_list_def)
  then have "set (rr_order (pxIndex (lists k) p) (L p)) = set (L p)" by (rule mset_eq_setD)
  then have "i \<in> set (L p)" using p(3) unfolding i_def by (metis hd_in_set set_empty)
  moreover have "taskSELECT_HIGHEST_PRIORITY_TASK k =
      Inr (k\<lparr>lists := set_index p i (lists k), pxCurrentTCB := Some (pvOwner (lists k) i), uxTopReadyPriority := p\<rparr>)"
    using next_entry[OF il p(3)] by (simp add: taskSELECT_HIGHEST_PRIORITY_TASK_def p(2) i_def)
  ultimately show ?thesis using p5 p(3) items i_def by auto
qed

lemma switch_ok:
  assumes ok: "struct_ok k E T L" "time_ok k T" and r: "t0 \<in> T" "ready k t0" and "uxSchedulerSuspended k = 0"
  shows "\<exists>p t k'. vTaskSwitchContext k = Inr k' \<and> p < 5 \<and> L p \<noteq> [] \<and> set (L p) = xStateListItem ` top_tasks k T \<and>
    t \<in> top_tasks k T \<and> xStateListItem t = hd (rr_order (pxIndex (lists k) p) (L p)) \<and>
    k' = k\<lparr>lists := set_index p (xStateListItem t) (lists k), pxCurrentTCB := Some t, uxTopReadyPriority := p,
           xYieldPending := False\<rparr> \<and> struct_ok k' E T L \<and> time_ok k' T"
proof -
  note s = struct_okD[OF ok(1)]
  let ?k = "k\<lparr>xYieldPending := False\<rparr>"
  have ok': "struct_ok ?k E T L" using s by (simp add: struct_ok_def sched_ok_def sorted_ok_def)
  have top: "top_tasks ?k T = top_tasks k T" by (simp add: top_tasks_def ready_def)
  obtain p i where p: "p < 5" "L p \<noteq> []" "i = hd (rr_order (pxIndex (lists k) p) (L p))" "i \<in> set (L p)"
      "set (L p) = xStateListItem ` top_tasks k T"
      "taskSELECT_HIGHEST_PRIORITY_TASK ?k = Inr (?k\<lparr>lists := set_index p i (lists k),
         pxCurrentTCB := Some (pvOwner (lists k) i), uxTopReadyPriority := p\<rparr>)"
    using select_task_ok[OF ok' r(1)] r(2) top by (auto simp: ready_def)
  then obtain t where t: "t \<in> top_tasks k T" "i = xStateListItem t" by auto
  then have tT: "t \<in> T" by (simp add: top_tasks_def)
  define k' where "k' = k\<lparr>lists := set_index p (xStateListItem t) (lists k), pxCurrentTCB := Some t,
      uxTopReadyPriority := p, xYieldPending := False\<rparr>"
  have "vTaskSwitchContext k = Inr k'"
    using assms(5) p(6) t(2) lists_okD(7)[OF s(1) tT] by (simp add: vTaskSwitchContext_def k'_def)
  moreover have f: "pxContainer (lists k') = pxContainer (lists k)" "xItemValue (lists k') = xItemValue (lists k)"
      "lists_ok (lists k') (kernel_lists E) T L"
    using set_index_ok[OF s(1), of p i] p(1,4) t(2) by (simp_all add: k'_def set_index_def)
  moreover have "state_list k t = Some p" using container_iff[OF s(1), of "xStateListItem t" p] p(1,4) t(2) by simp
  then have tp: "prio k t = p" using sched_okD(7)[OF s(3) tT, of p] p(1) by simp
  have "l \<le> p" if "a \<in> T" "state_list k a = Some l" "l < 5" for a l
    using sched_okD(7)[OF s(3) that] t(1) that(1,2) unfolding top_tasks_def ready_def tp[symmetric] by auto
  then have "sched_ok k' E T"
    using s(3) p(1) tT unfolding sched_ok_def f by (auto simp: k'_def)
  moreover have "sorted_ok k' L" "time_ok k' T" using s(2) ok(2) unfolding sorted_ok_def time_ok_def f by (simp_all add: k'_def)
  ultimately show ?thesis using p t k'_def
    by (intro exI[of _ p] exI[of _ t] exI[of _ k']) (simp add: struct_ok_def)
qed

end
