(* ===== verification/Rtos_Delay.thy ===== *)
theory Rtos_Delay
  imports Rtos_Switch
begin

section \<open>Blocking and waking up\<close>

text \<open>
  Blocking the running task, resuming the scheduler with the tasks and ticks that arrived in the
  meantime, and sequences of the tick and the context-switch interrupt.
\<close>

subsection \<open>Updates that keep the lists\<close>

lemma struct_ok_upd_tcb:
  assumes "struct_ok k E T L" and "\<And>c. uxPriority (f c) = uxPriority c"
  shows "struct_ok (upd_tcb t f k) E T L"
  using assms by (auto simp: struct_ok_def sched_ok_def sorted_ok_def upd_tcb_def)

lemma upd_tcb_fields [simp]:
  "lists (upd_tcb t f k) = lists k" "pxDelayedTaskList (upd_tcb t f k) = pxDelayedTaskList k"
  "pxOverflowDelayedTaskList (upd_tcb t f k) = pxOverflowDelayedTaskList k" "xTickCount (upd_tcb t f k) = xTickCount k"
  "xNextTaskUnblockTime (upd_tcb t f k) = xNextTaskUnblockTime k" "pxCurrentTCB (upd_tcb t f k) = pxCurrentTCB k"
  "uxSchedulerSuspended (upd_tcb t f k) = uxSchedulerSuspended k" "tcbs (upd_tcb t f k) = (tcbs k)(t := f (tcbs k t))"
  by (simp_all add: upd_tcb_def)

lemma time_ok_cong:
  assumes "time_ok k T" and "\<And>t. t \<in> T \<Longrightarrow> state_list k' t = state_list k t \<or> state_list k' t \<notin> {Some 5, Some 6}"
    and "\<And>t. t \<in> T \<Longrightarrow> wake_time k' t = wake_time k t" and "sched_ok k E T"
    and "pxDelayedTaskList k' = pxDelayedTaskList k" "pxOverflowDelayedTaskList k' = pxOverflowDelayedTaskList k"
    and "xTickCount k' = xTickCount k" "xNextTaskUnblockTime k' \<le> xNextTaskUnblockTime k"
  shows "time_ok k' T"
  unfolding time_ok_def
proof (intro ballI)
  fix t assume t: "t \<in> T"
  have l: "pxDelayedTaskList k \<in> {5, 6}" "pxOverflowDelayedTaskList k \<in> {5, 6}" using sched_okD(1,2)[OF assms(4)] .
  show "(state_list k' t = Some (pxDelayedTaskList k') \<longrightarrow>
        xTickCount k' < wake_time k' t \<and> xNextTaskUnblockTime k' \<le> wake_time k' t) \<and>
     (state_list k' t = Some (pxOverflowDelayedTaskList k') \<longrightarrow> wake_time k' t < xTickCount k')"
    using assms(1) assms(2,3)[OF t] assms(5-8) l t unfolding time_ok_def by (auto intro: order.trans)
qed

subsection \<open>Blocking the running task\<close>

definition block_list :: "u32 \<Rightarrow> bool \<Rightarrow> kernel \<Rightarrow> nat" where
  "block_list n indef k =
     (if n = portMAX_DELAY \<and> indef then 9
      else if xTickCount k + n < xTickCount k then pxOverflowDelayedTaskList k else pxDelayedTaskList k)"

text \<open>What blocking does to the tasks.\<close>

definition blocked_for :: "u32 \<Rightarrow> bool \<Rightarrow> nat \<Rightarrow> kernel \<Rightarrow> kernel \<Rightarrow> bool" where
  "blocked_for n indef c k k' \<longleftrightarrow>
     k' = k\<lparr>lists := lists k', tcbs := (tcbs k)(c := (tcbs k c)\<lparr>ucDelayAborted := False\<rparr>),
           xNextTaskUnblockTime := xNextTaskUnblockTime k'\<rparr> \<and>
     pxContainer (lists k') = (pxContainer (lists k))(xStateListItem c := Some (block_list n indef k)) \<and>
     (if n = portMAX_DELAY \<and> indef then xItemValue (lists k') = xItemValue (lists k)
      else xItemValue (lists k') = (xItemValue (lists k))(xStateListItem c := xTickCount k + n))"

lemma set_value_struct_ok:
  assumes ok: "struct_ok k E T L" and "t \<in> T" "state_list k t = None"
  shows "struct_ok (set_item_value (xStateListItem t) v k) E T L"
proof -
  note s = struct_okD[OF ok]
  have "map ((xItemValue (lists k))(xStateListItem t := v)) (L l) = map (xItemValue (lists k)) (L l)"
    if "l \<in> {5, 6}" for l
    using container_NoneD[OF s(1) assms(3), of l] that by (intro map_fun_upd) auto
  from this[of 5] this[of 6] have "sorted_ok (set_item_value (xStateListItem t) v k) L"
    using s(2) unfolding sorted_ok_def set_item_value_def listSET_LIST_ITEM_VALUE_def
    by (simp del: fun_upd_apply map_eq_conv)
  with s set_value_ok[OF s(1), of "xStateListItem t" v] assms(2) show ?thesis
    by (simp add: struct_ok_def set_item_value_def sched_ok_def listSET_LIST_ITEM_VALUE_def)
qed

lemma insert_state_kernel:
  assumes ok: "struct_ok k E T L" and "t \<in> T" "state_list k t = None" "l < 10" "l \<ge> 5" "l \<noteq> 7"
  shows "\<exists>h L'. insert_sorted l (xStateListItem t) k = Inr (k\<lparr>lists := h\<rparr>) \<and> struct_ok (k\<lparr>lists := h\<rparr>) E T L' \<and>
     (\<forall>m. m \<noteq> l \<longrightarrow> L' m = L m) \<and> pxContainer h = (pxContainer (lists k))(xStateListItem t := Some l) \<and> xItemValue h = xItemValue (lists k)"
    and "l \<notin> {5, 6} \<Longrightarrow> \<exists>h L'. insert_end l (xStateListItem t) k = k\<lparr>lists := h\<rparr> \<and> struct_ok (k\<lparr>lists := h\<rparr>) E T L' \<and>
     (\<forall>m. m \<noteq> l \<longrightarrow> L' m = L m) \<and> pxContainer h = (pxContainer (lists k))(xStateListItem t := Some l) \<and> xItemValue h = xItemValue (lists k)"
proof -
  note s = struct_okD[OF ok]
  let ?x = "xStateListItem t"
  have sched: "sched_ok (k\<lparr>lists := h\<rparr>) E T" if "pxContainer h = (pxContainer (lists k))(?x := Some l)" for h
    using s(3) assms(4-6) by (auto simp: sched_ok_def that)
  obtain h where h: "vListInsert l ?x (lists k) = Some h" "pxContainer h = (pxContainer (lists k))(?x := Some l)"
      "lists_ok h (kernel_lists E) T (L(l := by_value (xItemValue (lists k)) ?x (L l)))" "xItemValue h = xItemValue (lists k)"
    using insert_sorted_ok[OF s(1), of l ?x] assms by auto
  have "sorted_ok (k\<lparr>lists := h\<rparr>) (L(l := by_value (xItemValue (lists k)) ?x (L l)))"
    using s(2) h(4) by (simp add: sorted_ok_def sorted_by_value)
  then show "\<exists>h L'. insert_sorted l ?x k = Inr (k\<lparr>lists := h\<rparr>) \<and> struct_ok (k\<lparr>lists := h\<rparr>) E T L' \<and>
     (\<forall>m. m \<noteq> l \<longrightarrow> L' m = L m) \<and> pxContainer h = (pxContainer (lists k))(?x := Some l) \<and> xItemValue h = xItemValue (lists k)"
    using h sched[OF h(2)] by (intro exI[of _ h] exI[of _ "L(l := by_value (xItemValue (lists k)) ?x (L l))"])
      (simp add: insert_sorted_def struct_ok_def)
  show "\<exists>h L'. insert_end l ?x k = k\<lparr>lists := h\<rparr> \<and> struct_ok (k\<lparr>lists := h\<rparr>) E T L' \<and>
     (\<forall>m. m \<noteq> l \<longrightarrow> L' m = L m) \<and> pxContainer h = (pxContainer (lists k))(?x := Some l) \<and> xItemValue h = xItemValue (lists k)" if "l \<notin> {5, 6}"
    using insert_end_ok[OF s(1), of l ?x] assms sched sorted_ok_other[OF s(2) _ that]
    by (intro exI[of _ "vListInsertEnd l ?x (lists k)"] exI[of _ "L(l := before_index (pxIndex (lists k) l) ?x (L l))"])
      (simp add: insert_end_def list_inline_variants struct_ok_def)
qed

lemma blocked_for_fields:
  assumes "blocked_for n indef c k k'"
  shows "pxCurrentTCB k' = pxCurrentTCB k" "pxDelayedTaskList k' = pxDelayedTaskList k"
    "pxOverflowDelayedTaskList k' = pxOverflowDelayedTaskList k" "xTickCount k' = xTickCount k"
    "xYieldPending k' = xYieldPending k" "uxSchedulerSuspended k' = uxSchedulerSuspended k"
    "xPendedTicks k' = xPendedTicks k" "uxCurrentNumberOfTasks k' = uxCurrentNumberOfTasks k"
    "tcbs k' = (tcbs k)(c := (tcbs k c)\<lparr>ucDelayAborted := False\<rparr>)"
proof -
  have e: "k' = k\<lparr>lists := lists k', tcbs := (tcbs k)(c := (tcbs k c)\<lparr>ucDelayAborted := False\<rparr>),
      xNextTaskUnblockTime := xNextTaskUnblockTime k'\<rparr>"
    using assms unfolding blocked_for_def by (elim conjE)
  show "pxCurrentTCB k' = pxCurrentTCB k" "pxDelayedTaskList k' = pxDelayedTaskList k"
    "pxOverflowDelayedTaskList k' = pxOverflowDelayedTaskList k" "xTickCount k' = xTickCount k"
    "xYieldPending k' = xYieldPending k" "uxSchedulerSuspended k' = uxSchedulerSuspended k"
    "xPendedTicks k' = xPendedTicks k" "uxCurrentNumberOfTasks k' = uxCurrentNumberOfTasks k"
    "tcbs k' = (tcbs k)(c := (tcbs k c)\<lparr>ucDelayAborted := False\<rparr>)"
    by (subst e, simp)+
qed

lemma block_current_ok:
  assumes ok: "struct_ok k E T L" "time_ok k T" and c: "pxCurrentTCB k = Some c" "state_list k c \<noteq> None" and n: "n \<noteq> 0"
  shows "\<exists>k' L'. prvAddCurrentTaskToDelayedList n indef k = Inr k' \<and> struct_ok k' E T L' \<and> time_ok k' T \<and>
    blocked_for n indef c k k' \<and> (\<forall>m \<in> E. L' m = L m)"
proof -
  let ?x = "xStateListItem c" and ?v = "xTickCount k + n"
  note s = struct_okD[OF ok(1)]
  define k1 where "k1 = upd_tcb c (ucDelayAborted_update (\<lambda>_. False)) k"
  have k1: "struct_ok k1 E T L" unfolding k1_def by (rule struct_ok_upd_tcb[OF ok(1)]) simp
  have cT: "c \<in> T" using s(3) c(1) by (auto simp: sched_ok_def)
  obtain l where l: "state_list k1 c = Some l" using c(2) by (auto simp: k1_def)
  obtain h m where h: "list_remove ?x k1 = Inr (m, k1\<lparr>lists := h\<rparr>)" "pxContainer h = (pxContainer (lists k))(?x := None)"
      "xItemValue h = xItemValue (lists k)" "struct_ok (k1\<lparr>lists := h\<rparr>) E T (L(l := remove1 ?x (L l)))"
    using list_remove_kernel[OF k1 l] cT by (auto simp: k1_def)
  let ?k2 = "k1\<lparr>lists := h\<rparr>" and ?k3 = "set_item_value ?x ?v (k1\<lparr>lists := h\<rparr>)"
  have none: "state_list ?k2 c = None" using h(2) by simp
  have k1f: "k1 = k\<lparr>tcbs := (tcbs k)(c := (tcbs k c)\<lparr>ucDelayAborted := False\<rparr>)\<rparr>" by (simp add: k1_def upd_tcb_def)
  have bl: "block_list n indef k < 10" "block_list n indef k \<ge> 5" "block_list n indef k \<noteq> 7"
    using sched_okD(1,2)[OF s(3)] by (auto simp: block_list_def)
  have other: "m \<noteq> l" "m \<noteq> block_list n indef k" if "m \<in> E" for m
    using that s(3) bl(1) sched_okD(6)[OF struct_okD(3)[OF k1] cT l] by (auto simp: sched_ok_def)
  note def = prvAddCurrentTaskToDelayedList_def current_def c(1) k1_def[symmetric]
  show ?thesis
  proof (cases "n = portMAX_DELAY \<and> indef")
    case True
    then have b: "block_list n indef k = 9" by (simp add: block_list_def)
    obtain h' L' where h': "insert_end 9 ?x ?k2 = k1\<lparr>lists := h'\<rparr>" "struct_ok (k1\<lparr>lists := h'\<rparr>) E T L'"
        "pxContainer h' = (pxContainer h)(?x := Some 9)" "xItemValue h' = xItemValue h"
        "\<forall>m. m \<noteq> 9 \<longrightarrow> L' m = (L(l := remove1 ?x (L l))) m"
      using insert_state_kernel(2)[OF h(4) cT none, of 9] by auto
    have "time_ok (k1\<lparr>lists := h'\<rparr>) T"
      by (rule time_ok_cong[OF ok(2) _ _ s(3)]) (auto simp: k1f h' h)
    moreover have "prvAddCurrentTaskToDelayedList n indef k = Inr (k1\<lparr>lists := h'\<rparr>)"
      using True h(1) h'(1) by (simp add: def xSuspendedTaskList_def)
    moreover have "blocked_for n indef c k (k1\<lparr>lists := h'\<rparr>)"
      using True by (auto simp: blocked_for_def block_list_def h' h k1f)
    moreover have "\<forall>m \<in> E. L' m = L m" using h'(5) other b by auto
    ultimately show ?thesis using h'(2) by blast
  next
    case False
    let ?l = "block_list n indef k"
    have nb: "?l = (if ?v < xTickCount k then pxOverflowDelayedTaskList k else pxDelayedTaskList k)"
      using False by (auto simp: block_list_def)
    obtain h' L' where h': "insert_sorted ?l ?x ?k3 = Inr (?k3\<lparr>lists := h'\<rparr>)" "struct_ok (?k3\<lparr>lists := h'\<rparr>) E T L'"
        "pxContainer h' = (pxContainer (lists ?k3))(?x := Some ?l)" "xItemValue h' = xItemValue (lists ?k3)"
        "\<forall>m. m \<noteq> ?l \<longrightarrow> L' m = (L(l := remove1 ?x (L l))) m"
      using insert_state_kernel(1)[OF set_value_struct_ok[OF h(4) cT none], of c ?v ?l] cT none bl
      by (auto simp: set_item_value_def listSET_LIST_ITEM_VALUE_def)
    have f: "pxContainer h' = (pxContainer (lists k))(?x := Some ?l)"
        "xItemValue h' = (xItemValue (lists k))(?x := ?v)" "?k3\<lparr>lists := h'\<rparr> = k1\<lparr>lists := h'\<rparr>"
      by (simp_all add: h' h set_item_value_def listSET_LIST_ITEM_VALUE_def)
    define nx where "nx = (if \<not> ?v < xTickCount k \<and> ?v < xNextTaskUnblockTime k then ?v else xNextTaskUnblockTime k)"
    let ?k = "k1\<lparr>lists := h', xNextTaskUnblockTime := nx\<rparr>"
    have "prvAddCurrentTaskToDelayedList n indef k = Inr ?k"
    proof -
      have q: "xTickCount k1 = xTickCount k" "pxDelayedTaskList k1 = pxDelayedTaskList k"
        "pxOverflowDelayedTaskList k1 = pxOverflowDelayedTaskList k" "xNextTaskUnblockTime k1 = xNextTaskUnblockTime k"
        "pxDelayedTaskList ?k3 = pxDelayedTaskList k" "pxOverflowDelayedTaskList ?k3 = pxOverflowDelayedTaskList k"
        "xTickCount ?k3 = xTickCount k" by (simp_all add: k1_def set_item_value_def)
      have "k1\<lparr>lists := h'\<rparr> = ?k" if "nx = xNextTaskUnblockTime k" using that q(4) by simp
      then show ?thesis
        using h'(1) nb unfolding def deref_simps res_bind_Inr Let_def h(1) prod.case if_not_P[OF False] f(3)
        by (cases "?v < xTickCount k") (auto simp: q nx_def)
    qed
    moreover have "struct_ok ?k E T L'" using h'(2) unfolding f(3) by (simp add: struct_ok_def sched_ok_def sorted_ok_def)
    moreover have "time_ok ?k T"
    proof -
      have ne: "pxDelayedTaskList k \<noteq> pxOverflowDelayedTaskList k" using sched_okD(3)[OF s(3)] .
      have "xTickCount k < ?v" if "\<not> ?v < xTickCount k" using that n by (simp add: order.not_eq_order_implies_strict)
      moreover have "nx \<le> ?v" if "\<not> ?v < xTickCount k" using that by (auto simp: nx_def)
      moreover have "nx \<le> xNextTaskUnblockTime k" by (auto simp: nx_def)
      ultimately show ?thesis
        using ok(2) nb ne unfolding time_ok_def by (auto simp: f(1,2) k1f intro: order.trans)
    qed
    moreover have "blocked_for n indef c k ?k"
      unfolding blocked_for_def if_not_P[OF False] by (simp add: f k1f)
    moreover have "\<forall>m \<in> E. L' m = L m" using h'(5) other by auto
    ultimately show ?thesis by blast
  qed
qed

subsection \<open>Tasks readied while the scheduler was suspended\<close>

definition placed :: "kernel \<Rightarrow> nat set \<Rightarrow> bool" where
  "placed k T \<longleftrightarrow> (\<forall>t \<in> T. state_list k t \<noteq> None)"

lemma event_head:
  assumes ok: "struct_ok k E T L" and l: "l \<in> insert 7 E" and ne: "L l \<noteq> []"
  obtains t where "t \<in> T" "hd (L l) = xEventListItem t" "listGET_OWNER_OF_HEAD_ENTRY l (lists k) = t"
    "event_list k t = Some l"
proof -
  note s = struct_okD[OF ok]
  have d: "l \<in> kernel_lists E" "l = 7 \<or> l \<ge> 10" using l s(3) by (auto simp: sched_ok_def)
  have c: "pxContainer (lists k) (hd (L l)) = Some l" using container_iff[OF s(1)] d(1) ne by simp
  have "hd (L l) \<in> task_items T" using lists_okD(5)[OF s(1) d(1)] ne by (meson hd_in_set subsetD)
  moreover have "hd (L l) \<noteq> xStateListItem t" if "t \<in> T" for t
    using s(3) that c d(2) by (fastforce simp: sched_ok_def)
  ultimately obtain t where t: "t \<in> T" "hd (L l) = xEventListItem t" by (auto simp: task_items_def)
  have "listGET_OWNER_OF_HEAD_ENTRY l (lists k) = t"
    using list_head[OF s(1) d(1) ne] t lists_okD(8)[OF s(1) t(1)] by (simp add: listGET_OWNER_OF_HEAD_ENTRY_def)
  with that t c show ?thesis by metis
qed

lemma move_pending_ok:
  assumes ok: "struct_ok k E T L" and t: "t \<in> T" "event_list k t = Some 7" "state_list k t \<noteq> None"
    and c: "pxCurrentTCB k = Some c"
  shows "\<exists>h u L'. move_pending t k =
      Inr (k\<lparr>lists := h, uxTopReadyPriority := u, xYieldPending := xYieldPending k \<or> prio k t \<ge> prio k c\<rparr>) \<and>
    struct_ok (k\<lparr>lists := h, uxTopReadyPriority := u, xYieldPending := xYieldPending k \<or> prio k t \<ge> prio k c\<rparr>) E T L' \<and>
    L' 7 = remove1 (xEventListItem t) (L 7) \<and>
    pxContainer h = (pxContainer (lists k))(xEventListItem t := None, xStateListItem t := Some (prio k t)) \<and>
    xItemValue h = xItemValue (lists k)"
proof -
  let ?x = "xStateListItem t" and ?e = "xEventListItem t"
  obtain l where l: "state_list k t = Some l" using t(3) by auto
  have l7: "l \<noteq> 7" using struct_okD(3)[OF ok] t(1) l by (auto simp: sched_ok_def)
  obtain h1 where h1: "remove_item ?e k = Inr (k\<lparr>lists := h1\<rparr>)" "struct_ok (k\<lparr>lists := h1\<rparr>) E T (L(7 := remove1 ?e (L 7)))"
      "pxContainer h1 = (pxContainer (lists k))(?e := None)" "xItemValue h1 = xItemValue (lists k)"
    using list_remove_kernel[OF ok t(2)] t(1) by auto
  obtain h2 where h2: "remove_item ?x (k\<lparr>lists := h1\<rparr>) = Inr (k\<lparr>lists := h2\<rparr>)"
      "struct_ok (k\<lparr>lists := h2\<rparr>) E T ((L(7 := remove1 ?e (L 7)))(l := remove1 ?x (L l)))"
      "pxContainer h2 = (pxContainer h1)(?x := None)" "xItemValue h2 = xItemValue h1"
    using list_remove_kernel[OF h1(2), of ?x l] t(1) l l7 h1(3) by auto
  obtain h u L' where h: "prvAddTaskToReadyList t (k\<lparr>lists := h2\<rparr>) = k\<lparr>lists := h, uxTopReadyPriority := u\<rparr>"
      "struct_ok (k\<lparr>lists := h, uxTopReadyPriority := u\<rparr>) E T L'"
      "\<forall>m. m \<ge> 5 \<longrightarrow> L' m = ((L(7 := remove1 ?e (L 7)))(l := remove1 ?x (L l))) m"
      "pxContainer h = (pxContainer h2)(?x := Some (prio k t))" "xItemValue h = xItemValue h2"
    using add_ready_kernel[OF h2(2) t(1)] h2(3) by auto
  let ?k = "k\<lparr>lists := h, uxTopReadyPriority := u, xYieldPending := xYieldPending k \<or> prio k t \<ge> prio k c\<rparr>"
  have "move_pending t k = Inr ?k"
    unfolding move_pending_def h1(1) h2(1) res_bind_Inr h(1) using c
    by (simp add: current_priority_def current_def Let_def)
  moreover have "struct_ok ?k E T L'" using h(2) by (simp add: struct_ok_def sched_ok_def sorted_ok_def)
  ultimately show ?thesis using h h1 h2 l7
    by (intro exI[of _ h] exI[of _ u] exI[of _ L']) (auto simp: fun_upd_twist)
qed

text \<open>The fields that moving tasks between lists does not change.\<close>

definition same_fields :: "kernel \<Rightarrow> kernel \<Rightarrow> bool" where
  "same_fields k k' \<longleftrightarrow>
     tcbs k' = tcbs k \<and> pxCurrentTCB k' = pxCurrentTCB k \<and> pxDelayedTaskList k' = pxDelayedTaskList k \<and>
     pxOverflowDelayedTaskList k' = pxOverflowDelayedTaskList k \<and> xTickCount k' = xTickCount k \<and>
     uxSchedulerSuspended k' = uxSchedulerSuspended k \<and> xPendedTicks k' = xPendedTicks k \<and>
     uxCurrentNumberOfTasks k' = uxCurrentNumberOfTasks k \<and> port_yield k' = port_yield k"

text \<open>What the loop over the pending list does.\<close>

definition drained :: "nat set \<Rightarrow> nat \<Rightarrow> kernel \<Rightarrow> kernel \<Rightarrow> bool" where
  "drained T c k k' \<longleftrightarrow>
     same_fields k k' \<and> xNextTaskUnblockTime k' = xNextTaskUnblockTime k \<and>
     xYieldPending k' = (xYieldPending k \<or> (\<exists>t \<in> T. event_list k t = Some 7 \<and> prio k t \<ge> prio k c)) \<and>
     xItemValue (lists k') = xItemValue (lists k) \<and>
     (\<forall>t \<in> T. event_list k' t = (if event_list k t = Some 7 then None else event_list k t) \<and>
        state_list k' t = (if event_list k t = Some 7 then Some (prio k t) else state_list k t))"

lemma drain_pending_ok:
  assumes "struct_ok k E T L" "placed k T" and "pxCurrentTCB k = Some c"
  shows "\<exists>k' L'. drain_pending moved k = Some (Inr (moved \<or> (\<exists>t \<in> T. event_list k t = Some 7), k')) \<and>
    struct_ok k' E T L' \<and> drained T c k k'"
  using assms
proof (induction "length (L 7)" arbitrary: k L moved rule: less_induct)
  case less
  note s = struct_okD[OF less.prems(1)]
  have e: "listLIST_IS_EMPTY xPendingReadyList (lists k) \<longleftrightarrow> L 7 = []"
    using list_is_empty_iff[OF s(1), of 7] by (simp add: xPendingReadyList_def)
  show ?case
  proof (cases "L 7 = []")
    case True
    then have "event_list k t \<noteq> Some 7" for t using container_iff[OF s(1)] by simp
    then have "drained T c k k" "\<not> (\<exists>t \<in> T. event_list k t = Some 7)" by (simp_all add: drained_def same_fields_def)
    then show ?thesis using True e less.prems(1) by (subst drain_pending.simps) auto
  next
    case False
    obtain t where t: "t \<in> T" "hd (L 7) = xEventListItem t" "listGET_OWNER_OF_HEAD_ENTRY xPendingReadyList (lists k) = t"
        "event_list k t = Some 7"
      using event_head[OF less.prems(1) _ False] by (auto simp: xPendingReadyList_def)
    obtain h u L1 k1 where k1: "move_pending t k = Inr k1"
        "k1 = k\<lparr>lists := h, uxTopReadyPriority := u, xYieldPending := xYieldPending k \<or> prio k t \<ge> prio k c\<rparr>"
        "struct_ok k1 E T L1" "L1 7 = remove1 (xEventListItem t) (L 7)"
        "pxContainer h = (pxContainer (lists k))(xEventListItem t := None, xStateListItem t := Some (prio k t))"
        "xItemValue h = xItemValue (lists k)"
      using move_pending_ok[OF less.prems(1) t(1,4) _ less.prems(3)] less.prems(2) t(1) unfolding placed_def by blast
    have "length (L1 7) < length (L 7)" using k1(4) t(2) False by (cases "L 7") auto
    moreover have "placed k1 T" "pxCurrentTCB k1 = Some c"
      using less.prems(2,3) by (auto simp: placed_def k1(2,5))
    ultimately obtain k' L' where r: "drain_pending True k1 = Some (Inr (True, k'))" "struct_ok k' E T L'" "drained T c k1 k'"
      using less.hyps[OF _ k1(3), of True] by auto
    have "drained T c k k'"
      using r(3) t(1,4) unfolding drained_def same_fields_def by (auto simp: k1(2,5,6))
    with r(1,2) t e False k1(1) show ?thesis by (subst drain_pending.simps) auto
  qed
qed

subsection \<open>Several ticks\<close>

definition elapsed :: "nat set \<Rightarrow> nat \<Rightarrow> kernel \<Rightarrow> kernel \<Rightarrow> bool" where
  "elapsed T n k k' \<longleftrightarrow>
     xTickCount k' = xTickCount k + of_nat n \<and> tcbs k' = tcbs k \<and>
     uxSchedulerSuspended k' = uxSchedulerSuspended k \<and>
     (\<forall>t \<in> T.
       (timed k t \<and> ticks_left k t \<le> n \<longrightarrow> ready k' t \<and> event_list k' t = None) \<and>
       (timed k t \<and> ticks_left k t > n \<longrightarrow>
          timed k' t \<and> ticks_left k' t = ticks_left k t - n \<and> event_list k' t = event_list k t) \<and>
       (\<not> timed k t \<longrightarrow> state_list k' t = state_list k t \<and> event_list k' t = event_list k t))"

lemma timed_iff: "sched_ok k E T \<Longrightarrow> timed k t \<longleftrightarrow> state_list k t \<in> {Some 5, Some 6}"
  by (auto simp: sched_ok_def timed_def)

lemma ready_not_timed: "sched_ok k E T \<Longrightarrow> t \<in> T \<Longrightarrow> ready k t \<Longrightarrow> \<not> timed k t"
  using sched_okD(4)[of k E T t] by (auto simp: timed_iff ready_def)

lemma elapsed_0: "time_ok k T \<Longrightarrow> elapsed T 0 k k"
  using ticks_left_pos[of k T] by (fastforce simp: elapsed_def)

lemma elapsed_tick:
  assumes e: "elapsed T n k k1" and t: "ticked T k1 k2" and ok: "sched_ok k E T" "sched_ok k1 E T"
  shows "elapsed T (Suc n) k k2"
  unfolding elapsed_def
proof (intro conjI ballI)
  show "xTickCount k2 = xTickCount k + of_nat (Suc n)" using e t by (simp add: elapsed_def ticked_def)
  show "tcbs k2 = tcbs k" using e t by (simp add: elapsed_def ticked_def)
  show "uxSchedulerSuspended k2 = uxSchedulerSuspended k" using e t by (simp add: elapsed_def ticked_def)
  fix a assume a: "a \<in> T"
  have k1: "tcbs k1 = tcbs k" "tcbs k2 = tcbs k" using e t by (simp_all add: elapsed_def ticked_def)
  have c: "timed k a \<and> ticks_left k a \<le> n \<longrightarrow> ready k1 a \<and> event_list k1 a = None"
    "timed k a \<and> ticks_left k a > n \<longrightarrow>
       timed k1 a \<and> ticks_left k1 a = ticks_left k a - n \<and> event_list k1 a = event_list k a"
    "\<not> timed k a \<longrightarrow> state_list k1 a = state_list k a \<and> event_list k1 a = event_list k a"
    using e a unfolding elapsed_def by blast+
  have d: "timed k1 a \<and> ticks_left k1 a = 1 \<longrightarrow> state_list k2 a = Some (prio k1 a) \<and> event_list k2 a = None"
    "timed k1 a \<and> ticks_left k1 a \<noteq> 1 \<longrightarrow>
       timed k2 a \<and> ticks_left k2 a = ticks_left k1 a - 1 \<and> event_list k2 a = event_list k1 a"
    "\<not> timed k1 a \<longrightarrow> state_list k2 a = state_list k1 a \<and> event_list k2 a = event_list k1 a"
    using t a unfolding ticked_def by blast+
  have nt: "ready k1 a \<Longrightarrow> \<not> timed k1 a" using ready_not_timed[OF ok(2) a] .
  show "timed k a \<and> ticks_left k a \<le> Suc n \<longrightarrow> ready k2 a \<and> event_list k2 a = None"
    using c(1,2) d(1,3) nt k1 by (cases "ticks_left k a \<le> n") (auto simp: ready_def le_Suc_eq)
  show "timed k a \<and> ticks_left k a > Suc n \<longrightarrow>
      timed k2 a \<and> ticks_left k2 a = ticks_left k a - Suc n \<and> event_list k2 a = event_list k a"
    using c(2) d(2) by auto
  show "\<not> timed k a \<longrightarrow> state_list k2 a = state_list k a \<and> event_list k2 a = event_list k a"
    using c(3) d(3) by (simp add: timed_iff[OF ok(1)] timed_iff[OF ok(2)])
qed

text \<open>A step that keeps the tasks where they are.\<close>

lemma elapsed_same:
  assumes "elapsed T n k k1" and "tcbs k2 = tcbs k1" "uxSchedulerSuspended k2 = uxSchedulerSuspended k1"
    "xTickCount k2 = xTickCount k1" "pxContainer (lists k2) = pxContainer (lists k1)"
    "xItemValue (lists k2) = xItemValue (lists k1)" "pxDelayedTaskList k2 = pxDelayedTaskList k1"
    "pxOverflowDelayedTaskList k2 = pxOverflowDelayedTaskList k1"
  shows "elapsed T n k k2"
proof -
  have "timed k2 = timed k1" "ticks_left k2 = ticks_left k1" "ready k2 = ready k1"
    using assms by (simp_all add: fun_eq_iff timed_def ticks_left_def ready_def)
  with assms show ?thesis by (simp add: elapsed_def)
qed

lemma task_view_simps [simp]:
  "timed (k\<lparr>xNextTaskUnblockTime := n\<rparr>) = timed k" "ticks_left (k\<lparr>xNextTaskUnblockTime := n\<rparr>) = ticks_left k"
  "timed (k\<lparr>uxSchedulerSuspended := w\<rparr>) = timed k" "ticks_left (k\<lparr>uxSchedulerSuspended := w\<rparr>) = ticks_left k"
  "timed (k\<lparr>port_yield := b\<rparr>) = timed k" "ticks_left (k\<lparr>port_yield := b\<rparr>) = ticks_left k"
  "ready (k\<lparr>port_yield := b\<rparr>) = ready k"
  by (simp_all add: fun_eq_iff timed_def ticks_left_def ready_def)

lemma kernel_ok_simp_fields:
  assumes "kernel_ok k E T"
  shows "kernel_ok (k\<lparr>xYieldPending := y\<rparr>) E T" "kernel_ok (k\<lparr>port_yield := z\<rparr>) E T"
    "kernel_ok (k\<lparr>xPendedTicks := n\<rparr>) E T" "kernel_ok (k\<lparr>uxSchedulerSuspended := m\<rparr>) E T"
  using assms by (simp_all add: kernel_ok_def struct_ok_def sched_ok_def sorted_ok_def time_ok_def)

lemma kernel_ok_sched: "kernel_ok k E T \<Longrightarrow> sched_ok k E T"
  by (auto simp: kernel_ok_def struct_ok_def)

lemma pended_ticks_snoc:
  "pended_ticks (Suc n) k = res_bind (pended_ticks n k) (\<lambda>k. res_bind (xTaskIncrementTick k)
      (\<lambda>(sw, k). Inr (if sw then k\<lparr>xYieldPending := True\<rparr> else k)))"
proof (induction n arbitrary: k)
  case (Suc n)
  show ?case
    unfolding pended_ticks.simps(2)[of "Suc n"] unfolding pended_ticks.simps(2)[of n k] unfolding Suc.IH
    by (cases "xTaskIncrementTick k") (auto simp del: pended_ticks.simps)
qed simp

lemma pended_ticks_ok:
  assumes "kernel_ok k E T" "uxSchedulerSuspended k = 0"
  shows "\<exists>k'. pended_ticks n k = Inr k' \<and> kernel_ok k' E T \<and> elapsed T n k k' \<and> pxCurrentTCB k' = pxCurrentTCB k"
  using assms
proof (induction n)
  case 0
  then show ?case using elapsed_0 by (auto simp: kernel_ok_def)
next
  case (Suc n)
  obtain k1 where k1: "pended_ticks n k = Inr k1" "kernel_ok k1 E T" "elapsed T n k k1" "pxCurrentTCB k1 = pxCurrentTCB k"
    using Suc by blast
  have "uxSchedulerSuspended k1 = 0" using k1(3) Suc.prems(2) by (simp add: elapsed_def)
  moreover obtain c where "pxCurrentTCB k1 = Some c" using kernel_ok_sched[OF k1(2)] by (auto simp: sched_ok_def)
  ultimately obtain sw k2 where k2: "xTaskIncrementTick k1 = Inr (sw, k2)" "kernel_ok k2 E T" "ticked T k1 k2"
    using increment_tick_ok[OF k1(2)] by blast
  let ?k = "if sw then k2\<lparr>xYieldPending := True\<rparr> else k2"
  have "elapsed T (Suc n) k k2" using elapsed_tick[OF k1(3) k2(3)] kernel_ok_sched Suc.prems(1) k1(2) by blast
  then have "elapsed T (Suc n) k ?k" by (rule elapsed_same) simp_all
  moreover have "kernel_ok ?k E T" using k2(2) kernel_ok_simp_fields(1) by auto
  moreover have "pxCurrentTCB ?k = pxCurrentTCB k" using k1(4) k2(3) by (simp add: ticked_def)
  ultimately show ?case unfolding pended_ticks_snoc by (simp add: k1(1) k2(1))
qed

subsection \<open>Resuming the scheduler\<close>

lemma drained_fields:
  assumes "drained T c k k'"
  shows "tcbs k' = tcbs k" "pxCurrentTCB k' = pxCurrentTCB k" "pxDelayedTaskList k' = pxDelayedTaskList k"
    "pxOverflowDelayedTaskList k' = pxOverflowDelayedTaskList k" "xTickCount k' = xTickCount k"
    "uxSchedulerSuspended k' = uxSchedulerSuspended k" "xPendedTicks k' = xPendedTicks k"
    "xNextTaskUnblockTime k' = xNextTaskUnblockTime k" "xItemValue (lists k') = xItemValue (lists k)"
    and "t \<in> T \<Longrightarrow> event_list k' t = (if event_list k t = Some 7 then None else event_list k t)"
    and "t \<in> T \<Longrightarrow> state_list k' t = (if event_list k t = Some 7 then Some (prio k t) else state_list k t)"
  using assms unfolding drained_def same_fields_def by blast+

lemma reset_unblock_ok:
  assumes "struct_ok k E T L" "time_ok k T"
  shows "struct_ok (prvResetNextTaskUnblockTime k) E T L" "time_ok (prvResetNextTaskUnblockTime k) T"
proof -
  define n where "n = xNextTaskUnblockTime (prvResetNextTaskUnblockTime k)"
  have e: "prvResetNextTaskUnblockTime k = k\<lparr>xNextTaskUnblockTime := n\<rparr>"
    unfolding n_def by (rule reset_unblock_time_fields)
  show "struct_ok (prvResetNextTaskUnblockTime k) E T L"
    using assms(1) unfolding e by (simp add: struct_ok_def sched_ok_def sorted_ok_def)
  show "time_ok (prvResetNextTaskUnblockTime k) T"
    using assms(2) reset_unblock_time_le[OF assms(1)] unfolding e time_ok_def by simp
qed

text \<open>The tasks after the scheduler is resumed with \<open>n\<close> ticks pended.\<close>

definition resumed :: "nat set \<Rightarrow> nat \<Rightarrow> kernel \<Rightarrow> kernel \<Rightarrow> bool" where
  "resumed T n k k' \<longleftrightarrow>
     xTickCount k' = xTickCount k + of_nat n \<and> tcbs k' = tcbs k \<and> pxCurrentTCB k' = pxCurrentTCB k \<and>
     xPendedTicks k' = 0 \<and> uxSchedulerSuspended k' = 0 \<and>
     (\<forall>t \<in> T.
       (event_list k t = Some 7 \<or> timed k t \<and> ticks_left k t \<le> n \<longrightarrow> ready k' t \<and> event_list k' t = None) \<and>
       (event_list k t \<noteq> Some 7 \<and> timed k t \<and> ticks_left k t > n \<longrightarrow>
          timed k' t \<and> ticks_left k' t = ticks_left k t - n \<and> event_list k' t = event_list k t) \<and>
       (event_list k t \<noteq> Some 7 \<and> \<not> timed k t \<longrightarrow> state_list k' t = state_list k t \<and> event_list k' t = event_list k t))"

lemma resumed_compose:
  assumes d: "drained T c k kd" and e: "elapsed T n kd k'" and ok: "sched_ok kd E T" and f: "pxCurrentTCB k' = pxCurrentTCB k"
    "xPendedTicks k' = 0" "uxSchedulerSuspended k' = 0"
  shows "resumed T n k k'"
  unfolding resumed_def
proof (intro conjI ballI)
  note df = drained_fields[OF d]
  show "xTickCount k' = xTickCount k + of_nat n" "tcbs k' = tcbs k" using e df(1,5) by (simp_all add: elapsed_def)
  fix t assume t: "t \<in> T"
  have ev: "(timed kd t \<and> ticks_left kd t \<le> n \<longrightarrow> ready k' t \<and> event_list k' t = None) \<and>
       (timed kd t \<and> ticks_left kd t > n \<longrightarrow>
          timed k' t \<and> ticks_left k' t = ticks_left kd t - n \<and> event_list k' t = event_list kd t) \<and>
       (\<not> timed kd t \<longrightarrow> state_list k' t = state_list kd t \<and> event_list k' t = event_list kd t)"
    using e t unfolding elapsed_def by blast
  have tk: "tcbs k' = tcbs kd" "tcbs kd = tcbs k" using e df(1) by (simp_all add: elapsed_def)
  have l: "ticks_left kd t = ticks_left k t" using df(5,9) by (simp add: ticks_left_def)
  have p: "event_list k t = Some 7 \<Longrightarrow> ready kd t" using df(1,11) t by (simp add: ready_def)
  have np: "event_list k t \<noteq> Some 7 \<Longrightarrow> timed kd t = timed k t" using df(3,4,11) t by (simp add: timed_def)
  show "event_list k t = Some 7 \<or> timed k t \<and> ticks_left k t \<le> n \<longrightarrow> ready k' t \<and> event_list k' t = None"
  proof (cases "event_list k t = Some 7")
    case True
    then have "\<not> timed kd t" using p ready_not_timed[OF ok t] by blast
    then show ?thesis using ev p[OF True] df(10)[OF t] True tk(1) by (simp add: ready_def)
  next
    case False
    then show ?thesis using ev np[OF False] l by auto
  qed
  show "event_list k t \<noteq> Some 7 \<and> timed k t \<and> ticks_left k t > n \<longrightarrow>
          timed k' t \<and> ticks_left k' t = ticks_left k t - n \<and> event_list k' t = event_list k t"
    using ev np l df(10)[OF t] by auto
  show "event_list k t \<noteq> Some 7 \<and> \<not> timed k t \<longrightarrow> state_list k' t = state_list k t \<and> event_list k' t = event_list k t"
    using ev np df(10,11)[OF t] by auto
qed (use f in simp_all)

lemma drain_reset_ok:
  assumes L: "struct_ok k E T L" "time_ok k T" and p: "placed k T" and c: "pxCurrentTCB k = Some c"
  defines "moved \<equiv> \<exists>t \<in> T. event_list k t = Some 7"
  shows "\<exists>kd m. drain_pending False k = Some (Inr (moved, kd)) \<and> drained T c k kd \<and> sched_ok kd E T \<and>
    (if moved then prvResetNextTaskUnblockTime kd else kd) = kd\<lparr>xNextTaskUnblockTime := m\<rparr> \<and>
    kernel_ok (kd\<lparr>xNextTaskUnblockTime := m\<rparr>) E T"
proof -
  obtain kd L1 where kd: "drain_pending False k = Some (Inr (moved, kd))" "struct_ok kd E T L1" "drained T c k kd"
    using drain_pending_ok[OF L(1) p c, of False] by (auto simp: moved_def)
  note df = drained_fields[OF kd(3)]
  have tm: "time_ok kd T"
  proof (rule time_ok_cong[OF L(2) _ _ struct_okD(3)[OF L(1)]])
    fix t assume t: "t \<in> T"
    show "state_list kd t = state_list k t \<or> state_list kd t \<notin> {Some 5, Some 6}"
      using df(11)[OF t] sched_okD(4)[OF struct_okD(3)[OF L(1)] t] by auto
  qed (use df in simp_all)
  define m where "m = xNextTaskUnblockTime (if moved then prvResetNextTaskUnblockTime kd else kd)"
  have e: "(if moved then prvResetNextTaskUnblockTime kd else kd) = kd\<lparr>xNextTaskUnblockTime := m\<rparr>"
    unfolding m_def by (cases moved) (simp_all flip: reset_unblock_time_fields)
  then have "kernel_ok (kd\<lparr>xNextTaskUnblockTime := m\<rparr>) E T"
    using reset_unblock_ok[OF kd(2) tm] kd(2) tm by (auto simp: kernel_ok_def simp flip: e)
  with kd e struct_okD(3)[OF kd(2)] show ?thesis by blast
qed

lemma resume_all_ok:
  assumes ok: "kernel_ok k E T" "placed k T" and "uxSchedulerSuspended k = 1" "uxCurrentNumberOfTasks k > 0"
  shows "\<exists>k'. xTaskResumeAll k = Inr (xYieldPending k', k') \<and> kernel_ok k' E T \<and>
    resumed T (unat (xPendedTicks k)) k k' \<and> (xYieldPending k' \<longrightarrow> port_yield k')"
proof -
  let ?n = "unat (xPendedTicks k)"
  obtain c where c: "pxCurrentTCB k = Some c" using kernel_ok_sched[OF ok(1)] by (auto simp: sched_ok_def)
  define k0 where "k0 = k\<lparr>uxSchedulerSuspended := 0\<rparr>"
  have "kernel_ok k0 E T" unfolding k0_def by (rule kernel_ok_simp_fields(4)[OF ok(1)])
  then obtain L where L: "struct_ok k0 E T L" "time_ok k0 T" by (auto simp: kernel_ok_def)
  have "placed k0 T" "pxCurrentTCB k0 = Some c" using ok(2) c by (simp_all add: k0_def placed_def)
  then obtain kd m where kd: "drain_pending False k0 = Some (Inr (\<exists>t \<in> T. event_list k0 t = Some 7, kd))"
      "drained T c k0 kd" "sched_ok kd E T" "kernel_ok (kd\<lparr>xNextTaskUnblockTime := m\<rparr>) E T"
      "(if \<exists>t \<in> T. event_list k0 t = Some 7 then prvResetNextTaskUnblockTime kd else kd) = kd\<lparr>xNextTaskUnblockTime := m\<rparr>"
    using drain_reset_ok[OF L] by blast
  let ?kr = "kd\<lparr>xNextTaskUnblockTime := m\<rparr>"
  have r: "xPendedTicks ?kr = xPendedTicks k" "uxSchedulerSuspended ?kr = 0" "pxCurrentTCB ?kr = pxCurrentTCB k"
    using drained_fields[OF kd(2)] by (simp_all add: k0_def)
  obtain k1 where k1: "pended_ticks ?n ?kr = Inr k1" "kernel_ok k1 E T" "elapsed T ?n ?kr k1" "pxCurrentTCB k1 = pxCurrentTCB k"
    using pended_ticks_ok[OF kd(4) r(2), of ?n] r(3) by auto
  define k' where "k' = k1\<lparr>xPendedTicks := 0, port_yield := port_yield k1 \<or> xYieldPending k1\<rparr>"
  have z: "?kr\<lparr>xPendedTicks := 0\<rparr> = ?kr" if "xPendedTicks k = 0" using r(1) that by simp
  have "xTaskResumeAll k = resume_tasks k0" using assms(3,4) by (simp add: xTaskResumeAll_def k0_def)
  also have "\<dots> = Inr (xYieldPending k', k')"
    unfolding resume_tasks_def kd(1) option.case res_bind_Inr prod.case Let_def kd(5) r(1)
    using k1(1) z by (cases "xPendedTicks k = 0") (auto simp: k'_def portYIELD_WITHIN_API_def word_gt_0)
  finally have x: "xTaskResumeAll k = Inr (xYieldPending k', k')" .
  have "elapsed T ?n kd k1" using k1(3) by (simp add: elapsed_def)
  then have "elapsed T ?n kd k'" by (rule elapsed_same) (simp_all add: k'_def)
  moreover have "pxCurrentTCB k' = pxCurrentTCB k0" "xPendedTicks k' = 0" "uxSchedulerSuspended k' = 0"
    using k1(3,4) r(2) by (simp_all add: k'_def k0_def elapsed_def)
  ultimately have "resumed T ?n k0 k'" using resumed_compose[OF kd(2) _ kd(3)] by blast
  then have "resumed T ?n k k'" by (simp add: resumed_def k0_def)
  moreover have "kernel_ok k' E T" unfolding k'_def by (intro kernel_ok_simp_fields k1(2))
  moreover have "xYieldPending k' \<longrightarrow> port_yield k'" by (simp add: k'_def)
  ultimately show ?thesis using x by blast
qed

subsection \<open>Delays\<close>

lemma blocked_ticks_left:
  assumes "blocked_for n indef c k k'" "sched_ok k E T" "\<not> (n = portMAX_DELAY \<and> indef)"
  shows "timed k' c" "ticks_left k' c = unat n"
proof -
  note f = blocked_for_fields[OF assms(1)]
  have "state_list k' c = Some (block_list n indef k)" "wake_time k' c = xTickCount k + n"
    using assms(1,3) by (auto simp: blocked_for_def split: if_splits)
  moreover have "block_list n indef k \<in> {pxDelayedTaskList k, pxOverflowDelayedTaskList k}"
    using assms(3) by (auto simp: block_list_def)
  ultimately show "timed k' c" "ticks_left k' c = unat n" using f by (auto simp: timed_def ticks_left_def)
qed

lemma resumed_0_ready:
  assumes r: "resumed T 0 k k'" and ok: "kernel_ok k E T" "kernel_ok k' E T" and t: "t \<in> T" "event_list k t \<noteq> Some 7"
  shows "ready k' t = ready k t"
proof (cases "timed k t")
  case True
  then have "0 < ticks_left k t" using ticks_left_pos t(1) ok(1) by (auto simp: kernel_ok_def)
  then have "timed k' t" using r t True unfolding resumed_def by blast
  then show ?thesis using True ready_not_timed kernel_ok_sched ok t(1) by blast
next
  case False
  then have "state_list k' t = state_list k t" "tcbs k' = tcbs k" using r t unfolding resumed_def by blast+
  then show ?thesis by (simp add: ready_def)
qed

lemma task_delay_ok:
  assumes ok: "kernel_ok k E T" "placed k T" and c: "pxCurrentTCB k = Some c" and n: "n \<noteq> 0"
    and k: "uxSchedulerSuspended k = 0" "xPendedTicks k = 0" "uxCurrentNumberOfTasks k > 0"
    and q: "\<And>t. t \<in> T \<Longrightarrow> event_list k t \<noteq> Some 7"
  shows "\<exists>k'. vTaskDelay n k = Inr k' \<and> kernel_ok k' E T \<and> timed k' c \<and> ticks_left k' c = unat n \<and>
    port_yield k' \<and> uxSchedulerSuspended k' = 0 \<and> (\<forall>t \<in> T. t \<noteq> c \<longrightarrow> ready k' t = ready k t)"
proof -
  let ?k = "vTaskSuspendAll k"
  have ok': "kernel_ok ?k E T" unfolding vTaskSuspendAll_def by (rule kernel_ok_simp_fields(4)[OF ok(1)])
  then obtain L where L: "struct_ok ?k E T L" "time_ok ?k T" by (auto simp: kernel_ok_def)
  have cT: "c \<in> T" using kernel_ok_sched[OF ok(1)] c by (auto simp: sched_ok_def)
  have c': "pxCurrentTCB ?k = Some c" "state_list ?k c \<noteq> None"
    using c ok(2) cT by (simp_all add: vTaskSuspendAll_def placed_def)
  obtain k1 L1 where k1: "prvAddCurrentTaskToDelayedList n False ?k = Inr k1" "struct_ok k1 E T L1" "time_ok k1 T"
      "blocked_for n False c ?k k1"
    using block_current_ok[OF L c' n] by blast
  note f = blocked_for_fields[OF k1(4)]
  have bt: "timed k1 c" "ticks_left k1 c = unat n" using blocked_ticks_left[OF k1(4) struct_okD(3)[OF L(1)]] by auto
  have cont: "pxContainer (lists k1) = (pxContainer (lists k))(xStateListItem c := Some (block_list n False ?k))"
    using k1(4) by (simp add: blocked_for_def vTaskSuspendAll_def)
  then have p1: "placed k1 T" using ok(2) by (simp add: placed_def)
  have "kernel_ok k1 E T" using k1(2,3) by (auto simp: kernel_ok_def)
  then obtain k2 where k2: "xTaskResumeAll k1 = Inr (xYieldPending k2, k2)" "kernel_ok k2 E T" "resumed T 0 k1 k2"
      "xYieldPending k2 \<longrightarrow> port_yield k2"
    using resume_all_ok[OF _ p1] f k by (auto simp: vTaskSuspendAll_def)
  define k' where "k' = k2\<lparr>port_yield := True\<rparr>"
  have "vTaskDelay n k = Inr k'"
    using k1(1) k2(1,4) k(1) n by (auto simp: vTaskDelay_def k'_def portYIELD_WITHIN_API_def word_gt_0)
  moreover have "kernel_ok k' E T" unfolding k'_def by (rule kernel_ok_simp_fields(2)[OF k2(2)])
  moreover have ev: "event_list k1 t \<noteq> Some 7" if "t \<in> T" for t using q[OF that] cont by simp
  have "0 < ticks_left k1 c" using bt(2) n by (simp add: unat_gt_0)
  then have "timed k2 c" "ticks_left k2 c = unat n" using k2(3) cT ev[OF cT] bt unfolding resumed_def by auto
  then have "timed k' c" "ticks_left k' c = unat n" by (simp_all add: k'_def timed_def ticks_left_def)
  moreover have "ready k' t = ready k t" if "t \<in> T" "t \<noteq> c" for t
  proof -
    have "ready k1 t = ready k t" using that(2) cont f(9) by (simp add: ready_def vTaskSuspendAll_def)
    then show ?thesis using resumed_0_ready[OF k2(3) \<open>kernel_ok k1 E T\<close> k2(2) that(1) ev[OF that(1)]]
      by (simp add: k'_def ready_def)
  qed
  moreover have "port_yield k'" "uxSchedulerSuspended k' = 0" using k2(3) by (simp_all add: k'_def resumed_def)
  ultimately show ?thesis by blast
qed

end
