(* ===== verification/Rtos_Sched_Props.thy ===== *)
theory Rtos_Sched_Props
  imports Rtos_Delay
begin

section \<open>Properties of the scheduler\<close>

text \<open>
  What applications rely on: which task runs, when a delayed task wakes up, what happens to the ticks
  and events that arrive while the scheduler is suspended, and the meaning of a timeout.
\<close>

subsection \<open>Sequences of interrupts\<close>

datatype irq = SysTick | PendSV

fun run_irq :: "irq \<Rightarrow> kernel \<Rightarrow> kernel res" where
  "run_irq SysTick k = xPortSysTickHandler k"
| "run_irq PendSV k = xPortPendSVHandler k"

fun run_irqs :: "irq list \<Rightarrow> kernel \<Rightarrow> kernel res" where
  "run_irqs [] k = Inr k"
| "run_irqs (i # is) k = res_bind (run_irq i k) (run_irqs is)"

lemma run_irqs_snoc: "run_irqs (is @ [i]) k = res_bind (run_irqs is k) (run_irq i)"
  by (induction "is" arbitrary: k) (simp_all add: res_bind_def split: sum.split)

lemma pendsv_ok:
  assumes ok: "kernel_ok k E T" and r: "t0 \<in> T" "ready k t0" and "uxSchedulerSuspended k = 0"
  shows "\<exists>k'. xPortPendSVHandler k = Inr k' \<and> kernel_ok k' E T \<and> tcbs k' = tcbs k \<and>
    uxSchedulerSuspended k' = uxSchedulerSuspended k \<and> xTickCount k' = xTickCount k \<and>
    pxContainer (lists k') = pxContainer (lists k) \<and> xItemValue (lists k') = xItemValue (lists k) \<and>
    pxDelayedTaskList k' = pxDelayedTaskList k \<and> pxOverflowDelayedTaskList k' = pxOverflowDelayedTaskList k"
proof -
  let ?k = "k\<lparr>port_yield := False\<rparr>"
  obtain L where L: "struct_ok ?k E T L" "time_ok ?k T"
    using kernel_ok_simp_fields(2)[OF ok, of False] by (auto simp: kernel_ok_def)
  obtain p t k' where "vTaskSwitchContext ?k = Inr k'" "struct_ok k' E T L" "time_ok k' T"
      "k' = ?k\<lparr>lists := set_index p (xStateListItem t) (lists k), pxCurrentTCB := Some t, uxTopReadyPriority := p,
           xYieldPending := False\<rparr>"
    using switch_ok[OF L r(1)] r(2) assms(4) by auto
  then show ?thesis by (intro exI[of _ k']) (auto simp: xPortPendSVHandler_def kernel_ok_def set_index_def)
qed

lemma systick_ok:
  assumes ok: "kernel_ok k E T" and "uxSchedulerSuspended k = 0"
  shows "\<exists>k'. xPortSysTickHandler k = Inr k' \<and> kernel_ok k' E T \<and> ticked T k k'"
proof -
  obtain c where "pxCurrentTCB k = Some c" using kernel_ok_sched[OF ok] by (auto simp: sched_ok_def)
  then obtain sw k1 where k1: "xTaskIncrementTick k = Inr (sw, k1)" "kernel_ok k1 E T" "ticked T k k1"
    using increment_tick_ok[OF ok assms(2)] by blast
  have "ticked T k (k1\<lparr>port_yield := True\<rparr>)" using k1(3) by (simp add: ticked_def)
  then show ?thesis using k1 kernel_ok_simp_fields(2)[OF k1(2)] by (cases sw) (auto simp: xPortSysTickHandler_def)
qed

lemma run_irqs_ok:
  assumes ok: "kernel_ok k E T" and r: "t0 \<in> T" "ready k t0" and s: "uxSchedulerSuspended k = 0"
  shows "\<exists>k'. run_irqs is k = Inr k' \<and> kernel_ok k' E T \<and> elapsed T (count_list is SysTick) k k'"
proof (induction "is" rule: rev_induct)
  case Nil
  then show ?case using ok elapsed_0 by (auto simp: kernel_ok_def)
next
  case (snoc i "is")
  then obtain k1 where k1: "run_irqs is k = Inr k1" "kernel_ok k1 E T" "elapsed T (count_list is SysTick) k k1" by blast
  have s1: "uxSchedulerSuspended k1 = 0" using k1(3) s by (simp add: elapsed_def)
  have r1: "ready k1 t0"
    using k1(3) r ready_not_timed[OF kernel_ok_sched[OF ok] r] by (simp add: elapsed_def ready_def)
  show ?case
  proof (cases i)
    case SysTick
    obtain k2 where k2: "xPortSysTickHandler k1 = Inr k2" "kernel_ok k2 E T" "ticked T k1 k2"
      using systick_ok[OF k1(2) s1] by blast
    with elapsed_tick[OF k1(3) k2(3) kernel_ok_sched[OF ok] kernel_ok_sched[OF k1(2)]] SysTick k1(1)
    show ?thesis by (simp add: run_irqs_snoc)
  next
    case PendSV
    obtain k2 where k2: "xPortPendSVHandler k1 = Inr k2" "kernel_ok k2 E T"
        "tcbs k2 = tcbs k1" "uxSchedulerSuspended k2 = uxSchedulerSuspended k1" "xTickCount k2 = xTickCount k1"
        "pxContainer (lists k2) = pxContainer (lists k1)" "xItemValue (lists k2) = xItemValue (lists k1)"
        "pxDelayedTaskList k2 = pxDelayedTaskList k1" "pxOverflowDelayedTaskList k2 = pxOverflowDelayedTaskList k1"
      using pendsv_ok[OF k1(2) r(1) r1 s1] by blast
    with elapsed_same[OF k1(3) k2(3-9)] PendSV k1(1) show ?thesis by (simp add: run_irqs_snoc)
  qed
qed

subsection \<open>A kernel just before the tick counter wraps\<close>

text \<open>
  The idle task 1 and the tasks 2 and 3 of priority 2: 2 runs, 3 is ready, 4 waits for the tick 1 after
  the wrap.
\<close>

definition wrap_lists :: list_heap where
  "wrap_lists = \<lparr>
     xItemValue = (\<lambda>p. case p of ListEnd l \<Rightarrow> portMAX_DELAY | Item n \<Rightarrow> if n = 8 then 1 else 0),
     pxNext = id(ListEnd 0 := Item 2, Item 2 := ListEnd 0, ListEnd 2 := Item 4, Item 4 := Item 6, Item 6 := ListEnd 2,
       ListEnd 6 := Item 8, Item 8 := ListEnd 6),
     pxPrevious = id(Item 2 := ListEnd 0, ListEnd 0 := Item 2, Item 4 := ListEnd 2, Item 6 := Item 4, ListEnd 2 := Item 6,
       Item 8 := ListEnd 6, ListEnd 6 := Item 8),
     pvOwner = (\<lambda>p. case p of Item n \<Rightarrow> n div 2 | ListEnd l \<Rightarrow> 0),
     pxContainer = (\<lambda>_. None)(Item 2 := Some 0, Item 4 := Some 2, Item 6 := Some 2, Item 8 := Some 6),
     uxNumberOfItems = (\<lambda>_. 0)(0 := 1, 2 := 2, 6 := 1),
     pxIndex = ListEnd(2 := Item 4)\<rparr>"

definition wrap_kernel :: kernel where
  "wrap_kernel = \<lparr>lists = wrap_lists,
     tcbs = (\<lambda>t. \<lparr>pxTopOfStack = 0, uxPriority = if t = 1 then 0 else 2, pxStack = 0, pcTaskName = [], uxTCBNumber = 0, uxBasePriority = if t = 1 then 0 else 2,
        uxMutexesHeld = 0, ulNotifiedValue = 0, ucNotifyState = taskNOT_WAITING_NOTIFICATION, ucDelayAborted = False\<rparr>),
     pxCurrentTCB = Some 2, pxDelayedTaskList = 5, pxOverflowDelayedTaskList = 6, uxDeletedTasksWaitingCleanUp = 0,
     uxCurrentNumberOfTasks = 4, xTickCount = - 1, uxTopReadyPriority = 2, xSchedulerRunning = True, xPendedTicks = 0,
     xYieldPending = False, xNumOfOverflows = 0, uxTaskNumber = 4, xNextTaskUnblockTime = portMAX_DELAY,
     uxSchedulerSuspended = 0, port_yield = False\<rparr>"

definition wrap_seqs :: "nat \<Rightarrow> list_item list" where
  "wrap_seqs = (\<lambda>_. [])(0 := [Item 2], 2 := [Item 4, Item 6], 6 := [Item 8])"

abbreviation wrap_tasks :: "nat set" where "wrap_tasks \<equiv> {1, 2, 3, 4}"

lemma wrap_items:
  "xStateListItem 1 = Item 2" "xStateListItem 2 = Item 4" "xStateListItem 3 = Item 6" "xStateListItem 4 = Item 8"
  "xEventListItem 1 = Item 3" "xEventListItem 2 = Item 5" "xEventListItem 3 = Item 7" "xEventListItem 4 = Item 9"
  by (simp_all add: xStateListItem_def xEventListItem_def)

lemma wrap_lists_ok: "lists_ok wrap_lists (kernel_lists {}) wrap_tasks wrap_seqs"
proof -
  have "is_list wrap_lists l (wrap_seqs l)" for l
    by (cases "l \<in> {0, 2, 6}") (auto simp: is_list_def wrap_lists_def wrap_seqs_def)
  moreover have "pxContainer wrap_lists x = Some l \<Longrightarrow> l < 10 \<and> x \<in> set (wrap_seqs l)" for x l
    by (auto simp: wrap_lists_def wrap_seqs_def split: if_splits)
  moreover have "set (wrap_seqs l) \<subseteq> task_items wrap_tasks" for l
    by (auto simp: wrap_seqs_def task_items_def wrap_items simp del: One_nat_def split: if_splits)
  moreover have "\<forall>t \<in> wrap_tasks. pvOwner wrap_lists (xStateListItem t) = t \<and> pvOwner wrap_lists (xEventListItem t) = t"
    by (simp add: wrap_lists_def wrap_items del: One_nat_def)
  ultimately show ?thesis by (simp add: lists_ok_def heap_lists_def)
qed

lemma wrap_kernel_simps [simp]:
  "lists wrap_kernel = wrap_lists" "pxCurrentTCB wrap_kernel = Some 2" "uxSchedulerSuspended wrap_kernel = 0"
  "xTickCount wrap_kernel = - 1" "xPendedTicks wrap_kernel = 0" "uxCurrentNumberOfTasks wrap_kernel = 4"
  "pxDelayedTaskList wrap_kernel = 5" "pxOverflowDelayedTaskList wrap_kernel = 6" "uxTopReadyPriority wrap_kernel = 2"
  "xNextTaskUnblockTime wrap_kernel = portMAX_DELAY" "prio wrap_kernel t = (if t = 1 then 0 else 2)"
  "xYieldPending wrap_kernel = False" "xNumOfOverflows wrap_kernel = 0" "ucDelayAborted (tcbs wrap_kernel t) = False"
  by (simp_all add: wrap_kernel_def)

lemma wrap_states:
  "state_list wrap_kernel 1 = Some 0" "state_list wrap_kernel 2 = Some 2" "state_list wrap_kernel 3 = Some 2"
  "state_list wrap_kernel 4 = Some 6" "wake_time wrap_kernel 4 = 1"
  "event_list wrap_kernel 1 = None" "event_list wrap_kernel 2 = None" "event_list wrap_kernel 3 = None"
  "event_list wrap_kernel 4 = None"
  unfolding wrap_items by (simp_all add: wrap_lists_def)

lemma wrap_kernel_ok: "kernel_ok wrap_kernel {} wrap_tasks"
proof -
  have "sorted_ok wrap_kernel wrap_seqs" by (simp add: sorted_ok_def wrap_seqs_def)
  moreover have "sched_ok wrap_kernel {} wrap_tasks"
    unfolding sched_ok_def ball_simps bex_simps wrap_states by simp
  moreover have "time_ok wrap_kernel wrap_tasks"
    unfolding time_ok_def ball_simps wrap_states using word_order.not_eq_extremum[of "1 :: u32"] by simp
  ultimately show ?thesis using wrap_lists_ok by (auto simp: kernel_ok_def struct_ok_def)
qed

lemma wrap_facts:
  "ready wrap_kernel 1" "ready wrap_kernel 2" "ready wrap_kernel 3" "timed wrap_kernel 4" "ticks_left wrap_kernel 4 = 2"
  "\<not> timed wrap_kernel 2" "placed wrap_kernel wrap_tasks" "\<not> ready wrap_kernel 4"
  unfolding ready_def timed_def ticks_left_def placed_def ball_simps wrap_states by simp_all

subsection \<open>Task selection\<close>

text \<open>
  C27: with the scheduler running and some task ready, \<open>vTaskSwitchContext\<close> returns and makes a ready task
  current whose priority no ready task exceeds; it clears the pending yield, records that priority as the
  top one, moves no task between lists and keeps the invariant of the kernel.
\<close>
theorem vTaskSwitchContext_selects_highest:
  assumes "kernel_ok k E T" and "uxSchedulerSuspended k = 0" and "t0 \<in> T" "ready k t0"
  shows "\<exists>k' t. vTaskSwitchContext k = Inr k' \<and> pxCurrentTCB k' = Some t \<and> t \<in> T \<and> ready k t \<and>
    (\<forall>s \<in> T. ready k s \<longrightarrow> prio k s \<le> prio k t) \<and> uxTopReadyPriority k' = prio k t \<and> \<not> xYieldPending k' \<and>
    pxContainer (lists k') = pxContainer (lists k) \<and> kernel_ok k' E T"
proof -
  obtain L where L: "struct_ok k E T L" "time_ok k T" using assms(1) by (auto simp: kernel_ok_def)
  obtain p t k' where k': "vTaskSwitchContext k = Inr k'" "p < 5" "L p \<noteq> []"
      "set (L p) = xStateListItem ` top_tasks k T" "t \<in> top_tasks k T"
      "k' = k\<lparr>lists := set_index p (xStateListItem t) (lists k), pxCurrentTCB := Some t, uxTopReadyPriority := p,
           xYieldPending := False\<rparr>" "struct_ok k' E T L" "time_ok k' T"
    using switch_ok[OF L assms(3,4,2)] by blast
  have "state_list k t = Some p"
    using container_iff[OF struct_okD(1)[OF L(1)], of "xStateListItem t" p] k'(2,4,5) by simp
  then have "p = prio k t" using k'(5) by (simp add: top_tasks_def ready_def)
  with k' show ?thesis
    by (intro exI[of _ k'] exI[of _ t]) (auto simp: top_tasks_def set_index_def kernel_ok_def)
qed

theorem vTaskSwitchContext_selects_highest_witness:
  "\<exists>k' t. vTaskSwitchContext wrap_kernel = Inr k' \<and> pxCurrentTCB k' = Some t \<and> prio wrap_kernel t = 2"
proof -
  obtain k' t where "vTaskSwitchContext wrap_kernel = Inr k'" "pxCurrentTCB k' = Some t" "t \<in> wrap_tasks"
      "\<forall>s \<in> wrap_tasks. ready wrap_kernel s \<longrightarrow> prio wrap_kernel s \<le> prio wrap_kernel t"
    using vTaskSwitchContext_selects_highest[OF wrap_kernel_ok, of 1] wrap_facts(1) by auto
  moreover from this(4) wrap_facts(2) have "prio wrap_kernel 2 \<le> prio wrap_kernel t" by simp
  ultimately show ?thesis by (auto split: if_splits)
qed

text \<open>
  C28: the tick. With the scheduler running, \<open>xTaskIncrementTick\<close> returns (no assertion fails, the loop over
  the delayed list ends), also when the tick counter wraps: every timeout is one tick shorter, a task
  whose timeout is over is in the ready list of its priority and in no event list, every other task is
  where it was, and the invariant holds. A switch is asked for exactly when a woken task is above the
  running one, or another task shares the priority of the running one, or a yield was pending.
\<close>
theorem xTaskIncrementTick_wakes_expired:
  assumes "kernel_ok k E T" and "uxSchedulerSuspended k = 0" and "pxCurrentTCB k = Some c"
  shows "\<exists>k'. xTaskIncrementTick k =
      Inr ((\<exists>t \<in> T. timed k t \<and> ticks_left k t = 1 \<and> prio k t > prio k c) \<or>
           card {t \<in> T. state_list k' t = Some (prio k c)} > 1 \<or> xYieldPending k, k') \<and>
    kernel_ok k' E T \<and> ticked T k k'"
  using increment_tick_ok[OF assms] .

theorem xTaskIncrementTick_wakes_expired_witness:
  "\<exists>sw k'. xTaskIncrementTick wrap_kernel = Inr (sw, k') \<and> xTickCount k' = 0 \<and> timed k' 4 \<and> ticks_left k' 4 = 1"
proof -
  obtain sw k' where "xTaskIncrementTick wrap_kernel = Inr (sw, k')" "ticked wrap_tasks wrap_kernel k'"
    using xTaskIncrementTick_wakes_expired[OF wrap_kernel_ok, of 2] by auto
  then show ?thesis using wrap_facts by (auto simp: ticked_def)
qed

text \<open>
  C29: a delay is exact. A task that calls \<open>vTaskDelay\<close> for \<open>n > 0\<close> ticks blocks and asks for a context
  switch; after any sequence of tick and context-switch interrupts that follows, it is ready if and only
  if the sequence has at least \<open>n\<close> ticks, whatever the value of the tick counter. No handler fails as
  long as another task (the idle task) is ready.
\<close>
theorem vTaskDelay_exact:
  assumes "kernel_ok k E T" "placed k T" and "pxCurrentTCB k = Some c" "n \<noteq> 0" and "i \<in> T" "i \<noteq> c" "ready k i"
    and "uxSchedulerSuspended k = 0" "xPendedTicks k = 0" "uxCurrentNumberOfTasks k > 0"
    and "\<And>t. t \<in> T \<Longrightarrow> event_list k t \<noteq> Some xPendingReadyList"
  shows "\<exists>k1 k'. vTaskDelay n k = Inr k1 \<and> port_yield k1 \<and> run_irqs irqs k1 = Inr k' \<and> kernel_ok k' E T \<and>
    (ready k' c \<longleftrightarrow> unat n \<le> count_list irqs SysTick)"
proof -
  obtain k1 where k1: "vTaskDelay n k = Inr k1" "kernel_ok k1 E T" "timed k1 c" "ticks_left k1 c = unat n" "port_yield k1"
      "uxSchedulerSuspended k1 = 0" "ready k1 i"
    using task_delay_ok[OF assms(1-4,8-10)] assms(5-7,11) by (auto simp: xPendingReadyList_def)
  obtain k' where k': "run_irqs irqs k1 = Inr k'" "kernel_ok k' E T" "elapsed T (count_list irqs SysTick) k1 k'"
    using run_irqs_ok[OF k1(2) assms(5) k1(7,6)] by blast
  have c: "c \<in> T" using kernel_ok_sched[OF assms(1)] assms(3) by (auto simp: sched_ok_def)
  then have "unat n \<le> count_list irqs SysTick \<longrightarrow> ready k' c" "unat n > count_list irqs SysTick \<longrightarrow> timed k' c"
    using k'(3) k1(3,4) unfolding elapsed_def by auto
  then have "ready k' c \<longleftrightarrow> unat n \<le> count_list irqs SysTick"
    using ready_not_timed[OF kernel_ok_sched[OF k'(2)] c] by (meson not_le)
  with k1 k' show ?thesis by blast
qed

theorem vTaskDelay_exact_witness:
  "\<exists>k1 k'. vTaskDelay 2 wrap_kernel = Inr k1 \<and> run_irqs [PendSV, SysTick, PendSV] k1 = Inr k' \<and> \<not> ready k' 2"
proof -
  have q: "event_list wrap_kernel t \<noteq> Some xPendingReadyList" if "t \<in> wrap_tasks" for t
    using that wrap_states(6-9) by auto
  have "\<exists>k1 k'. vTaskDelay 2 wrap_kernel = Inr k1 \<and> port_yield k1 \<and> run_irqs [PendSV, SysTick, PendSV] k1 = Inr k' \<and>
      kernel_ok k' {} wrap_tasks \<and> (ready k' 2 \<longleftrightarrow> unat (2 :: u32) \<le> count_list [PendSV, SysTick, PendSV] SysTick)"
    by (rule vTaskDelay_exact[OF wrap_kernel_ok wrap_facts(7), of 2 2 1]) (use wrap_facts(1) q in simp_all)
  then show ?thesis by auto
qed

text \<open>
  C30: resuming the scheduler makes up for the time it was suspended. When the last suspension ends,
  \<open>xTaskResumeAll\<close> returns with every task of the pending list and every task whose timeout is within the
  pended ticks ready, the other timeouts shortened by the number of pended ticks, no tick pended any
  more, and the invariant kept; it tells whether a yield was requested, and then has requested it.
\<close>
theorem xTaskResumeAll_catches_up:
  assumes "kernel_ok k E T" "placed k T" and "uxSchedulerSuspended k = 1" "uxCurrentNumberOfTasks k > 0"
  shows "\<exists>k'. xTaskResumeAll k = Inr (xYieldPending k', k') \<and> kernel_ok k' E T \<and>
    resumed T (unat (xPendedTicks k)) k k' \<and> (xYieldPending k' \<longrightarrow> port_yield k')"
  using resume_all_ok[OF assms] .

theorem xTaskResumeAll_catches_up_witness:
  "\<exists>y k'. xTaskResumeAll (wrap_kernel\<lparr>uxSchedulerSuspended := 1, xPendedTicks := 2\<rparr>) = Inr (y, k') \<and> ready k' 4"
proof -
  let ?k = "wrap_kernel\<lparr>uxSchedulerSuspended := 1, xPendedTicks := 2\<rparr>"
  have "kernel_ok ?k {} wrap_tasks" by (intro kernel_ok_simp_fields wrap_kernel_ok)
  moreover have "placed ?k wrap_tasks" using wrap_facts(7) by (simp add: placed_def)
  ultimately obtain y k' where k': "xTaskResumeAll ?k = Inr (y, k')" "resumed wrap_tasks (unat (2 :: u32)) ?k k'"
    using xTaskResumeAll_catches_up[of ?k "{}" wrap_tasks] by auto
  have "timed ?k 4" "ticks_left ?k 4 = 2" using wrap_facts(4,5) by (simp_all add: timed_def ticks_left_def)
  then have "ready k' 4" using k'(2) by (simp add: resumed_def)
  with k'(1) show ?thesis by blast
qed

end
