(* ===== verification/Rtos_Event_Props.thy ===== *)
theory Rtos_Event_Props
  imports Rtos_Sched_Props
begin

section \<open>Timeouts, event lists and priorities\<close>

text \<open>
  The arithmetic of timeouts against unbounded time, the order in which an event wakes its waiters, and
  the effect of priority changes on them.
\<close>

subsection \<open>Timeouts\<close>

text \<open>The kernel's clock at the absolute time \<open>N\<close>.\<close>

definition clock_at :: "kernel \<Rightarrow> nat \<Rightarrow> bool" where
  "clock_at k N \<longleftrightarrow> xTickCount k = of_nat N \<and> xNumOfOverflows k = of_nat (N div 2 ^ 32)"

lemma unat_tick: "unat (of_nat N :: u32) = N mod 2 ^ 32"
  by (simp add: unsigned_of_nat take_bit_eq_mod)

lemma elapsed_word:
  assumes "N0 \<le> N"
  shows "unat (of_nat N - of_nat N0 :: u32) = (N - N0) mod 2 ^ 32"
proof -
  have "(of_nat N - of_nat N0 :: u32) = of_nat (N - N0)" using assms by (simp add: of_nat_diff)
  then show ?thesis by (simp add: unat_tick)
qed

lemma epochs_differ:
  fixes N N0 :: nat
  assumes "N0 \<le> N" and "N div 2 ^ 32 \<le> N0 div 2 ^ 32 + 1"
  shows "(of_nat (N div 2 ^ 32) :: u32) \<noteq> of_nat (N0 div 2 ^ 32) \<longleftrightarrow> N div 2 ^ 32 = N0 div 2 ^ 32 + 1"
proof -
  have "N0 div 2 ^ 32 \<le> N div 2 ^ 32" using assms(1) by (rule div_le_mono)
  then consider "N div 2 ^ 32 = N0 div 2 ^ 32" | "N div 2 ^ 32 = N0 div 2 ^ 32 + 1" using assms(2) by linarith
  then show ?thesis by cases simp_all
qed

text \<open>Within one wrap of the counter, the two conditions of the source decide whether the time is over.\<close>

lemma timeout_arith:
  fixes N N0 w M :: nat
  assumes "N0 \<le> N" and "M = 2 ^ 32" and "w < M" and "N div M \<le> N0 div M + 1"
  shows "w \<le> N - N0 \<longleftrightarrow> (N div M = N0 div M + 1 \<and> N0 mod M \<le> N mod M) \<or> w \<le> (N - N0) mod M"
    and "\<not> (N div M = N0 div M + 1 \<and> N0 mod M \<le> N mod M) \<Longrightarrow> (N - N0) mod M = N - N0"
proof -
  have e: "N = N div M * M + N mod M" "N0 = N0 div M * M + N0 mod M" by simp_all
  have m: "N mod M < M" "N0 mod M < M" using assms(2) by simp_all
  have le: "N0 div M \<le> N div M" using assms(1) by (rule div_le_mono)
  have *: "N - N0 < M" if "\<not> (N div M = N0 div M + 1 \<and> N0 mod M \<le> N mod M)"
  proof (cases "N div M = N0 div M")
    case True
    then show ?thesis using e m assms(1) by (metis add_diff_cancel_left less_imp_diff_less)
  next
    case False
    then have d: "N div M = N0 div M + 1" using le assms(4) by linarith
    then have "N = N0 div M * M + M + N mod M" using e(1) by (simp add: algebra_simps)
    then show ?thesis using e(2) m that d by linarith
  qed
  then show "(N - N0) mod M = N - N0" if "\<not> (N div M = N0 div M + 1 \<and> N0 mod M \<le> N mod M)" using that by simp
  have "w \<le> N - N0" if "N div M = N0 div M + 1" "N0 mod M \<le> N mod M"
  proof -
    have "N = N0 div M * M + M + N mod M" using e(1) that(1) by (simp add: algebra_simps)
    then show ?thesis using e(2) that(2) assms(3) by linarith
  qed
  with * show "w \<le> N - N0 \<longleftrightarrow> (N div M = N0 div M + 1 \<and> N0 mod M \<le> N mod M) \<or> w \<le> (N - N0) mod M"
    by (metis mod_less mod_less_eq_dividend order.trans)
qed

text \<open>
  C31: timeouts in unbounded time. When the clock has wrapped at most once since the timeout was set at the
  time \<open>N0\<close>, \<open>xTaskCheckForTimeOut\<close> at the time \<open>N\<close> reports that a wait of \<open>w\<close> ticks is over exactly when
  \<open>N - N0 \<ge> w\<close>; otherwise it restarts the timeout now with exactly the remaining ticks, so that the
  deadline stays the same.
\<close>
theorem xTaskCheckForTimeOut_exact:
  assumes "clock_at k0 N0" "clock_at k N" "N0 \<le> N" "N div 2 ^ 32 \<le> N0 div 2 ^ 32 + 1" and "w \<noteq> portMAX_DELAY"
    and "pxCurrentTCB k = Some c" "\<not> ucDelayAborted (tcbs k c)"
  shows "xTaskCheckForTimeOut (vTaskSetTimeOutState k0) w k =
    Inr (if unat w \<le> N - N0 then (True, vTaskSetTimeOutState k0, 0)
         else (False, vTaskSetTimeOutState k, w - of_nat (N - N0)), k)"
proof -
  let ?M = "2 ^ 32 :: nat"
  let ?late = "N div ?M = N0 div ?M + 1 \<and> N0 mod ?M \<le> N mod ?M"
  have w: "unat w < ?M" using unsigned_less[of w] by simp
  note a = timeout_arith[OF assms(3) refl w assms(4)]
  have d: "xTickCount k - xTickCount k0 = of_nat (N - N0)" using assms(1-3) by (simp add: clock_at_def of_nat_diff)
  have late: "xNumOfOverflows k \<noteq> xNumOfOverflows k0 \<and> xTickCount k \<ge> xTickCount k0 \<longleftrightarrow> ?late"
    using assms(1,2) epochs_differ[OF assms(3,4)] by (simp add: clock_at_def word_le_nat_alt unat_tick)
  have el: "(of_nat (N - N0) :: u32) < w \<longleftrightarrow> (N - N0) mod ?M < unat w"
    by (simp add: word_less_nat_alt unat_tick)
  have "xTaskCheckForTimeOut (vTaskSetTimeOutState k0) w k =
      Inr (if ?late then (True, vTaskSetTimeOutState k0, 0)
           else if (N - N0) mod ?M < unat w then (False, vTaskSetTimeOutState k, w - of_nat (N - N0))
           else (True, vTaskSetTimeOutState k0, 0), k)"
    unfolding late[symmetric] el[symmetric] d[symmetric] using assms(5-7)
    by (simp add: xTaskCheckForTimeOut_def current_def vTaskSetTimeOutState_def vTaskInternalSetTimeOutState_def Let_def)
  moreover have "unat w \<le> N - N0 \<longleftrightarrow> ?late \<or> \<not> (N - N0) mod ?M < unat w" using a(1) by (simp only: not_less)
  ultimately show ?thesis by (simp only: if_True if_False split: if_split) blast
qed

theorem xTaskCheckForTimeOut_exact_witness:
  "xTaskCheckForTimeOut (vTaskSetTimeOutState wrap_kernel) 5 (wrap_kernel\<lparr>xTickCount := 2, xNumOfOverflows := 1\<rparr>) =
    Inr ((False, vTaskSetTimeOutState (wrap_kernel\<lparr>xTickCount := 2, xNumOfOverflows := 1\<rparr>), 2),
      wrap_kernel\<lparr>xTickCount := 2, xNumOfOverflows := 1\<rparr>)"
proof -
  let ?k = "wrap_kernel\<lparr>xTickCount := 2, xNumOfOverflows := 1\<rparr>"
  have "clock_at wrap_kernel (2 ^ 32 - 1)" "clock_at ?k (2 ^ 32 + 2)" by (simp_all add: clock_at_def)
  from xTaskCheckForTimeOut_exact[OF this, of 5 2] show ?thesis by (simp add: portMAX_DELAY_def)
qed

subsection \<open>Event lists\<close>

text \<open>The tasks waiting in an event list, in the order of the list.\<close>

definition waiters :: "kernel \<Rightarrow> nat \<Rightarrow> nat list \<Rightarrow> bool" where
  "waiters k l ts \<longleftrightarrow> is_list (lists k) l (map xEventListItem ts)"

lemma linked_unique:
  "linked h (p # xs @ [e]) \<Longrightarrow> linked h (p # ys @ [e]) \<Longrightarrow> e \<notin> set xs \<Longrightarrow> e \<notin> set ys \<Longrightarrow> xs = ys"
proof (induction xs arbitrary: p ys)
  case Nil
  then show ?case by (cases ys) auto
next
  case (Cons x xs)
  then show ?case by (cases ys) auto
qed

lemma is_list_unique: "is_list h l xs \<Longrightarrow> is_list h l ys \<Longrightarrow> xs = ys"
  using linked_unique[of h "ListEnd l" xs "ListEnd l" ys] is_list_ring(3) by (auto simp: is_list_def)

lemma waiters_seq: "struct_ok k E T L \<Longrightarrow> l \<in> E \<Longrightarrow> waiters k l ts \<Longrightarrow> L l = map xEventListItem ts"
  using is_list_unique[of "lists k" l "L l"] lists_okD(4)[OF struct_okD(1), of k E T L l] by (simp add: waiters_def)

lemma waiters_of: "struct_ok k E T L \<Longrightarrow> l \<in> E \<Longrightarrow> L l = map xEventListItem ts \<Longrightarrow> waiters k l ts"
  using lists_okD(4)[OF struct_okD(1), of k E T L l] by (simp add: waiters_def)

lemma waiters_event_list: "waiters k l ts \<Longrightarrow> t \<in> set ts \<Longrightarrow> event_list k t = Some l"
  by (auto simp: waiters_def is_list_def)

lemma waiters_tasks:
  assumes "struct_ok k E T L" "l \<in> E" "waiters k l ts" "t \<in> set ts"
  shows "t \<in> T"
proof -
  have "xEventListItem t \<in> set (L l)" using waiters_seq[OF assms(1-3)] assms(4) by simp
  then show ?thesis using lists_okD(5)[OF struct_okD(1)[OF assms(1)], of l] assms(2) by auto
qed

lemma event_lists_disjoint: "sched_ok k E T \<Longrightarrow> l \<in> E \<Longrightarrow> l \<ge> 10"
  by (auto simp: sched_ok_def)

lemma insert_event_kernel:
  assumes ok: "struct_ok k E T L" and t: "t \<in> T" "event_list k t = None" and l: "l \<in> insert 7 E"
  shows "\<exists>h. insert_sorted l (xEventListItem t) k = Inr (k\<lparr>lists := h\<rparr>) \<and>
     struct_ok (k\<lparr>lists := h\<rparr>) E T (L(l := by_value (xItemValue (lists k)) (xEventListItem t) (L l))) \<and>
     pxContainer h = (pxContainer (lists k))(xEventListItem t := Some l) \<and> xItemValue h = xItemValue (lists k)"
    and "\<exists>h xs. insert_end l (xEventListItem t) k = k\<lparr>lists := h\<rparr> \<and> struct_ok (k\<lparr>lists := h\<rparr>) E T (L(l := xs)) \<and>
     pxContainer h = (pxContainer (lists k))(xEventListItem t := Some l) \<and> xItemValue h = xItemValue (lists k)"
proof -
  note s = struct_okD[OF ok]
  let ?x = "xEventListItem t"
  have l': "l \<in> kernel_lists E" "l \<notin> {5, 6}" using l event_lists_disjoint[OF s(3)] by fastforce+
  have sched: "sched_ok (k\<lparr>lists := h\<rparr>) E T" if "pxContainer h = (pxContainer (lists k))(?x := Some l)" for h
    using s(3) l by (simp add: sched_ok_def that)
  obtain h where h: "vListInsert l ?x (lists k) = Some h" "pxContainer h = (pxContainer (lists k))(?x := Some l)"
      "lists_ok h (kernel_lists E) T (L(l := by_value (xItemValue (lists k)) ?x (L l)))" "xItemValue h = xItemValue (lists k)"
    using insert_sorted_ok[OF s(1) l'(1), of ?x] t by auto
  then show "\<exists>h. insert_sorted l ?x k = Inr (k\<lparr>lists := h\<rparr>) \<and>
     struct_ok (k\<lparr>lists := h\<rparr>) E T (L(l := by_value (xItemValue (lists k)) ?x (L l))) \<and>
     pxContainer h = (pxContainer (lists k))(?x := Some l) \<and> xItemValue h = xItemValue (lists k)"
    using sched[OF h(2)] sorted_ok_other[OF s(2) h(4) l'(2)] by (auto simp: insert_sorted_def struct_ok_def)
  show "\<exists>h xs. insert_end l ?x k = k\<lparr>lists := h\<rparr> \<and> struct_ok (k\<lparr>lists := h\<rparr>) E T (L(l := xs)) \<and>
     pxContainer h = (pxContainer (lists k))(?x := Some l) \<and> xItemValue h = xItemValue (lists k)"
    using insert_end_ok[OF s(1) l'(1), of ?x] t sched sorted_ok_other[OF s(2) _ l'(2)]
    by (intro exI[of _ "vListInsertEnd l ?x (lists k)"]) (auto simp: insert_end_def list_inline_variants struct_ok_def)
qed

lemma ready_or_pend_ok:
  assumes ok: "struct_ok k E T L" "time_ok k T" and t: "t \<in> T" "event_list k t = None" "state_list k t = Some m"
  shows "\<exists>h u L'. ready_or_pend t k = Inr (k\<lparr>lists := h, uxTopReadyPriority := u\<rparr>) \<and>
    struct_ok (k\<lparr>lists := h, uxTopReadyPriority := u\<rparr>) E T L' \<and> time_ok (k\<lparr>lists := h, uxTopReadyPriority := u\<rparr>) T \<and>
    (\<forall>l \<in> E. L' l = L l) \<and>
    pxContainer h = (if uxSchedulerSuspended k = 0 then (pxContainer (lists k))(xStateListItem t := Some (prio k t))
      else (pxContainer (lists k))(xEventListItem t := Some 7)) \<and> xItemValue h = xItemValue (lists k)"
proof (cases "uxSchedulerSuspended k = 0")
  case True
  let ?x = "xStateListItem t"
  note s = struct_okD[OF ok(1)]
  have m: "m < 10" using sched_okD(6)[OF s(3) t(1,3)] .
  obtain h1 where h1: "remove_item ?x k = Inr (k\<lparr>lists := h1\<rparr>)" "struct_ok (k\<lparr>lists := h1\<rparr>) E T (L(m := remove1 ?x (L m)))"
      "pxContainer h1 = (pxContainer (lists k))(?x := None)" "xItemValue h1 = xItemValue (lists k)"
    using list_remove_kernel[OF ok(1) t(3)] t(1) by auto
  obtain h u L' where h: "prvAddTaskToReadyList t (k\<lparr>lists := h1\<rparr>) = k\<lparr>lists := h, uxTopReadyPriority := u\<rparr>"
      "struct_ok (k\<lparr>lists := h, uxTopReadyPriority := u\<rparr>) E T L'" "\<forall>l. l \<ge> 5 \<longrightarrow> L' l = (L(m := remove1 ?x (L m))) l"
      "pxContainer h = (pxContainer h1)(?x := Some (prio k t))" "xItemValue h = xItemValue h1"
    using add_ready_kernel[OF h1(2) t(1)] h1(3) by auto
  have "time_ok (k\<lparr>lists := h, uxTopReadyPriority := u\<rparr>) T"
    by (rule time_ok_cong[OF ok(2) _ _ s(3)]) (use h h1 sched_okD(4)[OF s(3) t(1)] in auto)
  moreover have "\<forall>l \<in> E. L' l = L l" using h(3) m event_lists_disjoint[OF s(3)] by fastforce
  ultimately show ?thesis using True h h1
    by (intro exI[of _ h] exI[of _ u] exI[of _ L']) (simp add: ready_or_pend_def)
next
  case False
  note s = struct_okD[OF ok(1)]
  obtain h xs where h: "insert_end 7 (xEventListItem t) k = k\<lparr>lists := h\<rparr>" "struct_ok (k\<lparr>lists := h\<rparr>) E T (L(7 := xs))"
      "pxContainer h = (pxContainer (lists k))(xEventListItem t := Some 7)" "xItemValue h = xItemValue (lists k)"
    using insert_event_kernel(2)[OF ok(1) t(1,2), of 7] by auto
  have u: "k\<lparr>lists := h, uxTopReadyPriority := uxTopReadyPriority k\<rparr> = k\<lparr>lists := h\<rparr>" by simp
  have "time_ok (k\<lparr>lists := h\<rparr>) T" by (rule time_ok_cong[OF ok(2) _ _ s(3)]) (use h in auto)
  moreover have "\<forall>l \<in> E. (L(7 := xs)) l = L l" using event_lists_disjoint[OF s(3)] by fastforce
  ultimately show ?thesis using False h u
    by (intro exI[of _ h] exI[of _ "uxTopReadyPriority k"] exI[of _ "L(7 := xs)"])
      (simp add: ready_or_pend_def xPendingReadyList_def)
qed

subsection \<open>A kernel with two tasks waiting for an event\<close>

text \<open>
  The idle task 1, the running task 2 of priority 3, and the tasks 3 and 4 of priorities 2 and 1, which
  wait for the event list 10 without timeout.
\<close>

definition event_lists :: list_heap where
  "event_lists = \<lparr>
     xItemValue = (\<lambda>p. case p of ListEnd l \<Rightarrow> portMAX_DELAY
        | Item n \<Rightarrow> if n = 3 then 5 else if n = 5 then 2 else if n = 7 then 3 else if n = 9 then 4 else 0),
     pxNext = id(ListEnd 0 := Item 2, Item 2 := ListEnd 0, ListEnd 3 := Item 4, Item 4 := ListEnd 3,
       ListEnd 9 := Item 6, Item 6 := Item 8, Item 8 := ListEnd 9, ListEnd 10 := Item 7, Item 7 := Item 9, Item 9 := ListEnd 10),
     pxPrevious = id(Item 2 := ListEnd 0, ListEnd 0 := Item 2, Item 4 := ListEnd 3, ListEnd 3 := Item 4,
       Item 6 := ListEnd 9, Item 8 := Item 6, ListEnd 9 := Item 8, Item 7 := ListEnd 10, Item 9 := Item 7, ListEnd 10 := Item 9),
     pvOwner = (\<lambda>p. case p of Item n \<Rightarrow> n div 2 | ListEnd l \<Rightarrow> 0),
     pxContainer = (\<lambda>_. None)(Item 2 := Some 0, Item 4 := Some 3, Item 6 := Some 9, Item 8 := Some 9,
       Item 7 := Some 10, Item 9 := Some 10),
     uxNumberOfItems = (\<lambda>_. 0)(0 := 1, 3 := 1, 9 := 2, 10 := 2),
     pxIndex = ListEnd\<rparr>"

definition event_seqs :: "nat \<Rightarrow> list_item list" where
  "event_seqs = (\<lambda>_. [])(0 := [Item 2], 3 := [Item 4], 9 := [Item 6, Item 8], 10 := [Item 7, Item 9])"

definition event_kernel :: kernel where
  "event_kernel = \<lparr>lists = event_lists,
     tcbs = (\<lambda>t. let p = (if t = 1 then 0 else if t = 2 then 3 else if t = 3 then 2 else 1) in
        \<lparr>pxTopOfStack = 0, uxPriority = p, pxStack = 0, pcTaskName = [], uxTCBNumber = 0, uxBasePriority = p,
        uxMutexesHeld = 0, ulNotifiedValue = 0, ucNotifyState = taskNOT_WAITING_NOTIFICATION, ucDelayAborted = False\<rparr>),
     pxCurrentTCB = Some 2, pxDelayedTaskList = 5, pxOverflowDelayedTaskList = 6, uxDeletedTasksWaitingCleanUp = 0,
     uxCurrentNumberOfTasks = 4, xTickCount = 7, uxTopReadyPriority = 3, xSchedulerRunning = True, xPendedTicks = 0,
     xYieldPending = False, xNumOfOverflows = 0, uxTaskNumber = 4, xNextTaskUnblockTime = portMAX_DELAY,
     uxSchedulerSuspended = 0, port_yield = False\<rparr>"

lemma event_kernel_simps [simp]:
  "lists event_kernel = event_lists" "pxCurrentTCB event_kernel = Some 2" "uxSchedulerSuspended event_kernel = 0"
  "xTickCount event_kernel = 7" "pxDelayedTaskList event_kernel = 5" "pxOverflowDelayedTaskList event_kernel = 6"
  "uxTopReadyPriority event_kernel = 3" "xNextTaskUnblockTime event_kernel = portMAX_DELAY"
  "prio event_kernel 1 = 0" "prio event_kernel (Suc 0) = 0" "prio event_kernel 2 = 3" "prio event_kernel 3 = 2" "prio event_kernel 4 = 1"
  "uxBasePriority (tcbs event_kernel t) = prio event_kernel t" "uxMutexesHeld (tcbs event_kernel t) = 0"
  by (simp_all add: event_kernel_def Let_def)

lemma event_states:
  "state_list event_kernel 1 = Some 0" "state_list event_kernel 2 = Some 3" "state_list event_kernel 3 = Some 9"
  "state_list event_kernel 4 = Some 9" "event_list event_kernel 1 = None" "event_list event_kernel 2 = None"
  "event_list event_kernel 3 = Some 10" "event_list event_kernel 4 = Some 10"
  "item_value event_kernel (xEventListItem 2) = 2" "item_value event_kernel (xEventListItem 3) = 3"
  "item_value event_kernel (xEventListItem 4) = 4"
  unfolding wrap_items item_value_def by (simp_all add: event_lists_def)

lemma event_is_list: "is_list event_lists l (event_seqs l)"
  by (cases "l \<in> {0, 3, 9, 10}") (auto simp: is_list_def event_lists_def event_seqs_def)

lemma event_kernel_ok_any:
  assumes "10 \<in> E" "E \<inter> {..<10} = {}"
  shows "kernel_ok event_kernel E wrap_tasks"
proof -
  have "pxContainer event_lists x = Some l \<Longrightarrow> l \<in> kernel_lists E \<and> x \<in> set (event_seqs l)" for x l
    using assms(1) by (auto simp: event_lists_def event_seqs_def split: if_splits)
  moreover have "set (event_seqs l) \<subseteq> task_items wrap_tasks" for l
    by (auto simp: event_seqs_def task_items_def wrap_items simp del: One_nat_def split: if_splits)
  moreover have "\<forall>t \<in> wrap_tasks. pvOwner event_lists (xStateListItem t) = t \<and> pvOwner event_lists (xEventListItem t) = t"
    by (simp add: event_lists_def wrap_items del: One_nat_def)
  ultimately have "lists_ok event_lists (kernel_lists E) wrap_tasks event_seqs"
    using event_is_list by (simp add: lists_ok_def heap_lists_def)
  moreover have "sorted_ok event_kernel event_seqs" by (simp add: sorted_ok_def event_seqs_def)
  moreover have "sched_ok event_kernel E wrap_tasks"
    unfolding sched_ok_def ball_simps bex_simps event_states using assms by simp
  moreover have "time_ok event_kernel wrap_tasks" unfolding time_ok_def ball_simps event_states by simp
  ultimately show ?thesis by (auto simp: kernel_ok_def struct_ok_def)
qed

lemma event_kernel_ok: "kernel_ok event_kernel {10} wrap_tasks"
  by (rule event_kernel_ok_any) simp_all

lemma event_kernel_waiters: "waiters event_kernel 10 [3, 4]" "placed event_kernel wrap_tasks"
proof -
  show "waiters event_kernel 10 [3, 4]"
    using event_is_list[of 10] by (simp add: waiters_def event_seqs_def wrap_items)
  show "placed event_kernel wrap_tasks" unfolding placed_def ball_simps event_states by simp
qed

subsection \<open>Waking and waiting\<close>

lemma wake_first_waiter:
  assumes "kernel_ok k E T" "placed k T" and "l \<in> E" "waiters k l (t # ts)" and "pxCurrentTCB k = Some c"
  shows "\<exists>k'. xTaskRemoveFromEventList l k = Inr (prio k c < prio k t, k') \<and> kernel_ok k' E T \<and> waiters k' l ts \<and>
    (if uxSchedulerSuspended k = 0 then ready k' t \<and> event_list k' t = None
     else state_list k' t = state_list k t \<and> event_list k' t = Some xPendingReadyList) \<and>
    (\<forall>s. s \<noteq> t \<longrightarrow> state_list k' s = state_list k s \<and> event_list k' s = event_list k s) \<and>
    xYieldPending k' = (xYieldPending k \<or> prio k c < prio k t) \<and> same_fields k k' \<and>
    xItemValue (lists k') = xItemValue (lists k) \<and> xNumOfOverflows k' = xNumOfOverflows k \<and>
    (\<forall>m \<in> E. m \<noteq> l \<longrightarrow> (\<forall>us. waiters k m us \<longrightarrow> waiters k' m us))"
proof -
  obtain L where L: "struct_ok k E T L" "time_ok k T" using assms(1) by (auto simp: kernel_ok_def)
  note s = struct_okD[OF L(1)]
  let ?e = "xEventListItem t"
  have tT: "t \<in> T" using waiters_tasks[OF L(1) assms(3,4)] by simp
  have Ll: "L l = ?e # map xEventListItem ts" using waiters_seq[OF L(1) assms(3,4)] by simp
  have el: "event_list k t = Some l" using waiters_event_list[OF assms(4)] by simp
  have own: "listGET_OWNER_OF_HEAD_ENTRY l (lists k) = t"
    using list_head[OF s(1), of l] Ll assms(3) lists_okD(8)[OF s(1) tT] by (simp add: listGET_OWNER_OF_HEAD_ENTRY_def)
  obtain h1 where h1: "remove_item ?e k = Inr (k\<lparr>lists := h1\<rparr>)" "struct_ok (k\<lparr>lists := h1\<rparr>) E T (L(l := remove1 ?e (L l)))"
      "pxContainer h1 = (pxContainer (lists k))(?e := None)" "xItemValue h1 = xItemValue (lists k)"
    using list_remove_kernel[OF L(1) el] tT by auto
  have "time_ok (k\<lparr>lists := h1\<rparr>) T" by (rule time_ok_cong[OF L(2) _ _ s(3)]) (use h1 in auto)
  moreover obtain m where "state_list (k\<lparr>lists := h1\<rparr>) t = Some m" using assms(2) tT h1(3) by (auto simp: placed_def)
  ultimately obtain h u L' where h: "ready_or_pend t (k\<lparr>lists := h1\<rparr>) = Inr (k\<lparr>lists := h, uxTopReadyPriority := u\<rparr>)"
      "struct_ok (k\<lparr>lists := h, uxTopReadyPriority := u\<rparr>) E T L'" "time_ok (k\<lparr>lists := h, uxTopReadyPriority := u\<rparr>) T"
      "\<forall>m \<in> E. L' m = (L(l := remove1 ?e (L l))) m"
      "pxContainer h = (if uxSchedulerSuspended k = 0 then (pxContainer h1)(xStateListItem t := Some (prio k t))
        else (pxContainer h1)(?e := Some 7))" "xItemValue h = xItemValue h1"
    using ready_or_pend_ok[OF h1(2) _ tT] h1(3) by auto
  define k' where "k' = k\<lparr>lists := h, uxTopReadyPriority := u, xYieldPending := xYieldPending k \<or> prio k c < prio k t\<rparr>"
  have sk: "struct_ok k' E T L'" "time_ok k' T"
    using h(2,3) by (simp_all add: k'_def struct_ok_def sched_ok_def sorted_ok_def time_ok_def)
  have "xTaskRemoveFromEventList l k = Inr (prio k c < prio k t, k')"
    unfolding xTaskRemoveFromEventList_def own Let_def
    using lists_okD(9)[OF s(1) tT] assms(5)
    by (simp add: h1(1) h(1) pend_yield_if_higher_def current_priority_def current_def k'_def)
  moreover have "waiters k' l ts" using waiters_of[OF sk(1) assms(3)] h(4) assms(3) Ll by simp
  moreover have "kernel_ok k' E T" using sk by (auto simp: kernel_ok_def)
  moreover have "waiters k' m us" if "m \<in> E" "m \<noteq> l" "waiters k m us" for m us
    using waiters_of[OF sk(1) that(1)] h(4) that waiters_seq[OF L(1) that(1,3)] by simp
  moreover have "same_fields k k'" "xItemValue (lists k') = xItemValue (lists k)" "xNumOfOverflows k' = xNumOfOverflows k"
    using h(6) h1(4) by (simp_all add: k'_def same_fields_def)
  ultimately show ?thesis
    by (intro exI[of _ k']) (auto simp: k'_def h(5) h1(3) ready_def xPendingReadyList_def)
qed

text \<open>
  C32: an event wakes the first waiter. \<open>xTaskRemoveFromEventList\<close> on a list with waiters takes the first
  one out of it and makes it ready, or holds it in the pending list while the scheduler is suspended;
  the other waiters keep their order, every other task stays where it is, the invariant holds, and the
  result (and a pending yield) tells whether the woken task is above the running one.
\<close>
theorem xTaskRemoveFromEventList_wakes_first:
  assumes "kernel_ok k E T" "placed k T" and "l \<in> E" "waiters k l (t # ts)" and "pxCurrentTCB k = Some c"
  shows "\<exists>k'. xTaskRemoveFromEventList l k = Inr (prio k c < prio k t, k') \<and> kernel_ok k' E T \<and> waiters k' l ts \<and>
    (if uxSchedulerSuspended k = 0 then ready k' t \<and> event_list k' t = None
     else state_list k' t = state_list k t \<and> event_list k' t = Some xPendingReadyList) \<and>
    (\<forall>s. s \<noteq> t \<longrightarrow> state_list k' s = state_list k s \<and> event_list k' s = event_list k s) \<and>
    xYieldPending k' = (xYieldPending k \<or> prio k c < prio k t) \<and> tcbs k' = tcbs k"
  using wake_first_waiter[OF assms] by (auto simp: same_fields_def)

theorem xTaskRemoveFromEventList_wakes_first_witness:
  "\<exists>k'. xTaskRemoveFromEventList 10 event_kernel = Inr (False, k') \<and> ready k' 3 \<and> waiters k' 10 [4]"
  using xTaskRemoveFromEventList_wakes_first[OF event_kernel_ok event_kernel_waiters(2) _ event_kernel_waiters(1), of 2]
  by auto

text \<open>Waiters in the order of their priorities, with the values the kernel gives their event items.\<close>

definition event_value :: "kernel \<Rightarrow> nat \<Rightarrow> bool" where
  "event_value k t \<longleftrightarrow> item_value k (xEventListItem t) = of_nat configMAX_PRIORITIES - of_nat (prio k t)"

definition by_priority :: "kernel \<Rightarrow> nat list \<Rightarrow> bool" where
  "by_priority k ts \<longleftrightarrow> sorted_wrt (\<lambda>a b. prio k b \<le> prio k a) ts"

lemma event_value_le:
  assumes "prio k a < 5" "prio k b < 5" "event_value k a" "event_value k b"
  shows "xItemValue (lists k) (xEventListItem a) \<le> xItemValue (lists k) (xEventListItem b) \<longleftrightarrow> prio k b \<le> prio k a"
proof -
  have v: "xItemValue (lists k) (xEventListItem t) = of_nat (5 - prio k t)" if "prio k t < 5" "event_value k t" for t
    using that by (simp add: event_value_def item_value_def configMAX_PRIORITIES_def of_nat_diff)
  have u: "unat (of_nat (5 - p) :: u32) = 5 - p" for p :: nat by (simp add: unsigned_of_nat take_bit_eq_mod)
  show ?thesis using assms by (simp add: v word_le_nat_alt u del: of_nat_diff) linarith
qed

lemma by_priority_insert:
  assumes "by_priority k ts"
  shows "by_priority k (takeWhile (\<lambda>s. prio k c \<le> prio k s) ts @ c # dropWhile (\<lambda>s. prio k c \<le> prio k s) ts)"
  using assms unfolding by_priority_def
proof (induction ts)
  case (Cons a ts)
  then show ?case by (auto dest: set_takeWhileD set_dropWhileD)
qed simp

lemma place_on_event_list_ok:
  assumes "kernel_ok k E T" "placed k T" and "l \<in> E" "waiters k l ts" and "pxCurrentTCB k = Some c" "event_list k c = None"
    and "\<And>t. t \<in> insert c (set ts) \<Longrightarrow> event_value k t" and "n \<noteq> 0"
  shows "\<exists>k'. vTaskPlaceOnEventList l n k = Inr k' \<and> kernel_ok k' E T \<and>
    waiters k' l (takeWhile (\<lambda>s. prio k c \<le> prio k s) ts @ c # dropWhile (\<lambda>s. prio k c \<le> prio k s) ts) \<and>
    (by_priority k ts \<longrightarrow>
     by_priority k' (takeWhile (\<lambda>s. prio k c \<le> prio k s) ts @ c # dropWhile (\<lambda>s. prio k c \<le> prio k s) ts)) \<and>
    (if n = portMAX_DELAY then state_list k' c = Some xSuspendedTaskList else timed k' c \<and> ticks_left k' c = unat n)"
proof -
  obtain L where L: "struct_ok k E T L" "time_ok k T" using assms(1) by (auto simp: kernel_ok_def)
  note s = struct_okD[OF L(1)]
  let ?e = "xEventListItem c" and ?ts = "takeWhile (\<lambda>s. prio k c \<le> prio k s) ts @ c # dropWhile (\<lambda>s. prio k c \<le> prio k s) ts"
  have cT: "c \<in> T" using s(3) assms(5) by (auto simp: sched_ok_def)
  obtain h where h: "insert_sorted l ?e k = Inr (k\<lparr>lists := h\<rparr>)"
      "struct_ok (k\<lparr>lists := h\<rparr>) E T (L(l := by_value (xItemValue (lists k)) ?e (L l)))"
      "pxContainer h = (pxContainer (lists k))(?e := Some l)" "xItemValue h = xItemValue (lists k)"
    using insert_event_kernel(1)[OF L(1) cT assms(6), of l] assms(3) by auto
  have "xItemValue (lists k) (xEventListItem a) \<le> xItemValue (lists k) ?e \<longleftrightarrow> prio k c \<le> prio k a" if "a \<in> set ts" for a
    using event_value_le[of k a c] sched_okD(4)[OF s(3)] waiters_tasks[OF L(1) assms(3,4) that] cT assms(7) that by simp
  then have seq: "by_value (xItemValue (lists k)) ?e (L l) = map xEventListItem ?ts"
    unfolding by_value_def waiters_seq[OF L(1) assms(3,4)] takeWhile_map dropWhile_map comp_def
    by (simp cong: takeWhile_cong dropWhile_cong)
  have tm: "time_ok (k\<lparr>lists := h\<rparr>) T" by (rule time_ok_cong[OF L(2) _ _ s(3)]) (use h in auto)
  have "state_list (k\<lparr>lists := h\<rparr>) c \<noteq> None" using assms(2) cT h(3) by (simp add: placed_def)
  then obtain k' L' where k': "prvAddCurrentTaskToDelayedList n True (k\<lparr>lists := h\<rparr>) = Inr k'" "struct_ok k' E T L'"
      "time_ok k' T" "blocked_for n True c (k\<lparr>lists := h\<rparr>) k'"
      "\<forall>m \<in> E. L' m = (L(l := by_value (xItemValue (lists k)) ?e (L l))) m"
    using block_current_ok[OF h(2) tm _ _ assms(8), of c True] assms(5) by auto
  have "vTaskPlaceOnEventList l n k = Inr k'"
    using assms(5) h(1) k'(1) by (simp add: vTaskPlaceOnEventList_def current_def)
  moreover have "waiters k' l ?ts" using waiters_of[OF k'(2) assms(3)] k'(5) assms(3) seq by simp
  moreover have "prio k' a = prio k a" for a using blocked_for_fields(9)[OF k'(4)] by auto
  then have "by_priority k ts \<longrightarrow> by_priority k' ?ts" using by_priority_insert[of k ts c] by (simp add: by_priority_def)
  moreover have "kernel_ok k' E T" using k'(2,3) by (auto simp: kernel_ok_def)
  moreover have "state_list k' c = Some xSuspendedTaskList" if "n = portMAX_DELAY"
    using k'(4) that by (simp add: blocked_for_def block_list_def xSuspendedTaskList_def)
  moreover have "timed k' c \<and> ticks_left k' c = unat n" if "n \<noteq> portMAX_DELAY"
    using blocked_ticks_left[OF k'(4) struct_okD(3)[OF h(2)]] that by simp
  ultimately show ?thesis by auto
qed

text \<open>
  C33: waiting for an event. A task that blocks with \<open>vTaskPlaceOnEventList\<close> goes behind all waiters whose
  priority is not lower and before the others, so that a list in order of priority stays so, with equal
  priorities in order of arrival: the first waiter, which the event wakes, is one of highest priority.
  With a timeout the task also has that number of ticks to go; without, it is in the suspended list.
\<close>
theorem vTaskPlaceOnEventList_by_priority:
  assumes "kernel_ok k E T" "placed k T" and "l \<in> E" "waiters k l ts" and "pxCurrentTCB k = Some c" "event_list k c = None"
    and "\<And>t. t \<in> insert c (set ts) \<Longrightarrow> event_value k t" and "n \<noteq> 0"
  shows "\<exists>k'. vTaskPlaceOnEventList l n k = Inr k' \<and> kernel_ok k' E T \<and>
    waiters k' l (takeWhile (\<lambda>s. prio k c \<le> prio k s) ts @ c # dropWhile (\<lambda>s. prio k c \<le> prio k s) ts) \<and>
    (by_priority k ts \<longrightarrow>
     by_priority k' (takeWhile (\<lambda>s. prio k c \<le> prio k s) ts @ c # dropWhile (\<lambda>s. prio k c \<le> prio k s) ts)) \<and>
    (if n = portMAX_DELAY then state_list k' c = Some xSuspendedTaskList else timed k' c \<and> ticks_left k' c = unat n)"
  using place_on_event_list_ok[OF assms] .

theorem vTaskPlaceOnEventList_by_priority_witness:
  "\<exists>k'. vTaskPlaceOnEventList 10 portMAX_DELAY event_kernel = Inr k' \<and> waiters k' 10 [2, 3, 4]"
proof -
  have v: "event_value event_kernel t" if "t \<in> insert 2 (set [3, 4])" for t
    using that by (auto simp: event_value_def event_states configMAX_PRIORITIES_def)
  have "portMAX_DELAY \<noteq> 0" by (simp add: portMAX_DELAY_def)
  from vTaskPlaceOnEventList_by_priority[OF event_kernel_ok event_kernel_waiters(2) _ event_kernel_waiters(1) _ _ v this]
  show ?thesis using event_states(6) by auto
qed

subsection \<open>Changes of priority\<close>

lemma set_event_value_ok:
  assumes ok: "struct_ok k E T L" "time_ok k T" and t: "t \<in> T"
  shows "struct_ok (set_item_value (xEventListItem t) v k) E T L" "time_ok (set_item_value (xEventListItem t) v k) T"
proof -
  note s = struct_okD[OF ok(1)]
  let ?x = "xEventListItem t"
  have n: "?x \<notin> set (L l)" if "l \<in> {5, 6}" for l
    using container_iff[OF s(1), of ?x l] sched_okD(8)[OF s(3) t, of l] event_lists_disjoint[OF s(3), of l] that by auto
  have "map ((xItemValue (lists k))(?x := v)) (L l) = map (xItemValue (lists k)) (L l)" if "l \<in> {5, 6}" for l
    using n[OF that] by (rule map_fun_upd)
  from this[of 5] this[of 6] have "sorted_ok (set_item_value ?x v k) L"
    using s(2) unfolding sorted_ok_def set_item_value_def listSET_LIST_ITEM_VALUE_def
    by (simp del: fun_upd_apply map_eq_conv)
  with s set_value_ok[OF s(1), of ?x v] t show "struct_ok (set_item_value ?x v k) E T L"
    by (simp add: struct_ok_def set_item_value_def sched_ok_def listSET_LIST_ITEM_VALUE_def)
  show "time_ok (set_item_value ?x v k) T"
    by (rule time_ok_cong[OF ok(2) _ _ s(3)]) (simp_all add: set_item_value_def listSET_LIST_ITEM_VALUE_def)
qed

lemma reset_event_value_cases:
  obtains "reset_event_value t p k = k" | "reset_event_value t p k =
    set_item_value (xEventListItem t) (of_nat configMAX_PRIORITIES - of_nat p) k"
  unfolding reset_event_value_def by (meson that)

lemma reset_event_value_ok:
  assumes "struct_ok k E T L" "time_ok k T" "t \<in> T"
  shows "struct_ok (reset_event_value t p k) E T L" "time_ok (reset_event_value t p k) T"
  using set_event_value_ok[OF assms] assms by (cases rule: reset_event_value_cases[of t p k]; simp)+

lemma set_item_value_fields [simp]:
  "tcbs (set_item_value x v k) = tcbs k" "pxCurrentTCB (set_item_value x v k) = pxCurrentTCB k"
  "pxContainer (lists (set_item_value x v k)) = pxContainer (lists k)"
  by (simp_all add: set_item_value_def listSET_LIST_ITEM_VALUE_def)

lemma reset_event_value_fields [simp]:
  "tcbs (reset_event_value t p k) = tcbs k" "pxCurrentTCB (reset_event_value t p k) = pxCurrentTCB k"
  "pxContainer (lists (reset_event_value t p k)) = pxContainer (lists k)"
  by (simp_all add: reset_event_value_def)

lemma struct_ok_set_prio:
  assumes "struct_ok k E T L" and "t \<in> T \<Longrightarrow> uxPriority (f (tcbs k t)) < 5"
    and "\<And>m. state_list k t = Some m \<Longrightarrow> 5 \<le> m"
  shows "struct_ok (upd_tcb t f k) E T L"
  using assms unfolding struct_ok_def sched_ok_def sorted_ok_def upd_tcb_def by (auto simp: not_le)

lemma time_ok_upd_tcb [simp]: "time_ok (upd_tcb t f k) T = time_ok k T"
  by (simp add: time_ok_def)

text \<open>
  C34: a change of priority does not move a waiting task. For a task that waits for an event and holds no
  inherited priority, \<open>vTaskPrioritySet\<close> changes the priority and the value of the event item, but
  the waiters keep their order: when the new priority is above that of the first waiter, the event still
  wakes the first waiter.
\<close>
theorem vTaskPrioritySet_keeps_wait_order:
  assumes "kernel_ok k E T" and "l \<in> E" "waiters k l ts" "t \<in> set ts" and "pxCurrentTCB k = Some c" "t \<noteq> c"
    and "p < configMAX_PRIORITIES" "uxBasePriority (tcbs k t) = prio k t" "prio k t \<noteq> p"
    and "item_value k (xEventListItem t) AND taskEVENT_LIST_ITEM_VALUE_IN_USE = 0"
    and "state_list k t = Some m" "m \<in> {pxDelayedTaskList k, pxOverflowDelayedTaskList k, xSuspendedTaskList}"
  shows "\<exists>k'. vTaskPrioritySet (Some t) p k = Inr k' \<and> kernel_ok k' E T \<and> prio k' t = p \<and>
    (\<forall>s. s \<noteq> t \<longrightarrow> prio k' s = prio k s) \<and> event_value k' t \<and> waiters k' l ts"
proof -
  obtain L where L: "struct_ok k E T L" "time_ok k T" using assms(1) by (auto simp: kernel_ok_def)
  note s = struct_okD[OF L(1)]
  have tT: "t \<in> T" using waiters_tasks[OF L(1) assms(2-4)] .
  have m5: "5 \<le> m" using assms(12) sched_okD(1,2)[OF s(3)] by (auto simp: xSuspendedTaskList_def)
  define k1 where "k1 = upd_tcb t (uxBasePriority_update (\<lambda>_. p)) (upd_tcb t (uxPriority_update (\<lambda>_. p)) k)"
  have k1: "struct_ok k1 E T L" "time_ok k1 T"
    unfolding k1_def using L(2) assms(7,11) m5
    by (auto intro!: struct_ok_upd_tcb struct_ok_set_prio[OF L(1)] simp: configMAX_PRIORITIES_def)
  define k2 where "k2 = reset_event_value t p k1"
  have k2: "struct_ok k2 E T L" "time_ok k2 T" unfolding k2_def by (rule reset_event_value_ok[OF k1 tT])+
  have f: "prio k2 s = (if s = t then p else prio k s)" for s by (simp add: k2_def k1_def)
  have "prio k t \<noteq> m" using sched_okD(4)[OF s(3) tT] m5 by auto
  then have nr: "\<not> in_ready_list (prio k t) t k2"
    using assms(11) by (simp add: in_ready_list_def listIS_CONTAINED_WITHIN_def k2_def k1_def)
  define y where "y = (prio k t < p \<and> prio k c \<le> p)"
  have "vTaskPrioritySet (Some t) p k = Inr (if y then portYIELD_WITHIN_API k2 else k2)"
    using assms(5-9) nr unfolding vTaskPrioritySet_def prvGetTCBFromHandle_def option.case res_bind_Inr Let_def y_def
    by (cases "prio k t < p") (simp_all add: current_priority_def current_def k1_def[symmetric] k2_def[symmetric])
  moreover define k' where "k' = (if y then portYIELD_WITHIN_API k2 else k2)"
  moreover have "kernel_ok k' E T"
    using k2 kernel_ok_simp_fields(2)[of k2 E T True] by (auto simp: k'_def portYIELD_WITHIN_API_def kernel_ok_def)
  moreover have "lists k' = lists k2" "tcbs k' = tcbs k2" by (simp_all add: k'_def portYIELD_WITHIN_API_def)
  moreover have "event_value k2 t"
    using assms(10) f by (simp add: event_value_def k2_def reset_event_value_def item_value_def set_item_value_def
        listSET_LIST_ITEM_VALUE_def k1_def)
  moreover have "waiters k2 l ts" using waiters_of[OF k2(1) assms(2)] waiters_seq[OF L(1) assms(2,3)] .
  ultimately show ?thesis using f by (intro exI[of _ k']) (simp add: event_value_def item_value_def waiters_def)
qed

theorem vTaskPrioritySet_keeps_wait_order_witness:
  "\<exists>k'. vTaskPrioritySet (Some 4) 4 event_kernel = Inr k' \<and> waiters k' 10 [3, 4] \<and> prio k' 3 < prio k' 4"
proof -
  have u: "item_value event_kernel (xEventListItem 4) AND taskEVENT_LIST_ITEM_VALUE_IN_USE = 0"
    by (simp add: event_states taskEVENT_LIST_ITEM_VALUE_IN_USE_def)
  have "\<exists>k'. vTaskPrioritySet (Some 4) 4 event_kernel = Inr k' \<and> kernel_ok k' {10} wrap_tasks \<and> prio k' 4 = 4 \<and>
    (\<forall>s. s \<noteq> 4 \<longrightarrow> prio k' s = prio event_kernel s) \<and> event_value k' 4 \<and> waiters k' 10 [3, 4]"
    by (rule vTaskPrioritySet_keeps_wait_order[where c = 2, OF event_kernel_ok _ event_kernel_waiters(1) _ _ _ _ _ _ u event_states(4)])
      (simp_all add: configMAX_PRIORITIES_def xSuspendedTaskList_def)
  then show ?thesis by auto
qed

end
