(* ===== verification/Rtos_Queue_Store.thy ===== *)
theory Rtos_Queue_Store
  imports Rtos_Queue Rtos_Event_Props
begin

section \<open>Queues as bounded sequences\<close>

text \<open>
  The storage of a queue is a ring of slots between \<open>pcHead\<close> and \<open>pcTail\<close>; a semaphore is the case of empty
  items. The content of a queue is the sequence of its items, and the contract \<open>bounded_fifo\<close> says what
  sending and receiving do to it.
\<close>

subsection \<open>Memory\<close>

definition bytes_at :: "sys \<Rightarrow> u32 \<Rightarrow> nat \<Rightarrow> u8 list" where
  "bytes_at s a n = map (\<lambda>i. ram s (a + of_nat i)) [0..<n]"

lemma length_bytes_at [simp]: "length (bytes_at s a n) = n"
  by (simp add: bytes_at_def)

lemma bytes_at_0 [simp]: "bytes_at s a 0 = []"
  by (simp add: bytes_at_def)

lemma unat_small: "n < 2 ^ 32 \<Longrightarrow> unat (of_nat n :: u32) = n"
  by (simp add: unsigned_of_nat take_bit_eq_mod)

lemma word_range:
  fixes a b z :: u32
  assumes "unat b + unat z \<le> 2 ^ 32"
  shows "a - b < z \<longleftrightarrow> unat b \<le> unat a \<and> unat a < unat b + unat z"
proof (cases "b \<le> a")
  case True
  then have "unat (a - b) = unat a - unat b" "unat b \<le> unat a" by (simp_all add: unat_sub word_le_nat_alt)
  then show ?thesis by (auto simp: word_less_nat_alt)
next
  case False
  then have "unat (a - b) = unat a + 2 ^ 32 - unat b" by (simp add: unat_sub_if_size word_size not_le word_less_nat_alt)
  with False assms show ?thesis by (auto simp: word_less_nat_alt word_le_nat_alt)
qed

lemma bytes_at_memcpy: "bytes_at (memcpy dst src n s) dst (unat n) = bytes_at s src (unat n)"
proof -
  have "of_nat i < n" if "i < unat n" for i
    using that less_trans[OF that unsigned_less[of n]] by (simp add: word_less_nat_alt unat_small)
  then show ?thesis by (auto simp: bytes_at_def memcpy_def)
qed

lemma bytes_at_memcpy_other:
  assumes "\<And>i. i < k \<Longrightarrow> \<not> a + of_nat i - dst < n"
  shows "bytes_at (memcpy dst src n s) a k = bytes_at s a k"
  using assms by (auto simp: bytes_at_def memcpy_def)

lemma sys_fields [simp]:
  "queues (memcpy d r n s) = queues s" "kern (memcpy d r n s) = kern s"
  "queues (upd_queue q f s) = (queues s)(q := f (queues s q))" "kern (upd_queue q f s) = kern s" "ram (upd_queue q f s) = ram s"
  "bytes_at (upd_queue q f s) = bytes_at s" "kern (on_kern g s) = g (kern s)" "queues (on_kern g s) = queues s"
  "ram (on_kern g s) = ram s" "bytes_at (on_kern g s) = bytes_at s" "bytes_at (s\<lparr>kern := k\<rparr>) = bytes_at s"
  by (simp_all add: memcpy_def upd_queue_def on_kern_def bytes_at_def fun_eq_iff)

subsection \<open>The ring of slots\<close>

definition slot :: "queue \<Rightarrow> nat \<Rightarrow> u32" where
  "slot Q i = pcHead Q + of_nat i * uxItemSize Q"

definition read_index :: "queue \<Rightarrow> nat" where
  "read_index Q = (unat (pcReadFrom Q) - unat (pcHead Q)) div unat (uxItemSize Q)"

definition ring_ok :: "queue \<Rightarrow> bool" where
  "ring_ok Q \<longleftrightarrow>
     uxLength Q \<noteq> 0 \<and> uxMessagesWaiting Q \<le> uxLength Q \<and>
     (if uxItemSize Q = 0 then pcHead Q \<noteq> queueQUEUE_IS_MUTEX
      else unat (pcHead Q) + unat (uxLength Q) * unat (uxItemSize Q) < 2 ^ 32 \<and>
        uxItemSize Q \<le> pcHead Q \<and> pcTail Q = slot Q (unat (uxLength Q)) \<and> read_index Q < unat (uxLength Q) \<and>
        pcReadFrom Q = slot Q (read_index Q) \<and>
        pcWriteTo Q = slot Q ((read_index Q + 1 + unat (uxMessagesWaiting Q)) mod unat (uxLength Q)))"

text \<open>The items from the one read next to the one written last.\<close>

definition content :: "u32 \<Rightarrow> sys \<Rightarrow> u8 list list" where
  "content q s =
     (let Q = queues s q in
      map (\<lambda>i. bytes_at s (slot Q ((read_index Q + 1 + i) mod unat (uxLength Q))) (unat (uxItemSize Q)))
        [0..<unat (uxMessagesWaiting Q)])"

lemma length_content [simp]: "length (content q s) = unat (uxMessagesWaiting (queues s q))"
  by (simp add: content_def Let_def)

lemma content_nth:
  "i < unat (uxMessagesWaiting (queues s q)) \<Longrightarrow> content q s ! i =
     bytes_at s (slot (queues s q) ((read_index (queues s q) + 1 + i) mod unat (uxLength (queues s q))))
       (unat (uxItemSize (queues s q)))"
  by (simp add: content_def Let_def)

lemma unat_slot:
  assumes "unat (pcHead Q) + unat (uxLength Q) * unat (uxItemSize Q) < 2 ^ 32" and "i \<le> unat (uxLength Q)"
  shows "unat (slot Q i) = unat (pcHead Q) + i * unat (uxItemSize Q)"
proof -
  have e: "slot Q i = pcHead Q + of_nat (i * unat (uxItemSize Q))" by (simp add: slot_def)
  have "i * unat (uxItemSize Q) \<le> unat (uxLength Q) * unat (uxItemSize Q)" using assms(2) by (rule mult_le_mono1)
  then have "unat (pcHead Q) + i * unat (uxItemSize Q) < 2 ^ 32" using assms(1) by linarith
  then show ?thesis unfolding e by (intro unat_add_no_wrap) simp
qed

lemma ring_index_inj:
  fixes a i j n :: nat
  assumes "(a + i) mod n = (a + j) mod n" and "i < n" and "j < n"
  shows "i = j"
proof -
  have "i = j" if "i \<le> j" "(a + j) mod n = (a + i) mod n" "j < n" for i j
  proof -
    have "n dvd j - i" using that by (simp add: mod_eq_dvd_iff_nat)
    then show ?thesis using that(1,3) dvd_imp_le[of n "j - i"] by (cases "i = j") auto
  qed
  from this[of i j] this[of j i] assms show ?thesis by (cases "i \<le> j") auto
qed

text \<open>What a proof about a ring with items uses.\<close>

definition ring_at :: "queue \<Rightarrow> nat \<Rightarrow> nat \<Rightarrow> bool" where
  "ring_at Q n z \<longleftrightarrow>
     n = unat (uxLength Q) \<and> z = unat (uxItemSize Q) \<and> 0 < n \<and> 0 < z \<and> unat (pcHead Q) + n * z < 2 ^ 32 \<and>
     pcTail Q = slot Q n \<and> z \<le> unat (pcHead Q)"

lemma ring_atD:
  assumes "ring_at Q n z"
  shows "unat (uxLength Q) = n" "unat (uxItemSize Q) = z" "0 < n" "0 < z" "unat (pcHead Q) + n * z < 2 ^ 32"
    "pcTail Q = slot Q n" "z \<le> unat (pcHead Q)"
  using assms unfolding ring_at_def by blast+

lemma ring_at_slot:
  assumes "ring_at Q n z" and "i \<le> n"
  shows "unat (slot Q i) = unat (pcHead Q) + i * z"
  using unat_slot[of Q i, unfolded ring_atD(1,2)[OF assms(1)]] ring_atD(5)[OF assms(1)] assms(2) by simp

lemma ring_slot_le:
  assumes "ring_at Q n z" and "i < n"
  shows "unat (pcHead Q) + i * z + z \<le> unat (pcHead Q) + n * z" "unat (pcHead Q) + i * z + z < 2 ^ 32"
proof -
  have "Suc i * z \<le> n * z" using assms(2) by (intro mult_le_mono1) simp
  then show "unat (pcHead Q) + i * z + z \<le> unat (pcHead Q) + n * z" by simp
  with ring_atD(5)[OF assms(1)] show "unat (pcHead Q) + i * z + z < 2 ^ 32" by linarith
qed

lemma ring_in_slot:
  assumes r: "ring_at Q n z" and i: "i < n"
  shows "a - slot Q i < uxItemSize Q \<longleftrightarrow> unat (pcHead Q) + i * z \<le> unat a \<and> unat a < unat (pcHead Q) + i * z + z"
proof -
  have e: "unat (slot Q i) = unat (pcHead Q) + i * z" using ring_at_slot[OF r, of i] i by simp
  with ring_slot_le(2)[OF r i] have "unat (slot Q i) + unat (uxItemSize Q) \<le> 2 ^ 32" unfolding ring_atD(2)[OF r] by linarith
  from word_range[OF this] show ?thesis unfolding e ring_atD(2)[OF r] .
qed

lemma ring_slots_apart:
  assumes r: "ring_at Q n z" and "i < n" "j < n" "i \<noteq> j" "k < z"
  shows "\<not> slot Q i + of_nat k - slot Q j < uxItemSize Q"
proof -
  have e: "unat (slot Q i) = unat (pcHead Q) + i * z" using ring_at_slot[OF r, of i] assms(2) by simp
  have "unat (slot Q i) + k < 2 ^ 32" using ring_slot_le(2)[OF r assms(2)] assms(5) unfolding e by linarith
  then have u: "unat (slot Q i + of_nat k) = unat (pcHead Q) + i * z + k" by (simp add: unat_add_no_wrap e)
  have "Suc i \<le> j \<or> Suc j \<le> i" using assms(4) by linarith
  then have "Suc i * z \<le> j * z \<or> Suc j * z \<le> i * z" using mult_le_mono1 by blast
  then have "i * z + z \<le> j * z \<or> j * z + z \<le> i * z" by (simp add: add.commute)
  then show ?thesis unfolding ring_in_slot[OF r assms(3)] u using assms(5) by linarith
qed

lemma ring_advance:
  assumes r: "ring_at Q n z" and "i < n"
  shows "(if slot Q i + uxItemSize Q \<ge> pcTail Q then pcHead Q else slot Q i + uxItemSize Q) = slot Q (Suc i mod n)"
proof -
  have e: "slot Q i + uxItemSize Q = slot Q (Suc i)" by (simp add: slot_def algebra_simps)
  have "pcTail Q \<le> slot Q (Suc i) \<longleftrightarrow> n * z \<le> Suc i * z"
    using ring_at_slot[OF r, of n] ring_at_slot[OF r, of "Suc i"] assms(2) by (simp add: ring_atD(6)[OF r] word_le_nat_alt)
  also have "\<dots> \<longleftrightarrow> n = Suc i" using ring_atD(4)[OF r] assms(2) unfolding mult_le_cancel2 by linarith
  finally have "pcTail Q \<le> slot Q (Suc i) \<longleftrightarrow> n = Suc i" .
  then show ?thesis unfolding e using assms(2) by (auto simp: slot_def)
qed

lemma ring_retreat:
  assumes r: "ring_at Q n z" and "i < n"
  shows "(if slot Q i - uxItemSize Q < pcHead Q then pcTail Q - uxItemSize Q else slot Q i - uxItemSize Q) =
    slot Q ((i + n - 1) mod n)"
proof (cases i)
  case 0
  have "uxItemSize Q \<le> pcHead Q" using ring_atD(2,7)[OF r] by (simp add: word_le_nat_alt)
  then have "pcHead Q - uxItemSize Q < pcHead Q"
    using ring_atD(2,4,7)[OF r] by (simp add: word_less_nat_alt unat_sub)
  moreover obtain m where "n = Suc m" using ring_atD(3)[OF r] by (cases n) auto
  then have "pcTail Q - uxItemSize Q = slot Q (n - 1)" by (simp add: ring_atD(6)[OF r] slot_def algebra_simps)
  ultimately show ?thesis using 0 ring_atD(3)[OF r] by (simp add: slot_def)
next
  case (Suc j)
  have "slot Q i - uxItemSize Q = slot Q j" by (simp add: slot_def Suc algebra_simps)
  moreover have "\<not> slot Q j < pcHead Q" using ring_at_slot[OF r, of j] assms(2) Suc by (simp add: word_less_nat_alt)
  moreover have "(i + n - 1) mod n = j" using Suc assms(2) by simp
  ultimately show ?thesis by simp
qed

lemma read_index_slot:
  assumes r: "ring_at Q n z" and "i < n"
  shows "read_index (Q\<lparr>u_word1 := slot Q i\<rparr>) = i"
  using ring_at_slot[OF r, of i] ring_atD(2,4)[OF r] assms(2) by (simp add: read_index_def)

subsection \<open>Moving items\<close>

lemma slot_update [simp]:
  "slot (Q\<lparr>pcWriteTo := w\<rparr>) = slot Q" "slot (Q\<lparr>u_word1 := w\<rparr>) = slot Q" "slot (Q\<lparr>uxMessagesWaiting := w\<rparr>) = slot Q"
  "read_index (Q\<lparr>pcWriteTo := w\<rparr>) = read_index Q" "read_index (Q\<lparr>uxMessagesWaiting := w\<rparr>) = read_index Q"
  by (simp_all add: fun_eq_iff slot_def read_index_def)

lemma ring_okD:
  assumes "ring_ok Q" "uxItemSize Q \<noteq> 0"
  shows "ring_at Q (unat (uxLength Q)) (unat (uxItemSize Q))" "read_index Q < unat (uxLength Q)"
    "pcReadFrom Q = slot Q (read_index Q)"
    "pcWriteTo Q = slot Q ((read_index Q + 1 + unat (uxMessagesWaiting Q)) mod unat (uxLength Q))"
  using assms by (simp_all add: ring_ok_def ring_at_def unat_gt_0 word_le_nat_alt)

lemma ring_okI:
  assumes "ring_at Q (unat (uxLength Q)) (unat (uxItemSize Q))" "uxMessagesWaiting Q \<le> uxLength Q"
    "read_index Q < unat (uxLength Q)" "pcReadFrom Q = slot Q (read_index Q)"
    "pcWriteTo Q = slot Q ((read_index Q + 1 + unat (uxMessagesWaiting Q)) mod unat (uxLength Q))"
  shows "ring_ok Q"
  using assms by (auto simp: ring_ok_def ring_at_def unat_gt_0 word_le_nat_alt)

lemma ring_at_update [simp]:
  "ring_at (Q\<lparr>pcWriteTo := w\<rparr>) n z = ring_at Q n z" "ring_at (Q\<lparr>u_word1 := w\<rparr>) n z = ring_at Q n z"
  "ring_at (Q\<lparr>uxMessagesWaiting := w\<rparr>) n z = ring_at Q n z"
  by (simp_all add: ring_at_def)

lemma unat_count:
  fixes m n :: u32
  shows "m < n \<Longrightarrow> unat (m + 1) = unat m + 1" "0 < m \<Longrightarrow> unat (m - 1) = unat m - 1" "m < n \<Longrightarrow> m + 1 \<le> n"
proof -
  show u: "unat (m + 1) = unat m + 1" if "m < n"
  proof -
    have "unat n < 2 ^ LENGTH(32)" by (rule unsigned_less)
    then have "unat m + 1 < 2 ^ 32" using that by (simp add: word_less_nat_alt)
    then show ?thesis using unat_add_no_wrap[of m 1] by simp
  qed
  show "unat (m - 1) = unat m - 1" if "0 < m" using that by (simp add: unat_minus_one word_gt_0)
  show "m + 1 \<le> n" if "m < n" using that u[OF that] by (simp add: word_le_nat_alt word_less_nat_alt)
qed

text \<open>Another slot keeps its bytes when an item is written.\<close>

lemma slot_bytes_other:
  assumes "ring_at Q n z" "i < n" "j < n" "i \<noteq> j"
  shows "bytes_at (memcpy (slot Q j) p (uxItemSize Q) s) (slot Q i) z = bytes_at s (slot Q i) z"
  using ring_slots_apart[OF assms] by (intro bytes_at_memcpy_other)

lemma store_back:
  fixes q s p
  defines "Q \<equiv> queues s q"
  defines "s' \<equiv> upd_queue q (uxMessagesWaiting_update (\<lambda>_. uxMessagesWaiting Q + 1)) (copy_to_back q p s)"
  assumes ok: "ring_ok Q" "uxItemSize Q \<noteq> 0" and room: "uxMessagesWaiting Q < uxLength Q"
  shows "ring_ok (queues s' q)" "content q s' = content q s @ [bytes_at s p (unat (uxItemSize Q))]"
proof -
  note r = ring_okD[OF ok]
  define n where "n = unat (uxLength Q)"
  define w where "w = (read_index Q + 1 + unat (uxMessagesWaiting Q)) mod n"
  have wn: "w < n" unfolding w_def using ring_atD(3)[OF r(1)] by (simp add: n_def)
  have e: "pcWriteTo Q = slot Q w" using r(4) by (simp add: w_def n_def)
  have "queues s' q = Q\<lparr>pcWriteTo := (if slot Q w + uxItemSize Q \<ge> pcTail Q then pcHead Q else slot Q w + uxItemSize Q),
      uxMessagesWaiting := uxMessagesWaiting Q + 1\<rparr>"
    by (simp add: s'_def copy_to_back_def Let_def e flip: Q_def)
  then have Q': "queues s' q = Q\<lparr>pcWriteTo := slot Q (Suc w mod n), uxMessagesWaiting := uxMessagesWaiting Q + 1\<rparr>"
    unfolding ring_advance[OF r(1), folded n_def, OF wn] .
  have b: "bytes_at s' = bytes_at (memcpy (slot Q w) p (uxItemSize Q) s)"
    by (simp add: s'_def copy_to_back_def Let_def e flip: Q_def)
  have c: "unat (uxMessagesWaiting Q + 1) = unat (uxMessagesWaiting Q) + 1" using unat_count(1)[OF room] .
  have ws: "Suc (read_index Q + unat (uxMessagesWaiting Q)) mod n = w" by (simp add: w_def)
  have sw: "Suc w mod n = (read_index Q + 1 + (unat (uxMessagesWaiting Q) + 1)) mod n" by (simp add: w_def mod_simps)
  show "ring_ok (queues s' q)"
    using r unat_count(3)[OF room] sw unfolding Q' by (intro ring_okI) (simp_all add: c n_def)
  show "content q s' = content q s @ [bytes_at s p (unat (uxItemSize Q))]"
  proof (rule nth_equalityI)
    fix i assume "i < length (content q s')"
    then have i: "i < Suc (unat (uxMessagesWaiting Q))" by (simp add: Q' c)
    show "content q s' ! i = (content q s @ [bytes_at s p (unat (uxItemSize Q))]) ! i"
    proof (cases "i = unat (uxMessagesWaiting Q)")
      case True
      then show ?thesis
        by (simp add: content_nth Q' c b nth_append ws bytes_at_memcpy flip: Q_def n_def)
    next
      case False
      then have im: "i < unat (uxMessagesWaiting Q)" using i by simp
      have "i < n" "unat (uxMessagesWaiting Q) < n" using im room by (simp_all add: n_def word_less_nat_alt)
      then have "(read_index Q + 1 + i) mod n \<noteq> w" unfolding w_def using ring_index_inj[of "read_index Q + 1" i n] False by blast
      then have "bytes_at s' (slot Q ((read_index Q + 1 + i) mod n)) (unat (uxItemSize Q)) =
          bytes_at s (slot Q ((read_index Q + 1 + i) mod n)) (unat (uxItemSize Q))"
        unfolding b using slot_bytes_other[OF r(1)] wn ring_atD(3)[OF r(1)] by (simp add: n_def)
      then show ?thesis using im by (simp add: content_nth Q' c nth_append flip: Q_def n_def)
    qed
  qed (simp add: Q' c flip: Q_def)
qed

lemma store_front:
  fixes q s p
  defines "Q \<equiv> queues s q"
  assumes ok: "ring_ok Q" "uxItemSize Q \<noteq> 0" and m: "unat m < unat (uxLength Q)" "m \<le> uxMessagesWaiting Q"
    and w: "pcWriteTo Q = slot Q ((read_index Q + 1 + unat m) mod unat (uxLength Q))"
  defines "s' \<equiv> upd_queue q (uxMessagesWaiting_update (\<lambda>_. m + 1)) (copy_to_front q p s)"
  shows "ring_ok (queues s' q)" "content q s' = bytes_at s p (unat (uxItemSize Q)) # take (unat m) (content q s)"
proof -
  note r = ring_okD[OF ok]
  define n where "n = unat (uxLength Q)"
  define x where "x = (read_index Q + n - 1) mod n"
  have n0: "0 < n" using ring_atD(3)[OF r(1)] by (simp add: n_def)
  have xn: "x < n" using n0 by (simp add: x_def)
  have "queues s' q = Q\<lparr>u_word1 := (if slot Q (read_index Q) - uxItemSize Q < pcHead Q then pcTail Q - uxItemSize Q
      else slot Q (read_index Q) - uxItemSize Q), uxMessagesWaiting := m + 1\<rparr>"
    by (simp add: s'_def copy_to_front_def Let_def r(3)[symmetric] flip: Q_def)
  then have Q': "queues s' q = Q\<lparr>u_word1 := slot Q x, uxMessagesWaiting := m + 1\<rparr>"
    unfolding ring_retreat[OF r(1,2)] x_def n_def .
  have b: "bytes_at s' = bytes_at (memcpy (slot Q (read_index Q)) p (uxItemSize Q) s)"
    by (simp add: s'_def copy_to_front_def Let_def r(3)[symmetric] flip: Q_def)
  have ri: "read_index (Q\<lparr>u_word1 := slot Q x\<rparr>) = x" using read_index_slot[OF r(1)] xn by (simp add: n_def)
  have c: "unat (m + 1) = unat m + 1" using unat_count(1)[of m "uxLength Q"] m(1) by (simp add: word_less_nat_alt)
  have xi: "(x + 1 + Suc i) mod n = (read_index Q + 1 + i) mod n" "(x + 1) mod n = read_index Q" for i
  proof -
    have "(x + 1) mod n = (read_index Q + n) mod n" using n0 by (simp add: x_def mod_simps)
    then show "(x + 1) mod n = read_index Q" using r(2) by (simp add: n_def)
    then show "(x + 1 + Suc i) mod n = (read_index Q + 1 + i) mod n"
      by (metis add.assoc add_Suc_right add_Suc_shift mod_add_left_eq plus_1_eq_Suc)
  qed
  show "ring_ok (queues s' q)"
  proof (rule ring_okI)
    show "uxMessagesWaiting (queues s' q) \<le> uxLength (queues s' q)"
      using m(1) unat_count(3)[of m "uxLength Q"] by (simp add: Q' word_less_nat_alt)
    show "pcWriteTo (queues s' q) = slot (queues s' q) ((read_index (queues s' q) + 1 +
        unat (uxMessagesWaiting (queues s' q))) mod unat (uxLength (queues s' q)))"
      using xi(1)[of "unat m"] by (simp add: Q' ri c w flip: n_def)
  qed (use r(1) xn in \<open>simp_all add: Q' ri flip: n_def\<close>)
  show "content q s' = bytes_at s p (unat (uxItemSize Q)) # take (unat m) (content q s)"
  proof (rule nth_equalityI)
    fix i assume "i < length (content q s')"
    then have i: "i < Suc (unat m)" by (simp add: Q' c)
    show "content q s' ! i = (bytes_at s p (unat (uxItemSize Q)) # take (unat m) (content q s)) ! i"
    proof (cases i)
      case 0
      then show ?thesis using xi(2) by (simp add: content_nth Q' c b ri bytes_at_memcpy flip: Q_def n_def)
    next
      case (Suc j)
      have jm: "j < unat m" "unat m \<le> unat (uxMessagesWaiting Q)" using i Suc m(2) by (simp_all add: word_le_nat_alt)
      have "(read_index Q + (1 + j)) mod n \<noteq> (read_index Q + 0) mod n"
        using ring_index_inj[of "read_index Q" "1 + j" n 0] jm m(1) n0 by (auto simp: n_def)
      then have "(read_index Q + 1 + j) mod n \<noteq> read_index Q" using r(2) by (simp add: n_def)
      then have "bytes_at s' (slot Q ((read_index Q + 1 + j) mod n)) (unat (uxItemSize Q)) =
          bytes_at s (slot Q ((read_index Q + 1 + j) mod n)) (unat (uxItemSize Q))"
        unfolding b using slot_bytes_other[OF r(1)] r(2) n0 by (simp add: n_def)
      then show ?thesis using jm Suc xi(1)[of j] i
        by (simp add: content_nth Q' c ri flip: Q_def n_def del: add_Suc_right)
    qed
  qed (use m(2) in \<open>simp add: Q' c word_le_nat_alt flip: Q_def\<close>)
qed

text \<open>A buffer of the size of an item that no byte of the storage belongs to.\<close>

definition outside :: "queue \<Rightarrow> u32 \<Rightarrow> bool" where
  "outside Q p \<longleftrightarrow> (\<forall>a. a - p < uxItemSize Q \<longrightarrow>
     \<not> (unat (pcHead Q) \<le> unat a \<and> unat a < unat (pcHead Q) + unat (uxLength Q) * unat (uxItemSize Q)))"

lemma outside_slot:
  assumes r: "ring_at Q n z" and "i < n" "k < z" and "outside Q p"
  shows "\<not> slot Q i + of_nat k - p < uxItemSize Q"
proof -
  have e: "unat (slot Q i) = unat (pcHead Q) + i * z" using ring_at_slot[OF r, of i] assms(2) by simp
  have "unat (slot Q i) + k < 2 ^ 32" using ring_slot_le(2)[OF r assms(2)] assms(3) unfolding e by linarith
  then have u: "unat (slot Q i + of_nat k) = unat (pcHead Q) + i * z + k" by (simp add: unat_add_no_wrap e)
  have "unat (pcHead Q) \<le> unat (slot Q i + of_nat k)" "unat (slot Q i + of_nat k) < unat (pcHead Q) + n * z"
    using ring_slot_le(1)[OF r assms(2)] assms(3) unfolding u by linarith+
  then show ?thesis using assms(4) ring_atD(1,2)[OF r] by (auto simp: outside_def)
qed

lemma fetch_front:
  fixes q s p
  defines "Q \<equiv> queues s q"
  assumes ok: "ring_ok Q" "uxItemSize Q \<noteq> 0" and m: "0 < uxMessagesWaiting Q" and o: "outside Q p"
  defines "s' \<equiv> upd_queue q (uxMessagesWaiting_update (\<lambda>_. uxMessagesWaiting Q - 1)) (prvCopyDataFromQueue q p s)"
  shows "ring_ok (queues s' q)" "content q s' = tl (content q s)" "bytes_at s' p (unat (uxItemSize Q)) = hd (content q s)"
proof -
  note r = ring_okD[OF ok]
  define n where "n = unat (uxLength Q)"
  define x where "x = Suc (read_index Q) mod n"
  have n0: "0 < n" using ring_atD(3)[OF r(1)] by (simp add: n_def)
  have xn: "x < n" using n0 by (simp add: x_def)
  have e: "(if pcReadFrom Q + uxItemSize Q \<ge> pcTail Q then pcHead Q else pcReadFrom Q + uxItemSize Q) = slot Q x"
    unfolding r(3) ring_advance[OF r(1,2)] x_def n_def ..
  have Q': "queues s' q = Q\<lparr>u_word1 := slot Q x, uxMessagesWaiting := uxMessagesWaiting Q - 1\<rparr>"
    unfolding s'_def prvCopyDataFromQueue_def Let_def Q_def[symmetric] e using ok(2) by (simp flip: Q_def)
  have b: "bytes_at s' = bytes_at (memcpy p (slot Q x) (uxItemSize Q) s)"
    unfolding s'_def prvCopyDataFromQueue_def Let_def Q_def[symmetric] e using ok(2)
    by (simp add: fun_eq_iff bytes_at_def memcpy_def)
  have ri: "read_index (Q\<lparr>u_word1 := slot Q x\<rparr>) = x" using read_index_slot[OF r(1)] xn by (simp add: n_def)
  have c: "unat (uxMessagesWaiting Q - 1) = unat (uxMessagesWaiting Q) - 1" "0 < unat (uxMessagesWaiting Q)"
    using unat_count(2)[OF m] m by (simp_all add: unat_gt_0 word_gt_0)
  have xi: "(x + 1 + i) mod n = (read_index Q + 1 + Suc i) mod n" for i
    using mod_add_left_eq[of "Suc (read_index Q)" n "1 + i"] by (simp add: x_def)
  show "ring_ok (queues s' q)"
  proof (rule ring_okI)
    have "uxMessagesWaiting Q \<le> uxLength Q" using ok(1) by (simp add: ring_ok_def)
    then show "uxMessagesWaiting (queues s' q) \<le> uxLength (queues s' q)" using c by (simp add: Q' word_le_nat_alt)
    show "pcWriteTo (queues s' q) = slot (queues s' q) ((read_index (queues s' q) + 1 +
        unat (uxMessagesWaiting (queues s' q))) mod unat (uxLength (queues s' q)))"
      using xi[of "unat (uxMessagesWaiting Q) - 1"] c(2) r(4) by (simp add: Q' ri c(1) flip: n_def)
  qed (use r(1) xn in \<open>simp_all add: Q' ri flip: n_def\<close>)
  have other: "bytes_at s' (slot Q i) (unat (uxItemSize Q)) = bytes_at s (slot Q i) (unat (uxItemSize Q))" if "i < n" for i
    unfolding b using outside_slot[OF r(1) _ _ o] that by (intro bytes_at_memcpy_other) (simp add: n_def)
  show "content q s' = tl (content q s)"
  proof (rule nth_equalityI)
    fix i assume "i < length (content q s')"
    then have i: "Suc i < unat (uxMessagesWaiting Q)" by (simp add: Q' c)
    then show "content q s' ! i = tl (content q s) ! i"
      using other[of "(read_index Q + 1 + Suc i) mod n"] n0 xi[of i]
      by (simp add: nth_tl content_nth Q' c(1) ri flip: Q_def n_def del: add_Suc_right)
  qed (simp add: Q' c flip: Q_def)
  have "hd (content q s) = content q s ! 0" using c(2) by (intro hd_conv_nth) (auto simp flip: Q_def length_greater_0_conv)
  then show "bytes_at s' p (unat (uxItemSize Q)) = hd (content q s)"
    using c(2) by (simp add: b bytes_at_memcpy content_nth x_def flip: Q_def n_def)
qed

subsection \<open>The contract\<close>

text \<open>What the calls do to a sequence of items.\<close>

fun deque_put :: "copy_position \<Rightarrow> 'i \<Rightarrow> 'i list \<Rightarrow> 'i list" where
  "deque_put queueSEND_TO_BACK x xs = xs @ [x]"
| "deque_put queueSEND_TO_FRONT x xs = x # xs"
| "deque_put queueOVERWRITE x xs = [x]"

datatype 'i event = Sent copy_position 'i | Refused | Got 'i | Saw 'i | Nothing

text \<open>The histories of a deque of bounded length, with the sequence they lead to.\<close>

fun replay :: "nat \<Rightarrow> 'i event list \<Rightarrow> 'i list \<Rightarrow> 'i list option" where
  "replay n [] xs = Some xs"
| "replay n (Sent pos x # es) xs = (if length xs < n then replay n es (deque_put pos x xs) else None)"
| "replay n (Refused # es) xs = (if length xs = n then replay n es xs else None)"
| "replay n (Got x # es) xs = (if xs \<noteq> [] \<and> x = hd xs then replay n es (tl xs) else None)"
| "replay n (Saw x # es) xs = (if xs \<noteq> [] \<and> x = hd xs then replay n es xs else None)"
| "replay n (Nothing # es) xs = (if xs = [] then replay n es xs else None)"

text \<open>Calls of a client: it fills a buffer, sends it to the back or the front, receives or peeks into it.\<close>

datatype ('p, 'i) client = Fill 'p 'i | Send bool 'p | Receive 'p | Peek 'p

fun client_buffer :: "('p, 'i) client \<Rightarrow> 'p" where
  "client_buffer (Fill p x) = p"
| "client_buffer (Send front p) = p"
| "client_buffer (Receive p) = p"
| "client_buffer (Peek p) = p"

definition send_position :: "bool \<Rightarrow> copy_position" where
  "send_position front = (if front then queueSEND_TO_FRONT else queueSEND_TO_BACK)"

fun client_run :: "('p \<Rightarrow> 'i \<Rightarrow> 's \<Rightarrow> 's) \<Rightarrow> ('s \<Rightarrow> 'p \<Rightarrow> 'i) \<Rightarrow> (copy_position \<Rightarrow> 'p \<Rightarrow> 's \<Rightarrow> (bool \<times> 's) res) \<Rightarrow>
    ('p \<Rightarrow> 's \<Rightarrow> (bool \<times> 's) res) \<Rightarrow> ('p \<Rightarrow> 's \<Rightarrow> (bool \<times> 's) res) \<Rightarrow> ('p, 'i) client list \<Rightarrow> 's \<Rightarrow> ('i event list \<times> 's) res" where
  "client_run fill val send receive peek [] s = Inr ([], s)"
| "client_run fill val send receive peek (Fill p x # cs) s = client_run fill val send receive peek cs (fill p x s)"
| "client_run fill val send receive peek (Send front p # cs) s =
     res_bind (send (send_position front) p s) (\<lambda>(r, s').
     res_bind (client_run fill val send receive peek cs s') (\<lambda>(es, s'').
     Inr ((if r then Sent (send_position front) (val s p) else Refused) # es, s'')))"
| "client_run fill val send receive peek (Receive p # cs) s =
     res_bind (receive p s) (\<lambda>(r, s').
     res_bind (client_run fill val send receive peek cs s') (\<lambda>(es, s'').
     Inr ((if r then Got (val s' p) else Nothing) # es, s'')))"
| "client_run fill val send receive peek (Peek p # cs) s =
     res_bind (peek p s) (\<lambda>(r, s').
     res_bind (client_run fill val send receive peek cs s') (\<lambda>(es, s'').
     Inr ((if r then Saw (val s' p) else Nothing) # es, s'')))"

locale bounded_deque =
  fixes ok :: "'s \<Rightarrow> bool" and items :: "'s \<Rightarrow> 'i list" and cap :: "'s \<Rightarrow> nat" and buffer :: "'s \<Rightarrow> 'p \<Rightarrow> bool"
    and fill :: "'p \<Rightarrow> 'i \<Rightarrow> 's \<Rightarrow> 's" and val :: "'s \<Rightarrow> 'p \<Rightarrow> 'i"
    and send :: "copy_position \<Rightarrow> 'p \<Rightarrow> 's \<Rightarrow> (bool \<times> 's) res" and receive :: "'p \<Rightarrow> 's \<Rightarrow> (bool \<times> 's) res"
    and peek :: "'p \<Rightarrow> 's \<Rightarrow> (bool \<times> 's) res"
  assumes bounded: "ok s \<Longrightarrow> length (items s) \<le> cap s"
    and fill_ok: "ok s \<Longrightarrow> buffer s p \<Longrightarrow>
      ok (fill p x s) \<and> items (fill p x s) = items s \<and> cap (fill p x s) = cap s \<and> buffer (fill p x s) = buffer s"
    and send_ok: "ok s \<Longrightarrow> buffer s p \<Longrightarrow> pos \<noteq> queueOVERWRITE \<Longrightarrow>
      \<exists>s'. send pos p s = Inr (length (items s) < cap s, s') \<and> ok s' \<and> cap s' = cap s \<and> buffer s' = buffer s \<and>
        items s' = (if length (items s) < cap s then deque_put pos (val s p) (items s) else items s)"
    and receive_ok: "ok s \<Longrightarrow> buffer s p \<Longrightarrow>
      \<exists>s'. receive p s = Inr (items s \<noteq> [], s') \<and> ok s' \<and> cap s' = cap s \<and> buffer s' = buffer s \<and>
        items s' = tl (items s) \<and> (items s \<noteq> [] \<longrightarrow> val s' p = hd (items s))"
    and peek_ok: "ok s \<Longrightarrow> buffer s p \<Longrightarrow>
      \<exists>s'. peek p s = Inr (items s \<noteq> [], s') \<and> ok s' \<and> cap s' = cap s \<and> buffer s' = buffer s \<and>
        items s' = items s \<and> (items s \<noteq> [] \<longrightarrow> val s' p = hd (items s))"
begin

lemma run_replays:
  assumes "ok s" and "\<forall>c \<in> set cs. buffer s (client_buffer c)"
  shows "\<exists>es s'. client_run fill val send receive peek cs s = Inr (es, s') \<and> ok s' \<and> cap s' = cap s \<and>
    replay (cap s) es (items s) = Some (items s')"
  using assms
proof (induction cs arbitrary: s)
  case (Cons c cs)
  show ?case
  proof (cases c)
    case (Fill p x)
    then show ?thesis using Cons.IH[of "fill p x s"] fill_ok[of s p x] Cons.prems by auto
  next
    case (Send front p)
    have "send_position front \<noteq> queueOVERWRITE" by (simp add: send_position_def)
    then obtain s1 where s1: "send (send_position front) p s = Inr (length (items s) < cap s, s1)" "ok s1" "cap s1 = cap s"
        "buffer s1 = buffer s"
        "items s1 = (if length (items s) < cap s then deque_put (send_position front) (val s p) (items s) else items s)"
      using send_ok[of s p "send_position front"] Cons.prems Send by auto
    have "\<forall>c \<in> set cs. buffer s1 (client_buffer c)" using Cons.prems(2) s1(4) by simp
    from Cons.IH[OF s1(2) this] s1 bounded[OF Cons.prems(1)] show ?thesis unfolding Send by auto
  next
    case (Receive p)
    obtain s1 where s1: "receive p s = Inr (items s \<noteq> [], s1)" "ok s1" "cap s1 = cap s" "buffer s1 = buffer s"
        "items s1 = tl (items s)" "items s \<noteq> [] \<longrightarrow> val s1 p = hd (items s)"
      using receive_ok[of s p] Cons.prems Receive by auto
    have "\<forall>c \<in> set cs. buffer s1 (client_buffer c)" using Cons.prems(2) s1(4) by simp
    from Cons.IH[OF s1(2) this] s1 show ?thesis unfolding Receive by auto
  next
    case (Peek p)
    obtain s1 where s1: "peek p s = Inr (items s \<noteq> [], s1)" "ok s1" "cap s1 = cap s" "buffer s1 = buffer s"
        "items s1 = items s" "items s \<noteq> [] \<longrightarrow> val s1 p = hd (items s)"
      using peek_ok[of s p] Cons.prems Peek by auto
    have "\<forall>c \<in> set cs. buffer s1 (client_buffer c)" using Cons.prems(2) s1(4) by simp
    from Cons.IH[OF s1(2) this] s1 show ?thesis unfolding Peek by auto
  qed
qed simp

end

end
