(* ===== verification/Rtos_Queue_Props.thy ===== *)
theory Rtos_Queue_Props
  imports Rtos_Queue_Store
begin

section \<open>Properties of queues and semaphores\<close>

text \<open>
  The calls of a queue under the invariant of the scheduler: what they do to the content and which tasks they
  wake.
\<close>

subsection \<open>Waking from the event lists of a queue\<close>

lemma waiters_exist:
  assumes "struct_ok k E T L" "l \<in> E"
  obtains ts where "waiters k l ts"
proof -
  note s = struct_okD[OF assms(1)]
  have d: "l \<in> kernel_lists E" "l \<ge> 10" using assms(2) event_lists_disjoint[OF s(3)] by auto
  have "\<exists>t. x = xEventListItem t" if "x \<in> set (L l)" for x
  proof -
    have c: "pxContainer (lists k) x = Some l" using container_iff[OF s(1)] d(1) that by simp
    have "x \<in> task_items T" using lists_okD(5)[OF s(1) d(1)] that by auto
    moreover have "x \<noteq> xStateListItem t" if "t \<in> T" for t using sched_okD(6)[OF s(3) that, of l] c d(2) by auto
    ultimately show ?thesis by (auto simp: task_items_def)
  qed
  then obtain ts where "L l = map xEventListItem ts" by (metis ex_map_conv)
  with that waiters_of[OF assms] show ?thesis by blast
qed

lemma empty_waiters:
  assumes "struct_ok k E T L" "l \<in> E" "waiters k l ts"
  shows "listLIST_IS_EMPTY l (lists k) \<longleftrightarrow> ts = []"
  using list_is_empty_iff[OF struct_okD(1)[OF assms(1)], of l] waiters_seq[OF assms] assms(2) by simp

text \<open>Waking at most one waiter.\<close>

lemma wake_first_ok:
  assumes ok: "kernel_ok (kern s) E T" "placed (kern s) T" and l: "l \<in> E" "waiters (kern s) l ts" and c: "pxCurrentTCB (kern s) = Some c"
  shows "\<exists>k'. wake_first l s = Inr (ts \<noteq> [] \<and> prio (kern s) c < prio (kern s) (hd ts), s\<lparr>kern := k'\<rparr>) \<and>
    kernel_ok k' E T \<and> placed k' T \<and> waiters k' l (tl ts) \<and> same_fields (kern s) k' \<and>
    (ts \<noteq> [] \<longrightarrow> (if uxSchedulerSuspended (kern s) = 0 then ready k' (hd ts) \<and> event_list k' (hd ts) = None
       else state_list k' (hd ts) = state_list (kern s) (hd ts) \<and> event_list k' (hd ts) = Some xPendingReadyList)) \<and>
    (\<forall>t. ts = [] \<or> t \<noteq> hd ts \<longrightarrow> state_list k' t = state_list (kern s) t \<and> event_list k' t = event_list (kern s) t) \<and>
    xItemValue (lists k') = xItemValue (lists (kern s)) \<and> xNumOfOverflows k' = xNumOfOverflows (kern s) \<and>
    (\<forall>m \<in> E. m \<noteq> l \<longrightarrow> (\<forall>us. waiters (kern s) m us \<longrightarrow> waiters k' m us)) \<and>
    xYieldPending k' = (xYieldPending (kern s) \<or> ts \<noteq> [] \<and> prio (kern s) c < prio (kern s) (hd ts))"
proof -
  obtain L where L: "struct_ok (kern s) E T L" using ok(1) by (auto simp: kernel_ok_def)
  show ?thesis
  proof (cases ts)
    case Nil
    have e: "s\<lparr>kern := kern s\<rparr> = s" by simp
    then have "wake_first l s = Inr (False, s\<lparr>kern := kern s\<rparr>)" using empty_waiters[OF L l] Nil by (simp add: wake_first_def)
    then show ?thesis using ok l Nil by (intro exI[of _ "kern s"]) (simp add: same_fields_def)
  next
    case (Cons t ts')
    obtain k' where k': "xTaskRemoveFromEventList l (kern s) = Inr (prio (kern s) c < prio (kern s) t, k')"
        "kernel_ok k' E T" "waiters k' l ts'"
        "if uxSchedulerSuspended (kern s) = 0 then ready k' t \<and> event_list k' t = None
         else state_list k' t = state_list (kern s) t \<and> event_list k' t = Some xPendingReadyList"
        "\<forall>a. a \<noteq> t \<longrightarrow> state_list k' a = state_list (kern s) a \<and> event_list k' a = event_list (kern s) a"
        "xYieldPending k' = (xYieldPending (kern s) \<or> prio (kern s) c < prio (kern s) t)" "same_fields (kern s) k'"
        "xItemValue (lists k') = xItemValue (lists (kern s))" "xNumOfOverflows k' = xNumOfOverflows (kern s)"
        "\<forall>m \<in> E. m \<noteq> l \<longrightarrow> (\<forall>us. waiters (kern s) m us \<longrightarrow> waiters k' m us)"
      using wake_first_waiter[OF ok l(1) l(2)[unfolded Cons] c] by blast
    have "wake_first l s = Inr (prio (kern s) c < prio (kern s) t, s\<lparr>kern := k'\<rparr>)"
      using empty_waiters[OF L l] Cons k'(1) by (simp add: wake_first_def kernel_call_def)
    moreover have "placed k' T"
      unfolding placed_def
    proof
      fix a assume "a \<in> T"
      then show "state_list k' a \<noteq> None" using ok(2) k'(4,5) by (cases "a = t") (auto simp: placed_def ready_def split: if_splits)
    qed
    ultimately show ?thesis using k' Cons by (intro exI[of _ k']) simp
  qed
qed

subsection \<open>Queues refine bounded deques\<close>

definition queue_sys_ok :: "u32 \<Rightarrow> nat set \<Rightarrow> nat set \<Rightarrow> sys \<Rightarrow> bool" where
  "queue_sys_ok q E T s \<longleftrightarrow>
     q \<noteq> 0 \<and> kernel_ok (kern s) E T \<and> placed (kern s) T \<and> xTasksWaitingToSend q \<in> E \<and> xTasksWaitingToReceive q \<in> E \<and>
     ring_ok (queues s q)"

text \<open>The fields that no transfer of an item changes.\<close>

definition same_shape :: "queue \<Rightarrow> queue \<Rightarrow> bool" where
  "same_shape Q Q' \<longleftrightarrow> uxLength Q' = uxLength Q \<and> uxItemSize Q' = uxItemSize Q \<and> pcHead Q' = pcHead Q"

definition item_buffer :: "u32 \<Rightarrow> sys \<Rightarrow> u32 \<Rightarrow> bool" where
  "item_buffer q s p \<longleftrightarrow> (p = 0 \<longrightarrow> uxItemSize (queues s q) = 0) \<and> outside (queues s q) p"

lemma same_shapeD:
  assumes "same_shape (queues s q) (queues s' q)"
  shows "unat (uxLength (queues s' q)) = unat (uxLength (queues s q))" "item_buffer q s' = item_buffer q s"
  using assms by (simp_all add: same_shape_def item_buffer_def outside_def fun_eq_iff)

definition fill_buffer :: "u32 \<Rightarrow> u32 \<Rightarrow> u8 list \<Rightarrow> sys \<Rightarrow> sys" where
  "fill_buffer q p x s = s\<lparr>ram := (\<lambda>a. if a - p < uxItemSize (queues s q) \<and> unat (a - p) < length x
     then x ! unat (a - p) else ram s a)\<rparr>"

definition item_at :: "u32 \<Rightarrow> sys \<Rightarrow> u32 \<Rightarrow> u8 list" where
  "item_at q s p = bytes_at s p (unat (uxItemSize (queues s q)))"

lemma ring_semaphore:
  "uxItemSize (queues s q) = 0 \<Longrightarrow> content q s = replicate (unat (uxMessagesWaiting (queues s q))) []"
  "uxItemSize Q = 0 \<Longrightarrow> ring_ok Q \<longleftrightarrow> uxLength Q \<noteq> 0 \<and> uxMessagesWaiting Q \<le> uxLength Q \<and> pcHead Q \<noteq> 0"
  by (auto simp: content_def Let_def map_replicate_const ring_ok_def queueQUEUE_IS_MUTEX_def)

lemma room_iff: "length (content q s) < unat (uxLength (queues s q)) \<longleftrightarrow> uxMessagesWaiting (queues s q) < uxLength (queues s q)"
  by (simp add: word_less_nat_alt)

lemma content_Nil_iff: "content q s = [] \<longleftrightarrow> uxMessagesWaiting (queues s q) = 0"
  by (simp flip: length_0_conv add: unat_eq_0)

lemma fill_buffer_ok:
  assumes "queue_sys_ok q E T s" "item_buffer q s p"
  shows "queue_sys_ok q E T (fill_buffer q p x s)" "content q (fill_buffer q p x s) = content q s"
proof -
  let ?Q = "queues s q"
  have Q: "queues (fill_buffer q p x s) = queues s" "kern (fill_buffer q p x s) = kern s" by (simp_all add: fill_buffer_def)
  then show "queue_sys_ok q E T (fill_buffer q p x s)" using assms(1) by (simp add: queue_sys_ok_def)
  have "bytes_at (fill_buffer q p x s) (slot ?Q i) (unat (uxItemSize ?Q)) = bytes_at s (slot ?Q i) (unat (uxItemSize ?Q))"
    if "i < unat (uxLength ?Q)" for i
  proof (cases "uxItemSize ?Q = 0")
    case False
    have r: "ring_at ?Q (unat (uxLength ?Q)) (unat (uxItemSize ?Q))" "outside ?Q p"
      using ring_okD(1)[OF _ False] assms by (auto simp: queue_sys_ok_def item_buffer_def)
    show ?thesis using outside_slot[OF r(1) that _ r(2)] by (auto simp: bytes_at_def fill_buffer_def)
  qed simp
  moreover have "unat (uxLength ?Q) > 0" using assms(1) by (simp add: queue_sys_ok_def ring_ok_def unat_gt_0)
  ultimately show "content q (fill_buffer q p x s) = content q s" by (simp add: content_def Q Let_def)
qed

lemma copy_in_ok:
  assumes ok: "ring_ok (queues s q)" and room: "uxMessagesWaiting (queues s q) < uxLength (queues s q)" and "pos \<noteq> queueOVERWRITE"
  shows "\<exists>s'. prvCopyDataToQueue q p pos s = Inr (False, s') \<and> kern s' = kern s \<and> ring_ok (queues s' q) \<and>
    same_shape (queues s q) (queues s' q) \<and> content q s' = deque_put pos (item_at q s p) (content q s)"
proof (cases "uxItemSize (queues s q) = 0")
  case True
  let ?Q = "queues s q"
  define s' where "s' = upd_queue q (uxMessagesWaiting_update (\<lambda>_. uxMessagesWaiting ?Q + 1)) s"
  have Q': "queues s' q = ?Q\<lparr>uxMessagesWaiting := uxMessagesWaiting ?Q + 1\<rparr>" by (simp add: s'_def)
  have "prvCopyDataToQueue q p pos s = Inr (False, s')"
    using True ok by (simp add: prvCopyDataToQueue_def Let_def s'_def ring_semaphore(2)[OF True] queueQUEUE_IS_MUTEX_def)
  moreover have "ring_ok (queues s' q)"
    using ok unat_count(3)[OF room] True by (simp add: ring_semaphore(2) Q')
  moreover have "content q s' = deque_put pos (item_at q s p) (content q s)"
    using assms(3) True unat_count(1)[OF room]
    by (cases pos) (simp_all add: ring_semaphore(1) Q' item_at_def replicate_append_same)
  ultimately show ?thesis by (auto simp: s'_def same_shape_def)
next
  case False
  let ?Q = "queues s q"
  note b = store_back[OF ok False room, of p] and r = ring_okD[OF ok False]
  have f: "ring_ok (queues (upd_queue q (uxMessagesWaiting_update (\<lambda>_. uxMessagesWaiting ?Q + 1)) (copy_to_front q p s)) q)"
    "content q (upd_queue q (uxMessagesWaiting_update (\<lambda>_. uxMessagesWaiting ?Q + 1)) (copy_to_front q p s)) =
       bytes_at s p (unat (uxItemSize ?Q)) # content q s"
    using store_front[OF ok False _ order_refl r(4), of p] room by (simp_all add: word_less_nat_alt)
  show ?thesis
    using b f False assms(3) by (cases pos)
      (auto simp: prvCopyDataToQueue_def Let_def item_at_def same_shape_def copy_to_back_def copy_to_front_def)
qed

lemma copy_out_ok:
  assumes ok: "ring_ok (queues s q)" and m: "0 < uxMessagesWaiting (queues s q)" and o: "outside (queues s q) p"
  defines "s' \<equiv> upd_queue q (uxMessagesWaiting_update (\<lambda>_. uxMessagesWaiting (queues s q) - 1)) (prvCopyDataFromQueue q p s)"
  shows "kern s' = kern s \<and> ring_ok (queues s' q) \<and> same_shape (queues s q) (queues s' q) \<and>
    content q s' = tl (content q s) \<and> item_at q s' p = hd (content q s)"
proof (cases "uxItemSize (queues s q) = 0")
  case True
  let ?Q = "queues s q"
  have Q': "queues s' q = ?Q\<lparr>uxMessagesWaiting := uxMessagesWaiting ?Q - 1\<rparr>" "kern s' = kern s"
    using True by (simp_all add: s'_def prvCopyDataFromQueue_def Let_def)
  have c: "unat (uxMessagesWaiting ?Q - 1) = unat (uxMessagesWaiting ?Q) - 1" "0 < unat (uxMessagesWaiting ?Q)"
    using unat_count(2)[OF m] m by (simp_all add: unat_gt_0 word_gt_0)
  have "unat (uxMessagesWaiting ?Q) \<le> unat (uxLength ?Q)" using ok by (simp add: ring_ok_def word_le_nat_alt)
  then have "uxMessagesWaiting ?Q - 1 \<le> uxLength ?Q" using c(1) by (simp add: word_le_nat_alt)
  then have "ring_ok (queues s' q)" using ok True by (simp add: ring_semaphore(2) Q')
  moreover have "hd (content q s) = []" using True c(2) by (simp add: ring_semaphore(1))
  moreover have "content q s' = tl (content q s)" using True c(1) by (simp add: ring_semaphore(1) Q' tl_replicate)
  ultimately show ?thesis using True by (simp add: Q' same_shape_def item_at_def)
next
  case False
  have "kern s' = kern s" "same_shape (queues s q) (queues s' q)"
    by (simp_all add: s'_def prvCopyDataFromQueue_def Let_def same_shape_def)
  then show ?thesis
    using fetch_front[OF ok False m o] by (simp add: s'_def same_shape_def item_at_def)
qed

lemma peek_out_ok:
  assumes ok: "ring_ok (queues s q)" and m: "0 < uxMessagesWaiting (queues s q)" and o: "outside (queues s q) p"
  defines "s' \<equiv> upd_queue q (u_word1_update (\<lambda>_. pcReadFrom (queues s q))) (prvCopyDataFromQueue q p s)"
  shows "kern s' = kern s \<and> queues s' q = queues s q \<and> content q s' = content q s \<and> item_at q s' p = hd (content q s)"
proof (cases "uxItemSize (queues s q) = 0")
  case True
  have Q': "queues s' q = queues s q" "kern s' = kern s" using True by (simp_all add: s'_def prvCopyDataFromQueue_def Let_def)
  moreover have "hd (content q s) = []" using True m by (simp add: ring_semaphore(1) unat_gt_0 word_gt_0)
  ultimately show ?thesis using True by (simp add: ring_semaphore(1) item_at_def)
next
  case False
  let ?Q = "queues s q" and ?z = "unat (uxItemSize (queues s q))"
  note r = ring_okD[OF ok False]
  have Q': "queues s' q = ?Q" "kern s' = kern s" using False by (simp_all add: s'_def prvCopyDataFromQueue_def Let_def)
  define a where "a = (if pcReadFrom ?Q + uxItemSize ?Q \<ge> pcTail ?Q then pcHead ?Q else pcReadFrom ?Q + uxItemSize ?Q)"
  have b: "bytes_at s' = bytes_at (memcpy p a (uxItemSize ?Q) s)"
    unfolding s'_def prvCopyDataFromQueue_def Let_def a_def[symmetric] using False
    by (simp add: bytes_at_def memcpy_def fun_eq_iff)
  have "bytes_at s' (slot ?Q i) ?z = bytes_at s (slot ?Q i) ?z" if "i < unat (uxLength ?Q)" for i
    unfolding b using outside_slot[OF r(1) that _ o] by (rule bytes_at_memcpy_other)
  moreover have "unat (uxLength ?Q) > 0" using ok by (simp add: ring_ok_def unat_gt_0)
  ultimately have "content q s' = content q s" by (simp add: content_def Q' Let_def)
  moreover have "item_at q s' p = hd (content q s)"
  proof -
    have "bytes_at s' p ?z = bytes_at (upd_queue q (uxMessagesWaiting_update (\<lambda>_. uxMessagesWaiting ?Q - 1)) (prvCopyDataFromQueue q p s)) p ?z"
      by (simp add: s'_def)
    then show ?thesis using fetch_front(3)[OF ok False m o] by (simp add: item_at_def Q')
  qed
  ultimately show ?thesis using Q' by simp
qed

lemma run_blocking_finished:
  "attempt ticks None s = Inr (Finished r, s') \<Longrightarrow> run_blocking attempt wait env ticks s = Inr (r, s')"
  by (simp add: run_blocking_def blocking_loop.simps)

lemma wake_and_yield_ok:
  assumes "kernel_ok (kern s) E T" "placed (kern s) T" "l \<in> E"
  shows "\<exists>k'. wake_and_yield l s = Inr (s\<lparr>kern := k'\<rparr>) \<and> kernel_ok k' E T \<and> placed k' T"
proof -
  obtain L where L: "struct_ok (kern s) E T L" using assms(1) by (auto simp: kernel_ok_def)
  obtain c where c: "pxCurrentTCB (kern s) = Some c" using struct_okD(3)[OF L] by (auto simp: sched_ok_def)
  obtain ts where "waiters (kern s) l ts" using waiters_exist[OF L assms(3)] .
  then obtain w k1 where k1: "wake_first l s = Inr (w, s\<lparr>kern := k1\<rparr>)" "kernel_ok k1 E T" "placed k1 T"
    using wake_first_ok[OF assms _ c] by blast
  have "kernel_ok (k1\<lparr>port_yield := True\<rparr>) E T" "placed (k1\<lparr>port_yield := True\<rparr>) T"
    using kernel_ok_simp_fields(2)[OF k1(2)] k1(3) by (simp_all add: placed_def)
  with k1 show ?thesis
    by (cases w) (auto simp: wake_and_yield_def queueYIELD_IF_USING_PREEMPTION_def on_kern_def portYIELD_WITHIN_API_def)
qed

lemma queue_sys_ok_kern:
  assumes "queue_sys_ok q E T s" "kernel_ok k E T" "placed k T" "ring_ok (queues s' q)"
  shows "queue_sys_ok q E T (s'\<lparr>kern := k\<rparr>)"
  using assms by (simp add: queue_sys_ok_def)

lemma content_kern [simp]: "content q (s\<lparr>kern := k\<rparr>) = content q s" "item_at q (s\<lparr>kern := k\<rparr>) = item_at q s"
  by (simp_all add: content_def item_at_def fun_eq_iff)

lemma may_block_0 [simp]: "may_block 0 s"
  by (simp add: may_block_def)

lemma send_now_ok:
  assumes ok: "queue_sys_ok q E T s" and b: "item_buffer q s p" and pos: "pos \<noteq> queueOVERWRITE"
  shows "\<exists>s'. xQueueGenericSend env q p 0 pos s = Inr (length (content q s) < unat (uxLength (queues s q)), s') \<and>
    queue_sys_ok q E T s' \<and> same_shape (queues s q) (queues s' q) \<and>
    content q s' = (if length (content q s) < unat (uxLength (queues s q))
      then deque_put pos (item_at q s p) (content q s) else content q s)"
proof -
  note o = ok[unfolded queue_sys_ok_def]
  have call: "xQueueGenericSend env q p 0 pos s = Inr (r, s')" if "send_attempt q p pos 0 None s = Inr (Finished r, s')" for r s'
    using that o b pos by (simp add: xQueueGenericSend_def item_buffer_def run_blocking_finished assert_that_def)
  show ?thesis
  proof (cases "uxMessagesWaiting (queues s q) < uxLength (queues s q)")
    case True
    obtain s1 where s1: "prvCopyDataToQueue q p pos s = Inr (False, s1)" "kern s1 = kern s" "ring_ok (queues s1 q)"
        "same_shape (queues s q) (queues s1 q)" "content q s1 = deque_put pos (item_at q s p) (content q s)"
      using copy_in_ok[OF _ True pos] o by blast
    obtain k' where k': "wake_and_yield (xTasksWaitingToReceive q) s1 = Inr (s1\<lparr>kern := k'\<rparr>)" "kernel_ok k' E T" "placed k' T"
      using wake_and_yield_ok[of s1 E T "xTasksWaitingToReceive q"] o s1(2) by auto
    have "send_attempt q p pos 0 None s = Inr (Finished True, s1) \<or>
        send_attempt q p pos 0 None s = Inr (Finished True, s1\<lparr>kern := k'\<rparr>)"
      using True s1(1) k'(1) by (simp add: send_attempt_def)
    then obtain k where k: "send_attempt q p pos 0 None s = Inr (Finished True, s1\<lparr>kern := k\<rparr>)" "kernel_ok k E T" "placed k T"
    proof
      assume "send_attempt q p pos 0 None s = Inr (Finished True, s1)"
      then show ?thesis using that[of "kern s1"] o s1(2) by simp
    qed (use k' that in blast)
    show ?thesis
      using call[OF k(1)] queue_sys_ok_kern[OF ok k(2,3) s1(3)] s1(4,5) True
      by (intro exI[of _ "s1\<lparr>kern := k\<rparr>"]) (simp add: room_iff del: length_content)
  next
    case False
    then have "send_attempt q p pos 0 None s = Inr (Finished False, s)"
      using pos by (simp add: send_attempt_def wait_or_fail_def)
    then show ?thesis using call ok False by (intro exI[of _ s]) (simp add: room_iff same_shape_def del: length_content)
  qed
qed

lemma receive_now_ok:
  assumes ok: "queue_sys_ok q E T s" and b: "item_buffer q s p"
  shows "\<exists>s'. xQueueReceive env q p 0 s = Inr (content q s \<noteq> [], s') \<and>
    queue_sys_ok q E T s' \<and> same_shape (queues s q) (queues s' q) \<and> content q s' = tl (content q s) \<and>
    (content q s \<noteq> [] \<longrightarrow> item_at q s' p = hd (content q s))"
proof -
  note o = ok[unfolded queue_sys_ok_def]
  have call: "xQueueReceive env q p 0 s = Inr (r, s')" if "receive_attempt q p 0 None s = Inr (Finished r, s')" for r s'
    using that o b by (simp add: xQueueReceive_def item_buffer_def run_blocking_finished assert_that_def)
  show ?thesis
  proof (cases "content q s = []")
    case True
    then have "receive_attempt q p 0 None s = Inr (Finished False, s)"
      by (simp add: receive_attempt_def wait_or_fail_def content_Nil_iff)
    from call[OF this] show ?thesis using ok True by (intro exI[of _ s]) (simp add: same_shape_def)
  next
    case False
    then have m: "0 < uxMessagesWaiting (queues s q)" by (simp add: content_Nil_iff word_gt_0)
    define s1 where "s1 = upd_queue q (uxMessagesWaiting_update (\<lambda>_. uxMessagesWaiting (queues s q) - 1)) (prvCopyDataFromQueue q p s)"
    have s1: "kern s1 = kern s" "ring_ok (queues s1 q)" "same_shape (queues s q) (queues s1 q)" "content q s1 = tl (content q s)"
        "item_at q s1 p = hd (content q s)"
      using copy_out_ok[OF _ m, of p] o b by (simp_all add: s1_def item_buffer_def)
    obtain k where k: "wake_and_yield (xTasksWaitingToSend q) s1 = Inr (s1\<lparr>kern := k\<rparr>)" "kernel_ok k E T" "placed k T"
      using wake_and_yield_ok[of s1 E T "xTasksWaitingToSend q"] o s1(1) by auto
    have "receive_attempt q p 0 None s = Inr (Finished True, s1\<lparr>kern := k\<rparr>)"
      using m k(1) by (simp add: receive_attempt_def Let_def s1_def)
    then show ?thesis
      using call queue_sys_ok_kern[OF ok k(2,3) s1(2)] s1(3,4,5) False by (intro exI[of _ "s1\<lparr>kern := k\<rparr>"]) simp
  qed
qed

lemma peek_now_ok:
  assumes ok: "queue_sys_ok q E T s" and b: "item_buffer q s p"
  shows "\<exists>s'. xQueuePeek env q p 0 s = Inr (content q s \<noteq> [], s') \<and>
    queue_sys_ok q E T s' \<and> same_shape (queues s q) (queues s' q) \<and> content q s' = content q s \<and>
    (content q s \<noteq> [] \<longrightarrow> item_at q s' p = hd (content q s))"
proof -
  note o = ok[unfolded queue_sys_ok_def]
  have call: "xQueuePeek env q p 0 s = Inr (r, s')" if "peek_attempt q p 0 None s = Inr (Finished r, s')" for r s'
    using that o b by (simp add: xQueuePeek_def item_buffer_def run_blocking_finished assert_that_def)
  show ?thesis
  proof (cases "content q s = []")
    case True
    then have "peek_attempt q p 0 None s = Inr (Finished False, s)"
      by (simp add: peek_attempt_def wait_or_fail_def content_Nil_iff)
    from call[OF this] show ?thesis using ok True by (intro exI[of _ s]) (simp add: same_shape_def)
  next
    case False
    then have m: "0 < uxMessagesWaiting (queues s q)" by (simp add: content_Nil_iff word_gt_0)
    define s1 where "s1 = upd_queue q (u_word1_update (\<lambda>_. pcReadFrom (queues s q))) (prvCopyDataFromQueue q p s)"
    have s1: "kern s1 = kern s" "queues s1 q = queues s q" "content q s1 = content q s" "item_at q s1 p = hd (content q s)"
      using peek_out_ok[OF _ m, of p] o b by (simp_all add: s1_def item_buffer_def)
    obtain k where k: "wake_and_yield (xTasksWaitingToReceive q) s1 = Inr (s1\<lparr>kern := k\<rparr>)" "kernel_ok k E T" "placed k T"
      using wake_and_yield_ok[of s1 E T "xTasksWaitingToReceive q"] o s1(1) by auto
    have "peek_attempt q p 0 None s = Inr (Finished True, s1\<lparr>kern := k\<rparr>)"
      using m k(1) by (simp add: peek_attempt_def Let_def s1_def)
    then show ?thesis
      using call queue_sys_ok_kern[OF ok k(2,3), of s1] o s1(2,3,4) False
      by (intro exI[of _ "s1\<lparr>kern := k\<rparr>"]) (simp add: same_shape_def)
  qed
qed

interpretation rtos_queue: bounded_deque "queue_sys_ok q E T" "content q" "\<lambda>s. unat (uxLength (queues s q))" "item_buffer q"
  "fill_buffer q" "item_at q" "\<lambda>pos p. xQueueGenericSend env q p 0 pos" "\<lambda>p. xQueueReceive env q p 0"
  "\<lambda>p. xQueuePeek env q p 0" for q E T env
proof
  fix s p x pos
  show "length (content q s) \<le> unat (uxLength (queues s q))" if "queue_sys_ok q E T s"
    using that by (simp add: queue_sys_ok_def ring_ok_def word_le_nat_alt)
  have f: "same_shape (queues s q) (queues (fill_buffer q p x s) q)" by (simp add: same_shape_def fill_buffer_def)
  show "queue_sys_ok q E T (fill_buffer q p x s) \<and> content q (fill_buffer q p x s) = content q s \<and>
      unat (uxLength (queues (fill_buffer q p x s) q)) = unat (uxLength (queues s q)) \<and>
      item_buffer q (fill_buffer q p x s) = item_buffer q s" if "queue_sys_ok q E T s" "item_buffer q s p"
    using fill_buffer_ok[OF that] same_shapeD[OF f] by simp
  show "\<exists>s'. xQueueGenericSend env q p 0 pos s = Inr (length (content q s) < unat (uxLength (queues s q)), s') \<and>
      queue_sys_ok q E T s' \<and> unat (uxLength (queues s' q)) = unat (uxLength (queues s q)) \<and> item_buffer q s' = item_buffer q s \<and>
      content q s' = (if length (content q s) < unat (uxLength (queues s q))
        then deque_put pos (item_at q s p) (content q s) else content q s)"
    if "queue_sys_ok q E T s" "item_buffer q s p" "pos \<noteq> queueOVERWRITE"
    using send_now_ok[OF that, of env] same_shapeD[of s q] by blast
  show "\<exists>s'. xQueueReceive env q p 0 s = Inr (content q s \<noteq> [], s') \<and> queue_sys_ok q E T s' \<and>
      unat (uxLength (queues s' q)) = unat (uxLength (queues s q)) \<and> item_buffer q s' = item_buffer q s \<and>
      content q s' = tl (content q s) \<and> (content q s \<noteq> [] \<longrightarrow> item_at q s' p = hd (content q s))"
    if "queue_sys_ok q E T s" "item_buffer q s p"
    using receive_now_ok[OF that, of env] same_shapeD[of s q] by blast
  show "\<exists>s'. xQueuePeek env q p 0 s = Inr (content q s \<noteq> [], s') \<and> queue_sys_ok q E T s' \<and>
      unat (uxLength (queues s' q)) = unat (uxLength (queues s q)) \<and> item_buffer q s' = item_buffer q s \<and>
      content q s' = content q s \<and> (content q s \<noteq> [] \<longrightarrow> item_at q s' p = hd (content q s))"
    if "queue_sys_ok q E T s" "item_buffer q s p"
    using peek_now_ok[OF that, of env] same_shapeD[of s q] by blast
qed

text \<open>A queue of two items of two bytes, and a semaphore of maximal count 3, in the kernel \<open>event_kernel\<close>.\<close>

definition demo_sys :: sys where
  "demo_sys = \<lparr>kern = event_kernel,
     queues = (\<lambda>q. if q = 0x100
       then \<lparr>pcHead = 0x200, pcWriteTo = 0x200, u_word0 = 0x204, u_word1 = 0x202, uxMessagesWaiting = 0, uxLength = 2,
         uxItemSize = 2, cRxLock = queueUNLOCKED, cTxLock = queueUNLOCKED, uxQueueNumber = 0, ucQueueType = 0\<rparr>
       else \<lparr>pcHead = q, pcWriteTo = q, u_word0 = q, u_word1 = q, uxMessagesWaiting = 0, uxLength = 3,
         uxItemSize = 0, cRxLock = queueUNLOCKED, cTxLock = queueUNLOCKED, uxQueueNumber = 0,
         ucQueueType = queueQUEUE_TYPE_COUNTING_SEMAPHORE\<rparr>),
     ram = (\<lambda>_. 0), heap = heap_cleared, xQueueRegistry = []\<rparr>"

lemma demo_queue_ok: "q \<noteq> 0 \<Longrightarrow> queue_sys_ok q {10..} wrap_tasks demo_sys"
proof -
  assume q: "q \<noteq> 0"
  have "kernel_ok event_kernel {10..} wrap_tasks" by (rule event_kernel_ok_any) auto
  moreover have "ring_ok (queues demo_sys 0x100)"
    by (simp add: demo_sys_def ring_ok_def read_index_def slot_def)
  moreover have "ring_ok (queues demo_sys q)" if "q \<noteq> 0x100"
    using that q by (simp add: demo_sys_def ring_ok_def queueQUEUE_IS_MUTEX_def)
  ultimately show ?thesis using q event_kernel_waiters(2)
    by (cases "q = 0x100") (auto simp: queue_sys_ok_def demo_sys_def xTasksWaitingToSend_def xTasksWaitingToReceive_def)
qed

text \<open>
  C35: a queue is a deque of bounded length. Whatever sequence of non-blocking calls its clients make
  (filling a buffer outside the storage, sending it to the back or to the front, receiving, peeking),
  every call returns, and the history of accepted and refused sends and of received and peeked items is
  one of a sequence of at most \<open>uxLength\<close> items that starts and ends with the content of the queue; the
  invariants of the queue and of the scheduler hold afterwards. Semaphores are the case of empty items.
\<close>
theorem queue_refines_deque:
  assumes "queue_sys_ok q E T s" and "\<forall>c \<in> set cs. item_buffer q s (client_buffer c)"
  shows "\<exists>es s'. client_run (fill_buffer q) (item_at q) (\<lambda>pos p. xQueueGenericSend env q p 0 pos)
      (\<lambda>p. xQueueReceive env q p 0) (\<lambda>p. xQueuePeek env q p 0) cs s = Inr (es, s') \<and>
    queue_sys_ok q E T s' \<and> unat (uxLength (queues s' q)) = unat (uxLength (queues s q)) \<and>
    replay (unat (uxLength (queues s q))) es (content q s) = Some (content q s')"
  using rtos_queue.run_replays[OF assms] .

theorem queue_refines_deque_witness:
  "\<exists>es s'. client_run (fill_buffer 0x100) (item_at 0x100) (\<lambda>pos p. xQueueGenericSend undisturbed 0x100 p 0 pos)
      (\<lambda>p. xQueueReceive undisturbed 0x100 p 0) (\<lambda>p. xQueuePeek undisturbed 0x100 p 0)
      [Fill 0x300 [1, 2], Send False 0x300, Receive 0x300, Receive 0x300] demo_sys = Inr (es, s') \<and>
    replay 2 es [] = Some (content 0x100 s')"
proof -
  have Q: "pcHead (queues demo_sys 0x100) = 0x200" "uxLength (queues demo_sys 0x100) = 2" "uxItemSize (queues demo_sys 0x100) = 2"
    "uxMessagesWaiting (queues demo_sys 0x100) = 0" by (simp_all add: demo_sys_def)
  have b: "item_buffer 0x100 demo_sys 0x300" by (simp add: item_buffer_def outside_def word_range Q)
  have c: "content 0x100 demo_sys = []" by (simp add: content_Nil_iff Q)
  have "\<forall>c \<in> set [Fill 0x300 [1, 2], Send False 0x300, Receive 0x300, Receive 0x300]. item_buffer 0x100 demo_sys (client_buffer c)"
    using b by simp
  from queue_refines_deque[OF demo_queue_ok[of "0x100"] this, of undisturbed] c show ?thesis
    by (auto simp: Q simp del: client_run.simps)
qed

end
