(* ===== verification/Rtos_Semaphore.thy ===== *)
theory Rtos_Semaphore
  imports Rtos_Queue_Props
begin

section \<open>Semaphores and interrupts\<close>

text \<open>
  A task that waits for a semaphore which interrupt handlers give: between its check of the count and its
  entry in the list of waiting tasks it locks the semaphore, and a handler that finds it locked only
  counts. The theory follows the call through all its windows and shows that no give is lost.
\<close>

subsection \<open>Interrupt handlers\<close>

text \<open>A handler that gives the semaphore and asks for a context switch if a task above the running one woke.\<close>

definition give_handler :: "u32 \<Rightarrow> sys \<Rightarrow> sys res" where
  "give_handler q s =
     res_bind (xQueueGiveFromISR True q s) (\<lambda>((_, xHigherPriorityTaskWoken), s).
     Inr (if xHigherPriorityTaskWoken then on_kern portYIELD_WITHIN_API s else s))"

datatype isr = Give | Tick

fun run_isr :: "u32 \<Rightarrow> isr \<Rightarrow> sys \<Rightarrow> sys res" where
  "run_isr q Give s = give_handler q s"
| "run_isr q Tick s = kernel_do xPortSysTickHandler s"

fun run_isrs :: "u32 \<Rightarrow> isr list \<Rightarrow> sys \<Rightarrow> sys res" where
  "run_isrs q [] s = Inr s"
| "run_isrs q (i # is) s = res_bind (run_isr q i s) (run_isrs q is)"

subsection \<open>The phases of a wait\<close>

text \<open>
  The scheduler is suspended, \<open>ts\<close> are the waiting tasks, and the semaphore is unlocked or locked with a
  count of at most the number of tasks.
\<close>

definition phase :: "u32 \<Rightarrow> nat set \<Rightarrow> nat set \<Rightarrow> nat \<Rightarrow> nat option \<Rightarrow> nat list \<Rightarrow> sys \<Rightarrow> bool" where
  "phase q E T c lock ts s \<longleftrightarrow>
     queue_sys_ok q E T s \<and> uxItemSize (queues s q) = 0 \<and> pxCurrentTCB (kern s) = Some c \<and>
     uxSchedulerSuspended (kern s) = 1 \<and> 0 < unat (uxCurrentNumberOfTasks (kern s)) \<and>
     unat (uxCurrentNumberOfTasks (kern s)) < 128 \<and> waiters (kern s) (xTasksWaitingToReceive q) ts \<and>
     (case lock of None \<Rightarrow> cTxLock (queues s q) = queueUNLOCKED
      | Some n \<Rightarrow> cTxLock (queues s q) = of_nat n \<and> n \<le> unat (uxCurrentNumberOfTasks (kern s)))"

definition sem_count :: "u32 \<Rightarrow> sys \<Rightarrow> nat" where "sem_count q s = unat (uxMessagesWaiting (queues s q))"

definition max_count :: "u32 \<Rightarrow> sys \<Rightarrow> nat" where "max_count q s = unat (uxLength (queues s q))"

lemma count_le: "queue_sys_ok q E T s \<Longrightarrow> sem_count q s \<le> max_count q s" "queue_sys_ok q E T s \<Longrightarrow> 0 < max_count q s"
  by (simp_all add: queue_sys_ok_def ring_ok_def sem_count_def max_count_def word_le_nat_alt unat_gt_0)

text \<open>What handlers leave alone while the scheduler is suspended, except for the tasks they wake.\<close>

definition isr_frame :: "u32 \<Rightarrow> sys \<Rightarrow> sys \<Rightarrow> bool" where
  "isr_frame q s s' \<longleftrightarrow>
     cRxLock (queues s' q) = cRxLock (queues s q) \<and> max_count q s' = max_count q s \<and>
     (\<forall>t. prio (kern s') t = prio (kern s) t) \<and> xTickCount (kern s') = xTickCount (kern s) \<and>
     xItemValue (lists (kern s')) = xItemValue (lists (kern s)) \<and>
     pxDelayedTaskList (kern s') = pxDelayedTaskList (kern s) \<and>
     pxOverflowDelayedTaskList (kern s') = pxOverflowDelayedTaskList (kern s) \<and>
     xNumOfOverflows (kern s') = xNumOfOverflows (kern s) \<and>
     (\<forall>t. state_list (kern s') t = state_list (kern s) t)"

lemma isr_frame_refl: "isr_frame q s s"
  by (simp add: isr_frame_def)

lemma isr_frame_trans: "isr_frame q s s' \<Longrightarrow> isr_frame q s' s'' \<Longrightarrow> isr_frame q s s''"
  by (simp add: isr_frame_def)

lemma lock_word:
  assumes "n < 128"
  shows "(scast (of_nat n :: u8) :: u32) = of_nat n" "of_nat n \<noteq> queueUNLOCKED" "n < 127 \<Longrightarrow> of_nat n \<noteq> queueINT8_MAX"
    "nat (sint (of_nat n :: u8)) = n"
proof -
  have s: "sint (of_nat n :: u8) = int n"
    using assms by (subst signed_of_nat) (simp add: signed_take_bit_int_eq_self)
  then show "(scast (of_nat n :: u8) :: u32) = of_nat n" "nat (sint (of_nat n :: u8)) = n"
    by (simp_all add: scast_eq)
  show "of_nat n \<noteq> queueUNLOCKED" using s by (auto simp: queueUNLOCKED_def)
  show "of_nat n \<noteq> queueINT8_MAX" if "n < 127"
  proof
    assume "of_nat n = queueINT8_MAX"
    then have "int n = sint (127 :: u8)" using s by (simp add: queueINT8_MAX_def)
    then show False using that by simp
  qed
qed

lemma ring_ok_lock [simp]: "ring_ok (Q\<lparr>cTxLock := l\<rparr>) = ring_ok Q" "ring_ok (Q\<lparr>cRxLock := l\<rparr>) = ring_ok Q"
  by (simp_all add: ring_ok_def slot_def read_index_def)

lemma phase_facts:
  assumes "phase q E T c lock ts s"
  shows "queue_sys_ok q E T s" "uxItemSize (queues s q) = 0" "pxCurrentTCB (kern s) = Some c" "kernel_ok (kern s) E T"
    "placed (kern s) T" "uxSchedulerSuspended (kern s) = 1" "waiters (kern s) (xTasksWaitingToReceive q) ts"
    "xTasksWaitingToReceive q \<in> E" "c \<in> T" "0 < max_count q s" "q \<noteq> 0" "pcHead (queues s q) \<noteq> queueQUEUE_IS_MUTEX"
    "unat (uxCurrentNumberOfTasks (kern s)) < 128" "0 < unat (uxCurrentNumberOfTasks (kern s))"
proof -
  note p = assms[unfolded phase_def]
  show q: "queue_sys_ok q E T s" "uxItemSize (queues s q) = 0" "pxCurrentTCB (kern s) = Some c" "kernel_ok (kern s) E T"
    "placed (kern s) T" "uxSchedulerSuspended (kern s) = 1" "waiters (kern s) (xTasksWaitingToReceive q) ts"
    "xTasksWaitingToReceive q \<in> E" "q \<noteq> 0" "unat (uxCurrentNumberOfTasks (kern s)) < 128"
    "0 < unat (uxCurrentNumberOfTasks (kern s))"
    using p by (auto simp: queue_sys_ok_def)
  show "c \<in> T" using kernel_ok_sched[OF q(4)] q(3) by (auto simp: sched_ok_def)
  show "0 < max_count q s" using count_le(2)[OF q(1)] .
  show "pcHead (queues s q) \<noteq> queueQUEUE_IS_MUTEX"
    using q(1,2) by (simp add: queue_sys_ok_def ring_semaphore(2) queueQUEUE_IS_MUTEX_def)
qed

lemma tick_suspended:
  assumes "phase q E T c lock ts s"
  shows "\<exists>s'. run_isr q Tick s = Inr s' \<and> phase q E T c lock ts s' \<and> isr_frame q s s' \<and> sem_count q s' = sem_count q s \<and>
    xPendedTicks (kern s') = xPendedTicks (kern s) + 1 \<and> (\<forall>t. event_list (kern s') t = event_list (kern s) t)"
proof -
  note p = phase_facts[OF assms]
  let ?s = "s\<lparr>kern := (kern s)\<lparr>xPendedTicks := xPendedTicks (kern s) + 1\<rparr>\<rparr>"
  have "run_isr q Tick s = Inr ?s"
    using p(6) by (simp add: kernel_do_def xPortSysTickHandler_def xTaskIncrementTick_def)
  moreover have "phase q E T c lock ts ?s"
    using assms kernel_ok_simp_fields(3)[OF p(4)] by (cases lock) (simp_all add: phase_def queue_sys_ok_def placed_def waiters_def)
  ultimately show ?thesis by (intro exI[of _ ?s]) (simp add: isr_frame_def sem_count_def max_count_def)
qed

text \<open>A give that finds the maximal count is refused.\<close>

lemma give_full:
  assumes "phase q E T c lock ts s" "sem_count q s = max_count q s"
  shows "run_isr q Give s = Inr s"
  using phase_facts[OF assms(1)] assms(2)
  by (simp add: give_handler_def xQueueGiveFromISR_def Let_def sem_count_def max_count_def word_less_nat_alt)

lemma count_bump:
  assumes "sem_count q s < max_count q s"
  shows "unat (uxMessagesWaiting (queues s q) + 1) = sem_count q s + 1" "uxMessagesWaiting (queues s q) < uxLength (queues s q)"
proof -
  show l: "uxMessagesWaiting (queues s q) < uxLength (queues s q)"
    using assms by (simp add: sem_count_def max_count_def word_less_nat_alt)
  show "unat (uxMessagesWaiting (queues s q) + 1) = sem_count q s + 1" using unat_count(1)[OF l] by (simp add: sem_count_def)
qed

lemma ring_ok_bump:
  assumes "phase q E T c lock ts s" "sem_count q s < max_count q s"
  shows "ring_ok ((queues s q)\<lparr>uxMessagesWaiting := uxMessagesWaiting (queues s q) + 1\<rparr>)"
  using phase_facts(1,2)[OF assms(1)] unat_count(3)[OF count_bump(2)[OF assms(2)]]
  by (simp add: queue_sys_ok_def ring_semaphore(2))

lemma give_locked:
  assumes ph: "phase q E T c (Some n) ts s" and room: "sem_count q s < max_count q s"
  shows "\<exists>s'. run_isr q Give s = Inr s' \<and> phase q E T c (Some (min (Suc n) (unat (uxCurrentNumberOfTasks (kern s))))) ts s' \<and>
    isr_frame q s s' \<and> sem_count q s' = sem_count q s + 1 \<and> kern s' = kern s"
proof -
  note p = phase_facts[OF ph]
  let ?N = "uxCurrentNumberOfTasks (kern s)" and ?Q = "queues s q"
  have n: "n \<le> unat ?N" "cTxLock ?Q = of_nat n" using ph by (simp_all add: phase_def)
  have n8: "n < 128" using n p(13) by simp
  note lw = lock_word[OF n8]
  define l where "l = (of_nat (min (Suc n) (unat ?N)) :: u8)"
  have "(of_nat n :: u32) < ?N \<longleftrightarrow> n < unat ?N" using n8 by (simp add: word_less_nat_alt unat_small)
  then have inc: "increment_lock (of_nat n) (kern s) = Inr l"
    using lw n(1) p(13) by (auto simp: increment_lock_def l_def min_def assert_that_def)
  let ?s = "upd_queue q (cTxLock_update (\<lambda>_. l)) (upd_queue q (uxMessagesWaiting_update (\<lambda>_. uxMessagesWaiting ?Q + 1)) s)"
  have "run_isr q Give s = Inr ?s"
    using p lw(2) n(2) inc count_bump(2)[OF room]
    by (simp add: give_handler_def xQueueGiveFromISR_def Let_def notify_receivers_def prvIncrementQueueTxLock_def)
  moreover have "phase q E T c (Some (min (Suc n) (unat ?N))) ts ?s"
    using ph ring_ok_bump[OF ph room] by (simp add: phase_def queue_sys_ok_def l_def)
  ultimately show ?thesis
    using count_bump(1)[OF room] by (intro exI[of _ ?s]) (simp add: isr_frame_def sem_count_def max_count_def)
qed

lemma give_unlocked:
  assumes ph: "phase q E T c None ts s" and room: "sem_count q s < max_count q s"
  shows "\<exists>s'. run_isr q Give s = Inr s' \<and> phase q E T c None (tl ts) s' \<and> isr_frame q s s' \<and>
    sem_count q s' = sem_count q s + 1 \<and> xPendedTicks (kern s') = xPendedTicks (kern s) \<and>
    (\<forall>t. event_list (kern s') t = (if ts \<noteq> [] \<and> t = hd ts then Some xPendingReadyList else event_list (kern s) t))"
proof -
  note p = phase_facts[OF ph]
  let ?Q = "queues s q"
  define s1 where "s1 = upd_queue q (uxMessagesWaiting_update (\<lambda>_. uxMessagesWaiting ?Q + 1)) s"
  have s1: "kern s1 = kern s" by (simp add: s1_def)
  obtain w k' where k': "wake_first (xTasksWaitingToReceive q) s1 = Inr (w, s1\<lparr>kern := k'\<rparr>)"
      "kernel_ok k' E T" "placed k' T" "waiters k' (xTasksWaitingToReceive q) (tl ts)" "same_fields (kern s) k'"
      "ts \<noteq> [] \<longrightarrow> state_list k' (hd ts) = state_list (kern s) (hd ts) \<and> event_list k' (hd ts) = Some xPendingReadyList"
      "\<forall>t. ts = [] \<or> t \<noteq> hd ts \<longrightarrow> state_list k' t = state_list (kern s) t \<and> event_list k' t = event_list (kern s) t"
      "xItemValue (lists k') = xItemValue (lists (kern s))" "xNumOfOverflows k' = xNumOfOverflows (kern s)"
    using wake_first_ok[of s1 E T "xTasksWaitingToReceive q" ts c] p(3-8) by (auto simp: s1)
  define k2 where "k2 = (if w then k'\<lparr>port_yield := True\<rparr> else k')"
  let ?s = "s1\<lparr>kern := k2\<rparr>"
  have "run_isr q Give s = Inr ?s"
    using p ph count_bump(2)[OF room] k'(1)
    by (cases w) (simp_all add: give_handler_def xQueueGiveFromISR_def Let_def notify_receivers_def phase_def k2_def s1_def
        on_kern_def portYIELD_WITHIN_API_def)
  moreover have k2: "kernel_ok k2 E T" "placed k2 T" "waiters k2 (xTasksWaitingToReceive q) (tl ts)" "lists k2 = lists k'"
    using k'(2-4) kernel_ok_simp_fields(2)[OF k'(2)] by (simp_all add: k2_def placed_def waiters_def)
  have f: "tcbs k2 = tcbs (kern s)" "pxCurrentTCB k2 = pxCurrentTCB (kern s)" "xTickCount k2 = xTickCount (kern s)"
    "uxSchedulerSuspended k2 = uxSchedulerSuspended (kern s)" "xPendedTicks k2 = xPendedTicks (kern s)"
    "uxCurrentNumberOfTasks k2 = uxCurrentNumberOfTasks (kern s)" "pxDelayedTaskList k2 = pxDelayedTaskList (kern s)"
    "pxOverflowDelayedTaskList k2 = pxOverflowDelayedTaskList (kern s)" "xNumOfOverflows k2 = xNumOfOverflows (kern s)"
    using k'(5,9) by (simp_all add: k2_def same_fields_def)
  have "phase q E T c None (tl ts) ?s"
    using ph k2(1-3) f ring_ok_bump[OF ph room] by (simp add: phase_def queue_sys_ok_def s1_def)
  moreover have "state_list k2 t = state_list (kern s) t" for t using k'(6,7) k2(4) by (cases "ts = [] \<or> t \<noteq> hd ts") auto
  ultimately show ?thesis
    using count_bump(1)[OF room] f k2(4) k'(6-8)
    by (intro exI[of _ ?s]) (auto simp: isr_frame_def sem_count_def max_count_def s1_def)
qed

text \<open>Sequences of handlers while the semaphore is locked, and while it is not.\<close>

lemma isrs_locked:
  assumes "phase q E T c (Some n) ts s"
  shows "\<exists>s' n'. run_isrs q is s = Inr s' \<and> phase q E T c (Some n') ts s' \<and> isr_frame q s s' \<and>
    sem_count q s' = min (max_count q s) (sem_count q s + count_list is Give) \<and>
    xPendedTicks (kern s') = xPendedTicks (kern s) + of_nat (count_list is Tick) \<and>
    (\<forall>t. event_list (kern s') t = event_list (kern s) t) \<and> n \<le> n' \<and> (sem_count q s < sem_count q s' \<longrightarrow> 0 < n') \<and>
    (n < n' \<longrightarrow> sem_count q s < sem_count q s')"
  using assms
proof (induction "is" arbitrary: s n)
  case Nil
  then show ?case using count_le(1)[OF phase_facts(1)[OF Nil]] by (auto simp: isr_frame_refl)
next
  case (Cons i "is")
  note p = phase_facts[OF Cons.prems]
  have c: "sem_count q s \<le> max_count q s" using count_le(1)[OF p(1)] .
  have "\<exists>s1 n1. run_isr q i s = Inr s1 \<and> phase q E T c (Some n1) ts s1 \<and> isr_frame q s s1 \<and>
      sem_count q s1 = min (max_count q s) (sem_count q s + count_list [i] Give) \<and>
      xPendedTicks (kern s1) = xPendedTicks (kern s) + of_nat (count_list [i] Tick) \<and>
      (\<forall>t. event_list (kern s1) t = event_list (kern s) t) \<and> n \<le> n1 \<and> (sem_count q s < sem_count q s1 \<longrightarrow> 0 < n1) \<and>
      (n < n1 \<longrightarrow> sem_count q s < sem_count q s1)"
  proof (cases i)
    case Tick
    then show ?thesis using tick_suspended[OF Cons.prems] c by auto
  next
    case Give
    show ?thesis
    proof (cases "sem_count q s < max_count q s")
      case True
      define n1 where "n1 = min (Suc n) (unat (uxCurrentNumberOfTasks (kern s)))"
      have n1: "n \<le> n1" "0 < n1" using Cons.prems p(14) by (simp_all add: n1_def phase_def)
      obtain s1 where "run_isr q Give s = Inr s1" "phase q E T c (Some n1) ts s1" "isr_frame q s s1" "sem_count q s1 = sem_count q s + 1"
          "kern s1 = kern s"
        using give_locked[OF Cons.prems True, folded n1_def] by blast
      then show ?thesis using n1 True Give by (intro exI[of _ s1] exI[of _ n1]) auto
    next
      case False
      then show ?thesis using give_full[OF Cons.prems] c Cons.prems Give by (auto simp: isr_frame_refl)
    qed
  qed
  then obtain s1 n1 where s1: "run_isr q i s = Inr s1" "phase q E T c (Some n1) ts s1" "isr_frame q s s1"
      "sem_count q s1 = min (max_count q s) (sem_count q s + count_list [i] Give)"
      "xPendedTicks (kern s1) = xPendedTicks (kern s) + of_nat (count_list [i] Tick)"
      "\<forall>t. event_list (kern s1) t = event_list (kern s) t" "n \<le> n1" "sem_count q s < sem_count q s1 \<longrightarrow> 0 < n1"
      "n < n1 \<longrightarrow> sem_count q s < sem_count q s1"
    by blast
  have m: "max_count q s1 = max_count q s" using s1(3) by (simp add: isr_frame_def)
  obtain s' n' where s': "run_isrs q is s1 = Inr s'" "phase q E T c (Some n') ts s'" "isr_frame q s1 s'"
      "sem_count q s' = min (max_count q s1) (sem_count q s1 + count_list is Give)"
      "xPendedTicks (kern s') = xPendedTicks (kern s1) + of_nat (count_list is Tick)"
      "\<forall>t. event_list (kern s') t = event_list (kern s1) t" "n1 \<le> n'" "sem_count q s1 < sem_count q s' \<longrightarrow> 0 < n'"
      "n1 < n' \<longrightarrow> sem_count q s1 < sem_count q s'"
    using Cons.IH[OF s1(2)] by blast
  have "sem_count q s' = min (max_count q s) (sem_count q s + count_list (i # is) Give)"
    unfolding s'(4) s1(4) m using c by (cases i) auto
  moreover have "xPendedTicks (kern s') = xPendedTicks (kern s) + of_nat (count_list (i # is) Tick)"
    unfolding s'(5) s1(5) by simp
  moreover have "sem_count q s < sem_count q s' \<longrightarrow> 0 < n'" using s1(8) s'(7,8) by linarith
  moreover have "sem_count q s \<le> sem_count q s1" "sem_count q s1 \<le> sem_count q s'"
    using s1(4) s'(4) c m count_le(1)[OF phase_facts(1)[OF s1(2)]] by simp_all
  then have "n < n' \<longrightarrow> sem_count q s < sem_count q s'" using s1(7,9) s'(7,9) by linarith
  moreover have "isr_frame q s s'" using isr_frame_trans[OF s1(3) s'(3)] .
  ultimately show ?case using s1 s' by (intro exI[of _ s'] exI[of _ n']) simp
qed

lemma isrs_unlocked:
  assumes "phase q E T c None ts s" and "ts = [] \<or> ts = [c] \<and> sem_count q s = 0"
  shows "\<exists>s'. run_isrs q is s = Inr s' \<and> phase q E T c None (if Give \<in> set is then [] else ts) s' \<and> isr_frame q s s' \<and>
    sem_count q s' = min (max_count q s) (sem_count q s + count_list is Give) \<and>
    xPendedTicks (kern s') = xPendedTicks (kern s) + of_nat (count_list is Tick) \<and>
    (\<forall>t. event_list (kern s') t =
       (if ts = [c] \<and> t = c \<and> Give \<in> set is then Some xPendingReadyList else event_list (kern s) t))"
  using assms
proof (induction "is" arbitrary: s ts)
  case Nil
  then show ?case using count_le(1)[OF phase_facts(1)[OF Nil(1)]] by (auto simp: isr_frame_refl)
next
  case (Cons i "is")
  note p = phase_facts[OF Cons.prems(1)]
  have c: "sem_count q s \<le> max_count q s" using count_le(1)[OF p(1)] .
  define ts1 where "ts1 = (if i = Give then [] else ts)"
  have "\<exists>s1. run_isr q i s = Inr s1 \<and> phase q E T c None ts1 s1 \<and> isr_frame q s s1 \<and>
      sem_count q s1 = min (max_count q s) (sem_count q s + count_list [i] Give) \<and>
      xPendedTicks (kern s1) = xPendedTicks (kern s) + of_nat (count_list [i] Tick) \<and>
      (\<forall>t. event_list (kern s1) t = (if ts = [c] \<and> t = c \<and> i = Give then Some xPendingReadyList else event_list (kern s) t))"
  proof (cases i)
    case Tick
    then show ?thesis using tick_suspended[OF Cons.prems(1)] c by (auto simp: ts1_def)
  next
    case Give
    show ?thesis
    proof (cases "sem_count q s < max_count q s")
      case True
      have "tl ts = []" using Cons.prems(2) by auto
      then show ?thesis using give_unlocked[OF Cons.prems(1) True] True Cons.prems(2) Give by (auto simp: ts1_def)
    next
      case False
      then have "ts = []" using Cons.prems(2) p(10) by auto
      then show ?thesis using give_full[OF Cons.prems(1)] False c Cons.prems(1) Give by (auto simp: isr_frame_refl ts1_def)
    qed
  qed
  then obtain s1 where s1: "run_isr q i s = Inr s1" "phase q E T c None ts1 s1" "isr_frame q s s1"
      "sem_count q s1 = min (max_count q s) (sem_count q s + count_list [i] Give)"
      "xPendedTicks (kern s1) = xPendedTicks (kern s) + of_nat (count_list [i] Tick)"
      "\<forall>t. event_list (kern s1) t = (if ts = [c] \<and> t = c \<and> i = Give then Some xPendingReadyList else event_list (kern s) t)"
    by blast
  have m: "max_count q s1 = max_count q s" using s1(3) by (simp add: isr_frame_def)
  have "ts1 = [] \<or> ts1 = [c] \<and> sem_count q s1 = 0" using Cons.prems(2) s1(4) by (auto simp: ts1_def split: if_splits)
  then obtain s' where s': "run_isrs q is s1 = Inr s'" "phase q E T c None (if Give \<in> set is then [] else ts1) s'" "isr_frame q s1 s'"
      "sem_count q s' = min (max_count q s1) (sem_count q s1 + count_list is Give)"
      "xPendedTicks (kern s') = xPendedTicks (kern s1) + of_nat (count_list is Tick)"
      "\<forall>t. event_list (kern s') t = (if ts1 = [c] \<and> t = c \<and> Give \<in> set is then Some xPendingReadyList else event_list (kern s1) t)"
    using Cons.IH[OF s1(2)] by blast
  have "sem_count q s' = min (max_count q s) (sem_count q s + count_list (i # is) Give)"
    unfolding s'(4) s1(4) m using c by (cases i) auto
  moreover have "xPendedTicks (kern s') = xPendedTicks (kern s) + of_nat (count_list (i # is) Tick)"
    unfolding s'(5) s1(5) by simp
  moreover have "isr_frame q s s'" using isr_frame_trans[OF s1(3) s'(3)] .
  moreover have "phase q E T c None (if Give \<in> set (i # is) then [] else ts) s'"
    using s'(2) by (cases i) (auto simp: ts1_def split: if_splits)
  moreover have "\<forall>t. event_list (kern s') t =
      (if ts = [c] \<and> t = c \<and> Give \<in> set (i # is) then Some xPendingReadyList else event_list (kern s) t)"
    using s'(6) s1(6) by (cases i) (auto simp: ts1_def)
  ultimately show ?case using s1(1) s'(1) by (intro exI[of _ s']) simp
qed

subsection \<open>The steps of the waiting task\<close>

lemma phase_upd_queue:
  assumes "phase q E T c lock ts s" and "uxItemSize (f (queues s q)) = 0" "ring_ok (f (queues s q))"
    and "case lock' of None \<Rightarrow> cTxLock (f (queues s q)) = queueUNLOCKED
      | Some n \<Rightarrow> cTxLock (f (queues s q)) = of_nat n \<and> n \<le> unat (uxCurrentNumberOfTasks (kern s))"
  shows "phase q E T c lock' ts (upd_queue q f s)"
  using assms by (simp add: phase_def queue_sys_ok_def split: option.splits)

lemma lock_ok:
  assumes "phase q E T c None ts s" "cRxLock (queues s q) = queueUNLOCKED"
  shows "phase q E T c (Some 0) ts (prvLockQueue q s)" "cRxLock (queues (prvLockQueue q s) q) = 0"
    "kern (prvLockQueue q s) = kern s" "sem_count q (prvLockQueue q s) = sem_count q s" "max_count q (prvLockQueue q s) = max_count q s"
proof -
  note p = phase_facts[OF assms(1)]
  show "phase q E T c (Some 0) ts (prvLockQueue q s)"
    unfolding prvLockQueue_def using p(1,2) assms
    by (intro phase_upd_queue[OF assms(1)]) (simp_all add: queue_sys_ok_def phase_def queueLOCKED_UNMODIFIED_def)
qed (use assms(2) in \<open>simp_all add: prvLockQueue_def sem_count_def max_count_def queueLOCKED_UNMODIFIED_def\<close>)

text \<open>The check of the timeout at most clears the flag of an aborted delay.\<close>

lemma check_timeout_ok:
  assumes ph: "phase q E T c lock ts s" and "xTicksToWait \<noteq> 0"
  shows "\<exists>over xTimeOut' xTicksToWait' s'. kernel_call (xTaskCheckForTimeOut xTimeOut xTicksToWait) s = Inr ((over, xTimeOut', xTicksToWait'), s') \<and>
    phase q E T c lock ts s' \<and> isr_frame q s s' \<and> sem_count q s' = sem_count q s \<and> xPendedTicks (kern s') = xPendedTicks (kern s) \<and>
    (\<forall>t. event_list (kern s') t = event_list (kern s) t) \<and> (\<not> over \<longrightarrow> xTicksToWait' \<noteq> 0)"
proof -
  note p = phase_facts[OF ph]
  let ?k = "upd_tcb c (ucDelayAborted_update (\<lambda>_. False)) (kern s)"
  have k: "kernel_ok ?k E T" using p(4) by (auto simp: kernel_ok_def intro!: struct_ok_upd_tcb)
  have ph': "phase q E T c lock ts (s\<lparr>kern := ?k\<rparr>)"
    using ph k by (cases lock) (simp_all add: phase_def queue_sys_ok_def placed_def waiters_def, simp_all add: upd_tcb_def)
  have f: "isr_frame q s (s\<lparr>kern := ?k\<rparr>)" by (simp add: isr_frame_def max_count_def) (simp add: upd_tcb_def)
  have e: "s\<lparr>kern := kern s\<rparr> = s" by simp
  let ?n = "xTickCount (kern s)" and ?d = "xTickCount (kern s) - xTimeOnEntering xTimeOut"
  have d: "xTicksToWait - ?d \<noteq> 0" if "?d < xTicksToWait" using that by auto
  consider "ucDelayAborted (tcbs (kern s) c)" | "\<not> ucDelayAborted (tcbs (kern s) c)" by blast
  then show ?thesis
  proof cases
    case 1
    then have "kernel_call (xTaskCheckForTimeOut xTimeOut xTicksToWait) s = Inr ((True, xTimeOut, xTicksToWait), s\<lparr>kern := ?k\<rparr>)"
      using p(3) by (simp add: kernel_call_def xTaskCheckForTimeOut_def current_def Let_def)
    then show ?thesis using ph' f by (fastforce simp: sem_count_def upd_tcb_def)
  next
    case 2
    then have "\<exists>over to' n'. xTaskCheckForTimeOut xTimeOut xTicksToWait (kern s) = Inr ((over, to', n'), kern s) \<and>
        (\<not> over \<longrightarrow> n' \<noteq> 0)"
      using p(3) assms(2) d unfolding xTaskCheckForTimeOut_def current_def Let_def
      by (cases "xTicksToWait = portMAX_DELAY"; cases "?d < xTicksToWait";
          cases "xNumOfOverflows (kern s) \<noteq> xOverflowCount xTimeOut \<and> xTimeOnEntering xTimeOut \<le> ?n") auto
    then show ?thesis using ph isr_frame_refl[of q s] e by (fastforce simp: kernel_call_def)
  qed
qed

lemma place_alone:
  assumes "kernel_ok k E T" "placed k T" and "l \<in> E" "waiters k l []" and "pxCurrentTCB k = Some c" "event_list k c = None" and "n \<noteq> 0"
  shows "\<exists>k'. vTaskPlaceOnEventList l n k = Inr k' \<and> kernel_ok k' E T \<and> placed k' T \<and> waiters k' l [c] \<and>
    pxCurrentTCB k' = Some c \<and> uxSchedulerSuspended k' = uxSchedulerSuspended k \<and> xPendedTicks k' = xPendedTicks k \<and>
    uxCurrentNumberOfTasks k' = uxCurrentNumberOfTasks k \<and> (\<forall>t. prio k' t = prio k t) \<and> event_list k' c = Some l \<and>
    (if n = portMAX_DELAY then state_list k' c = Some xSuspendedTaskList else timed k' c \<and> ticks_left k' c = unat n)"
proof -
  obtain L where L: "struct_ok k E T L" "time_ok k T" using assms(1) by (auto simp: kernel_ok_def)
  note s = struct_okD[OF L(1)]
  let ?e = "xEventListItem c"
  have cT: "c \<in> T" using s(3) assms(5) by (auto simp: sched_ok_def)
  have Ll: "L l = []" using waiters_seq[OF L(1) assms(3,4)] by simp
  obtain h where h: "insert_sorted l ?e k = Inr (k\<lparr>lists := h\<rparr>)" "struct_ok (k\<lparr>lists := h\<rparr>) E T (L(l := [?e]))"
      "pxContainer h = (pxContainer (lists k))(?e := Some l)" "xItemValue h = xItemValue (lists k)"
    using insert_event_kernel(1)[OF L(1) cT assms(6), of l] assms(3) Ll by (auto simp: by_value_def)
  have tm: "time_ok (k\<lparr>lists := h\<rparr>) T" by (rule time_ok_cong[OF L(2) _ _ s(3)]) (use h in auto)
  have "state_list (k\<lparr>lists := h\<rparr>) c \<noteq> None" using assms(2) cT h(3) by (simp add: placed_def)
  then obtain k' L' where k': "prvAddCurrentTaskToDelayedList n True (k\<lparr>lists := h\<rparr>) = Inr k'" "struct_ok k' E T L'"
      "time_ok k' T" "blocked_for n True c (k\<lparr>lists := h\<rparr>) k'" "\<forall>m \<in> E. L' m = (L(l := [?e])) m"
    using block_current_ok[OF h(2) tm _ _ assms(7), of c True] assms(5) by auto
  note f = blocked_for_fields[OF k'(4)]
  have ct: "pxContainer (lists k') = (pxContainer h)(xStateListItem c := Some (block_list n True (k\<lparr>lists := h\<rparr>)))"
    using k'(4) by (simp add: blocked_for_def)
  have "vTaskPlaceOnEventList l n k = Inr k'" using assms(5) h(1) k'(1) by (simp add: vTaskPlaceOnEventList_def current_def)
  moreover have "waiters k' l [c]" using waiters_of[OF k'(2) assms(3)] k'(5) assms(3) by simp
  moreover have "kernel_ok k' E T" using k'(2,3) by (auto simp: kernel_ok_def)
  moreover have "placed k' T" using assms(2) by (simp add: placed_def ct h(3))
  moreover have "state_list k' c = Some xSuspendedTaskList" if "n = portMAX_DELAY"
    using that by (simp add: ct block_list_def xSuspendedTaskList_def)
  moreover have "timed k' c \<and> ticks_left k' c = unat n" if "n \<noteq> portMAX_DELAY"
    using blocked_ticks_left[OF k'(4) struct_okD(3)[OF h(2)]] that by simp
  ultimately show ?thesis using f assms(5) by (intro exI[of _ k']) (simp add: ct h(3))
qed

lemma place_ok:
  assumes ph: "phase q E T c (Some n) [] s" and "event_list (kern s) c = None" "w \<noteq> 0"
  shows "\<exists>s'. kernel_do (vTaskPlaceOnEventList (xTasksWaitingToReceive q) w) s = Inr s' \<and> phase q E T c (Some n) [c] s' \<and>
    queues s' = queues s \<and> (\<forall>t. prio (kern s') t = prio (kern s) t) \<and> xPendedTicks (kern s') = xPendedTicks (kern s) \<and>
    event_list (kern s') c = Some (xTasksWaitingToReceive q) \<and>
    (if w = portMAX_DELAY then state_list (kern s') c = Some xSuspendedTaskList
     else timed (kern s') c \<and> ticks_left (kern s') c = unat w)"
proof -
  note p = phase_facts[OF ph]
  obtain k' where k': "vTaskPlaceOnEventList (xTasksWaitingToReceive q) w (kern s) = Inr k'" "kernel_ok k' E T" "placed k' T"
      "waiters k' (xTasksWaitingToReceive q) [c]" "pxCurrentTCB k' = Some c"
      "uxSchedulerSuspended k' = uxSchedulerSuspended (kern s)" "xPendedTicks k' = xPendedTicks (kern s)"
      "uxCurrentNumberOfTasks k' = uxCurrentNumberOfTasks (kern s)" "\<forall>t. prio k' t = prio (kern s) t"
      "event_list k' c = Some (xTasksWaitingToReceive q)"
      "if w = portMAX_DELAY then state_list k' c = Some xSuspendedTaskList else timed k' c \<and> ticks_left k' c = unat w"
    using place_alone[OF p(4,5,8,7,3) assms(2,3)] by blast
  have "phase q E T c (Some n) [c] (s\<lparr>kern := k'\<rparr>)" using ph k' by (simp add: phase_def queue_sys_ok_def)
  with k' show ?thesis by (intro exI[of _ "s\<lparr>kern := k'\<rparr>"]) (simp add: kernel_do_def)
qed

text \<open>Unlocking wakes the waiting task if a give was counted.\<close>

lemma unlock_tx_ok:
  assumes ph: "phase q E T c (Some n) ts s" and ts: "ts = [] \<or> ts = [c]"
  defines "woken \<equiv> 0 < n \<and> ts \<noteq> []"
  shows "\<exists>s'. unlock_loop (xTasksWaitingToReceive q) n s = Inr s' \<and> queues s' = queues s \<and>
    phase q E T c None (if woken then [] else ts) (upd_queue q (cTxLock_update (\<lambda>_. queueUNLOCKED)) s') \<and> isr_frame q s s' \<and>
    xPendedTicks (kern s') = xPendedTicks (kern s) \<and>
    (\<forall>t. event_list (kern s') t = (if woken \<and> t = c then Some xPendingReadyList else event_list (kern s) t))"
proof -
  note p = phase_facts[OF ph]
  let ?l = "xTasksWaitingToReceive q" and ?u = "\<lambda>s. upd_queue q (cTxLock_update (\<lambda>_. queueUNLOCKED)) s"
  obtain L where L: "struct_ok (kern s) E T L" using p(4) by (auto simp: kernel_ok_def)
  have un: "phase q E T c None us (?u s')" if "phase q E T c (Some n) us s'" for us s'
    using that phase_facts(1,2)[OF that] by (intro phase_upd_queue[OF that]) (simp_all add: queue_sys_ok_def)
  show ?thesis
  proof (cases woken)
    case False
    have "unlock_loop ?l n s = Inr s"
      using False ts empty_waiters[OF L p(8,7)] by (cases n) (auto simp: woken_def)
    then show ?thesis using False un[OF ph] isr_frame_refl[of q s] by simp
  next
    case True
    then have t: "ts = [c]" "0 < n" using ts by (auto simp: woken_def)
    obtain k' where k': "xTaskRemoveFromEventList ?l (kern s) = Inr (False, k')" "kernel_ok k' E T" "waiters k' ?l []"
        "state_list k' c = state_list (kern s) c \<and> event_list k' c = Some xPendingReadyList"
        "\<forall>a. a \<noteq> c \<longrightarrow> state_list k' a = state_list (kern s) a \<and> event_list k' a = event_list (kern s) a"
        "same_fields (kern s) k'" "xItemValue (lists k') = xItemValue (lists (kern s))" "xNumOfOverflows k' = xNumOfOverflows (kern s)"
      using wake_first_waiter[OF p(4,5,8) p(7)[unfolded t(1)] p(3)] p(6) by auto
    have sl: "state_list k' a = state_list (kern s) a" for a using k'(4,5) by (cases "a = c") auto
    then have pl: "placed k' T" using p(5) by (simp add: placed_def)
    obtain L' where L': "struct_ok k' E T L'" using k'(2) by (auto simp: kernel_ok_def)
    have em: "listLIST_IS_EMPTY ?l (lists k')" "\<not> listLIST_IS_EMPTY ?l (lists (kern s))"
      using empty_waiters[OF L' p(8) k'(3)] empty_waiters[OF L p(8,7)] t(1) by simp_all
    have "unlock_loop ?l m (s\<lparr>kern := k'\<rparr>) = Inr (s\<lparr>kern := k'\<rparr>)" for m using em(1) by (cases m) simp_all
    then have "unlock_loop ?l n s = Inr (s\<lparr>kern := k'\<rparr>)"
      using t(2) em(2) k'(1) by (cases n) (simp_all add: kernel_call_def)
    moreover have "phase q E T c (Some n) [] (s\<lparr>kern := k'\<rparr>)"
      using ph k'(2,3,6) pl by (simp add: phase_def queue_sys_ok_def same_fields_def)
    moreover have "isr_frame q s (s\<lparr>kern := k'\<rparr>)" using k'(6-8) sl by (simp add: isr_frame_def max_count_def same_fields_def)
    ultimately show ?thesis using True k'(4,5,6) un[of "[]" "s\<lparr>kern := k'\<rparr>"]
      by (intro exI[of _ "s\<lparr>kern := k'\<rparr>"]) (simp add: same_fields_def)
  qed
qed

subsection \<open>Resuming the scheduler\<close>

lemma resumed_placed:
  assumes "resumed T n k k'" "placed k T" "sched_ok k' E T"
  shows "placed k' T"
  unfolding placed_def
proof
  fix t assume t: "t \<in> T"
  have "ready k' t \<or> timed k' t \<or> state_list k' t = state_list k t" using assms(1) t unfolding resumed_def by (meson not_le)
  then show "state_list k' t \<noteq> None" using assms(2) t by (auto simp: ready_def timed_def placed_def)
qed

definition released :: "u32 \<Rightarrow> sys \<Rightarrow> bool" where
  "released q s \<longleftrightarrow> cTxLock (queues s q) = queueUNLOCKED \<and> cRxLock (queues s q) = queueUNLOCKED \<and> uxSchedulerSuspended (kern s) = 0"

lemma resume_phase:
  assumes ph: "phase q E T c None ts s" and rx: "cRxLock (queues s q) = queueUNLOCKED"
  shows "\<exists>y s'. kernel_call xTaskResumeAll s = Inr (y, s') \<and> queue_sys_ok q E T s' \<and> released q s' \<and> queues s' = queues s \<and>
    resumed T (unat (xPendedTicks (kern s))) (kern s) (kern s')"
proof -
  note p = phase_facts[OF ph]
  obtain k' where k': "xTaskResumeAll (kern s) = Inr (xYieldPending k', k')" "kernel_ok k' E T"
      "resumed T (unat (xPendedTicks (kern s))) (kern s) k'"
    using resume_all_ok[OF p(4,5,6)] p(14) by (auto simp: unat_gt_0 word_gt_0)
  have "placed k' T" using resumed_placed[OF k'(3) p(5) kernel_ok_sched[OF k'(2)]] .
  then have "queue_sys_ok q E T (s\<lparr>kern := k'\<rparr>)" using p(1) k'(2) by (simp add: queue_sys_ok_def)
  moreover have "released q (s\<lparr>kern := k'\<rparr>)" using k'(3) ph rx by (simp add: released_def resumed_def phase_def)
  ultimately show ?thesis using k' by (intro exI[of _ "xYieldPending k'"] exI[of _ "s\<lparr>kern := k'\<rparr>"]) (simp add: kernel_call_def)
qed

text \<open>The end of the locked section, with handlers in its two windows.\<close>

lemma unlock_and_resume_ok:
  fixes H
  assumes ph: "phase q E T c (Some n) ts s" and rx: "cRxLock (queues s q) = 0"
    and ts: "ts = [] \<or> ts = [c]" and ct: "ts = [c] \<Longrightarrow> 0 < sem_count q s \<Longrightarrow> 0 < n"
  defines "hs \<equiv> H TxUnlocked @ H Unlocked"
  defines "woken \<equiv> ts = [c] \<and> (0 < n \<or> Give \<in> set hs)"
  shows "\<exists>y s' k. unlock_and_resume (\<lambda>w. run_isrs q (H w)) q s = Inr (y, s') \<and> queue_sys_ok q E T s' \<and> released q s' \<and>
    sem_count q s' = min (max_count q s) (sem_count q s + count_list hs Give) \<and> max_count q s' = max_count q s \<and>
    (\<forall>t. event_list k t = (if woken \<and> t = c then Some xPendingReadyList else event_list (kern s) t)) \<and>
    (\<forall>t. state_list k t = state_list (kern s) t) \<and> (\<forall>t. prio k t = prio (kern s) t) \<and>
    (\<forall>t. timed k t = timed (kern s) t) \<and> (\<forall>t. ticks_left k t = ticks_left (kern s) t) \<and>
    resumed T (unat (xPendedTicks (kern s) + of_nat (count_list hs Tick))) k (kern s')"
proof -
  note p = phase_facts[OF ph]
  let ?u = "upd_queue q (cTxLock_update (\<lambda>_. queueUNLOCKED))" and ?r = "upd_queue q (cRxLock_update (\<lambda>_. queueUNLOCKED))"
  define w1 where "w1 = (0 < n \<and> ts \<noteq> [])"
  define ts1 where "ts1 = (if w1 then [] else ts)"
  have tl: "nat (sint (cTxLock (queues s q))) = n" using ph p(13) lock_word(4)[of n] by (auto simp: phase_def)
  obtain s1 where s1: "unlock_loop (xTasksWaitingToReceive q) n s = Inr s1" "queues s1 = queues s" "phase q E T c None ts1 (?u s1)"
      "isr_frame q s s1" "xPendedTicks (kern s1) = xPendedTicks (kern s)"
      "\<forall>t. event_list (kern s1) t = (if w1 \<and> t = c then Some xPendingReadyList else event_list (kern s) t)"
    using unlock_tx_ok[OF ph ts, folded w1_def, folded ts1_def] by blast
  have f1: "isr_frame q s (?u s1)" "sem_count q (?u s1) = sem_count q s" "cRxLock (queues (?u s1) q) = 0"
    using s1(2,4) rx by (simp_all add: isr_frame_def max_count_def sem_count_def)
  have t1: "ts1 = [] \<or> ts1 = [c] \<and> sem_count q (?u s1) = 0" using ts ct f1(2) by (auto simp: ts1_def w1_def)
  obtain s2 where s2: "run_isrs q (H TxUnlocked) (?u s1) = Inr s2"
      "phase q E T c None (if Give \<in> set (H TxUnlocked) then [] else ts1) s2" "isr_frame q (?u s1) s2"
      "sem_count q s2 = min (max_count q (?u s1)) (sem_count q (?u s1) + count_list (H TxUnlocked) Give)"
      "xPendedTicks (kern s2) = xPendedTicks (kern (?u s1)) + of_nat (count_list (H TxUnlocked) Tick)"
      "\<forall>t. event_list (kern s2) t = (if ts1 = [c] \<and> t = c \<and> Give \<in> set (H TxUnlocked) then Some xPendingReadyList
         else event_list (kern (?u s1)) t)"
    using isrs_unlocked[OF s1(3) t1] by blast
  define ts2 where "ts2 = (if Give \<in> set (H TxUnlocked) then [] else ts1)"
  have rx2: "nat (sint (cRxLock (queues s2 q))) = 0" using s2(3) f1(3) by (simp add: isr_frame_def)
  have ph2: "phase q E T c None ts2 (?r s2)"
    using s2(2) phase_facts(1,2)[OF s2(2)] unfolding ts2_def
    by (intro phase_upd_queue[OF s2(2)]) (simp_all add: queue_sys_ok_def phase_def)
  have f2: "sem_count q (?r s2) = sem_count q s2" "max_count q (?r s2) = max_count q s" "max_count q (?u s1) = max_count q s"
    using f1(1) s2(3) by (simp_all add: sem_count_def max_count_def isr_frame_def)
  have gz: "Give \<notin> set (H TxUnlocked) \<Longrightarrow> count_list (H TxUnlocked) Give = 0" by (simp add: count_list_0_iff)
  have t2: "ts2 = [] \<or> ts2 = [c] \<and> sem_count q (?r s2) = 0"
    using t1 gz s2(4) f2 by (auto simp: ts2_def)
  obtain s3 where s3: "run_isrs q (H Unlocked) (?r s2) = Inr s3"
      "phase q E T c None (if Give \<in> set (H Unlocked) then [] else ts2) s3" "isr_frame q (?r s2) s3"
      "sem_count q s3 = min (max_count q (?r s2)) (sem_count q (?r s2) + count_list (H Unlocked) Give)"
      "xPendedTicks (kern s3) = xPendedTicks (kern (?r s2)) + of_nat (count_list (H Unlocked) Tick)"
      "\<forall>t. event_list (kern s3) t = (if ts2 = [c] \<and> t = c \<and> Give \<in> set (H Unlocked) then Some xPendingReadyList
         else event_list (kern (?r s2)) t)"
    using isrs_unlocked[OF ph2 t2] by blast
  have "cRxLock (queues s3 q) = queueUNLOCKED" using s3(3) by (simp add: isr_frame_def)
  then obtain y s' where s': "kernel_call xTaskResumeAll s3 = Inr (y, s')" "queue_sys_ok q E T s'" "released q s'"
      "queues s' = queues s3" "resumed T (unat (xPendedTicks (kern s3))) (kern s3) (kern s')"
    using resume_phase[OF s3(2)] by blast
  have "isr_frame q (?u s1) s2" "isr_frame q (?r s2) s3" using s2(3) s3(3) .
  then have fr: "\<forall>t. state_list (kern s3) t = state_list (kern s) t" "\<forall>t. prio (kern s3) t = prio (kern s) t"
      "xTickCount (kern s3) = xTickCount (kern s)" "xItemValue (lists (kern s3)) = xItemValue (lists (kern s))"
      "pxDelayedTaskList (kern s3) = pxDelayedTaskList (kern s)" "pxOverflowDelayedTaskList (kern s3) = pxOverflowDelayedTaskList (kern s)"
      "max_count q s3 = max_count q s"
    using f1(1) f2(2) by (simp_all add: isr_frame_def)
  have "unlock_and_resume (\<lambda>w. run_isrs q (H w)) q s = Inr (y, s')"
    unfolding unlock_and_resume_def prvUnlockQueue_def tl s1(1) res_bind_Inr s2(1) rx2 unlock_loop.simps(1) s3(1) s'(1) ..
  moreover have "sem_count q s' = min (max_count q s) (sem_count q s + count_list hs Give)"
    using s'(4) s3(4) s2(4) f1(2) f2 by (simp add: sem_count_def hs_def)
  moreover have "max_count q s' = max_count q s" using s'(4) fr(7) by (simp add: max_count_def)
  moreover have "event_list (kern s3) t = (if woken \<and> t = c then Some xPendingReadyList else event_list (kern s) t)" for t
    using s3(6) s2(6) s1(6) ts unfolding woken_def hs_def ts2_def ts1_def w1_def by auto
  moreover have "timed (kern s3) t = timed (kern s) t" "ticks_left (kern s3) t = ticks_left (kern s) t" for t
    using fr by (simp_all add: timed_def ticks_left_def)
  moreover have "xPendedTicks (kern s3) = xPendedTicks (kern s) + of_nat (count_list hs Tick)"
    using s3(5) s2(5) s1(5) by (simp add: hs_def)
  ultimately show ?thesis using s'(2,3,5) fr(1,2) by (intro exI[of _ y] exI[of _ s'] exI[of _ "kern s3"]) simp
qed

text \<open>The end for a task that did not enter the list, and for one that did.\<close>

lemma resumed_ready:
  assumes "resumed T n k k'" "t \<in> T" and "event_list k t = None" "ready k t" "\<not> timed k t"
  shows "ready k' t" "event_list k' t = None"
  using assms unfolding resumed_def by (auto simp: ready_def)

lemma end_not_waiting:
  assumes ph: "phase q E T c (Some n) [] s" and rx: "cRxLock (queues s q) = 0"
    and c: "event_list (kern s) c = None" "ready (kern s) c"
  shows "\<exists>y s'. unlock_and_resume (\<lambda>w. run_isrs q (H w)) q s = Inr (y, s') \<and> queue_sys_ok q E T s' \<and> released q s' \<and>
    sem_count q s' = min (max_count q s) (sem_count q s + count_list (H TxUnlocked @ H Unlocked) Give) \<and>
    ready (kern s') c \<and> event_list (kern s') c = None"
proof -
  note p = phase_facts[OF ph]
  obtain y s' k where s': "unlock_and_resume (\<lambda>w. run_isrs q (H w)) q s = Inr (y, s')" "queue_sys_ok q E T s'" "released q s'"
      "sem_count q s' = min (max_count q s) (sem_count q s + count_list (H TxUnlocked @ H Unlocked) Give)"
      "\<forall>t. event_list k t = event_list (kern s) t" "\<forall>t. state_list k t = state_list (kern s) t"
      "\<forall>t. prio k t = prio (kern s) t" "\<forall>t. timed k t = timed (kern s) t"
      "resumed T (unat (xPendedTicks (kern s) + of_nat (count_list (H TxUnlocked @ H Unlocked) Tick))) k (kern s')"
    using unlock_and_resume_ok[OF ph rx, of H] by auto
  have "\<not> timed (kern s) c" using ready_not_timed[OF kernel_ok_sched[OF p(4)] p(9) c(2)] .
  then have "event_list k c = None" "ready k c" "\<not> timed k c" using s'(5-8) c by (simp_all add: ready_def)
  with resumed_ready[OF s'(9) p(9)] s'(1-4) show ?thesis by blast
qed

lemma end_waiting:
  fixes H
  assumes ph: "phase q E T c (Some n) [c] s" and rx: "cRxLock (queues s q) = 0" and n: "0 < sem_count q s \<longleftrightarrow> 0 < n"
    and c: "event_list (kern s) c = Some (xTasksWaitingToReceive q)" "\<not> ready (kern s) c"
  defines "hs \<equiv> H TxUnlocked @ H Unlocked"
  shows "\<exists>y s'. unlock_and_resume (\<lambda>w. run_isrs q (H w)) q s = Inr (y, s') \<and> queue_sys_ok q E T s' \<and> released q s' \<and>
    sem_count q s' = min (max_count q s) (sem_count q s + count_list hs Give) \<and>
    (0 < sem_count q s' \<longrightarrow> ready (kern s') c \<and> event_list (kern s') c = None) \<and>
    (sem_count q s' = 0 \<longrightarrow>
     (timed (kern s) c \<longrightarrow> unat (xPendedTicks (kern s) + of_nat (count_list hs Tick)) < ticks_left (kern s) c) \<longrightarrow>
     \<not> ready (kern s') c \<and> event_list (kern s') c = Some (xTasksWaitingToReceive q))"
proof -
  note p = phase_facts[OF ph]
  let ?m = "unat (xPendedTicks (kern s) + of_nat (count_list hs Tick))" and ?w = "0 < n \<or> Give \<in> set hs"
  have i: "[c] = [] \<or> [c] = [c]" "[c] = [c] \<Longrightarrow> 0 < sem_count q s \<Longrightarrow> 0 < n" using n by simp_all
  obtain y s' k where u: "unlock_and_resume (\<lambda>w. run_isrs q (H w)) q s = Inr (y, s')" "queue_sys_ok q E T s'" "released q s'"
      "sem_count q s' = min (max_count q s) (sem_count q s + count_list hs Give)"
      "\<forall>t. event_list k t = (if ([c] = [c] \<and> ?w) \<and> t = c then Some xPendingReadyList else event_list (kern s) t)"
      "\<forall>t. state_list k t = state_list (kern s) t" "\<forall>t. prio k t = prio (kern s) t" "\<forall>t. timed k t = timed (kern s) t"
      "\<forall>t. ticks_left k t = ticks_left (kern s) t" "resumed T ?m k (kern s')"
    using unlock_and_resume_ok[OF ph rx i, of H, folded hs_def] by blast
  then have s': "unlock_and_resume (\<lambda>w. run_isrs q (H w)) q s = Inr (y, s')" "queue_sys_ok q E T s'" "released q s'"
      "sem_count q s' = min (max_count q s) (sem_count q s + count_list hs Give)"
      "event_list k c = (if ?w then Some xPendingReadyList else event_list (kern s) c)" "state_list k c = state_list (kern s) c"
      "prio k c = prio (kern s) c" "timed k c = timed (kern s) c" "ticks_left k c = ticks_left (kern s) c" "resumed T ?m k (kern s')"
    by simp_all
  have "Give \<in> set hs \<longleftrightarrow> 0 < count_list hs Give" using count_list_0_iff[of hs Give] by auto
  then have w: "0 < sem_count q s' \<longleftrightarrow> ?w" using s'(4) p(10) n by (auto simp: min_def)
  have "ready (kern s') c \<and> event_list (kern s') c = None" if ?w
    using s'(5,10) that p(9) unfolding resumed_def by (simp add: xPendingReadyList_def)
  moreover have "\<not> ready (kern s') c \<and> event_list (kern s') c = Some (xTasksWaitingToReceive q)"
    if nw: "\<not> ?w" and t: "timed (kern s) c \<longrightarrow> ?m < ticks_left (kern s) c"
  proof -
    have "xTasksWaitingToReceive q \<noteq> 7" by (simp add: xTasksWaitingToReceive_def)
    then have e: "event_list k c \<noteq> Some 7" "event_list k c = Some (xTasksWaitingToReceive q)" using s'(5) nw c(1) by auto
    show ?thesis
    proof (cases "timed k c")
      case True
      then have "timed (kern s') c \<and> event_list (kern s') c = event_list k c"
        using s'(8-10) e(1) t p(9) unfolding resumed_def by auto
      moreover have "kernel_ok (kern s') E T" using s'(2) by (simp add: queue_sys_ok_def)
      ultimately show ?thesis using e(2) ready_not_timed[OF kernel_ok_sched p(9)] by auto
    next
      case False
      then have "state_list (kern s') c = state_list k c" "event_list (kern s') c = event_list k c" "tcbs (kern s') = tcbs k"
        using s'(10) e(1) p(9) unfolding resumed_def by auto
      then show ?thesis using e(2) s'(6,7) c(2) by (simp add: ready_def)
    qed
  qed
  ultimately show ?thesis using s'(1-4) w by (intro exI[of _ y] exI[of _ s']) auto
qed

subsection \<open>The whole wait\<close>

text \<open>A running task before it waits for a semaphore that no other task waits for.\<close>

definition taker :: "u32 \<Rightarrow> nat set \<Rightarrow> nat set \<Rightarrow> nat \<Rightarrow> sys \<Rightarrow> bool" where
  "taker q E T c s \<longleftrightarrow>
     queue_sys_ok q E T s \<and> uxItemSize (queues s q) = 0 \<and> released q s \<and> pxCurrentTCB (kern s) = Some c \<and>
     0 < unat (uxCurrentNumberOfTasks (kern s)) \<and> unat (uxCurrentNumberOfTasks (kern s)) < 128 \<and>
     waiters (kern s) (xTasksWaitingToReceive q) [] \<and> event_list (kern s) c = None \<and> ready (kern s) c"

lemma saturated_add: "min m (min m a + b) = min m (a + b)" for a b m :: nat
  by simp

lemma suspend_phase:
  assumes "taker q E T c s"
  shows "phase q E T c None [] (on_kern vTaskSuspendAll s)"
  using assms kernel_ok_simp_fields(4)[of "kern s" E T]
  by (simp add: taker_def phase_def queue_sys_ok_def released_def vTaskSuspendAll_def placed_def waiters_def)

lemma wait_head:
  fixes H
  assumes tk: "taker q E T c s" and n: "xTicksToWait \<noteq> 0"
  defines "early \<equiv> H Suspended @ H Locked @ H TimeChecked"
  shows "\<exists>over xTimeOut' n' s1 s2 s3 s4 lock. run_isrs q (H Suspended) (on_kern vTaskSuspendAll s) = Inr s1 \<and>
    run_isrs q (H Locked) (prvLockQueue q s1) = Inr s2 \<and>
    kernel_call (xTaskCheckForTimeOut xTimeOut xTicksToWait) s2 = Inr ((over, xTimeOut', n'), s3) \<and>
    run_isrs q (H TimeChecked) s3 = Inr s4 \<and> phase q E T c (Some lock) [] s4 \<and> cRxLock (queues s4 q) = 0 \<and>
    event_list (kern s4) c = None \<and> ready (kern s4) c \<and> max_count q s4 = max_count q s \<and>
    sem_count q s4 = min (max_count q s) (sem_count q s + count_list early Give) \<and> (0 < lock \<longrightarrow> 0 < sem_count q s4) \<and>
    xPendedTicks (kern s4) = xPendedTicks (kern s) + of_nat (count_list early Tick) \<and> (\<not> over \<longrightarrow> n' \<noteq> 0)"
proof -
  note t = tk[unfolded taker_def]
  let ?s = "on_kern vTaskSuspendAll s"
  have c0: "sem_count q ?s = sem_count q s" "max_count q ?s = max_count q s" "ready (kern ?s) c" "event_list (kern ?s) c = None"
    "cRxLock (queues ?s q) = queueUNLOCKED" "xPendedTicks (kern ?s) = xPendedTicks (kern s)"
    using t by (simp_all add: sem_count_def max_count_def vTaskSuspendAll_def ready_def released_def)
  obtain s1 where s1: "run_isrs q (H Suspended) ?s = Inr s1" "phase q E T c None [] s1" "isr_frame q ?s s1"
      "sem_count q s1 = min (max_count q ?s) (sem_count q ?s + count_list (H Suspended) Give)"
      "xPendedTicks (kern s1) = xPendedTicks (kern ?s) + of_nat (count_list (H Suspended) Tick)"
      "\<forall>t. event_list (kern s1) t = event_list (kern ?s) t"
    using isrs_unlocked[OF suspend_phase[OF tk], of "H Suspended"] by auto
  have "cRxLock (queues s1 q) = queueUNLOCKED" using s1(3) c0(5) by (simp add: isr_frame_def)
  note l = lock_ok[OF s1(2) this]
  obtain s2 n2 where s2: "run_isrs q (H Locked) (prvLockQueue q s1) = Inr s2" "phase q E T c (Some n2) [] s2"
      "isr_frame q (prvLockQueue q s1) s2"
      "sem_count q s2 = min (max_count q (prvLockQueue q s1)) (sem_count q (prvLockQueue q s1) + count_list (H Locked) Give)"
      "xPendedTicks (kern s2) = xPendedTicks (kern (prvLockQueue q s1)) + of_nat (count_list (H Locked) Tick)"
      "\<forall>t. event_list (kern s2) t = event_list (kern (prvLockQueue q s1)) t"
      "0 < n2 \<longrightarrow> sem_count q (prvLockQueue q s1) < sem_count q s2"
    using isrs_locked[OF l(1), of "H Locked"] by blast
  obtain over to' n' s3 where s3: "kernel_call (xTaskCheckForTimeOut xTimeOut xTicksToWait) s2 = Inr ((over, to', n'), s3)"
      "phase q E T c (Some n2) [] s3" "isr_frame q s2 s3" "sem_count q s3 = sem_count q s2" "xPendedTicks (kern s3) = xPendedTicks (kern s2)"
      "\<forall>t. event_list (kern s3) t = event_list (kern s2) t" "\<not> over \<longrightarrow> n' \<noteq> 0"
    using check_timeout_ok[OF s2(2) n] by blast
  obtain s4 n4 where s4: "run_isrs q (H TimeChecked) s3 = Inr s4" "phase q E T c (Some n4) [] s4" "isr_frame q s3 s4"
      "sem_count q s4 = min (max_count q s3) (sem_count q s3 + count_list (H TimeChecked) Give)"
      "xPendedTicks (kern s4) = xPendedTicks (kern s3) + of_nat (count_list (H TimeChecked) Tick)"
      "\<forall>t. event_list (kern s4) t = event_list (kern s3) t" "n2 \<le> n4" "n2 < n4 \<longrightarrow> sem_count q s3 < sem_count q s4"
    using isrs_locked[OF s3(2), of "H TimeChecked"] by blast
  have m: "max_count q s1 = max_count q s" "max_count q s2 = max_count q s" "max_count q s3 = max_count q s" "max_count q s4 = max_count q s"
    using s1(3) s2(3) s3(3) s4(3) l(5) c0(2) by (simp_all add: isr_frame_def)
  have "sem_count q s4 = min (max_count q s) (sem_count q s + count_list early Give)"
    using s4(4) s3(4) s2(4) s1(4) l(4,5) c0(1,2) m by (simp add: early_def saturated_add add.assoc)
  moreover have "0 < n4 \<longrightarrow> 0 < sem_count q s4"
    using s4(4,7,8) s2(7) s3(4) m count_le(2)[OF phase_facts(1)[OF s4(2)]] by (cases "n2 < n4") auto
  moreover have "xPendedTicks (kern s4) = xPendedTicks (kern s) + of_nat (count_list early Tick)"
    using s4(5) s3(5) s2(5) s1(5) l(3) c0(6) by (simp add: early_def)
  moreover have "event_list (kern s4) c = None" using s4(6) s3(6) s2(6) s1(6) l(3) c0(4) by simp
  moreover have "ready (kern s4) c" using s4(3) s3(3) s2(3) s1(3) l(3) c0(3) by (simp add: isr_frame_def ready_def)
  moreover have "cRxLock (queues s4 q) = 0" using s4(3) s3(3) s2(3) l(2) by (simp add: isr_frame_def)
  ultimately show ?thesis using s1(1) s2(1) s3(1,7) s4(1,2) m(4) by blast
qed

text \<open>What the task finds when a round that put it to sleep or not is over.\<close>

definition round_over :: "u32 \<Rightarrow> nat set \<Rightarrow> nat set \<Rightarrow> nat \<Rightarrow> u32 \<Rightarrow> nat \<Rightarrow> sys \<Rightarrow> bool" where
  "round_over q E T c xTicksToWait ticks s \<longleftrightarrow>
     queue_sys_ok q E T s \<and> released q s \<and>
     (0 < sem_count q s \<longrightarrow> ready (kern s) c \<and> event_list (kern s) c = None) \<and>
     (sem_count q s = 0 \<longrightarrow> xTicksToWait = portMAX_DELAY \<or> ticks < unat xTicksToWait \<longrightarrow>
      \<not> ready (kern s) c \<and> event_list (kern s) c = Some (xTasksWaitingToReceive q))"

lemma round_over_yield:
  assumes "round_over q E T c w m s"
  shows "round_over q E T c w m (on_kern portYIELD_WITHIN_API s)"
  using assms kernel_ok_simp_fields(2)[of "kern s" E T True]
  by (auto simp: round_over_def queue_sys_ok_def released_def sem_count_def ready_def portYIELD_WITHIN_API_def
      on_kern_def placed_def)

lemma wait_blocked:
  fixes H
  assumes ph: "phase q E T c (Some n) [] s" and rx: "cRxLock (queues s q) = 0" and n: "0 < sem_count q s \<longleftrightarrow> 0 < n"
    and c: "event_list (kern s) c = None" and w: "w \<noteq> 0"
  defines "hs \<equiv> H Placed @ H TxUnlocked @ H Unlocked"
  shows "\<exists>s1 s2 s3 y. kernel_do (vTaskPlaceOnEventList (xTasksWaitingToReceive q) w) s = Inr s1 \<and>
    run_isrs q (H Placed) s1 = Inr s2 \<and> unlock_and_resume (\<lambda>w. run_isrs q (H w)) q s2 = Inr (y, s3) \<and>
    sem_count q s3 = min (max_count q s) (sem_count q s + count_list hs Give) \<and>
    round_over q E T c w (unat (xPendedTicks (kern s) + of_nat (count_list hs Tick))) s3"
proof -
  note p = phase_facts[OF ph]
  obtain s1 where s1: "kernel_do (vTaskPlaceOnEventList (xTasksWaitingToReceive q) w) s = Inr s1" "phase q E T c (Some n) [c] s1"
      "queues s1 = queues s" "xPendedTicks (kern s1) = xPendedTicks (kern s)"
      "event_list (kern s1) c = Some (xTasksWaitingToReceive q)"
      "if w = portMAX_DELAY then state_list (kern s1) c = Some xSuspendedTaskList else timed (kern s1) c \<and> ticks_left (kern s1) c = unat w"
    using place_ok[OF ph c w] by blast
  obtain s2 n2 where s2: "run_isrs q (H Placed) s1 = Inr s2" "phase q E T c (Some n2) [c] s2" "isr_frame q s1 s2"
      "sem_count q s2 = min (max_count q s1) (sem_count q s1 + count_list (H Placed) Give)"
      "xPendedTicks (kern s2) = xPendedTicks (kern s1) + of_nat (count_list (H Placed) Tick)"
      "\<forall>t. event_list (kern s2) t = event_list (kern s1) t" "n \<le> n2" "sem_count q s1 < sem_count q s2 \<longrightarrow> 0 < n2"
      "n < n2 \<longrightarrow> sem_count q s1 < sem_count q s2"
    using isrs_locked[OF s1(2), of "H Placed"] by blast
  have m: "max_count q s1 = max_count q s" "sem_count q s1 = sem_count q s" "max_count q s2 = max_count q s" "cRxLock (queues s2 q) = 0"
    using s1(3) s2(3) rx by (simp_all add: isr_frame_def max_count_def sem_count_def)
  have f: "state_list (kern s2) c = state_list (kern s1) c" "timed (kern s2) c = timed (kern s1) c"
      "ticks_left (kern s2) c = ticks_left (kern s1) c" "prio (kern s2) c = prio (kern s1) c"
    using s2(3) by (simp_all add: isr_frame_def timed_def ticks_left_def)
  note sc = kernel_ok_sched[OF phase_facts(4)[OF s1(2)]]
  have nr: "\<not> ready (kern s1) c"
    using s1(6) ready_not_timed[OF sc p(9)] sched_okD(4)[OF sc p(9)]
    by (cases "w = portMAX_DELAY") (auto simp: ready_def xSuspendedTaskList_def)
  have i: "0 < sem_count q s2 \<longleftrightarrow> 0 < n2"
    using s2(4,7-9) n m count_le(1)[OF p(1)] by (cases "n < n2") (auto simp: min_def split: if_splits)
  have nr2: "\<not> ready (kern s2) c" using nr f by (simp add: ready_def)
  have e2: "event_list (kern s2) c = Some (xTasksWaitingToReceive q)" using s2(6) s1(5) by simp
  obtain y s3 where s3: "unlock_and_resume (\<lambda>w. run_isrs q (H w)) q s2 = Inr (y, s3)" "queue_sys_ok q E T s3" "released q s3"
      "sem_count q s3 = min (max_count q s2) (sem_count q s2 + count_list (H TxUnlocked @ H Unlocked) Give)"
      "0 < sem_count q s3 \<longrightarrow> ready (kern s3) c \<and> event_list (kern s3) c = None"
      "sem_count q s3 = 0 \<longrightarrow> (timed (kern s2) c \<longrightarrow>
        unat (xPendedTicks (kern s2) + of_nat (count_list (H TxUnlocked @ H Unlocked) Tick)) < ticks_left (kern s2) c) \<longrightarrow>
        \<not> ready (kern s3) c \<and> event_list (kern s3) c = Some (xTasksWaitingToReceive q)"
    using end_waiting[OF s2(2) m(4) i e2 nr2, of H] by (elim exE conjE) (rule that)
  have "sem_count q s3 = min (max_count q s) (sem_count q s + count_list hs Give)"
    using s3(4) s2(4) m by (simp add: hs_def saturated_add add.assoc)
  moreover have "w = portMAX_DELAY \<Longrightarrow> \<not> timed (kern s2) c"
    using s1(6) f sched_okD(1,2)[OF sc] by (auto simp: timed_def xSuspendedTaskList_def)
  then have "round_over q E T c w (unat (xPendedTicks (kern s) + of_nat (count_list hs Tick))) s3"
    using s3(2,3,5,6) s2(5) s1(4,6) f by (auto simp: round_over_def hs_def add.assoc split: if_splits)
  ultimately show ?thesis using s1(1) s2(1) s3(1) by blast
qed

text \<open>The round after the timeout check, when time is left.\<close>

lemma wait_in_time:
  fixes H
  assumes ph: "phase q E T c (Some n) [] s" and rx: "cRxLock (queues s q) = 0" and n: "0 < n \<longrightarrow> 0 < sem_count q s"
    and c: "event_list (kern s) c = None" "ready (kern s) c" and w: "w \<noteq> 0"
  defines "hs \<equiv> H QueueChecked @ (if sem_count q s = 0 then H Placed else []) @ H TxUnlocked @ H Unlocked"
  shows "\<exists>s'. (let blocked = prvIsQueueEmpty (queues s q) in
      res_bind (run_isrs q (H QueueChecked) s) (\<lambda>s.
        if blocked then
          res_bind (inherit_priority q (\<lambda>w. run_isrs q (H w)) False s) (\<lambda>(inherited, s).
          res_bind (kernel_do (vTaskPlaceOnEventList (xTasksWaitingToReceive q) w) s) (\<lambda>s.
          res_bind (run_isrs q (H Placed) s) (\<lambda>s.
          res_bind (unlock_and_resume (\<lambda>w. run_isrs q (H w)) q s) (\<lambda>(yielded, s).
          Inr ((False, to', w, inherited), if \<not> yielded then on_kern portYIELD_WITHIN_API s else s)))))
        else res_bind (unlock_and_resume (\<lambda>w. run_isrs q (H w)) q s) (\<lambda>(_, s). Inr ((False, to', w, False), s)))) =
      Inr ((False, to', w, False), s') \<and>
    sem_count q s' = min (max_count q s) (sem_count q s + count_list hs Give) \<and>
    round_over q E T c w (unat (xPendedTicks (kern s) + of_nat (count_list hs Tick))) s'"
proof -
  note p = phase_facts[OF ph]
  obtain s1 n1 where s1: "run_isrs q (H QueueChecked) s = Inr s1" "phase q E T c (Some n1) [] s1" "isr_frame q s s1"
      "sem_count q s1 = min (max_count q s) (sem_count q s + count_list (H QueueChecked) Give)"
      "xPendedTicks (kern s1) = xPendedTicks (kern s) + of_nat (count_list (H QueueChecked) Tick)"
      "\<forall>t. event_list (kern s1) t = event_list (kern s) t" "n \<le> n1" "sem_count q s < sem_count q s1 \<longrightarrow> 0 < n1"
      "n < n1 \<longrightarrow> sem_count q s < sem_count q s1"
    using isrs_locked[OF ph, of "H QueueChecked"] by blast
  have f: "cRxLock (queues s1 q) = 0" "max_count q s1 = max_count q s" "event_list (kern s1) c = None" "ready (kern s1) c"
    using s1(3,6) rx c by (simp_all add: isr_frame_def ready_def)
  have mono: "sem_count q s \<le> sem_count q s1" using s1(4) count_le(1)[OF p(1)] by simp
  have e: "prvIsQueueEmpty (queues s q) \<longleftrightarrow> sem_count q s = 0" by (simp add: prvIsQueueEmpty_def sem_count_def unat_eq_0)
  have head: "pcHead (queues s1 q) \<noteq> queueQUEUE_IS_MUTEX"
    using phase_facts(1)[OF s1(2)] s1(2) by (simp add: queue_sys_ok_def ring_ok_def phase_def)
  show ?thesis
  proof (cases "sem_count q s = 0")
    case True
    then have i: "0 < sem_count q s1 \<longleftrightarrow> 0 < n1" using n s1(7-9) by auto
    obtain s2 s3 s4 y where "kernel_do (vTaskPlaceOnEventList (xTasksWaitingToReceive q) w) s1 = Inr s2"
      "run_isrs q (H Placed) s2 = Inr s3" "unlock_and_resume (\<lambda>w. run_isrs q (H w)) q s3 = Inr (y, s4)"
      "sem_count q s4 = min (max_count q s1) (sem_count q s1 + count_list (H Placed @ H TxUnlocked @ H Unlocked) Give)"
      "round_over q E T c w (unat (xPendedTicks (kern s1) + of_nat (count_list (H Placed @ H TxUnlocked @ H Unlocked) Tick))) s4"
      using wait_blocked[OF s1(2) f(1) i f(3) w, of H] by blast
    then show ?thesis
      using True e s1(1,4,5) f(2) head round_over_yield[of q E T c w _ s4]
      by (intro exI[of _ "if \<not> y then on_kern portYIELD_WITHIN_API s4 else s4"])
         (simp add: inherit_priority_def hs_def saturated_add add.assoc sem_count_def)
  next
    case False
    obtain y s2 where s2: "unlock_and_resume (\<lambda>w. run_isrs q (H w)) q s1 = Inr (y, s2)" "queue_sys_ok q E T s2" "released q s2"
      "sem_count q s2 = min (max_count q s1) (sem_count q s1 + count_list (H TxUnlocked @ H Unlocked) Give)"
      "ready (kern s2) c" "event_list (kern s2) c = None"
      using end_not_waiting[OF s1(2) f(1,3,4), of H] by blast
    have "0 < sem_count q s2" using s2(4) f(2) False mono count_le(2)[OF p(1)] by simp
    then show ?thesis
      using False e s1(1,4) f(2) s2 by (auto simp: round_over_def hs_def saturated_add add.assoc min_def)
  qed
qed

text \<open>The windows a round opens: the last two of every round, the check of the queue only when time is left, the
  window after the task was put on the list only when the check found the semaphore empty.\<close>

definition round_windows :: "bool \<Rightarrow> bool \<Rightarrow> window list" where
  "round_windows over blocked =
     [Suspended, Locked, TimeChecked] @ (if over then [] else QueueChecked # (if blocked then [Placed] else [])) @
     [TxUnlocked, Unlocked]"


lemma demo_taker: "taker 0x110 {10..} wrap_tasks 2 demo_sys"
proof -
  have "waiters event_kernel (xTasksWaitingToReceive 0x110) []"
    using event_is_list[of "xTasksWaitingToReceive 0x110"] by (simp add: waiters_def event_seqs_def xTasksWaitingToReceive_def)
  then show ?thesis
    using demo_queue_ok[of "0x110"]
    by (simp add: taker_def released_def demo_sys_def event_kernel_def ready_def event_lists_def wrap_items)
qed


end
