(* ===== verification/Rtos_Boot.thy ===== *)
theory Rtos_Boot
  imports Rtos_Port Rtos_Semaphore
begin

section \<open>From power-on to the first task\<close>

text \<open>
  The state of a kernel whose scheduler has not been started: what an allocation from the heap returns,
  how a new task is entered in the ready lists and which context its stack holds. Creating a task extends
  the invariant of the scheduler by the new control block, or fails without a trace.
\<close>

subsection \<open>Allocation outside suspension\<close>

definition quiet :: "kernel \<Rightarrow> bool" where
  "quiet k \<longleftrightarrow>
     uxSchedulerSuspended k = 0 \<and> xPendedTicks k = 0 \<and> \<not> xYieldPending k \<and>
     (uxCurrentNumberOfTasks k > 0 \<longrightarrow> listLIST_IS_EMPTY xPendingReadyList (lists k))"

lemma resume_quiet:
  assumes "quiet k"
  shows "xTaskResumeAll (vTaskSuspendAll k) = Inr (False, k)"
proof -
  have k: "k\<lparr>uxSchedulerSuspended := 0\<rparr> = k" using assms by (simp add: quiet_def)
  have "xTaskResumeAll (vTaskSuspendAll k) =
    (if uxCurrentNumberOfTasks k > 0 then resume_tasks (k\<lparr>uxSchedulerSuspended := 0\<rparr>) else Inr (False, k\<lparr>uxSchedulerSuspended := 0\<rparr>))"
    using assms by (simp add: xTaskResumeAll_def vTaskSuspendAll_def quiet_def Let_def)
  moreover have "drain_pending False k = Some (Inr (False, k))" if "uxCurrentNumberOfTasks k > 0"
    using assms that by (subst drain_pending.simps) (simp add: quiet_def)
  ultimately show ?thesis unfolding k using assms by (simp add: resume_tasks_def quiet_def)
qed

lemma heap_alloc_quiet:
  assumes "quiet (kern s)"
  shows "heap_alloc u w s = Inr (fst (pvPortMalloc u w (heap s)), s\<lparr>heap := snd (pvPortMalloc u w (heap s))\<rparr>)"
proof -
  obtain p h where "pvPortMalloc u w (heap s) = (p, h)" by force
  then show ?thesis using resume_quiet[OF assms] by (simp add: heap_alloc_def kernel_call_def on_kern_def)
qed

definition rounded :: "u32 \<Rightarrow> nat" where
  "rounded w = (unat w + 7) div 8 * 8"

lemma align_size_rounded:
  assumes "unat w + 8 < 2 ^ 32"
  shows "unat (align_size w) = rounded w"
proof (cases "w AND 7 = 0")
  case True
  then have "unat w mod 8 = 0" using and_7_mod[of w] by simp
  then have "rounded w = unat w" unfolding rounded_def by presburger
  then show ?thesis using True by (simp add: align_size_def heap_consts)
next
  case False
  let ?p = "8 - (w AND 7)"
  have m: "unat (w AND 7) = unat w mod 8" by (rule and_7_mod)
  have "(w AND 7) \<le> 8" unfolding word_le_nat_alt m by simp
  then have p: "unat ?p = 8 - unat w mod 8" using m by (simp add: unat_sub)
  have n: "unat w mod 8 \<noteq> 0" using False m by (metis unat_eq_zero)
  have s: "unat (w + ?p) = unat w + (8 - unat w mod 8)"
  proof -
    have "unat w + unat ?p < 2 ^ LENGTH(32)" using assms p by simp
    then show ?thesis using unat_add_lem[of w ?p] p by simp
  qed
  then have "w + ?p > w" using mod_less_divisor[of 8 "unat w"] unfolding word_less_nat_alt by linarith
  moreover have "rounded w = unat w + (8 - unat w mod 8)" using n unfolding rounded_def by presburger
  ultimately show ?thesis using False s by (simp add: align_size_def heap_consts)
qed

lemma malloc_outcome:
  assumes "heap_placed u" "heap_inv u h" and w: "unat w + 8 < 2 ^ 31" and m: "pvPortMalloc u w h = (p, h')"
  shows "heap_inv u h'"
    and "w = 0 \<or> unat (xNextFreeByte h) + rounded w \<ge> 8184 \<Longrightarrow> p = 0 \<and> xNextFreeByte h' = xNextFreeByte h"
    and "w \<noteq> 0 \<Longrightarrow> unat (xNextFreeByte h) + rounded w < 8184 \<Longrightarrow> p \<noteq> 0 \<and>
      unat p = unat (heap_base u) + unat (xNextFreeByte h) \<and> unat (xNextFreeByte h') = unat (xNextFreeByte h) + rounded w"
proof -
  note c = malloc_cases[OF assms(1,2) m]
  let ?n = "xNextFreeByte h" and ?w = "align_size w"
  have al: "unat ?w = rounded w" by (rule align_size_rounded) (use w in simp)
  have "rounded w < 2 ^ 31" using w unfolding rounded_def by presburger
  then have sum: "unat (?n + ?w) = unat ?n + rounded w"
    using unat_add_lem[of ?n ?w] al assms(2) by (simp add: heap_inv_def)
  have z: "w \<noteq> 0 \<longleftrightarrow> ?w > 0"
    unfolding word_less_nat_alt al using unat_gt_0[of w] unfolding rounded_def by (simp add: div_greater_zero_iff) linarith
  have fits: "?w > 0 \<and> ?n + ?w < configADJUSTED_HEAP_SIZE \<and> ?n + ?w > ?n \<longleftrightarrow> w \<noteq> 0 \<and> unat ?n + rounded w < 8184"
    using z al sum by (auto simp: word_less_nat_alt heap_consts)
  show "heap_inv u h'" using c by simp
  show "w = 0 \<or> unat ?n + rounded w \<ge> 8184 \<Longrightarrow> p = 0 \<and> xNextFreeByte h' = ?n"
    using fits m by (auto simp: pvPortMalloc_def Let_def split: if_splits)
  assume f: "w \<noteq> 0" "unat ?n + rounded w < 8184"
  then have n: "xNextFreeByte h' = ?n + ?w" using fits m by (auto simp: pvPortMalloc_def Let_def split: if_splits)
  then have "xNextFreeByte h' \<noteq> ?n" using z f(1) by auto
  with c n sum show "p \<noteq> 0 \<and> unat p = unat (heap_base u) + unat ?n \<and> unat (xNextFreeByte h') = unat ?n + rounded w" by auto
qed

subsection \<open>A new control block\<close>

lemma lists_ok_container_None: "lists_ok h D T L \<Longrightarrow> t \<notin> T \<Longrightarrow> pxContainer h (xStateListItem t) = None \<and> pxContainer h (xEventListItem t) = None"
  using container_iff[of h D T L] lists_okD(5)[of h D T L] by (metis item_in_image(5,6) not_Some_eq subsetD)

lemma new_items_ok:
  fixes p
  assumes ok: "lists_ok (lists k) D T L" and t: "t \<notin> T" "t \<noteq> 0" "Suc (card T) < 2 ^ 31"
  defines "h \<equiv> lists (init_items t p (clear_tcb t k))"
  shows "lists_ok h D (insert t T) L" "pxContainer h = pxContainer (lists k)"
    "\<And>x. x \<notin> task_items {t} \<Longrightarrow> xItemValue h x = xItemValue (lists k) x"
proof -
  note c = lists_ok_container_None[OF ok t(1)]
  have f: "pxContainer h = pxContainer (lists k)" "pxNext h = pxNext (lists k)" "pxPrevious h = pxPrevious (lists k)"
    "uxNumberOfItems h = uxNumberOfItems (lists k)" "pxIndex h = pxIndex (lists k)"
    "pvOwner h = (pvOwner (lists k))(xStateListItem t := t, xEventListItem t := t)"
    and v: "\<And>x. x \<notin> task_items {t} \<Longrightarrow> xItemValue h x = xItemValue (lists k) x"
    using c by (auto simp: h_def init_items_def clear_tcb_def heap_ops listSET_LIST_ITEM_OWNER_def listSET_LIST_ITEM_VALUE_def
        vListInitialiseItem_def Let_def task_items_def fun_eq_iff)
  show "pxContainer h = pxContainer (lists k)" "\<And>x. x \<notin> task_items {t} \<Longrightarrow> xItemValue h x = xItemValue (lists k) x"
    using f v by simp_all
  have "is_list h l (L l)" if "l \<in> D" for l
  proof (rule is_list_cong[OF lists_okD(4)[OF ok that]])
    show "xItemValue h (ListEnd l) = xItemValue (lists k) (ListEnd l)" by (rule v) (auto simp: task_items_def xStateListItem_def xEventListItem_def)
  qed (simp_all add: f)
  then have hl: "heap_lists h D L" by (simp add: heap_lists_def)
  have "task_items T \<subseteq> task_items (insert t T)" by (auto simp: task_items_def)
  then have "\<forall>l \<in> D. set (L l) \<subseteq> task_items (insert t T)" using lists_okD(5)[OF ok] by blast
  with hl show "lists_ok h D (insert t T) L" using ok t by (simp add: lists_ok_def f card_insert_if)
qed

text \<open>The control block after its initialisation.\<close>

definition fresh_tcb :: "nat \<Rightarrow> u32 \<Rightarrow> u32 \<Rightarrow> tcb \<Rightarrow> bool" where
  "fresh_tcb p stack sp x \<longleftrightarrow>
     uxPriority x = p \<and> uxBasePriority x = p \<and> pxStack x = stack \<and> pxTopOfStack x = sp \<and> uxMutexesHeld x = 0 \<and> ulNotifiedValue x = 0 \<and>
     ucNotifyState x = taskNOT_WAITING_NOTIFICATION \<and> \<not> ucDelayAborted x"

text \<open>The context that the first switch to a new task restores.\<close>

definition entry_frame :: "image \<Rightarrow> u32 \<Rightarrow> u32 \<Rightarrow> u32 \<Rightarrow> sys \<Rightarrow> bool" where
  "entry_frame img code param v s \<longleftrightarrow>
     load32 (v + 32) s = portINITIAL_EXC_RETURN \<and> load32 (v + 36) s = param \<and> load32 (v + 56) s = prvTaskExitError img \<and>
     load32 (v + 60) s = code AND portSTART_ADDRESS_MASK \<and> load32 (v + 64) s = portINITIAL_XPSR"

lemma word_of_bytes:
  "ucast (ucast v :: u8) OR push_bit 8 (ucast (ucast (drop_bit 8 v) :: u8)) OR push_bit 16 (ucast (ucast (drop_bit 16 v) :: u8)) OR
     push_bit 24 (ucast (ucast (drop_bit 24 v) :: u8)) = (v :: u32)"
proof (rule bit_word_eqI)
  fix n assume n: "n < LENGTH(32)"
  consider "n < 8" | "8 \<le> n" "n < 16" | "16 \<le> n" "n < 24" | "24 \<le> n" by linarith
  then show "bit (ucast (ucast v :: u8) OR push_bit 8 (ucast (ucast (drop_bit 8 v) :: u8)) OR push_bit 16 (ucast (ucast (drop_bit 16 v) :: u8)) OR
     push_bit 24 (ucast (ucast (drop_bit 24 v) :: u8)) :: u32) n = bit v n"
    using n by cases (auto simp: bit_simps)
qed

lemma load32_store32: "load32 p (store32 p v s) = v"
  by (simp add: load32_def store32_def word_of_bytes)

lemma load32_store32_other:
  assumes "\<forall>i \<in> {0, 1, 2, 3}. \<forall>j \<in> {0, 1, 2, 3}. a + i \<noteq> b + j"
  shows "load32 a (store32 b v s) = load32 a s"
  using assms by (simp add: load32_def store32_def)

lemma entry_frame_ram: "ram s = ram s' \<Longrightarrow> entry_frame img code param v s = entry_frame img code param v s'"
  by (simp add: entry_frame_def load32_def)

lemma init_stack_at:
  obtains r where "pxPortInitialiseStack img (v + 68) code param s = (v, s\<lparr>ram := r\<rparr>)" "entry_frame img code param v (s\<lparr>ram := r\<rparr>)"
proof -
  let ?s = "store32 (v + 32) portINITIAL_EXC_RETURN (store32 (v + 36) param (store32 (v + 56) (prvTaskExitError img)
    (store32 (v + 60) (code AND portSTART_ADDRESS_MASK) (store32 (v + 64) portINITIAL_XPSR s))))"
  have "pxPortInitialiseStack img (v + 68) code param s = (v, ?s)" by (simp add: pxPortInitialiseStack_def Let_def add.commute)
  moreover have "entry_frame img code param v ?s"
    by (simp add: entry_frame_def load32_store32 load32_store32_other)
  moreover have "?s = s\<lparr>ram := ram ?s\<rparr>" by (simp add: store32_def)
  ultimately show ?thesis using that by metis
qed

lemma init_stack_frame:
  obtains r where "pxPortInitialiseStack img sp code param s = (sp - 68, s\<lparr>ram := r\<rparr>)" "entry_frame img code param (sp - 68) (s\<lparr>ram := r\<rparr>)"
  using init_stack_at[of img "sp - 68" code param s] by (metis diff_add_cancel)

lemma init_task_ok:
  assumes p: "p < configMAX_PRIORITIES" and k: "kern s = upd_tcb t (pxStack_update (\<lambda>_. stack)) (clear_tcb t k)"
  shows "\<exists>x r. prvInitialiseNewTask img code name depth param p t s =
      Inr (s\<lparr>ram := r, kern := k\<lparr>lists := lists (init_items t p (clear_tcb t k)), tcbs := (tcbs k)(t := x)\<rparr>\<rparr>) \<and> fresh_tcb p stack (pxTopOfStack x) x \<and>
      entry_frame img code param (pxTopOfStack x) (s\<lparr>ram := r\<rparr>)"
proof -
  let ?s1 = "memset stack tskSTACK_FILL_BYTE (depth * 4) s"
  let ?top = "(stack + (depth - 1) * 4) AND NOT portBYTE_ALIGNMENT_MASK"
  let ?s2 = "on_kern (upd_tcb t (pcTaskName_update (task_name name ?s1))) ?s1"
  let ?s3 = "on_kern (init_items t p) (on_kern (upd_tcb t (\<lambda>x. x\<lparr>uxPriority := p, uxBasePriority := p\<rparr>)) ?s2)"
  define v where "v = ?top - 68"
  obtain r where v: "pxPortInitialiseStack img ?top code param ?s3 = (v, ?s3\<lparr>ram := r\<rparr>)"
    and fr: "entry_frame img code param v (?s3\<lparr>ram := r\<rparr>)" using init_stack_frame[of img ?top code param ?s3] unfolding v_def by blast
  have sp: "?top AND portBYTE_ALIGNMENT_MASK = 0" by (rule bit_eqI) (auto simp: bit_simps)
  have pp: "(if p \<ge> configMAX_PRIORITIES then configMAX_PRIORITIES - 1 else p) = p" using p by simp
  have st: "pxStack (tcbs (kern s) t) = stack" by (simp add: k upd_tcb_def)
  have "prvInitialiseNewTask img code name depth param p t s = Inr (on_kern (upd_tcb t (pxTopOfStack_update (\<lambda>_. v))) (?s3\<lparr>ram := r\<rparr>))"
    unfolding prvInitialiseNewTask_def st Let_def sp pp v using p by (simp add: assert_that_def)
  also have "on_kern (upd_tcb t (pxTopOfStack_update (\<lambda>_. v))) (?s3\<lparr>ram := r\<rparr>) =
    s\<lparr>ram := r, kern := k\<lparr>lists := lists (init_items t p (clear_tcb t k)), tcbs := (tcbs k)(t :=
      \<lparr>pxTopOfStack = v, uxPriority = p, pxStack = stack, pcTaskName = task_name name ?s1 (replicate configMAX_TASK_NAME_LEN 0),
       uxTCBNumber = 0, uxBasePriority = p, uxMutexesHeld = 0, ulNotifiedValue = 0,
       ucNotifyState = taskNOT_WAITING_NOTIFICATION, ucDelayAborted = False\<rparr>)\<rparr>\<rparr>"
    by (simp add: on_kern_def upd_tcb_def memset_def k init_items_def clear_tcb_def Let_def)
  finally show ?thesis
    using entry_frame_ram[where s = "s\<lparr>ram := r\<rparr>" and s' = "?s3\<lparr>ram := r\<rparr>" and img = img and code = code and param = param and v = v] fr
    by (intro exI conjI) (assumption, simp_all add: fresh_tcb_def)
qed

subsection \<open>Creating a task\<close>

lemma init_list_ok:
  assumes "lists_ok h D T L" "L l = []"
  shows "lists_ok (vListInitialise l h) (insert l D) T L" "pxContainer (vListInitialise l h) = pxContainer h"
proof -
  have e: "L(l := []) = L" using assms(2) by auto
  have hl: "heap_lists (vListInitialise l h) (insert l D) L"
    using vListInitialise_lists[OF lists_okD(1)[OF assms(1)], of l] unfolding e .
  show c: "pxContainer (vListInitialise l h) = pxContainer h" by (simp add: vListInitialise_def heap_ops Let_def)
  have "pvOwner (vListInitialise l h) = pvOwner h" by (simp add: vListInitialise_def heap_ops Let_def)
  with hl c show "lists_ok (vListInitialise l h) (insert l D) T L" using assms by (auto simp: lists_ok_def)
qed

lemma init_lists_ok:
  assumes "lists_ok h D T (\<lambda>_. [])"
  shows "lists_ok (fold vListInitialise ls h) (set ls \<union> D) T (\<lambda>_. []) \<and> pxContainer (fold vListInitialise ls h) = pxContainer h"
  using assms
proof (induction ls arbitrary: h D)
  case (Cons l ls)
  show ?case using Cons.IH[OF init_list_ok(1)[OF Cons.prems, of l]] init_list_ok(2)[OF Cons.prems, of l] by simp
qed simp

lemma prvInitialiseTaskLists_eq:
  "prvInitialiseTaskLists k =
     k\<lparr>lists := fold vListInitialise [0, 1, 2, 3, 4, 5, 6, 7, 8, 9] (lists k), pxDelayedTaskList := 5, pxOverflowDelayedTaskList := 6\<rparr>"
  by (simp add: prvInitialiseTaskLists_def configMAX_PRIORITIES_def upt_rec list_addresses eval_nat_numeral Let_def)

text \<open>
  The state of the kernel between two creations: before the first one nothing is listed, afterwards the
  scheduler's invariant holds.
\<close>

definition creating :: "kernel \<Rightarrow> nat set \<Rightarrow> nat set \<Rightarrow> bool" where
  "creating k E T \<longleftrightarrow>
     uxCurrentNumberOfTasks k = of_nat (card T) \<and> finite T \<and>
     (if T = {} then pxCurrentTCB k = None \<and> \<not> xSchedulerRunning k \<and> uxTopReadyPriority k < 5 \<and>
                     E \<inter> {..<10} = {} \<and> lists_ok (lists k) E {} (\<lambda>_. [])
      else kernel_ok k E T)"

text \<open>What a successful creation of task \<open>t\<close> does to the kernel.\<close>

definition preempts :: "kernel \<Rightarrow> nat \<Rightarrow> bool" where
  "preempts k p \<longleftrightarrow> xSchedulerRunning k \<and> (\<forall>c. pxCurrentTCB k = Some c \<longrightarrow> prio k c < p)"

definition takes_over :: "kernel \<Rightarrow> nat \<Rightarrow> bool" where
  "takes_over k p \<longleftrightarrow> \<not> xSchedulerRunning k \<and> (\<forall>c. pxCurrentTCB k = Some c \<longrightarrow> prio k c \<le> p)"

definition task_added :: "nat set \<Rightarrow> nat set \<Rightarrow> nat \<Rightarrow> nat \<Rightarrow> u32 \<Rightarrow> u32 \<Rightarrow> kernel \<Rightarrow> kernel \<Rightarrow> bool" where
  "task_added E T t p stack sp k k' \<longleftrightarrow>
     creating k' E (insert t T) \<and> ready k' t \<and> event_list k' t = None \<and> fresh_tcb p stack sp (tcbs k' t) \<and>
     (\<forall>u \<in> T. state_list k' u = state_list k u \<and> event_list k' u = event_list k u \<and> tcbs k' u = tcbs k u) \<and>
     pxCurrentTCB k' = (if takes_over k p then Some t else pxCurrentTCB k) \<and>
     port_yield k' = (port_yield k \<or> preempts k p) \<and>
     listLIST_IS_EMPTY 7 (lists k') = (T = {} \<or> listLIST_IS_EMPTY 7 (lists k)) \<and>
     xSchedulerRunning k' = xSchedulerRunning k \<and> xTickCount k' = xTickCount k \<and> xPendedTicks k' = xPendedTicks k \<and>
     xYieldPending k' = xYieldPending k \<and> uxSchedulerSuspended k' = uxSchedulerSuspended k"

text \<open>The kernel just before the new task enters its ready list.\<close>

definition prepared :: "nat set \<Rightarrow> nat set \<Rightarrow> nat \<Rightarrow> nat \<Rightarrow> u32 \<Rightarrow> u32 \<Rightarrow> kernel \<Rightarrow> kernel \<Rightarrow> bool" where
  "prepared E T t p stack sp k k' \<longleftrightarrow>
     (\<exists>L. struct_ok k' E (insert t T) L) \<and> time_ok k' T \<and> state_list k' t = None \<and> event_list k' t = None \<and>
     pxContainer (lists k') = pxContainer (lists k) \<and> uxCurrentNumberOfTasks k' = of_nat (Suc (card T)) \<and>
     fresh_tcb p stack sp (tcbs k' t) \<and> (\<forall>u \<in> T. tcbs k' u = tcbs k u) \<and>
     pxCurrentTCB k' = (if takes_over k p then Some t else pxCurrentTCB k) \<and> port_yield k' = port_yield k \<and>
     listLIST_IS_EMPTY 7 (lists k') = (T = {} \<or> listLIST_IS_EMPTY 7 (lists k)) \<and>
     xSchedulerRunning k' = xSchedulerRunning k \<and> xTickCount k' = xTickCount k \<and> xPendedTicks k' = xPendedTicks k \<and>
     xYieldPending k' = xYieldPending k \<and> uxSchedulerSuspended k' = uxSchedulerSuspended k"

definition with_block :: "nat \<Rightarrow> nat \<Rightarrow> tcb \<Rightarrow> kernel \<Rightarrow> kernel" where
  "with_block t p x k = k\<lparr>lists := lists (init_items t p (clear_tcb t k)), tcbs := (tcbs k)(t := x)\<rparr>"

definition numbered :: "nat \<Rightarrow> kernel \<Rightarrow> kernel" where
  "numbered t k = upd_tcb t (uxTCBNumber_update (\<lambda>_. uxTaskNumber k + 1)) (k\<lparr>uxTaskNumber := uxTaskNumber k + 1\<rparr>)"

lemma first_task_prepared:
  assumes k: "creating k E {}" and t: "t \<noteq> 0" and p: "p < 5" and x: "fresh_tcb p stack sp x"
  defines "k1 \<equiv> with_block t p x k"
  shows "prepared E {} t p stack sp k (numbered t (prvInitialiseTaskLists (k1\<lparr>uxCurrentNumberOfTasks := 1, pxCurrentTCB := Some t\<rparr>)))"
proof -
  let ?k2 = "prvInitialiseTaskLists (k1\<lparr>uxCurrentNumberOfTasks := 1, pxCurrentTCB := Some t\<rparr>)"
  note c = k[unfolded creating_def, simplified]
  have l: "lists_ok (lists k) E {} (\<lambda>_. [])" using c by simp
  note n = new_items_ok[OF l, where t = t and p = p, simplified, OF t[simplified]]
  note i = init_lists_ok[OF n(1), of "[0, 1, 2, 3, 4, 5, 6, 7, 8, 9]"]
  have d: "set [0, 1, 2, 3, 4, 5, 6, 7, 8, 9::nat] \<union> E = kernel_lists E" by auto
  have h: "lists_ok (lists (numbered t ?k2)) (kernel_lists E) {t} (\<lambda>_. [])" "pxContainer (lists (numbered t ?k2)) = pxContainer (lists k)"
    using i n(2) unfolding d by (simp_all add: numbered_def upd_tcb_def prvInitialiseTaskLists_eq k1_def with_block_def del: fold_simps)
  have cn: "pxContainer (lists k) y = None" for y using l by (auto simp: lists_ok_def)
  have "struct_ok (numbered t ?k2) E {t} (\<lambda>_. [])"
    using h(1) c p x cn unfolding struct_ok_def sched_ok_def h(2)
    by (simp add: sorted_ok_def numbered_def upd_tcb_def prvInitialiseTaskLists_eq k1_def with_block_def fresh_tcb_def del: fold_simps)
  moreover have "listLIST_IS_EMPTY 7 (lists (numbered t ?k2))" using list_is_empty_iff[OF h(1), of 7] by simp
  ultimately show ?thesis
    using c x cn unfolding prepared_def h(2)
    by (auto simp: time_ok_def takes_over_def numbered_def upd_tcb_def prvInitialiseTaskLists_eq k1_def with_block_def fresh_tcb_def
        simp del: fold_simps)
qed

lemma later_task_prepared:
  assumes k: "creating k E T" "T \<noteq> {}" and t: "t \<noteq> 0" "t \<notin> T" and p: "p < 5" and x: "fresh_tcb p stack sp x" and n: "Suc (card T) < 2 ^ 31"
  defines "k1 \<equiv> with_block t p x k"
  shows "prepared E T t p stack sp k (numbered t (k1\<lparr>uxCurrentNumberOfTasks := uxCurrentNumberOfTasks k + 1,
    pxCurrentTCB := if takes_over k p then Some t else pxCurrentTCB k\<rparr>))"
proof -
  define k2 where "k2 = numbered t (k1\<lparr>uxCurrentNumberOfTasks := uxCurrentNumberOfTasks k + 1,
    pxCurrentTCB := if takes_over k p then Some t else pxCurrentTCB k\<rparr>)"
  note c = k(1)[unfolded creating_def, simplified k(2), simplified]
  obtain L where ok: "struct_ok k E T L" and ti: "time_ok k T" using c by (auto simp: kernel_ok_def)
  note s = struct_okD[OF ok]
  note i = new_items_ok[OF s(1) t(2,1) n, where p = p]
  have cn: "state_list k t = None" "event_list k t = None" using lists_ok_container_None[OF s(1) t(2)] by auto
  have f: "lists k2 = lists (init_items t p (clear_tcb t k))" "pxDelayedTaskList k2 = pxDelayedTaskList k"
    "pxOverflowDelayedTaskList k2 = pxOverflowDelayedTaskList k" "uxTopReadyPriority k2 = uxTopReadyPriority k"
    "xTickCount k2 = xTickCount k" "xNextTaskUnblockTime k2 = xNextTaskUnblockTime k"
    "pxCurrentTCB k2 = (if takes_over k p then Some t else pxCurrentTCB k)" "\<And>u. u \<noteq> t \<Longrightarrow> tcbs k2 u = tcbs k u"
    "fresh_tcb p stack sp (tcbs k2 t)" "uxCurrentNumberOfTasks k2 = uxCurrentNumberOfTasks k + 1" "port_yield k2 = port_yield k"
    "xSchedulerRunning k2 = xSchedulerRunning k" "xPendedTicks k2 = xPendedTicks k" "xYieldPending k2 = xYieldPending k"
    "uxSchedulerSuspended k2 = uxSchedulerSuspended k"
    using x by (simp_all add: numbered_def upd_tcb_def k2_def k1_def with_block_def fresh_tcb_def)
  note l = i[folded f(1)]
  have tn: "u \<in> T \<Longrightarrow> u \<noteq> t" for u using t by auto
  have v: "map (xItemValue (lists k2)) (L l) = map (xItemValue (lists k)) (L l)" if "l < 10" for l
  proof (rule map_cong[OF refl])
    fix y assume "y \<in> set (L l)"
    then have "y \<in> task_items T" using lists_okD(5)[OF s(1), of l] that by auto
    then have "y \<notin> task_items {t}" using t(2) by (auto simp: task_items_def)
    then show "xItemValue (lists k2) y = xItemValue (lists k) y" by (rule l(3))
  qed
  have so: "sorted_ok k2 L" using s(2) unfolding sorted_ok_def by (subst (1 2) v) simp_all
  have pt: "prio k2 t = p" using f(9) by (simp add: fresh_tcb_def)
  have sc: "sched_ok k2 E (insert t T)"
    using s(3) p cn pt tn f(8) unfolding sched_ok_def l(2) f(2-7) by (cases "takes_over k p") simp_all
  have w: "wake_time k2 u = wake_time k u" if "u \<in> T" for u using tn[OF that] by (intro l(3)) (simp add: task_items_def)
  have "time_ok k2 T" using ti w unfolding time_ok_def l(2) f(2-6) by simp
  moreover have "listLIST_IS_EMPTY 7 (lists k2) \<longleftrightarrow> listLIST_IS_EMPTY 7 (lists k)"
    using list_is_empty_iff[OF l(1), of 7] list_is_empty_iff[OF s(1), of 7] by simp
  moreover have "struct_ok k2 E (insert t T) L" using l(1) so sc by (simp add: struct_ok_def)
  ultimately have "prepared E T t p stack sp k k2"
    using c cn f(8-) tn k(2) unfolding prepared_def l(2) f(5,7) by auto
  then show ?thesis by (simp only: k2_def)
qed

definition enter_ready :: "nat \<Rightarrow> kernel \<Rightarrow> kernel res" where
  "enter_ready t k =
     (let k = prvAddTaskToReadyList t k
      in if xSchedulerRunning k
         then res_bind (current_priority k) (\<lambda>cp. Inr (if cp < uxPriority (tcbs k t) then portYIELD_WITHIN_API k else k))
         else Inr k)"

lemma add_new_unfold:
  "prvAddNewTaskToReadyList t k =
     (let k = k\<lparr>uxCurrentNumberOfTasks := uxCurrentNumberOfTasks k + 1\<rparr> in
      enter_ready t (numbered t
        (case pxCurrentTCB k of
           None \<Rightarrow>
             (let k = k\<lparr>pxCurrentTCB := Some t\<rparr>
              in (if uxCurrentNumberOfTasks k = 1 then prvInitialiseTaskLists k else k))
         | Some c \<Rightarrow>
             (if \<not> xSchedulerRunning k \<and> uxPriority (tcbs k c) \<le> uxPriority (tcbs k t)
              then k\<lparr>pxCurrentTCB := Some t\<rparr> else k))))"
proof -
  have "(\<lambda>k. let k = k\<lparr>uxTaskNumber := uxTaskNumber k + 1\<rparr>;
                 k = upd_tcb t (uxTCBNumber_update (\<lambda>_. uxTaskNumber k)) k;
                 k = prvAddTaskToReadyList t k
           in if xSchedulerRunning k
              then res_bind (current_priority k) (\<lambda>cp.
                Inr (if cp < uxPriority (tcbs k t) then portYIELD_WITHIN_API k else k))
              else Inr k) = (\<lambda>k. enter_ready t (numbered t k))"
    unfolding enter_ready_def numbered_def Let_def by (simp cong: if_cong)
  then show ?thesis unfolding prvAddNewTaskToReadyList_def by (simp add: Let_def split: option.split)
qed

lemma add_new_first:
  assumes "pxCurrentTCB k = None" "uxCurrentNumberOfTasks k = 0"
  shows "prvAddNewTaskToReadyList t (with_block t p x k) =
    enter_ready t (numbered t (prvInitialiseTaskLists ((with_block t p x k)\<lparr>uxCurrentNumberOfTasks := 1, pxCurrentTCB := Some t\<rparr>)))"
  using assms by (simp add: add_new_unfold with_block_def Let_def)

lemma add_new_later:
  assumes "pxCurrentTCB k = Some c" "uxPriority x = p" "c \<noteq> t"
  shows "prvAddNewTaskToReadyList t (with_block t p x k) =
    enter_ready t (numbered t ((with_block t p x k)\<lparr>uxCurrentNumberOfTasks := uxCurrentNumberOfTasks k + 1,
      pxCurrentTCB := if takes_over k p then Some t else pxCurrentTCB k\<rparr>))"
proof -
  have t: "takes_over k p \<longleftrightarrow> \<not> xSchedulerRunning k \<and> prio k c \<le> p" using assms(1) by (simp add: takes_over_def)
  have same: "pxCurrentTCB k' = Some c \<Longrightarrow> k'\<lparr>pxCurrentTCB := Some c\<rparr> = k'" for k' :: kernel by simp
  let ?k1 = "(with_block t p x k)\<lparr>uxCurrentNumberOfTasks := uxCurrentNumberOfTasks k + 1\<rparr>"
  have "prvAddNewTaskToReadyList t (with_block t p x k) = enter_ready t (numbered t (if takes_over k p then ?k1\<lparr>pxCurrentTCB := Some t\<rparr> else ?k1))"
    using assms unfolding t by (simp add: add_new_unfold with_block_def Let_def)
  also have "(if takes_over k p then ?k1\<lparr>pxCurrentTCB := Some t\<rparr> else ?k1) =
    ?k1\<lparr>pxCurrentTCB := if takes_over k p then Some t else pxCurrentTCB k\<rparr>"
    using same[of ?k1] assms(1) by (simp add: with_block_def)
  finally show ?thesis .
qed

lemma prepared_added:
  assumes k: "prepared E T t p stack sp k k2" and t: "t \<notin> T" "finite T" and c: "pxCurrentTCB k = None \<and> \<not> xSchedulerRunning k \<or> (\<exists>c \<in> T. pxCurrentTCB k = Some c)"
  shows "\<exists>k'. enter_ready t k2 = Inr k' \<and> task_added E T t p stack sp k k'"
proof -
  have st: "state_list k2 t = None" "time_ok k2 T" and ev: "event_list k2 t = None" and pc: "pxContainer (lists k2) = pxContainer (lists k)"
    and fr: "fresh_tcb p stack sp (tcbs k2 t)" "uxCurrentNumberOfTasks k2 = of_nat (Suc (card T))" "\<forall>u \<in> T. tcbs k2 u = tcbs k u"
    and cu: "pxCurrentTCB k2 = (if takes_over k p then Some t else pxCurrentTCB k)"
    and fl: "port_yield k2 = port_yield k" "listLIST_IS_EMPTY 7 (lists k2) = (T = {} \<or> listLIST_IS_EMPTY 7 (lists k))"
      "xSchedulerRunning k2 = xSchedulerRunning k" "xTickCount k2 = xTickCount k" "xPendedTicks k2 = xPendedTicks k"
      "xYieldPending k2 = xYieldPending k" "uxSchedulerSuspended k2 = uxSchedulerSuspended k"
    using k unfolding prepared_def by blast+
  obtain L where ok: "struct_ok k2 E (insert t T) L" using k unfolding prepared_def by blast
  obtain h u L' where a: "prvAddTaskToReadyList t k2 = k2\<lparr>lists := h, uxTopReadyPriority := u\<rparr>"
    "struct_ok (k2\<lparr>lists := h, uxTopReadyPriority := u\<rparr>) E (insert t T) L'" "\<forall>l. l \<ge> 5 \<longrightarrow> L' l = L l"
    "pxContainer h = (pxContainer (lists k2))(xStateListItem t := Some (prio k2 t))" "xItemValue h = xItemValue (lists k2)"
    using add_ready_kernel[OF ok insertI1 st(1)] by blast
  let ?k3 = "k2\<lparr>lists := h, uxTopReadyPriority := u\<rparr>"
  let ?k4 = "?k3\<lparr>port_yield := port_yield k \<or> preempts k p\<rparr>"
  have p: "prio k2 t = p" "p < 5" using fr(1) sched_okD(4)[OF struct_okD(3)[OF ok] insertI1] by (auto simp: fresh_tcb_def)
  have "time_ok ?k3 (insert t T)"
    using st(2) sched_okD(1,2)[OF struct_okD(3)[OF ok]] p t(1) by (auto simp: time_ok_def a(4,5))
  then have k3: "kernel_ok ?k3 E (insert t T)" using a(2) by (auto simp: kernel_ok_def)
  have e7: "listLIST_IS_EMPTY 7 h = listLIST_IS_EMPTY 7 (lists k2)"
    using list_is_empty_iff[OF struct_okD(1)[OF a(2)], of 7] list_is_empty_iff[OF struct_okD(1)[OF ok], of 7] a(3) by simp
  have tn: "u \<in> T \<Longrightarrow> u \<noteq> t" for u using t by auto
  have "creating ?k4 E (insert t T)"
    using kernel_ok_simp_fields(2)[OF k3] fr(2) t by (simp add: creating_def)
  then have "task_added E T t p stack sp k ?k4"
    using fr ev pc fl t(1) p e7 tn cu unfolding task_added_def by (simp add: a(4) ready_def)
  moreover have "enter_ready t k2 = Inr ?k4"
  proof (cases "xSchedulerRunning k")
    case True
    with c obtain c' where c': "c' \<in> T" "pxCurrentTCB k = Some c'" by auto
    with True fl(1,3) fr(3) cu tn p show ?thesis
      by (simp add: enter_ready_def a(1) current_priority_def current_def takes_over_def preempts_def portYIELD_WITHIN_API_def Let_def)
  qed (use fl(1,3) in \<open>simp add: enter_ready_def a(1) preempts_def\<close>)
  ultimately show ?thesis by blast
qed

text \<open>Adding a task from either state, before the first creation or after it.\<close>

lemma add_new_task:
  assumes k: "creating k E T" and t: "t \<noteq> 0" "t \<notin> T" and p: "p < 5" and x: "fresh_tcb p stack sp x" and n: "Suc (card T) < 2 ^ 31"
  shows "\<exists>k'. prvAddNewTaskToReadyList t (with_block t p x k) = Inr k' \<and> task_added E T t p stack sp k k'"
proof (cases "T = {}")
  case True
  then have c: "pxCurrentTCB k = None" "uxCurrentNumberOfTasks k = 0" "\<not> xSchedulerRunning k" using k by (auto simp: creating_def)
  show ?thesis unfolding add_new_first[OF c(1,2)]
    by (rule prepared_added) (use first_task_prepared[of k E t p stack sp x] k t p x True c in auto)
next
  case False
  then have ok: "kernel_ok k E T" "finite T" using k by (auto simp: creating_def)
  obtain c where c: "c \<in> T" "pxCurrentTCB k = Some c" using kernel_ok_sched[OF ok(1)] by (auto simp: sched_ok_def)
  have "uxPriority x = p" "c \<noteq> t" using x t c by (auto simp: fresh_tcb_def)
  from add_new_later[OF c(2) this] show ?thesis
    using prepared_added[OF later_task_prepared[OF k False t p x n] t(2) ok(2)] c by auto
qed

text \<open>
  The system between two creations. Control blocks and event lists lie inside the part of the heap that is
  handed out already.
\<close>

definition heap_end :: "image \<Rightarrow> sys \<Rightarrow> nat" where
  "heap_end img s = unat (heap_base (ucHeap img)) + unat (xNextFreeByte (heap s))"

definition creation_ok :: "image \<Rightarrow> nat set \<Rightarrow> nat set \<Rightarrow> sys \<Rightarrow> bool" where
  "creation_ok img E T s \<longleftrightarrow>
     heap_placed (ucHeap img) \<and> heap_inv (ucHeap img) (heap s) \<and> quiet (kern s) \<and> creating (kern s) E T \<and>
     T \<subseteq> {unat (heap_base (ucHeap img)) ..< heap_end img s} \<and> (\<forall>l \<in> E. l < 10 + 2 * heap_end img s)"

lemma creation_ok_heap:
  "creation_ok img E T s \<Longrightarrow> heap_inv (ucHeap img) h \<Longrightarrow> xNextFreeByte h \<ge> xNextFreeByte (heap s) \<Longrightarrow> creation_ok img E T (s\<lparr>heap := h\<rparr>)"
  by (auto simp: creation_ok_def heap_end_def word_le_nat_alt)

lemma creation_ok_card:
  assumes "creation_ok img E T s"
  shows "Suc (card T) < 2 ^ 31"
proof -
  have "card T \<le> unat (xNextFreeByte (heap s))"
    using card_mono[of "{unat (heap_base (ucHeap img)) ..< heap_end img s}" T] assms by (simp add: creation_ok_def heap_end_def)
  then show ?thesis using assms by (simp add: creation_ok_def heap_inv_def)
qed

lemma task_added_quiet:
  assumes "task_added E T t p stack sp k k'" "quiet k" "creating k E T" "Suc (card T) < 2 ^ 31"
  shows "quiet k'"
proof (cases "T = {}")
  case False
  then have "card T > 0" "unat (of_nat (card T) :: u32) = card T" using assms(3,4) by (auto simp: creating_def card_gt_0_iff unat_of_nat)
  then have "uxCurrentNumberOfTasks k > 0" using assms(3) by (simp add: creating_def word_less_nat_alt)
  then show ?thesis using assms(1,2) by (simp add: quiet_def task_added_def xPendingReadyList_def)
qed (use assms(1,2) in \<open>simp add: quiet_def task_added_def xPendingReadyList_def\<close>)

lemma with_block_kern:
  "k\<lparr>lists := lists (init_items t p (clear_tcb t k)), tcbs := (tcbs k)(t := x)\<rparr> = with_block t p x k"
  by (simp add: with_block_def)

lemma stack_bytes: "unat (ucast (d :: 16 word) * 4 :: u32) = 4 * unat d"
proof -
  have d: "unat d < 2 ^ LENGTH(16)" by (rule unsigned_less)
  then have e: "unat (ucast d :: u32) = unat d" by (simp add: unsigned_ucast_eq take_bit_nat_eq_self_iff)
  have "unat (ucast d :: u32) * unat (4 :: u32) < 2 ^ LENGTH(32)" using d unfolding e by simp
  then show ?thesis using unat_mult_lem[of "ucast d :: u32" 4] e by simp
qed

lemma create_ok:
  fixes depth :: "16 word"
  assumes ok: "creation_ok img E T s" and p: "p < configMAX_PRIORITIES" and d: "depth \<noteq> 0"
    and room: "unat (xNextFreeByte (heap s)) + rounded (ucast depth * 4) + 88 < 8184"
  shows "\<exists>t stack sp s'. xTaskCreate img code name depth param p s = Inr ((pdPASS, t), s') \<and> t \<noteq> 0 \<and>
    unat stack = heap_end img s \<and> unat t = heap_end img s + rounded (ucast depth * 4) \<and>
    heap_end img s' = heap_end img s + rounded (ucast depth * 4) + 88 \<and>
    creation_ok img E (insert (unat t) T) s' \<and> task_added E T (unat t) p stack sp (kern s) (kern s') \<and>
    entry_frame img code param sp s' \<and>
    queues s' = queues s \<and> xQueueRegistry s' = xQueueRegistry s"
proof -
  note c = ok[unfolded creation_ok_def]
  let ?w = "ucast depth * 4 :: u32" and ?u = "ucHeap img"
  obtain stack h1 where m1: "pvPortMalloc ?u ?w (heap s) = (stack, h1)" by force
  obtain t h2 where m2: "pvPortMalloc ?u sizeof_TCB h1 = (t, h2)" by force
  have "unat depth < 2 ^ LENGTH(16)" by (rule unsigned_less)
  then have w: "unat ?w + 8 < 2 ^ 31" "?w \<noteq> 0" using stack_bytes[of depth] d by (simp_all add: unat_eq_zero flip: unat_eq_zero)
  note o1 = malloc_outcome[OF _ _ w(1) m1]
  have f1: "stack \<noteq> 0" "unat stack = heap_end img s" "heap_inv ?u h1" "unat (xNextFreeByte h1) = unat (xNextFreeByte (heap s)) + rounded ?w"
    using o1(1,3) c w(2) room by (auto simp: heap_end_def)
  have f2: "t \<noteq> 0" "unat t = heap_end img s + rounded ?w" "heap_inv ?u h2" "unat (xNextFreeByte h2) = unat (xNextFreeByte (heap s)) + rounded ?w + 88"
    using malloc_outcome[OF _ f1(3) _ m2] c f1(4) room by (auto simp: heap_end_def sizeof_TCB_def rounded_def)
  let ?t = "unat t"
  let ?s1 = "s\<lparr>heap := h2, kern := upd_tcb ?t (pxStack_update (\<lambda>_. stack)) (clear_tcb ?t (kern s))\<rparr>"
  obtain x r where i: "prvInitialiseNewTask img code name (ucast depth) param p ?t ?s1 =
      Inr (?s1\<lparr>ram := r, kern := with_block ?t p x (kern s)\<rparr>)" and x: "fresh_tcb p stack (pxTopOfStack x) x"
      and fr: "entry_frame img code param (pxTopOfStack x) (?s1\<lparr>ram := r\<rparr>)"
    using init_task_ok[OF p, of ?s1 ?t stack "kern s" img code name "ucast depth" param] unfolding with_block_kern by auto
  have t: "?t \<noteq> 0" "?t \<notin> T" using f2(1) c unfolding f2(2)[symmetric] by (simp_all add: unat_eq_zero) (auto simp: f2(2))
  note n = creation_ok_card[OF ok]
  obtain k' where k': "prvAddNewTaskToReadyList ?t (with_block ?t p x (kern s)) = Inr k'" "task_added E T ?t p stack (pxTopOfStack x) (kern s) k'"
    using add_new_task[OF _ t _ x n, of "kern s" E] c p by (auto simp: configMAX_PRIORITIES_def)
  let ?s' = "s\<lparr>heap := h2, ram := r, kern := k'\<rparr>"
  have "xTaskCreate img code name depth param p s = Inr ((pdPASS, t), ?s')"
    using f1(1) f2(1) i k'(1) c m1 m2
    by (simp add: xTaskCreate_def heap_alloc_quiet on_kern_def kernel_do_def)
  moreover have "creation_ok img E (insert ?t T) ?s'"
    using c f2 task_added_quiet[OF k'(2) _ _ n] k'(2) unfolding creation_ok_def
    by (auto simp: heap_end_def task_added_def)
  moreover have "entry_frame img code param (pxTopOfStack x) ?s'"
    using fr entry_frame_ram[where s = ?s' and s' = "?s1\<lparr>ram := r\<rparr>"] by simp
  ultimately show ?thesis using f1 f2 k'(2) by (intro exI conjI) (assumption | simp add: heap_end_def)+
qed

lemma create_without_memory:
  fixes depth :: "16 word"
  assumes ok: "creation_ok img E T s"
  defines "n \<equiv> unat (xNextFreeByte (heap s)) + rounded (ucast depth * 4)"
  shows "depth = 0 \<or> n \<ge> 8184 \<Longrightarrow> \<exists>h. xTaskCreate img code name depth param p s =
      Inr ((errCOULD_NOT_ALLOCATE_REQUIRED_MEMORY, 0), s\<lparr>heap := h\<rparr>) \<and>
      xNextFreeByte h = xNextFreeByte (heap s) \<and> creation_ok img E T (s\<lparr>heap := h\<rparr>)"
    and "depth \<noteq> 0 \<Longrightarrow> n < 8184 \<Longrightarrow> n + 88 \<ge> 8184 \<Longrightarrow> xTaskCreate img code name depth param p s = Inl AssertionFailed"
proof -
  note c = ok[unfolded creation_ok_def]
  let ?w = "ucast depth * 4 :: u32" and ?u = "ucHeap img"
  obtain stack h1 where m1: "pvPortMalloc ?u ?w (heap s) = (stack, h1)" by force
  obtain t h2 where m2: "pvPortMalloc ?u sizeof_TCB h1 = (t, h2)" by force
  have "unat depth < 2 ^ LENGTH(16)" by (rule unsigned_less)
  then have w: "unat ?w + 8 < 2 ^ 31" "?w = 0 \<longleftrightarrow> depth = 0" using stack_bytes[of depth] by (simp_all flip: unat_eq_zero)
  note o1 = malloc_outcome[OF _ _ w(1) m1]
  have i1: "heap_inv ?u h1" using o1(1) c by simp
  show "\<exists>h. xTaskCreate img code name depth param p s =
      Inr ((errCOULD_NOT_ALLOCATE_REQUIRED_MEMORY, 0), s\<lparr>heap := h\<rparr>) \<and>
      xNextFreeByte h = xNextFreeByte (heap s) \<and> creation_ok img E T (s\<lparr>heap := h\<rparr>)"
    if "depth = 0 \<or> n \<ge> 8184"
  proof -
    have z: "stack = 0" "xNextFreeByte h1 = xNextFreeByte (heap s)" using o1(2) c w(2) that by (auto simp: n_def)
    then have "xTaskCreate img code name depth param p s = Inr ((errCOULD_NOT_ALLOCATE_REQUIRED_MEMORY, 0), s\<lparr>heap := h1\<rparr>)"
      using c m1 by (simp add: xTaskCreate_def heap_alloc_quiet)
    moreover have "creation_ok img E T (s\<lparr>heap := h1\<rparr>)" using creation_ok_heap[OF ok i1] z(2) by simp
    ultimately show ?thesis using z(2) by blast
  qed
  assume d: "depth \<noteq> 0" "n < 8184" "n + 88 \<ge> 8184"
  have f1: "stack \<noteq> 0" "unat (xNextFreeByte h1) = n" using o1(3) c w(2) d by (auto simp: n_def)
  have "t = 0" using malloc_outcome(2)[OF _ i1 _ m2] c f1(2) d(3) by (simp add: sizeof_TCB_def rounded_def)
  then show "xTaskCreate img code name depth param p s = Inl AssertionFailed"
    using c m1 m2 f1(1) by (simp add: xTaskCreate_def heap_alloc_quiet vPortFree_def assert_that_def)
qed

text \<open>The static variables of the kernel as the startup code leaves them; no item is in a list.\<close>

definition kernel_reset :: "list_heap \<Rightarrow> (nat \<Rightarrow> tcb) \<Rightarrow> kernel" where
  "kernel_reset h b = \<lparr>lists = h, tcbs = b, pxCurrentTCB = None, pxDelayedTaskList = 0, pxOverflowDelayedTaskList = 0,
     uxDeletedTasksWaitingCleanUp = 0, uxCurrentNumberOfTasks = 0, xTickCount = 0, uxTopReadyPriority = tskIDLE_PRIORITY,
     xSchedulerRunning = False, xPendedTicks = 0, xYieldPending = False, xNumOfOverflows = 0, uxTaskNumber = 0,
     xNextTaskUnblockTime = 0, uxSchedulerSuspended = 0, port_yield = False\<rparr>"

definition sys_reset :: "list_heap \<Rightarrow> (nat \<Rightarrow> tcb) \<Rightarrow> (u32 \<Rightarrow> queue) \<Rightarrow> (u32 \<Rightarrow> u8) \<Rightarrow> sys" where
  "sys_reset h b qs r = \<lparr>kern = kernel_reset h b, queues = qs, ram = r, heap = heap_cleared,
     xQueueRegistry = replicate configQUEUE_REGISTRY_SIZE \<lparr>pcQueueName = 0, xHandle = 0\<rparr>\<rparr>"

lemma reset_creation_ok:
  assumes "heap_placed (ucHeap img)" "pxContainer h = (\<lambda>_. None)"
  shows "creation_ok img {} {} (sys_reset h b qs r)"
  using assms by (simp add: creation_ok_def sys_reset_def kernel_reset_def heap_cleared_def heap_inv_def quiet_def creating_def
      lists_ok_def heap_lists_def tskIDLE_PRIORITY_def)


definition sample_image :: image where
  "sample_image = \<lparr>ucHeap = 0x20400004, prvTaskExitError = 0x401001, prvIdleTask = 0x401101, configIDLE_TASK_NAME = 0x402000,
     prvTimerTask = 0x401201, configTIMER_SERVICE_TASK_NAME = 0x402010, timer_queue_name = 0x402020\<rparr>"

definition sample_lists :: list_heap where
  "sample_lists = \<lparr>xItemValue = \<lambda>_. 0, pxNext = id, pxPrevious = id, pvOwner = \<lambda>_. 0, pxContainer = \<lambda>_. None,
     uxNumberOfItems = \<lambda>_. 0, pxIndex = ListEnd\<rparr>"

definition sample_reset :: sys where
  "sample_reset = sys_reset sample_lists
     (\<lambda>_. \<lparr>pxTopOfStack = 0, uxPriority = 0, pxStack = 0, pcTaskName = [], uxTCBNumber = 0, uxBasePriority = 0, uxMutexesHeld = 0,
        ulNotifiedValue = 0, ucNotifyState = taskNOT_WAITING_NOTIFICATION, ucDelayAborted = False\<rparr>)
     (\<lambda>_. \<lparr>pcHead = 0, pcWriteTo = 0, u_word0 = 0, u_word1 = 0, uxMessagesWaiting = 0, uxLength = 0, uxItemSize = 0,
        cRxLock = 0, cTxLock = 0, uxQueueNumber = 0, ucQueueType = 0\<rparr>) (\<lambda>_. 0)"

lemma sample_creation_ok: "creation_ok sample_image {} {} sample_reset"
  unfolding sample_reset_def by (rule reset_creation_ok) (simp_all add: sample_image_def sample_lists_def heap_placed_def)

lemma sample_numbers:
  "unat (xNextFreeByte (heap sample_reset)) = 0" "heap_end sample_image sample_reset = 0x20400008"
  "rounded (ucast (300 :: 16 word) * 4) = 1200" "rounded (ucast (2030 :: 16 word) * 4) = 8120" "rounded (ucast (2100 :: 16 word) * 4) = 8400"
  by (simp_all add: sample_reset_def sys_reset_def heap_cleared_def heap_end_def sample_image_def heap_base_def rounded_def)


end
