(* ===== verification/Rtos_Start.thy ===== *)
theory Rtos_Start
  imports Rtos_Boot
begin

section \<open>The start of the demo\<close>

text \<open>
  Creating a queue extends the scheduler's invariant by its two event lists. With the creation of tasks this
  carries the kernel calls of the demo's \<open>main\<close> from cleared memory to the running scheduler.
\<close>

subsection \<open>Creating a queue\<close>

lemma new_list_ok:
  assumes ok: "lists_ok h D T L" and l: "l \<notin> D"
  shows "lists_ok (vListInitialise l h) (insert l D) T (L(l := []))" "pxContainer (vListInitialise l h) = pxContainer h"
proof -
  have hl: "heap_lists (vListInitialise l h) (insert l D) (L(l := []))" by (rule vListInitialise_lists[OF lists_okD(1)[OF ok]])
  show c: "pxContainer (vListInitialise l h) = pxContainer h" by (simp add: vListInitialise_def heap_ops Let_def)
  have "pvOwner (vListInitialise l h) = pvOwner h" by (simp add: vListInitialise_def heap_ops Let_def)
  with hl c l ok show "lists_ok (vListInitialise l h) (insert l D) T (L(l := []))"
    unfolding lists_ok_def by (metis (no_types, lifting) empty_set empty_subsetI fun_upd_apply insert_iff)
qed

definition with_list :: "nat \<Rightarrow> kernel \<Rightarrow> kernel" where
  "with_list l k = k\<lparr>lists := vListInitialise l (lists k)\<rparr>"

lemma with_list_fields [simp]:
  "tcbs (with_list l k) = tcbs k" "pxContainer (lists (with_list l k)) = pxContainer (lists k)"
  "pxCurrentTCB (with_list l k) = pxCurrentTCB k" "xSchedulerRunning (with_list l k) = xSchedulerRunning k"
  by (simp_all add: with_list_def vListInitialise_def heap_ops Let_def)

lemma with_list_kernel:
  assumes ok: "kernel_ok k E T" and l: "l \<ge> 10" "l \<notin> E"
  shows "kernel_ok (with_list l k) (insert l E) T"
proof -
  obtain L where s: "struct_ok k E T L" and t: "time_ok k T" using ok by (auto simp: kernel_ok_def)
  note d = struct_okD[OF s]
  have n: "l \<notin> kernel_lists E" using l by simp
  have li: "lists_ok (lists (with_list l k)) (kernel_lists (insert l E)) T (L(l := []))"
    using new_list_ok(1)[OF d(1) n] by (simp add: with_list_def)
  have v: "xItemValue (lists (with_list l k)) y = xItemValue (lists k) y" if "y \<noteq> ListEnd l" for y
    using that by (simp add: with_list_def vListInitialise_def heap_ops Let_def)
  have m: "map (xItemValue (lists (with_list l k))) (L i) = map (xItemValue (lists k)) (L i)" if "i < 10" for i
  proof (rule map_cong[OF refl])
    fix y assume "y \<in> set (L i)"
    then have "y \<in> task_items T" using lists_okD(5)[OF d(1), of i] that by auto
    then show "xItemValue (lists (with_list l k)) y = xItemValue (lists k) y" by (intro v) (auto simp: task_items_def xStateListItem_def xEventListItem_def)
  qed
  have "(L(l := [])) 5 = L 5" "(L(l := [])) 6 = L 6" using l(1) by simp_all
  then have so: "sorted_ok (with_list l k) (L(l := []))" using d(2) unfolding sorted_ok_def by (simp only:) (subst (1 2) m, simp_all)
  have sc: "sched_ok (with_list l k) (insert l E) T" using d(3) l(1) unfolding sched_ok_def with_list_fields
    by (auto simp: with_list_def)
  have "time_ok (with_list l k) T" using t v unfolding time_ok_def with_list_fields by (simp add: with_list_def)
  with li so sc show ?thesis by (auto simp: kernel_ok_def struct_ok_def)
qed

lemma with_list_creating:
  assumes ok: "creating k E T" and l: "l \<ge> 10" "l \<notin> E"
  shows "creating (with_list l k) (insert l E) T"
proof (cases "T = {}")
  case True
  then have c: "lists_ok (lists k) E {} (\<lambda>_. [])" using ok by (simp add: creating_def)
  from init_list_ok(1)[OF c, of l] True ok l show ?thesis by (auto simp: creating_def with_list_def)
qed (use with_list_kernel[OF _ l] ok in \<open>auto simp: creating_def with_list_def\<close>)

lemma with_list_quiet: "quiet k \<Longrightarrow> l \<noteq> 7 \<Longrightarrow> quiet (with_list l k)"
  by (simp add: quiet_def with_list_def vListInitialise_def heap_ops listLIST_IS_EMPTY_def xPendingReadyList_def Let_def)

lemma queue_create_ok:
  assumes ok: "creation_ok img E T s" and len: "len > 0" "(- 1) div len \<ge> isz" "(- 1) - sizeof_Queue \<ge> len * isz"
    and size: "unat (sizeof_Queue + len * isz) + 8 < 2 ^ 31" "sizeof_Queue + len * isz \<noteq> 0"
    and room: "unat (xNextFreeByte (heap s)) + rounded (sizeof_Queue + len * isz) < 8184"
  shows "\<exists>q s' Q. xQueueGenericCreate (ucHeap img) len isz ty s = Inr (q, s') \<and> q \<noteq> 0 \<and> unat q = heap_end img s \<and>
    heap_end img s' = heap_end img s + rounded (sizeof_Queue + len * isz) \<and>
    creation_ok img (insert (xTasksWaitingToSend q) (insert (xTasksWaitingToReceive q) E)) T s' \<and>
    kern s' = with_list (xTasksWaitingToReceive q) (with_list (xTasksWaitingToSend q) (kern s)) \<and>
    queues s' = (queues s)(q := Q) \<and> uxMessagesWaiting Q = 0 \<and> uxLength Q = len \<and> uxItemSize Q = isz \<and>
    pcHead Q = (if isz = 0 then q else q + sizeof_Queue)"
proof -
  note c = ok[unfolded creation_ok_def]
  let ?w = "sizeof_Queue + len * isz" and ?u = "ucHeap img"
  obtain q h where m: "pvPortMalloc ?u ?w (heap s) = (q, h)" by force
  note o = malloc_outcome[OF _ _ size(1) m]
  have f: "q \<noteq> 0" "unat q = heap_end img s" "heap_inv ?u h" "unat (xNextFreeByte h) = unat (xNextFreeByte (heap s)) + rounded ?w"
    using o(1,3) c size(2) room by (auto simp: heap_end_def)
  have r: "rounded ?w > 0" using size(2) unat_gt_0[of ?w] unfolding rounded_def by (simp add: div_greater_zero_iff)
  have l1: "1 \<le> len" using len(1) by (simp add: word_le_nat_alt word_less_nat_alt)
  let ?sl = "xTasksWaitingToSend q" and ?rl = "xTasksWaitingToReceive q"
  let ?k = "with_list ?rl (with_list ?sl (kern s))"
  obtain Q where e: "xQueueGenericCreate ?u len isz ty s = Inr (q, s\<lparr>heap := h, queues := (queues s)(q := Q), kern := ?k\<rparr>)"
    "uxMessagesWaiting Q = 0" "uxLength Q = len" "uxItemSize Q = isz" "pcHead Q = (if isz = 0 then q else q + sizeof_Queue)"
  proof (rule that)
    let ?Q = "(queues s q)\<lparr>pcHead := if isz = 0 then q else q + sizeof_Queue, uxLength := len, uxItemSize := isz,
      u_word0 := (if isz = 0 then q else q + sizeof_Queue) + len * isz, uxMessagesWaiting := 0, pcWriteTo := if isz = 0 then q else q + sizeof_Queue,
      u_word1 := (if isz = 0 then q else q + sizeof_Queue) + (len - 1) * isz, cRxLock := queueUNLOCKED, cTxLock := queueUNLOCKED, ucQueueType := ty\<rparr>"
    show "xQueueGenericCreate ?u len isz ty s = Inr (q, s\<lparr>heap := h, queues := (queues s)(q := ?Q), kern := ?k\<rparr>)"
      using c m f(1) len l1
      by (simp add: xQueueGenericCreate_def heap_alloc_quiet prvInitialiseNewQueue_def xQueueGenericReset_def assert_that_def upd_queue_def on_kern_def
          with_list_def word_gt_0 Let_def)
  qed simp_all
  have l: "?sl \<ge> 10" "?rl \<ge> 10" "?sl \<notin> E" "?rl \<notin> insert ?sl E" "?sl \<noteq> 7" "?rl \<noteq> 7"
    "?sl < 10 + 2 * (heap_end img s + rounded ?w)" "?rl < 10 + 2 * (heap_end img s + rounded ?w)"
    using f(2) c r by (auto simp: xTasksWaitingToSend_def xTasksWaitingToReceive_def)
  have "creating ?k (insert ?sl (insert ?rl E)) T"
    using with_list_creating[OF with_list_creating[OF _ l(1,3)] l(2,4)] c by (simp add: insert_commute)
  moreover have "quiet ?k" using with_list_quiet l(5,6) c by blast
  ultimately have "creation_ok img (insert ?sl (insert ?rl E)) T (s\<lparr>heap := h, queues := (queues s)(q := Q), kern := ?k\<rparr>)"
    using c f l(7,8) by (auto simp: creation_ok_def heap_end_def)
  with e f show ?thesis by (intro exI conjI) (assumption | simp add: heap_end_def)+
qed

subsection \<open>The kernel calls of \<open>main\<close>\<close>

definition main_TASK_PRIORITY :: nat where "main_TASK_PRIORITY = tskIDLE_PRIORITY + 2"

text \<open>
  From the semaphores to the scheduler; the task functions and the strings with their names are given by
  their addresses. The drivers are set up before and share no state with the kernel.
\<close>

definition start_demo ::
    "image \<Rightarrow> u32 \<Rightarrow> u32 \<Rightarrow> u32 \<Rightarrow> u32 \<Rightarrow> (u8 \<Rightarrow> u8) \<Rightarrow> port \<times> timers \<times> sys \<Rightarrow>
     ((u32 \<times> u32) \<times> thread option \<times> port \<times> timers \<times> sys) res" where
  "start_demo img SendTask send_name ReceiveTask rec_name keeps = (\<lambda>(p, m, s).
     res_bind (xSemaphoreCreateBinary (ucHeap img) s) (\<lambda>(consumer_go, s).
     res_bind (xSemaphoreCreateBinary (ucHeap img) s) (\<lambda>(producer_go, s).
     res_bind (xTaskCreate img SendTask send_name configMINIMAL_STACK_SIZE 0 main_TASK_PRIORITY s) (\<lambda>(_, s).
     res_bind (xTaskCreate img ReceiveTask rec_name configMINIMAL_STACK_SIZE 0 main_TASK_PRIORITY s) (\<lambda>(_, s).
     res_bind (xQueueGenericSend undisturbed producer_go 0 0 queueSEND_TO_BACK s) (\<lambda>(_, s).
     res_bind (vTaskStartScheduler img keeps (p, m, s)) (\<lambda>(r, p, m, s). Inr ((consumer_go, producer_go), r, p, m, s))))))))"

subsection \<open>Steps of the start\<close>

text \<open>What a step keeps of the tasks that exist already, and of a queue.\<close>

definition undisturbed_tasks :: "nat set \<Rightarrow> kernel \<Rightarrow> kernel \<Rightarrow> bool" where
  "undisturbed_tasks T k k' \<longleftrightarrow>
     (\<forall>u \<in> T. state_list k' u = state_list k u \<and> event_list k' u = event_list k u \<and> tcbs k' u = tcbs k u)"

lemma task_added_undisturbed: "task_added E T t p stack sp k k' \<Longrightarrow> undisturbed_tasks T k k'"
  by (simp add: task_added_def undisturbed_tasks_def)

lemma no_waiters:
  assumes ok: "kernel_ok k E T" and l: "l \<in> E" and n: "\<forall>t \<in> T. event_list k t = None"
  shows "listLIST_IS_EMPTY l (lists k)"
proof -
  obtain L where s: "struct_ok k E T L" using ok by (auto simp: kernel_ok_def)
  note d = struct_okD[OF s]
  have d': "l \<in> kernel_lists E" "l \<ge> 10" using l d(3) by (auto simp: sched_ok_def)
  have False if x: "x \<in> set (L l)" for x
  proof -
    have c: "pxContainer (lists k) x = Some l" using container_iff[OF d(1)] d'(1) x by simp
    have "x \<in> task_items T" using lists_okD(5)[OF d(1) d'(1)] x by auto
    then obtain t where "t \<in> T" "x = xStateListItem t \<or> x = xEventListItem t" by (auto simp: task_items_def)
    then show False using c n sched_okD(6)[OF d(3), of t l] d'(2) by auto
  qed
  then have "L l = []" by (metis list.set_intros(1) neq_Nil_conv)
  then show ?thesis using list_is_empty_iff[OF d(1) d'(1)] by simp
qed

lemma give_unwaited:
  assumes q: "q \<noteq> 0" "uxItemSize (queues s q) = 0" "pcHead (queues s q) \<noteq> queueQUEUE_IS_MUTEX"
    "uxMessagesWaiting (queues s q) < uxLength (queues s q)" and e: "listLIST_IS_EMPTY (xTasksWaitingToReceive q) (lists (kern s))"
  shows "xQueueGenericSend env q 0 0 queueSEND_TO_BACK s =
    Inr (True, upd_queue q (uxMessagesWaiting_update (\<lambda>_. uxMessagesWaiting (queues s q) + 1)) s)"
proof -
  have k: "kern (upd_queue q f s) = kern s" for f by (simp add: upd_queue_def)
  have "send_attempt q 0 queueSEND_TO_BACK 0 None s = Inr (Finished True, upd_queue q (uxMessagesWaiting_update (\<lambda>_. uxMessagesWaiting (queues s q) + 1)) s)"
    using q e by (simp add: send_attempt_def prvCopyDataToQueue_def k upd_queue_def Let_def)
  then show ?thesis using q by (simp add: xQueueGenericSend_def run_blocking_finished assert_that_def may_block_def)
qed

lemma registry_only: "q \<noteq> 0 \<Longrightarrow> \<exists>r. vQueueAddToRegistry q name s = Inr (s\<lparr>xQueueRegistry := r\<rparr>)"
proof -
  have "\<exists>r. s = s\<lparr>xQueueRegistry := r\<rparr>" by (rule exI[of _ "xQueueRegistry s"]) simp
  then show "q \<noteq> 0 \<Longrightarrow> ?thesis" unfolding vQueueAddToRegistry_def assert_that_def by (auto split: option.split)
qed

lemma creation_ok_other_fields:
  "creation_ok img E T (s\<lparr>xQueueRegistry := r\<rparr>) = creation_ok img E T s" "creation_ok img E T (upd_queue q f s) = creation_ok img E T s"
  "heap_end img (s\<lparr>xQueueRegistry := r\<rparr>) = heap_end img s" "heap_end img (upd_queue q f s) = heap_end img s"
  by (simp_all add: creation_ok_def heap_end_def upd_queue_def)

lemma scheduler_fields_ok:
  assumes "kernel_ok k E T" "\<forall>t \<in> T. ready k t"
  shows "kernel_ok (k\<lparr>xNextTaskUnblockTime := a, xSchedulerRunning := b, xTickCount := c\<rparr>) E T"
proof -
  obtain L where s: "struct_ok k E T L" using assms(1) by (auto simp: kernel_ok_def)
  let ?k = "k\<lparr>xNextTaskUnblockTime := a, xSchedulerRunning := b, xTickCount := c\<rparr>"
  have "struct_ok ?k E T L" using s by (simp add: struct_ok_def sched_ok_def sorted_ok_def)
  moreover have "time_ok ?k T"
    using assms(2) sched_okD(1,2,4)[OF struct_okD(3)[OF s]] by (fastforce simp: time_ok_def ready_def)
  ultimately show ?thesis by (auto simp: kernel_ok_def)
qed

lemma prio_mask: "set_prio num_prio_bits v = v AND 0xF0"
  by (simp add: set_prio_def num_prio_bits_def MAKE_64BIT_MASK_def mask_eq_exp_minus_1)

lemma prigroup_of_4_bits: "prigroup_loop 0xF0 7 = 3"
  by (simp add: prigroup_loop.simps portTOP_BIT_OF_BYTE_def)

lemmas port_consts = configMAX_SYSCALL_INTERRUPT_PRIORITY_def configKERNEL_INTERRUPT_PRIORITY_def configPRIO_BITS_def
  portNVIC_PENDSV_PRI_def portNVIC_SYSTICK_PRI_def portASPEN_AND_LSPEN_BITS_def portNVIC_SYSTICK_CLK_BIT_def
  portNVIC_SYSTICK_INT_BIT_def portNVIC_SYSTICK_ENABLE_BIT_def portPRIORITY_GROUP_MASK_def portPRIGROUP_SHIFT_def
  portMAX_8_BIT_VALUE_def configCPU_CLOCK_HZ_def configTICK_RATE_HZ_def

text \<open>The set-up of the core for the scheduler.\<close>

definition core_started :: "port \<Rightarrow> bool" where
  "core_started p \<longleftrightarrow>
     basepri p = 0 \<and> uxCriticalNesting p = 0 \<and> ucMaxSysCallPriority p = 0x10 \<and> ulMaxPRIGROUPValue p = 0x300 \<and>
     portNVIC_SHPR3_REG p AND 0xF0F00000 = 0xF0F00000 \<and> portNVIC_SYSTICK_LOAD_REG p = 159999 \<and> portNVIC_SYSTICK_CTRL_REG p = 7 \<and>
     CPACR p AND 0xF00000 = 0xF00000"

lemma count_bits:
  "count_priority_bits (set_prio num_prio_bits) p = Inr (p\<lparr>ucMaxSysCallPriority := 0x10, ulMaxPRIGROUPValue := 0x300,
     pucFirstUserPriorityRegister := pucFirstUserPriorityRegister p AND 0xF0\<rparr>)"
  by (simp add: count_priority_bits_def prio_mask prigroup_of_4_bits port_consts portMAX_PRIGROUP_BITS_def assert_that_def Let_def)

lemma or_and_mask: "((a OR m) AND m) = (m :: u32)"
  by (rule bit_word_eqI) (auto simp: bit_simps)

lemma port_start:
  obtains p' where "xPortStartScheduler (set_prio num_prio_bits) s p = prvPortStartFirstTask s p'" "core_started (p'\<lparr>basepri := 0\<rparr>)"
proof (rule that)
  let ?p = "p\<lparr>ucMaxSysCallPriority := 0x10, ulMaxPRIGROUPValue := 0x300,
    pucFirstUserPriorityRegister := pucFirstUserPriorityRegister p AND 0xF0, portNVIC_SHPR3_REG := portNVIC_SHPR3_REG p OR 0xF0F00000,
    portNVIC_SYSTICK_CURRENT_VALUE_REG := 0, portNVIC_SYSTICK_LOAD_REG := 159999, portNVIC_SYSTICK_CTRL_REG := 7, uxCriticalNesting := 0,
    CPACR := CPACR p OR 0xF00000, portFPCCR := portFPCCR p OR 0xC0000000\<rparr>"
  show "xPortStartScheduler (set_prio num_prio_bits) s p = prvPortStartFirstTask s ?p"
    unfolding xPortStartScheduler_def count_bits
    by (simp add: vPortSetupTimerInterrupt_def vPortEnableVFP_def port_consts assert_that_def or.assoc Let_def)
  show "core_started (?p\<lparr>basepri := 0\<rparr>)" by (simp add: core_started_def or_and_mask)
qed

text \<open>The first switch to a task with an entry frame calls its function.\<close>

definition enters :: "image \<Rightarrow> u32 \<Rightarrow> u32 \<Rightarrow> thread \<Rightarrow> bool" where
  "enters img code param r \<longleftrightarrow>
     R15 r = code AND portSTART_ADDRESS_MASK \<and> R0 r = param \<and> R14 r = prvTaskExitError img \<and> XPSR r = portINITIAL_XPSR"

lemma first_task_enters:
  assumes c: "pxCurrentTCB (kern s) = Some t" and f: "entry_frame img code param (pxTopOfStack (tcbs (kern s) t)) s"
  obtains r where "prvPortStartFirstTask s p = Inr (Some r, p\<lparr>basepri := 0\<rparr>)" "enters img code param r"
    "PSP r = pxTopOfStack (tcbs (kern s) t) + 68"
proof -
  let ?v = "pxTopOfStack (tcbs (kern s) t)"
  let ?r = "consume_frame (pop_registers (?v + 36) (map (\<lambda>i. load32 (?v + 4 * of_nat i) s) [0..<8]) s)"
  note e = f[unfolded entry_frame_def]
  have "(code AND portSTART_ADDRESS_MASK) AND 1 = 0" by (simp add: and.assoc portSTART_ADDRESS_MASK_def)
  then have "enters img code param ?r \<and> PSP ?r = ?v + 68"
    using e by (simp add: enters_def consume_frame_def pop_registers_def portINITIAL_XPSR_def XPSR_SPREALIGN_def XPSR_SFPA_def add_ac Let_def)
  moreover have "prvPortStartFirstTask s p = Inr (Some ?r, p\<lparr>basepri := 0\<rparr>)"
    using c e by (simp add: prvPortStartFirstTask_def vPortSVCHandler_def exception_return_def current_def vPortSetBASEPRI_def Let_def)
  ultimately show ?thesis using that by blast
qed

text \<open>The state of the start after \<open>n\<close> bytes of the heap are handed out.\<close>

definition stage :: "image \<Rightarrow> nat set \<Rightarrow> nat set \<Rightarrow> nat \<Rightarrow> sys \<Rightarrow> bool" where
  "stage img E T n s \<longleftrightarrow>
     creation_ok img E T s \<and> heap_end img s = unat (heap_base (ucHeap img)) + n \<and> \<not> xSchedulerRunning (kern s) \<and>
     (\<forall>t \<in> T. ready (kern s) t \<and> event_list (kern s) t = None)"

lemma stage_queue:
  assumes st: "stage img E T n s" and len: "len > 0" "(- 1) div len \<ge> isz" "(- 1) - sizeof_Queue \<ge> len * isz"
    and size: "unat (sizeof_Queue + len * isz) + 8 < 2 ^ 31" "sizeof_Queue + len * isz \<noteq> 0"
    and room: "n + rounded (sizeof_Queue + len * isz) < 8184"
  obtains q s' Q where "xQueueGenericCreate (ucHeap img) len isz ty s = Inr (q, s')" "q \<noteq> 0" "unat q = unat (heap_base (ucHeap img)) + n"
    "stage img (insert (xTasksWaitingToSend q) (insert (xTasksWaitingToReceive q) E)) T (n + rounded (sizeof_Queue + len * isz)) s'"
    "undisturbed_tasks T (kern s) (kern s')" "pxCurrentTCB (kern s') = pxCurrentTCB (kern s)" "queues s' = (queues s)(q := Q)"
    "uxMessagesWaiting Q = 0" "uxLength Q = len" "uxItemSize Q = isz" "pcHead Q = (if isz = 0 then q else q + sizeof_Queue)"
proof -
  have c: "creation_ok img E T s" "heap_end img s = unat (heap_base (ucHeap img)) + n" using st by (simp_all add: stage_def)
  have r: "unat (xNextFreeByte (heap s)) + rounded (sizeof_Queue + len * isz) < 8184" using c(2) room by (simp add: heap_end_def)
  obtain q s' Q where o: "xQueueGenericCreate (ucHeap img) len isz ty s = Inr (q, s')" "q \<noteq> 0" "unat q = heap_end img s"
    "heap_end img s' = heap_end img s + rounded (sizeof_Queue + len * isz)"
    "creation_ok img (insert (xTasksWaitingToSend q) (insert (xTasksWaitingToReceive q) E)) T s'"
    "kern s' = with_list (xTasksWaitingToReceive q) (with_list (xTasksWaitingToSend q) (kern s))"
    "queues s' = (queues s)(q := Q)" "uxMessagesWaiting Q = 0" "uxLength Q = len" "uxItemSize Q = isz" "pcHead Q = (if isz = 0 then q else q + sizeof_Queue)"
    using queue_create_ok[OF c(1) len size r, where ty = ty] by (elim exE conjE) (rule that)
  show ?thesis
    by (rule that[OF o(1,2) _ _ _ _ o(7-11)]) (use st o c(2) in \<open>simp_all add: stage_def undisturbed_tasks_def ready_def\<close>)
qed

lemma stage_task:
  fixes depth :: "16 word"
  assumes st: "stage img E T n s" and p: "p < configMAX_PRIORITIES" "depth \<noteq> 0" and room: "n + rounded (ucast depth * 4) + 88 < 8184"
  obtains t s' where "xTaskCreate img code name depth param p s = Inr ((pdPASS, t), s')"
    "unat t = unat (heap_base (ucHeap img)) + n + rounded (ucast depth * 4)"
    "stage img E (insert (unat t) T) (n + rounded (ucast depth * 4) + 88) s'" "undisturbed_tasks T (kern s) (kern s')"
    "prio (kern s') (unat t) = p" "entry_frame img code param (pxTopOfStack (tcbs (kern s') (unat t))) s'"
    "pxCurrentTCB (kern s') = (if takes_over (kern s) p then Some (unat t) else pxCurrentTCB (kern s))" "queues s' = queues s"
proof -
  have c: "creation_ok img E T s" "heap_end img s = unat (heap_base (ucHeap img)) + n" using st by (simp_all add: stage_def)
  have r: "unat (xNextFreeByte (heap s)) + rounded (ucast depth * 4) + 88 < 8184" using c(2) room by (simp add: heap_end_def)
  obtain t stack sp s' where o: "xTaskCreate img code name depth param p s = Inr ((pdPASS, t), s')"
    "unat stack = heap_end img s" "unat t = heap_end img s + rounded (ucast depth * 4)"
    "heap_end img s' = heap_end img s + rounded (ucast depth * 4) + 88"
    "creation_ok img E (insert (unat t) T) s'" "task_added E T (unat t) p stack sp (kern s) (kern s')" "entry_frame img code param sp s'" "queues s' = queues s"
    using create_ok[OF c(1) p r, where code = code and name = name and param = param] by (elim exE conjE) (rule that)
  note a = o(6)[unfolded task_added_def fresh_tcb_def]
  have n: "u \<in> T \<Longrightarrow> ready (kern s') u \<and> event_list (kern s') u = None" for u using a st by (simp add: stage_def ready_def)
  show ?thesis
    by (rule that[OF o(1)]) (use a n st o(2-) c(2) task_added_undisturbed[OF o(6)] in \<open>simp_all add: stage_def\<close>)
qed

lemma sizes:
  "rounded (sizeof_Queue + 1 * 0) = 80" "rounded (sizeof_Queue + configTIMER_QUEUE_LENGTH * sizeof_DaemonTaskMessage) = 240"
  "rounded (ucast configMINIMAL_STACK_SIZE * 4) = 1200" "rounded (ucast configTIMER_TASK_STACK_DEPTH * 4) = 720"
  by (simp_all add: rounded_def sizeof_Queue_def configTIMER_QUEUE_LENGTH_def sizeof_DaemonTaskMessage_def configMINIMAL_STACK_SIZE_def
      configTIMER_TASK_STACK_DEPTH_def)

abbreviation queue_lists :: "u32 \<Rightarrow> nat set" where
  "queue_lists q \<equiv> {xTasksWaitingToSend q, xTasksWaitingToReceive q}"

definition empty_semaphore :: "u32 \<Rightarrow> queue \<Rightarrow> bool" where
  "empty_semaphore q Q \<longleftrightarrow> uxMessagesWaiting Q = 0 \<and> uxLength Q = 1 \<and> uxItemSize Q = 0 \<and> pcHead Q = q"

lemma stage_semaphore:
  assumes st: "stage img E T n s" and room: "n + 80 < 8184"
  obtains q s' Q where "xSemaphoreCreateBinary (ucHeap img) s = Inr (q, s')" "q \<noteq> 0" "unat q = unat (heap_base (ucHeap img)) + n"
    "stage img (queue_lists q \<union> E) T (n + 80) s'" "undisturbed_tasks T (kern s) (kern s')" "pxCurrentTCB (kern s') = pxCurrentTCB (kern s)"
    "queues s' = (queues s)(q := Q)" "empty_semaphore q Q"
proof -
  have c: "(1::u32) > 0" "(- 1) div 1 \<ge> (0::u32)" "(- 1) - sizeof_Queue \<ge> 1 * 0" "unat (sizeof_Queue + 1 * 0) + 8 < 2 ^ 31" "sizeof_Queue + 1 * 0 \<noteq> 0"
    by (simp_all add: sizeof_Queue_def)
  obtain q s' Q where o: "xQueueGenericCreate (ucHeap img) 1 0 queueQUEUE_TYPE_BINARY_SEMAPHORE s = Inr (q, s')" "q \<noteq> 0"
    "unat q = unat (heap_base (ucHeap img)) + n"
    "stage img (insert (xTasksWaitingToSend q) (insert (xTasksWaitingToReceive q) E)) T (n + rounded (sizeof_Queue + 1 * 0)) s'"
    "undisturbed_tasks T (kern s) (kern s')" "pxCurrentTCB (kern s') = pxCurrentTCB (kern s)" "queues s' = (queues s)(q := Q)"
    "uxMessagesWaiting Q = 0" "uxLength Q = 1" "uxItemSize Q = 0" "pcHead Q = (if (0::u32) = 0 then q else q + sizeof_Queue)"
    by (rule stage_queue[OF st c, where ty = queueQUEUE_TYPE_BINARY_SEMAPHORE]) (use room sizes in simp_all)
  show ?thesis
    by (rule that[OF _ o(2,3) _ o(5-7)])
      (use o sizes in \<open>simp_all add: xSemaphoreCreateBinary_def queueSEMAPHORE_QUEUE_ITEM_LENGTH_def empty_semaphore_def\<close>)
qed

lemma demo_objects:
  assumes st: "stage img {} {} 0 s" and c: "pxCurrentTCB (kern s) = None"
  defines "b \<equiv> unat (heap_base (ucHeap img))"
  obtains consumer producer s' where
    "\<And>p m. start_demo img st sn rt rn keeps (p, m, s) =
      res_bind (vTaskStartScheduler img keeps (p, m, s')) (\<lambda>(r, p, m, s). Inr ((consumer, producer), r, p, m, s))"
    "unat consumer = b" "unat producer = b + 80" "stage img (queue_lists consumer \<union> queue_lists producer) {b + 1360, b + 2648} 2736 s'"
    "prio (kern s') (b + 1360) = 2" "prio (kern s') (b + 2648) = 2" "pxCurrentTCB (kern s') = Some (b + 2648)"
    "uxMessagesWaiting (queues s' consumer) = 0" "uxMessagesWaiting (queues s' producer) = 1"
proof -
  have p: "main_TASK_PRIORITY = 2" "(2::nat) < configMAX_PRIORITIES" "configMINIMAL_STACK_SIZE \<noteq> 0"
    by (simp_all add: main_TASK_PRIORITY_def tskIDLE_PRIORITY_def configMAX_PRIORITIES_def configMINIMAL_STACK_SIZE_def)
  obtain cq s1 Q1 where q1: "xSemaphoreCreateBinary (ucHeap img) s = Inr (cq, s1)" "cq \<noteq> 0" "unat cq = b"
    "stage img (queue_lists cq) {} 80 s1" "pxCurrentTCB (kern s1) = None" "queues s1 = (queues s)(cq := Q1)" "empty_semaphore cq Q1"
    by (rule stage_semaphore[OF st]) (use c in \<open>simp_all add: b_def\<close>)
  obtain pq s2 Q2 where q2: "xSemaphoreCreateBinary (ucHeap img) s1 = Inr (pq, s2)" "pq \<noteq> 0" "unat pq = b + 80"
    "stage img (queue_lists pq \<union> queue_lists cq) {} 160 s2" "pxCurrentTCB (kern s2) = None" "queues s2 = (queues s1)(pq := Q2)" "empty_semaphore pq Q2"
    by (rule stage_semaphore[OF q1(4)]) (use q1(5) in \<open>simp_all add: b_def\<close>)
  let ?E = "queue_lists pq \<union> queue_lists cq"
  obtain t3 s3 where t3: "xTaskCreate img st sn configMINIMAL_STACK_SIZE 0 2 s2 = Inr ((pdPASS, t3), s3)" "unat t3 = b + 1360"
    "stage img ?E {b + 1360} 1448 s3" "prio (kern s3) (b + 1360) = 2" "pxCurrentTCB (kern s3) = Some (b + 1360)" "queues s3 = queues s2"
    by (rule stage_task[OF q2(4) p(2,3), where code = st and name = sn and param = 0])
      (use q2(4,5) in \<open>simp_all add: sizes b_def takes_over_def stage_def add_ac\<close>)
  obtain t4 s4 where t4: "xTaskCreate img rt rn configMINIMAL_STACK_SIZE 0 2 s3 = Inr ((pdPASS, t4), s4)" "unat t4 = b + 2648"
    "stage img ?E {b + 2648, b + 1360} 2736 s4" "undisturbed_tasks {b + 1360} (kern s3) (kern s4)" "prio (kern s4) (b + 2648) = 2"
    "pxCurrentTCB (kern s4) = Some (b + 2648)" "queues s4 = queues s3"
    by (rule stage_task[OF t3(3) p(2,3), where code = rt and name = rn and param = 0])
      (use t3 in \<open>simp_all add: sizes b_def takes_over_def stage_def add_ac\<close>)
  have ne: "cq \<noteq> pq" using q1(3) q2(3) by auto
  have Q: "queues s4 pq = Q2" "queues s4 cq = Q1" using t4(7) t3(6) q2(6) q1(6) ne by simp_all
  have "listLIST_IS_EMPTY (xTasksWaitingToReceive pq) (lists (kern s4))"
    by (rule no_waiters[of _ ?E "{b + 2648, b + 1360}"]) (use t4(3) in \<open>auto simp: stage_def creation_ok_def creating_def\<close>)
  then have g: "xQueueGenericSend undisturbed pq 0 0 queueSEND_TO_BACK s4 = Inr (True, upd_queue pq (uxMessagesWaiting_update (\<lambda>_. 1)) s4)"
    using give_unwaited[OF q2(2), of s4 undisturbed] q2(2,7) Q by (simp add: empty_semaphore_def queueQUEUE_IS_MUTEX_def)
  show ?thesis
  proof (rule that)
    show "start_demo img st sn rt rn keeps (p, m, s) =
        res_bind (vTaskStartScheduler img keeps (p, m, upd_queue pq (uxMessagesWaiting_update (\<lambda>_. 1)) s4))
        (\<lambda>(r, p, m, s). Inr ((cq, pq), r, p, m, s))" for p m
      using q1(1) q2(1) t3(1) t4(1) g p(1) by (simp add: start_demo_def)
    have k: "kern (upd_queue pq f s4) = kern s4" for f by (simp add: upd_queue_def)
    show "stage img (queue_lists cq \<union> queue_lists pq) {b + 1360, b + 2648} 2736 (upd_queue pq (uxMessagesWaiting_update (\<lambda>_. 1)) s4)"
      using t4(3) unfolding stage_def creation_ok_other_fields k by (simp only: Un_commute insert_commute) simp
  qed (use q1(3,7) q2(3) t3(4) t4 Q ne in \<open>simp_all add: upd_queue_def undisturbed_tasks_def empty_semaphore_def\<close>)
qed

lemma stage_timer_queue:
  assumes st: "stage img E T n s" and room: "n + 240 < 8184" and m: "xTimerQueue m = 0"
  obtains q m' s' where "prvCheckForValidListAndQueue img (m, s) = Inr (m', s')" "q \<noteq> 0" "xTimerQueue m' = q"
    "unat q = unat (heap_base (ucHeap img)) + n" "stage img (queue_lists q \<union> E) T (n + 240) s'"
    "undisturbed_tasks T (kern s) (kern s')" "pxCurrentTCB (kern s') = pxCurrentTCB (kern s)" "\<And>q'. q' \<noteq> q \<Longrightarrow> queues s' q' = queues s q'"
proof -
  let ?l = configTIMER_QUEUE_LENGTH and ?i = sizeof_DaemonTaskMessage
  have c: "?l > 0" "(- 1) div ?l \<ge> ?i" "(- 1) - sizeof_Queue \<ge> ?l * ?i" "unat (sizeof_Queue + ?l * ?i) + 8 < 2 ^ 31" "sizeof_Queue + ?l * ?i \<noteq> 0"
    by (simp_all add: sizeof_Queue_def configTIMER_QUEUE_LENGTH_def sizeof_DaemonTaskMessage_def)
  obtain q s1 Q where o: "xQueueGenericCreate (ucHeap img) ?l ?i queueQUEUE_TYPE_BASE s = Inr (q, s1)" "q \<noteq> 0"
    "unat q = unat (heap_base (ucHeap img)) + n" "stage img (queue_lists q \<union> E) T (n + 240) s1"
    "undisturbed_tasks T (kern s) (kern s1)" "pxCurrentTCB (kern s1) = pxCurrentTCB (kern s)" "queues s1 = (queues s)(q := Q)"
    by (rule stage_queue[OF st c, where ty = queueQUEUE_TYPE_BASE]) (use room sizes(2) in simp_all)
  obtain r where r: "vQueueAddToRegistry q (timer_queue_name img) s1 = Inr (s1\<lparr>xQueueRegistry := r\<rparr>)" using registry_only[OF o(2)] by blast
  let ?m = "m\<lparr>timer_lists := vListInitialise xActiveTimerList2 (vListInitialise xActiveTimerList1 (timer_lists m)),
    pxCurrentTimerList := xActiveTimerList1, pxOverflowTimerList := xActiveTimerList2, xTimerQueue := q\<rparr>"
  show ?thesis
  proof (rule that)
    show "prvCheckForValidListAndQueue img (m, s) = Inr (?m, s1\<lparr>xQueueRegistry := r\<rparr>)"
      using o(1,2) r m by (simp add: prvCheckForValidListAndQueue_def Let_def)
    show "stage img (queue_lists q \<union> E) T (n + 240) (s1\<lparr>xQueueRegistry := r\<rparr>)"
      using o(4) unfolding stage_def creation_ok_other_fields by simp
  qed (use o in simp_all)
qed

lemma undisturbed_trans: "undisturbed_tasks T k k' \<Longrightarrow> undisturbed_tasks T k' k'' \<Longrightarrow> undisturbed_tasks T k k''"
  by (simp add: undisturbed_tasks_def)

lemma undisturbed_mono: "undisturbed_tasks T k k' \<Longrightarrow> S \<subseteq> T \<Longrightarrow> undisturbed_tasks S k k'"
  by (auto simp: undisturbed_tasks_def)

lemma scheduler_start:
  assumes st: "stage img E T 2736 s" and c: "pxCurrentTCB (kern s) = Some c" "c \<in> T" "prio (kern s) c = 2" and m: "xTimerQueue m = 0"
  defines "b \<equiv> unat (heap_base (ucHeap img))"
  obtains r p' m' s' where "vTaskStartScheduler img (set_prio num_prio_bits) (p, m, s) = Inr (Some r, p', m', s')"
    "core_started p'" "enters img (prvTimerTask img) 0 r" "unat (xTimerQueue m') = b + 4024" "unat (xTimerTaskHandle m') = b + 4984"
    "kernel_ok (kern s') (queue_lists (xTimerQueue m') \<union> E) (T \<union> {b + 3936, b + 4984})"
    "\<forall>t \<in> T \<union> {b + 3936, b + 4984}. ready (kern s') t" "\<forall>t \<in> T. prio (kern s') t = prio (kern s) t"
    "prio (kern s') (b + 3936) = 0" "prio (kern s') (b + 4984) = 2" "pxCurrentTCB (kern s') = Some (b + 4984)"
    "xSchedulerRunning (kern s')" "heap_end img s' = b + 5072" "\<And>q. q \<noteq> xTimerQueue m' \<Longrightarrow> queues s' q = queues s q"
proof -
  have pr: "(0::nat) < configMAX_PRIORITIES" "(2::nat) < configMAX_PRIORITIES" "configMINIMAL_STACK_SIZE \<noteq> 0" "configTIMER_TASK_STACK_DEPTH \<noteq> 0"
    by (simp_all add: configMAX_PRIORITIES_def configMINIMAL_STACK_SIZE_def configTIMER_TASK_STACK_DEPTH_def)
  obtain t1 s1 where t1: "xTaskCreate img (prvIdleTask img) (configIDLE_TASK_NAME img) configMINIMAL_STACK_SIZE 0 0 s = Inr ((pdPASS, t1), s1)"
    "stage img E (insert (b + 3936) T) 4024 s1" "undisturbed_tasks T (kern s) (kern s1)" "prio (kern s1) (b + 3936) = 0"
    "pxCurrentTCB (kern s1) = Some c" "queues s1 = queues s"
    by (rule stage_task[OF st pr(1,3), where code = "prvIdleTask img" and name = "configIDLE_TASK_NAME img" and param = 0])
      (use c in \<open>simp_all add: sizes b_def takes_over_def add_ac\<close>)
  obtain q m2 s2 where t2: "prvCheckForValidListAndQueue img (m, s1) = Inr (m2, s2)" "q \<noteq> 0" "xTimerQueue m2 = q" "unat q = b + 4024"
    "stage img (queue_lists q \<union> E) (insert (b + 3936) T) 4264 s2" "undisturbed_tasks (insert (b + 3936) T) (kern s1) (kern s2)"
    "pxCurrentTCB (kern s2) = Some c" "\<And>q'. q' \<noteq> q \<Longrightarrow> queues s2 q' = queues s q'"
    by (rule stage_timer_queue[OF t1(2) _ m]) (use t1(5,6) in \<open>simp_all add: b_def\<close>)
  have p2: "prio (kern s2) c = 2" using t1(3) t2(6) c(2,3) by (simp add: undisturbed_tasks_def)
  obtain t3 s3 where t3: "xTaskCreate img (prvTimerTask img) (configTIMER_SERVICE_TASK_NAME img) configTIMER_TASK_STACK_DEPTH 0 2 s2 = Inr ((pdPASS, t3), s3)"
    "unat t3 = b + 4984" "stage img (queue_lists q \<union> E) (insert (b + 4984) (insert (b + 3936) T)) 5072 s3"
    "undisturbed_tasks (insert (b + 3936) T) (kern s2) (kern s3)" "prio (kern s3) (b + 4984) = 2"
    "pxCurrentTCB (kern s3) = Some (b + 4984)" "queues s3 = queues s2" "entry_frame img (prvTimerTask img) 0 (pxTopOfStack (tcbs (kern s3) (b + 4984))) s3"
    by (rule stage_task[OF t2(5) pr(2,4), where code = "prvTimerTask img" and name = "configTIMER_SERVICE_TASK_NAME img" and param = 0])
      (use t2(5,7) p2 in \<open>simp_all add: sizes b_def takes_over_def stage_def add_ac\<close>)
  let ?s = "on_kern (\<lambda>k. k\<lparr>xNextTaskUnblockTime := portMAX_DELAY, xSchedulerRunning := True, xTickCount := 0\<rparr>) s3"
  let ?m = "m2\<lparr>xTimerTaskHandle := t3\<rparr>" and ?T = "T \<union> {b + 3936, b + 4984}"
  have T: "insert (b + 4984) (insert (b + 3936) T) = ?T" by auto
  have u: "undisturbed_tasks (insert (b + 3936) T) (kern s1) (kern s3)" by (rule undisturbed_trans[OF t2(6) t3(4)])
  have u': "undisturbed_tasks T (kern s) (kern s3)" using undisturbed_trans[OF t1(3) undisturbed_mono[OF u]] by blast
  have k3: "kernel_ok (kern s3) (queue_lists q \<union> E) ?T" "\<forall>t \<in> ?T. ready (kern s3) t"
    using t3(3) unfolding T by (simp_all add: stage_def creation_ok_def creating_def)
  have fr: "pxCurrentTCB (kern ?s) = Some (b + 4984)" "entry_frame img (prvTimerTask img) 0 (pxTopOfStack (tcbs (kern ?s) (b + 4984))) ?s"
    using t3(6,8) entry_frame_ram[where s = ?s and s' = s3] by (simp_all add: on_kern_def)
  obtain p' where p': "xPortStartScheduler (set_prio num_prio_bits) ?s (vPortRaiseBASEPRI p) = prvPortStartFirstTask ?s p'"
    "core_started (p'\<lparr>basepri := 0\<rparr>)" by (rule port_start)
  obtain r where r: "prvPortStartFirstTask ?s p' = Inr (Some r, p'\<lparr>basepri := 0\<rparr>)" "enters img (prvTimerTask img) 0 r"
    by (rule first_task_enters[OF fr])
  show ?thesis
  proof (rule that[OF _ p'(2) r(2)])
    show "vTaskStartScheduler img (set_prio num_prio_bits) (p, m, s) = Inr (Some r, p'\<lparr>basepri := 0\<rparr>, ?m, ?s)"
      using t1(1) t2(1-3) t3(1) p'(1) r(1)
      by (simp add: vTaskStartScheduler_def xTimerCreateTimerTask_def tskIDLE_PRIORITY_def configTIMER_TASK_PRIORITY_def
          pdPASS_def assert_that_def Let_def)
    show "kernel_ok (kern ?s) (queue_lists (xTimerQueue ?m) \<union> E) ?T"
      using scheduler_fields_ok[OF k3] t2(3) by (simp add: on_kern_def)
  qed (use k3(2) t1(4) t2 t3 u u' in \<open>auto simp: on_kern_def ready_def undisturbed_tasks_def stage_def heap_end_def b_def\<close>)
qed

text \<open>
  C39: the start of the demo. From cleared memory, with a heap array anywhere in memory and the priority bits
  that the emulated interrupt controller keeps, the kernel calls of \<open>main\<close> up to the first task never
  fail an assertion and all allocations succeed, using 5072 of the 8184 bytes. They leave the scheduler running
  with its invariant for exactly the four tasks created, all of them ready: the two tasks of the demo and the
  timer task with priority 2, the idle task with priority 0. Of the two semaphores only the producer's holds a
  token. The core has interrupts enabled and the system timer running, and the first task, the timer task,
  starts at its function with the argument 0.
\<close>
theorem demo_starts_scheduler:
  assumes "heap_placed (ucHeap img)" and "pxContainer h = (\<lambda>_. None)" and "xTimerQueue m = 0"
  shows "let b = unat (heap_base (ucHeap img)); T = {b + 1360, b + 2648, b + 3936, b + 4984} in
    \<exists>consumer producer r p' m' s'.
      start_demo img send sn receive rn (set_prio num_prio_bits) (p, m, sys_reset h tb qs ra) = Inr ((consumer, producer), Some r, p', m', s') \<and>
      unat consumer = b \<and> unat producer = b + 80 \<and> unat (xTimerQueue m') = b + 4024 \<and> unat (xTimerTaskHandle m') = b + 4984 \<and>
      kernel_ok (kern s') (queue_lists consumer \<union> queue_lists producer \<union> queue_lists (xTimerQueue m')) T \<and>
      (\<forall>t \<in> T. ready (kern s') t \<and> prio (kern s') t = (if t = b + 3936 then 0 else 2)) \<and>
      xSchedulerRunning (kern s') \<and> pxCurrentTCB (kern s') = Some (b + 4984) \<and>
      uxMessagesWaiting (queues s' consumer) = 0 \<and> uxMessagesWaiting (queues s' producer) = 1 \<and> heap_end img s' = b + 5072 \<and>
      core_started p' \<and> enters img (prvTimerTask img) 0 r"
proof -
  let ?b = "unat (heap_base (ucHeap img))" and ?s = "sys_reset h tb qs ra" and ?k = "set_prio num_prio_bits"
  have st: "stage img {} {} 0 ?s" "pxCurrentTCB (kern ?s) = None"
    using reset_creation_ok[OF assms(1,2)] by (simp_all add: stage_def heap_end_def sys_reset_def kernel_reset_def heap_cleared_def)
  obtain cq pq s1 where d: "\<And>p m. start_demo img send sn receive rn ?k (p, m, ?s) =
      res_bind (vTaskStartScheduler img ?k (p, m, s1)) (\<lambda>(r, p, m, s). Inr ((cq, pq), r, p, m, s))"
    "unat cq = ?b" "unat pq = ?b + 80" "stage img (queue_lists cq \<union> queue_lists pq) {?b + 1360, ?b + 2648} 2736 s1"
    "prio (kern s1) (?b + 1360) = 2" "prio (kern s1) (?b + 2648) = 2" "pxCurrentTCB (kern s1) = Some (?b + 2648)"
    "uxMessagesWaiting (queues s1 cq) = 0" "uxMessagesWaiting (queues s1 pq) = 1"
    by (rule demo_objects[OF st, where st = send and sn = sn and rt = receive and rn = rn and keeps = ?k]) (rule that)
  obtain r p' m' s' where g: "vTaskStartScheduler img ?k (p, m, s1) = Inr (Some r, p', m', s')" "core_started p'" "enters img (prvTimerTask img) 0 r"
    and f: "unat (xTimerQueue m') = ?b + 4024" "unat (xTimerTaskHandle m') = ?b + 4984"
    "kernel_ok (kern s') (queue_lists (xTimerQueue m') \<union> (queue_lists cq \<union> queue_lists pq)) ({?b + 1360, ?b + 2648} \<union> {?b + 3936, ?b + 4984})"
    "\<forall>t \<in> {?b + 1360, ?b + 2648} \<union> {?b + 3936, ?b + 4984}. ready (kern s') t" "\<forall>t \<in> {?b + 1360, ?b + 2648}. prio (kern s') t = prio (kern s1) t"
    "prio (kern s') (?b + 3936) = 0" "prio (kern s') (?b + 4984) = 2" "pxCurrentTCB (kern s') = Some (?b + 4984)"
    "xSchedulerRunning (kern s')" "heap_end img s' = ?b + 5072" "\<And>q. q \<noteq> xTimerQueue m' \<Longrightarrow> queues s' q = queues s1 q"
    by (rule scheduler_start[OF d(4,7) _ d(6) assms(3), of p]) auto
  have E: "queue_lists (xTimerQueue m') \<union> (queue_lists cq \<union> queue_lists pq) = queue_lists cq \<union> queue_lists pq \<union> queue_lists (xTimerQueue m')"
    "{?b + 1360, ?b + 2648} \<union> {?b + 3936, ?b + 4984} = {?b + 1360, ?b + 2648, ?b + 3936, ?b + 4984}" by auto
  have q: "cq \<noteq> xTimerQueue m'" "pq \<noteq> xTimerQueue m'" using d(2,3) f(1) by auto
  have "start_demo img send sn receive rn ?k (p, m, ?s) = Inr ((cq, pq), Some r, p', m', s')" unfolding d(1) using g(1) by simp
  moreover have "\<forall>t \<in> {?b + 1360, ?b + 2648, ?b + 3936, ?b + 4984}. ready (kern s') t \<and> prio (kern s') t = (if t = ?b + 3936 then 0 else 2)"
    using f(4-7) d(5,6) by simp
  ultimately show ?thesis
    unfolding Let_def using g(2,3) d(2,3,8,9) f(1-3,8-10) f(11)[OF q(1)] f(11)[OF q(2)] unfolding E
    by (intro exI conjI) (assumption | simp)+
qed

definition sample_timers :: timers where
  "sample_timers = \<lparr>timer_lists = sample_lists, timer_at = \<lambda>_. \<lparr>pcTimerName = 0, xTimerPeriodInTicks = 0, pvTimerID = 0,
     pxCallbackFunction = 0, uxTimerNumber = 0, ucStatus = 0\<rparr>, pxCurrentTimerList = 0, pxOverflowTimerList = 0, xTimerQueue = 0, xTimerTaskHandle = 0,
     xLastTime = 0, expired = []\<rparr>"

definition sample_port :: port where
  "sample_port = \<lparr>basepri = 0, uxCriticalNesting = 0xAAAAAAAA, ucMaxSysCallPriority = 0, ulMaxPRIGROUPValue = 0,
     pucFirstUserPriorityRegister = 0, portNVIC_SHPR3_REG = 0, portNVIC_SYSTICK_CTRL_REG = 0, portNVIC_SYSTICK_LOAD_REG = 0,
     portNVIC_SYSTICK_CURRENT_VALUE_REG = 0, CPACR = 0, portFPCCR = 0\<rparr>"

theorem demo_starts_scheduler_witness:
  "\<exists>consumer producer r p' m' s'. start_demo sample_image 0x401301 0x402030 0x401401 0x402040 (set_prio num_prio_bits)
        (sample_port, sample_timers, sample_reset) = Inr ((consumer, producer), Some r, p', m', s') \<and>
      xSchedulerRunning (kern s') \<and> pxCurrentTCB (kern s') = Some 0x20401380 \<and>
      ready (kern s') 0x20400558 \<and> uxMessagesWaiting (queues s' producer) = 1 \<and> enters sample_image (prvTimerTask sample_image) 0 r"
proof -
  have b: "unat (heap_base (ucHeap sample_image)) = 0x20400008" by (simp add: sample_image_def heap_base_def)
  have h: "heap_placed (ucHeap sample_image)" "pxContainer sample_lists = (\<lambda>_. None)" "xTimerQueue sample_timers = 0"
    by (simp_all add: sample_image_def heap_placed_def sample_lists_def sample_timers_def)
  show ?thesis
    using demo_starts_scheduler[OF h, of "0x401301" "0x402030" "0x401401" "0x402040" sample_port, unfolded Let_def b]
    unfolding sample_reset_def by (simp only: numeral_plus_numeral add_num_simps) blast
qed

end
