(* ===== verification/Spec2Isabelle.thy ===== *)
theory Spec2Isabelle
  imports Soc Soc_Clocks Dma_Demo Rtos_Timer_Props Rtos_Start
begin

text \<open>
  A verification development of the emulated NXP S32K3X8EVB board (a machine model added to QEMU)
  and of the FreeRTOS demo firmware that runs on it.
\<close>

section \<open>The demo on the SoC\<close>

lemma sram_buffers:
  assumes "0x20400000 \<le> unat src" and "unat src + 128 \<le> 0x204C0000"
    and "0x20400000 \<le> unat dst" and "unat dst + 128 \<le> 0x204C0000"
    and "unat dst + 128 \<le> unat src \<or> unat src + 128 \<le> unat dst"
  shows "buffers_ok (soc_flatview C hz) src dst"
  using assms by (auto simp: buffers_ok_def soc_writable)

text \<open>
  C26: the demo works on the emulated board. Wherever in the SRAM the linker places the two buffers
  without overlap, and whatever the random numbers are, the initialisation of the DMA driver and
  every round of the two tasks succeed on the emulated controller: every comparison returns
  \<open>E_OK\<close>, the callback has run once per round, both buffers hold the numbers of the last round, no
  interrupt is left pending, no device and no byte of memory outside the buffers has changed.
\<close>

theorem demo_transfers_on_soc:
  assumes "0x20400000 \<le> unat src" and "unat src + 128 \<le> 0x204C0000"
    and "0x20400000 \<le> unat dst" and "unat dst + 128 \<le> 0x204C0000"
    and "unat dst + 128 \<le> unat src \<or> unat src + 128 \<le> unat dst"
  shows "\<exists>d s m'. demo_run (phys_bus (soc_flatview C hz), buf) src dst (rands @ [rand]) m =
      Inr (replicate (Suc (length rands)) E_OK, of_nat (Suc (length rands)), d, s, m') \<and>
    \<not> irq (tcd s ! 0) \<and> dev m' = dev m \<and>
    (\<forall>i < 128. mem m' (unat src + i) = of_nat (rand i mod 10 + 1) \<and>
      mem m' (unat dst + i) = of_nat (rand i mod 10 + 1)) \<and>
    (\<forall>a. a \<notin> {unat src..<unat src + 128} \<union> {unat dst..<unat dst + 128} \<longrightarrow> mem m' a = mem m a)"
proof -
  have ok: "buffers_ok (soc_flatview C hz) src dst" using assms by (rule sram_buffers)
  from demo_run_ok[OF ok, of buf "rands @ [rand]" m] obtain d s m' where
    r: "demo_run (phys_bus (soc_flatview C hz), buf) src dst (rands @ [rand]) m =
      Inr (replicate (Suc (length rands)) E_OK, of_nat (Suc (length rands)), d, s, m')" "\<not> irq (tcd s ! 0)"
      "dev m' = dev m" "mem m' = fold (round_memory src dst) (rands @ [rand]) (mem m)"
    by (auto simp del: fold_append replicate_Suc)
  moreover have "mem m' (unat src + i) = of_nat (rand i mod 10 + 1)" "mem m' (unat dst + i) = of_nat (rand i mod 10 + 1)"
    if "i < 128" for i
    unfolding r(4) using round_memory_last[OF ok that] by simp_all
  moreover have "mem m' a = mem m a" if "a \<notin> {unat src..<unat src + 128} \<union> {unat dst..<unat dst + 128}" for a
    unfolding r(4) using that by (intro round_memory_frame[OF ok]) auto
  ultimately show ?thesis by blast
qed

theorem demo_transfers_on_soc_witness:
  "\<exists>d s m'. demo_run (phys_bus (soc_flatview (\<lambda>_. null_ops) (\<lambda>_. 0)), []) 0x20400000 0x20400080 [id, Suc] blank_machine =
      Inr ([E_OK, E_OK], 2, d, s, m') \<and> mem m' 0x20400081 = 3 \<and> mem m' 0x20400100 = 0xFF"
proof -
  from demo_transfers_on_soc[of "0x20400000" "0x20400080" "\<lambda>_. null_ops" "\<lambda>_. 0" "[]" "[id]" Suc blank_machine]
  obtain d s m' where
    "demo_run (phys_bus (soc_flatview (\<lambda>_. null_ops) (\<lambda>_. 0)), []) 0x20400000 0x20400080 [id, Suc] blank_machine =
      Inr ([E_OK, E_OK], 2, d, s, m')"
    and i: "\<forall>i < 128. mem m' (0x20400080 + i) = of_nat (Suc i mod 10 + 1)"
    and a: "\<forall>a. a \<notin> {0x20400000..<0x20400080} \<union> {0x20400080..<0x20400100} \<longrightarrow> mem m' a = mem blank_machine a"
    by auto
  moreover have "mem m' 0x20400081 = 3" using i[rule_format, of 1] by simp
  moreover have "mem m' 0x20400100 = 0xFF" using a[rule_format, of "0x20400100"] by (simp add: blank_machine_def)
  ultimately show ?thesis by blast
qed

end
